(* ===== verification/Prelude.thy ===== *)
theory Prelude
  imports Main "HOL-Library.Word" "HOL-Library.AList" "HOL-Library.List_Lexorder"
    "HOL-Library.Multiset"
begin

text \<open>
  Vocabulary shared by every theory of the development: Python's byte strings, exceptions as
  values, the dictionaries of the state classes as association lists in insertion order, and
  the constants of \<open>raiden/constants.py\<close> and \<open>raiden/settings.py\<close>.  Code that is not part
  of the repository (keccak, the ABI encoder of web3, ECDSA recovery, the generator of message
  identifiers, the clock) is a field of the record \<open>libs\<close>, an argument of the definitions that
  use it.
\<close>

section \<open>Byte strings and exceptions\<close>

text \<open>
  A Python \<open>bytes\<close> value is a list of 8-bit words.  The lexicographic order of
  \<open>List_Lexorder\<close> is Python's order on \<open>bytes\<close> (a proper prefix is smaller).
\<close>

type_synonym bytes = "8 word list"

datatype py_error =
    AssertionError string
  | ValueError string
  | HashLengthNot32
  | IndexError
  | KeyError
  | AttributeError
  | TypeError
  | OverflowError
  | InvalidSignature
  | InvalidProtocolMessage
  | NotImplementedError
  | NameError
  | UnboundLocalError
  | RuntimeError
  | NetworkXError

type_synonym 'a result = "py_error + 'a"

named_theorems res_simps \<open>rewriting of computations that may raise\<close>
named_theorems dict_simps \<open>rewriting of dictionary operations\<close>

text \<open>Sequencing: the first exception ends the computation.\<close>

definition res_bind :: "'a result \<Rightarrow> ('a \<Rightarrow> 'b result) \<Rightarrow> 'b result" where
  "res_bind m k = (case m of Inl e \<Rightarrow> Inl e | Inr x \<Rightarrow> k x)"

text \<open>\<open>assert c, msg\<close> followed by the rest of the function.\<close>

definition py_assert :: "bool \<Rightarrow> string \<Rightarrow> 'a result \<Rightarrow> 'a result" where
  "py_assert c msg k = (if c then k else Inl (AssertionError msg))"

lemma res_bind_simps [simp]:
  "res_bind (Inl e) k = Inl e"
  "res_bind (Inr x) k = k x"
  by (simp_all add: res_bind_def)

lemma res_bind_Inr [res_simps]:
  "res_bind m k = Inr y \<longleftrightarrow> (\<exists>x. m = Inr x \<and> k x = Inr y)"
  by (cases m) simp_all

lemma res_bind_Inl [res_simps]:
  "res_bind m k = Inl e \<longleftrightarrow> m = Inl e \<or> (\<exists>x. m = Inr x \<and> k x = Inl e)"
  by (cases m) auto

lemma py_assert_simps [simp]:
  "py_assert True msg k = k"
  "py_assert False msg k = Inl (AssertionError msg)"
  by (simp_all add: py_assert_def)

lemma py_assert_Inr [res_simps]:
  "py_assert c msg k = Inr y \<longleftrightarrow> c \<and> k = Inr y"
  by (simp add: py_assert_def)

text \<open>\<open>xs[0]\<close> and \<open>xs[-1]\<close> of a list, which raise on an empty one.\<close>

definition py_first :: "'a list \<Rightarrow> 'a result" where
  "py_first xs = (case xs of [] \<Rightarrow> Inl IndexError | x # _ \<Rightarrow> Inr x)"

definition py_last :: "'a list \<Rightarrow> 'a result" where
  "py_last xs = (if xs = [] then Inl IndexError else Inr (last xs))"

lemma py_first_Inr [res_simps]: "py_first xs = Inr x \<longleftrightarrow> (\<exists>ys. xs = x # ys)"
  by (cases xs) (auto simp: py_first_def)

lemma py_last_Inr [res_simps]: "py_last xs = Inr x \<longleftrightarrow> xs \<noteq> [] \<and> last xs = x"
  by (simp add: py_last_def)

lemma py_index_simps [simp]:
  "py_first (x # xs) = Inr x" "py_last (xs @ [y]) = Inr y" "py_last [x] = Inr x"
  by (simp_all add: py_first_def py_last_def)

section \<open>Third-party code\<close>

text \<open>The ABI types and values that the repository hands to web3, and the message types of
  raiden\_contracts.\<close>

datatype abi_type = AbiAddress | AbiUint256 | AbiBytes32

datatype abi_value = VBytes bytes | VInt int

datatype MessageTypeId = BALANCE_PROOF | BALANCE_PROOF_UPDATE

text \<open>
  \<open>keccak\<close> is eth\_utils' hash; \<open>hex_encode_abi\<close> the bytes web3 produces for one ABI value
  (\<open>hex_encode_abi_type\<close> of the normalized value, decoded from hex); \<open>soliditySha3\<close> is
  web3's hash of a typed tuple; \<open>ecdsa_recover\<close> is eth\_keys' recovery of the canonical address
  from a message hash and a 65-byte signature (None for its BadSignature and ValidationError);
  \<open>message_type_id\<close> the numbers that raiden\_contracts gives to its message types;
  \<open>randint64 n\<close> is the n-th value that the node's generator draws between 0 and UINT64\_MAX.
\<close>

record libs =
  keccak :: "bytes \<Rightarrow> bytes"
  hex_encode_abi :: "abi_type \<Rightarrow> abi_value \<Rightarrow> bytes"
  soliditySha3 :: "abi_type list \<Rightarrow> abi_value list \<Rightarrow> bytes"
  ecdsa_recover :: "bytes \<Rightarrow> bytes \<Rightarrow> bytes option"
  message_type_id :: "MessageTypeId \<Rightarrow> int"
  randint64 :: "nat \<Rightarrow> int"

text \<open>Documented behaviour of keccak-256: 32 bytes of output.\<close>

definition keccak_ok :: "libs \<Rightarrow> bool" where
  "keccak_ok L \<longleftrightarrow> (\<forall>x. length (keccak L x) = 32)"

lemma keccak_okD [simp, dest]: "keccak_ok L \<Longrightarrow> length (keccak L x) = 32"
  by (simp add: keccak_ok_def)

text \<open>
  The generator is a sequence of draws and the number of draws made so far:
  \<open>message_identifier_from_prng\<close> returns the next draw and advances the generator.
\<close>

type_synonym prng = nat

definition message_identifier_from_prng :: "libs \<Rightarrow> prng \<Rightarrow> int \<times> prng" where
  "message_identifier_from_prng L g = (randint64 L g, Suc g)"

section \<open>Constants\<close>

definition UINT64_MAX :: int where "UINT64_MAX = 2 ^ 64 - 1"

definition UINT256_MAX :: int where "UINT256_MAX = 2 ^ 256 - 1"

definition EMPTY_HASH :: bytes where "EMPTY_HASH = replicate 32 0"

definition EMPTY_MERKLE_ROOT :: bytes where "EMPTY_MERKLE_ROOT = replicate 32 0"

definition EMPTY_HASH_KECCAK :: "libs \<Rightarrow> bytes" where
  "EMPTY_HASH_KECCAK L = keccak L EMPTY_HASH"

definition EMPTY_PAYMENT_HASH_INVOICE :: bytes where "EMPTY_PAYMENT_HASH_INVOICE = []"

definition MAXIMUM_PENDING_TRANSFERS :: nat where "MAXIMUM_PENDING_TRANSFERS = 160"

definition DEFAULT_NUMBER_OF_BLOCK_CONFIRMATIONS :: int where
  "DEFAULT_NUMBER_OF_BLOCK_CONFIRMATIONS = 5"

definition CHANNEL_IDENTIFIER_GLOBAL_QUEUE :: int where "CHANNEL_IDENTIFIER_GLOBAL_QUEUE = 0"

lemma empty_hash_length [simp]: "length EMPTY_HASH = 32" "length EMPTY_MERKLE_ROOT = 32"
  by (simp_all add: EMPTY_HASH_def EMPTY_MERKLE_ROOT_def)

lemma UINT_bounds: "0 \<le> UINT64_MAX" "0 \<le> UINT256_MAX" "0 < UINT64_MAX" "0 < UINT256_MAX"
  by (simp_all add: UINT64_MAX_def UINT256_MAX_def)

section \<open>Dictionaries\<close>

text \<open>
  A Python dict keeps its keys in insertion order: assigning an existing key keeps its place,
  a new key goes to the end.  \<open>AList.update\<close> and \<open>AList.delete\<close> do exactly that.
\<close>

type_synonym ('k, 'v) dict = "('k \<times> 'v) list"

abbreviation dict_get :: "('k, 'v) dict \<Rightarrow> 'k \<Rightarrow> 'v option" where
  "dict_get d k \<equiv> map_of d k"

abbreviation dict_set :: "'k \<Rightarrow> 'v \<Rightarrow> ('k, 'v) dict \<Rightarrow> ('k, 'v) dict" where
  "dict_set \<equiv> AList.update"

abbreviation dict_del :: "'k \<Rightarrow> ('k, 'v) dict \<Rightarrow> ('k, 'v) dict" where
  "dict_del \<equiv> AList.delete"

abbreviation dict_keys :: "('k, 'v) dict \<Rightarrow> 'k set" where
  "dict_keys d \<equiv> fst ` set d"

abbreviation dict_values :: "('k, 'v) dict \<Rightarrow> 'v list" where
  "dict_values d \<equiv> map snd d"

definition dict_has :: "('k, 'v) dict \<Rightarrow> 'k \<Rightarrow> bool" where
  "dict_has d k \<longleftrightarrow> dict_get d k \<noteq> None"

definition dict_ok :: "('k, 'v) dict \<Rightarrow> bool" where
  "dict_ok d \<longleftrightarrow> distinct (map fst d)"

lemma dict_has_keys [dict_simps]: "dict_has d k \<longleftrightarrow> k \<in> dict_keys d"
  by (simp add: dict_has_def map_of_eq_None_iff)

lemma dict_ok_Nil [simp]: "dict_ok []"
  by (simp add: dict_ok_def)

lemma dict_ok_set [simp, intro]: "dict_ok d \<Longrightarrow> dict_ok (dict_set k v d)"
  by (simp add: dict_ok_def distinct_update)

lemma dict_ok_del [simp, intro]: "dict_ok d \<Longrightarrow> dict_ok (dict_del k d)"
  by (simp add: dict_ok_def distinct_delete)

lemma dict_keys_set [dict_simps]: "dict_keys (dict_set k v d) = insert k (dict_keys d)"
  using dom_update [of k v d] by (simp add: dom_map_of_conv_image_fst)

lemma dict_keys_del [dict_simps]: "dict_keys (dict_del k d) = dict_keys d - {k}"
  by (induction d) auto

lemma dict_set_fresh [dict_simps]: "k \<notin> dict_keys d \<Longrightarrow> dict_set k v d = d @ [(k, v)]"
  by (induction d) auto

lemma dict_ok_snoc [dict_simps]: "dict_ok (d @ [(k, v)]) \<longleftrightarrow> dict_ok d \<and> k \<notin> dict_keys d"
  by (auto simp: dict_ok_def)

lemma dict_del_subset: "set (dict_del k d) \<subseteq> set d"
  by (induction d) auto

lemma dict_del_absent [dict_simps]: "k \<notin> dict_keys d \<Longrightarrow> dict_del k d = d"
  by (simp add: delete_id)

text \<open>The values of a dict as a multiset: how assignment and deletion change it.\<close>

lemma mset_values_set:
  assumes "k \<notin> dict_keys d"
  shows "mset (dict_values (dict_set k v d)) = add_mset v (mset (dict_values d))"
  using assms by (simp add: dict_set_fresh)

lemma mset_values_del:
  assumes "dict_ok d" and "dict_get d k = Some v"
  shows "mset (dict_values d) = add_mset v (mset (dict_values (dict_del k d)))"
  using assms
proof (induction d)
  case Nil
  then show ?case by simp
next
  case (Cons p d)
  then show ?case
    by (cases p) (auto simp: dict_ok_def dict_del_absent split: if_splits)
qed

lemma mset_values_replace:
  assumes "dict_ok d" and "dict_get d k = Some old"
  shows "add_mset old (mset (dict_values (dict_set k v d))) = add_mset v (mset (dict_values d))"
  using assms
proof (induction d)
  case Nil
  then show ?case by simp
next
  case (Cons p d)
  then show ?case
    by (cases p) (auto simp: dict_ok_def add_mset_commute [of old] split: if_splits)
qed

lemma dict_get_value: "dict_get d k = Some v \<Longrightarrow> v \<in> set (dict_values d)"
  by (auto dest: map_of_SomeD intro: rev_image_eqI)

lemma dict_get_iff: "dict_ok d \<Longrightarrow> dict_get d k = Some v \<longleftrightarrow> (k, v) \<in> set d"
  by (simp add: dict_ok_def)

end
