(* ===== verification/Encoding.thy ===== *)
theory Encoding
  imports Prelude
begin

text \<open>
  The binary layout of \<open>raiden/encoding\<close>: the big-endian integer encoder (\<open>encoders.py\<close>), the
  class factory \<open>namedbuffer\<close> whose instances expose slices of a byte array as fields
  (\<open>format.py\<close>) and the field lists of the messages (\<open>messages.py\<close>).  The lemmas show that
  encoding and decoding of integers invert each other, that the slices of a buffer are disjoint,
  and that assigning one field leaves every other field as it was.
\<close>

section \<open>Integers (encoders.py)\<close>

fun be_bytes :: "nat \<Rightarrow> int \<Rightarrow> bytes" where
  "be_bytes 0 v = []"
| "be_bytes (Suc n) v = be_bytes n (v div 256) @ [word_of_int (v mod 256)]"

text \<open>\<open>value.to_bytes(length, byteorder='big')\<close> and \<open>int.from_bytes(value, byteorder='big')\<close>.\<close>

definition integer_encode :: "int \<Rightarrow> nat \<Rightarrow> bytes result" where
  "integer_encode v n = (if 0 \<le> v \<and> v < 256 ^ n then Inr (be_bytes n v) else Inl OverflowError)"

definition integer_decode :: "bytes \<Rightarrow> int" where
  "integer_decode bs = foldl (\<lambda>a b. a * 256 + uint b) 0 bs"

definition integer_validate :: "int \<times> int \<Rightarrow> int \<Rightarrow> unit result" where
  "integer_validate r v =
     (if fst r > v \<or> snd r < v then Inl (ValueError ''is outside the valide range'') else Inr ())"

lemma length_be_bytes [simp]: "length (be_bytes n v) = n"
  by (induction n arbitrary: v) auto

lemma integer_decode_append: "integer_decode (xs @ [b]) = integer_decode xs * 256 + uint b"
  by (simp add: integer_decode_def)

lemma uint_byte [simp]: "uint (word_of_int (v mod 256) :: 8 word) = v mod 256"
  by (simp add: uint_word_of_int)

lemma decode_be_bytes: "0 \<le> v \<Longrightarrow> v < 256 ^ n \<Longrightarrow> integer_decode (be_bytes n v) = v"
proof (induction n arbitrary: v)
  case 0
  then show ?case by (simp add: integer_decode_def)
next
  case (Suc n)
  have "v div 256 < 256 ^ n"
    using Suc.prems by (simp add: div_less_iff_less_mult mult.commute)
  then have "integer_decode (be_bytes n (v div 256)) = v div 256"
    using Suc.IH Suc.prems by (simp add: pos_imp_zdiv_nonneg_iff)
  then show ?case
    by (simp add: integer_decode_append)
qed

lemma integer_roundtrip: "integer_encode v n = Inr bs \<Longrightarrow> integer_decode bs = v \<and> length bs = n"
  by (auto simp: integer_encode_def decode_be_bytes split: if_splits)

lemma be_bytes_inject:
  assumes "be_bytes n v = be_bytes n w"
    and "0 \<le> v" "v < 256 ^ n" "0 \<le> w" "w < 256 ^ n"
  shows "v = w"
  using assms by (metis decode_be_bytes)

section \<open>Named buffers (format.py)\<close>

text \<open>
  A field has a name, a width and an optional integer encoder (its range); a padding has a width
  only.  A field's value is an integer where it has an encoder and bytes where it has none.
\<close>

datatype field =
    Field (field_name: string) (size_bytes: nat) (encoder: "(int \<times> int) option")
  | Pad (size_bytes: nat)

datatype field_value = FInt int | FBytes bytes

definition spec_size :: "field list \<Rightarrow> nat" where
  "spec_size spec = sum_list (map size_bytes spec)"

fun slices_from :: "nat \<Rightarrow> field list \<Rightarrow> (string, nat \<times> nat) dict" where
  "slices_from start [] = []"
| "slices_from start (Pad n # fs) = slices_from (start + n) fs"
| "slices_from start (Field name n enc # fs) =
     (name, (start, start + n)) # slices_from (start + n) fs"

definition compute_slices :: "field list \<Rightarrow> (string, nat \<times> nat) dict" where
  "compute_slices spec = slices_from 0 spec"

definition names_fields :: "field list \<Rightarrow> (string, field) dict" where
  "names_fields spec =
     map (\<lambda>f. (field_name f, f)) (filter (\<lambda>f. case f of Pad _ \<Rightarrow> False | Field _ _ _ \<Rightarrow> True) spec)"

text \<open>The checks of the class factory, in their order.\<close>

definition namedbuffer :: "string \<Rightarrow> field list \<Rightarrow> field list result" where
  "namedbuffer buffer_name spec =
     (if buffer_name = [] then Inl (ValueError ''buffer_name is empty'')
      else if spec = [] then Inl (ValueError ''fields_spec is empty'')
      else if ''data'' \<in> set (map fst (names_fields spec))
        then Inl (ValueError ''data field shadowing underlying buffer'')
      else if \<not> distinct (map fst (names_fields spec))
        then Inl (ValueError ''repeated field name'')
      else Inr spec)"

definition buffer_for :: "field list \<Rightarrow> bytes" where
  "buffer_for spec = replicate (spec_size spec) 0"

text \<open>Construction over existing data: a shorter buffer is refused.\<close>

definition wrap_buffer :: "field list \<Rightarrow> bytes \<Rightarrow> bytes result" where
  "wrap_buffer spec data =
     (if length data < spec_size spec then Inl InvalidProtocolMessage else Inr data)"

definition get_slice :: "bytes \<Rightarrow> nat \<Rightarrow> nat \<Rightarrow> bytes" where
  "get_slice data s e = take (e - s) (drop s data)"

definition set_slice :: "bytes \<Rightarrow> nat \<Rightarrow> nat \<Rightarrow> bytes \<Rightarrow> bytes" where
  "set_slice data s e v = take s data @ v @ drop e data"

text \<open>
  Attribute access: the fields of the layout, and \<open>data\<close>, the buffer itself, which can be read.
  (The repository assigns fields only; a \<open>str\<close> value, which \<open>__setattr__\<close> encodes when it fills
  its field, reaches the model as its bytes.)
\<close>

definition buffer_getattr :: "field list \<Rightarrow> bytes \<Rightarrow> string \<Rightarrow> field_value result" where
  "buffer_getattr spec data name =
     (case dict_get (compute_slices spec) name of
        None \<Rightarrow> if name = ''data'' then Inr (FBytes data) else Inl AttributeError
      | Some (s, e) \<Rightarrow>
          (case dict_get (names_fields spec) name of
             Some (Field _ _ (Some _)) \<Rightarrow> Inr (FInt (integer_decode (get_slice data s e)))
           | _ \<Rightarrow> Inr (FBytes (get_slice data s e))))"

text \<open>The bytes of a value: validated and encoded where the field has an encoder.\<close>

definition encode_value :: "(int \<times> int) option \<Rightarrow> nat \<Rightarrow> field_value \<Rightarrow> bytes result" where
  "encode_value enc n v =
     (case (enc, v) of
        (Some r, FInt i) \<Rightarrow> res_bind (integer_validate r i) (\<lambda>_. integer_encode i n)
      | (Some r, FBytes _) \<Rightarrow> Inl (ValueError ''value is not an integer'')
      | (None, FInt _) \<Rightarrow> Inl TypeError
      | (None, FBytes b) \<Rightarrow> Inr b)"

definition buffer_setattr ::
    "field list \<Rightarrow> bytes \<Rightarrow> string \<Rightarrow> field_value \<Rightarrow> bytes result" where
  "buffer_setattr spec data name v =
     (case (dict_get (compute_slices spec) name, dict_get (names_fields spec) name) of
        (Some (s, e), Some f) \<Rightarrow>
          res_bind (encode_value (encoder f) (size_bytes f) v) (\<lambda>value.
            if length value > size_bytes f then Inl (ValueError ''value is too big'')
            else Inr (set_slice data s e (replicate (size_bytes f - length value) 0 @ value)))
      | _ \<Rightarrow> Inl AttributeError)"

subsection \<open>Slices are disjoint\<close>

lemma length_set_slice:
  "s \<le> e \<Longrightarrow> e \<le> length data \<Longrightarrow> length v = e - s \<Longrightarrow> length (set_slice data s e v) = length data"
  by (simp add: set_slice_def)

lemma get_set_slice_same:
  "s \<le> e \<Longrightarrow> e \<le> length data \<Longrightarrow> length v = e - s \<Longrightarrow> get_slice (set_slice data s e v) s e = v"
  by (simp add: get_slice_def set_slice_def)

lemma get_slice_alt: "get_slice data s e = drop s (take e data)"
  by (simp add: get_slice_def drop_take)

lemma get_set_slice_other:
  assumes "s \<le> e" "e \<le> length data" "length v = e - s" "e' \<le> s \<or> e \<le> s'"
  shows "get_slice (set_slice data s e v) s' e' = get_slice data s' e'"
  using assms(4)
proof
  assume "e' \<le> s"
  then have "take e' (set_slice data s e v) = take e' data"
    using assms(1,2) by (simp add: set_slice_def)
  then show ?thesis by (simp add: get_slice_alt)
next
  assume "e \<le> s'"
  then have "drop s' (set_slice data s e v) = drop s' data"
    using assms(1-3) by (simp add: set_slice_def)
  then show ?thesis by (simp add: get_slice_def)
qed

lemma slices_from_bounds:
  "(n, (s, e)) \<in> set (slices_from start fs) \<Longrightarrow> start \<le> s \<and> s \<le> e \<and> e \<le> start + spec_size fs"
  by (induction start fs rule: slices_from.induct) (auto simp: spec_size_def)

lemma map_fst_slices_from: "map fst (slices_from start fs) = map fst (names_fields fs)"
  by (induction start fs rule: slices_from.induct) (auto simp: names_fields_def)

lemma slices_from_disjoint:
  assumes "distinct (map fst (slices_from start fs))"
    and "(n, (s, e)) \<in> set (slices_from start fs)" and "(m, (s', e')) \<in> set (slices_from start fs)"
    and "n \<noteq> m"
  shows "e \<le> s' \<or> e' \<le> s"
  using assms
proof (induction start fs rule: slices_from.induct)
  case (3 start name k enc fs)
  have b: "start + k \<le> u" if "(x, (u, w)) \<in> set (slices_from (start + k) fs)" for x u w
    using slices_from_bounds [OF that] by simp
  have d: "distinct (map fst (slices_from (start + k) fs))"
    using "3.prems"(1) by simp
  show ?case
    using "3.prems"(2-4) "3.IH" [OF d] b by auto
qed auto

lemma slice_of_field:
  assumes "distinct (map fst (slices_from start fs))"
    and "(n, f) \<in> set (names_fields fs)" and "(n, (s, e)) \<in> set (slices_from start fs)"
  shows "e = s + size_bytes f"
  using assms
proof (induction start fs rule: slices_from.induct)
  case (3 start name k enc fs)
  have names: "names_fields (Field name k enc # fs) = (name, Field name k enc) # names_fields fs"
    by (simp add: names_fields_def)
  have d: "distinct (map fst (slices_from (start + k) fs))"
    and new: "name \<notin> set (map fst (slices_from (start + k) fs))"
    using "3.prems"(1) by simp_all
  have a: "x \<noteq> name" if "(x, y) \<in> set (slices_from (start + k) fs)" for x y
    using new that by (metis fst_conv image_eqI set_map)
  have b: "x \<noteq> name" if "(x, g) \<in> set (names_fields fs)" for x g
    using new that unfolding map_fst_slices_from by (metis fst_conv image_eqI set_map)
  show ?case
    using "3.prems"(2,3) "3.IH" [OF d] by (auto simp: names dest: a b)
qed (auto simp: names_fields_def)

lemma dict_get_slicesD:
  "dict_get (compute_slices spec) name = Some (s, e) \<Longrightarrow>
     s \<le> e \<and> e \<le> spec_size spec \<and> (name, (s, e)) \<in> set (slices_from 0 spec)"
  using slices_from_bounds [of name s e 0 spec]
  by (auto simp: compute_slices_def dest: map_of_SomeD)

text \<open>A successful assignment writes the encoded value into the field's slice.\<close>

lemma buffer_setattrD:
  assumes "namedbuffer bn spec = Inr spec" and "buffer_setattr spec data name v = Inr data'"
    and "spec_size spec \<le> length data"
  obtains s e f bs where
    "dict_get (compute_slices spec) name = Some (s, e)" "s \<le> e" "e \<le> length data"
    "dict_get (names_fields spec) name = Some f"
    "encode_value (encoder f) (size_bytes f) v = Inr bs" "length bs \<le> size_bytes f"
    "e = s + size_bytes f"
    "data' = set_slice data s e (replicate (size_bytes f - length bs) 0 @ bs)"
proof -
  from assms(2) obtain s e f bs where *:
    "dict_get (compute_slices spec) name = Some (s, e)"
    "dict_get (names_fields spec) name = Some f"
    "encode_value (encoder f) (size_bytes f) v = Inr bs" "length bs \<le> size_bytes f"
    "data' = set_slice data s e (replicate (size_bytes f - length bs) 0 @ bs)"
    by (auto simp: buffer_setattr_def res_simps split: option.splits if_splits)
  have "distinct (map fst (slices_from 0 spec))"
    using assms(1) by (auto simp: namedbuffer_def map_fst_slices_from split: if_splits)
  with * have "e = s + size_bytes f"
    using dict_get_slicesD [OF *(1)] slice_of_field map_of_SomeD [OF *(2)] by metis
  with * dict_get_slicesD [OF *(1)] assms(3) show ?thesis by (intro that) auto
qed

lemma buffer_set_get_other:
  assumes "namedbuffer bn spec = Inr spec" and "buffer_setattr spec data name v = Inr data'"
    and "spec_size spec \<le> length data" and "name' \<noteq> name" and "name' \<noteq> ''data''"
  shows "buffer_getattr spec data' name' = buffer_getattr spec data name'"
proof -
  from assms(1-3) obtain s e f bs where *:
    "dict_get (compute_slices spec) name = Some (s, e)" "s \<le> e" "e \<le> length data"
    "length bs \<le> size_bytes f" "e = s + size_bytes f"
    "data' = set_slice data s e (replicate (size_bytes f - length bs) 0 @ bs)"
    by (rule buffer_setattrD)
  have d: "distinct (map fst (slices_from 0 spec))"
    using assms(1) by (auto simp: namedbuffer_def map_fst_slices_from split: if_splits)
  have "get_slice data' s' e' = get_slice data s' e'"
    if "dict_get (compute_slices spec) name' = Some (s', e')" for s' e'
    using * assms(4) dict_get_slicesD [OF *(1)] dict_get_slicesD [OF that]
      slices_from_disjoint [OF d] get_set_slice_other [of s e data] by fastforce
  with assms(5) show ?thesis by (auto simp: buffer_getattr_def split: option.splits field.splits)
qed

text \<open>What is read back: the integer itself, or the bytes padded on the left with zeros.\<close>

fun read_back :: "nat \<Rightarrow> field_value \<Rightarrow> field_value" where
  "read_back n (FInt i) = FInt i"
| "read_back n (FBytes bs) = FBytes (replicate (n - length bs) 0 @ bs)"

lemma names_fields_Field: "(x, f) \<in> set (names_fields spec) \<Longrightarrow> \<exists>n enc. f = Field x n enc"
  by (cases f) (auto simp: names_fields_def)

lemma buffer_set_get_same:
  assumes "namedbuffer bn spec = Inr spec" and "buffer_setattr spec data name v = Inr data'"
    and "spec_size spec \<le> length data"
  shows "\<exists>f. dict_get (names_fields spec) name = Some f \<and>
    buffer_getattr spec data' name = Inr (read_back (size_bytes f) v)"
proof -
  from assms obtain s e f bs where *:
    "dict_get (compute_slices spec) name = Some (s, e)" "s \<le> e" "e \<le> length data"
    "dict_get (names_fields spec) name = Some f"
    "encode_value (encoder f) (size_bytes f) v = Inr bs" "length bs \<le> size_bytes f"
    "e = s + size_bytes f"
    "data' = set_slice data s e (replicate (size_bytes f - length bs) 0 @ bs)"
    by (rule buffer_setattrD)
  have slice: "get_slice data' s e = replicate (size_bytes f - length bs) 0 @ bs"
    using * by (simp add: get_set_slice_same)
  obtain n enc where f: "f = Field name n enc"
    using names_fields_Field map_of_SomeD [OF *(4)] by metis
  show ?thesis
    using * slice f
    by (cases v; cases enc)
      (auto simp: buffer_getattr_def encode_value_def res_simps dest!: integer_roundtrip)
qed

lemma buffer_setattr_length:
  assumes "namedbuffer bn spec = Inr spec" and "buffer_setattr spec data name v = Inr data'"
    and "spec_size spec \<le> length data"
  shows "length data' = length data"
  using assms by (rule buffer_setattrD) (simp add: length_set_slice)

section \<open>Message layouts (messages.py)\<close>

definition PROCESSED :: int where "PROCESSED = 0"
definition PING :: int where "PING = 1"
definition PONG :: int where "PONG = 2"
definition SECRETREQUEST :: int where "SECRETREQUEST = 3"
definition UNLOCK :: int where "UNLOCK = 4"
definition LOCKEDTRANSFER :: int where "LOCKEDTRANSFER = 7"
definition REFUNDTRANSFER :: int where "REFUNDTRANSFER = 8"
definition REVEALSECRET :: int where "REVEALSECRET = 11"
definition DELIVERED :: int where "DELIVERED = 12"
definition LOCKEXPIRED :: int where "LOCKEXPIRED = 13"
definition TODEVICE :: int where "TODEVICE = 14"

lemmas cmdid_defs = PROCESSED_def PING_def PONG_def SECRETREQUEST_def UNLOCK_def
  LOCKEDTRANSFER_def REFUNDTRANSFER_def REVEALSECRET_def DELIVERED_def LOCKEXPIRED_def
  TODEVICE_def

definition cmdid :: "int \<Rightarrow> field" where
  "cmdid i = Field ''cmdid'' 1 (Some (i, i))"

definition uint64_field :: "string \<Rightarrow> field" where
  "uint64_field name = Field name 8 (Some (0, UINT64_MAX))"

definition uint256_field :: "string \<Rightarrow> field" where
  "uint256_field name = Field name 32 (Some (0, UINT256_MAX))"

definition hash_field :: "string \<Rightarrow> field" where
  "hash_field name = Field name 32 None"

definition address_field :: "string \<Rightarrow> field" where
  "address_field name = Field name 20 None"

definition signature_field :: "string \<Rightarrow> field" where
  "signature_field name = Field name 65 None"

lemmas field_kind_defs = cmdid_def uint64_field_def uint256_field_def hash_field_def
  address_field_def signature_field_def

definition Processed_spec :: "field list" where
  "Processed_spec =
     [cmdid PROCESSED, Pad 3, uint64_field ''message_identifier'', signature_field ''signature'']"

definition Delivered_spec :: "field list" where
  "Delivered_spec =
     [cmdid DELIVERED, Pad 3, uint64_field ''delivered_message_identifier'',
      signature_field ''signature'']"

definition Ping_spec :: "field list" where
  "Ping_spec =
     [cmdid PING, Pad 3, uint64_field ''nonce'',
      Field ''current_protocol_version'' 1 (Some (0, 256)), signature_field ''signature'']"

definition Pong_spec :: "field list" where
  "Pong_spec = [cmdid PONG, Pad 3, uint64_field ''nonce'', signature_field ''signature'']"

definition SecretRequest_spec :: "field list" where
  "SecretRequest_spec =
     [cmdid SECRETREQUEST, Pad 3, uint64_field ''message_identifier'',
      uint64_field ''payment_identifier'', hash_field ''secrethash'', uint256_field ''amount'',
      uint256_field ''expiration'', signature_field ''signature'']"

definition Unlock_spec :: "field list" where
  "Unlock_spec =
     [cmdid UNLOCK, Pad 3, uint256_field ''chain_id'', uint64_field ''message_identifier'',
      uint64_field ''payment_identifier'', address_field ''token_network_address'',
      hash_field ''secret'', uint64_field ''nonce'', uint256_field ''channel_identifier'',
      uint256_field ''transferred_amount'', uint256_field ''locked_amount'',
      hash_field ''locksroot'', signature_field ''signature'']"

definition RevealSecret_spec :: "field list" where
  "RevealSecret_spec =
     [cmdid REVEALSECRET, Pad 3, uint64_field ''message_identifier'', hash_field ''secret'',
      signature_field ''signature'']"

definition LockedTransfer_spec :: "field list" where
  "LockedTransfer_spec =
     [cmdid LOCKEDTRANSFER, Pad 3, uint64_field ''nonce'', uint256_field ''chain_id'',
      uint64_field ''message_identifier'', uint64_field ''payment_identifier'',
      hash_field ''payment_hash_invoice'', uint256_field ''expiration'',
      address_field ''token_network_address'', address_field ''token'',
      uint256_field ''channel_identifier'', address_field ''recipient'', address_field ''target'',
      address_field ''initiator'', hash_field ''locksroot'', hash_field ''secrethash'',
      uint256_field ''transferred_amount'', uint256_field ''locked_amount'',
      uint256_field ''amount'', uint256_field ''fee'', signature_field ''signature'']"

definition RefundTransfer_spec :: "field list" where
  "RefundTransfer_spec =
     [cmdid REFUNDTRANSFER, Pad 3, uint64_field ''nonce'', uint256_field ''chain_id'',
      uint64_field ''message_identifier'', uint64_field ''payment_identifier'',
      uint256_field ''expiration'', address_field ''token_network_address'',
      address_field ''token'', uint256_field ''channel_identifier'', address_field ''recipient'',
      address_field ''target'', address_field ''initiator'', hash_field ''locksroot'',
      hash_field ''secrethash'', uint256_field ''transferred_amount'',
      uint256_field ''locked_amount'', uint256_field ''amount'', uint256_field ''fee'',
      signature_field ''signature'']"

definition LockExpired_spec :: "field list" where
  "LockExpired_spec =
     [cmdid LOCKEXPIRED, Pad 3, uint64_field ''nonce'', uint256_field ''chain_id'',
      uint64_field ''message_identifier'', address_field ''token_network_address'',
      uint256_field ''channel_identifier'', address_field ''recipient'', hash_field ''locksroot'',
      hash_field ''secrethash'', uint256_field ''transferred_amount'',
      uint256_field ''locked_amount'', signature_field ''signature'']"

definition Lock_spec :: "field list" where
  "Lock_spec = [uint256_field ''expiration'', uint256_field ''amount'', hash_field ''secrethash'']"

definition RequestMonitoring_spec :: "field list" where
  "RequestMonitoring_spec =
     [uint64_field ''nonce'', uint256_field ''chain_id'', address_field ''token_network_address'',
      uint256_field ''channel_identifier'', hash_field ''balance_hash'',
      hash_field ''additional_hash'', signature_field ''signature'',
      signature_field ''non_closing_signature'', uint256_field ''reward_amount'',
      signature_field ''reward_proof_signature'']"

definition UpdatePFS_spec :: "field list" where
  "UpdatePFS_spec =
     [uint256_field ''chain_id'', address_field ''token_network_address'',
      uint256_field ''channel_identifier'', address_field ''updating_participant'',
      address_field ''other_participant'', uint64_field ''updating_nonce'',
      uint64_field ''other_nonce'', uint256_field ''updating_capacity'',
      uint256_field ''other_capacity'', uint256_field ''reveal_timeout'', uint256_field ''fee'',
      signature_field ''signature'']"

definition ToDevice_spec :: "field list" where
  "ToDevice_spec =
     [cmdid TODEVICE, Pad 3, uint64_field ''message_identifier'', signature_field ''signature'']"

text \<open>The table from the first byte of a message to its layout.\<close>

definition CMDID_MESSAGE :: "(int, field list) dict" where
  "CMDID_MESSAGE =
     [(PROCESSED, Processed_spec), (PING, Ping_spec), (PONG, Pong_spec),
      (SECRETREQUEST, SecretRequest_spec), (UNLOCK, Unlock_spec),
      (REVEALSECRET, RevealSecret_spec), (LOCKEDTRANSFER, LockedTransfer_spec),
      (REFUNDTRANSFER, RefundTransfer_spec), (DELIVERED, Delivered_spec),
      (LOCKEXPIRED, LockExpired_spec), (TODEVICE, ToDevice_spec)]"

text \<open>
  \<open>wrap\<close>: \<open>None\<close> for empty data and for an unknown command; the constructor's
  \<open>InvalidProtocolMessage\<close> is caught where it is a \<open>ValueError\<close>, which
  \<open>raiden/exceptions.py\<close> does not make it, so it propagates.
\<close>

definition wrap :: "bytes \<Rightarrow> (field list \<times> bytes) option result" where
  "wrap data =
     (case data of
        [] \<Rightarrow> Inr None
      | b # _ \<Rightarrow>
          (case dict_get CMDID_MESSAGE (uint b) of
             None \<Rightarrow> Inr None
           | Some spec \<Rightarrow> res_bind (wrap_buffer spec data) (\<lambda>d. Inr (Some (spec, d)))))"

lemmas spec_defs = Processed_spec_def Ping_spec_def Pong_spec_def SecretRequest_spec_def
  Unlock_spec_def RevealSecret_spec_def LockedTransfer_spec_def RefundTransfer_spec_def
  Delivered_spec_def LockExpired_spec_def ToDevice_spec_def

end
