(* ===== verification/MerkleTree.thy ===== *)
theory MerkleTree
  imports Prelude
begin

text \<open>
  The Merkle tree of pending locks: \<open>raiden/transfer/merkle_tree.py\<close>, the state class
  \<open>MerkleTreeState\<close> with \<open>make_empty_merkle_tree\<close> (\<open>transfer/state.py\<close>), \<open>split_in_pairs\<close>
  (\<open>utils/__init__.py\<close>) and the two operations by which a channel changes its tree,
  \<open>compute_merkletree_with\<close> and \<open>compute_merkletree_without\<close> (\<open>transfer/channel.py\<close>).  The locale
  \<open>lock_commitment\<close> is what the channel relies on: a set of leaves with a root, to which
  leaves are added and from which they are removed.  It is interpreted on these operations.
\<close>

section \<open>Layers (merkle_tree.py)\<close>

fun split_in_pairs :: "'a list \<Rightarrow> ('a \<times> 'a option) list" where
  "split_in_pairs [] = []"
| "split_in_pairs [a] = [(a, None)]"
| "split_in_pairs (a # b # xs) = (a, Some b) # split_in_pairs xs"

lemma length_split_in_pairs [simp]: "length (split_in_pairs xs) = (length xs + 1) div 2"
  by (induction xs rule: split_in_pairs.induct) auto

definition hash_pair :: "libs \<Rightarrow> bytes \<Rightarrow> bytes option \<Rightarrow> bytes" where
  "hash_pair L first second =
     (case second of
        None \<Rightarrow> first
      | Some s \<Rightarrow> if first > s then keccak L (s @ first) else keccak L (first @ s))"

definition next_layer :: "libs \<Rightarrow> bytes list \<Rightarrow> bytes list" where
  "next_layer L layer = map (\<lambda>(a, b). hash_pair L a b) (split_in_pairs layer)"

text \<open>The \<open>while len(layer) > 1\<close> loop: the layers above the given one.\<close>

function layers_above :: "libs \<Rightarrow> bytes list \<Rightarrow> bytes list list" where
  "layers_above L layer =
     (if length layer > 1 then next_layer L layer # layers_above L (next_layer L layer) else [])"
  by pat_completeness auto
termination
  by (relation "measure (\<lambda>(L, layer). length layer)") (auto simp: next_layer_def)

declare layers_above.simps [simp del]

definition compute_layers :: "libs \<Rightarrow> bytes list \<Rightarrow> bytes list list result" where
  "compute_layers L elements =
     (if elements = []
        then Inl (AssertionError ''Use make_empty_merkle_tree if there are no elements'')
      else if \<exists>item \<in> set elements. length item \<noteq> 32 then Inl HashLengthNot32
      else if \<not> distinct elements then Inl (ValueError ''Duplicated element'')
      else Inr (sort elements # layers_above L (sort elements)))"

datatype MerkleTreeState = MerkleTreeState (layers: "bytes list list")

definition make_empty_merkle_tree :: MerkleTreeState where
  "make_empty_merkle_tree = MerkleTreeState [[], [EMPTY_MERKLE_ROOT]]"

definition merkle_leaves :: "MerkleTreeState \<Rightarrow> bytes list result" where
  "merkle_leaves t = py_first (layers t)"

definition merkleroot :: "MerkleTreeState \<Rightarrow> bytes result" where
  "merkleroot t =
     py_assert (layers t \<noteq> []) ''the merkle tree layers are empty''
       (py_assert (last (layers t) \<noteq> []) ''the root layer is empty''
          (Inr (hd (last (layers t)))))"

definition merkletree_width :: "MerkleTreeState \<Rightarrow> nat result" where
  "merkletree_width t = res_bind (merkle_leaves t) (\<lambda>ls. Inr (length ls))"

fun chunks96 :: "nat \<Rightarrow> bytes \<Rightarrow> bytes list" where
  "chunks96 0 data = []"
| "chunks96 (Suc n) data = (if data = [] then [] else take 96 data # chunks96 n (drop 96 data))"

text \<open>\<open>range(0, len, 96)\<close> has at most \<open>len\<close> steps, which bounds the recursion.\<close>

definition merkle_leaves_from_packed_data :: "libs \<Rightarrow> bytes \<Rightarrow> bytes list" where
  "merkle_leaves_from_packed_data L data = map (keccak L) (chunks96 (length data) data)"

section \<open>The channel's operations on its tree (channel.py)\<close>

definition compute_merkletree_with ::
    "libs \<Rightarrow> MerkleTreeState \<Rightarrow> bytes \<Rightarrow> MerkleTreeState option result" where
  "compute_merkletree_with L t lockhash =
     res_bind (merkle_leaves t) (\<lambda>leaves.
       if lockhash \<notin> set leaves
       then res_bind (compute_layers L (leaves @ [lockhash])) (\<lambda>ls. Inr (Some (MerkleTreeState ls)))
       else Inr None)"

definition compute_merkletree_without ::
    "libs \<Rightarrow> MerkleTreeState \<Rightarrow> bytes \<Rightarrow> MerkleTreeState option result" where
  "compute_merkletree_without L t lockhash =
     res_bind (merkle_leaves t) (\<lambda>leaves.
       if lockhash \<in> set leaves
       then (let rest = remove1 lockhash leaves
             in if rest \<noteq> []
                then res_bind (compute_layers L rest) (\<lambda>ls. Inr (Some (MerkleTreeState ls)))
                else Inr (Some make_empty_merkle_tree))
       else Inr None)"

section \<open>Shape of the layers\<close>

lemma hash_pair_commute: "hash_pair L a (Some b) = hash_pair L b (Some a)"
  by (auto simp: hash_pair_def)

lemma length_next_layer [simp]: "length (next_layer L layer) = (length layer + 1) div 2"
  by (simp add: next_layer_def)

lemma last_layer_singleton:
  "layer \<noteq> [] \<Longrightarrow> length (last (layer # layers_above L layer)) = 1"
proof (induction L layer rule: layers_above.induct)
  case (1 L layer)
  show ?case
  proof (cases "length layer > 1")
    case True
    then have "0 < length (next_layer L layer)" by simp
    then have "next_layer L layer \<noteq> []" by (intro notI) (simp only: list.size less_irrefl)
    with True 1 show ?thesis by (simp add: layers_above.simps [of L layer])
  next
    case False
    with "1.prems" obtain a where "layer = [a]" by (cases layer) auto
    then show ?thesis by (simp add: layers_above.simps [of L "[a]"])
  qed
qed

text \<open>Each layer is half as long as the one below it, rounded up.\<close>

fun halving :: "bytes list list \<Rightarrow> bool" where
  "halving (a # b # ls) = (length b = (length a + 1) div 2 \<and> halving (b # ls))"
| "halving ls = True"

lemma layers_above_halving: "halving (layer # layers_above L layer)"
proof (induction L layer rule: layers_above.induct)
  case (1 L layer)
  then show ?case
    by (cases "length layer > 1") (auto simp: layers_above.simps [of L layer])
qed

lemma compute_layers_Inr:
  "compute_layers L xs = Inr ls \<longleftrightarrow>
     xs \<noteq> [] \<and> (\<forall>x \<in> set xs. length x = 32) \<and> distinct xs \<and>
     ls = sort xs # layers_above L (sort xs)"
  by (auto simp: compute_layers_def)

lemma sort_perm_eq: "mset xs = mset ys \<Longrightarrow> sort xs = sort ys"
  by (rule properties_for_sort) (simp_all only: mset_sort sorted_sort)

lemma sort_eq_Nil [simp]: "sort xs = [] \<longleftrightarrow> xs = []"
proof
  assume "sort xs = []"
  then have "set (sort xs) = {}" by simp
  then show "xs = []" by simp
qed simp

lemma sort_set_eq: "distinct xs \<Longrightarrow> distinct ys \<Longrightarrow> set xs = set ys \<Longrightarrow> sort xs = sort ys"
  by (rule sort_perm_eq, rule set_eq_iff_mset_eq_distinct [THEN iffD1])

section \<open>Well-formed trees\<close>

text \<open>
  The trees a channel holds: the empty tree, or the layers computed from the tree's own first
  layer.  The first layer is then sorted and free of duplicates.
\<close>

definition merkle_ok :: "libs \<Rightarrow> MerkleTreeState \<Rightarrow> bool" where
  "merkle_ok L t \<longleftrightarrow>
     t = make_empty_merkle_tree \<or>
     (\<exists>xs. compute_layers L xs = Inr (layers t))"

definition leaf_list :: "MerkleTreeState \<Rightarrow> bytes list" where
  "leaf_list t = (case layers t of [] \<Rightarrow> [] | l # _ \<Rightarrow> l)"

definition leaf_ok :: "bytes \<Rightarrow> bool" where
  "leaf_ok h \<longleftrightarrow> length h = 32"

lemma merkle_ok_cases:
  assumes "merkle_ok L t"
  obtains (empty) "t = make_empty_merkle_tree" "leaf_list t = []"
  | (layers) "leaf_list t \<noteq> []" "sorted (leaf_list t)" "distinct (leaf_list t)"
      "\<forall>x \<in> set (leaf_list t). leaf_ok x" "compute_layers L (leaf_list t) = Inr (layers t)"
proof -
  consider (1) "t = make_empty_merkle_tree"
    | (2) xs where "compute_layers L xs = Inr (layers t)"
    using assms by (auto simp: merkle_ok_def)
  then show thesis
  proof cases
    case 1
    then show thesis by (intro empty) (simp_all add: make_empty_merkle_tree_def leaf_list_def)
  next
    case 2
    then have *: "xs \<noteq> []" "\<forall>x \<in> set xs. length x = 32" "distinct xs"
      "layers t = sort xs # layers_above L (sort xs)"
      by (auto simp: compute_layers_Inr)
    then have "leaf_list t = sort xs" by (simp add: leaf_list_def)
    moreover have "sort (sort xs) = sort xs" by (simp add: sorted_sort_id)
    ultimately show thesis
      using * by (intro layers) (auto simp: compute_layers_Inr leaf_ok_def)
  qed
qed

lemma merkle_ok_leaves: "merkle_ok L t \<Longrightarrow> merkle_leaves t = Inr (leaf_list t)"
  by (erule merkle_ok_cases)
    (auto simp: merkle_leaves_def leaf_list_def make_empty_merkle_tree_def compute_layers_Inr
      py_first_def split: list.splits)

lemma merkle_ok_distinct: "merkle_ok L t \<Longrightarrow> distinct (leaf_list t)"
  by (erule merkle_ok_cases) auto

lemma merkle_ok_sorted: "merkle_ok L t \<Longrightarrow> sorted (leaf_list t)"
  by (erule merkle_ok_cases) auto

lemma merkle_ok_leaf_ok: "merkle_ok L t \<Longrightarrow> x \<in> set (leaf_list t) \<Longrightarrow> leaf_ok x"
  by (erule merkle_ok_cases) auto

lemma merkle_ok_empty [simp]: "merkle_ok L make_empty_merkle_tree"
  by (simp add: merkle_ok_def)

lemma leaf_list_empty [simp]: "leaf_list make_empty_merkle_tree = []"
  by (simp add: leaf_list_def make_empty_merkle_tree_def)

lemma merkle_ok_unique:
  assumes "merkle_ok L t" "merkle_ok L t'" "set (leaf_list t) = set (leaf_list t')"
  shows "t = t'"
proof -
  have "leaf_list t = leaf_list t'"
    using assms by (simp add: sorted_distinct_set_unique merkle_ok_sorted merkle_ok_distinct)
  with assms show ?thesis
    by (auto elim!: merkle_ok_cases intro: MerkleTreeState.expand)
qed

lemma merkleroot_ok: "merkle_ok L t \<Longrightarrow> \<exists>r. merkleroot t = Inr r"
proof (erule merkle_ok_cases)
  assume "t = make_empty_merkle_tree"
  then show ?thesis by (simp add: merkleroot_def make_empty_merkle_tree_def)
next
  assume "compute_layers L (leaf_list t) = Inr (layers t)"
  then have "layers t \<noteq> []" "length (last (layers t)) = 1"
    using last_layer_singleton [of "sort (leaf_list t)" L]
    by (auto simp: compute_layers_Inr simp del: last.simps)
  then show ?thesis by (cases "last (layers t)") (simp_all add: merkleroot_def)
qed

text \<open>Every hash of the tree has 32 bytes, the root included.\<close>

lemma split_in_pairs_mem:
  "(a, b) \<in> set (split_in_pairs xs) \<Longrightarrow> a \<in> set xs \<and> (\<forall>s. b = Some s \<longrightarrow> s \<in> set xs)"
  by (induction xs rule: split_in_pairs.induct) auto

lemma next_layer_length32:
  assumes "keccak_ok L" "\<forall>x \<in> set layer. length x = 32" "y \<in> set (next_layer L layer)"
  shows "length y = 32"
proof -
  from assms(3) obtain a b where "(a, b) \<in> set (split_in_pairs layer)" "y = hash_pair L a b"
    by (auto simp: next_layer_def)
  then show ?thesis
    using assms(1,2) split_in_pairs_mem [of a b layer]
    by (auto simp: hash_pair_def split: option.splits)
qed

lemma layers_length32:
  "keccak_ok L \<Longrightarrow> \<forall>x \<in> set layer. length x = 32 \<Longrightarrow> l \<in> set (layers_above L layer) \<Longrightarrow>
     x \<in> set l \<Longrightarrow> length x = 32"
proof (induction L layer rule: layers_above.induct)
  case (1 L layer)
  then show ?case
    using next_layer_length32 [OF "1.prems"(1,2)]
    by (cases "length layer > 1") (auto simp: layers_above.simps [of L layer])
qed

lemma merkleroot_length:
  assumes "keccak_ok L" "merkle_ok L t" "merkleroot t = Inr r"
  shows "length r = 32"
  using assms(2)
proof (cases rule: merkle_ok_cases)
  case empty
  then show ?thesis using assms(3) by (simp add: merkleroot_def make_empty_merkle_tree_def)
next
  case layers
  then have l: "layers t = sort (leaf_list t) # layers_above L (sort (leaf_list t))"
    "\<forall>x \<in> set (sort (leaf_list t)). length x = 32"
    by (auto simp: compute_layers_Inr leaf_ok_def)
  have r: "r \<in> set (last (layers t))" "last (layers t) \<in> set (layers t)"
    using assms(3) by (auto simp: merkleroot_def py_assert_def split: if_splits)
  show ?thesis
  proof (cases "last (layers t) = sort (leaf_list t)")
    case True
    then show ?thesis using r(1) l(2) by simp
  next
    case False
    then have "last (layers t) \<in> set (layers_above L (sort (leaf_list t)))"
      using r(2) unfolding l(1) by simp
    from layers_length32 [OF assms(1) l(2) this r(1)] show ?thesis .
  qed
qed

section \<open>Adding and removing leaves\<close>

lemma compute_layers_ok:
  assumes "xs \<noteq> []" "\<forall>x \<in> set xs. leaf_ok x" "distinct xs"
  obtains t where "compute_layers L xs = Inr (layers t)" "merkle_ok L t" "leaf_list t = sort xs"
proof -
  let ?t = "MerkleTreeState (sort xs # layers_above L (sort xs))"
  have c: "compute_layers L xs = Inr (layers ?t)"
    using assms by (simp add: compute_layers_Inr leaf_ok_def)
  have "merkle_ok L ?t" unfolding merkle_ok_def using c by blast
  with c show thesis by (intro that [of ?t]) (simp_all add: leaf_list_def)
qed

lemma with_known:
  "merkle_ok L t \<Longrightarrow> h \<in> set (leaf_list t) \<Longrightarrow> compute_merkletree_with L t h = Inr None"
  by (simp add: compute_merkletree_with_def merkle_ok_leaves)

lemma with_fresh:
  assumes "merkle_ok L t" "leaf_ok h" "h \<notin> set (leaf_list t)"
  shows "\<exists>t'. compute_merkletree_with L t h = Inr (Some t') \<and> merkle_ok L t' \<and>
    set (leaf_list t') = insert h (set (leaf_list t))"
proof -
  let ?xs = "leaf_list t @ [h]"
  have "?xs \<noteq> []" "\<forall>x \<in> set ?xs. leaf_ok x" "distinct ?xs"
    using assms by (auto simp: merkle_ok_leaf_ok merkle_ok_distinct)
  then obtain t' where "compute_layers L ?xs = Inr (layers t')" "merkle_ok L t'"
    "leaf_list t' = sort ?xs"
    by (rule compute_layers_ok)
  then show ?thesis
    using assms by (auto simp: compute_merkletree_with_def merkle_ok_leaves)
qed

lemma without_unknown:
  "merkle_ok L t \<Longrightarrow> h \<notin> set (leaf_list t) \<Longrightarrow> compute_merkletree_without L t h = Inr None"
  by (simp add: compute_merkletree_without_def merkle_ok_leaves)

lemma without_known:
  assumes "merkle_ok L t" "h \<in> set (leaf_list t)"
  shows "\<exists>t'. compute_merkletree_without L t h = Inr (Some t') \<and> merkle_ok L t' \<and>
    set (leaf_list t') = set (leaf_list t) - {h}"
proof (cases "remove1 h (leaf_list t) = []")
  case True
  then have "set (leaf_list t) - {h} = {}"
    using assms by (metis merkle_ok_distinct set_remove1_eq set_empty)
  then show ?thesis
    using True assms by (simp add: compute_merkletree_without_def merkle_ok_leaves)
next
  case False
  have "\<forall>x \<in> set (remove1 h (leaf_list t)). leaf_ok x" "distinct (remove1 h (leaf_list t))"
    using assms by (auto simp: merkle_ok_leaf_ok merkle_ok_distinct dest: notin_set_remove1)
  with False obtain t' where "compute_layers L (remove1 h (leaf_list t)) = Inr (layers t')"
    "merkle_ok L t'" "leaf_list t' = sort (remove1 h (leaf_list t))"
    by (rule compute_layers_ok)
  then show ?thesis
    using assms False
    by (auto simp: compute_merkletree_without_def merkle_ok_leaves merkle_ok_distinct)
qed

section \<open>The interface used by the channel\<close>

text \<open>
  A commitment to a set of hashes: the set determines the commitment, a fresh hash can be
  added, a member can be removed, and the root can always be read.
\<close>

locale lock_commitment =
  fixes ok :: "'t \<Rightarrow> bool" and valid :: "'h \<Rightarrow> bool" and members :: "'t \<Rightarrow> 'h list"
    and empty :: 't
    and add :: "'t \<Rightarrow> 'h \<Rightarrow> 't option result" and remove :: "'t \<Rightarrow> 'h \<Rightarrow> 't option result"
    and root :: "'t \<Rightarrow> 'h result"
  assumes ok_empty: "ok empty" and members_empty: "members empty = []"
    and members_distinct: "ok t \<Longrightarrow> distinct (members t)"
    and determined: "ok t \<Longrightarrow> ok u \<Longrightarrow> set (members t) = set (members u) \<Longrightarrow> t = u"
    and valid_members: "ok t \<Longrightarrow> h \<in> set (members t) \<Longrightarrow> valid h"
    and add_known: "ok t \<Longrightarrow> h \<in> set (members t) \<Longrightarrow> add t h = Inr None"
    and add_fresh: "ok t \<Longrightarrow> valid h \<Longrightarrow> h \<notin> set (members t) \<Longrightarrow>
      \<exists>u. add t h = Inr (Some u) \<and> ok u \<and> set (members u) = insert h (set (members t))"
    and remove_unknown: "ok t \<Longrightarrow> h \<notin> set (members t) \<Longrightarrow> remove t h = Inr None"
    and remove_known: "ok t \<Longrightarrow> h \<in> set (members t) \<Longrightarrow>
      \<exists>u. remove t h = Inr (Some u) \<and> ok u \<and> set (members u) = set (members t) - {h}"
    and root_total: "ok t \<Longrightarrow> \<exists>r. root t = Inr r"
begin

lemma add_total: "ok t \<Longrightarrow> valid h \<Longrightarrow> \<exists>r. add t h = Inr r"
  using add_known add_fresh by blast

lemma remove_total: "ok t \<Longrightarrow> \<exists>r. remove t h = Inr r"
  using remove_known remove_unknown by blast

lemma addD:
  assumes "ok t" "valid h" "add t h = Inr (Some u)"
  shows "ok u \<and> h \<notin> set (members t) \<and> set (members u) = insert h (set (members t))"
proof -
  have "h \<notin> set (members t)" using assms add_known by force
  with assms add_fresh show ?thesis by fastforce
qed

lemma removeD:
  assumes "ok t" "remove t h = Inr (Some u)"
  shows "ok u \<and> h \<in> set (members t) \<and> set (members u) = set (members t) - {h}"
proof -
  have "h \<in> set (members t)" using assms remove_unknown by force
  with assms remove_known show ?thesis by fastforce
qed

lemma add_width: "ok t \<Longrightarrow> valid h \<Longrightarrow> add t h = Inr (Some u) \<Longrightarrow>
    length (members u) = Suc (length (members t))"
  using addD members_distinct by (metis card_insert_disjoint distinct_card finite_set)

lemma remove_width: "ok t \<Longrightarrow> remove t h = Inr (Some u) \<Longrightarrow>
    Suc (length (members u)) = length (members t)"
  using removeD members_distinct
  by (metis card_Suc_Diff1 distinct_card finite_set)

lemma add_remove:
  assumes "ok t" "valid h" "add t h = Inr (Some u)"
  shows "remove u h = Inr (Some t)"
proof -
  from addD [OF assms] have u: "ok u" "h \<notin> set (members t)"
    "set (members u) = insert h (set (members t))" by auto
  then obtain t' where t': "remove u h = Inr (Some t')" "ok t'"
    "set (members t') = set (members u) - {h}" using remove_known by blast
  with u have "set (members t') = set (members t)" by auto
  with t' assms(1) show ?thesis using determined by blast
qed

lemma remove_add:
  assumes "ok t" "remove t h = Inr (Some u)"
  shows "add u h = Inr (Some t)"
proof -
  from removeD [OF assms] have u: "ok u" "h \<in> set (members t)"
    "set (members u) = set (members t) - {h}" by auto
  then obtain t' where t': "add u h = Inr (Some t')" "ok t'"
    "set (members t') = insert h (set (members u))"
    using add_fresh [of u h] valid_members [OF assms(1)] by auto
  with u have "set (members t') = set (members t)" by auto
  with t' assms(1) show ?thesis using determined by blast
qed

lemma add_commute:
  assumes "ok t" "valid h" "valid k" "add t h = Inr (Some u)" "add u k = Inr (Some v)"
  shows "\<exists>u'. add t k = Inr (Some u') \<and> add u' h = Inr (Some v)"
proof -
  from addD [OF assms(1,2,4)] have u: "ok u" "h \<notin> set (members t)"
    "set (members u) = insert h (set (members t))" by auto
  from addD [OF u(1) assms(3,5)] have v: "ok v" "k \<notin> set (members u)"
    "set (members v) = insert k (set (members u))" by auto
  from u v obtain u' where u': "add t k = Inr (Some u')" "ok u'"
    "set (members u') = insert k (set (members t))"
    using add_fresh assms(1,3) by blast
  with u v obtain v' where v': "add u' h = Inr (Some v')" "ok v'"
    "set (members v') = insert h (set (members u'))"
    using add_fresh [of u' h] assms(2) by auto
  with u v u' have "set (members v') = set (members v)" by auto
  with v v' u' show ?thesis using determined by blast
qed

end

interpretation mt: lock_commitment "merkle_ok L" leaf_ok leaf_list make_empty_merkle_tree
  "compute_merkletree_with L" "compute_merkletree_without L" merkleroot
  by unfold_locales
    (simp_all add: merkle_ok_distinct merkle_ok_leaf_ok with_known with_fresh
      without_unknown without_known merkleroot_ok merkle_ok_unique)

end
