(* ===== verification/DepositQueue.thy ===== *)
theory DepositQueue
  imports Prelude "HOL-Library.Product_Lexorder"
begin

text \<open>
  The queue of unconfirmed deposits.  \<open>TransactionChannelNewBalance\<close> and \<open>TransactionOrder\<close>
  (\<open>transfer/state.py\<close>) are ordered by \<open>functools.total_ordering\<close> over their \<open>__lt__\<close>; the
  channel keeps its queue with Python's \<open>heapq\<close>, whose \<open>heappush\<close>, \<open>heappop\<close> and the two sifts
  are modelled on the list itself.  The locale \<open>priority_queue\<close> is the contract the channel uses
  and is interpreted on them.
\<close>

section \<open>Deposits and their order (state.py)\<close>

datatype TransactionChannelNewBalance =
  TransactionChannelNewBalance (participant_address: bytes) (new_contract_balance: int)
    (deposit_block_number: int)

datatype TransactionOrder =
  TransactionOrder (order_block_number: int) (order_transaction: TransactionChannelNewBalance)

fun deposit_key :: "TransactionChannelNewBalance \<Rightarrow> bytes \<times> int \<times> int" where
  "deposit_key (TransactionChannelNewBalance a b n) = (a, b, n)"

lemma deposit_key_inject [simp]: "deposit_key x = deposit_key y \<longleftrightarrow> x = y"
  by (cases x; cases y) auto

instantiation TransactionChannelNewBalance :: linorder
begin

definition less_TransactionChannelNewBalance where
  "x < y \<longleftrightarrow> deposit_key x < deposit_key y"

definition less_eq_TransactionChannelNewBalance where
  "x \<le> y \<longleftrightarrow> deposit_key x \<le> deposit_key y"

instance
  by intro_classes
    (auto simp: less_TransactionChannelNewBalance_def less_eq_TransactionChannelNewBalance_def
      simp del: less_eq_prod_def dest: order_antisym)

end

fun order_key :: "TransactionOrder \<Rightarrow> int \<times> TransactionChannelNewBalance" where
  "order_key (TransactionOrder n t) = (n, t)"

lemma order_key_inject [simp]: "order_key x = order_key y \<longleftrightarrow> x = y"
  by (cases x; cases y) auto

instantiation TransactionOrder :: linorder
begin

definition less_TransactionOrder where
  "x < y \<longleftrightarrow> order_key x < order_key y"

definition less_eq_TransactionOrder where
  "x \<le> y \<longleftrightarrow> order_key x \<le> order_key y"

instance
  by intro_classes
    (auto simp: less_TransactionOrder_def less_eq_TransactionOrder_def dest: order_antisym)

end

lemma order_le_block: "x \<le> y \<Longrightarrow> order_block_number x \<le> order_block_number y"
  by (cases x; cases y) (auto simp: less_eq_TransactionOrder_def)

section \<open>heapq\<close>

function siftdown :: "'a::linorder list \<Rightarrow> 'a \<Rightarrow> nat \<Rightarrow> 'a list" where
  "siftdown heap newitem pos =
     (if pos > 0 \<and> newitem < heap ! ((pos - 1) div 2)
      then siftdown (heap[pos := heap ! ((pos - 1) div 2)]) newitem ((pos - 1) div 2)
      else heap[pos := newitem])"
  by pat_completeness auto
termination
  by (relation "measure (\<lambda>(heap, newitem, pos). pos)") auto

declare siftdown.simps [simp del]

text \<open>The smaller child of a position that has one; on a tie the right child.\<close>

definition smaller_child :: "'a::linorder list \<Rightarrow> nat \<Rightarrow> nat" where
  "smaller_child heap pos =
     (if 2 * pos + 2 < length heap \<and> \<not> heap ! (2 * pos + 1) < heap ! (2 * pos + 2)
      then 2 * pos + 2 else 2 * pos + 1)"

function siftup_loop :: "'a::linorder list \<Rightarrow> nat \<Rightarrow> 'a list \<times> nat" where
  "siftup_loop heap pos =
     (if 2 * pos + 1 < length heap
      then siftup_loop (heap[pos := heap ! smaller_child heap pos]) (smaller_child heap pos)
      else (heap, pos))"
  by pat_completeness auto
termination
  by (relation "measure (\<lambda>(heap, pos). length heap - pos)") (auto simp: smaller_child_def)

declare siftup_loop.simps [simp del]

definition siftup :: "'a::linorder list \<Rightarrow> 'a \<Rightarrow> 'a list" where
  "siftup heap newitem = (let (h, pos) = siftup_loop heap 0 in siftdown h newitem pos)"

definition heappush :: "'a::linorder list \<Rightarrow> 'a \<Rightarrow> 'a list" where
  "heappush heap item = siftdown (heap @ [item]) item (length heap)"

definition heappop :: "'a::linorder list \<Rightarrow> ('a \<times> 'a list) result" where
  "heappop heap =
     (if heap = [] then Inl IndexError
      else (let lastelt = last heap; rest = butlast heap
            in if rest = [] then Inr (lastelt, [])
               else Inr (hd rest, siftup rest lastelt)))"

subsection \<open>The heap property\<close>

abbreviation parent :: "nat \<Rightarrow> nat" where
  "parent i \<equiv> (i - 1) div 2"

definition heap_ok :: "'a::linorder list \<Rightarrow> bool" where
  "heap_ok h \<longleftrightarrow> (\<forall>i. 0 < i \<and> i < length h \<longrightarrow> h ! parent i \<le> h ! i)"

text \<open>The heap property except at a hole: its own entry does not count.\<close>

definition heap_hole :: "'a::linorder list \<Rightarrow> nat \<Rightarrow> bool" where
  "heap_hole h pos \<longleftrightarrow>
     pos < length h \<and>
     (\<forall>i. 0 < i \<and> i < length h \<and> i \<noteq> pos \<and> parent i \<noteq> pos \<longrightarrow> h ! parent i \<le> h ! i) \<and>
     (\<forall>i. 0 < i \<and> i < length h \<and> parent i = pos \<and> 0 < pos \<longrightarrow> h ! parent pos \<le> h ! i)"

definition below_children :: "'a::linorder \<Rightarrow> 'a list \<Rightarrow> nat \<Rightarrow> bool" where
  "below_children x h pos \<longleftrightarrow> (\<forall>i. 0 < i \<and> i < length h \<and> parent i = pos \<longrightarrow> x \<le> h ! i)"

lemma parent_less: "0 < i \<Longrightarrow> parent i < i"
  by simp

lemma length_siftdown [simp]: "length (siftdown h x pos) = length h"
  by (induction h x pos rule: siftdown.induct) (subst siftdown.simps, auto)

lemma length_siftup_loop: "siftup_loop h pos = (h', pos') \<Longrightarrow> length h' = length h"
proof (induction h pos rule: siftup_loop.induct)
  case (1 h pos)
  then show ?case
    by (cases "2 * pos + 1 < length h") (simp_all add: siftup_loop.simps [of h pos])
qed

lemma length_siftup [simp]: "length (siftup h x) = length h"
  by (simp add: siftup_def length_siftup_loop split: prod.split)

lemma heappop_length: "heappop h = Inr (x, h') \<Longrightarrow> length h = Suc (length h')"
proof (cases h rule: rev_cases)
  case (snoc ys y)
  assume "heappop h = Inr (x, h')"
  with snoc show ?thesis by (cases ys) (auto simp: heappop_def Let_def)
qed (simp add: heappop_def)

lemma mset_move:
  assumes "i < length h" "j < length h"
  shows "mset (h[i := h ! j, j := x]) = mset (h[i := x])"
proof (cases "i = j")
  case True
  then show ?thesis by simp
next
  case False
  have "h[i := h ! j, j := x] = h[i := x, i := h[i := x] ! j, j := h[i := x] ! i]"
    using assms False by simp
  then show ?thesis
    using mset_swap [of j "h[i := x]" i] assms by simp
qed

lemma mset_siftdown: "pos < length h \<Longrightarrow> mset (siftdown h x pos) = mset (h[pos := x])"
proof (induction h x pos rule: siftdown.induct)
  case (1 h x pos)
  show ?case
  proof (cases "pos > 0 \<and> x < h ! parent pos")
    case True
    then have "parent pos < length h" using "1.prems" by simp
    with True 1 show ?thesis
      by (simp add: siftdown.simps [of h x pos] mset_move)
  next
    case False
    then show ?thesis by (auto simp: siftdown.simps [of h x pos])
  qed
qed

lemma hole_step_down:
  assumes hole: "heap_hole h pos" and below: "below_children x h pos"
    and pos: "0 < pos" and less: "x < h ! parent pos"
  shows "heap_hole (h[pos := h ! parent pos]) (parent pos)"
    and "below_children x (h[pos := h ! parent pos]) (parent pos)"
proof -
  let ?p = "parent pos" and ?h = "h[pos := h ! parent pos]"
  have lp: "?p < pos" "pos < length h" "?p < length h"
    using pos hole by (auto simp: heap_hole_def)
  have up: "h ! parent i \<le> h ! i"
    if "0 < i" "i < length h" "i \<noteq> pos" "parent i \<noteq> pos" for i
    using hole that by (simp add: heap_hole_def)
  have grand: "h ! ?p \<le> h ! i" if "0 < i" "i < length h" "parent i = pos" for i
    using hole pos that by (simp add: heap_hole_def)
  have sib: "h ! ?p \<le> ?h ! i" if "0 < i" "i < length h" "parent i = ?p" for i
    using that lp up [of i] by (cases "i = pos") auto
  have pp: "h ! parent ?p \<le> h ! ?p" if "0 < ?p"
    using up [of ?p] lp parent_less [OF that] that by linarith
  have "?h ! parent i \<le> ?h ! i"
    if "0 < i" "i < length h" "i \<noteq> ?p" "parent i \<noteq> ?p" for i
    using that lp up [of i] grand [of i] by (cases "parent i = pos"; cases "i = pos") auto
  moreover have "?h ! parent ?p \<le> ?h ! i"
    if "0 < i" "i < length h" "parent i = ?p" "0 < ?p" for i
    using sib [OF that(1-3)] pp [OF that(4)] parent_less [OF that(4)] lp by simp
  ultimately show "heap_hole ?h ?p"
    using lp(3) unfolding heap_hole_def length_list_update by blast
  show "below_children x ?h ?p"
    unfolding below_children_def length_list_update
    using sib less by (meson less_imp_le order_trans)
qed

lemma heap_siftdown:
  "heap_hole h pos \<Longrightarrow> below_children x h pos \<Longrightarrow> heap_ok (siftdown h x pos)"
proof (induction h x pos rule: siftdown.induct)
  case (1 h x pos)
  show ?case
  proof (cases "pos > 0 \<and> x < h ! parent pos")
    case True
    with 1 show ?thesis
      using hole_step_down [of h pos x] by (simp add: siftdown.simps [of h x pos])
  next
    case False
    have "h[pos := x] ! parent i \<le> h[pos := x] ! i" if "0 < i" "i < length h" for i
      using that False "1.prems"
      by (cases "i = pos"; cases "parent i = pos") (auto simp: heap_hole_def below_children_def)
    then show ?thesis
      using False by (auto simp: siftdown.simps [of h x pos] heap_ok_def)
  qed
qed

lemma smaller_child_props:
  assumes "2 * pos + 1 < length h"
  shows "smaller_child h pos < length h" "parent (smaller_child h pos) = pos"
    "pos < smaller_child h pos" "0 < i \<Longrightarrow> i < length h \<Longrightarrow> parent i = pos \<Longrightarrow>
      h ! smaller_child h pos \<le> h ! i"
proof -
  show "smaller_child h pos < length h" "parent (smaller_child h pos) = pos"
    "pos < smaller_child h pos"
    using assms by (auto simp: smaller_child_def)
  assume i: "0 < i" "i < length h" "parent i = pos"
  then have "i = 2 * pos + 1 \<or> i = 2 * pos + 2" by arith
  then show "h ! smaller_child h pos \<le> h ! i"
    using i by (auto simp: smaller_child_def)
qed

lemma hole_step_up:
  assumes hole: "heap_hole h pos" and child: "2 * pos + 1 < length h"
  shows "heap_hole (h[pos := h ! smaller_child h pos]) (smaller_child h pos)"
proof -
  let ?c = "smaller_child h pos"
  let ?h = "h[pos := h ! ?c]"
  note c = smaller_child_props [OF child]
  have lp: "pos < length h" using hole by (simp add: heap_hole_def)
  have up: "h ! parent i \<le> h ! i"
    if "0 < i" "i < length h" "i \<noteq> pos" "parent i \<noteq> pos" for i
    using hole that by (simp add: heap_hole_def)
  have grand: "h ! parent pos \<le> h ! i" if "0 < i" "i < length h" "parent i = pos" "0 < pos" for i
    using hole that by (simp add: heap_hole_def)
  have "?h ! parent i \<le> ?h ! i"
    if "0 < i" "i < length h" "i \<noteq> ?c" "parent i \<noteq> ?c" for i
    using that lp c up [of i] grand [of ?c] parent_less [of pos]
    by (cases "i = pos"; cases "parent i = pos") auto
  moreover have "?h ! parent ?c \<le> ?h ! i"
    if "0 < i" "i < length h" "parent i = ?c" for i
    using that lp c up [of i] parent_less [of i] by auto
  ultimately show ?thesis using c(1) unfolding heap_hole_def length_list_update by blast
qed

lemma siftup_loop_props:
  "heap_hole h pos \<Longrightarrow> siftup_loop h pos = (h', pos') \<Longrightarrow>
     heap_hole h' pos' \<and> below_children x h' pos' \<and> length h' = length h \<and>
     mset (h'[pos' := x]) = mset (h[pos := x])"
proof (induction h pos rule: siftup_loop.induct)
  case (1 h pos)
  show ?case
  proof (cases "2 * pos + 1 < length h")
    case True
    have pos: "pos < length h" using "1.prems" by (simp add: heap_hole_def)
    from True 1 show ?thesis
      using hole_step_up [of h pos] smaller_child_props [OF True] pos
      by (simp add: siftup_loop.simps [of h pos] mset_move)
  next
    case False
    have "parent i \<noteq> pos" if "0 < i" "i < length h" for i
      using that False by arith
    then have "below_children x h pos" by (auto simp: below_children_def)
    with False 1 show ?thesis by (simp add: siftup_loop.simps [of h pos])
  qed
qed

lemma heap_hole_0: "heap_ok h \<Longrightarrow> h \<noteq> [] \<Longrightarrow> heap_hole h 0"
  by (auto simp: heap_ok_def heap_hole_def)

lemma siftup_props:
  assumes "heap_ok h" "h \<noteq> []"
  shows "heap_ok (siftup h x) \<and> mset (siftup h x) = mset (h[0 := x])"
proof -
  obtain h' pos' where l: "siftup_loop h 0 = (h', pos')" by force
  from siftup_loop_props [OF heap_hole_0 [OF assms] l, of x]
  show ?thesis
    by (auto simp: siftup_def l heap_siftdown mset_siftdown heap_hole_def)
qed

lemma heappush_props:
  assumes "heap_ok h"
  shows "heap_ok (heappush h x) \<and> mset (heappush h x) = add_mset x (mset h)"
proof -
  let ?h = "h @ [x]"
  have "?h ! parent i \<le> ?h ! i" if "0 < i" "i < length ?h" "i \<noteq> length h" for i
    using assms that by (auto simp: heap_ok_def nth_append)
  moreover have "parent i \<noteq> length h" if "0 < i" "i < length ?h" for i
    using that by simp
  ultimately have "heap_hole ?h (length h)" "below_children x ?h (length h)"
    by (auto simp: heap_hole_def below_children_def)
  then show ?thesis by (simp add: heappush_def heap_siftdown mset_siftdown)
qed

lemma heap_ok_butlast: "heap_ok h \<Longrightarrow> heap_ok (butlast h)"
  by (auto simp: heap_ok_def nth_butlast)

lemma heap_min: "heap_ok h \<Longrightarrow> i < length h \<Longrightarrow> h ! 0 \<le> h ! i"
proof (induction i rule: less_induct)
  case (less i)
  show ?case
  proof (cases "i = 0")
    case False
    then have "h ! 0 \<le> h ! parent i" using less by simp
    also have "\<dots> \<le> h ! i" using False less.prems by (simp add: heap_ok_def)
    finally show ?thesis .
  qed simp
qed

lemma heap_hd_le: "heap_ok h \<Longrightarrow> y \<in> set h \<Longrightarrow> hd h \<le> y"
  by (metis heap_min hd_conv_nth in_set_conv_nth length_greater_0_conv length_pos_if_in_set)

lemma heappop_props:
  assumes "heap_ok h" "h \<noteq> []"
  shows "\<exists>h'. heappop h = Inr (hd h, h') \<and> heap_ok h' \<and> mset h = add_mset (hd h) (mset h')"
proof (cases "butlast h = []")
  case True
  then obtain x where "h = [x]" using assms(2) by (metis append_butlast_last_id append_Nil)
  then show ?thesis by (simp add: heappop_def heap_ok_def)
next
  case False
  then obtain x xs where xs: "butlast h = x # xs" by (cases "butlast h") auto
  then have h: "h = x # xs @ [last h]" using assms(2) by (metis append_Cons append_butlast_last_id)
  from siftup_props [OF heap_ok_butlast [OF assms(1)] False, of "last h"] xs
  have "heap_ok (siftup (butlast h) (last h)) \<and>
    mset (siftup (butlast h) (last h)) = add_mset (last h) (mset xs)" by simp
  moreover have "mset h = add_mset x (add_mset (last h) (mset xs))" by (subst h) simp
  moreover have "hd h = x" by (subst h) simp
  ultimately show ?thesis using xs assms(2) by (simp add: heappop_def Let_def)
qed

section \<open>The contract of the queue\<close>

locale priority_queue =
  fixes ok :: "'q \<Rightarrow> bool" and items :: "'q \<Rightarrow> 'a::linorder multiset"
    and push :: "'q \<Rightarrow> 'a \<Rightarrow> 'q" and pop :: "'q \<Rightarrow> ('a \<times> 'q) result" and peek :: "'q \<Rightarrow> 'a result"
  assumes push_ok: "ok q \<Longrightarrow> ok (push q x)"
    and push_items: "ok q \<Longrightarrow> items (push q x) = add_mset x (items q)"
    and pop_empty: "items q = {#} \<Longrightarrow> pop q = Inl IndexError"
    and pop_least: "ok q \<Longrightarrow> items q \<noteq> {#} \<Longrightarrow>
      \<exists>x r. pop q = Inr (x, r) \<and> peek q = Inr x \<and> ok r \<and> items q = add_mset x (items r) \<and>
        (\<forall>y \<in># items q. x \<le> y)"
begin

lemma popD:
  assumes "ok q" "pop q = Inr (x, r)"
  shows "peek q = Inr x \<and> ok r \<and> items q = add_mset x (items r) \<and> (\<forall>y \<in># items q. x \<le> y)"
proof -
  have "items q \<noteq> {#}" using assms(2) pop_empty by force
  with assms pop_least show ?thesis by fastforce
qed

lemma pops_ascend: "ok q \<Longrightarrow> pop q = Inr (x, r) \<Longrightarrow> pop r = Inr (y, s) \<Longrightarrow> x \<le> y"
  using popD [of q x r] popD [of r y s] by simp

lemma peek_bound: "ok q \<Longrightarrow> peek q = Inr x \<Longrightarrow> y \<in># items q \<Longrightarrow> x \<le> y"
  using pop_least by fastforce

lemma pop_size: "ok q \<Longrightarrow> pop q = Inr (x, r) \<Longrightarrow> size (items q) = Suc (size (items r))"
  using popD by fastforce

end

interpretation hq: priority_queue heap_ok mset heappush heappop py_first
proof unfold_locales
  fix q :: "'a::linorder list" and x
  assume ok: "heap_ok q"
  show "heap_ok (heappush q x)" "mset (heappush q x) = add_mset x (mset q)"
    using heappush_props [OF ok] by simp_all
  assume "mset q \<noteq> {#}"
  then have "q \<noteq> []" by simp
  then show "\<exists>x r. heappop q = Inr (x, r) \<and> py_first q = Inr x \<and> heap_ok r \<and>
      mset q = add_mset x (mset r) \<and> (\<forall>y \<in># mset q. x \<le> y)"
    using heappop_props [OF ok] heap_hd_le [OF ok]
    by (cases q) (auto simp: py_first_def)
qed (simp add: heappop_def)

end
