(* ===== verification/ChannelState.thy ===== *)
theory ChannelState
  imports Encoding MerkleTree DepositQueue
begin

text \<open>
  The data of a payment channel: the state classes of \<open>transfer/state.py\<close> and
  \<open>transfer/mediated_transfer/state.py\<close> that a channel is made of, the messages and on-chain logs
  it receives (\<open>state_change.py\<close>) and the events it produces (\<open>events.py\<close>).  A class is a record
  with its attributes in the order of the source; a constructor that can refuse its arguments is
  a function \<open>mk_...\<close> with the source's checks in their order.  Checks of Python types
  (\<open>isinstance\<close>) are the types of the fields.
\<close>

section \<open>Identifiers (identifiers.py)\<close>

record CanonicalIdentifier =
  chain_identifier :: int
  token_network_address :: bytes
  channel_identifier :: int

definition canonical_identifier_validate :: "CanonicalIdentifier \<Rightarrow> unit result" where
  "canonical_identifier_validate c =
     (if channel_identifier c < 0 \<or> channel_identifier c > UINT256_MAX
      then Inl (ValueError ''channel id is invalid'') else Inr ())"

section \<open>Balance proofs (state.py)\<close>

record BalanceProofUnsignedState =
  bp_nonce :: int
  bp_transferred_amount :: int
  bp_locked_amount :: int
  bp_locksroot :: bytes
  bp_canonical_identifier :: CanonicalIdentifier

record BalanceProofSignedState = BalanceProofUnsignedState +
  bp_message_hash :: bytes
  bp_signature :: bytes
  bp_sender :: bytes

definition balance_proof_checks :: "int \<Rightarrow> int \<Rightarrow> bytes \<Rightarrow> unit result \<Rightarrow> unit result" where
  "balance_proof_checks nonce transferred locksroot k =
     (if nonce \<le> 0 then Inl (ValueError ''nonce cannot be zero or negative'')
      else if nonce > UINT64_MAX then Inl (ValueError ''nonce is too large'')
      else if transferred < 0 then Inl (ValueError ''transferred_amount cannot be negative'')
      else if transferred > UINT256_MAX then Inl (ValueError ''transferred_amount is too large'')
      else if length locksroot \<noteq> 32 then Inl (ValueError ''locksroot must have length 32'')
      else k)"

definition mk_BalanceProofUnsignedState ::
    "int \<Rightarrow> int \<Rightarrow> int \<Rightarrow> bytes \<Rightarrow> CanonicalIdentifier \<Rightarrow> BalanceProofUnsignedState result" where
  "mk_BalanceProofUnsignedState nonce transferred locked locksroot ci =
     res_bind (balance_proof_checks nonce transferred locksroot
         (canonical_identifier_validate ci)) (\<lambda>_.
       Inr \<lparr>bp_nonce = nonce, bp_transferred_amount = transferred, bp_locked_amount = locked,
            bp_locksroot = locksroot, bp_canonical_identifier = ci\<rparr>)"

definition mk_BalanceProofSignedState ::
    "int \<Rightarrow> int \<Rightarrow> int \<Rightarrow> bytes \<Rightarrow> bytes \<Rightarrow> bytes \<Rightarrow> bytes \<Rightarrow> CanonicalIdentifier
     \<Rightarrow> BalanceProofSignedState result" where
  "mk_BalanceProofSignedState nonce transferred locked locksroot message_hash signature sender ci =
     res_bind (balance_proof_checks nonce transferred locksroot
         (if length message_hash \<noteq> 32 then Inl (ValueError ''message_hash is an invalid hash'')
          else if length signature \<noteq> 65 then Inl (ValueError ''signature is an invalid signature'')
          else canonical_identifier_validate ci)) (\<lambda>_.
       Inr \<lparr>bp_nonce = nonce, bp_transferred_amount = transferred, bp_locked_amount = locked,
            bp_locksroot = locksroot, bp_canonical_identifier = ci,
            bp_message_hash = message_hash, bp_signature = signature, bp_sender = sender\<rparr>)"

text \<open>
  \<open>OptionalBalanceProofState\<close> is None or one of the two classes; the attributes both have are
  read through \<open>bp_data\<close>.
\<close>

datatype balance_proof = Unsigned BalanceProofUnsignedState | Signed BalanceProofSignedState

fun bp_data :: "balance_proof \<Rightarrow> BalanceProofUnsignedState" where
  "bp_data (Unsigned b) = b"
| "bp_data (Signed b) = BalanceProofUnsignedState.truncate b"

lemma bp_data_truncate [simp]:
  "bp_nonce (BalanceProofUnsignedState.truncate b) = bp_nonce b"
  "bp_transferred_amount (BalanceProofUnsignedState.truncate b) = bp_transferred_amount b"
  "bp_locked_amount (BalanceProofUnsignedState.truncate b) = bp_locked_amount b"
  "bp_locksroot (BalanceProofUnsignedState.truncate b) = bp_locksroot b"
  "bp_canonical_identifier (BalanceProofUnsignedState.truncate b) = bp_canonical_identifier b"
  by (simp_all add: BalanceProofUnsignedState.truncate_def)

text \<open>An envelope message as \<open>raiden/messages.py\<close> decodes it, and \<open>balanceproof_from_envelope\<close>.\<close>

record EnvelopeMessage =
  em_chain_id :: int
  em_message_identifier :: int
  em_nonce :: int
  em_transferred_amount :: int
  em_locked_amount :: int
  em_locksroot :: bytes
  em_channel_identifier :: int
  em_token_network_address :: bytes
  em_message_hash :: bytes
  em_signature :: bytes
  em_sender :: bytes

record UnlockMessage = EnvelopeMessage +
  um_payment_identifier :: int
  um_secret :: bytes

definition balanceproof_from_envelope ::
    "'a EnvelopeMessage_scheme \<Rightarrow> BalanceProofSignedState result" where
  "balanceproof_from_envelope m =
     mk_BalanceProofSignedState (em_nonce m) (em_transferred_amount m) (em_locked_amount m)
       (em_locksroot m) (em_message_hash m) (em_signature m) (em_sender m)
       \<lparr>chain_identifier = em_chain_id m, token_network_address = em_token_network_address m,
        channel_identifier = em_channel_identifier m\<rparr>"

section \<open>Hash time locks (state.py)\<close>

record HashTimeLockState =
  lock_amount :: int
  lock_expiration :: int
  lock_secrethash :: bytes
  lock_encoded :: bytes
  lock_lockhash :: bytes

text \<open>The constructor packs the three values with the \<open>Lock\<close> layout and hashes the result.\<close>

definition encode_lock :: "int \<Rightarrow> int \<Rightarrow> bytes \<Rightarrow> bytes result" where
  "encode_lock amount expiration secrethash =
     res_bind (wrap_buffer Lock_spec (buffer_for Lock_spec)) (\<lambda>packed.
     res_bind (buffer_setattr Lock_spec packed ''amount'' (FInt amount)) (\<lambda>packed.
     res_bind (buffer_setattr Lock_spec packed ''expiration'' (FInt expiration)) (\<lambda>packed.
       buffer_setattr Lock_spec packed ''secrethash'' (FBytes secrethash))))"

definition mk_HashTimeLockState ::
    "libs \<Rightarrow> int \<Rightarrow> int \<Rightarrow> bytes \<Rightarrow> HashTimeLockState result" where
  "mk_HashTimeLockState L amount expiration secrethash =
     res_bind (encode_lock amount expiration secrethash) (\<lambda>encoded.
       Inr \<lparr>lock_amount = amount, lock_expiration = expiration, lock_secrethash = secrethash,
            lock_encoded = encoded, lock_lockhash = keccak L encoded\<rparr>)"

text \<open>
  \<open>UnlockPartialProofState\<close> copies the attributes of its lock and adds the lock and the secret,
  so that it can stand wherever a lock is read (\<open>LockType\<close>).
\<close>

record UnlockPartialProofState = HashTimeLockState +
  pp_lock :: HashTimeLockState
  pp_secret :: bytes

definition mk_UnlockPartialProofState ::
    "HashTimeLockState \<Rightarrow> bytes \<Rightarrow> UnlockPartialProofState" where
  "mk_UnlockPartialProofState lock secret =
     \<lparr>lock_amount = lock_amount lock, lock_expiration = lock_expiration lock,
      lock_secrethash = lock_secrethash lock, lock_encoded = lock_encoded lock,
      lock_lockhash = lock_lockhash lock, pp_lock = lock, pp_secret = secret\<rparr>"

section \<open>Transfers (mediated\_transfer/state.py)\<close>

record 'b LockedTransferState =
  lt_payment_identifier :: int
  lt_payment_hash_invoice :: bytes
  lt_token :: bytes
  lt_balance_proof :: 'b
  lt_lock :: HashTimeLockState
  lt_initiator :: bytes
  lt_target :: bytes

type_synonym LockedTransferUnsignedState = "BalanceProofUnsignedState LockedTransferState"

record LockedTransferSignedState = "BalanceProofSignedState LockedTransferState" +
  lt_message_identifier :: int

definition mk_LockedTransferUnsignedState ::
    "int \<Rightarrow> bytes \<Rightarrow> bytes \<Rightarrow> BalanceProofUnsignedState \<Rightarrow> HashTimeLockState \<Rightarrow> bytes \<Rightarrow> bytes
     \<Rightarrow> LockedTransferUnsignedState result" where
  "mk_LockedTransferUnsignedState payment_id invoice token bp lock initiator target =
     (if bp_locksroot bp = EMPTY_MERKLE_ROOT
      then Inl (ValueError ''balance_proof must not be empty'')
      else Inr \<lparr>lt_payment_identifier = payment_id, lt_payment_hash_invoice = invoice,
             lt_token = token, lt_balance_proof = bp, lt_lock = lock,
             lt_initiator = initiator, lt_target = target\<rparr>)"

definition mk_LockedTransferSignedState ::
    "int \<Rightarrow> int \<Rightarrow> bytes \<Rightarrow> bytes \<Rightarrow> BalanceProofSignedState \<Rightarrow> HashTimeLockState \<Rightarrow> bytes \<Rightarrow> bytes
     \<Rightarrow> LockedTransferSignedState result" where
  "mk_LockedTransferSignedState message_id payment_id invoice token bp lock initiator target =
     (if bp_locksroot bp = EMPTY_MERKLE_ROOT
      then Inl (ValueError ''balance_proof must not be empty'')
      else Inr \<lparr>lt_payment_identifier = payment_id, lt_payment_hash_invoice = invoice,
             lt_token = token, lt_balance_proof = bp, lt_lock = lock,
             lt_initiator = initiator, lt_target = target, lt_message_identifier = message_id\<rparr>)"

section \<open>The channel (state.py)\<close>

datatype execution_result = SUCCESS | FAILURE

record TransactionExecutionStatus =
  started_block_number :: "int option"
  finished_block_number :: "int option"
  tx_result :: "execution_result option"

record NettingChannelEndState =
  es_address :: bytes
  contract_balance :: int
  secrethashes_to_lockedlocks :: "(bytes, HashTimeLockState) dict"
  secrethashes_to_unlockedlocks :: "(bytes, UnlockPartialProofState) dict"
  secrethashes_to_onchain_unlockedlocks :: "(bytes, UnlockPartialProofState) dict"
  es_merkletree :: MerkleTreeState
  es_balance_proof :: "balance_proof option"
  onchain_locksroot :: bytes

definition mk_NettingChannelEndState :: "bytes \<Rightarrow> int \<Rightarrow> NettingChannelEndState" where
  "mk_NettingChannelEndState address balance =
     \<lparr>es_address = address, contract_balance = balance, secrethashes_to_lockedlocks = [],
      secrethashes_to_unlockedlocks = [], secrethashes_to_onchain_unlockedlocks = [],
      es_merkletree = make_empty_merkle_tree, es_balance_proof = None,
      onchain_locksroot = EMPTY_MERKLE_ROOT\<rparr>"

record NettingChannelState =
  ch_canonical_identifier :: CanonicalIdentifier
  ch_token_address :: bytes
  payment_network_identifier :: bytes
  reveal_timeout :: int
  settle_timeout :: int
  mediation_fee :: int
  our_state :: NettingChannelEndState
  partner_state :: NettingChannelEndState
  deposit_transaction_queue :: "TransactionOrder list"
  open_transaction :: TransactionExecutionStatus
  close_transaction :: "TransactionExecutionStatus option"
  settle_transaction :: "TransactionExecutionStatus option"
  update_transaction :: "TransactionExecutionStatus option"

abbreviation ch_identifier :: "NettingChannelState \<Rightarrow> int" where
  "ch_identifier c \<equiv> channel_identifier (ch_canonical_identifier c)"

abbreviation ch_token_network_identifier :: "NettingChannelState \<Rightarrow> bytes" where
  "ch_token_network_identifier c \<equiv> token_network_address (ch_canonical_identifier c)"

abbreviation ch_chain_id :: "NettingChannelState \<Rightarrow> int" where
  "ch_chain_id c \<equiv> chain_identifier (ch_canonical_identifier c)"

definition mk_NettingChannelState ::
    "CanonicalIdentifier \<Rightarrow> bytes \<Rightarrow> bytes \<Rightarrow> int \<Rightarrow> int \<Rightarrow> int \<Rightarrow> NettingChannelEndState
     \<Rightarrow> NettingChannelEndState \<Rightarrow> TransactionExecutionStatus \<Rightarrow> TransactionExecutionStatus option
     \<Rightarrow> TransactionExecutionStatus option \<Rightarrow> TransactionExecutionStatus option
     \<Rightarrow> NettingChannelState result" where
  "mk_NettingChannelState ci token network reveal settle fee our partner open_tx close_tx
      settle_tx update_tx =
     (if reveal \<ge> settle then Inl (ValueError ''reveal_timeout must be smaller than settle_timeout'')
      else if reveal \<le> 0 then Inl (ValueError ''reveal_timeout must be a positive integer'')
      else if settle \<le> 0 then Inl (ValueError ''settle_timeout must be a positive integer'')
      else if tx_result open_tx \<noteq> Some SUCCESS
        then Inl (ValueError ''Cannot create a NettingChannelState with a non successfull open_transaction'')
      else if channel_identifier ci < 0 \<or> channel_identifier ci > UINT256_MAX
        then Inl (ValueError ''channel identifier should be a uint256'')
      else Inr \<lparr>ch_canonical_identifier = ci, ch_token_address = token,
             payment_network_identifier = network, reveal_timeout = reveal,
             settle_timeout = settle, mediation_fee = fee, our_state = our,
             partner_state = partner, deposit_transaction_queue = [], open_transaction = open_tx,
             close_transaction = close_tx, settle_transaction = settle_tx,
             update_transaction = update_tx\<rparr>)"

datatype channel_status =
    CHANNEL_STATE_CLOSED | CHANNEL_STATE_CLOSING | CHANNEL_STATE_OPENED
  | CHANNEL_STATE_SETTLED | CHANNEL_STATE_SETTLING | CHANNEL_STATE_UNUSABLE

definition CHANNEL_STATES_PRIOR_TO_CLOSED :: "channel_status set" where
  "CHANNEL_STATES_PRIOR_TO_CLOSED = {CHANNEL_STATE_OPENED, CHANNEL_STATE_CLOSING}"

section \<open>Reasons of a refusal\<close>

text \<open>
  The texts that the checks of \<open>channel.py\<close> build, as constructors that carry the values printed
  in them.
\<close>

datatype message_name = MsgLockedTransfer | MsgRefundTransfer | MsgLockExpired | MsgUnlock

datatype fault =
    ChannelAlreadyClosed
  | ChannelIdentifierMismatch int int
  | TokenNetworkMismatch bytes bytes
  | ChainIdMismatch int int
  | WouldOverflowOnchain int
  | NonceNotSequential int int
  | SignatureNotRecovered
  | SignatureOfSomeoneElse
  | LockhashHandledTwice
  | TooManyPendingTransfers
  | LocksrootMismatch bytes bytes
  | TransferredAmountMismatch int int
  | LockedAmountMismatch int int
  | AmountAboveDistributable int int
  | SecrethashOfEmptyHash
  | NoLockFor bytes
  | LockhashUnknown bytes
  | LockUnlockedOnchain
  | LockHasBeenUnlockedOnchain
  | NotExpiredYet int int

datatype reason = InvalidMessage message_name fault | RefundDoesNotMatch

section \<open>Received state changes (state\_change.py)\<close>

record ReceiveUnlock =
  ru_message_identifier :: int
  ru_secret :: bytes
  ru_secrethash :: bytes
  ru_balance_proof :: BalanceProofSignedState

definition mk_ReceiveUnlock ::
    "libs \<Rightarrow> int \<Rightarrow> bytes \<Rightarrow> BalanceProofSignedState \<Rightarrow> ReceiveUnlock" where
  "mk_ReceiveUnlock L message_id secret bp =
     \<lparr>ru_message_identifier = message_id, ru_secret = secret, ru_secrethash = keccak L secret,
      ru_balance_proof = bp\<rparr>"

record ReceiveLockExpired =
  rle_balance_proof :: BalanceProofSignedState
  rle_secrethash :: bytes
  rle_message_identifier :: int

record RouteState =
  route_node_address :: bytes
  route_channel_identifier :: int

record ReceiveTransferRefund =
  rtr_transfer :: LockedTransferSignedState
  rtr_routes :: "RouteState list"

record LightClientNonClosingBalanceProof =
  light_client_balance_proof :: UnlockMessage
  lc_balance_proof_signature :: bytes

text \<open>
  The messages of a light client that travel inside state changes and events, with the attributes
  the state machine reads.
\<close>

record LockedTransferMessage = EnvelopeMessage +
  ltm_payment_identifier :: int
  ltm_payment_hash_invoice :: bytes
  ltm_recipient :: bytes
  ltm_initiator :: bytes
  ltm_target :: bytes
  ltm_lock_expiration :: int
  ltm_lock_secrethash :: bytes

record SecretRequestMessage =
  srm_message_identifier :: int
  srm_payment_identifier :: int
  srm_secrethash :: bytes
  srm_amount :: int
  srm_expiration :: int

record RevealSecretMessage =
  rsm_message_identifier :: int
  rsm_secret :: bytes

text \<open>The description of a payment; \<open>secret\<close> is None for a light client's payment.\<close>

record TransferDescription =
  td_payment_network_identifier :: bytes
  td_payment_identifier :: int
  td_payment_hash_invoice :: bytes
  td_amount :: int
  td_allocated_fee :: int
  td_token_network_identifier :: bytes
  td_initiator :: bytes
  td_target :: bytes
  td_secret :: "bytes option"
  td_secrethash :: bytes

record ReceiveSecretReveal =
  rsr_secret :: bytes
  rsr_secrethash :: bytes
  rsr_sender :: bytes

definition mk_ReceiveSecretReveal :: "libs \<Rightarrow> bytes \<Rightarrow> bytes \<Rightarrow> ReceiveSecretReveal" where
  "mk_ReceiveSecretReveal L secret sender =
     \<lparr>rsr_secret = secret, rsr_secrethash = keccak L secret, rsr_sender = sender\<rparr>"

record ContractReceiveSecretReveal =
  csr_transaction_hash :: bytes
  csr_secret_registry_address :: bytes
  csr_secrethash :: bytes
  csr_secret :: bytes
  csr_block_number :: int
  csr_block_hash :: bytes

record ReceiveSecretRequest =
  rsq_payment_identifier :: int
  rsq_amount :: int
  rsq_expiration :: int
  rsq_secrethash :: bytes
  rsq_sender :: bytes

record ReceiveTransferRefundCancelRoute =
  rcr_routes :: "RouteState list"
  rcr_transfer :: LockedTransferSignedState
  rcr_secret :: bytes

datatype network_state = NODE_NETWORK_UNKNOWN | NODE_NETWORK_UNREACHABLE | NODE_NETWORK_REACHABLE

text \<open>
  The state changes.  The first ones reach a channel, the others the tasks of a payment;
  \<open>OtherStateChange\<close> stands for the classes that neither dispatches on.
\<close>

datatype state_change =
    Block (sc_block_number: int) (sc_gas_limit: int) (sc_block_hash: bytes)
  | ActionChannelClose CanonicalIdentifier string bytes bytes
  | ActionChannelSetFee CanonicalIdentifier int
  | ContractReceiveChannelClosed bytes bytes CanonicalIdentifier int bytes
  | ContractReceiveChannelClosedLight bytes bytes CanonicalIdentifier int bytes bytes
      "LightClientNonClosingBalanceProof option"
  | ContractReceiveUpdateTransfer bytes CanonicalIdentifier int int bytes
  | ContractReceiveChannelSettled bytes CanonicalIdentifier bytes bytes int bytes bytes
  | ContractReceiveChannelNewBalance bytes CanonicalIdentifier TransactionChannelNewBalance
      int bytes bytes
  | ContractReceiveChannelBatchUnlock bytes CanonicalIdentifier bytes bytes bytes int int int bytes
  | ActionInitInitiator TransferDescription "RouteState list"
  | ActionInitInitiatorLight TransferDescription "RouteState list" LockedTransferMessage
  | ActionInitMediator "RouteState list" RouteState LockedTransferSignedState
  | ActionInitTarget RouteState LockedTransferSignedState
  | ActionInitTargetLight RouteState LockedTransferSignedState LockedTransferMessage
  | ReceiveLockExpiredChange ReceiveLockExpired
  | ReceiveSecretRequestChange ReceiveSecretRequest
  | ReceiveSecretRequestLight ReceiveSecretRequest SecretRequestMessage
  | ReceiveSecretRevealChange ReceiveSecretReveal
  | ReceiveSecretRevealLight ReceiveSecretReveal RevealSecretMessage
  | ReceiveTransferRefundCancelRouteChange ReceiveTransferRefundCancelRoute
  | ReceiveTransferRefundChange ReceiveTransferRefund
  | ReceiveUnlockChange ReceiveUnlock
  | ReceiveUnlockLight ReceiveUnlock UnlockMessage
  | ContractReceiveSecretRevealChange ContractReceiveSecretReveal
  | ActionSendSecretRevealLight RevealSecretMessage bytes bytes
  | ActionSendSecretRequestLight SecretRequestMessage bytes bytes
  | ActionCancelPayment int
  | ActionChangeNodeNetworkState bytes network_state
  | OtherStateChange

section \<open>Events (events.py)\<close>

text \<open>
  The messages whose attributes the channel reads back after it has created them.
  \<open>SendLockedTransfer\<close> and \<open>SendRefundTransfer\<close> have the same attributes.
\<close>

record SendTransferEvent =
  ste_recipient :: bytes
  ste_channel_identifier :: int
  ste_message_identifier :: int
  ste_transfer :: LockedTransferUnsignedState

definition refund_from_sendmediated :: "SendTransferEvent \<Rightarrow> SendTransferEvent" where
  "refund_from_sendmediated e =
     \<lparr>ste_recipient = ste_recipient e, ste_channel_identifier = ste_channel_identifier e,
      ste_message_identifier = ste_message_identifier e, ste_transfer = ste_transfer e\<rparr>"

record SendBalanceProofEvent =
  sbp_recipient :: bytes
  sbp_channel_identifier :: int
  sbp_message_identifier :: int
  sbp_payment_identifier :: int
  sbp_token :: bytes
  sbp_secret :: bytes
  sbp_secrethash :: bytes
  sbp_balance_proof :: BalanceProofUnsignedState

definition mk_SendBalanceProof ::
    "libs \<Rightarrow> bytes \<Rightarrow> int \<Rightarrow> int \<Rightarrow> int \<Rightarrow> bytes \<Rightarrow> bytes \<Rightarrow> BalanceProofUnsignedState
     \<Rightarrow> SendBalanceProofEvent" where
  "mk_SendBalanceProof L recipient channel_id message_id payment_id token secret bp =
     \<lparr>sbp_recipient = recipient, sbp_channel_identifier = channel_id,
      sbp_message_identifier = message_id, sbp_payment_identifier = payment_id,
      sbp_token = token, sbp_secret = secret, sbp_secrethash = keccak L secret,
      sbp_balance_proof = bp\<rparr>"

record SendLockExpiredEvent =
  sle_recipient :: bytes
  sle_message_identifier :: int
  sle_balance_proof :: BalanceProofUnsignedState
  sle_secrethash :: bytes

record SendSecretRevealEvent =
  ssr_recipient :: bytes
  ssr_channel_identifier :: int
  ssr_message_identifier :: int
  ssr_secret :: bytes
  ssr_secrethash :: bytes

definition mk_SendSecretReveal ::
    "libs \<Rightarrow> bytes \<Rightarrow> int \<Rightarrow> int \<Rightarrow> bytes \<Rightarrow> SendSecretRevealEvent" where
  "mk_SendSecretReveal L recipient channel_id message_id secret =
     \<lparr>ssr_recipient = recipient, ssr_channel_identifier = channel_id,
      ssr_message_identifier = message_id, ssr_secret = secret, ssr_secrethash = keccak L secret\<rparr>"

record SendSecretRequestEvent =
  ssq_recipient :: bytes
  ssq_channel_identifier :: int
  ssq_message_identifier :: int
  ssq_payment_identifier :: int
  ssq_amount :: int
  ssq_expiration :: int
  ssq_secrethash :: bytes

text \<open>
  The message of a \<open>StoreMessageEvent\<close>: one that was received, or the unsigned message that
  \<open>from_event\<close> builds from an event, which has the attributes of the event.
\<close>

datatype stored_message =
    StoredLockedTransfer LockedTransferMessage
  | StoredSecretRequest SecretRequestMessage
  | StoredRevealSecret RevealSecretMessage
  | StoredUnlock UnlockMessage
  | SecretRequestOf SendSecretRequestEvent
  | RevealSecretOf SendSecretRevealEvent
  | UnlockOf SendBalanceProofEvent

text \<open>The texts that explain a failed payment or unlock.\<close>

datatype failure =
    LockExpiredText
  | BadSecretRequest
  | NoRouteAvailable
  | NoUsableRoute
  | LocksrootDiffers bytes bytes
  | RouteCanceled
  | UserCanceled
  | WaitingTransfer
  | TransferRefused reason

datatype event =
    ContractSendChannelClose CanonicalIdentifier "BalanceProofSignedState option" bytes string
  | ContractSendChannelSettle CanonicalIdentifier bytes NettingChannelState
  | ContractSendChannelUpdateTransfer int BalanceProofSignedState bytes
  | ContractSendChannelUpdateTransferLight int BalanceProofSignedState bytes bytes bytes
  | ContractSendChannelBatchUnlock CanonicalIdentifier bytes bytes
  | ContractSendSecretReveal int bytes bytes
  | EventInvalidReceivedTransferRefund int reason
  | EventInvalidReceivedLockExpired bytes reason
  | EventInvalidReceivedLockedTransfer int reason
  | EventInvalidReceivedUnlock bytes reason
  | SendProcessed bytes int int
  | SendLockExpired SendLockExpiredEvent
  | SendLockedTransfer SendTransferEvent
  | SendRefundTransfer SendTransferEvent
  | SendBalanceProof SendBalanceProofEvent
  | SendBalanceProofLight bytes SendBalanceProofEvent UnlockMessage
  | SendLockedTransferLight bytes int int LockedTransferMessage
  | SendSecretReveal SendSecretRevealEvent
  | SendSecretRevealLight bytes SendSecretRevealEvent RevealSecretMessage
  | SendSecretRequest SendSecretRequestEvent
  | SendSecretRequestLight bytes SendSecretRequestEvent SecretRequestMessage
  | StoreMessageEvent int int int stored_message bool
  | EventPaymentSentSuccess bytes bytes int int bytes bytes
  | EventPaymentSentFailed bytes bytes int bytes failure
  | EventPaymentReceivedSuccess bytes bytes int int bytes
  | EventRouteFailed bytes
  | EventUnlockSuccess int bytes
  | EventUnlockFailed int bytes failure
  | EventUnlockClaimSuccess int bytes
  | EventUnlockClaimFailed int bytes failure
  | EventUnexpectedSecretReveal bytes failure

end
