(* ===== verification/Signing.thy ===== *)
theory Signing
  imports ChannelState
begin

text \<open>
  What a balance proof signs and how a signature is checked: \<open>hash_balance_data\<close>
  (\<open>transfer/utils.py\<close>), \<open>pack_balance_proof\<close> and its variants (\<open>transfer/balance_proof.py\<close>),
  \<open>pack_data\<close> (\<open>utils/signing.py\<close>), \<open>eth_sign_sha3\<close> and \<open>recover\<close> (\<open>utils/signer.py\<close>) and
  \<open>is_valid_signature\<close> (\<open>transfer/channel.py\<close>).
\<close>

definition hash_balance_data :: "libs \<Rightarrow> int \<Rightarrow> int \<Rightarrow> bytes \<Rightarrow> bytes result" where
  "hash_balance_data L transferred locked locksroot =
     py_assert (locksroot \<noteq> []) ''locksroot is empty''
       (py_assert (length locksroot = 32) ''len(locksroot) == 32''
         (if transferred = 0 \<and> locked = 0 \<and> locksroot = EMPTY_HASH then Inr EMPTY_HASH
          else Inr (soliditySha3 L [AbiUint256, AbiUint256, AbiBytes32]
                      [VInt transferred, VInt locked, VBytes locksroot])))"

definition pack_data :: "libs \<Rightarrow> abi_type list \<Rightarrow> abi_value list \<Rightarrow> bytes result" where
  "pack_data L abi_types values =
     (if length abi_types \<noteq> length values
      then Inl (ValueError ''Length mismatch between provided abi types and values.'')
      else Inr (concat (map (\<lambda>(t, v). hex_encode_abi L t v) (zip abi_types values))))"

definition pack_balance_proof ::
    "libs \<Rightarrow> int \<Rightarrow> bytes \<Rightarrow> bytes \<Rightarrow> CanonicalIdentifier \<Rightarrow> MessageTypeId \<Rightarrow> bytes result" where
  "pack_balance_proof L nonce balance_hash additional_hash ci msg_type =
     pack_data L
       [AbiAddress, AbiUint256, AbiUint256, AbiUint256, AbiBytes32, AbiUint256, AbiBytes32]
       [VBytes (token_network_address ci), VInt (chain_identifier ci),
        VInt (message_type_id L msg_type), VInt (channel_identifier ci), VBytes balance_hash,
        VInt nonce, VBytes additional_hash]"

definition pack_balance_proof_update ::
    "libs \<Rightarrow> int \<Rightarrow> bytes \<Rightarrow> bytes \<Rightarrow> CanonicalIdentifier \<Rightarrow> bytes \<Rightarrow> bytes result" where
  "pack_balance_proof_update L nonce balance_hash additional_hash ci partner_signature =
     res_bind (pack_balance_proof L nonce balance_hash additional_hash ci BALANCE_PROOF_UPDATE)
       (\<lambda>packed. Inr (packed @ partner_signature))"

definition pack_reward_proof :: "libs \<Rightarrow> CanonicalIdentifier \<Rightarrow> int \<Rightarrow> int \<Rightarrow> bytes result" where
  "pack_reward_proof L ci reward_amount nonce =
     pack_data L [AbiUint256, AbiUint256, AbiAddress, AbiUint256, AbiUint256]
       [VInt (channel_identifier ci), VInt reward_amount, VBytes (token_network_address ci),
        VInt (chain_identifier ci), VInt nonce]"

section \<open>Recovery of the signer (signer.py)\<close>

fun decimal :: "nat \<Rightarrow> bytes" where
  "decimal n = (if n < 10 then [of_nat (48 + n)] else decimal (n div 10) @ [of_nat (48 + n mod 10)])"

declare decimal.simps [simp del]

text \<open>The bytes of \<open>Ethereum Signed Message:\<close> between 0x19 and the line feed.\<close>

definition eth_sign_prefix :: bytes where
  "eth_sign_prefix =
     [25, 69, 116, 104, 101, 114, 101, 117, 109, 32, 83, 105, 103, 110, 101, 100, 32,
      77, 101, 115, 115, 97, 103, 101, 58, 10]"

definition eth_sign_sha3 :: "libs \<Rightarrow> bytes \<Rightarrow> bytes" where
  "eth_sign_sha3 L data =
     keccak L (if take (length eth_sign_prefix) data \<noteq> eth_sign_prefix
               then eth_sign_prefix @ decimal (length data) @ data else data)"

definition recover :: "libs \<Rightarrow> bytes \<Rightarrow> bytes \<Rightarrow> bytes result" where
  "recover L data signature =
     res_bind (py_last signature) (\<lambda>v.
       case ecdsa_recover L (eth_sign_sha3 L data)
              (if v \<ge> 27 then butlast signature @ [v - 27] else signature) of
         None \<Rightarrow> Inl InvalidSignature
       | Some address \<Rightarrow> Inr address)"

text \<open>
  None where the signature is the sender's; otherwise the fault.  Every exception of \<open>recover\<close> is
  caught, those of the hashing before it are not.
\<close>

definition is_valid_signature ::
    "libs \<Rightarrow> BalanceProofSignedState \<Rightarrow> bytes \<Rightarrow> fault option result" where
  "is_valid_signature L bp sender_address =
     res_bind (hash_balance_data L (bp_transferred_amount bp) (bp_locked_amount bp)
                (bp_locksroot bp)) (\<lambda>balance_hash.
     res_bind (pack_balance_proof L (bp_nonce bp) balance_hash (bp_message_hash bp)
                (bp_canonical_identifier bp) BALANCE_PROOF) (\<lambda>data.
       Inr (case recover L data (bp_signature bp) of
              Inl _ \<Rightarrow> Some SignatureNotRecovered
            | Inr signer \<Rightarrow>
                if sender_address = signer then None else Some SignatureOfSomeoneElse)))"

lemma pack_balance_proof_total: "\<exists>d. pack_balance_proof L nonce bh ah ci m = Inr d"
  by (simp add: pack_balance_proof_def pack_data_def)

lemma hash_balance_data_total:
  "length locksroot = 32 \<Longrightarrow> \<exists>h. hash_balance_data L t l locksroot = Inr h"
  by (auto simp: hash_balance_data_def py_assert_def)

lemma is_valid_signature_total:
  assumes "length (bp_locksroot bp) = 32"
  shows "\<exists>f. is_valid_signature L bp a = Inr f"
proof -
  from assms obtain h where "hash_balance_data L (bp_transferred_amount bp)
      (bp_locked_amount bp) (bp_locksroot bp) = Inr h"
    using hash_balance_data_total by blast
  moreover obtain d where
    "pack_balance_proof L (bp_nonce bp) h (bp_message_hash bp) (bp_canonical_identifier bp)
       BALANCE_PROOF = Inr d"
    using pack_balance_proof_total by blast
  ultimately show ?thesis by (simp add: is_valid_signature_def)
qed

text \<open>The signature of a balance proof is valid for exactly one address.\<close>

lemma is_valid_signature_iff:
  "is_valid_signature L bp a = Inr None \<longleftrightarrow>
     (\<exists>h d. hash_balance_data L (bp_transferred_amount bp) (bp_locked_amount bp) (bp_locksroot bp)
         = Inr h \<and>
       pack_balance_proof L (bp_nonce bp) h (bp_message_hash bp) (bp_canonical_identifier bp)
         BALANCE_PROOF = Inr d \<and>
       recover L d (bp_signature bp) = Inr a)"
proof -
  have *: "(case r of Inl x \<Rightarrow> Some SignatureNotRecovered
      | Inr s \<Rightarrow> if a = s then None else Some SignatureOfSomeoneElse) = None \<longleftrightarrow> r = Inr a"
    for r :: "bytes result"
    by (cases r) auto
  show ?thesis by (simp add: is_valid_signature_def res_simps *)
qed

lemma is_valid_signature_unique:
  "is_valid_signature L bp a = Inr None \<Longrightarrow> is_valid_signature L bp b = Inr None \<Longrightarrow> a = b"
  by (auto simp: is_valid_signature_iff)

end
