(* ===== verification/Invoices.thy ===== *)
theory Invoices
  imports Prelude
begin

text \<open>
  Invoices: the status values of \<open>billing/invoices/constants\<close>, the two operations of the storage
  on the invoice table (\<open>storage/sqlite.py\<close>) and \<open>handle_received_invoice\<close>
  (\<open>billing/invoices/handlers/invoice_handler.py\<close>).  The table is the list of its rows; the time
  at which the handler runs is an argument; a call without a storage (\<open>None\<close>) is the value None.
\<close>

datatype InvoiceStatus = PENDING | EXPIRED | PAID

datatype invoice_error = INVOICE_NOT_EXISTS | INVOICE_EXPIRED | INVOICE_PAID

record invoice_row =
  inv_payment_hash :: bytes
  inv_status :: InvoiceStatus
  inv_expiration_date :: int

type_synonym storage = "invoice_row list option"

definition query_invoice :: "invoice_row list \<Rightarrow> bytes \<Rightarrow> invoice_row option" where
  "query_invoice rows h = find (\<lambda>r. inv_payment_hash r = h) rows"

definition update_invoice ::
    "invoice_row list \<Rightarrow> bytes \<Rightarrow> InvoiceStatus \<Rightarrow> invoice_row list" where
  "update_invoice rows h status =
     map (\<lambda>r. if inv_payment_hash r = h then r\<lparr>inv_status := status\<rparr> else r) rows"

definition is_invoice_expired :: "int \<Rightarrow> int \<Rightarrow> bool" where
  "is_invoice_expired now expiration_date \<longleftrightarrow> expiration_date < now"

text \<open>The result dictionary: valid, or not valid with the message.\<close>

type_synonym invoice_result = "invoice_error option"

definition handle_received_invoice ::
    "int \<Rightarrow> storage \<Rightarrow> bytes \<Rightarrow> (invoice_result \<times> storage) result" where
  "handle_received_invoice now storage payment_hash_invoice =
     (if payment_hash_invoice \<noteq> EMPTY_PAYMENT_HASH_INVOICE
      then (case storage of
              None \<Rightarrow> Inl AttributeError
            | Some rows \<Rightarrow>
                (case query_invoice rows payment_hash_invoice of
                   None \<Rightarrow> Inr (Some INVOICE_NOT_EXISTS, storage)
                 | Some invoice \<Rightarrow>
                     if inv_status invoice = PENDING
                     then Inr (None, Some (update_invoice rows payment_hash_invoice PAID))
                     else if is_invoice_expired now (inv_expiration_date invoice)
                     then Inr (Some INVOICE_EXPIRED, storage)
                     else if inv_status invoice = PAID then Inr (Some INVOICE_PAID, storage)
                     else Inr (None, storage)))
      else Inr (None, storage))"

lemma query_update_same:
  "query_invoice (update_invoice rows h s) h =
     map_option (\<lambda>r. r\<lparr>inv_status := s\<rparr>) (query_invoice rows h)"
  by (induction rows) (auto simp: query_invoice_def update_invoice_def)

lemma query_update_other:
  "h \<noteq> h' \<Longrightarrow> query_invoice (update_invoice rows h s) h' = query_invoice rows h'"
  by (induction rows) (auto simp: query_invoice_def update_invoice_def)

lemma empty_invoice_hash [simp]:
  "handle_received_invoice now s EMPTY_PAYMENT_HASH_INVOICE = Inr (None, s)"
  by (simp add: handle_received_invoice_def)

end
