(* ===== verification/Channel.thy ===== *)
theory Channel
  imports Signing Invoices
begin

text \<open>
  The queries and the validity checks of \<open>transfer/channel.py\<close>: what a channel end can read off
  its state, the amounts, the status, and whether a received message may be accepted.  A check
  returns \<open>Inl reason\<close> where the source returns \<open>(False, msg, None)\<close> and \<open>Inr\<close> of the new merkle
  tree where it returns \<open>(True, None, merkletree)\<close>.  An exception is an outer \<open>Inl\<close>.
\<close>

section \<open>Locks and thresholds\<close>

definition get_sender_expiration_threshold :: "'a HashTimeLockState_scheme \<Rightarrow> int" where
  "get_sender_expiration_threshold lock =
     lock_expiration lock + DEFAULT_NUMBER_OF_BLOCK_CONFIRMATIONS * 2"

definition get_receiver_expiration_threshold :: "'a HashTimeLockState_scheme \<Rightarrow> int" where
  "get_receiver_expiration_threshold lock =
     lock_expiration lock + DEFAULT_NUMBER_OF_BLOCK_CONFIRMATIONS"

definition is_lock_pending :: "NettingChannelEndState \<Rightarrow> bytes \<Rightarrow> bool" where
  "is_lock_pending e secrethash \<longleftrightarrow>
     dict_has (secrethashes_to_lockedlocks e) secrethash \<or>
     dict_has (secrethashes_to_unlockedlocks e) secrethash \<or>
     dict_has (secrethashes_to_onchain_unlockedlocks e) secrethash"

definition is_transaction_confirmed :: "int \<Rightarrow> int \<Rightarrow> bool" where
  "is_transaction_confirmed transaction_block_number blockchain_block_number \<longleftrightarrow>
     blockchain_block_number > transaction_block_number + DEFAULT_NUMBER_OF_BLOCK_CONFIRMATIONS"

definition is_deposit_confirmed :: "NettingChannelState \<Rightarrow> int \<Rightarrow> bool" where
  "is_deposit_confirmed c block_number \<longleftrightarrow>
     (case deposit_transaction_queue c of
        [] \<Rightarrow> False
      | order # _ \<Rightarrow> is_transaction_confirmed (order_block_number order) block_number)"

definition is_lock_locked :: "NettingChannelEndState \<Rightarrow> bytes \<Rightarrow> bool" where
  "is_lock_locked e secrethash \<longleftrightarrow> dict_has (secrethashes_to_lockedlocks e) secrethash"

text \<open>None where the lock has expired, otherwise the reason why it has not.\<close>

definition is_lock_expired ::
    "NettingChannelEndState \<Rightarrow> 'a HashTimeLockState_scheme \<Rightarrow> int \<Rightarrow> int \<Rightarrow> fault option" where
  "is_lock_expired e lock block_number threshold =
     (if dict_has (secrethashes_to_onchain_unlockedlocks e) (lock_secrethash lock)
      then Some LockHasBeenUnlockedOnchain
      else if block_number < threshold then Some (NotExpiredYet block_number threshold)
      else None)"

definition is_transfer_expired ::
    "LockedTransferSignedState \<Rightarrow> NettingChannelState \<Rightarrow> int \<Rightarrow> bool" where
  "is_transfer_expired transfer c block_number \<longleftrightarrow>
     is_lock_expired (our_state c) (lt_lock transfer) block_number
       (get_sender_expiration_threshold (lt_lock transfer)) = None"

definition is_secret_known_offchain :: "NettingChannelEndState \<Rightarrow> bytes \<Rightarrow> bool" where
  "is_secret_known_offchain e secrethash \<longleftrightarrow>
     dict_has (secrethashes_to_unlockedlocks e) secrethash"

definition is_secret_known_onchain :: "NettingChannelEndState \<Rightarrow> bytes \<Rightarrow> bool" where
  "is_secret_known_onchain e secrethash \<longleftrightarrow>
     dict_has (secrethashes_to_onchain_unlockedlocks e) secrethash"

definition is_secret_known :: "NettingChannelEndState \<Rightarrow> bytes \<Rightarrow> bool" where
  "is_secret_known e secrethash \<longleftrightarrow>
     dict_has (secrethashes_to_unlockedlocks e) secrethash \<or>
     dict_has (secrethashes_to_onchain_unlockedlocks e) secrethash"

definition get_secret :: "NettingChannelEndState \<Rightarrow> bytes \<Rightarrow> bytes option" where
  "get_secret e secrethash =
     (case dict_get (secrethashes_to_unlockedlocks e) secrethash of
        Some proof \<Rightarrow> Some (pp_secret proof)
      | None \<Rightarrow> map_option pp_secret
                 (dict_get (secrethashes_to_onchain_unlockedlocks e) secrethash))"

definition get_lock :: "NettingChannelEndState \<Rightarrow> bytes \<Rightarrow> HashTimeLockState option" where
  "get_lock e secrethash =
     (case dict_get (secrethashes_to_lockedlocks e) secrethash of
        Some lock \<Rightarrow> Some lock
      | None \<Rightarrow>
          (case dict_get (secrethashes_to_unlockedlocks e) secrethash of
             Some proof \<Rightarrow> Some (pp_lock proof)
           | None \<Rightarrow> map_option pp_lock
                      (dict_get (secrethashes_to_onchain_unlockedlocks e) secrethash)))"

definition lock_exists_in_either_channel_side :: "NettingChannelState \<Rightarrow> bytes \<Rightarrow> bool" where
  "lock_exists_in_either_channel_side c secrethash \<longleftrightarrow>
     (case get_lock (our_state c) secrethash of
        Some lock \<Rightarrow> True
      | None \<Rightarrow> get_lock (partner_state c) secrethash \<noteq> None)"

section \<open>Amounts\<close>

definition get_amount_unclaimed_onchain :: "NettingChannelEndState \<Rightarrow> int" where
  "get_amount_unclaimed_onchain e =
     sum_list (map (lock_amount \<circ> pp_lock) (dict_values (secrethashes_to_onchain_unlockedlocks e)))"

definition get_amount_locked :: "NettingChannelEndState \<Rightarrow> int" where
  "get_amount_locked e =
     sum_list (map lock_amount (dict_values (secrethashes_to_lockedlocks e))) +
     sum_list (map (lock_amount \<circ> pp_lock) (dict_values (secrethashes_to_unlockedlocks e))) +
     get_amount_unclaimed_onchain e"

record UnlockGain =
  from_our_locks :: int
  from_partner_locks :: int

definition get_batch_unlock_gain :: "NettingChannelState \<Rightarrow> UnlockGain" where
  "get_batch_unlock_gain c =
     \<lparr>from_our_locks =
        sum_list (map lock_amount (dict_values (secrethashes_to_lockedlocks (our_state c)))) +
        sum_list (map lock_amount (dict_values (secrethashes_to_unlockedlocks (our_state c)))),
      from_partner_locks =
        sum_list (map (lock_amount \<circ> pp_lock)
          (dict_values (secrethashes_to_onchain_unlockedlocks (partner_state c))))\<rparr>"

definition current_transferred_amount :: "NettingChannelEndState \<Rightarrow> int" where
  "current_transferred_amount e =
     (case es_balance_proof e of None \<Rightarrow> 0 | Some bp \<Rightarrow> bp_transferred_amount (bp_data bp))"

definition get_balance :: "NettingChannelEndState \<Rightarrow> NettingChannelEndState \<Rightarrow> int" where
  "get_balance sender receiver =
     contract_balance sender - current_transferred_amount sender
       + current_transferred_amount receiver"

text \<open>The tuple (locksroot, nonce, transferred amount, locked amount).\<close>

definition get_current_balanceproof :: "NettingChannelEndState \<Rightarrow> bytes \<times> int \<times> int \<times> int" where
  "get_current_balanceproof e =
     (case es_balance_proof e of
        Some bp \<Rightarrow> (bp_locksroot (bp_data bp), bp_nonce (bp_data bp),
                   bp_transferred_amount (bp_data bp), get_amount_locked e)
      | None \<Rightarrow> (EMPTY_MERKLE_ROOT, 0, 0, 0))"

definition get_current_nonce :: "NettingChannelEndState \<Rightarrow> int" where
  "get_current_nonce e =
     (case es_balance_proof e of Some bp \<Rightarrow> bp_nonce (bp_data bp) | None \<Rightarrow> 0)"

definition get_next_nonce :: "NettingChannelEndState \<Rightarrow> int" where
  "get_next_nonce e =
     (case es_balance_proof e of Some bp \<Rightarrow> bp_nonce (bp_data bp) + 1 | None \<Rightarrow> 1)"

definition get_distributable :: "NettingChannelEndState \<Rightarrow> NettingChannelEndState \<Rightarrow> int" where
  "get_distributable sender receiver =
     (case get_current_balanceproof sender of
        (_, _, transferred_amount, locked_amount) \<Rightarrow>
          min (max (UINT256_MAX - transferred_amount - locked_amount) 0)
              (get_balance sender receiver - get_amount_locked sender))"

definition is_valid_amount :: "NettingChannelEndState \<Rightarrow> int \<Rightarrow> bool" where
  "is_valid_amount e amount \<longleftrightarrow>
     (case get_current_balanceproof e of
        (_, _, transferred_amount, locked_amount) \<Rightarrow>
          transferred_amount + locked_amount + amount \<le> UINT256_MAX)"

section \<open>The unlock proof of a whole tree\<close>

definition index_by_lockhash ::
    "HashTimeLockState list \<Rightarrow> (bytes, HashTimeLockState) dict \<Rightarrow> (bytes, HashTimeLockState) dict"
  where
  "index_by_lockhash locks d = foldl (\<lambda>d lock. dict_set (lock_lockhash lock) lock d) d locks"

fun lookup_all :: "('k, 'v) dict \<Rightarrow> 'k list \<Rightarrow> 'v list result" where
  "lookup_all d [] = Inr []"
| "lookup_all d (k # ks) =
     (case dict_get d k of
        None \<Rightarrow> Inl KeyError
      | Some v \<Rightarrow> res_bind (lookup_all d ks) (\<lambda>vs. Inr (v # vs)))"

definition get_batch_unlock ::
    "NettingChannelEndState \<Rightarrow> HashTimeLockState list option result" where
  "get_batch_unlock e =
     res_bind (merkle_leaves (es_merkletree e)) (\<lambda>leaves.
       if leaves = [] then Inr None
       else
         let lockhashes_to_locks =
           index_by_lockhash (map pp_lock (dict_values (secrethashes_to_onchain_unlockedlocks e)))
             (index_by_lockhash (map pp_lock (dict_values (secrethashes_to_unlockedlocks e)))
               (index_by_lockhash (dict_values (secrethashes_to_lockedlocks e)) []))
         in res_bind (lookup_all lockhashes_to_locks leaves) (\<lambda>locks. Inr (Some locks)))"

definition get_number_of_pending_transfers :: "NettingChannelEndState \<Rightarrow> nat result" where
  "get_number_of_pending_transfers e = merkletree_width (es_merkletree e)"

section \<open>Status\<close>

definition get_status :: "NettingChannelState \<Rightarrow> channel_status" where
  "get_status c =
     (case settle_transaction c of
        Some settle \<Rightarrow>
          if tx_result settle = Some SUCCESS then CHANNEL_STATE_SETTLED
          else if finished_block_number settle = None then CHANNEL_STATE_SETTLING
          else CHANNEL_STATE_UNUSABLE
      | None \<Rightarrow>
          (case close_transaction c of
             Some close \<Rightarrow>
               if tx_result close = Some SUCCESS then CHANNEL_STATE_CLOSED
               else if finished_block_number close = None then CHANNEL_STATE_CLOSING
               else CHANNEL_STATE_UNUSABLE
           | None \<Rightarrow> CHANNEL_STATE_OPENED))"

section \<open>Balance proofs that can be used on-chain\<close>

definition is_balance_proof_safe_for_onchain_operations :: "BalanceProofSignedState \<Rightarrow> bool" where
  "is_balance_proof_safe_for_onchain_operations bp \<longleftrightarrow>
     bp_transferred_amount bp + bp_locked_amount bp \<le> UINT256_MAX"

definition is_balance_proof_usable_onchain ::
    "libs \<Rightarrow> BalanceProofSignedState \<Rightarrow> NettingChannelState \<Rightarrow> NettingChannelEndState
     \<Rightarrow> fault option result" where
  "is_balance_proof_usable_onchain L bp c sender =
     res_bind (is_valid_signature L bp (es_address sender)) (\<lambda>signature_msg.
       let expected_nonce = get_next_nonce sender;
           ci = bp_canonical_identifier bp
       in Inr
        (if get_status c \<noteq> CHANNEL_STATE_OPENED then Some ChannelAlreadyClosed
         else if channel_identifier ci \<noteq> ch_identifier c
           then Some (ChannelIdentifierMismatch (ch_identifier c) (channel_identifier ci))
         else if token_network_address ci \<noteq> ch_token_network_identifier c
           then Some (TokenNetworkMismatch (ch_token_network_identifier c)
                        (token_network_address ci))
         else if chain_identifier ci \<noteq> ch_chain_id c
           then Some (ChainIdMismatch (ch_chain_id c) (chain_identifier ci))
         else if \<not> is_balance_proof_safe_for_onchain_operations bp
           then Some (WouldOverflowOnchain (bp_transferred_amount bp + bp_locked_amount bp))
         else if bp_nonce bp \<noteq> expected_nonce
           then Some (NonceNotSequential expected_nonce (bp_nonce bp))
         else signature_msg))"

section \<open>Checks of received messages\<close>

text \<open>
  The invoice is handled before anything is checked, and the storage it leaves is returned with
  every outcome of the check.  \<open>now\<close> is the time at which the handler runs.
\<close>

definition valid_lockedtransfer_check ::
    "libs \<Rightarrow> int \<Rightarrow> NettingChannelState \<Rightarrow> NettingChannelEndState \<Rightarrow> NettingChannelEndState
     \<Rightarrow> message_name \<Rightarrow> BalanceProofSignedState \<Rightarrow> HashTimeLockState \<Rightarrow> bytes \<Rightarrow> storage
     \<Rightarrow> ((reason + MerkleTreeState \<times> invoice_result) \<times> storage) result" where
  "valid_lockedtransfer_check L now c sender receiver name bp lock payment_hash_invoice storage =
     res_bind (handle_received_invoice now storage payment_hash_invoice)
       (\<lambda>(invoice_result, storage').
     res_bind (compute_merkletree_with L (es_merkletree sender) (lock_lockhash lock)) (\<lambda>merkletree.
     case get_current_balanceproof sender of (_, _, transferred_amount, locked_amount) \<Rightarrow>
     let distributable = get_distributable sender receiver;
         expected_locked_amount = locked_amount + lock_amount lock;
         invalid = (\<lambda>f. Inr (Inl (InvalidMessage name f), storage'))
     in res_bind (is_balance_proof_usable_onchain L bp c sender) (\<lambda>unusable.
       case unusable of
         Some f \<Rightarrow> invalid f
       | None \<Rightarrow>
       (case merkletree of
         None \<Rightarrow> invalid LockhashHandledTwice
       | Some tree \<Rightarrow>
         res_bind (merkletree_width tree) (\<lambda>width.
           if width > MAXIMUM_PENDING_TRANSFERS then invalid TooManyPendingTransfers
           else res_bind (merkleroot tree) (\<lambda>locksroot_with_lock.
             if bp_locksroot bp \<noteq> locksroot_with_lock
               then invalid (LocksrootMismatch locksroot_with_lock (bp_locksroot bp))
             else if bp_transferred_amount bp \<noteq> transferred_amount
               then invalid (TransferredAmountMismatch transferred_amount
                              (bp_transferred_amount bp))
             else if bp_locked_amount bp \<noteq> expected_locked_amount
               then invalid (LockedAmountMismatch expected_locked_amount (bp_locked_amount bp))
             else if lock_amount lock > distributable
               then invalid (AmountAboveDistributable (lock_amount lock) distributable)
             else if lock_secrethash lock = EMPTY_HASH_KECCAK L
               then invalid SecrethashOfEmptyHash
             else Inr (Inr (tree, invoice_result), storage')))))))"

definition is_valid_lockedtransfer ::
    "libs \<Rightarrow> int \<Rightarrow> LockedTransferSignedState \<Rightarrow> NettingChannelState \<Rightarrow> NettingChannelEndState
     \<Rightarrow> NettingChannelEndState \<Rightarrow> storage
     \<Rightarrow> ((reason + MerkleTreeState \<times> invoice_result) \<times> storage) result" where
  "is_valid_lockedtransfer L now transfer c sender receiver storage =
     valid_lockedtransfer_check L now c sender receiver MsgLockedTransfer
       (lt_balance_proof transfer) (lt_lock transfer) (lt_payment_hash_invoice transfer) storage"

definition is_valid_lock_expired ::
    "libs \<Rightarrow> ReceiveLockExpired \<Rightarrow> NettingChannelState \<Rightarrow> NettingChannelEndState
     \<Rightarrow> NettingChannelEndState \<Rightarrow> int \<Rightarrow> (reason + MerkleTreeState) result" where
  "is_valid_lock_expired L sc c sender receiver block_number =
     (let secrethash = rle_secrethash sc;
          bp = rle_balance_proof sc;
          partner = partner_state c;
          lock_found =
            (case dict_get (secrethashes_to_lockedlocks partner) secrethash of
               Some lock \<Rightarrow> Some lock
             | None \<Rightarrow> map_option pp_lock
                        (dict_get (secrethashes_to_unlockedlocks partner) secrethash));
          invalid = (\<lambda>f. Inr (Inl (InvalidMessage MsgLockExpired f)))
      in case get_current_balanceproof sender of (_, _, transferred_amount, locked_amount) \<Rightarrow>
      res_bind (is_balance_proof_usable_onchain L bp c sender) (\<lambda>unusable.
      res_bind (case lock_found of
                  None \<Rightarrow> Inr None
                | Some lock \<Rightarrow>
                    compute_merkletree_without L (es_merkletree sender) (lock_lockhash lock))
        (\<lambda>merkletree.
        if dict_has (secrethashes_to_onchain_unlockedlocks partner) secrethash
          then invalid LockUnlockedOnchain
        else (case lock_found of
          None \<Rightarrow> invalid (NoLockFor secrethash)
        | Some lock \<Rightarrow>
        (case unusable of
          Some f \<Rightarrow> invalid f
        | None \<Rightarrow>
        (case merkletree of
          None \<Rightarrow> invalid LockhashHandledTwice
        | Some tree \<Rightarrow>
          res_bind (merkleroot tree) (\<lambda>locksroot_without_lock.
            case is_lock_expired receiver lock block_number
                   (get_receiver_expiration_threshold lock) of
              Some f \<Rightarrow> invalid f
            | None \<Rightarrow>
                if bp_locksroot bp \<noteq> locksroot_without_lock
                  then invalid (LocksrootMismatch locksroot_without_lock (bp_locksroot bp))
                else if bp_transferred_amount bp \<noteq> transferred_amount
                  then invalid (TransferredAmountMismatch transferred_amount
                                 (bp_transferred_amount bp))
                else if bp_locked_amount bp \<noteq> locked_amount - lock_amount lock
                  then invalid (LockedAmountMismatch (locked_amount - lock_amount lock)
                                 (bp_locked_amount bp))
                else Inr (Inr tree))))))))"

definition refund_transfer_matches_transfer ::
    "LockedTransferSignedState \<Rightarrow> LockedTransferUnsignedState \<Rightarrow> bool" where
  "refund_transfer_matches_transfer refund transfer \<longleftrightarrow>
     (if bp_sender (lt_balance_proof refund) = lt_target transfer then False
      else lt_payment_identifier transfer = lt_payment_identifier refund \<and>
           lock_amount (lt_lock transfer) = lock_amount (lt_lock refund) \<and>
           lock_secrethash (lt_lock transfer) = lock_secrethash (lt_lock refund) \<and>
           lt_target transfer = lt_target refund \<and>
           lock_expiration (lt_lock transfer) = lock_expiration (lt_lock refund) \<and>
           lt_token transfer = lt_token refund)"

definition is_valid_refund ::
    "libs \<Rightarrow> int \<Rightarrow> ReceiveTransferRefund \<Rightarrow> NettingChannelState \<Rightarrow> NettingChannelEndState
     \<Rightarrow> NettingChannelEndState \<Rightarrow> LockedTransferUnsignedState \<Rightarrow> (reason + MerkleTreeState) result"
  where
  "is_valid_refund L now refund c sender receiver received_transfer =
     res_bind (valid_lockedtransfer_check L now c sender receiver MsgRefundTransfer
                 (lt_balance_proof (rtr_transfer refund)) (lt_lock (rtr_transfer refund))
                 EMPTY_PAYMENT_HASH_INVOICE None) (\<lambda>(checked, _).
       Inr (case checked of
              Inl msg \<Rightarrow> Inl msg
            | Inr (tree, _) \<Rightarrow>
                if \<not> refund_transfer_matches_transfer (rtr_transfer refund) received_transfer
                then Inl RefundDoesNotMatch else Inr tree))"

definition is_valid_unlock ::
    "libs \<Rightarrow> ReceiveUnlock \<Rightarrow> NettingChannelState \<Rightarrow> NettingChannelEndState
     \<Rightarrow> (reason + MerkleTreeState) result" where
  "is_valid_unlock L unlock c sender =
     (let bp = ru_balance_proof unlock;
          invalid = (\<lambda>f. Inr (Inl (InvalidMessage MsgUnlock f)))
      in case get_current_balanceproof sender of (_, _, transferred_amount, locked_amount) \<Rightarrow>
      (case get_lock sender (ru_secrethash unlock) of
        None \<Rightarrow> invalid (NoLockFor (ru_secrethash unlock))
      | Some lock \<Rightarrow>
      res_bind (compute_merkletree_without L (es_merkletree sender) (lock_lockhash lock))
        (\<lambda>merkletree.
        case merkletree of
          None \<Rightarrow> invalid (LockhashUnknown (lock_lockhash lock))
        | Some tree \<Rightarrow>
          res_bind (merkleroot tree) (\<lambda>locksroot_without_lock.
          res_bind (is_balance_proof_usable_onchain L bp c sender) (\<lambda>unusable.
            case unusable of
              Some f \<Rightarrow> invalid f
            | None \<Rightarrow>
                if bp_locksroot bp \<noteq> locksroot_without_lock
                  then invalid (LocksrootMismatch locksroot_without_lock (bp_locksroot bp))
                else if bp_transferred_amount bp \<noteq> transferred_amount + lock_amount lock
                  then invalid (TransferredAmountMismatch (transferred_amount + lock_amount lock)
                                 (bp_transferred_amount bp))
                else if bp_locked_amount bp \<noteq> locked_amount - lock_amount lock
                  then invalid (LockedAmountMismatch (locked_amount - lock_amount lock)
                                 (bp_locked_amount bp))
                else Inr (Inr tree))))))"

end
