(* ===== verification/ChannelOps.thy ===== *)
theory ChannelOps
  imports Channel
begin

text \<open>
  The operations of \<open>transfer/channel.py\<close> that change a channel: creating and sending transfers,
  unlocks and expiry messages, registering secrets, and the handlers of received messages.  The
  source mutates the channel in place; here every operation returns the changed channel beside
  what the source returns.  The chain-side handlers are in \<open>ChannelMachine\<close>.
\<close>

section \<open>Small updates\<close>

abbreviation upd_our ::
    "(NettingChannelEndState \<Rightarrow> NettingChannelEndState) \<Rightarrow> NettingChannelState \<Rightarrow> NettingChannelState"
  where "upd_our f c \<equiv> c\<lparr>our_state := f (our_state c)\<rparr>"

abbreviation upd_partner ::
    "(NettingChannelEndState \<Rightarrow> NettingChannelEndState) \<Rightarrow> NettingChannelState \<Rightarrow> NettingChannelState"
  where "upd_partner f c \<equiv> c\<lparr>partner_state := f (partner_state c)\<rparr>"

definition del_unclaimed_lock :: "bytes \<Rightarrow> NettingChannelEndState \<Rightarrow> NettingChannelEndState" where
  "del_unclaimed_lock secrethash e =
     e\<lparr>secrethashes_to_lockedlocks := dict_del secrethash (secrethashes_to_lockedlocks e),
       secrethashes_to_unlockedlocks := dict_del secrethash (secrethashes_to_unlockedlocks e)\<rparr>"

definition del_lock :: "bytes \<Rightarrow> NettingChannelEndState \<Rightarrow> NettingChannelEndState result" where
  "del_lock secrethash e =
     py_assert (is_lock_pending e secrethash) ''is_lock_pending(end_state, secrethash)''
       (let e' = del_unclaimed_lock secrethash e
        in Inr (e'\<lparr>secrethashes_to_onchain_unlockedlocks :=
                    dict_del secrethash (secrethashes_to_onchain_unlockedlocks e')\<rparr>))"

text \<open>The three assignments by which a new lock is recorded in an end.\<close>

definition record_lock ::
    "balance_proof \<Rightarrow> MerkleTreeState \<Rightarrow> HashTimeLockState \<Rightarrow> NettingChannelEndState
     \<Rightarrow> NettingChannelEndState" where
  "record_lock bp tree lock e =
     e\<lparr>es_balance_proof := Some bp, es_merkletree := tree,
       secrethashes_to_lockedlocks :=
         dict_set (lock_secrethash lock) lock (secrethashes_to_lockedlocks e)\<rparr>"

definition set_proof ::
    "balance_proof \<Rightarrow> MerkleTreeState \<Rightarrow> NettingChannelEndState \<Rightarrow> NettingChannelEndState" where
  "set_proof bp tree e = e\<lparr>es_balance_proof := Some bp, es_merkletree := tree\<rparr>"

definition update_contract_balance :: "int \<Rightarrow> NettingChannelEndState \<Rightarrow> NettingChannelEndState" where
  "update_contract_balance balance e =
     (if balance > contract_balance e then e\<lparr>contract_balance := balance\<rparr> else e)"

section \<open>Sending\<close>

definition create_sendlockedtransfer ::
    "libs \<Rightarrow> NettingChannelState \<Rightarrow> bytes \<Rightarrow> bytes \<Rightarrow> int \<Rightarrow> int \<Rightarrow> int \<Rightarrow> bytes \<Rightarrow> int \<Rightarrow> bytes
     \<Rightarrow> (SendTransferEvent \<times> MerkleTreeState) result" where
  "create_sendlockedtransfer L c initiator target amount message_identifier payment_identifier
      payment_hash_invoice expiration secrethash =
     (let our = our_state c; partner = partner_state c
      in py_assert (amount \<le> get_distributable our partner)
        ''caller must make sure there is enough balance''
      (py_assert (get_status c = CHANNEL_STATE_OPENED)
        ''caller must make sure the channel is open''
      (res_bind (mk_HashTimeLockState L amount expiration secrethash) (\<lambda>lock.
       res_bind (compute_merkletree_with L (es_merkletree our) (lock_lockhash lock)) (\<lambda>added.
       (case added of
         None \<Rightarrow> Inl (AssertionError ''lock is already registered'')
       | Some tree \<Rightarrow>
         res_bind (merkleroot tree) (\<lambda>locksroot.
         let transferred_amount = current_transferred_amount our
         in py_assert (transferred_amount + amount \<le> UINT256_MAX)
           ''caller must make sure the result wont overflow''
         (res_bind (mk_BalanceProofUnsignedState (get_next_nonce our) transferred_amount
                      (get_amount_locked our + amount) locksroot (ch_canonical_identifier c))
           (\<lambda>bp.
          res_bind (mk_LockedTransferUnsignedState payment_identifier payment_hash_invoice
                      (ch_token_address c) bp lock initiator target) (\<lambda>transfer.
          Inr (\<lparr>ste_recipient = es_address partner, ste_channel_identifier = ch_identifier c,
                ste_message_identifier = message_identifier, ste_transfer = transfer\<rparr>,
               tree)))))))))))"

definition send_lockedtransfer ::
    "libs \<Rightarrow> NettingChannelState \<Rightarrow> bytes \<Rightarrow> bytes \<Rightarrow> int \<Rightarrow> int \<Rightarrow> int \<Rightarrow> bytes \<Rightarrow> int \<Rightarrow> bytes
     \<Rightarrow> (SendTransferEvent \<times> NettingChannelState) result" where
  "send_lockedtransfer L c initiator target amount message_identifier payment_identifier
      payment_hash_invoice expiration secrethash =
     res_bind (create_sendlockedtransfer L c initiator target amount message_identifier
                 payment_identifier payment_hash_invoice expiration secrethash)
       (\<lambda>(event, tree).
         let transfer = ste_transfer event
         in Inr (event, upd_our (record_lock (Unsigned (lt_balance_proof transfer)) tree
                                   (lt_lock transfer)) c))"

definition send_refundtransfer ::
    "libs \<Rightarrow> NettingChannelState \<Rightarrow> bytes \<Rightarrow> bytes \<Rightarrow> int \<Rightarrow> int \<Rightarrow> int \<Rightarrow> int \<Rightarrow> bytes
     \<Rightarrow> (SendTransferEvent \<times> NettingChannelState) result" where
  "send_refundtransfer L c initiator target amount message_identifier payment_identifier
      expiration secrethash =
     py_assert (dict_has (secrethashes_to_lockedlocks (partner_state c)) secrethash)
       ''Refunds are only valid for *known and pending* transfers''
     (py_assert (get_status c = CHANNEL_STATE_OPENED)
       ''caller must make sure the channel is open''
     (res_bind (create_sendlockedtransfer L c initiator target amount message_identifier
                 payment_identifier EMPTY_PAYMENT_HASH_INVOICE expiration secrethash)
       (\<lambda>(event, tree).
         let transfer = ste_transfer event
         in Inr (refund_from_sendmediated event,
                 upd_our (record_lock (Unsigned (lt_balance_proof transfer)) tree
                            (lt_lock transfer)) c))))"

text \<open>
  The light-client branch calls the constructor of \<open>SendBalanceProofLight\<close> without the arguments
  \<open>sender\<close> and \<open>signed_balance_proof\<close> that it requires.
\<close>

definition create_unlock ::
    "libs \<Rightarrow> NettingChannelState \<Rightarrow> int \<Rightarrow> int \<Rightarrow> bytes \<Rightarrow> HashTimeLockState \<Rightarrow> bool
     \<Rightarrow> (SendBalanceProofEvent \<times> MerkleTreeState) result" where
  "create_unlock L c message_identifier payment_identifier secret lock is_light_client =
     (let our = our_state c
      in py_assert (is_lock_pending our (lock_secrethash lock))
        ''caller must make sure the lock is known''
      (py_assert (get_status c = CHANNEL_STATE_OPENED)
        ''caller must make sure the channel is open''
      (case es_balance_proof our of
        None \<Rightarrow> Inl (AssertionError ''the lock is pending, it must be in the merkletree'')
      | Some our_bp \<Rightarrow>
        res_bind (compute_merkletree_without L (es_merkletree our) (lock_lockhash lock))
          (\<lambda>removed.
          (case removed of
            None \<Rightarrow> Inl (AssertionError ''the lock is pending, it must be in the merkletree'')
          | Some tree \<Rightarrow>
            res_bind (merkleroot tree) (\<lambda>locksroot.
            res_bind (mk_BalanceProofUnsignedState (get_next_nonce our)
                        (lock_amount lock + bp_transferred_amount (bp_data our_bp))
                        (get_amount_locked our - lock_amount lock) locksroot
                        (ch_canonical_identifier c)) (\<lambda>bp.
            if is_light_client then Inl TypeError
            else Inr (mk_SendBalanceProof L (es_address (partner_state c)) (ch_identifier c)
                        message_identifier payment_identifier (ch_token_address c) secret bp,
                      tree))))))))"

definition send_unlock ::
    "libs \<Rightarrow> NettingChannelState \<Rightarrow> int \<Rightarrow> int \<Rightarrow> bytes \<Rightarrow> bytes \<Rightarrow> bool
     \<Rightarrow> (SendBalanceProofEvent \<times> NettingChannelState) result" where
  "send_unlock L c message_identifier payment_identifier secret secrethash is_light_client =
     (case get_lock (our_state c) secrethash of
        None \<Rightarrow> Inl (AssertionError ''caller must ensure the lock exists'')
      | Some lock \<Rightarrow>
        res_bind (create_unlock L c message_identifier payment_identifier secret lock
                    is_light_client) (\<lambda>(unlock, tree).
        res_bind (del_lock (lock_secrethash lock)
                    (set_proof (Unsigned (sbp_balance_proof unlock)) tree (our_state c)))
          (\<lambda>our. Inr (unlock, c\<lparr>our_state := our\<rparr>))))"

definition create_send_balance_proof_light ::
    "libs \<Rightarrow> NettingChannelState \<Rightarrow> UnlockMessage \<Rightarrow> bytes \<Rightarrow> bytes \<Rightarrow> event result" where
  "create_send_balance_proof_light L c unlock sender recipient =
     res_bind (mk_BalanceProofUnsignedState (em_nonce unlock) (em_transferred_amount unlock)
                 (em_locked_amount unlock) (em_locksroot unlock) (ch_canonical_identifier c))
       (\<lambda>bp. Inr (SendBalanceProofLight sender
          (mk_SendBalanceProof L recipient (ch_identifier c) (em_message_identifier unlock)
             (um_payment_identifier unlock) (ch_token_address c) (um_secret unlock) bp)
          unlock))"

definition create_sendexpiredlock ::
    "libs \<Rightarrow> NettingChannelEndState \<Rightarrow> 'a HashTimeLockState_scheme \<Rightarrow> prng \<Rightarrow> int \<Rightarrow> bytes \<Rightarrow> int
     \<Rightarrow> bytes \<Rightarrow> ((SendLockExpiredEvent \<times> MerkleTreeState) option \<times> prng) result" where
  "create_sendexpiredlock L sender locked_lock g chain_id token_network channel_id recipient =
     (case es_balance_proof sender of
        None \<Rightarrow>
          Inl (AssertionError ''there should be a balance proof because a lock is expiring'')
      | Some sender_bp \<Rightarrow>
        res_bind (compute_merkletree_without L (es_merkletree sender) (lock_lockhash locked_lock))
          (\<lambda>removed.
          (case removed of
            None \<Rightarrow> Inr (None, g)
          | Some tree \<Rightarrow>
            res_bind (merkleroot tree) (\<lambda>locksroot.
            res_bind (mk_BalanceProofUnsignedState (get_next_nonce sender)
                        (bp_transferred_amount (bp_data sender_bp))
                        (get_amount_locked sender - lock_amount locked_lock) locksroot
                        \<lparr>chain_identifier = chain_id, token_network_address = token_network,
                         channel_identifier = channel_id\<rparr>) (\<lambda>bp.
            let (message_id, g') = message_identifier_from_prng L g
            in Inr (Some (\<lparr>sle_recipient = recipient, sle_message_identifier = message_id,
                           sle_balance_proof = bp,
                           sle_secrethash = lock_secrethash locked_lock\<rparr>, tree), g'))))))"

definition events_for_expired_lock ::
    "libs \<Rightarrow> NettingChannelState \<Rightarrow> 'a HashTimeLockState_scheme \<Rightarrow> prng
     \<Rightarrow> (event list \<times> NettingChannelState \<times> prng) result" where
  "events_for_expired_lock L c locked_lock g =
     py_assert (get_status c = CHANNEL_STATE_OPENED) ''caller must make sure the channel is open''
     (res_bind (create_sendexpiredlock L (our_state c) locked_lock g (ch_chain_id c)
                 (ch_token_network_identifier c) (ch_identifier c)
                 (es_address (partner_state c))) (\<lambda>(sent, g').
        Inr (case sent of
               Some (event, tree) \<Rightarrow>
                 ([SendLockExpired event],
                  upd_our (\<lambda>our. del_unclaimed_lock (lock_secrethash locked_lock)
                             (set_proof (Unsigned (sle_balance_proof event)) tree our)) c, g')
             | None \<Rightarrow> ([], c, g'))))"

section \<open>Secrets\<close>

definition register_secret_endstate ::
    "bytes \<Rightarrow> bytes \<Rightarrow> NettingChannelEndState \<Rightarrow> NettingChannelEndState" where
  "register_secret_endstate secret secrethash e =
     (case dict_get (secrethashes_to_lockedlocks e) secrethash of
        None \<Rightarrow> e
      | Some pending_lock \<Rightarrow>
          e\<lparr>secrethashes_to_lockedlocks := dict_del secrethash (secrethashes_to_lockedlocks e),
            secrethashes_to_unlockedlocks :=
              dict_set secrethash (mk_UnlockPartialProofState pending_lock secret)
                (secrethashes_to_unlockedlocks e)\<rparr>)"

definition register_onchain_secret_endstate ::
    "bytes \<Rightarrow> bytes \<Rightarrow> int \<Rightarrow> bool \<Rightarrow> NettingChannelEndState \<Rightarrow> NettingChannelEndState result" where
  "register_onchain_secret_endstate secret secrethash reveal_block delete_lock e =
     (let pending_lock =
        (case dict_get (secrethashes_to_unlockedlocks e) secrethash of
           Some proof \<Rightarrow> Some (pp_lock proof)
         | None \<Rightarrow> dict_get (secrethashes_to_lockedlocks e) secrethash)
      in case pending_lock of
           None \<Rightarrow> Inr e
         | Some lock \<Rightarrow>
             if lock_expiration lock < reveal_block then Inr e
             else res_bind (if delete_lock then del_lock secrethash e else Inr e) (\<lambda>e'.
               Inr (e'\<lparr>secrethashes_to_onchain_unlockedlocks :=
                         dict_set secrethash (mk_UnlockPartialProofState lock secret)
                           (secrethashes_to_onchain_unlockedlocks e')\<rparr>)))"

definition register_offchain_secret ::
    "NettingChannelState \<Rightarrow> bytes \<Rightarrow> bytes \<Rightarrow> NettingChannelState" where
  "register_offchain_secret c secret secrethash =
     upd_partner (register_secret_endstate secret secrethash)
       (upd_our (register_secret_endstate secret secrethash) c)"

definition register_onchain_secret ::
    "NettingChannelState \<Rightarrow> bytes \<Rightarrow> bytes \<Rightarrow> int \<Rightarrow> bool \<Rightarrow> NettingChannelState result" where
  "register_onchain_secret c secret secrethash reveal_block delete_lock =
     res_bind (register_onchain_secret_endstate secret secrethash reveal_block delete_lock
                 (our_state c)) (\<lambda>our.
     res_bind (register_onchain_secret_endstate secret secrethash reveal_block delete_lock
                 (partner_state c)) (\<lambda>partner.
       Inr (c\<lparr>our_state := our, partner_state := partner\<rparr>)))"

section \<open>Receiving\<close>

definition send_processed :: "bytes \<Rightarrow> int \<Rightarrow> event" where
  "send_processed recipient message_id =
     SendProcessed recipient CHANNEL_IDENTIFIER_GLOBAL_QUEUE message_id"

text \<open>\<open>EventsOrError\<close>: the events and the reason of a refusal (None where the message is valid).\<close>

definition handle_refundtransfer ::
    "libs \<Rightarrow> int \<Rightarrow> LockedTransferUnsignedState \<Rightarrow> NettingChannelState \<Rightarrow> ReceiveTransferRefund
     \<Rightarrow> ((event list \<times> reason option) \<times> NettingChannelState) result" where
  "handle_refundtransfer L now received_transfer c refund =
     res_bind (is_valid_refund L now refund c (partner_state c) (our_state c) received_transfer)
       (\<lambda>checked. Inr
         (case checked of
            Inr tree \<Rightarrow>
              (([send_processed (bp_sender (lt_balance_proof (rtr_transfer refund)))
                   (lt_message_identifier (rtr_transfer refund))], None),
               upd_partner (record_lock (Signed (lt_balance_proof (rtr_transfer refund))) tree
                              (lt_lock (rtr_transfer refund))) c)
          | Inl msg \<Rightarrow>
              (([EventInvalidReceivedTransferRefund (lt_payment_identifier received_transfer) msg],
                Some msg), c)))"

definition handle_receive_lock_expired ::
    "libs \<Rightarrow> NettingChannelState \<Rightarrow> ReceiveLockExpired \<Rightarrow> int
     \<Rightarrow> (event list \<times> NettingChannelState) result" where
  "handle_receive_lock_expired L c sc block_number =
     res_bind (is_valid_lock_expired L sc c (partner_state c) (our_state c) block_number)
       (\<lambda>checked. Inr
         (case checked of
            Inr tree \<Rightarrow>
              ([send_processed (bp_sender (rle_balance_proof sc)) (rle_message_identifier sc)],
               upd_partner (\<lambda>partner. del_unclaimed_lock (rle_secrethash sc)
                              (set_proof (Signed (rle_balance_proof sc)) tree partner)) c)
          | Inl msg \<Rightarrow> ([EventInvalidReceivedLockExpired (rle_secrethash sc) msg], c)))"

record lockedtransfer_outcome =
  out_events :: "event list"
  out_msg :: "reason option"
  out_invoice :: "invoice_result option"

definition receive_lockedtransfer_with ::
    "event list \<Rightarrow> libs \<Rightarrow> int \<Rightarrow> NettingChannelState \<Rightarrow> LockedTransferSignedState \<Rightarrow> storage
     \<Rightarrow> (lockedtransfer_outcome \<times> NettingChannelState \<times> storage) result" where
  "receive_lockedtransfer_with accepted_events L now c transfer storage =
     res_bind (is_valid_lockedtransfer L now transfer c (partner_state c) (our_state c) storage)
       (\<lambda>(checked, storage'). Inr
         (case checked of
            Inr (tree, invoice_result) \<Rightarrow>
              (\<lparr>out_events = accepted_events, out_msg = None, out_invoice = Some invoice_result\<rparr>,
               upd_partner (record_lock (Signed (lt_balance_proof transfer)) tree
                              (lt_lock transfer)) c, storage')
          | Inl msg \<Rightarrow>
              (\<lparr>out_events =
                  [EventInvalidReceivedLockedTransfer (lt_payment_identifier transfer) msg],
                out_msg = Some msg, out_invoice = None\<rparr>, c, storage')))"

text \<open>The two handlers differ in the events of an accepted transfer only.\<close>

definition handle_receive_lockedtransfer ::
    "libs \<Rightarrow> int \<Rightarrow> NettingChannelState \<Rightarrow> LockedTransferSignedState \<Rightarrow> storage
     \<Rightarrow> (lockedtransfer_outcome \<times> NettingChannelState \<times> storage) result" where
  "handle_receive_lockedtransfer L now c transfer storage =
     receive_lockedtransfer_with
       [send_processed (bp_sender (lt_balance_proof transfer)) (lt_message_identifier transfer)]
       L now c transfer storage"

definition handle_receive_lockedtransfer_light ::
    "libs \<Rightarrow> int \<Rightarrow> NettingChannelState \<Rightarrow> LockedTransferSignedState \<Rightarrow> storage
     \<Rightarrow> (lockedtransfer_outcome \<times> NettingChannelState \<times> storage) result" where
  "handle_receive_lockedtransfer_light L now c transfer storage =
     receive_lockedtransfer_with [] L now c transfer storage"

definition handle_receive_refundtransfercancelroute ::
    "libs \<Rightarrow> int \<Rightarrow> NettingChannelState \<Rightarrow> LockedTransferSignedState
     \<Rightarrow> (lockedtransfer_outcome \<times> NettingChannelState \<times> storage) result" where
  "handle_receive_refundtransfercancelroute L now c refund_transfer =
     handle_receive_lockedtransfer L now c refund_transfer None"

definition receive_unlock_with ::
    "event list \<Rightarrow> libs \<Rightarrow> NettingChannelState \<Rightarrow> ReceiveUnlock
     \<Rightarrow> ((event list \<times> reason option) \<times> NettingChannelState) result" where
  "receive_unlock_with accepted_events L c unlock =
     res_bind (is_valid_unlock L unlock c (partner_state c)) (\<lambda>checked.
       case checked of
         Inr tree \<Rightarrow>
           res_bind (del_lock (ru_secrethash unlock)
                       (set_proof (Signed (ru_balance_proof unlock)) tree (partner_state c)))
             (\<lambda>partner. Inr ((accepted_events, None), c\<lparr>partner_state := partner\<rparr>))
       | Inl msg \<Rightarrow>
           Inr (([EventInvalidReceivedUnlock (ru_secrethash unlock) msg], Some msg), c))"

definition handle_unlock ::
    "libs \<Rightarrow> NettingChannelState \<Rightarrow> ReceiveUnlock
     \<Rightarrow> ((event list \<times> reason option) \<times> NettingChannelState) result" where
  "handle_unlock L c unlock =
     receive_unlock_with
       [send_processed (bp_sender (ru_balance_proof unlock)) (ru_message_identifier unlock)]
       L c unlock"

definition handle_unlock_light ::
    "libs \<Rightarrow> NettingChannelState \<Rightarrow> ReceiveUnlock
     \<Rightarrow> ((event list \<times> reason option) \<times> NettingChannelState) result" where
  "handle_unlock_light L c unlock = receive_unlock_with [] L c unlock"

end
