(* ===== verification/ChannelMachine.thy ===== *)
theory ChannelMachine
  imports ChannelOps
begin

text \<open>
  The channel as a state machine: the handlers of actions, blocks and contract logs of
  \<open>transfer/channel.py\<close> and \<open>state_transition\<close> that dispatches to them, with
  \<open>events_for_onchain_secretreveal\<close> (\<open>transfer/secret_registry.py\<close>).  A \<open>TransitionResult\<close> is the
  pair of the new channel (None where it is cleared) and the events.
\<close>

type_synonym transition_result = "(NettingChannelState option \<times> event list) result"

section \<open>Status changes\<close>

text \<open>The truth value of \<open>not finished_block_number\<close>: block 0 counts as no block.\<close>

definition no_block :: "int option \<Rightarrow> bool" where
  "no_block n \<longleftrightarrow> n = None \<or> n = Some 0"

definition finish_transaction ::
    "TransactionExecutionStatus option \<Rightarrow> int \<Rightarrow> TransactionExecutionStatus option" where
  "finish_transaction tx block_number =
     (case tx of
        None \<Rightarrow> Some \<lparr>started_block_number = None, finished_block_number = Some block_number,
                      tx_result = Some SUCCESS\<rparr>
      | Some t \<Rightarrow>
          if no_block (finished_block_number t)
          then Some (t\<lparr>finished_block_number := Some block_number, tx_result := Some SUCCESS\<rparr>)
          else Some t)"

definition set_closed :: "NettingChannelState \<Rightarrow> int \<Rightarrow> NettingChannelState" where
  "set_closed c block_number =
     c\<lparr>close_transaction := finish_transaction (close_transaction c) block_number\<rparr>"

definition set_settled :: "NettingChannelState \<Rightarrow> int \<Rightarrow> NettingChannelState" where
  "set_settled c block_number =
     c\<lparr>settle_transaction := finish_transaction (settle_transaction c) block_number\<rparr>"

definition tx_started :: "int \<Rightarrow> TransactionExecutionStatus" where
  "tx_started n =
     \<lparr>started_block_number = Some n, finished_block_number = None, tx_result = None\<rparr>"

section \<open>Actions\<close>

definition events_for_close ::
    "NettingChannelState \<Rightarrow> int \<Rightarrow> bytes \<Rightarrow> string \<Rightarrow> (event list \<times> NettingChannelState) result" where
  "events_for_close c block_number block_hash signed_close_tx =
     (if get_status c \<in> CHANNEL_STATES_PRIOR_TO_CLOSED
      then (let c' = c\<lparr>close_transaction := Some (tx_started block_number)\<rparr>;
                closed = (\<lambda>bp. Inr ([ContractSendChannelClose (ch_canonical_identifier c) bp
                                       block_hash signed_close_tx], c'))
            in case es_balance_proof (partner_state c) of
                 None \<Rightarrow> closed None
               | Some (Signed bp) \<Rightarrow> closed (Some bp)
               | Some (Unsigned _) \<Rightarrow>
                   Inl (AssertionError ''balance_proof is None or isinstance(...)''))
      else Inr ([], c))"

definition handle_action_close ::
    "NettingChannelState \<Rightarrow> CanonicalIdentifier \<Rightarrow> string \<Rightarrow> int \<Rightarrow> bytes \<Rightarrow> transition_result" where
  "handle_action_close c ci signed_close_tx block_number block_hash =
     py_assert (ch_identifier c = channel_identifier ci) ''caller must make sure the ids match''
     (res_bind (events_for_close c block_number block_hash signed_close_tx)
       (\<lambda>(events, c'). Inr (Some c', events)))"

definition handle_action_set_fee ::
    "NettingChannelState \<Rightarrow> CanonicalIdentifier \<Rightarrow> int \<Rightarrow> transition_result" where
  "handle_action_set_fee c ci fee =
     py_assert (ch_identifier c = channel_identifier ci) ''caller must make sure the ids match''
     (Inr (Some (c\<lparr>mediation_fee := fee\<rparr>), []))"

section \<open>Deposits\<close>

definition apply_channel_newbalance ::
    "NettingChannelState \<Rightarrow> TransactionChannelNewBalance \<Rightarrow> NettingChannelState" where
  "apply_channel_newbalance c deposit =
     (if participant_address deposit = es_address (our_state c)
      then upd_our (update_contract_balance (new_contract_balance deposit)) c
      else if participant_address deposit = es_address (partner_state c)
      then upd_partner (update_contract_balance (new_contract_balance deposit)) c
      else c)"

lemma apply_channel_newbalance_queue [simp]:
  "deposit_transaction_queue (apply_channel_newbalance c d) = deposit_transaction_queue c"
  by (simp add: apply_channel_newbalance_def)

definition handle_channel_newbalance ::
    "NettingChannelState \<Rightarrow> TransactionChannelNewBalance \<Rightarrow> int \<Rightarrow> transition_result" where
  "handle_channel_newbalance c deposit block_number =
     Inr (Some
       (if is_transaction_confirmed (deposit_block_number deposit) block_number
        then apply_channel_newbalance c deposit
        else c\<lparr>deposit_transaction_queue :=
                 heappush (deposit_transaction_queue c)
                   (TransactionOrder (deposit_block_number deposit) deposit)\<rparr>), [])"

text \<open>The loop of \<open>handle_block\<close>: pop and apply while the first deposit is confirmed.\<close>

function apply_confirmed_deposits ::
    "NettingChannelState \<Rightarrow> int \<Rightarrow> NettingChannelState result" where
  "apply_confirmed_deposits c block_number =
     (if is_deposit_confirmed c block_number
      then (case heappop (deposit_transaction_queue c) of
              Inl e \<Rightarrow> Inl e
            | Inr (order, queue) \<Rightarrow>
                apply_confirmed_deposits
                  (apply_channel_newbalance (c\<lparr>deposit_transaction_queue := queue\<rparr>)
                    (order_transaction order)) block_number)
      else Inr c)"
  by pat_completeness auto
termination
  by (relation "measure (\<lambda>(c, n). length (deposit_transaction_queue c))")
    (auto dest: heappop_length)

declare apply_confirmed_deposits.simps [simp del]

section \<open>Blocks\<close>

text \<open>The settle event refers to the channel object itself, so it shows the channel as the
  whole step leaves it.\<close>

definition handle_block ::
    "NettingChannelState \<Rightarrow> int \<Rightarrow> bytes \<Rightarrow> int \<Rightarrow> transition_result" where
  "handle_block c sc_block sc_hash block_number =
     py_assert (sc_block = block_number) ''state_change.block_number == block_number''
     (res_bind
       (if get_status c = CHANNEL_STATE_CLOSED
        then (case close_transaction c of
                None \<Rightarrow> Inl (AssertionError
                  ''channel get_status is STATE_CLOSED, but close_transaction is not set'')
              | Some tx \<Rightarrow>
                  (case finished_block_number tx of
                     None \<Rightarrow> Inl (AssertionError
                       ''channel get_status is STATE_CLOSED, but close_transaction block number is missing'')
                   | Some closed_block \<Rightarrow>
                       py_assert (closed_block \<noteq> 0)
                         ''channel get_status is STATE_CLOSED, but close_transaction block number is missing''
                       (Inr (if sc_block > closed_block + settle_timeout c
                             then (True, c\<lparr>settle_transaction := Some (tx_started sc_block)\<rparr>)
                             else (False, c)))))
        else Inr (False, c))
       (\<lambda>(settle, c').
      res_bind (apply_confirmed_deposits c' block_number) (\<lambda>c''.
        Inr (Some c'',
             if settle then [ContractSendChannelSettle (ch_canonical_identifier c) sc_hash c'']
             else []))))"

section \<open>Contract logs\<close>

definition handle_channel_closed ::
    "NettingChannelState \<Rightarrow> bytes \<Rightarrow> CanonicalIdentifier \<Rightarrow> int \<Rightarrow> bytes \<Rightarrow> transition_result" where
  "handle_channel_closed c transaction_from ci block_number block_hash =
     (if channel_identifier ci = ch_identifier c \<and> get_status c \<in> CHANNEL_STATES_PRIOR_TO_CLOSED
      then (let c' = set_closed c block_number
            in if transaction_from \<noteq> es_address (our_state c') \<and>
                  es_balance_proof (partner_state c') \<noteq> None \<and> update_transaction c' = None
               then (case es_balance_proof (partner_state c') of
                       Some (Signed bp) \<Rightarrow>
                         Inr (Some (c'\<lparr>update_transaction := Some (tx_started block_number)\<rparr>),
                              [ContractSendChannelUpdateTransfer
                                 (block_number + settle_timeout c') bp block_hash])
                     | _ \<Rightarrow> Inl (AssertionError ''isinstance(balance_proof, BalanceProofSignedState)''))
               else Inr (Some c', []))
      else Inr (Some c, []))"

definition handle_channel_closed_light ::
    "NettingChannelState \<Rightarrow> bytes \<Rightarrow> CanonicalIdentifier \<Rightarrow> int \<Rightarrow> bytes \<Rightarrow> bytes
     \<Rightarrow> LightClientNonClosingBalanceProof option \<Rightarrow> transition_result" where
  "handle_channel_closed_light c transaction_from ci block_number block_hash
      light_client_address latest =
     (if channel_identifier ci = ch_identifier c \<and> get_status c \<in> CHANNEL_STATES_PRIOR_TO_CLOSED
      then (let c' = set_closed c block_number
            in case latest of
                 None \<Rightarrow> Inr (Some c', [])
               | Some data \<Rightarrow>
                   res_bind (balanceproof_from_envelope (light_client_balance_proof data)) (\<lambda>bp.
                     if transaction_from \<noteq> es_address (our_state c') \<and> update_transaction c' = None
                     then Inr (Some (c'\<lparr>update_transaction := Some (tx_started block_number)\<rparr>),
                               [ContractSendChannelUpdateTransferLight
                                  (block_number + settle_timeout c') bp block_hash
                                  light_client_address (lc_balance_proof_signature data)])
                     else Inr (Some c', [])))
      else Inr (Some c, []))"

definition handle_channel_updated_transfer ::
    "NettingChannelState \<Rightarrow> CanonicalIdentifier \<Rightarrow> int \<Rightarrow> transition_result" where
  "handle_channel_updated_transfer c ci block_number =
     Inr (Some (if channel_identifier ci = ch_identifier c
                then c\<lparr>update_transaction :=
                         Some \<lparr>started_block_number = None,
                               finished_block_number = Some block_number,
                               tx_result = Some SUCCESS\<rparr>\<rparr>
                else c), [])"

definition set_onchain_locksroot :: "bytes \<Rightarrow> NettingChannelEndState \<Rightarrow> NettingChannelEndState" where
  "set_onchain_locksroot r e = e\<lparr>onchain_locksroot := r\<rparr>"

definition handle_channel_settled ::
    "NettingChannelState \<Rightarrow> CanonicalIdentifier \<Rightarrow> bytes \<Rightarrow> bytes \<Rightarrow> int \<Rightarrow> bytes \<Rightarrow> transition_result"
  where
  "handle_channel_settled c ci our_locksroot partner_locksroot block_number block_hash =
     (if channel_identifier ci = ch_identifier c
      then (let c' = set_settled c block_number
            in if our_locksroot = EMPTY_MERKLE_ROOT \<and> partner_locksroot = EMPTY_MERKLE_ROOT
               then Inr (None, [])
               else Inr (Some (upd_partner (set_onchain_locksroot partner_locksroot)
                                (upd_our (set_onchain_locksroot our_locksroot) c')),
                         [ContractSendChannelBatchUnlock (ch_canonical_identifier c')
                            (es_address (partner_state c')) block_hash]))
      else Inr (Some c, []))"

definition handle_channel_batch_unlock ::
    "NettingChannelState \<Rightarrow> bytes \<Rightarrow> transition_result" where
  "handle_channel_batch_unlock c partner =
     (if get_status c = CHANNEL_STATE_SETTLED
      then (let c' = (if partner = es_address (our_state c)
                        then upd_our (set_onchain_locksroot EMPTY_MERKLE_ROOT) c
                      else if partner = es_address (partner_state c)
                        then upd_partner (set_onchain_locksroot EMPTY_MERKLE_ROOT) c
                      else c)
            in if onchain_locksroot (our_state c') = EMPTY_MERKLE_ROOT \<and>
                  onchain_locksroot (partner_state c') = EMPTY_MERKLE_ROOT
               then Inr (None, []) else Inr (Some c', []))
      else Inr (Some c, []))"

section \<open>Dispatch\<close>

definition state_transition ::
    "NettingChannelState \<Rightarrow> state_change \<Rightarrow> int \<Rightarrow> bytes \<Rightarrow> transition_result" where
  "state_transition c sc block_number block_hash =
     (case sc of
        Block n _ h \<Rightarrow> handle_block c n h block_number
      | ActionChannelClose ci signed_close_tx _ _ \<Rightarrow>
          handle_action_close c ci signed_close_tx block_number block_hash
      | ActionChannelSetFee ci fee \<Rightarrow> handle_action_set_fee c ci fee
      | ContractReceiveChannelClosed _ from ci n h \<Rightarrow> handle_channel_closed c from ci n h
      | ContractReceiveChannelClosedLight _ from ci n h lc latest \<Rightarrow>
          handle_channel_closed_light c from ci n h lc latest
      | ContractReceiveUpdateTransfer _ ci _ _ _ \<Rightarrow>
          handle_channel_updated_transfer c ci block_number
      | ContractReceiveChannelSettled _ ci our_root partner_root n h _ \<Rightarrow>
          handle_channel_settled c ci our_root partner_root n h
      | ContractReceiveChannelNewBalance _ ci deposit _ _ _ \<Rightarrow>
          handle_channel_newbalance c deposit block_number
      | ContractReceiveChannelBatchUnlock _ _ _ partner _ _ _ _ _ \<Rightarrow>
          handle_channel_batch_unlock c partner
      | _ \<Rightarrow> Inr (Some c, []))"

definition events_for_onchain_secretreveal ::
    "NettingChannelState \<Rightarrow> bytes \<Rightarrow> int \<Rightarrow> bytes \<Rightarrow> event list" where
  "events_for_onchain_secretreveal c secret expiration block_hash =
     (if get_status c \<in> CHANNEL_STATES_PRIOR_TO_CLOSED \<union> {CHANNEL_STATE_CLOSED}
      then [ContractSendSecretReveal expiration secret block_hash] else [])"

end
