(* ===== verification/Locks.thy ===== *)
theory Locks
  imports ChannelState
begin

text \<open>
  The packed form of a hash time lock: the constructor accepts exactly the values that fit the
  \<open>Lock\<close> layout, the result is the three fields in order, and no two locks share it.
\<close>

lemma encode_lock_iff:
  "encode_lock amount expiration secrethash = Inr e \<longleftrightarrow>
     0 \<le> amount \<and> amount \<le> UINT256_MAX \<and> 0 \<le> expiration \<and> expiration \<le> UINT256_MAX \<and>
     length secrethash \<le> 32 \<and>
     e = be_bytes 32 expiration @ be_bytes 32 amount @
         replicate (32 - length secrethash) 0 @ secrethash"
proof -
  have sl: "compute_slices Lock_spec =
      [(''expiration'', (0, 32)), (''amount'', (32, 64)), (''secrethash'', (64, 96))]"
    by (simp add: compute_slices_def Lock_spec_def field_kind_defs)
  have nf: "names_fields Lock_spec =
      [(''expiration'', uint256_field ''expiration''), (''amount'', uint256_field ''amount''),
       (''secrethash'', hash_field ''secrethash'')]"
    by (simp add: names_fields_def Lock_spec_def field_kind_defs)
  have size: "spec_size Lock_spec = 96"
    by (simp add: spec_size_def Lock_spec_def field_kind_defs)
  have bound: "(256::int) ^ 32 = UINT256_MAX + 1"
    by (simp add: UINT256_MAX_def)
  show ?thesis
    by (auto simp: encode_lock_def wrap_buffer_def buffer_for_def buffer_setattr_def sl nf size
        field_kind_defs encode_value_def integer_validate_def integer_encode_def set_slice_def
        bound res_simps UINT256_MAX_def split: if_splits)
qed

lemma mk_lock_iff:
  "mk_HashTimeLockState L amount expiration secrethash = Inr l \<longleftrightarrow>
     0 \<le> amount \<and> amount \<le> UINT256_MAX \<and> 0 \<le> expiration \<and> expiration \<le> UINT256_MAX \<and>
     length secrethash \<le> 32 \<and>
     l = \<lparr>lock_amount = amount, lock_expiration = expiration, lock_secrethash = secrethash,
          lock_encoded = be_bytes 32 expiration @ be_bytes 32 amount @
            replicate (32 - length secrethash) 0 @ secrethash,
          lock_lockhash = keccak L (be_bytes 32 expiration @ be_bytes 32 amount @
            replicate (32 - length secrethash) 0 @ secrethash)\<rparr>"
  by (auto simp: mk_HashTimeLockState_def res_simps encode_lock_iff)

text \<open>A lock as its constructor makes it.\<close>

definition lock_ok :: "libs \<Rightarrow> HashTimeLockState \<Rightarrow> bool" where
  "lock_ok L lock \<longleftrightarrow>
     mk_HashTimeLockState L (lock_amount lock) (lock_expiration lock) (lock_secrethash lock)
       = Inr lock"

lemma lock_okI: "mk_HashTimeLockState L a x s = Inr l \<Longrightarrow> lock_ok L l"
  by (auto simp: lock_ok_def mk_lock_iff)

lemma lock_ok_amount: "lock_ok L l \<Longrightarrow> 0 \<le> lock_amount l"
  by (auto simp: lock_ok_def mk_lock_iff)

lemma lock_ok_leaf: "keccak_ok L \<Longrightarrow> lock_ok L l \<Longrightarrow> leaf_ok (lock_lockhash l)"
proof -
  assume "keccak_ok L" "lock_ok L l"
  then have "lock_lockhash l = keccak L (lock_encoded l)"
    unfolding lock_ok_def mk_lock_iff by (metis HashTimeLockState.select_convs(4,5))
  then show ?thesis using \<open>keccak_ok L\<close> by (simp add: leaf_ok_def)
qed

lemma encoded_fields:
  assumes "lock_ok L l" "lock_ok M k" "lock_encoded l = lock_encoded k"
    and "length (lock_secrethash l) = 32" "length (lock_secrethash k) = 32"
  shows "lock_amount l = lock_amount k \<and> lock_expiration l = lock_expiration k \<and>
    lock_secrethash l = lock_secrethash k"
proof -
  have enc: "lock_encoded x = be_bytes 32 (lock_expiration x) @ be_bytes 32 (lock_amount x) @
      lock_secrethash x" and
    bnd: "0 \<le> lock_amount x" "lock_amount x < 256 ^ 32" "0 \<le> lock_expiration x"
      "lock_expiration x < 256 ^ 32"
    if "lock_ok N x" "length (lock_secrethash x) = 32" for N x
  proof -
    note * = that(1) [unfolded lock_ok_def mk_lock_iff]
    from * have "lock_encoded x = be_bytes 32 (lock_expiration x) @ be_bytes 32 (lock_amount x) @
        replicate (32 - length (lock_secrethash x)) 0 @ lock_secrethash x"
      by (metis HashTimeLockState.select_convs(4))
    with that(2) show "lock_encoded x = be_bytes 32 (lock_expiration x) @
        be_bytes 32 (lock_amount x) @ lock_secrethash x" by simp
    from * show "0 \<le> lock_amount x" "lock_amount x < 256 ^ 32" "0 \<le> lock_expiration x"
      "lock_expiration x < 256 ^ 32" by (simp_all add: UINT256_MAX_def)
  qed
  from assms(3) have "be_bytes 32 (lock_expiration l) = be_bytes 32 (lock_expiration k)"
    "be_bytes 32 (lock_amount l) = be_bytes 32 (lock_amount k)"
    "lock_secrethash l = lock_secrethash k"
    by (simp_all add: enc [OF assms(1,4)] enc [OF assms(2,5)])
  then show ?thesis
    using be_bytes_inject bnd [OF assms(1,4)] bnd [OF assms(2,5)] by blast
qed

end
