(* ===== verification/ChannelFacts.thy ===== *)
theory ChannelFacts
  imports ChannelMachine Locks
begin

text \<open>
  What the operations on one channel end do to its pending locks.  The locks of the three
  dictionaries are collected in a multiset, whose sum is the locked amount; an end is well formed
  when the dictionaries are keyed by secrethash and disjoint, the merkle tree commits to exactly
  the pending locks, and the balance proof states their root and sum.  The second half says when
  each validity check accepts a message.
\<close>

section \<open>Pending locks\<close>

definition locks_mset :: "NettingChannelEndState \<Rightarrow> HashTimeLockState multiset" where
  "locks_mset e =
     mset (dict_values (secrethashes_to_lockedlocks e)) +
     image_mset pp_lock (mset (dict_values (secrethashes_to_unlockedlocks e))) +
     image_mset pp_lock (mset (dict_values (secrethashes_to_onchain_unlockedlocks e)))"

lemma get_amount_locked_mset:
  "get_amount_locked e = sum_mset (image_mset lock_amount (locks_mset e))"
  by (simp add: get_amount_locked_def get_amount_unclaimed_onchain_def locks_mset_def
      multiset.map_comp comp_def flip: mset_map sum_mset_sum_list)

text \<open>A dictionary of locks that is keyed by their secrethashes.\<close>

definition keyed :: "('v \<Rightarrow> HashTimeLockState) \<Rightarrow> (bytes, 'v) dict \<Rightarrow> bool" where
  "keyed f d \<longleftrightarrow> dict_ok d \<and> (\<forall>p \<in> set d. lock_secrethash (f (snd p)) = fst p)"

lemma keyed_Nil [simp]: "keyed f []"
  by (simp add: keyed_def)

lemma keyed_del [simp]: "keyed f d \<Longrightarrow> keyed f (dict_del k d)"
  using dict_del_subset [of k d] by (auto simp: keyed_def)

lemma keyed_set:
  "keyed f d \<Longrightarrow> k \<notin> dict_keys d \<Longrightarrow> lock_secrethash (f v) = k \<Longrightarrow> keyed f (dict_set k v d)"
  by (auto simp: keyed_def dict_set_fresh dict_ok_snoc)

lemma keyed_get: "keyed f d \<Longrightarrow> dict_get d k = Some v \<Longrightarrow> lock_secrethash (f v) = k"
  by (auto simp: keyed_def dest!: map_of_SomeD)

lemma dict_get_key: "dict_get d k = Some v \<Longrightarrow> k \<in> dict_keys d"
  by (metis dict_has_def dict_has_keys option.distinct(1))

definition maps_ok :: "NettingChannelEndState \<Rightarrow> bool" where
  "maps_ok e \<longleftrightarrow>
     keyed id (secrethashes_to_lockedlocks e) \<and>
     keyed pp_lock (secrethashes_to_unlockedlocks e) \<and>
     keyed pp_lock (secrethashes_to_onchain_unlockedlocks e) \<and>
     dict_keys (secrethashes_to_lockedlocks e) \<inter> dict_keys (secrethashes_to_unlockedlocks e) = {} \<and>
     dict_keys (secrethashes_to_lockedlocks e) \<inter>
       dict_keys (secrethashes_to_onchain_unlockedlocks e) = {} \<and>
     dict_keys (secrethashes_to_unlockedlocks e) \<inter>
       dict_keys (secrethashes_to_onchain_unlockedlocks e) = {}"

definition commit_ok :: "libs \<Rightarrow> NettingChannelEndState \<Rightarrow> bool" where
  "commit_ok L e \<longleftrightarrow>
     merkle_ok L (es_merkletree e) \<and>
     mset (leaf_list (es_merkletree e)) = image_mset lock_lockhash (locks_mset e)"

definition proof_ok :: "NettingChannelEndState \<Rightarrow> bool" where
  "proof_ok e \<longleftrightarrow>
     (case es_balance_proof e of
        None \<Rightarrow> locks_mset e = {#}
      | Some bp \<Rightarrow>
          bp_locked_amount (bp_data bp) = get_amount_locked e \<and>
          merkleroot (es_merkletree e) = Inr (bp_locksroot (bp_data bp)))"

definition end_ok :: "libs \<Rightarrow> NettingChannelEndState \<Rightarrow> bool" where
  "end_ok L e \<longleftrightarrow>
     maps_ok e \<and> commit_ok L e \<and> proof_ok e \<and> (\<forall>l \<in># locks_mset e. lock_ok L l)"

lemma end_okI [intro]:
  "maps_ok e \<Longrightarrow> commit_ok L e \<Longrightarrow> proof_ok e \<Longrightarrow> (\<And>l. l \<in># locks_mset e \<Longrightarrow> lock_ok L l)
   \<Longrightarrow> end_ok L e"
  by (simp add: end_ok_def)

lemma end_okD:
  assumes "end_ok L e"
  shows "maps_ok e" "commit_ok L e" "proof_ok e" "l \<in># locks_mset e \<Longrightarrow> lock_ok L l"
    "merkle_ok L (es_merkletree e)"
    "mset (leaf_list (es_merkletree e)) = image_mset lock_lockhash (locks_mset e)"
  using assms by (auto simp: end_ok_def commit_ok_def)

lemma new_end_ok: "end_ok L (mk_NettingChannelEndState a b)"
  by (intro end_okI)
    (simp_all add: mk_NettingChannelEndState_def maps_ok_def commit_ok_def proof_ok_def locks_mset_def)

section \<open>Lookups\<close>

lemma get_lock_SomeD:
  assumes "maps_ok e" "get_lock e h = Some l"
  shows "lock_secrethash l = h" "l \<in># locks_mset e" "is_lock_pending e h"
proof -
  consider (1) "dict_get (secrethashes_to_lockedlocks e) h = Some l"
    | (2) p where "dict_get (secrethashes_to_unlockedlocks e) h = Some p" "l = pp_lock p"
    | (3) p where "dict_get (secrethashes_to_onchain_unlockedlocks e) h = Some p" "l = pp_lock p"
    using assms(2) by (auto simp: get_lock_def split: option.splits)
  then have "lock_secrethash l = h \<and> l \<in># locks_mset e \<and> is_lock_pending e h"
  proof cases
    case 1
    then show ?thesis
      using assms(1) keyed_get [of id "secrethashes_to_lockedlocks e" h l]
        dict_get_value [OF 1]
      by (simp add: maps_ok_def locks_mset_def is_lock_pending_def dict_has_def)
  next
    case 2
    then show ?thesis
      using assms(1) keyed_get [of pp_lock "secrethashes_to_unlockedlocks e" h p]
        imageI [OF dict_get_value [OF 2(1)], of pp_lock]
      by (simp add: maps_ok_def locks_mset_def is_lock_pending_def dict_has_def)
  next
    case 3
    then show ?thesis
      using assms(1) keyed_get [of pp_lock "secrethashes_to_onchain_unlockedlocks e" h p]
        imageI [OF dict_get_value [OF 3(1)], of pp_lock]
      by (simp add: maps_ok_def locks_mset_def is_lock_pending_def dict_has_def)
  qed
  then show "lock_secrethash l = h" "l \<in># locks_mset e" "is_lock_pending e h" by simp_all
qed

lemma get_lock_None: "get_lock e h = None \<longleftrightarrow> \<not> is_lock_pending e h"
  by (auto simp: get_lock_def is_lock_pending_def dict_has_def split: option.splits)

lemma lock_pending_get: "is_lock_pending e h \<Longrightarrow> \<exists>l. get_lock e h = Some l"
  using get_lock_None [of e h] by (cases "get_lock e h") auto

section \<open>Adding, removing and moving a lock\<close>

lemma record_lock_sel [simp]:
  "es_address (record_lock bp t l e) = es_address e"
  "contract_balance (record_lock bp t l e) = contract_balance e"
  "es_balance_proof (record_lock bp t l e) = Some bp"
  "es_merkletree (record_lock bp t l e) = t"
  "onchain_locksroot (record_lock bp t l e) = onchain_locksroot e"
  by (simp_all add: record_lock_def)

lemma set_proof_sel [simp]:
  "es_address (set_proof bp t e) = es_address e"
  "contract_balance (set_proof bp t e) = contract_balance e"
  "es_balance_proof (set_proof bp t e) = Some bp"
  "es_merkletree (set_proof bp t e) = t"
  "maps_ok (set_proof bp t e) = maps_ok e"
  "get_lock (set_proof bp t e) = get_lock e"
  "locks_mset (set_proof bp t e) = locks_mset e"
  "is_lock_pending (set_proof bp t e) = is_lock_pending e"
  "secrethashes_to_lockedlocks (set_proof bp t e) = secrethashes_to_lockedlocks e"
  "secrethashes_to_unlockedlocks (set_proof bp t e) = secrethashes_to_unlockedlocks e"
  "secrethashes_to_onchain_unlockedlocks (set_proof bp t e) =
     secrethashes_to_onchain_unlockedlocks e"
  by (simp_all add: set_proof_def maps_ok_def get_lock_def fun_eq_iff locks_mset_def
      is_lock_pending_def cong: option.case_cong)

lemma record_lock_maps:
  assumes "maps_ok e" "\<not> is_lock_pending e (lock_secrethash l)"
  shows "maps_ok (record_lock bp t l e)"
    and "locks_mset (record_lock bp t l e) = add_mset l (locks_mset e)"
proof -
  have k: "lock_secrethash l \<notin> dict_keys (secrethashes_to_lockedlocks e)"
    "lock_secrethash l \<notin> dict_keys (secrethashes_to_unlockedlocks e)"
    "lock_secrethash l \<notin> dict_keys (secrethashes_to_onchain_unlockedlocks e)"
    using assms(2) unfolding is_lock_pending_def dict_has_keys by blast+
  then show "maps_ok (record_lock bp t l e)"
    using assms(1) by (simp add: maps_ok_def record_lock_def keyed_set dict_keys_set)
  show "locks_mset (record_lock bp t l e) = add_mset l (locks_mset e)"
    using k mset_values_set [OF k(1)] by (simp add: locks_mset_def record_lock_def)
qed

lemma del_unclaimed_sel [simp]:
  "es_address (del_unclaimed_lock h e) = es_address e"
  "contract_balance (del_unclaimed_lock h e) = contract_balance e"
  "es_balance_proof (del_unclaimed_lock h e) = es_balance_proof e"
  "es_merkletree (del_unclaimed_lock h e) = es_merkletree e"
  by (simp_all add: del_unclaimed_lock_def)

lemma del_unclaimed_maps: "maps_ok e \<Longrightarrow> maps_ok (del_unclaimed_lock h e)"
  by (simp add: maps_ok_def del_unclaimed_lock_def dict_keys_del) blast

text \<open>Where the secrethash is no on-chain lock, deleting it removes exactly its lock.\<close>

lemma del_unclaimed_mset:
  assumes "maps_ok e" "get_lock e h = Some l"
    and "\<not> dict_has (secrethashes_to_onchain_unlockedlocks e) h"
  shows "locks_mset e = add_mset l (locks_mset (del_unclaimed_lock h e))"
proof -
  consider (1) "dict_get (secrethashes_to_lockedlocks e) h = Some l"
    | (2) p where "dict_get (secrethashes_to_unlockedlocks e) h = Some p" "l = pp_lock p"
    using assms(2,3) by (auto simp: get_lock_def dict_has_def split: option.splits)
  then show ?thesis
  proof cases
    case 1
    then have "h \<in> dict_keys (secrethashes_to_lockedlocks e)" by (rule dict_get_key)
    then have "h \<notin> dict_keys (secrethashes_to_unlockedlocks e)"
      using assms(1) unfolding maps_ok_def by blast
    with 1 show ?thesis
      using assms(1) mset_values_del [of "secrethashes_to_lockedlocks e" h l]
      by (simp add: locks_mset_def del_unclaimed_lock_def maps_ok_def keyed_def dict_del_absent)
  next
    case 2
    then have "h \<in> dict_keys (secrethashes_to_unlockedlocks e)" by (intro dict_get_key)
    then have "h \<notin> dict_keys (secrethashes_to_lockedlocks e)"
      using assms(1) unfolding maps_ok_def by blast
    with 2 show ?thesis
      using assms(1) mset_values_del [of "secrethashes_to_unlockedlocks e" h p]
      by (simp add: locks_mset_def del_unclaimed_lock_def maps_ok_def keyed_def dict_del_absent)
  qed
qed

lemma del_lock_props:
  assumes "maps_ok e" "get_lock e h = Some l"
  obtains e' where "del_lock h e = Inr e'" "maps_ok e'" "locks_mset e = add_mset l (locks_mset e')"
    "es_address e' = es_address e" "contract_balance e' = contract_balance e"
    "es_balance_proof e' = es_balance_proof e" "es_merkletree e' = es_merkletree e"
    "onchain_locksroot e' = onchain_locksroot e" "\<not> is_lock_pending e' h"
proof -
  define d where "d = del_unclaimed_lock h e"
  define e' where "e' = d\<lparr>secrethashes_to_onchain_unlockedlocks :=
    dict_del h (secrethashes_to_onchain_unlockedlocks d)\<rparr>"
  have mp: "maps_ok d" using assms(1) by (simp add: d_def del_unclaimed_maps)
  have del: "del_lock h e = Inr e'"
    using get_lock_SomeD(3) [OF assms] by (simp add: del_lock_def e'_def d_def Let_def)
  have maps: "maps_ok e'"
    using mp by (simp add: maps_ok_def e'_def dict_keys_del) blast
  have mset: "locks_mset e = add_mset l (locks_mset e')"
  proof (cases "dict_get (secrethashes_to_onchain_unlockedlocks e) h")
    case None
    then have "dict_del h (secrethashes_to_onchain_unlockedlocks d) =
        secrethashes_to_onchain_unlockedlocks d"
      by (simp add: d_def del_unclaimed_lock_def map_of_eq_None_iff dict_del_absent)
    then have "locks_mset e' = locks_mset d" by (simp add: e'_def)
    then show ?thesis using del_unclaimed_mset [OF assms] None by (simp add: d_def dict_has_def)
  next
    case (Some p)
    then have k: "h \<notin> dict_keys (secrethashes_to_lockedlocks e)"
      "h \<notin> dict_keys (secrethashes_to_unlockedlocks e)"
      using assms(1) dict_get_key [OF Some] unfolding maps_ok_def by blast+
    with Some assms(2) have "l = pp_lock p"
      by (simp add: get_lock_def map_of_eq_None_iff [THEN iffD2])
    then show ?thesis
      using Some k assms(1) mset_values_del [of "secrethashes_to_onchain_unlockedlocks e" h p]
      by (simp add: e'_def d_def locks_mset_def del_unclaimed_lock_def maps_ok_def keyed_def
          dict_del_absent)
  qed
  have "\<not> is_lock_pending e' h"
    by (simp add: is_lock_pending_def e'_def d_def del_unclaimed_lock_def dict_simps)
  with del maps mset show thesis
    by (intro that [of e']) (simp_all add: e'_def d_def del_unclaimed_lock_def)
qed

section \<open>The commitment and the balance proof\<close>

lemma mset_insert_leaf:
  assumes "distinct xs" "distinct ys" "h \<notin> set xs" "set ys = insert h (set xs)"
  shows "mset ys = add_mset h (mset xs)"
  using assms set_eq_iff_mset_eq_distinct [of ys "h # xs"] by simp

lemma record_lock_end_ok:
  assumes L: "keccak_ok L" and e: "end_ok L e" and l: "lock_ok L l"
    and fresh: "\<not> is_lock_pending e (lock_secrethash l)"
    and tree: "compute_merkletree_with L (es_merkletree e) (lock_lockhash l) = Inr (Some t)"
    and root: "merkleroot t = Inr (bp_locksroot (bp_data bp))"
    and amount: "bp_locked_amount (bp_data bp) = get_amount_locked e + lock_amount l"
  shows "end_ok L (record_lock bp t l e)"
    and "locks_mset (record_lock bp t l e) = add_mset l (locks_mset e)"
proof -
  note d = end_okD [OF e]
  note m = record_lock_maps [OF d(1) fresh, of bp t]
  show "locks_mset (record_lock bp t l e) = add_mset l (locks_mset e)" by (rule m(2))
  have t: "merkle_ok L t" "lock_lockhash l \<notin> set (leaf_list (es_merkletree e))"
    "set (leaf_list t) = insert (lock_lockhash l) (set (leaf_list (es_merkletree e)))"
    using mt.addD [OF d(5) lock_ok_leaf [OF L l] tree] by simp_all
  then have "mset (leaf_list t) = add_mset (lock_lockhash l) (mset (leaf_list (es_merkletree e)))"
    using merkle_ok_distinct d(5) by (intro mset_insert_leaf) auto
  then have "commit_ok L (record_lock bp t l e)"
    using t(1) d(6) by (simp add: commit_ok_def m(2))
  moreover have "proof_ok (record_lock bp t l e)"
    using root amount by (simp add: proof_ok_def get_amount_locked_mset m(2))
  ultimately show "end_ok L (record_lock bp t l e)"
    using m d(4) l by (intro end_okI) auto
qed

text \<open>An end that has dropped one lock and committed to the rest.\<close>

lemma dropped_lock_end_ok:
  assumes e: "end_ok L e"
    and tree: "compute_merkletree_without L (es_merkletree e) (lock_lockhash l) = Inr (Some t)"
    and root: "merkleroot t = Inr (bp_locksroot (bp_data bp))"
    and amount: "bp_locked_amount (bp_data bp) = get_amount_locked e - lock_amount l"
    and maps: "maps_ok e'" and drop: "locks_mset e = add_mset l (locks_mset e')"
    and e': "es_balance_proof e' = Some bp" "es_merkletree e' = t"
  shows "end_ok L e'"
proof -
  note d = end_okD [OF e]
  have t: "merkle_ok L t" "lock_lockhash l \<in> set (leaf_list (es_merkletree e))"
    "set (leaf_list t) = set (leaf_list (es_merkletree e)) - {lock_lockhash l}"
    using mt.removeD [OF d(5) tree] by simp_all
  then have "mset (leaf_list (es_merkletree e)) = add_mset (lock_lockhash l) (mset (leaf_list t))"
    using merkle_ok_distinct d(5) by (intro mset_insert_leaf) auto
  then have "commit_ok L e'"
    using t(1) d(6) by (simp add: commit_ok_def e' drop)
  moreover have "proof_ok e'"
    using root amount by (simp add: proof_ok_def get_amount_locked_mset e' drop)
  ultimately show ?thesis
    using maps d(4) drop by (intro end_okI) auto
qed

text \<open>An end whose locks, tree and balance proof are those of a well-formed one.\<close>

lemma same_locks_end_ok:
  assumes "end_ok L e" "maps_ok e'" "locks_mset e' = locks_mset e"
    "es_balance_proof e' = es_balance_proof e" "es_merkletree e' = es_merkletree e"
  shows "end_ok L e'"
  using assms
  by (auto simp: end_ok_def commit_ok_def proof_ok_def get_amount_locked_mset
      split: option.splits)

section \<open>When a message is accepted\<close>

definition current_locked_amount :: "NettingChannelEndState \<Rightarrow> int" where
  "current_locked_amount e = (if es_balance_proof e = None then 0 else get_amount_locked e)"

lemma current_balanceproof_parts:
  "\<exists>r. get_current_balanceproof e =
     (r, get_current_nonce e, current_transferred_amount e, current_locked_amount e)"
  by (auto simp: get_current_balanceproof_def get_current_nonce_def current_transferred_amount_def
      current_locked_amount_def split: option.splits)

lemma current_locked_ok: "end_ok L e \<Longrightarrow> current_locked_amount e = get_amount_locked e"
  by (auto simp: current_locked_amount_def end_ok_def proof_ok_def get_amount_locked_mset
      split: option.splits)

lemma usable_iff:
  "is_balance_proof_usable_onchain L bp c sender = Inr None \<longleftrightarrow>
     get_status c = CHANNEL_STATE_OPENED \<and>
     bp_canonical_identifier bp = ch_canonical_identifier c \<and>
     bp_transferred_amount bp + bp_locked_amount bp \<le> UINT256_MAX \<and>
     bp_nonce bp = get_next_nonce sender \<and>
     is_valid_signature L bp (es_address sender) = Inr None"
  by (auto simp: is_balance_proof_usable_onchain_def res_simps Let_def
      is_balance_proof_safe_for_onchain_operations_def split: if_splits)

lemma merkletree_width_leaves:
  "merkle_ok L t \<Longrightarrow> merkletree_width t = Inr (length (leaf_list t))"
  by (simp add: merkletree_width_def merkle_ok_leaves)

text \<open>Peeling the refusals off a check that ends in an acceptance.\<close>

lemma accept_simps:
  "(case m of None \<Rightarrow> Inr (Inl f, s) | Some t \<Rightarrow> k t) = Inr (Inr y, s') \<longleftrightarrow>
     (\<exists>t. m = Some t \<and> k t = Inr (Inr y, s'))"
  "(case u of None \<Rightarrow> k' | Some f \<Rightarrow> Inr (Inl (g f), s)) = Inr (Inr y, s') \<longleftrightarrow>
     u = None \<and> k' = Inr (Inr y, s')"
  "(if b then Inr (Inl f, s) else k') = Inr (Inr y, s') \<longleftrightarrow> \<not> b \<and> k' = Inr (Inr y, s')"
  "(case m of None \<Rightarrow> Inr (Inl f) | Some t \<Rightarrow> h t) = Inr (Inr z) \<longleftrightarrow>
     (\<exists>t. m = Some t \<and> h t = Inr (Inr z))"
  "(case u of None \<Rightarrow> h' | Some f \<Rightarrow> Inr (Inl (g f))) = Inr (Inr z) \<longleftrightarrow>
     u = None \<and> h' = Inr (Inr z)"
  "(if b then Inr (Inl f) else h') = Inr (Inr z) \<longleftrightarrow> \<not> b \<and> h' = Inr (Inr z)"
  by (auto split: option.split)

lemma lockedtransfer_iff:
  "valid_lockedtransfer_check L now c sender receiver name bp lock invoice storage =
       Inr (Inr (tree, r), storage') \<longleftrightarrow>
     handle_received_invoice now storage invoice = Inr (r, storage') \<and>
     compute_merkletree_with L (es_merkletree sender) (lock_lockhash lock) = Inr (Some tree) \<and>
     is_balance_proof_usable_onchain L bp c sender = Inr None \<and>
     (\<exists>w. merkletree_width tree = Inr w \<and> w \<le> MAXIMUM_PENDING_TRANSFERS) \<and>
     merkleroot tree = Inr (bp_locksroot bp) \<and>
     bp_transferred_amount bp = current_transferred_amount sender \<and>
     bp_locked_amount bp = current_locked_amount sender + lock_amount lock \<and>
     lock_amount lock \<le> get_distributable sender receiver \<and>
     lock_secrethash lock \<noteq> EMPTY_HASH_KECCAK L"
proof -
  obtain r0 where p: "get_current_balanceproof sender = (r0, get_current_nonce sender,
      current_transferred_amount sender, current_locked_amount sender)"
    using current_balanceproof_parts by blast
  show ?thesis
    unfolding valid_lockedtransfer_check_def p Let_def prod.case res_bind_Inr split_def accept_simps
    by (simp add: not_less) blast
qed

lemma lock_expired_iff:
  "is_valid_lock_expired L sc c sender receiver block_number = Inr (Inr tree) \<longleftrightarrow>
     (\<exists>lock. (case dict_get (secrethashes_to_lockedlocks (partner_state c)) (rle_secrethash sc) of
                Some lock \<Rightarrow> Some lock
              | None \<Rightarrow> map_option pp_lock (dict_get (secrethashes_to_unlockedlocks (partner_state c))
                                             (rle_secrethash sc))) = Some lock \<and>
        \<not> dict_has (secrethashes_to_onchain_unlockedlocks (partner_state c)) (rle_secrethash sc) \<and>
        is_balance_proof_usable_onchain L (rle_balance_proof sc) c sender = Inr None \<and>
        compute_merkletree_without L (es_merkletree sender) (lock_lockhash lock)
          = Inr (Some tree) \<and>
        is_lock_expired receiver lock block_number (get_receiver_expiration_threshold lock)
          = None \<and>
        merkleroot tree = Inr (bp_locksroot (rle_balance_proof sc)) \<and>
        bp_transferred_amount (rle_balance_proof sc) = current_transferred_amount sender \<and>
        bp_locked_amount (rle_balance_proof sc) =
          current_locked_amount sender - lock_amount lock)"
  (is "?l \<longleftrightarrow> (\<exists>lock. ?found = Some lock \<and> ?rest lock)")
proof -
  obtain r0 where p: "get_current_balanceproof sender = (r0, get_current_nonce sender,
      current_transferred_amount sender, current_locked_amount sender)"
    using current_balanceproof_parts by blast
  show ?thesis
  proof (cases ?found)
    case None
    then show ?thesis
      unfolding is_valid_lock_expired_def p Let_def prod.case res_bind_Inr accept_simps
      by simp
  next
    case (Some lock)
    then show ?thesis
      unfolding is_valid_lock_expired_def p Let_def prod.case res_bind_Inr accept_simps
      by simp blast
  qed
qed

lemma unlock_iff:
  "is_valid_unlock L unlock c sender = Inr (Inr tree) \<longleftrightarrow>
     (\<exists>lock. get_lock sender (ru_secrethash unlock) = Some lock \<and>
        compute_merkletree_without L (es_merkletree sender) (lock_lockhash lock)
          = Inr (Some tree) \<and>
        is_balance_proof_usable_onchain L (ru_balance_proof unlock) c sender = Inr None \<and>
        merkleroot tree = Inr (bp_locksroot (ru_balance_proof unlock)) \<and>
        bp_transferred_amount (ru_balance_proof unlock) =
          current_transferred_amount sender + lock_amount lock \<and>
        bp_locked_amount (ru_balance_proof unlock) =
          current_locked_amount sender - lock_amount lock)"
proof -
  obtain r0 where p: "get_current_balanceproof sender = (r0, get_current_nonce sender,
      current_transferred_amount sender, current_locked_amount sender)"
    using current_balanceproof_parts by blast
  show ?thesis
    unfolding is_valid_unlock_def p Let_def prod.case res_bind_Inr accept_simps
    by simp blast
qed

lemma refund_iff:
  "is_valid_refund L now refund c sender receiver t = Inr (Inr tree) \<longleftrightarrow>
     (\<exists>r st. valid_lockedtransfer_check L now c sender receiver MsgRefundTransfer
         (lt_balance_proof (rtr_transfer refund)) (lt_lock (rtr_transfer refund))
         EMPTY_PAYMENT_HASH_INVOICE None = Inr (Inr (tree, r), st)) \<and>
     refund_transfer_matches_transfer (rtr_transfer refund) t"
proof -
  have *: "(case checked of Inl msg \<Rightarrow> Inl msg
      | Inr (u, _) \<Rightarrow> if \<not> m then Inl RefundDoesNotMatch else Inr u) = Inr tree \<longleftrightarrow>
      m \<and> (\<exists>r. checked = Inr (tree, r))" for checked :: "reason + MerkleTreeState \<times> invoice_result" and m
    by (cases checked) (auto split: if_splits)
  show ?thesis
    unfolding is_valid_refund_def res_bind_Inr split_def by (simp add: * [unfolded split_def]) auto
qed

section \<open>The index of an unlock proof\<close>

lemma index_by_lockhash_get:
  "(\<exists>l \<in> set ls. lock_lockhash l = h) \<or> dict_get d h \<noteq> None \<Longrightarrow>
     \<exists>l. dict_get (index_by_lockhash ls d) h = Some l"
proof (induction ls arbitrary: d)
  case Nil
  then show ?case by (auto simp: index_by_lockhash_def)
next
  case (Cons l ls)
  have "\<exists>x. dict_get (index_by_lockhash ls (dict_set (lock_lockhash l) l d)) h = Some x"
    using Cons.prems by (intro Cons.IH) (auto simp: update_conv')
  then show ?case by (simp add: index_by_lockhash_def)
qed

lemma index_by_lockhash_from:
  "dict_get (index_by_lockhash ls d) h = Some l \<Longrightarrow>
     (l \<in> set ls \<and> lock_lockhash l = h) \<or> dict_get d h = Some l"
proof (induction ls arbitrary: d)
  case Nil
  then show ?case by (simp add: index_by_lockhash_def)
next
  case (Cons k ls)
  have "(l \<in> set ls \<and> lock_lockhash l = h) \<or> dict_get (dict_set (lock_lockhash k) k d) h = Some l"
    using Cons.prems by (intro Cons.IH) (simp add: index_by_lockhash_def)
  then show ?case by (auto simp: update_conv' split: if_splits)
qed

lemma lookup_all_Inr:
  "(\<And>k. k \<in> set ks \<Longrightarrow> dict_get d k = Some (f k)) \<Longrightarrow> lookup_all d ks = Inr (map f ks)"
  by (induction ks) auto

lemma lookup_all_KeyError: "k \<in> set ks \<Longrightarrow> dict_get d k = None \<Longrightarrow> lookup_all d ks = Inl KeyError"
proof (induction ks)
  case (Cons a ks)
  then show ?case by (cases "dict_get d a") auto
qed simp

lemma image_mset_distinct_inj:
  assumes "distinct xs" "mset xs = image_mset f M"
  shows "inj_on f (set_mset M)"
proof (rule inj_onI, rule ccontr)
  fix x y
  assume x: "x \<in># M" and y: "y \<in># M" and eq: "f x = f y" and ne: "x \<noteq> y"
  from x obtain N where N: "M = add_mset x N" by (metis multi_member_split)
  with y ne have "y \<in># N" by simp
  then obtain K where K: "N = add_mset y K" by (metis multi_member_split)
  have "count (mset xs) (f x) \<ge> 2" using N K eq by (simp add: assms(2))
  moreover have "count (mset xs) (f x) \<le> 1"
    using assms(1) by (simp add: distinct_count_atmost_1)
  ultimately show False by simp
qed

text \<open>In a well-formed end no two pending locks share a lockhash.\<close>

lemma end_ok_inj: "end_ok L e \<Longrightarrow> inj_on lock_lockhash (set_mset (locks_mset e))"
  using image_mset_distinct_inj [OF merkle_ok_distinct] end_okD(5,6) by blast

lemma locks_mset_iff:
  "l \<in># locks_mset e \<longleftrightarrow>
     l \<in> set (dict_values (secrethashes_to_lockedlocks e)) \<or>
     l \<in> set (map pp_lock (dict_values (secrethashes_to_unlockedlocks e))) \<or>
     l \<in> set (map pp_lock (dict_values (secrethashes_to_onchain_unlockedlocks e)))"
  by (auto simp: locks_mset_def)

text \<open>A lock is found by its secrethash in an end exactly if it is pending there.\<close>

lemma get_lock_iff:
  assumes "maps_ok e"
  shows "get_lock e h = Some l \<longleftrightarrow> l \<in># locks_mset e \<and> lock_secrethash l = h"
proof
  assume "get_lock e h = Some l"
  then show "l \<in># locks_mset e \<and> lock_secrethash l = h" using get_lock_SomeD assms by blast
next
  assume l: "l \<in># locks_mset e \<and> lock_secrethash l = h"
  note maps = assms [unfolded maps_ok_def]
  have k: "dict_get d (lock_secrethash (f v)) = Some v" if "keyed f d" "v \<in> set (dict_values d)"
    for f and d :: "(bytes, 'b) dict" and v
    using that by (force simp: keyed_def dict_get_iff)
  from l consider (1) "l \<in> set (dict_values (secrethashes_to_lockedlocks e))"
    | (2) p where "p \<in> set (dict_values (secrethashes_to_unlockedlocks e))" "l = pp_lock p"
    | (3) p where "p \<in> set (dict_values (secrethashes_to_onchain_unlockedlocks e))" "l = pp_lock p"
    unfolding locks_mset_iff set_map by blast
  then show "get_lock e h = Some l"
  proof cases
    case 1
    then have "dict_get (secrethashes_to_lockedlocks e) h = Some l" using k [of id] maps l by force
    then show ?thesis by (simp add: get_lock_def)
  next
    case 2
    then have g: "dict_get (secrethashes_to_unlockedlocks e) h = Some p"
      using k [of pp_lock "secrethashes_to_unlockedlocks e" p] maps l by simp
    then have "h \<notin> dict_keys (secrethashes_to_lockedlocks e)"
      using maps dict_get_key [OF g] by blast
    then show ?thesis using g 2 by (simp add: get_lock_def map_of_eq_None_iff [THEN iffD2])
  next
    case 3
    then have g: "dict_get (secrethashes_to_onchain_unlockedlocks e) h = Some p"
      using k [of pp_lock "secrethashes_to_onchain_unlockedlocks e" p] maps l by simp
    then have "h \<notin> dict_keys (secrethashes_to_lockedlocks e)"
      "h \<notin> dict_keys (secrethashes_to_unlockedlocks e)"
      using maps dict_get_key [OF g] by blast+
    then show ?thesis using g 3 by (simp add: get_lock_def map_of_eq_None_iff [THEN iffD2])
  qed
qed

lemma get_lock_recorded [simp]:
  "get_lock (record_lock bp tree l e) (lock_secrethash l) = Some l"
  by (simp add: get_lock_def record_lock_def update_conv')

end
