(* ===== verification/Ledger.thy ===== *)
theory Ledger
  imports ChannelFacts
begin

text \<open>
  What a channel promises, without hashes, trees and signatures: each side has a deposit, the
  amount it has transferred so far, the locks it has pending and the number of balance proofs it
  has issued.  A lock may only be added within the free amount; a lock leaves by being claimed or
  by expiring; deposits only grow.  The channel's operations refine these steps
  (theory \<open>ChannelInvariant\<close>), so what holds of every run here holds of the channel.
\<close>

record ledger =
  led_nonce :: int
  led_transferred :: int
  led_deposit :: int
  led_locks :: "HashTimeLockState multiset"

definition led_locked :: "ledger \<Rightarrow> int" where
  "led_locked a = sum_mset (image_mset lock_amount (led_locks a))"

text \<open>What the side \<open>a\<close> can still spend against \<open>b\<close>.\<close>

definition led_free :: "ledger \<Rightarrow> ledger \<Rightarrow> int" where
  "led_free a b = led_deposit a - led_transferred a + led_transferred b - led_locked a"

definition led_add :: "HashTimeLockState \<Rightarrow> ledger \<Rightarrow> ledger" where
  "led_add l a = a\<lparr>led_nonce := led_nonce a + 1, led_locks := add_mset l (led_locks a)\<rparr>"

definition led_claim :: "HashTimeLockState \<Rightarrow> ledger \<Rightarrow> ledger" where
  "led_claim l a = a\<lparr>led_nonce := led_nonce a + 1,
     led_transferred := led_transferred a + lock_amount l, led_locks := led_locks a - {#l#}\<rparr>"

definition led_drop :: "HashTimeLockState \<Rightarrow> ledger \<Rightarrow> ledger" where
  "led_drop l a = a\<lparr>led_nonce := led_nonce a + 1, led_locks := led_locks a - {#l#}\<rparr>"

text \<open>The ways in which one side changes when it issues a balance proof.\<close>

inductive led_issue :: "ledger \<Rightarrow> ledger \<Rightarrow> ledger \<Rightarrow> bool" where
  add: "0 \<le> lock_amount l \<Longrightarrow> lock_amount l \<le> led_free a b \<Longrightarrow> led_issue b a (led_add l a)"
| claim: "l \<in># led_locks a \<Longrightarrow> led_issue b a (led_claim l a)"
| expire: "l \<in># led_locks a \<Longrightarrow> led_issue b a (led_drop l a)"

inductive ledger_step :: "ledger \<times> ledger \<Rightarrow> ledger \<times> ledger \<Rightarrow> bool" where
  stay: "ledger_step s s"
| ours: "led_issue b a a' \<Longrightarrow> ledger_step (a, b) (a', b)"
| theirs: "led_issue a b b' \<Longrightarrow> ledger_step (a, b) (a, b')"
| deposit: "led_deposit a \<le> d \<Longrightarrow> led_deposit b \<le> e \<Longrightarrow>
    ledger_step (a, b) (a\<lparr>led_deposit := d\<rparr>, b\<lparr>led_deposit := e\<rparr>)"

inductive_cases led_issueE: "led_issue b a a'"
inductive_cases ledger_stepE: "ledger_step (a, b) (a', b')"

definition led_ok :: "ledger \<Rightarrow> bool" where
  "led_ok a \<longleftrightarrow> (\<forall>l \<in># led_locks a. 0 \<le> lock_amount l)"

definition solvent :: "ledger \<times> ledger \<Rightarrow> bool" where
  "solvent s \<longleftrightarrow> led_ok (fst s) \<and> led_ok (snd s) \<and>
     0 \<le> led_free (fst s) (snd s) \<and> 0 \<le> led_free (snd s) (fst s)"

lemma led_locked_add [simp]: "led_locked (led_add l a) = led_locked a + lock_amount l"
  by (simp add: led_locked_def led_add_def)

lemma led_locked_remove:
  "l \<in># led_locks a \<Longrightarrow>
     sum_mset (image_mset lock_amount (led_locks a - {#l#})) = led_locked a - lock_amount l"
  by (auto simp: led_locked_def dest!: multi_member_split)

lemma led_locked_claim [simp]:
  "l \<in># led_locks a \<Longrightarrow> led_locked (led_claim l a) = led_locked a - lock_amount l"
  unfolding led_locked_def [of "led_claim l a"] by (simp add: led_claim_def led_locked_remove)

lemma led_locked_drop [simp]:
  "l \<in># led_locks a \<Longrightarrow> led_locked (led_drop l a) = led_locked a - lock_amount l"
  unfolding led_locked_def [of "led_drop l a"] by (simp add: led_drop_def led_locked_remove)

lemma led_issue_ok: "led_issue b a a' \<Longrightarrow> led_ok a \<Longrightarrow> led_ok a'"
  by (erule led_issueE) (auto simp: led_ok_def led_add_def led_claim_def led_drop_def
      dest: in_diffD)

lemma led_issue_nonce: "led_issue b a a' \<Longrightarrow> led_nonce a' = led_nonce a + 1"
  by (erule led_issueE) (simp_all add: led_add_def led_claim_def led_drop_def)

text \<open>
  Issuing a balance proof moves the nonce by one, never lowers the transferred amount, leaves the
  deposit, and neither side's free amount turns negative.
\<close>

lemma led_issue_effect:
  assumes "led_issue b a a'" "led_ok a" "0 \<le> led_free a b" "0 \<le> led_free b a"
  shows "led_nonce a' = led_nonce a + 1" "led_deposit a' = led_deposit a"
    "led_transferred a \<le> led_transferred a'" "0 \<le> led_free a' b" "0 \<le> led_free b a'"
  using assms
  by (auto elim!: led_issueE simp: led_free_def led_ok_def) (auto simp: led_add_def led_claim_def
      led_drop_def)

lemma ledger_step_solvent: "ledger_step s s' \<Longrightarrow> solvent s \<Longrightarrow> solvent s'"
proof (induction rule: ledger_step.induct)
  case (ours b a a')
  then show ?case
    using led_issue_effect [OF ours(1)] led_issue_ok [OF ours(1)] by (simp add: solvent_def)
next
  case (theirs a b b')
  then show ?case
    using led_issue_effect [OF theirs(1)] led_issue_ok [OF theirs(1)] by (simp add: solvent_def)
qed (auto simp: solvent_def led_free_def led_ok_def led_locked_def)

lemma ledger_step_monotone:
  assumes "ledger_step s s'" "solvent s"
  shows "led_transferred (fst s) \<le> led_transferred (fst s')"
    and "led_transferred (snd s) \<le> led_transferred (snd s')"
    and "led_nonce (fst s') + led_nonce (snd s') \<le> led_nonce (fst s) + led_nonce (snd s) + 1"
    and "led_nonce (fst s) \<le> led_nonce (fst s')" "led_nonce (snd s) \<le> led_nonce (snd s')"
    and "led_deposit (fst s) \<le> led_deposit (fst s')" "led_deposit (snd s) \<le> led_deposit (snd s')"
  using assms
  by (auto simp: solvent_def elim!: ledger_step.cases dest: led_issue_effect)

text \<open>Nothing is created: what the two sides own together is what they deposited.\<close>

lemma led_conservation:
  "led_free a b + led_locked a + (led_free b a + led_locked b) = led_deposit a + led_deposit b"
  by (simp add: led_free_def)

end
