(* ===== verification/ChannelInvariant.thy ===== *)
theory ChannelInvariant
  imports Ledger
begin

text \<open>
  The invariant of a channel and its refinement of the ledger: every operation that changes a
  channel keeps both ends well formed and is one step of the ledger read off the two ends.
  Hypotheses of the steps are what the callers guarantee: a new lock's secrethash is not pending on
  that side, and the lock of a received message was made by its constructor.
\<close>

section \<open>The invariant\<close>

definition ledger_of :: "NettingChannelEndState \<Rightarrow> ledger" where
  "ledger_of e =
     \<lparr>led_nonce = get_current_nonce e, led_transferred = current_transferred_amount e,
      led_deposit = contract_balance e, led_locks = locks_mset e\<rparr>"

definition ledgers :: "NettingChannelState \<Rightarrow> ledger \<times> ledger" where
  "ledgers c = (ledger_of (our_state c), ledger_of (partner_state c))"

text \<open>A transaction has been started, or has finished with success.\<close>

definition tx_ok :: "TransactionExecutionStatus option \<Rightarrow> bool" where
  "tx_ok t \<longleftrightarrow>
     (case t of
        None \<Rightarrow> True
      | Some s \<Rightarrow> (tx_result s = None \<and> finished_block_number s = None) \<or>
                  (tx_result s = Some SUCCESS \<and> finished_block_number s \<noteq> None))"

definition channel_ok :: "libs \<Rightarrow> NettingChannelState \<Rightarrow> bool" where
  "channel_ok L c \<longleftrightarrow>
     end_ok L (our_state c) \<and> end_ok L (partner_state c) \<and>
     (\<forall>b. es_balance_proof (our_state c) \<noteq> Some (Signed b)) \<and>
     (\<forall>b. es_balance_proof (partner_state c) \<noteq> Some (Unsigned b)) \<and>
     heap_ok (deposit_transaction_queue c) \<and>
     tx_ok (close_transaction c) \<and> tx_ok (settle_transaction c)"

lemma channel_okD:
  assumes "channel_ok L c"
  shows "end_ok L (our_state c)" "end_ok L (partner_state c)"
    "heap_ok (deposit_transaction_queue c)" "tx_ok (close_transaction c)"
    "tx_ok (settle_transaction c)" "es_balance_proof (our_state c) \<noteq> Some (Signed b)"
    "es_balance_proof (partner_state c) \<noteq> Some (Unsigned u)"
  using assms by (simp_all add: channel_ok_def)

lemma led_locked_of: "led_locked (ledger_of e) = get_amount_locked e"
  by (simp add: led_locked_def ledger_of_def get_amount_locked_mset)

lemma led_free_of: "led_free (ledger_of a) (ledger_of b) = get_balance a b - get_amount_locked a"
  by (simp add: led_free_def led_locked_of) (simp add: ledger_of_def get_balance_def)

lemma distributable_le_free: "get_distributable a b \<le> led_free (ledger_of a) (ledger_of b)"
  by (simp add: led_free_of get_distributable_def split: prod.splits)

lemma next_nonce: "get_next_nonce e = get_current_nonce e + 1"
  by (simp add: get_next_nonce_def get_current_nonce_def split: option.splits)

lemma end_locks_led_ok: "end_ok L e \<Longrightarrow> led_ok (ledger_of e)"
  by (auto simp: led_ok_def ledger_of_def end_ok_def dest: lock_ok_amount)

section \<open>One end issues a balance proof\<close>

lemma record_lock_ledger:
  assumes "locks_mset (record_lock bp t l e) = add_mset l (locks_mset e)"
    and "bp_nonce (bp_data bp) = get_next_nonce e"
    and "bp_transferred_amount (bp_data bp) = current_transferred_amount e"
  shows "ledger_of (record_lock bp t l e) = led_add l (ledger_of e)"
  using assms
  by (simp add: ledger_of_def led_add_def next_nonce)
    (simp add: get_current_nonce_def current_transferred_amount_def)

lemma claimed_ledger:
  assumes "locks_mset e = add_mset l (locks_mset e')" "es_balance_proof e' = Some bp"
    and "contract_balance e' = contract_balance e" "bp_nonce (bp_data bp) = get_next_nonce e"
    and "bp_transferred_amount (bp_data bp) = current_transferred_amount e + lock_amount l"
  shows "ledger_of e' = led_claim l (ledger_of e)" "l \<in># led_locks (ledger_of e)"
  using assms
  by (simp_all add: ledger_of_def led_claim_def next_nonce get_current_nonce_def
      current_transferred_amount_def [of e'])

lemma dropped_ledger:
  assumes "locks_mset e = add_mset l (locks_mset e')" "es_balance_proof e' = Some bp"
    and "contract_balance e' = contract_balance e" "bp_nonce (bp_data bp) = get_next_nonce e"
    and "bp_transferred_amount (bp_data bp) = current_transferred_amount e"
  shows "ledger_of e' = led_drop l (ledger_of e)" "l \<in># led_locks (ledger_of e)"
  using assms
  by (simp_all add: ledger_of_def led_drop_def next_nonce get_current_nonce_def
      current_transferred_amount_def [of e'])

text \<open>An end keeps its balance proof, or replaces it by one with the next nonce.\<close>

definition proof_step :: "NettingChannelEndState \<Rightarrow> NettingChannelEndState \<Rightarrow> bool" where
  "proof_step e e' \<longleftrightarrow>
     es_balance_proof e' = es_balance_proof e \<or> get_current_nonce e' = get_current_nonce e + 1"

definition sim :: "libs \<Rightarrow> NettingChannelState \<Rightarrow> NettingChannelState \<Rightarrow> bool" where
  "sim L c c' \<longleftrightarrow> channel_ok L c' \<and> ledger_step (ledgers c) (ledgers c') \<and>
     proof_step (our_state c) (our_state c') \<and> proof_step (partner_state c) (partner_state c')"

lemma sim_refl: "channel_ok L c \<Longrightarrow> sim L c c"
  by (simp add: sim_def ledger_step.stay proof_step_def)

lemma led_issue_proof_step: "led_issue b (ledger_of e) (ledger_of e') \<Longrightarrow> proof_step e e'"
  using led_issue_nonce [of b "ledger_of e" "ledger_of e'"]
  by (simp add: ledger_of_def proof_step_def)

lemma sim_our:
  assumes "channel_ok L c" "end_ok L e'" "es_balance_proof e' = Some (Unsigned b)"
    and "led_issue (ledger_of (partner_state c)) (ledger_of (our_state c)) (ledger_of e')"
  shows "sim L c (c\<lparr>our_state := e'\<rparr>)"
  using assms led_issue_proof_step [OF assms(4)]
  by (simp add: sim_def channel_ok_def ledgers_def ledger_step.ours proof_step_def
      [of "partner_state c"])

lemma sim_partner:
  assumes "channel_ok L c" "end_ok L e'" "es_balance_proof e' = Some (Signed b)"
    and "led_issue (ledger_of (our_state c)) (ledger_of (partner_state c)) (ledger_of e')"
  shows "sim L c (c\<lparr>partner_state := e'\<rparr>)"
  using assms led_issue_proof_step [OF assms(4)]
  by (simp add: sim_def channel_ok_def ledgers_def ledger_step.theirs proof_step_def
      [of "our_state c"])

section \<open>Sending\<close>

lemma create_sendlockedtransferD:
  assumes "create_sendlockedtransfer L c i t amount m p ph x h = Inr (ev, tree)"
  obtains lock bp where
    "lt_lock (ste_transfer ev) = lock" "lt_balance_proof (ste_transfer ev) = bp"
    "mk_HashTimeLockState L amount x h = Inr lock"
    "amount \<le> get_distributable (our_state c) (partner_state c)"
    "get_status c = CHANNEL_STATE_OPENED"
    "compute_merkletree_with L (es_merkletree (our_state c)) (lock_lockhash lock)
       = Inr (Some tree)"
    "merkleroot tree = Inr (bp_locksroot bp)"
    "bp_nonce bp = get_next_nonce (our_state c)"
    "bp_transferred_amount bp = current_transferred_amount (our_state c)"
    "bp_locked_amount bp = get_amount_locked (our_state c) + amount"
    "bp_canonical_identifier bp = ch_canonical_identifier c"
    "current_transferred_amount (our_state c) + amount \<le> UINT256_MAX"
    "bp_nonce bp \<le> UINT64_MAX"
    "ste_recipient ev = es_address (partner_state c)"
proof -
  from assms obtain lock root bp where
    "mk_HashTimeLockState L amount x h = Inr lock"
    "amount \<le> get_distributable (our_state c) (partner_state c)"
    "get_status c = CHANNEL_STATE_OPENED"
    "compute_merkletree_with L (es_merkletree (our_state c)) (lock_lockhash lock)
       = Inr (Some tree)"
    "merkleroot tree = Inr root"
    "current_transferred_amount (our_state c) + amount \<le> UINT256_MAX"
    "mk_BalanceProofUnsignedState (get_next_nonce (our_state c))
       (current_transferred_amount (our_state c)) (get_amount_locked (our_state c) + amount)
       root (ch_canonical_identifier c) = Inr bp"
    "lt_lock (ste_transfer ev) = lock" "lt_balance_proof (ste_transfer ev) = bp"
    "ste_recipient ev = es_address (partner_state c)"
    by (auto simp: create_sendlockedtransfer_def Let_def res_simps
        mk_LockedTransferUnsignedState_def split: option.splits if_splits)
  moreover from this(7) have "bp_locksroot bp = root"
    "bp_nonce bp = get_next_nonce (our_state c)"
    "bp_transferred_amount bp = current_transferred_amount (our_state c)"
    "bp_locked_amount bp = get_amount_locked (our_state c) + amount"
    "bp_canonical_identifier bp = ch_canonical_identifier c" "bp_nonce bp \<le> UINT64_MAX"
    by (auto simp: mk_BalanceProofUnsignedState_def balance_proof_checks_def res_simps
        split: if_splits)
  ultimately show thesis by (intro that) auto
qed

lemma mk_lock_sel:
  "mk_HashTimeLockState L a x h = Inr l \<Longrightarrow>
     lock_amount l = a \<and> lock_expiration l = x \<and> lock_secrethash l = h"
  by (auto simp: mk_lock_iff)

lemma create_send_sim:
  assumes L: "keccak_ok L" and c: "channel_ok L c"
    and fresh: "\<not> is_lock_pending (our_state c) h"
    and sent: "create_sendlockedtransfer L c i t amount m p ph x h = Inr (ev, tree)"
  shows "sim L c (upd_our (record_lock (Unsigned (lt_balance_proof (ste_transfer ev))) tree
                             (lt_lock (ste_transfer ev))) c)"
proof -
  from sent obtain lock bp where *:
    "lt_lock (ste_transfer ev) = lock" "lt_balance_proof (ste_transfer ev) = bp"
    "mk_HashTimeLockState L amount x h = Inr lock"
    "amount \<le> get_distributable (our_state c) (partner_state c)"
    "compute_merkletree_with L (es_merkletree (our_state c)) (lock_lockhash lock)
       = Inr (Some tree)"
    "merkleroot tree = Inr (bp_locksroot bp)" "bp_nonce bp = get_next_nonce (our_state c)"
    "bp_transferred_amount bp = current_transferred_amount (our_state c)"
    "bp_locked_amount bp = get_amount_locked (our_state c) + amount"
    by (rule create_sendlockedtransferD)
  have l: "lock_ok L lock" "lock_amount lock = amount" "lock_secrethash lock = h"
    using *(3) lock_okI mk_lock_sel by auto
  note e = record_lock_end_ok [OF L channel_okD(1) [OF c] l(1), of tree "Unsigned bp"]
  have f: "\<not> is_lock_pending (our_state c) (lock_secrethash lock)" using fresh l by simp
  have ok: "end_ok L (record_lock (Unsigned bp) tree lock (our_state c))"
    and m: "locks_mset (record_lock (Unsigned bp) tree lock (our_state c)) =
      add_mset lock (locks_mset (our_state c))"
    using e f * l by simp_all
  have "ledger_of (record_lock (Unsigned bp) tree lock (our_state c)) =
      led_add lock (ledger_of (our_state c))"
    using m * by (intro record_lock_ledger) simp_all
  moreover have "led_issue (ledger_of (partner_state c)) (ledger_of (our_state c))
      (led_add lock (ledger_of (our_state c)))"
    using l * lock_ok_amount [OF l(1)] distributable_le_free [of "our_state c" "partner_state c"]
    by (intro led_issue.add) simp_all
  ultimately show ?thesis
    using sim_our [OF c ok] * by simp
qed

lemma send_lockedtransfer_sim:
  assumes "keccak_ok L" "channel_ok L c" "\<not> is_lock_pending (our_state c) h"
    and "send_lockedtransfer L c i t amount m p ph x h = Inr (ev, c')"
  shows "sim L c c'"
  using assms(4) create_send_sim [OF assms(1-3)]
  by (auto simp: send_lockedtransfer_def res_simps Let_def)

lemma send_refundtransfer_sim:
  assumes "keccak_ok L" "channel_ok L c" "\<not> is_lock_pending (our_state c) h"
    and "send_refundtransfer L c i t amount m p x h = Inr (ev, c')"
  shows "sim L c c'"
  using assms(4) create_send_sim [OF assms(1-3)]
  by (auto simp: send_refundtransfer_def res_simps Let_def)

lemma create_unlockD:
  assumes "create_unlock L c m p secret lock lc = Inr (ev, tree)"
  obtains bp where
    "\<not> lc" "sbp_balance_proof ev = bp" "get_status c = CHANNEL_STATE_OPENED"
    "is_lock_pending (our_state c) (lock_secrethash lock)"
    "compute_merkletree_without L (es_merkletree (our_state c)) (lock_lockhash lock)
       = Inr (Some tree)"
    "merkleroot tree = Inr (bp_locksroot bp)"
    "bp_nonce bp = get_next_nonce (our_state c)"
    "bp_transferred_amount bp = current_transferred_amount (our_state c) + lock_amount lock"
    "bp_locked_amount bp = get_amount_locked (our_state c) - lock_amount lock"
    "bp_canonical_identifier bp = ch_canonical_identifier c"
    "ev = mk_SendBalanceProof L (es_address (partner_state c)) (ch_identifier c) m p
       (ch_token_address c) secret bp"
proof -
  from assms obtain our_bp root bp where
    "\<not> lc" "get_status c = CHANNEL_STATE_OPENED"
    "is_lock_pending (our_state c) (lock_secrethash lock)"
    "es_balance_proof (our_state c) = Some our_bp"
    "compute_merkletree_without L (es_merkletree (our_state c)) (lock_lockhash lock)
       = Inr (Some tree)"
    "merkleroot tree = Inr root"
    "mk_BalanceProofUnsignedState (get_next_nonce (our_state c))
       (lock_amount lock + bp_transferred_amount (bp_data our_bp))
       (get_amount_locked (our_state c) - lock_amount lock)
       root (ch_canonical_identifier c) = Inr bp"
    "ev = mk_SendBalanceProof L (es_address (partner_state c)) (ch_identifier c) m p
       (ch_token_address c) secret bp"
    by (auto simp: create_unlock_def Let_def res_simps split: option.splits if_splits)
  moreover from this(7) have "bp_locksroot bp = root"
    "bp_nonce bp = get_next_nonce (our_state c)"
    "bp_transferred_amount bp = lock_amount lock + bp_transferred_amount (bp_data our_bp)"
    "bp_locked_amount bp = get_amount_locked (our_state c) - lock_amount lock"
    "bp_canonical_identifier bp = ch_canonical_identifier c"
    by (auto simp: mk_BalanceProofUnsignedState_def balance_proof_checks_def res_simps
        split: if_splits)
  ultimately show thesis
    by (intro that) (auto simp: current_transferred_amount_def mk_SendBalanceProof_def)
qed

text \<open>The lock that leaves an end, by a claim and by an expiry.\<close>

lemma claim_lock_sim:
  assumes "end_ok L e" "get_lock e h = Some l"
    and "compute_merkletree_without L (es_merkletree e) (lock_lockhash l) = Inr (Some t)"
    and "merkleroot t = Inr (bp_locksroot (bp_data bp))"
    and "bp_nonce (bp_data bp) = get_next_nonce e"
    and "bp_transferred_amount (bp_data bp) = current_transferred_amount e + lock_amount l"
    and "bp_locked_amount (bp_data bp) = get_amount_locked e - lock_amount l"
    and "del_lock h (set_proof bp t e) = Inr e'"
  shows "end_ok L e'" "led_issue b (ledger_of e) (ledger_of e')" "es_balance_proof e' = Some bp"
proof -
  have "maps_ok (set_proof bp t e)" "get_lock (set_proof bp t e) h = Some l"
    using assms(1,2) by (simp_all add: end_okD)
  then obtain e2 where e2: "del_lock h (set_proof bp t e) = Inr e2" "maps_ok e2"
    "locks_mset (set_proof bp t e) = add_mset l (locks_mset e2)"
    "contract_balance e2 = contract_balance (set_proof bp t e)"
    "es_balance_proof e2 = es_balance_proof (set_proof bp t e)"
    "es_merkletree e2 = es_merkletree (set_proof bp t e)"
    by (rule del_lock_props)
  then have e': "e2 = e'" "locks_mset e = add_mset l (locks_mset e')" using assms(8) by simp_all
  show "es_balance_proof e' = Some bp" using e2 e' by simp
  show "end_ok L e'"
    using assms e2 e' by (intro dropped_lock_end_ok [of L e l t bp e']) simp_all
  have "ledger_of e' = led_claim l (ledger_of e)" "l \<in># led_locks (ledger_of e)"
    using assms e2 e' claimed_ledger [of e l e' bp] by simp_all
  then show "led_issue b (ledger_of e) (ledger_of e')" using led_issue.claim by simp
qed

lemma expire_lock_sim:
  assumes "end_ok L e" "get_lock e h = Some l"
    and "\<not> dict_has (secrethashes_to_onchain_unlockedlocks e) h"
    and "compute_merkletree_without L (es_merkletree e) (lock_lockhash l) = Inr (Some t)"
    and "merkleroot t = Inr (bp_locksroot (bp_data bp))"
    and "bp_nonce (bp_data bp) = get_next_nonce e"
    and "bp_transferred_amount (bp_data bp) = current_transferred_amount e"
    and "bp_locked_amount (bp_data bp) = get_amount_locked e - lock_amount l"
  shows "end_ok L (del_unclaimed_lock h (set_proof bp t e))"
    "led_issue b (ledger_of e) (ledger_of (del_unclaimed_lock h (set_proof bp t e)))"
proof -
  let ?e = "del_unclaimed_lock h (set_proof bp t e)"
  have "locks_mset (set_proof bp t e) = add_mset l (locks_mset ?e)"
    using assms(1-3) by (intro del_unclaimed_mset) (simp_all add: end_okD)
  then have m: "locks_mset e = add_mset l (locks_mset ?e)" by simp
  show "end_ok L ?e"
    using assms m
    by (intro dropped_lock_end_ok [of L e l t bp ?e]) (simp_all add: del_unclaimed_maps end_okD)
  have "ledger_of ?e = led_drop l (ledger_of e)" "l \<in># led_locks (ledger_of e)"
    using assms m dropped_ledger [of e l ?e bp] by simp_all
  then show "led_issue b (ledger_of e) (ledger_of ?e)" using led_issue.expire by simp
qed

lemma send_unlock_sim:
  assumes c: "channel_ok L c" and sent: "send_unlock L c m p secret h lc = Inr (ev, c')"
  shows "sim L c c'"
proof -
  from sent obtain lock tree e' where s: "get_lock (our_state c) h = Some lock"
    "create_unlock L c m p secret lock lc = Inr (ev, tree)"
    "del_lock (lock_secrethash lock) (set_proof (Unsigned (sbp_balance_proof ev)) tree
       (our_state c)) = Inr e'" "c' = c\<lparr>our_state := e'\<rparr>"
    by (auto simp: send_unlock_def res_simps split: option.splits)
  have h: "lock_secrethash lock = h"
    using get_lock_SomeD(1) [OF end_okD(1) [OF channel_okD(1) [OF c]] s(1)] .
  from s(2) obtain bp where *: "sbp_balance_proof ev = bp"
    "compute_merkletree_without L (es_merkletree (our_state c)) (lock_lockhash lock)
       = Inr (Some tree)"
    "merkleroot tree = Inr (bp_locksroot bp)" "bp_nonce bp = get_next_nonce (our_state c)"
    "bp_transferred_amount bp = current_transferred_amount (our_state c) + lock_amount lock"
    "bp_locked_amount bp = get_amount_locked (our_state c) - lock_amount lock"
    by (rule create_unlockD)
  note r = claim_lock_sim [OF channel_okD(1) [OF c] s(1) *(2), of "Unsigned bp" e']
  have "end_ok L e'" "led_issue (ledger_of (partner_state c)) (ledger_of (our_state c)) (ledger_of e')"
    "es_balance_proof e' = Some (Unsigned bp)"
    using r s(3) * h by simp_all
  then show ?thesis using sim_our [OF c] s(4) by blast
qed

lemma create_sendexpiredlockD:
  assumes "create_sendexpiredlock L e lock g ci tn ch r = Inr (Some (ev, tree), g')"
  obtains bp where "sle_balance_proof ev = bp" "sle_secrethash ev = lock_secrethash lock"
    "sle_recipient ev = r" "g' = Suc g"
    "compute_merkletree_without L (es_merkletree e) (lock_lockhash lock) = Inr (Some tree)"
    "merkleroot tree = Inr (bp_locksroot bp)" "bp_nonce bp = get_next_nonce e"
    "bp_transferred_amount bp = current_transferred_amount e"
    "bp_locked_amount bp = get_amount_locked e - lock_amount lock"
    "bp_canonical_identifier bp =
       \<lparr>chain_identifier = ci, token_network_address = tn, channel_identifier = ch\<rparr>"
proof -
  from assms obtain sbp root bp where
    "es_balance_proof e = Some sbp"
    "compute_merkletree_without L (es_merkletree e) (lock_lockhash lock) = Inr (Some tree)"
    "merkleroot tree = Inr root"
    "mk_BalanceProofUnsignedState (get_next_nonce e) (bp_transferred_amount (bp_data sbp))
       (get_amount_locked e - lock_amount lock) root
       \<lparr>chain_identifier = ci, token_network_address = tn, channel_identifier = ch\<rparr> = Inr bp"
    "sle_balance_proof ev = bp" "sle_secrethash ev = lock_secrethash lock"
    "sle_recipient ev = r" "g' = Suc g"
    by (auto simp: create_sendexpiredlock_def Let_def res_simps message_identifier_from_prng_def
        split: option.splits)
  moreover from this(4) have "bp_locksroot bp = root" "bp_nonce bp = get_next_nonce e"
    "bp_transferred_amount bp = bp_transferred_amount (bp_data sbp)"
    "bp_locked_amount bp = get_amount_locked e - lock_amount lock"
    "bp_canonical_identifier bp =
       \<lparr>chain_identifier = ci, token_network_address = tn, channel_identifier = ch\<rparr>"
    by (auto simp: mk_BalanceProofUnsignedState_def balance_proof_checks_def res_simps
        split: if_splits)
  ultimately show thesis by (intro that) (auto simp: current_transferred_amount_def)
qed

lemma events_for_expired_lock_sim:
  assumes c: "channel_ok L c" and lock: "get_lock (our_state c) (lock_secrethash lock) = Some lock"
    and off: "\<not> dict_has (secrethashes_to_onchain_unlockedlocks (our_state c)) (lock_secrethash lock)"
    and run: "events_for_expired_lock L c lock g = Inr (evs, c', g')"
  shows "sim L c c'"
proof -
  from run obtain sent where s: "create_sendexpiredlock L (our_state c) lock g (ch_chain_id c)
      (ch_token_network_identifier c) (ch_identifier c) (es_address (partner_state c))
      = Inr (sent, g')"
    "c' = (case sent of None \<Rightarrow> c | Some (ev, tree) \<Rightarrow>
       upd_our (\<lambda>our. del_unclaimed_lock (lock_secrethash lock)
         (set_proof (Unsigned (sle_balance_proof ev)) tree our)) c)"
    by (auto simp: events_for_expired_lock_def res_simps split: option.splits)
  show ?thesis
  proof (cases sent)
    case None
    then show ?thesis using s c sim_refl by simp
  next
    case (Some x)
    obtain ev tree where x: "x = (ev, tree)" by (cases x)
    from s(1) [unfolded Some x] obtain bp where *: "sle_balance_proof ev = bp"
      "compute_merkletree_without L (es_merkletree (our_state c)) (lock_lockhash lock)
         = Inr (Some tree)"
      "merkleroot tree = Inr (bp_locksroot bp)" "bp_nonce bp = get_next_nonce (our_state c)"
      "bp_transferred_amount bp = current_transferred_amount (our_state c)"
      "bp_locked_amount bp = get_amount_locked (our_state c) - lock_amount lock"
      by (rule create_sendexpiredlockD)
    note r = expire_lock_sim [OF channel_okD(1) [OF c] lock off *(2), of "Unsigned bp"]
    have "end_ok L (del_unclaimed_lock (lock_secrethash lock)
        (set_proof (Unsigned bp) tree (our_state c)))"
      "led_issue (ledger_of (partner_state c)) (ledger_of (our_state c))
        (ledger_of (del_unclaimed_lock (lock_secrethash lock)
          (set_proof (Unsigned bp) tree (our_state c))))"
      using r * by simp_all
    then show ?thesis using sim_our [OF c] s(2) Some x * by simp
  qed
qed

section \<open>Secrets\<close>

text \<open>An end with the same locks, tree, balance proof and deposit, the locks filed differently.\<close>

definition refiled :: "NettingChannelEndState \<Rightarrow> NettingChannelEndState \<Rightarrow> bool" where
  "refiled e e' \<longleftrightarrow> maps_ok e' \<and> locks_mset e' = locks_mset e \<and>
     es_balance_proof e' = es_balance_proof e \<and> es_merkletree e' = es_merkletree e \<and>
     contract_balance e' = contract_balance e \<and> es_address e' = es_address e"

lemma refiled_refl: "maps_ok e \<Longrightarrow> refiled e e"
  by (simp add: refiled_def)

lemma refiled_end_ok: "end_ok L e \<Longrightarrow> refiled e e' \<Longrightarrow> end_ok L e'"
  using same_locks_end_ok [of L e e'] by (simp add: refiled_def)

lemma refiled_ledger: "refiled e e' \<Longrightarrow> ledger_of e' = ledger_of e"
  by (simp add: refiled_def ledger_of_def get_current_nonce_def current_transferred_amount_def)

lemma sim_refiled:
  assumes "channel_ok L c" "refiled (our_state c) e" "refiled (partner_state c) e'"
  shows "sim L c (c\<lparr>our_state := e, partner_state := e'\<rparr>)"
proof -
  have "ledgers (c\<lparr>our_state := e, partner_state := e'\<rparr>) = ledgers c"
    using assms by (simp add: ledgers_def refiled_ledger)
  moreover have "end_ok L e" "end_ok L e'"
    using assms refiled_end_ok channel_okD by blast+
  ultimately show ?thesis
    using assms by (simp add: sim_def channel_ok_def ledger_step.stay refiled_def proof_step_def)
qed

lemma register_secret_refiled:
  assumes "maps_ok e"
  shows "refiled e (register_secret_endstate secret h e)"
proof (cases "dict_get (secrethashes_to_lockedlocks e) h")
  case None
  then show ?thesis using assms by (simp add: register_secret_endstate_def refiled_refl)
next
  case (Some l)
  have k: "h \<notin> dict_keys (secrethashes_to_unlockedlocks e)"
    "h \<notin> dict_keys (secrethashes_to_onchain_unlockedlocks e)"
    using assms dict_get_key [OF Some] unfolding maps_ok_def by blast+
  have l: "lock_secrethash l = h"
    using assms keyed_get [of id "secrethashes_to_lockedlocks e" h l] Some by (simp add: maps_ok_def)
  have "maps_ok (register_secret_endstate secret h e)"
    using assms k l Some
    by (auto simp: register_secret_endstate_def maps_ok_def keyed_set dict_keys_set dict_keys_del
        mk_UnlockPartialProofState_def)
  moreover have "locks_mset (register_secret_endstate secret h e) = locks_mset e"
    using assms Some mset_values_del [of "secrethashes_to_lockedlocks e" h l]
      mset_values_set [OF k(1), of "mk_UnlockPartialProofState l secret"]
    by (simp add: register_secret_endstate_def locks_mset_def maps_ok_def keyed_def)
      (simp add: mk_UnlockPartialProofState_def)
  ultimately show ?thesis
    using Some by (simp add: refiled_def register_secret_endstate_def)
qed

lemma register_onchain_refiled:
  assumes e: "maps_ok e"
    and run: "register_onchain_secret_endstate secret h n True e = Inr e'"
  shows "refiled e e'"
proof -
  define pending where "pending = (case dict_get (secrethashes_to_unlockedlocks e) h of
      Some p \<Rightarrow> Some (pp_lock p) | None \<Rightarrow> dict_get (secrethashes_to_lockedlocks e) h)"
  note run' = run [unfolded register_onchain_secret_endstate_def, folded pending_def]
  show ?thesis
  proof (cases "\<exists>l. pending = Some l \<and> \<not> lock_expiration l < n")
    case False
    then show ?thesis
      using run' e by (auto simp: refiled_refl Let_def split: option.splits if_splits)
  next
    case True
    then obtain l where l: "pending = Some l" "\<not> lock_expiration l < n" by blast
    have get: "get_lock e h = Some l"
    proof (cases "dict_get (secrethashes_to_unlockedlocks e) h")
      case None
      then show ?thesis using l by (simp add: pending_def get_lock_def)
    next
      case (Some p)
      then have "h \<notin> dict_keys (secrethashes_to_lockedlocks e)"
        using e dict_get_key [OF Some] unfolding maps_ok_def by blast
      then show ?thesis
        using Some l by (simp add: pending_def get_lock_def map_of_eq_None_iff [THEN iffD2])
    qed
    from del_lock_props [OF e get] obtain d where d: "del_lock h e = Inr d" "maps_ok d"
      "locks_mset e = add_mset l (locks_mset d)" "es_address d = es_address e"
      "contract_balance d = contract_balance e" "es_balance_proof d = es_balance_proof e"
      "es_merkletree d = es_merkletree e" "\<not> is_lock_pending d h"
      by metis
    let ?p = "mk_UnlockPartialProofState l secret"
    have e': "e' = d\<lparr>secrethashes_to_onchain_unlockedlocks :=
        dict_set h ?p (secrethashes_to_onchain_unlockedlocks d)\<rparr>"
      using run' l d(1) by (simp add: Let_def)
    have k: "h \<notin> dict_keys (secrethashes_to_lockedlocks d)"
      "h \<notin> dict_keys (secrethashes_to_unlockedlocks d)"
      "h \<notin> dict_keys (secrethashes_to_onchain_unlockedlocks d)"
      using d(8) unfolding is_lock_pending_def dict_has_keys by blast+
    have "lock_secrethash l = h" by (rule get_lock_SomeD(1) [OF e get])
    then have "maps_ok e'"
      using d(2) k by (simp add: e' maps_ok_def keyed_set dict_keys_set mk_UnlockPartialProofState_def)
    moreover have "locks_mset e' = locks_mset e"
      using d(3) mset_values_set [OF k(3), of ?p]
      by (simp add: e' locks_mset_def) (simp add: mk_UnlockPartialProofState_def)
    ultimately show ?thesis using d by (simp add: refiled_def e')
  qed
qed

lemma register_onchain_total:
  "maps_ok e \<Longrightarrow> \<exists>e'. register_onchain_secret_endstate secret h n True e = Inr e'"
proof -
  assume e: "maps_ok e"
  have "\<exists>d. del_lock h e = Inr d" if "is_lock_pending e h"
    using that by (simp add: del_lock_def Let_def)
  moreover have "is_lock_pending e h" if "dict_get (secrethashes_to_lockedlocks e) h = Some l \<or>
      dict_get (secrethashes_to_unlockedlocks e) h = Some p" for l p
    using that by (auto simp: is_lock_pending_def dict_has_def)
  ultimately show ?thesis
    by (fastforce simp: register_onchain_secret_endstate_def Let_def split: option.splits)
qed

lemma register_offchain_sim:
  assumes "channel_ok L c"
  shows "sim L c (register_offchain_secret c secret h)"
  using sim_refiled [OF assms register_secret_refiled register_secret_refiled]
    end_okD(1) [OF channel_okD(1) [OF assms]] end_okD(1) [OF channel_okD(2) [OF assms]]
  by (simp add: register_offchain_secret_def)

lemma register_onchain_sim:
  assumes "channel_ok L c" "register_onchain_secret c secret h n True = Inr c'"
  shows "sim L c c'"
proof -
  from assms(2) obtain a b where "c' = c\<lparr>our_state := a, partner_state := b\<rparr>"
    "register_onchain_secret_endstate secret h n True (our_state c) = Inr a"
    "register_onchain_secret_endstate secret h n True (partner_state c) = Inr b"
    by (auto simp: register_onchain_secret_def res_simps)
  then show ?thesis
    using sim_refiled [OF assms(1)] register_onchain_refiled channel_okD(1,2) [OF assms(1)] end_okD(1)
    by blast
qed

section \<open>Receiving\<close>

lemma accepted_transfer_sim:
  assumes L: "keccak_ok L" and c: "channel_ok L c"
    and fresh: "\<not> is_lock_pending (partner_state c) (lock_secrethash lock)"
    and lock: "lock_ok L lock"
    and ok: "valid_lockedtransfer_check L now c (partner_state c) (our_state c) name bp lock ph st
       = Inr (Inr (tree, r), st')"
  shows "sim L c (upd_partner (record_lock (Signed bp) tree lock) c)"
proof -
  note * = ok [unfolded lockedtransfer_iff usable_iff]
  have locked: "bp_locked_amount bp = get_amount_locked (partner_state c) + lock_amount lock"
    using * current_locked_ok [OF channel_okD(2) [OF c]] by simp
  note e = record_lock_end_ok [OF L channel_okD(2) [OF c] lock fresh, of tree "Signed bp"]
  have end_ok: "end_ok L (record_lock (Signed bp) tree lock (partner_state c))"
    and m: "locks_mset (record_lock (Signed bp) tree lock (partner_state c)) =
      add_mset lock (locks_mset (partner_state c))"
    using e * locked by simp_all
  have "ledger_of (record_lock (Signed bp) tree lock (partner_state c)) =
      led_add lock (ledger_of (partner_state c))"
    using m * by (intro record_lock_ledger) simp_all
  moreover have "led_issue (ledger_of (our_state c)) (ledger_of (partner_state c))
      (led_add lock (ledger_of (partner_state c)))"
    using * lock_ok_amount [OF lock] distributable_le_free [of "partner_state c" "our_state c"]
    by (intro led_issue.add) simp_all
  ultimately show ?thesis
    using sim_partner [OF c end_ok] by simp
qed

lemma receive_lockedtransfer_with_sim:
  assumes "keccak_ok L" "channel_ok L c" "lock_ok L (lt_lock t)"
    and "\<not> is_lock_pending (partner_state c) (lock_secrethash (lt_lock t))"
    and "receive_lockedtransfer_with evs L now c t st = Inr (out, c', st')"
  shows "sim L c c'"
proof -
  from assms(5) obtain r st2 where r: "is_valid_lockedtransfer L now t c (partner_state c)
      (our_state c) st = Inr (r, st2)"
    by (auto simp: receive_lockedtransfer_with_def res_bind_Inr)
  show ?thesis
  proof (cases r)
    case (Inl msg)
    then show ?thesis
      using assms(5) r sim_refl [OF assms(2)] by (simp add: receive_lockedtransfer_with_def)
  next
    case (Inr x)
    then obtain tree y where "r = Inr (tree, y)" by (cases x) simp
    then show ?thesis
      using assms(5) r accepted_transfer_sim [OF assms(1,2,4,3)]
      by (auto simp: receive_lockedtransfer_with_def is_valid_lockedtransfer_def)
  qed
qed

lemma handle_refundtransfer_sim:
  assumes "keccak_ok L" "channel_ok L c" "lock_ok L (lt_lock (rtr_transfer refund))"
    and "\<not> is_lock_pending (partner_state c) (lock_secrethash (lt_lock (rtr_transfer refund)))"
    and "handle_refundtransfer L now t c refund = Inr (out, c')"
  shows "sim L c c'"
proof -
  from assms(5) obtain r where r: "is_valid_refund L now refund c (partner_state c)
      (our_state c) t = Inr r"
    by (auto simp: handle_refundtransfer_def res_bind_Inr)
  show ?thesis
  proof (cases r)
    case (Inl msg)
    then show ?thesis
      using assms(5) r sim_refl [OF assms(2)] by (simp add: handle_refundtransfer_def)
  next
    case (Inr tree)
    with r obtain x st' where "valid_lockedtransfer_check L now c (partner_state c) (our_state c)
        MsgRefundTransfer (lt_balance_proof (rtr_transfer refund)) (lt_lock (rtr_transfer refund))
        EMPTY_PAYMENT_HASH_INVOICE None = Inr (Inr (tree, x), st')"
      by (auto simp: refund_iff)
    from accepted_transfer_sim [OF assms(1,2,4,3) this] show ?thesis
      using assms(5) r Inr by (simp add: handle_refundtransfer_def)
  qed
qed

lemma handle_receive_lock_expired_sim:
  assumes c: "channel_ok L c" and run: "handle_receive_lock_expired L c sc n = Inr (evs, c')"
  shows "sim L c c'"
proof -
  let ?p = "partner_state c" and ?h = "rle_secrethash sc" and ?bp = "rle_balance_proof sc"
  from run obtain r where r: "is_valid_lock_expired L sc c ?p (our_state c) n = Inr r"
    by (auto simp: handle_receive_lock_expired_def res_bind_Inr)
  show ?thesis
  proof (cases r)
    case (Inl x)
    then show ?thesis
      using r run sim_refl [OF c] by (simp add: handle_receive_lock_expired_def)
  next
    case (Inr tree)
    have c': "c' = upd_partner (\<lambda>p. del_unclaimed_lock ?h (set_proof (Signed ?bp) tree p)) c"
      using r run Inr by (simp add: handle_receive_lock_expired_def)
    from r [unfolded Inr lock_expired_iff usable_iff] obtain lock where *:
      "(case dict_get (secrethashes_to_lockedlocks ?p) ?h of Some lock \<Rightarrow> Some lock
        | None \<Rightarrow> map_option pp_lock (dict_get (secrethashes_to_unlockedlocks ?p) ?h)) = Some lock"
      "\<not> dict_has (secrethashes_to_onchain_unlockedlocks ?p) ?h"
      "compute_merkletree_without L (es_merkletree ?p) (lock_lockhash lock) = Inr (Some tree)"
      "merkleroot tree = Inr (bp_locksroot ?bp)" "bp_nonce ?bp = get_next_nonce ?p"
      "bp_transferred_amount ?bp = current_transferred_amount ?p"
      "bp_locked_amount ?bp = current_locked_amount ?p - lock_amount lock"
      by blast
    have get: "get_lock ?p ?h = Some lock"
      using *(1) by (auto simp: get_lock_def split: option.splits)
    note s = expire_lock_sim [OF channel_okD(2) [OF c] get *(2,3), of "Signed ?bp"]
    show ?thesis
      using s * current_locked_ok [OF channel_okD(2) [OF c]] c'
      by (simp add: sim_partner [OF c])
  qed
qed

lemma receive_unlock_with_sim:
  assumes c: "channel_ok L c" and run: "receive_unlock_with evs L c unlock = Inr (out, c')"
  shows "sim L c c'"
proof -
  let ?p = "partner_state c" and ?h = "ru_secrethash unlock" and ?bp = "ru_balance_proof unlock"
  from run obtain r where r: "is_valid_unlock L unlock c ?p = Inr r"
    by (auto simp: receive_unlock_with_def res_bind_Inr)
  show ?thesis
  proof (cases r)
    case (Inl x)
    then show ?thesis using run r sim_refl [OF c] by (simp add: receive_unlock_with_def)
  next
    case (Inr tree)
    from r [unfolded Inr unlock_iff usable_iff] obtain lock where *:
      "get_lock ?p ?h = Some lock"
      "compute_merkletree_without L (es_merkletree ?p) (lock_lockhash lock) = Inr (Some tree)"
      "merkleroot tree = Inr (bp_locksroot ?bp)" "bp_nonce ?bp = get_next_nonce ?p"
      "bp_transferred_amount ?bp = current_transferred_amount ?p + lock_amount lock"
      "bp_locked_amount ?bp = current_locked_amount ?p - lock_amount lock"
      by blast
    from run r Inr obtain e' where e': "del_lock ?h (set_proof (Signed ?bp) tree ?p) = Inr e'"
      "c' = c\<lparr>partner_state := e'\<rparr>"
      by (auto simp: receive_unlock_with_def res_bind_Inr)
    note s = claim_lock_sim [OF channel_okD(2) [OF c] *(1,2), of "Signed ?bp" e']
    show ?thesis
      using s * current_locked_ok [OF channel_okD(2) [OF c]] e'
      by (simp add: sim_partner [OF c])
  qed
qed

end
