(* ===== verification/ChannelSafety.thy ===== *)
theory ChannelSafety
  imports ChannelInvariant
begin

text \<open>
  Runs of a channel: the chain-side handlers refine the ledger too, the step relation of the
  whole component, and what holds in every reachable channel.
\<close>

section \<open>The chain-side handlers\<close>

lemma finish_transaction_ok: "tx_ok t \<Longrightarrow> tx_ok (finish_transaction t n)"
  by (auto simp: tx_ok_def finish_transaction_def split: option.splits)

lemma tx_started_ok [simp]: "tx_ok (Some (tx_started n))"
  by (simp add: tx_ok_def tx_started_def)

text \<open>An end that differs in its deposit and on-chain locksroot only.\<close>

definition topped_up :: "NettingChannelEndState \<Rightarrow> NettingChannelEndState \<Rightarrow> bool" where
  "topped_up e e' \<longleftrightarrow>
     contract_balance e \<le> contract_balance e' \<and> es_address e' = es_address e \<and>
     secrethashes_to_lockedlocks e' = secrethashes_to_lockedlocks e \<and>
     secrethashes_to_unlockedlocks e' = secrethashes_to_unlockedlocks e \<and>
     secrethashes_to_onchain_unlockedlocks e' = secrethashes_to_onchain_unlockedlocks e \<and>
     es_merkletree e' = es_merkletree e \<and> es_balance_proof e' = es_balance_proof e"

lemma topped_up_refl: "topped_up e e"
  by (simp add: topped_up_def)

lemma topped_upD:
  assumes "topped_up e e'"
  shows "contract_balance e \<le> contract_balance e'" "es_address e' = es_address e"
    "secrethashes_to_lockedlocks e' = secrethashes_to_lockedlocks e"
    "secrethashes_to_unlockedlocks e' = secrethashes_to_unlockedlocks e"
    "secrethashes_to_onchain_unlockedlocks e' = secrethashes_to_onchain_unlockedlocks e"
    "es_merkletree e' = es_merkletree e" "es_balance_proof e' = es_balance_proof e"
  using assms by (simp_all add: topped_up_def)

lemma topped_up_trans: "topped_up a b \<Longrightarrow> topped_up b c \<Longrightarrow> topped_up a c"
  by (simp add: topped_up_def)

lemma topped_up_maps: "topped_up e e' \<Longrightarrow> maps_ok e' = maps_ok e \<and> locks_mset e' = locks_mset e"
  using topped_upD [of e e'] by (simp add: maps_ok_def locks_mset_def)

lemma topped_up_end_ok: "end_ok L e \<Longrightarrow> topped_up e e' \<Longrightarrow> end_ok L e'"
  using same_locks_end_ok [of L e e'] topped_up_maps [of e e'] topped_upD [of e e'] end_okD(1)
  by simp

lemma topped_up_ledger:
  "topped_up e e' \<Longrightarrow> ledger_of e' = ledger_of e\<lparr>led_deposit := contract_balance e'\<rparr>"
  using topped_upD [of e e'] topped_up_maps [of e e']
  by (simp add: ledger_of_def get_current_nonce_def current_transferred_amount_def)

lemma update_contract_balance_topped_up: "topped_up e (update_contract_balance b e)"
  by (simp add: topped_up_def update_contract_balance_def)

lemma set_onchain_locksroot_topped_up: "topped_up e (set_onchain_locksroot r e)"
  by (simp add: topped_up_def set_onchain_locksroot_def)

text \<open>What a chain-side handler may do to a channel.\<close>

definition chain_change :: "NettingChannelState \<Rightarrow> NettingChannelState \<Rightarrow> bool" where
  "chain_change c c' \<longleftrightarrow>
     topped_up (our_state c) (our_state c') \<and> topped_up (partner_state c) (partner_state c') \<and>
     (heap_ok (deposit_transaction_queue c) \<longrightarrow> heap_ok (deposit_transaction_queue c')) \<and>
     (tx_ok (close_transaction c) \<longrightarrow> tx_ok (close_transaction c')) \<and>
     (tx_ok (settle_transaction c) \<longrightarrow> tx_ok (settle_transaction c'))"

lemma chain_change_refl: "chain_change c c"
  by (simp add: chain_change_def topped_up_refl)

lemma chain_change_trans: "chain_change a b \<Longrightarrow> chain_change b c \<Longrightarrow> chain_change a c"
  unfolding chain_change_def using topped_up_trans by blast

lemma chain_change_sim: "channel_ok L c \<Longrightarrow> chain_change c c' \<Longrightarrow> sim L c c'"
proof -
  assume c: "channel_ok L c" and ch: "chain_change c c'"
  then have t: "topped_up (our_state c) (our_state c')" "topped_up (partner_state c) (partner_state c')"
    by (simp_all add: chain_change_def)
  have "channel_ok L c'"
    using c ch t topped_up_end_ok topped_upD(7) [OF t(1)] topped_upD(7) [OF t(2)]
    by (auto simp: channel_ok_def chain_change_def)
  moreover have "ledger_step (ledgers c) (ledgers c')"
    unfolding ledgers_def topped_up_ledger [OF t(1)] topped_up_ledger [OF t(2)]
    by (intro ledger_step.deposit) (use t topped_upD(1) in \<open>auto simp: ledger_of_def\<close>)
  ultimately show ?thesis using topped_upD(7) [OF t(1)] topped_upD(7) [OF t(2)]
    by (simp add: sim_def proof_step_def)
qed

lemma apply_channel_newbalance_change: "chain_change c (apply_channel_newbalance c d)"
  by (simp add: chain_change_def apply_channel_newbalance_def topped_up_refl
      update_contract_balance_topped_up)

lemma pop_change:
  assumes "heappop (deposit_transaction_queue c) = Inr (x, q)"
  shows "chain_change c (c\<lparr>deposit_transaction_queue := q\<rparr>)"
  using assms hq.popD [of "deposit_transaction_queue c" x q]
  by (simp add: chain_change_def topped_up_refl)

lemma apply_confirmed_change:
  "apply_confirmed_deposits c n = Inr c' \<Longrightarrow> chain_change c c'"
proof (induction c n rule: apply_confirmed_deposits.induct)
  case (1 c n)
  show ?case
  proof (cases "is_deposit_confirmed c n")
    case False
    then show ?thesis
      using "1.prems" by (simp add: apply_confirmed_deposits.simps [of c n] chain_change_refl)
  next
    case True
    with "1.prems" obtain x q where
      pop: "heappop (deposit_transaction_queue c) = Inr (x, q)" and
      rest: "apply_confirmed_deposits (apply_channel_newbalance
        (c\<lparr>deposit_transaction_queue := q\<rparr>) (order_transaction x)) n = Inr c'"
      by (auto simp: apply_confirmed_deposits.simps [of c n] split: sum.splits)
    from "1.IH" [OF True pop refl rest] pop_change [OF pop] apply_channel_newbalance_change
    show ?thesis by (meson chain_change_trans)
  qed
qed

lemma handle_block_change:
  "handle_block c b h n = Inr (Some c', evs) \<Longrightarrow> chain_change c c'"
proof -
  assume "handle_block c b h n = Inr (Some c', evs)"
  then obtain c1 where "c1 = c \<or> c1 = c\<lparr>settle_transaction := Some (tx_started b)\<rparr>"
    "apply_confirmed_deposits c1 n = Inr c'"
    by (auto simp: handle_block_def res_simps split: if_splits option.splits)
  moreover have "chain_change c (c\<lparr>settle_transaction := Some (tx_started b)\<rparr>)"
    by (simp add: chain_change_def topped_up_refl)
  ultimately show ?thesis
    using apply_confirmed_change chain_change_trans chain_change_refl by metis
qed

lemma set_closed_change: "chain_change c (set_closed c n)"
  by (simp add: chain_change_def set_closed_def topped_up_refl finish_transaction_ok)

lemma update_transaction_change: "chain_change c c' \<Longrightarrow> chain_change c (c'\<lparr>update_transaction := t\<rparr>)"
  by (simp add: chain_change_def)

lemma handle_channel_closed_change:
  "handle_channel_closed c from ci n h = Inr (Some c', evs) \<Longrightarrow> chain_change c c'"
  by (auto simp: handle_channel_closed_def Let_def chain_change_refl set_closed_change
      update_transaction_change split: if_splits option.splits balance_proof.splits)

lemma handle_channel_closed_light_change:
  "handle_channel_closed_light c from ci n h lc latest = Inr (Some c', evs) \<Longrightarrow> chain_change c c'"
  by (auto simp: handle_channel_closed_light_def Let_def res_simps chain_change_refl
      set_closed_change update_transaction_change split: if_splits option.splits)

lemma handle_action_close_change:
  "handle_action_close c ci tx n h = Inr (Some c', evs) \<Longrightarrow> chain_change c c'"
  by (auto simp: handle_action_close_def events_for_close_def Let_def res_simps chain_change_refl
      chain_change_def topped_up_refl split: if_splits option.splits balance_proof.splits)

lemma handle_channel_settled_change:
  "handle_channel_settled c ci r r' n h = Inr (Some c', evs) \<Longrightarrow> chain_change c c'"
  by (auto simp: handle_channel_settled_def Let_def chain_change_def topped_up_refl set_settled_def
      set_onchain_locksroot_topped_up finish_transaction_ok split: if_splits)

lemma handle_channel_batch_unlock_change:
  "handle_channel_batch_unlock c a = Inr (Some c', evs) \<Longrightarrow> chain_change c c'"
  by (auto simp: handle_channel_batch_unlock_def Let_def chain_change_def topped_up_refl
      set_onchain_locksroot_topped_up split: if_splits)

lemma handle_channel_newbalance_change:
  "handle_channel_newbalance c d n = Inr (Some c', evs) \<Longrightarrow> chain_change c c'"
  using heappush_props [of "deposit_transaction_queue c"]
    apply_channel_newbalance_change [of c d]
  by (auto simp: handle_channel_newbalance_def topped_up_refl split: if_splits)
    (simp add: chain_change_def topped_up_refl)

lemma state_transition_change:
  "state_transition c sc n h = Inr (Some c', evs) \<Longrightarrow> chain_change c c'"
  unfolding state_transition_def
  by (cases sc)
    (auto simp: handle_action_set_fee_def handle_channel_updated_transfer_def chain_change_refl
      update_transaction_change res_simps chain_change_def [of c "c\<lparr>mediation_fee := f\<rparr>" for f]
      topped_up_refl
      dest: handle_block_change handle_action_close_change handle_channel_closed_change
        handle_channel_closed_light_change handle_channel_settled_change
        handle_channel_newbalance_change handle_channel_batch_unlock_change)

section \<open>Steps and reachable channels\<close>

text \<open>
  One step of a channel: the node sends or receives a message, learns a secret, or processes a
  state change.  \<open>delete_lock\<close> has its default value, which is the only one the repository uses.
\<close>

inductive channel_step :: "libs \<Rightarrow> NettingChannelState \<Rightarrow> NettingChannelState \<Rightarrow> bool" for L where
  send_transfer:
    "\<not> is_lock_pending (our_state c) h \<Longrightarrow>
     send_lockedtransfer L c i t amount m p ph x h = Inr (ev, c') \<Longrightarrow> channel_step L c c'"
| send_refund:
    "\<not> is_lock_pending (our_state c) h \<Longrightarrow>
     send_refundtransfer L c i t amount m p x h = Inr (ev, c') \<Longrightarrow> channel_step L c c'"
| send_unlock:
    "send_unlock L c m p secret h lc = Inr (unlock, c') \<Longrightarrow> channel_step L c c'"
| send_expired:
    "get_lock (our_state c) (lock_secrethash lock) = Some lock \<Longrightarrow>
     \<not> dict_has (secrethashes_to_onchain_unlockedlocks (our_state c)) (lock_secrethash lock) \<Longrightarrow>
     events_for_expired_lock L c lock g = Inr (evs, c', g') \<Longrightarrow> channel_step L c c'"
| learn_secret: "channel_step L c (register_offchain_secret c secret h)"
| learn_onchain_secret:
    "register_onchain_secret c secret h n True = Inr c' \<Longrightarrow> channel_step L c c'"
| receive_transfer:
    "lock_ok L (lt_lock tr) \<Longrightarrow>
     \<not> is_lock_pending (partner_state c) (lock_secrethash (lt_lock tr)) \<Longrightarrow>
     receive_lockedtransfer_with evs L now c tr st = Inr (out, c', st') \<Longrightarrow> channel_step L c c'"
| receive_refund:
    "lock_ok L (lt_lock (rtr_transfer refund)) \<Longrightarrow>
     \<not> is_lock_pending (partner_state c) (lock_secrethash (lt_lock (rtr_transfer refund))) \<Longrightarrow>
     handle_refundtransfer L now original c refund = Inr (out', c') \<Longrightarrow> channel_step L c c'"
| receive_expired:
    "handle_receive_lock_expired L c sc n = Inr (evs, c') \<Longrightarrow> channel_step L c c'"
| receive_unlock:
    "receive_unlock_with evs L c ru = Inr (out'', c') \<Longrightarrow> channel_step L c c'"
| chain: "state_transition c change n hash = Inr (Some c', evs) \<Longrightarrow> channel_step L c c'"

inductive_cases channel_stepE: "channel_step L c c'"

text \<open>Channels as the contract's open event creates them, with their first deposits.\<close>

definition new_channel :: "NettingChannelState \<Rightarrow> bool" where
  "new_channel c \<longleftrightarrow>
     (\<exists>ci token network reveal settle fee a b a' b' tx.
        0 \<le> b \<and> 0 \<le> b' \<and>
        mk_NettingChannelState ci token network reveal settle fee
          (mk_NettingChannelEndState a b) (mk_NettingChannelEndState a' b') tx None None None = Inr c)"

inductive reachable :: "libs \<Rightarrow> NettingChannelState \<Rightarrow> bool" for L where
  new: "new_channel c \<Longrightarrow> reachable L c"
| step: "reachable L c \<Longrightarrow> channel_step L c c' \<Longrightarrow> reachable L c'"

lemma channel_step_sim:
  assumes "keccak_ok L" "channel_ok L c" "channel_step L c c'"
  shows "sim L c c'"
  using assms(3)
proof (cases rule: channel_step.cases)
  case send_transfer
  then show ?thesis using send_lockedtransfer_sim [OF assms(1,2)] by blast
next
  case send_refund
  then show ?thesis using send_refundtransfer_sim [OF assms(1,2)] by blast
next
  case send_unlock
  then show ?thesis using send_unlock_sim [OF assms(2)] by blast
next
  case send_expired
  then show ?thesis using events_for_expired_lock_sim [OF assms(2)] by blast
next
  case learn_secret
  then show ?thesis using register_offchain_sim [OF assms(2)] by blast
next
  case learn_onchain_secret
  then show ?thesis using register_onchain_sim [OF assms(2)] by blast
next
  case receive_transfer
  then show ?thesis using receive_lockedtransfer_with_sim [OF assms(1,2)] by blast
next
  case receive_refund
  then show ?thesis using handle_refundtransfer_sim [OF assms(1,2)] by blast
next
  case receive_expired
  then show ?thesis using handle_receive_lock_expired_sim [OF assms(2)] by blast
next
  case receive_unlock
  then show ?thesis using receive_unlock_with_sim [OF assms(2)] by blast
next
  case chain
  then show ?thesis using chain_change_sim [OF assms(2)] state_transition_change by blast
qed

lemma new_channel_ok:
  assumes "new_channel c"
  shows "channel_ok L c \<and> solvent (ledgers c)"
proof -
  from assms obtain a b a' b' where *: "0 \<le> b" "0 \<le> b'"
    "our_state c = mk_NettingChannelEndState a b"
    "partner_state c = mk_NettingChannelEndState a' b'"
    "deposit_transaction_queue c = []" "close_transaction c = None" "settle_transaction c = None"
    by (auto simp: new_channel_def mk_NettingChannelState_def split: if_splits)
  have "ledger_of (mk_NettingChannelEndState x y) =
      \<lparr>led_nonce = 0, led_transferred = 0, led_deposit = y, led_locks = {#}\<rparr>" for x y
    by (simp add: ledger_of_def mk_NettingChannelEndState_def get_current_nonce_def
        current_transferred_amount_def locks_mset_def)
  moreover have "es_balance_proof (mk_NettingChannelEndState x y) = None" for x y
    by (simp add: mk_NettingChannelEndState_def)
  ultimately show ?thesis
    using * new_end_ok
    by (simp add: channel_ok_def ledgers_def solvent_def led_ok_def led_free_def led_locked_def
        heap_ok_def tx_ok_def)
qed

lemma reachable_inv:
  assumes "keccak_ok L" "reachable L c"
  shows "channel_ok L c \<and> solvent (ledgers c)"
  using assms(2)
proof (induction rule: reachable.induct)
  case (new c)
  then show ?case by (rule new_channel_ok)
next
  case (step c c')
  then have "sim L c c'" using channel_step_sim [OF assms(1)] by blast
  then show ?case
    using step ledger_step_solvent [of "ledgers c" "ledgers c'"] by (simp add: sim_def)
qed

end
