(* ===== verification/Samples.thy ===== *)
theory Samples
  imports ChannelSafety
begin

text \<open>
  Concrete values for the witnesses: an instance of the third-party code and two channels, one as
  it is opened and one after a transfer has been sent and one received.
\<close>

text \<open>A hash with 32 bytes of output that are never all zero, and a recovery that reads the signer off the signature.\<close>

definition sample_libs :: libs where
  "sample_libs =
     \<lparr>keccak = (\<lambda>x. 1 # sum_list x # take 30 (rev x @ replicate 30 0)),
      hex_encode_abi = (\<lambda>t v. case v of VInt i \<Rightarrow> be_bytes 32 i | VBytes b \<Rightarrow> b),
      soliditySha3 = (\<lambda>ts vs. be_bytes 32 7),
      ecdsa_recover = (\<lambda>h sig. if length sig = 65 then Some (take 20 sig) else None),
      message_type_id = (\<lambda>t. case t of BALANCE_PROOF \<Rightarrow> 1 | BALANCE_PROOF_UPDATE \<Rightarrow> 2),
      randint64 = (\<lambda>n. int n)\<rparr>"

definition alice :: bytes where "alice = replicate 20 1"

definition bob :: bytes where "bob = replicate 20 2"

definition sample_ci :: CanonicalIdentifier where
  "sample_ci = \<lparr>chain_identifier = 30, token_network_address = replicate 20 9,
     channel_identifier = 1\<rparr>"

definition sample_channel :: NettingChannelState where
  "sample_channel =
     \<lparr>ch_canonical_identifier = sample_ci, ch_token_address = replicate 20 8,
      payment_network_identifier = replicate 20 7, reveal_timeout = 50, settle_timeout = 500,
      mediation_fee = 0, our_state = mk_NettingChannelEndState alice 100,
      partner_state = mk_NettingChannelEndState bob 50, deposit_transaction_queue = [],
      open_transaction = \<lparr>started_block_number = None, finished_block_number = Some 1,
        tx_result = Some SUCCESS\<rparr>,
      close_transaction = None, settle_transaction = None, update_transaction = None\<rparr>"

lemma sample_keccak_ok [simp]: "keccak_ok sample_libs"
  by (auto simp: keccak_ok_def sample_libs_def min_def)

lemma sample_keccak_nonzero [simp]: "keccak sample_libs x \<noteq> EMPTY_MERKLE_ROOT"
  by (simp add: sample_libs_def EMPTY_MERKLE_ROOT_def numeral_eq_Suc)

definition sample_secret :: bytes where "sample_secret = replicate 31 0 @ [5]"

definition sample_secrethash :: bytes where "sample_secrethash = keccak sample_libs sample_secret"

definition sample_lock :: "int \<Rightarrow> HashTimeLockState" where
  "sample_lock amount =
     \<lparr>lock_amount = amount, lock_expiration = 100, lock_secrethash = sample_secrethash,
      lock_encoded = be_bytes 32 100 @ be_bytes 32 amount @ sample_secrethash,
      lock_lockhash = keccak sample_libs (be_bytes 32 100 @ be_bytes 32 amount @ sample_secrethash)\<rparr>"

lemma sample_secrethash_length [simp]: "length sample_secrethash = 32"
  by (simp add: sample_secrethash_def keccak_okD)

lemma sample_lock_made:
  "0 \<le> a \<Longrightarrow> a \<le> UINT256_MAX \<Longrightarrow>
     mk_HashTimeLockState sample_libs a 100 sample_secrethash = Inr (sample_lock a)"
  by (simp add: mk_lock_iff sample_lock_def UINT256_MAX_def)

definition sample_tree :: "int \<Rightarrow> MerkleTreeState" where
  "sample_tree amount = MerkleTreeState [[lock_lockhash (sample_lock amount)]]"

lemma first_leaf:
  "length h = 32 \<Longrightarrow>
     compute_merkletree_with L make_empty_merkle_tree h = Inr (Some (MerkleTreeState [[h]]))"
  by (simp add: compute_merkletree_with_def make_empty_merkle_tree_def merkle_leaves_def
      compute_layers_def layers_above.simps)

lemma sample_lockhash_length [simp]: "length (lock_lockhash (sample_lock a)) = 32"
  by (simp add: sample_lock_def)

lemma sample_tree_root [simp]: "merkleroot (sample_tree a) = Inr (lock_lockhash (sample_lock a))"
  by (simp add: merkleroot_def sample_tree_def)

definition sample_proof :: "int \<Rightarrow> BalanceProofUnsignedState" where
  "sample_proof amount =
     \<lparr>bp_nonce = 1, bp_transferred_amount = 0, bp_locked_amount = amount,
      bp_locksroot = lock_lockhash (sample_lock amount), bp_canonical_identifier = sample_ci\<rparr>"

definition sample_event :: "bytes \<Rightarrow> bytes \<Rightarrow> int \<Rightarrow> SendTransferEvent" where
  "sample_event initiator target message_id =
     \<lparr>ste_recipient = target, ste_channel_identifier = 1, ste_message_identifier = message_id,
      ste_transfer = \<lparr>lt_payment_identifier = 2, lt_payment_hash_invoice = [],
        lt_token = replicate 20 8, lt_balance_proof = sample_proof 10, lt_lock = sample_lock 10,
        lt_initiator = initiator, lt_target = target\<rparr>\<rparr>"

definition sample_sent_from :: "NettingChannelState \<Rightarrow> NettingChannelState" where
  "sample_sent_from c = upd_our (record_lock (Unsigned (sample_proof 10)) (sample_tree 10)
     (sample_lock 10)) c"

text \<open>The same on a channel with another identifier.\<close>

definition sample_proof_on :: "CanonicalIdentifier \<Rightarrow> BalanceProofUnsignedState" where
  "sample_proof_on ci = (sample_proof 10)\<lparr>bp_canonical_identifier := ci\<rparr>"

definition sample_event_on :: "CanonicalIdentifier \<Rightarrow> bytes \<Rightarrow> bytes \<Rightarrow> bytes \<Rightarrow> int \<Rightarrow> SendTransferEvent" where
  "sample_event_on ci initiator target recipient message_id =
     \<lparr>ste_recipient = recipient, ste_channel_identifier = channel_identifier ci,
      ste_message_identifier = message_id,
      ste_transfer = \<lparr>lt_payment_identifier = 2, lt_payment_hash_invoice = [],
        lt_token = replicate 20 8, lt_balance_proof = sample_proof_on ci, lt_lock = sample_lock 10,
        lt_initiator = initiator, lt_target = target\<rparr>\<rparr>"

definition sample_sent_on :: "CanonicalIdentifier \<Rightarrow> NettingChannelState \<Rightarrow> NettingChannelState" where
  "sample_sent_on ci c = upd_our (record_lock (Unsigned (sample_proof_on ci)) (sample_tree 10)
     (sample_lock 10)) c"

text \<open>The first transfer over an open channel whose ends are new.\<close>

lemma first_send_on:
  assumes ends: "our_state c = mk_NettingChannelEndState a b"
      "es_address (partner_state c) = recipient" "current_transferred_amount (partner_state c) = 0"
    and c: "ch_canonical_identifier c = ci" "canonical_identifier_validate ci = Inr ()"
      "ch_token_address c = replicate 20 8" "get_status c = CHANNEL_STATE_OPENED"
    and b: "10 \<le> b"
  shows "send_lockedtransfer sample_libs c i target 10 m 2 [] 100 sample_secrethash =
    Inr (sample_event_on ci i target recipient m, sample_sent_on ci c)"
proof -
  have d: "10 \<le> get_distributable (our_state c) (partner_state c)"
    using b ends(3) by (simp add: get_distributable_def get_current_balanceproof_def ends(1)
        mk_NettingChannelEndState_def get_balance_def get_amount_locked_def
        get_amount_unclaimed_onchain_def UINT256_MAX_def)
      (simp add: current_transferred_amount_def)
  have t: "compute_merkletree_with sample_libs (es_merkletree (our_state c))
      (lock_lockhash (sample_lock 10)) = Inr (Some (sample_tree 10))"
    by (simp add: ends mk_NettingChannelEndState_def first_leaf sample_tree_def)
  have p: "mk_BalanceProofUnsignedState (get_next_nonce (our_state c))
      (current_transferred_amount (our_state c)) (get_amount_locked (our_state c) + 10)
      (lock_lockhash (sample_lock 10)) (ch_canonical_identifier c) = Inr (sample_proof_on ci)"
    by (simp add: mk_BalanceProofUnsignedState_def balance_proof_checks_def ends c
        mk_NettingChannelEndState_def get_next_nonce_def current_transferred_amount_def
        get_amount_locked_def get_amount_unclaimed_onchain_def UINT256_MAX_def UINT64_MAX_def
        sample_proof_on_def sample_proof_def)
  have n: "lock_lockhash (sample_lock 10) \<noteq> EMPTY_MERKLE_ROOT"
    by (simp add: sample_lock_def)
  have m: "mk_HashTimeLockState sample_libs 10 100 sample_secrethash = Inr (sample_lock 10)"
    by (simp add: sample_lock_made UINT256_MAX_def)
  have tr: "current_transferred_amount (our_state c) = 0"
    by (simp add: current_transferred_amount_def ends mk_NettingChannelEndState_def)
  show ?thesis
    using p n d
    by (simp add: send_lockedtransfer_def create_sendlockedtransfer_def Let_def t m tr c
        mk_LockedTransferUnsignedState_def sample_event_on_def sample_sent_on_def UINT256_MAX_def)
      (simp add: sample_proof_on_def sample_proof_def mk_NettingChannelEndState_def ends)
qed

lemma first_send:
  assumes "our_state c = mk_NettingChannelEndState a b"
      "partner_state c = mk_NettingChannelEndState target b'"
    and "ch_canonical_identifier c = sample_ci" "ch_token_address c = replicate 20 8"
      "get_status c = CHANNEL_STATE_OPENED" "10 \<le> b"
  shows "send_lockedtransfer sample_libs c i target 10 m 2 [] 100 sample_secrethash =
    Inr (sample_event i target m, sample_sent_from c)"
proof -
  have "sample_proof_on sample_ci = sample_proof 10"
    by (simp add: sample_proof_on_def sample_proof_def)
  moreover have "canonical_identifier_validate sample_ci = Inr ()" "channel_identifier sample_ci = 1"
    by (simp_all add: canonical_identifier_validate_def sample_ci_def UINT256_MAX_def)
  ultimately show ?thesis
    using first_send_on [OF assms(1) _ _ assms(3) _ assms(4-6), of target] assms(2)
    by (simp add: sample_event_on_def sample_event_def sample_sent_on_def sample_sent_from_def
        mk_NettingChannelEndState_def current_transferred_amount_def)
qed

definition sample_sent :: NettingChannelState where
  "sample_sent = sample_sent_from sample_channel"

lemma sample_send:
  "send_lockedtransfer sample_libs sample_channel alice bob 10 1 2 [] 100 sample_secrethash =
     Inr (sample_event alice bob 1, sample_sent)"
  unfolding sample_sent_def
  by (rule first_send [where a = alice and b = 100 and b' = 50]) (simp_all add: sample_channel_def get_status_def)

text \<open>The same channel as \<open>bob\<close> keeps it, and after he has sent the transfer.\<close>

definition sample_bob :: NettingChannelState where
  "sample_bob = sample_channel\<lparr>our_state := mk_NettingChannelEndState bob 50,
     partner_state := mk_NettingChannelEndState alice 100\<rparr>"

definition sample_bob_sent :: NettingChannelState where
  "sample_bob_sent = sample_sent_from sample_bob"

lemma sample_bob_send:
  "send_lockedtransfer sample_libs sample_bob bob alice 10 4 2 [] 100 sample_secrethash =
     Inr (sample_event bob alice 4, sample_bob_sent)"
  unfolding sample_bob_sent_def
  by (rule first_send [where a = bob and b = 50 and b' = 100]) (simp_all add: sample_bob_def sample_channel_def get_status_def)

text \<open>The message by which \<open>bob\<close> sends a transfer to the owner of the channel.\<close>

definition sample_signed :: "int \<Rightarrow> BalanceProofSignedState" where
  "sample_signed amount = BalanceProofUnsignedState.extend (sample_proof amount)
     \<lparr>bp_message_hash = replicate 32 3, bp_signature = bob @ replicate 45 0, bp_sender = bob\<rparr>"

definition sample_message :: LockedTransferSignedState where
  "sample_message =
     \<lparr>lt_payment_identifier = 2, lt_payment_hash_invoice = [], lt_token = replicate 20 8,
      lt_balance_proof = sample_signed 10, lt_lock = sample_lock 10, lt_initiator = bob,
      lt_target = alice, lt_message_identifier = 4\<rparr>"

definition sample_received :: NettingChannelState where
  "sample_received =
     upd_partner (record_lock (Signed (sample_signed 10)) (sample_tree 10) (sample_lock 10))
       sample_channel"

lemma sample_signed_sel [simp]:
  "bp_nonce (sample_signed a) = 1" "bp_transferred_amount (sample_signed a) = 0"
  "bp_locked_amount (sample_signed a) = a"
  "bp_locksroot (sample_signed a) = lock_lockhash (sample_lock a)"
  "bp_canonical_identifier (sample_signed a) = sample_ci" "bp_sender (sample_signed a) = bob"
  "bp_signature (sample_signed a) = bob @ replicate 45 0"
  by (simp_all add: sample_signed_def sample_proof_def BalanceProofUnsignedState.extend_def)

lemma sample_signature: "is_valid_signature sample_libs (sample_signed a) bob = Inr None"
proof -
  have r: "recover sample_libs d (bob @ replicate 45 0) = Inr bob" for d
    by (simp add: recover_def py_last_def sample_libs_def bob_def)
  obtain h where h: "hash_balance_data sample_libs 0 a (lock_lockhash (sample_lock a)) = Inr h"
    using hash_balance_data_total [of "lock_lockhash (sample_lock a)"] by fastforce
  show ?thesis
    unfolding is_valid_signature_iff
    using h pack_balance_proof_total r by (simp add: is_valid_signature_iff) 
qed

lemma sample_channel_sel [simp]:
  "our_state sample_channel = mk_NettingChannelEndState alice 100"
  "partner_state sample_channel = mk_NettingChannelEndState bob 50"
  "ch_canonical_identifier sample_channel = sample_ci"
  "get_status sample_channel = CHANNEL_STATE_OPENED"
  by (simp_all add: sample_channel_def get_status_def)

lemma sample_check:
  "valid_lockedtransfer_check sample_libs now sample_channel (partner_state sample_channel)
     (our_state sample_channel) name (sample_signed 10) (sample_lock 10) [] None =
     Inr (Inr (sample_tree 10, None), None)"
  unfolding lockedtransfer_iff usable_iff
proof (intro conjI)
  show "handle_received_invoice now None [] = Inr (None, None)"
    using empty_invoice_hash [of now None] by (simp add: EMPTY_PAYMENT_HASH_INVOICE_def)
  show "compute_merkletree_with sample_libs (es_merkletree (partner_state sample_channel))
      (lock_lockhash (sample_lock 10)) = Inr (Some (sample_tree 10))"
    by (simp add: mk_NettingChannelEndState_def first_leaf sample_tree_def)
  have "sample_secrethash ! 1 = 5" "EMPTY_HASH_KECCAK sample_libs ! 1 = 0"
    by (simp_all add: sample_secrethash_def EMPTY_HASH_KECCAK_def sample_libs_def
        EMPTY_HASH_def sample_secret_def nth_append sum_list_replicate)
  then show "lock_secrethash (sample_lock 10) \<noteq> EMPTY_HASH_KECCAK sample_libs"
    by (auto simp: sample_lock_def)
  show "\<exists>w. merkletree_width (sample_tree 10) = Inr w \<and> w \<le> MAXIMUM_PENDING_TRANSFERS"
    by (simp add: sample_tree_def merkletree_width_def merkle_leaves_def
        MAXIMUM_PENDING_TRANSFERS_def)
qed (simp_all add: mk_NettingChannelEndState_def sample_signature UINT256_MAX_def
    get_next_nonce_def current_transferred_amount_def current_locked_amount_def
    sample_lock_def [of 10] get_distributable_def get_current_balanceproof_def get_balance_def
    get_amount_locked_def get_amount_unclaimed_onchain_def)

lemma sample_receive:
  "handle_receive_lockedtransfer sample_libs now sample_channel sample_message None =
     Inr (\<lparr>out_events = [send_processed bob 4], out_msg = None, out_invoice = Some None\<rparr>,
          sample_received, None)"
  using sample_check [of now MsgLockedTransfer]
  by (simp add: handle_receive_lockedtransfer_def receive_lockedtransfer_with_def
      is_valid_lockedtransfer_def sample_message_def sample_received_def)

section \<open>They are reachable\<close>

lemma sample_new: "new_channel sample_channel"
proof -
  have "mk_NettingChannelState sample_ci (replicate 20 8) (replicate 20 7) 50 500 0
      (mk_NettingChannelEndState alice 100) (mk_NettingChannelEndState bob 50)
      \<lparr>started_block_number = None, finished_block_number = Some 1, tx_result = Some SUCCESS\<rparr>
      None None None = Inr sample_channel"
    by (simp add: mk_NettingChannelState_def sample_channel_def sample_ci_def UINT256_MAX_def)
  then show ?thesis
    unfolding new_channel_def by (metis zero_le_numeral)
qed

lemma sample_reachable: "reachable sample_libs sample_channel"
  by (rule reachable.new [OF sample_new])

lemma sample_not_pending [simp]: "\<not> is_lock_pending (mk_NettingChannelEndState a b) h"
  by (simp add: is_lock_pending_def mk_NettingChannelEndState_def dict_has_def)

lemma sample_sent_step: "channel_step sample_libs sample_channel sample_sent"
  by (rule channel_step.send_transfer [OF _ sample_send]) simp

lemma sample_sent_reachable: "reachable sample_libs sample_sent"
  by (rule reachable.step [OF sample_reachable sample_sent_step])

lemma sample_bob_new: "new_channel sample_bob"
proof -
  have "mk_NettingChannelState sample_ci (replicate 20 8) (replicate 20 7) 50 500 0
      (mk_NettingChannelEndState bob 50) (mk_NettingChannelEndState alice 100)
      \<lparr>started_block_number = None, finished_block_number = Some 1, tx_result = Some SUCCESS\<rparr>
      None None None = Inr sample_bob"
    by (simp add: mk_NettingChannelState_def sample_channel_def sample_bob_def sample_ci_def
        UINT256_MAX_def)
  then show ?thesis
    unfolding new_channel_def by (metis zero_le_numeral)
qed

lemma sample_bob_reachable: "reachable sample_libs sample_bob"
  by (rule reachable.new [OF sample_bob_new])

lemma sample_bob_sent_reachable: "reachable sample_libs sample_bob_sent"
  by (rule reachable.step [OF sample_bob_reachable channel_step.send_transfer [OF _ sample_bob_send]])
    (simp add: sample_bob_def)

lemma sample_lock_ok: "lock_ok sample_libs (sample_lock 10)"
  using lock_okI [OF sample_lock_made [of 10]] by (simp add: UINT256_MAX_def)

lemma sample_received_reachable: "reachable sample_libs sample_received"
proof (rule reachable.step [OF sample_reachable])
  show "channel_step sample_libs sample_channel sample_received"
    using sample_receive [of 0, unfolded handle_receive_lockedtransfer_def]
    by (rule channel_step.receive_transfer [rotated 2])
      (simp_all add: sample_message_def sample_lock_ok)
qed

section \<open>Messages for the received transfer\<close>

definition sample_next_proof :: "int \<Rightarrow> BalanceProofSignedState" where
  "sample_next_proof transferred =
     \<lparr>bp_nonce = 2, bp_transferred_amount = transferred, bp_locked_amount = 0,
      bp_locksroot = EMPTY_MERKLE_ROOT, bp_canonical_identifier = sample_ci,
      bp_message_hash = replicate 32 3, bp_signature = bob @ replicate 45 0, bp_sender = bob\<rparr>"

definition sample_unlock :: ReceiveUnlock where
  "sample_unlock = mk_ReceiveUnlock sample_libs 5 sample_secret (sample_next_proof 10)"

definition sample_expired :: ReceiveLockExpired where
  "sample_expired =
     \<lparr>rle_balance_proof = sample_next_proof 0, rle_secrethash = sample_secrethash,
      rle_message_identifier = 6\<rparr>"

lemma sample_message_sel [simp]:
  "ru_secrethash sample_unlock = sample_secrethash" "ru_message_identifier sample_unlock = 5"
  "ru_balance_proof sample_unlock = sample_next_proof 10"
  "rle_secrethash sample_expired = sample_secrethash"
  "rle_balance_proof sample_expired = sample_next_proof 0"
  "rle_message_identifier sample_expired = 6" "bp_sender (sample_next_proof a) = bob"
  by (simp_all add: sample_unlock_def mk_ReceiveUnlock_def sample_secrethash_def
      sample_expired_def sample_next_proof_def)

lemma sample_lock_sel [simp]:
  "lock_amount (sample_lock a) = a" "lock_expiration (sample_lock a) = 100"
  "lock_secrethash (sample_lock a) = sample_secrethash"
  by (simp_all add: sample_lock_def)

lemma sample_received_sel [simp]:
  "our_state sample_received = mk_NettingChannelEndState alice 100"
  "partner_state sample_received = record_lock (Signed (sample_signed 10)) (sample_tree 10)
     (sample_lock 10) (mk_NettingChannelEndState bob 50)"
  "ch_canonical_identifier sample_received = sample_ci"
  "get_status sample_received = CHANNEL_STATE_OPENED"
  by (simp_all add: sample_received_def sample_channel_def get_status_def)

lemma sample_pending:
  "secrethashes_to_lockedlocks (partner_state sample_received) = [(sample_secrethash, sample_lock 10)]"
  "secrethashes_to_unlockedlocks (partner_state sample_received) = []"
  "secrethashes_to_onchain_unlockedlocks (partner_state sample_received) = []"
  "get_lock (partner_state sample_received) sample_secrethash = Some (sample_lock 10)"
  "get_amount_locked (partner_state sample_received) = 10"
  "current_locked_amount (partner_state sample_received) = 10"
  by (simp_all add: record_lock_def mk_NettingChannelEndState_def get_lock_def
      get_amount_locked_def get_amount_unclaimed_onchain_def current_locked_amount_def)

lemma sample_next_usable:
  "0 \<le> a \<Longrightarrow> a \<le> 10 \<Longrightarrow> is_balance_proof_usable_onchain sample_libs (sample_next_proof a) sample_received
     (partner_state sample_received) = Inr None"
proof -
  assume a: "0 \<le> a" "a \<le> 10"
  have r: "recover sample_libs d (bob @ replicate 45 0) = Inr bob" for d
    by (simp add: recover_def py_last_def sample_libs_def bob_def)
  obtain h where h: "hash_balance_data sample_libs a 0 EMPTY_MERKLE_ROOT = Inr h"
    using hash_balance_data_total [of EMPTY_MERKLE_ROOT] by fastforce
  have "is_valid_signature sample_libs (sample_next_proof a) bob = Inr None"
    using h pack_balance_proof_total r by (simp add: is_valid_signature_iff sample_next_proof_def)
  then show ?thesis
    using a by (simp add: usable_iff sample_next_proof_def mk_NettingChannelEndState_def
        UINT256_MAX_def get_next_nonce_def)
qed

lemma sample_without:
  "compute_merkletree_without L (sample_tree a) (lock_lockhash (sample_lock a)) =
     Inr (Some make_empty_merkle_tree)"
  by (simp add: compute_merkletree_without_def sample_tree_def merkle_leaves_def)

lemma sample_empty_root: "merkleroot make_empty_merkle_tree = Inr EMPTY_MERKLE_ROOT"
  by (simp add: merkleroot_def make_empty_merkle_tree_def)

lemma sample_unlock_valid:
  "is_valid_unlock sample_libs sample_unlock sample_received (partner_state sample_received) =
     Inr (Inr make_empty_merkle_tree)"
  unfolding unlock_iff
  using sample_pending sample_next_usable [of 10] sample_without [of sample_libs 10] sample_empty_root
  by (intro exI [of _ "sample_lock 10"])
    (auto simp: sample_next_proof_def current_transferred_amount_def)

lemma sample_expired_valid:
  "is_valid_lock_expired sample_libs sample_expired sample_received (partner_state sample_received)
     (our_state sample_received) 105 = Inr (Inr make_empty_merkle_tree)"
  unfolding lock_expired_iff
  using sample_pending sample_next_usable [of 0] sample_without [of sample_libs 10] sample_empty_root
  by (intro exI [of _ "sample_lock 10"])
    (auto simp: sample_next_proof_def
      current_transferred_amount_def dict_has_def is_lock_expired_def
      mk_NettingChannelEndState_def get_receiver_expiration_threshold_def
      DEFAULT_NUMBER_OF_BLOCK_CONFIRMATIONS_def)

end
