(* ===== verification/ChannelProperties.thy ===== *)
theory ChannelProperties
  imports Samples
begin

text \<open>
  What holds of every reachable channel and of every step: the properties of
  \<open>transfer/channel.py\<close>, each with a witness on the sample channels.
\<close>

section \<open>Invariants of reachable channels\<close>

lemma reachable_end_ok:
  "keccak_ok L \<Longrightarrow> reachable L c \<Longrightarrow> end_ok L (our_state c) \<and> end_ok L (partner_state c)"
  using reachable_inv channel_okD(1,2) by blast







text \<open>Nonces are used once and without gaps: in one step at most one side issues a new balance
  proof, its nonce is the successor of the old one, and a side whose nonce stays keeps its
  balance proof.\<close>

theorem nonces_sequential:
  assumes "keccak_ok L" "reachable L c" "channel_step L c c'"
  shows "get_current_nonce (our_state c') + get_current_nonce (partner_state c') \<le>
      get_current_nonce (our_state c) + get_current_nonce (partner_state c) + 1 \<and>
    (es_balance_proof (our_state c') = es_balance_proof (our_state c) \<or>
      get_current_nonce (our_state c') = get_current_nonce (our_state c) + 1) \<and>
    (es_balance_proof (partner_state c') = es_balance_proof (partner_state c) \<or>
      get_current_nonce (partner_state c') = get_current_nonce (partner_state c) + 1)"
  using channel_step_sim [OF assms(1) _ assms(3)] reachable_inv [OF assms(1,2)]
    ledger_step_monotone(3) [of "ledgers c" "ledgers c'"]
  by (intro conjI; simp add: sim_def proof_step_def) (simp add: ledgers_def ledger_of_def)

theorem nonces_sequential_witness:
  "get_current_nonce (our_state sample_sent) + get_current_nonce (partner_state sample_sent) \<le>
     get_current_nonce (our_state sample_channel) + get_current_nonce (partner_state sample_channel)
     + 1"
  by (rule conjunct1 [OF nonces_sequential [OF sample_keccak_ok sample_reachable sample_sent_step]])

section \<open>The unlock proof\<close>



end
