(* ===== verification/ChannelChain.thy ===== *)
theory ChannelChain
  imports Samples
begin

text \<open>
  The chain-side life of a channel: how its status moves, which deposits a block applies, when it
  is closed, updated, settled and cleared.
\<close>

section \<open>Status\<close>

fun status_rank :: "channel_status \<Rightarrow> nat" where
  "status_rank CHANNEL_STATE_OPENED = 0"
| "status_rank CHANNEL_STATE_CLOSING = 1"
| "status_rank CHANNEL_STATE_CLOSED = 2"
| "status_rank CHANNEL_STATE_SETTLING = 3"
| "status_rank CHANNEL_STATE_SETTLED = 4"
| "status_rank CHANNEL_STATE_UNUSABLE = 5"

text \<open>The status is a function of the close and the settle transaction.\<close>

definition status_of ::
    "TransactionExecutionStatus option \<Rightarrow> TransactionExecutionStatus option \<Rightarrow> channel_status" where
  "status_of close settle =
     (case settle of
        Some tx \<Rightarrow>
          if tx_result tx = Some SUCCESS then CHANNEL_STATE_SETTLED
          else if finished_block_number tx = None then CHANNEL_STATE_SETTLING
          else CHANNEL_STATE_UNUSABLE
      | None \<Rightarrow>
          (case close of
             Some tx \<Rightarrow>
               if tx_result tx = Some SUCCESS then CHANNEL_STATE_CLOSED
               else if finished_block_number tx = None then CHANNEL_STATE_CLOSING
               else CHANNEL_STATE_UNUSABLE
           | None \<Rightarrow> CHANNEL_STATE_OPENED))"

lemma status_fields: "get_status c = status_of (close_transaction c) (settle_transaction c)"
  by (simp add: get_status_def status_of_def)

lemma status_usable:
  "channel_ok L c \<Longrightarrow> get_status c \<noteq> CHANNEL_STATE_UNUSABLE"
  by (auto simp: channel_ok_def tx_ok_def status_fields status_of_def split: option.splits)

lemma prior_to_closed:
  "s \<in> CHANNEL_STATES_PRIOR_TO_CLOSED \<longleftrightarrow> s = CHANNEL_STATE_OPENED \<or> s = CHANNEL_STATE_CLOSING"
  by (auto simp: CHANNEL_STATES_PRIOR_TO_CLOSED_def)

lemma status_of_prior:
  "status_of close settle = CHANNEL_STATE_OPENED \<longleftrightarrow> close = None \<and> settle = None"
  "status_of close settle = CHANNEL_STATE_CLOSING \<longleftrightarrow>
     settle = None \<and> (\<exists>tx. close = Some tx \<and> tx_result tx \<noteq> Some SUCCESS \<and>
       finished_block_number tx = None)"
  by (auto simp: status_of_def split: option.splits if_splits)

lemma set_closed_status:
  "get_status c \<in> CHANNEL_STATES_PRIOR_TO_CLOSED \<Longrightarrow> get_status (set_closed c n) = CHANNEL_STATE_CLOSED"
  by (auto simp: prior_to_closed status_fields status_of_prior)
    (auto simp: status_of_def set_closed_def finish_transaction_def no_block_def)

lemma set_settled_status:
  "tx_ok (settle_transaction c) \<Longrightarrow> get_status (set_settled c n) = CHANNEL_STATE_SETTLED"
  by (auto simp: status_fields status_of_def set_settled_def finish_transaction_def tx_ok_def
      no_block_def split: option.splits if_splits)

lemma settling_status:
  "get_status (c\<lparr>settle_transaction := Some (tx_started n)\<rparr>) = CHANNEL_STATE_SETTLING"
  by (simp add: status_fields status_of_def tx_started_def)

lemma closing_status:
  "get_status c \<in> CHANNEL_STATES_PRIOR_TO_CLOSED \<Longrightarrow>
     get_status (c\<lparr>close_transaction := Some (tx_started n)\<rparr>) = CHANNEL_STATE_CLOSING"
  by (auto simp: prior_to_closed status_fields status_of_prior) (auto simp: tx_started_def)

lemma apply_confirmed_fields:
  "apply_confirmed_deposits c n = Inr c' \<Longrightarrow>
     close_transaction c' = close_transaction c \<and> settle_transaction c' = settle_transaction c \<and>
     settle_timeout c' = settle_timeout c \<and> ch_canonical_identifier c' = ch_canonical_identifier c"
proof (induction c n rule: apply_confirmed_deposits.induct)
  case (1 c n)
  show ?case
  proof (cases "is_deposit_confirmed c n")
    case False
    then show ?thesis using "1.prems" by (simp add: apply_confirmed_deposits.simps [of c n])
  next
    case True
    with "1.prems" obtain x q where
      pop: "heappop (deposit_transaction_queue c) = Inr (x, q)" and
      rest: "apply_confirmed_deposits (apply_channel_newbalance
        (c\<lparr>deposit_transaction_queue := q\<rparr>) (order_transaction x)) n = Inr c'"
      by (auto simp: apply_confirmed_deposits.simps [of c n] split: sum.splits)
    from "1.IH" [OF True pop refl rest] show ?thesis
      by (simp add: apply_channel_newbalance_def split: if_splits)
  qed
qed

lemma handle_block_cases:
  assumes "handle_block c b h n = Inr (r, evs)"
  obtains (settle) closed c' where "get_status c = CHANNEL_STATE_CLOSED"
      "\<exists>tx. close_transaction c = Some tx \<and> finished_block_number tx = Some closed" "b = n"
      "b > closed + settle_timeout c"
      "apply_confirmed_deposits (c\<lparr>settle_transaction := Some (tx_started b)\<rparr>) n = Inr c'"
      "r = Some c'" "evs = [ContractSendChannelSettle (ch_canonical_identifier c) h c']"
  | (wait) c' where "b = n" "get_status c = CHANNEL_STATE_CLOSED \<longrightarrow>
        (\<exists>closed tx. close_transaction c = Some tx \<and> finished_block_number tx = Some closed \<and>
          \<not> b > closed + settle_timeout c)"
      "apply_confirmed_deposits c n = Inr c'" "r = Some c'" "evs = []"
proof (cases "get_status c = CHANNEL_STATE_CLOSED")
  case False
  then show thesis
    using assms wait by (auto simp: handle_block_def res_simps)
next
  case True
  with assms obtain tx closed where tx: "close_transaction c = Some tx"
    "finished_block_number tx = Some closed"
    by (auto simp: handle_block_def res_simps split: option.splits)
  show thesis
  proof (cases "b > closed + settle_timeout c")
    case late: True
    show thesis
      using assms True tx late settle by (auto simp: handle_block_def res_simps)
  next
    case early: False
    show thesis
      using assms True tx early wait by (auto simp: handle_block_def res_simps)
  qed
qed

lemma handle_block_status:
  assumes "handle_block c b h n = Inr (Some c', evs)"
  shows "get_status c' = get_status c \<or>
    (get_status c = CHANNEL_STATE_CLOSED \<and> get_status c' = CHANNEL_STATE_SETTLING)"
  using assms
proof (cases rule: handle_block_cases)
  case (settle closed d)
  then have "get_status d = get_status (c\<lparr>settle_transaction := Some (tx_started b)\<rparr>)"
    using apply_confirmed_fields by (simp add: status_fields)
  with settle show ?thesis by (simp add: settling_status)
next
  case (wait d)
  then show ?thesis using apply_confirmed_fields by (simp add: status_fields)
qed

text \<open>Processing a state change never moves a reachable channel backwards in its life
  (opened, closing, closed, settling, settled), and no reachable channel is in the state that the
  code calls unusable.\<close>

theorem status_never_goes_back:
  assumes "keccak_ok L" "reachable L c" "state_transition c sc n h = Inr (Some c', evs)"
  shows "status_rank (get_status c) \<le> status_rank (get_status c') \<and>
    get_status c' \<noteq> CHANNEL_STATE_UNUSABLE"
proof
  have ok: "channel_ok L c" using reachable_inv [OF assms(1,2)] by simp
  have "channel_ok L c'"
    using chain_change_sim [OF ok state_transition_change [OF assms(3)]] by (simp add: sim_def)
  then show "get_status c' \<noteq> CHANNEL_STATE_UNUSABLE" by (rule status_usable)
  have settled: "status_rank (get_status d) \<le> 4" if "channel_ok L d" for d
    using status_usable [OF that] by (cases "get_status d") auto
  show "status_rank (get_status c) \<le> status_rank (get_status c')"
  proof (cases sc)
    case (Block x1 x2 x3)
    then show ?thesis
      using assms(3) handle_block_status by (fastforce simp: state_transition_def)
  next
    case (ActionChannelClose ci tx a b)
    then have "c' = c \<or> (get_status c \<in> CHANNEL_STATES_PRIOR_TO_CLOSED \<and>
        c' = c\<lparr>close_transaction := Some (tx_started n)\<rparr>)"
      using assms(3) by (auto simp: state_transition_def handle_action_close_def events_for_close_def
          res_simps Let_def split: if_splits option.splits balance_proof.splits)
    then show ?thesis using closing_status [of c n] by (auto simp: prior_to_closed)
  next
    case (ActionChannelSetFee ci fee)
    then show ?thesis
      using assms(3) by (auto simp: state_transition_def handle_action_set_fee_def res_simps
          status_fields)
  next
    case (ContractReceiveChannelClosed t snd_addr ci b bh)
    then have "c' = c \<or> (get_status c \<in> CHANNEL_STATES_PRIOR_TO_CLOSED \<and>
        get_status c' = get_status (set_closed c b))"
      using assms(3) by (auto simp: state_transition_def handle_channel_closed_def Let_def
          status_fields split: if_splits option.splits balance_proof.splits)
    then show ?thesis using set_closed_status by (auto simp: prior_to_closed)
  next
    case (ContractReceiveChannelClosedLight t snd_addr ci b bh lc latest)
    then have "c' = c \<or> (get_status c \<in> CHANNEL_STATES_PRIOR_TO_CLOSED \<and>
        get_status c' = get_status (set_closed c b))"
      using assms(3) by (auto simp: state_transition_def handle_channel_closed_light_def Let_def
          res_simps status_fields split: if_splits option.splits)
    then show ?thesis using set_closed_status by (auto simp: prior_to_closed)
  next
    case (ContractReceiveUpdateTransfer t ci nonce b bh)
    then show ?thesis
      using assms(3) by (auto simp: state_transition_def handle_channel_updated_transfer_def
          status_fields)
  next
    case (ContractReceiveChannelSettled t ci r r' b bh p)
    then have "c' = c \<or> get_status c' = get_status (set_settled c b)"
      using assms(3) by (auto simp: state_transition_def handle_channel_settled_def Let_def
          status_fields split: if_splits)
    then show ?thesis
      using set_settled_status [OF channel_okD(5) [OF ok]] settled [OF ok] by auto
  next
    case (ContractReceiveChannelNewBalance t ci d b bh p)
    then show ?thesis
      using assms(3) by (auto simp: state_transition_def handle_channel_newbalance_def
          apply_channel_newbalance_def status_fields split: if_splits)
  next
    case (ContractReceiveChannelBatchUnlock t ci p q r u v b bh)
    then show ?thesis
      using assms(3) by (auto simp: state_transition_def handle_channel_batch_unlock_def Let_def
          status_fields split: if_splits)
  qed (use assms(3) in \<open>simp_all add: state_transition_def\<close>)
qed

theorem status_never_goes_back_witness:
  "status_rank (get_status sample_sent) \<le> status_rank (get_status (set_closed sample_sent 20))"
proof -
  have t: "state_transition sample_sent
      (ContractReceiveChannelClosed [] alice sample_ci 20 []) 20 [] = Inr (Some (set_closed sample_sent 20), [])"
    by (simp add: state_transition_def handle_channel_closed_def sample_sent_def sample_sent_from_def record_lock_def
        prior_to_closed status_fields status_of_def set_closed_def)
      (simp add: sample_channel_def mk_NettingChannelEndState_def finish_transaction_def sample_ci_def)
  show ?thesis
    using status_never_goes_back [OF sample_keccak_ok sample_sent_reachable t] by simp
qed

section \<open>Deposits\<close>

text \<open>The deposits of a participant in the queue that are confirmed at a block.\<close>

definition confirmed_deposits :: "TransactionOrder list \<Rightarrow> int \<Rightarrow> bytes \<Rightarrow> int set" where
  "confirmed_deposits q n a =
     {new_contract_balance (order_transaction x) | x. x \<in> set q \<and>
        is_transaction_confirmed (order_block_number x) n \<and>
        participant_address (order_transaction x) = a}"

lemma finite_confirmed [simp]: "finite (confirmed_deposits q n a)"
  unfolding confirmed_deposits_def by simp

lemma confirmed_insert:
  assumes "set q = insert x (set r)" "is_transaction_confirmed (order_block_number x) n"
  shows "confirmed_deposits q n a =
    (if participant_address (order_transaction x) = a
     then insert (new_contract_balance (order_transaction x)) (confirmed_deposits r n a)
     else confirmed_deposits r n a)"
  using assms by (auto simp: confirmed_deposits_def)

lemma update_balance_max: "contract_balance (update_contract_balance b e) = max b (contract_balance e)"
  by (simp add: update_contract_balance_def)

lemma Max_shift: "finite S \<Longrightarrow> Max (insert (max b v) S) = Max (insert b (insert v S))" for b v :: int
  by (cases "S = {}") (auto simp: max.assoc)

lemma none_confirmed:
  assumes "heap_ok q" "\<not> (case q of [] \<Rightarrow> False | y # _ \<Rightarrow> is_transaction_confirmed (order_block_number y) n)"
    and "x \<in> set q"
  shows "\<not> is_transaction_confirmed (order_block_number x) n"
proof -
  from assms(3) obtain y r where q: "q = y # r" by (cases q) auto
  then have "order_block_number y \<le> order_block_number x"
    using hq.peek_bound [of q y x] assms(1,3) order_le_block by (simp add: py_first_def)
  then show ?thesis using assms(2) q by (simp add: is_transaction_confirmed_def)
qed

text \<open>C32. At a block the loop over the deposit queue ends without an error, exactly the confirmed
  deposits leave the queue, and each participant's contract balance becomes the greatest of its
  old value and its confirmed deposits.\<close>

theorem block_applies_confirmed_deposits:
  assumes "heap_ok (deposit_transaction_queue c)"
    and "es_address (our_state c) \<noteq> es_address (partner_state c)"
  shows "\<exists>c'. apply_confirmed_deposits c n = Inr c' \<and>
    mset (deposit_transaction_queue c') =
      filter_mset (\<lambda>x. \<not> is_transaction_confirmed (order_block_number x) n)
        (mset (deposit_transaction_queue c)) \<and>
    contract_balance (our_state c') = Max (insert (contract_balance (our_state c))
      (confirmed_deposits (deposit_transaction_queue c) n (es_address (our_state c)))) \<and>
    contract_balance (partner_state c') = Max (insert (contract_balance (partner_state c))
      (confirmed_deposits (deposit_transaction_queue c) n (es_address (partner_state c))))"
  using assms
proof (induction c n rule: apply_confirmed_deposits.induct)
  case (1 c n)
  let ?q = "deposit_transaction_queue c"
  show ?case
  proof (cases "is_deposit_confirmed c n")
    case False
    then have no: "\<not> is_transaction_confirmed (order_block_number x) n" if "x \<in> set ?q" for x
      using none_confirmed [OF "1.prems"(1) _ that] by (simp add: is_deposit_confirmed_def)
    then have "confirmed_deposits ?q n a = {}" for a by (auto simp: confirmed_deposits_def)
    moreover have "filter_mset (\<lambda>x. \<not> is_transaction_confirmed (order_block_number x) n) (mset ?q)
        = mset ?q"
      using no by (simp add: filter_mset_eq_conv)
    ultimately show ?thesis using False by (simp add: apply_confirmed_deposits.simps [of c n])
  next
    case True
    then obtain x0 r0 where q: "?q = x0 # r0"
      by (auto simp: is_deposit_confirmed_def split: list.splits)
    then obtain x q where pop: "heappop ?q = Inr (x, q)" and hd: "py_first ?q = Inr x"
      and ok: "heap_ok q" and ms: "mset ?q = add_mset x (mset q)"
      using hq.pop_least [OF "1.prems"(1)] by auto
    have conf: "is_transaction_confirmed (order_block_number x) n"
      using True hd q by (simp add: is_deposit_confirmed_def)
    have set: "set ?q = insert x (set q)" using ms by (metis set_mset_add_mset_insert set_mset_mset)
    let ?d = "apply_channel_newbalance (c\<lparr>deposit_transaction_queue := q\<rparr>) (order_transaction x)"
    have addr: "es_address (our_state ?d) = es_address (our_state c)"
      "es_address (partner_state ?d) = es_address (partner_state c)"
      by (simp_all add: apply_channel_newbalance_def update_contract_balance_def)
    have bal: "contract_balance (our_state ?d) =
        (if participant_address (order_transaction x) = es_address (our_state c)
         then max (contract_balance (our_state c)) (new_contract_balance (order_transaction x))
         else contract_balance (our_state c))"
      "contract_balance (partner_state ?d) =
        (if participant_address (order_transaction x) = es_address (partner_state c)
         then max (contract_balance (partner_state c)) (new_contract_balance (order_transaction x))
         else contract_balance (partner_state c))"
      using "1.prems"(2)
      by (auto simp: apply_channel_newbalance_def update_balance_max max.commute)
    have run: "apply_confirmed_deposits c n = apply_confirmed_deposits ?d n"
      using True pop by (simp add: apply_confirmed_deposits.simps [of c n])
    note ih = "1.IH" [OF True pop refl]
    have step: "Max (insert b (confirmed_deposits ?q n a)) =
        Max (insert (if participant_address (order_transaction x) = a
             then max b (new_contract_balance (order_transaction x)) else b)
          (confirmed_deposits q n a))" for a b
      by (simp add: confirmed_insert [OF set conf] Max_shift del: Max_insert)
    show ?thesis
      unfolding run step using ih ok addr "1.prems"(2) conf
      by (simp add: ms bal del: Max_insert)
  qed
qed

theorem block_applies_confirmed_deposits_witness:
  "\<exists>c'. apply_confirmed_deposits
     (sample_channel\<lparr>deposit_transaction_queue :=
        [TransactionOrder 3 (TransactionChannelNewBalance alice 170 3)]\<rparr>) 9 = Inr c' \<and>
     contract_balance (our_state c') = 170 \<and> contract_balance (partner_state c') = 50"
proof -
  let ?q = "[TransactionOrder 3 (TransactionChannelNewBalance alice 170 3)]"
  have "confirmed_deposits ?q 9 alice = {170}" "confirmed_deposits ?q 9 bob = {}"
    by (auto simp: confirmed_deposits_def is_transaction_confirmed_def alice_def bob_def
        DEFAULT_NUMBER_OF_BLOCK_CONFIRMATIONS_def)
  moreover have "heap_ok ?q" by (simp add: heap_ok_def)
  moreover have "alice \<noteq> bob" by (simp add: alice_def bob_def)
  ultimately show ?thesis
    using block_applies_confirmed_deposits [of "sample_channel\<lparr>deposit_transaction_queue := ?q\<rparr>" 9]
    by (auto simp: mk_NettingChannelEndState_def)
qed

section \<open>Closing and settling\<close>



text \<open>Closing a reachable channel that is opened or closing sends one close transaction with the
  partner's latest signed balance proof (none where it has sent nothing) and leaves the channel
  closing; in every other status nothing is sent and the channel is unchanged.\<close>

theorem close_sends_latest_proof:
  assumes "keccak_ok L" "reachable L c" "ch_identifier c = channel_identifier ci"
  shows "handle_action_close c ci tx n h =
    Inr (if get_status c \<in> CHANNEL_STATES_PRIOR_TO_CLOSED
         then (Some (c\<lparr>close_transaction := Some (tx_started n)\<rparr>),
               [ContractSendChannelClose (ch_canonical_identifier c)
                  (case es_balance_proof (partner_state c) of Some (Signed bp) \<Rightarrow> Some bp
                   | _ \<Rightarrow> None) h tx])
         else (Some c, [])) \<and>
    (get_status c \<in> CHANNEL_STATES_PRIOR_TO_CLOSED \<longrightarrow>
      get_status (c\<lparr>close_transaction := Some (tx_started n)\<rparr>) = CHANNEL_STATE_CLOSING)"
proof (intro conjI impI)
  have "es_balance_proof (partner_state c) \<noteq> Some (Unsigned u)" for u
    using reachable_inv [OF assms(1,2)] channel_okD(7) by blast
  then show "handle_action_close c ci tx n h =
    Inr (if get_status c \<in> CHANNEL_STATES_PRIOR_TO_CLOSED
         then (Some (c\<lparr>close_transaction := Some (tx_started n)\<rparr>),
               [ContractSendChannelClose (ch_canonical_identifier c)
                  (case es_balance_proof (partner_state c) of Some (Signed bp) \<Rightarrow> Some bp
                   | _ \<Rightarrow> None) h tx])
         else (Some c, []))"
    using assms(3) by (auto simp: handle_action_close_def events_for_close_def Let_def
        split: option.splits balance_proof.splits)
qed (rule closing_status)

theorem close_sends_latest_proof_witness:
  "handle_action_close sample_received sample_ci [] 20 [] =
     Inr (Some (sample_received\<lparr>close_transaction := Some (tx_started 20)\<rparr>),
       [ContractSendChannelClose sample_ci (Some (sample_signed 10)) [] []])"
proof -
  have s: "ch_canonical_identifier sample_received = sample_ci"
    "es_balance_proof (partner_state sample_received) = Some (Signed (sample_signed 10))"
    "get_status sample_received = CHANNEL_STATE_OPENED"
    by (simp_all add: sample_received_def sample_channel_def status_fields status_of_def)
  then show ?thesis
    using close_sends_latest_proof [OF sample_keccak_ok sample_received_reachable,
        of sample_ci "[]" 20 "[]"] by (simp add: prior_to_closed)
qed

text \<open>When the chain reports that a channel has been closed, the node submits the partner's
  balance proof exactly if somebody else closed it, there is such a proof and no update has been
  sent; a second report of the close does nothing.\<close>

theorem partner_close_updates_once:
  assumes "keccak_ok L" "reachable L c" "channel_identifier ci = ch_identifier c"
    and "get_status c \<in> CHANNEL_STATES_PRIOR_TO_CLOSED"
  shows "\<exists>c' evs. handle_channel_closed c snd_addr ci n h = Inr (Some c', evs) \<and>
    get_status c' = CHANNEL_STATE_CLOSED \<and>
    evs = (case es_balance_proof (partner_state c) of
             Some (Signed bp) \<Rightarrow>
               if snd_addr \<noteq> es_address (our_state c) \<and> update_transaction c = None
               then [ContractSendChannelUpdateTransfer (n + settle_timeout c) bp h] else []
           | _ \<Rightarrow> []) \<and>
    handle_channel_closed c' addr' ci n' h' = Inr (Some c', [])"
proof -
  have u: "es_balance_proof (partner_state c) \<noteq> Some (Unsigned u)" for u
    using reachable_inv [OF assms(1,2)] channel_okD(7) by blast
  have cl: "get_status (set_closed c n) = CHANNEL_STATE_CLOSED"
    using set_closed_status assms(4) by blast
  have cl': "get_status ((set_closed c n)\<lparr>update_transaction := t\<rparr>) = CHANNEL_STATE_CLOSED" for t
    using cl by (simp add: status_fields)
  have sel: "our_state (set_closed c n) = our_state c"
    "partner_state (set_closed c n) = partner_state c"
    "update_transaction (set_closed c n) = update_transaction c"
    "settle_timeout (set_closed c n) = settle_timeout c"
    by (simp_all add: set_closed_def)
  have again: "handle_channel_closed d addr' ci n' h' = Inr (Some d, [])"
    if "get_status d = CHANNEL_STATE_CLOSED" for d
    using that by (simp add: handle_channel_closed_def prior_to_closed)
  let ?evs = "case es_balance_proof (partner_state c) of
      Some (Signed bp) \<Rightarrow>
        if snd_addr \<noteq> es_address (our_state c) \<and> update_transaction c = None
        then [ContractSendChannelUpdateTransfer (n + settle_timeout c) bp h] else []
    | _ \<Rightarrow> []"
  have "\<exists>c'. handle_channel_closed c snd_addr ci n h = Inr (Some c', ?evs) \<and>
      get_status c' = CHANNEL_STATE_CLOSED"
    using assms(3,4) u cl cl'
    by (auto simp: handle_channel_closed_def Let_def sel split: option.splits balance_proof.splits)
  then show ?thesis using again by blast
qed

theorem partner_close_updates_once_witness:
  "\<exists>c'. handle_channel_closed sample_received bob sample_ci 20 [] =
     Inr (Some c', [ContractSendChannelUpdateTransfer 520 (sample_signed 10) []])"
proof -
  have s: "ch_canonical_identifier sample_received = sample_ci"
    "es_balance_proof (partner_state sample_received) = Some (Signed (sample_signed 10))"
    "get_status sample_received = CHANNEL_STATE_OPENED" "settle_timeout sample_received = 500"
    "update_transaction sample_received = None"
    "es_address (our_state sample_received) = alice"
    by (simp_all add: sample_received_def sample_channel_def status_fields status_of_def
        mk_NettingChannelEndState_def)
  have "alice \<noteq> bob" by (simp add: alice_def bob_def)
  then show ?thesis
    using partner_close_updates_once [OF sample_keccak_ok sample_received_reachable,
        of sample_ci bob 20 "[]"] s by (simp add: prior_to_closed) blast
qed

text \<open>A batch unlock clears a settled channel exactly when it leaves no side with an on-chain
  locksroot to unlock; otherwise the channel stays, with the unlocked side's root emptied.\<close>

theorem cleared_when_all_unlocked:
  assumes "get_status c = CHANNEL_STATE_SETTLED"
    and "es_address (our_state c) \<noteq> es_address (partner_state c)"
  shows "handle_channel_batch_unlock c partner = Inr (None, []) \<longleftrightarrow>
    (partner = es_address (our_state c) \<or> onchain_locksroot (our_state c) = EMPTY_MERKLE_ROOT) \<and>
    (partner = es_address (partner_state c) \<or>
       onchain_locksroot (partner_state c) = EMPTY_MERKLE_ROOT)"
  using assms
  by (auto simp: handle_channel_batch_unlock_def Let_def set_onchain_locksroot_def)

theorem cleared_when_all_unlocked_witness:
  "handle_channel_batch_unlock
     (set_settled (upd_partner (set_onchain_locksroot (replicate 32 1)) sample_channel) 600) bob =
   Inr (None, [])"
proof -
  let ?c = "set_settled (upd_partner (set_onchain_locksroot (replicate 32 1)) sample_channel) 600"
  have "get_status ?c = CHANNEL_STATE_SETTLED"
    by (rule set_settled_status) (simp add: sample_channel_def tx_ok_def)
  moreover have "our_state ?c = mk_NettingChannelEndState alice 100"
    "partner_state ?c = set_onchain_locksroot (replicate 32 1) (mk_NettingChannelEndState bob 50)"
    by (simp_all add: set_settled_def)
  ultimately show ?thesis
    using cleared_when_all_unlocked [of ?c bob]
    by (simp add: mk_NettingChannelEndState_def set_onchain_locksroot_def alice_def bob_def)
qed

end
