(* ===== verification/ChannelMessages.thy ===== *)
theory ChannelMessages
  imports Samples
begin

text \<open>
  When a received message is accepted, what it then does to the channel and what a refusal leaves
  behind; what a registered secret changes; and the two places where the message handling of
  \<open>transfer/channel.py\<close> does something else than it means to.
\<close>

section \<open>Locked transfers\<close>

text \<open>C26. A received transfer is accepted exactly if the channel is open, the balance proof is for
  this channel, signed by the partner, with the next nonce and without overflow, its locksroot is
  that of the tree with the new lock, its transferred amount is unchanged, its locked amount grows
  by the lock, and the lock is new, usable on-chain and within the partner's distributable amount
  and the limit of pending transfers; the new lock, tree and proof are then recorded and the
  transfer is acknowledged.\<close>

theorem lockedtransfer_accepted_iff:
  "handle_receive_lockedtransfer L now c t st = Inr (out, c', st') \<and> out_msg out = None \<longleftrightarrow>
   (\<exists>tree r w. handle_received_invoice now st (lt_payment_hash_invoice t) = Inr (r, st') \<and>
      get_status c = CHANNEL_STATE_OPENED \<and>
      bp_canonical_identifier (lt_balance_proof t) = ch_canonical_identifier c \<and>
      bp_transferred_amount (lt_balance_proof t) + bp_locked_amount (lt_balance_proof t)
        \<le> UINT256_MAX \<and>
      bp_nonce (lt_balance_proof t) = get_next_nonce (partner_state c) \<and>
      is_valid_signature L (lt_balance_proof t) (es_address (partner_state c)) = Inr None \<and>
      compute_merkletree_with L (es_merkletree (partner_state c)) (lock_lockhash (lt_lock t))
        = Inr (Some tree) \<and>
      merkletree_width tree = Inr w \<and> w \<le> MAXIMUM_PENDING_TRANSFERS \<and>
      merkleroot tree = Inr (bp_locksroot (lt_balance_proof t)) \<and>
      bp_transferred_amount (lt_balance_proof t) = current_transferred_amount (partner_state c) \<and>
      bp_locked_amount (lt_balance_proof t) =
        current_locked_amount (partner_state c) + lock_amount (lt_lock t) \<and>
      lock_amount (lt_lock t) \<le> get_distributable (partner_state c) (our_state c) \<and>
      lock_secrethash (lt_lock t) \<noteq> EMPTY_HASH_KECCAK L \<and>
      out = \<lparr>out_events = [send_processed (bp_sender (lt_balance_proof t))
               (lt_message_identifier t)], out_msg = None, out_invoice = Some r\<rparr> \<and>
      c' = upd_partner (record_lock (Signed (lt_balance_proof t)) tree (lt_lock t)) c)"
proof -
  have "handle_receive_lockedtransfer L now c t st = Inr (out, c', st') \<and> out_msg out = None \<longleftrightarrow>
    (\<exists>tree r. is_valid_lockedtransfer L now t c (partner_state c) (our_state c) st =
         Inr (Inr (tree, r), st') \<and>
       out = \<lparr>out_events = [send_processed (bp_sender (lt_balance_proof t))
               (lt_message_identifier t)], out_msg = None, out_invoice = Some r\<rparr> \<and>
       c' = upd_partner (record_lock (Signed (lt_balance_proof t)) tree (lt_lock t)) c)"
    (is "?accepted \<longleftrightarrow> ?valid")
  proof
    assume a: ?accepted
    then obtain r st2 where r: "is_valid_lockedtransfer L now t c (partner_state c) (our_state c) st
        = Inr (r, st2)"
      by (auto simp: handle_receive_lockedtransfer_def receive_lockedtransfer_with_def res_bind_Inr)
    with a show ?valid
      by (cases r) (auto simp: handle_receive_lockedtransfer_def receive_lockedtransfer_with_def)
  qed (auto simp: handle_receive_lockedtransfer_def receive_lockedtransfer_with_def)
  then show ?thesis
    unfolding is_valid_lockedtransfer_def lockedtransfer_iff usable_iff by simp blast
qed

text \<open>A refused message changes nothing: the channel is returned as it was, with one event that
  carries the reason and no acknowledgement.\<close>

theorem refusals_change_nothing:
  "(handle_receive_lockedtransfer L now c t st = Inr (out, c', st') \<and> out_msg out = Some m \<longrightarrow>
     c' = c \<and> out_events out = [EventInvalidReceivedLockedTransfer (lt_payment_identifier t) m]) \<and>
   (handle_refundtransfer L now original c refund = Inr ((evs, Some m), c') \<longrightarrow>
     c' = c \<and> evs = [EventInvalidReceivedTransferRefund (lt_payment_identifier original) m]) \<and>
   (handle_unlock L c unlock = Inr ((evs, Some m), c') \<longrightarrow>
     c' = c \<and> evs = [EventInvalidReceivedUnlock (ru_secrethash unlock) m]) \<and>
   (is_valid_lock_expired L sc c (partner_state c) (our_state c) n = Inr (Inl m) \<longrightarrow>
     handle_receive_lock_expired L c sc n =
       Inr ([EventInvalidReceivedLockExpired (rle_secrethash sc) m], c))"
proof (rule conjI [OF _ conjI [OF _ conjI]]; intro impI; (elim conjE)?)
  assume h: "handle_receive_lockedtransfer L now c t st = Inr (out, c', st')" "out_msg out = Some m"
  then obtain r st2 where r: "is_valid_lockedtransfer L now t c (partner_state c) (our_state c) st
      = Inr (r, st2)"
    by (auto simp: handle_receive_lockedtransfer_def receive_lockedtransfer_with_def res_bind_Inr)
  then show "c' = c \<and> out_events out =
      [EventInvalidReceivedLockedTransfer (lt_payment_identifier t) m]"
    using h by (cases r) (auto simp: handle_receive_lockedtransfer_def receive_lockedtransfer_with_def)
next
  assume h: "handle_refundtransfer L now original c refund = Inr ((evs, Some m), c')"
  then obtain r where "is_valid_refund L now refund c (partner_state c) (our_state c) original = Inr r"
    by (auto simp: handle_refundtransfer_def res_bind_Inr)
  then show "c' = c \<and> evs = [EventInvalidReceivedTransferRefund (lt_payment_identifier original) m]"
    using h by (cases r) (auto simp: handle_refundtransfer_def)
next
  assume h: "handle_unlock L c unlock = Inr ((evs, Some m), c')"
  then obtain r where "is_valid_unlock L unlock c (partner_state c) = Inr r"
    by (auto simp: handle_unlock_def receive_unlock_with_def res_bind_Inr)
  then show "c' = c \<and> evs = [EventInvalidReceivedUnlock (ru_secrethash unlock) m]"
    using h by (cases r) (auto simp: handle_unlock_def receive_unlock_with_def res_bind_Inr)
qed (simp add: handle_receive_lock_expired_def)

lemma sample_sent_again:
  "handle_receive_lockedtransfer sample_libs now sample_received sample_message None =
     Inr (\<lparr>out_events = [EventInvalidReceivedLockedTransfer 2
            (InvalidMessage MsgLockedTransfer (NonceNotSequential 2 1))],
           out_msg = Some (InvalidMessage MsgLockedTransfer (NonceNotSequential 2 1)),
           out_invoice = None\<rparr>, sample_received, None)"
proof -
  have c: "ch_canonical_identifier sample_received = sample_ci"
    "get_status sample_received = CHANNEL_STATE_OPENED"
    "our_state sample_received = mk_NettingChannelEndState alice 100"
    "partner_state sample_received = record_lock (Signed (sample_signed 10)) (sample_tree 10)
      (sample_lock 10) (mk_NettingChannelEndState bob 50)"
    by (simp_all add: sample_received_def sample_channel_def get_status_def)
  have bal: "is_balance_proof_usable_onchain sample_libs (sample_signed 10) sample_received
      (partner_state sample_received) = Inr (Some (NonceNotSequential 2 1))"
    using sample_signature [of 10]
    by (simp add: is_balance_proof_usable_onchain_def c mk_NettingChannelEndState_def
        get_next_nonce_def is_balance_proof_safe_for_onchain_operations_def UINT256_MAX_def)
  have tree: "compute_merkletree_with sample_libs (sample_tree 10) (lock_lockhash (sample_lock 10)) =
      Inr None"
    by (simp add: compute_merkletree_with_def sample_tree_def merkle_leaves_def)
  obtain r where "get_current_balanceproof (partner_state sample_received) = r" by simp
  then show ?thesis
    using empty_invoice_hash [of now None] bal
    by (cases r) (simp add: handle_receive_lockedtransfer_def receive_lockedtransfer_with_def
        is_valid_lockedtransfer_def valid_lockedtransfer_check_def sample_message_def c tree
        EMPTY_PAYMENT_HASH_INVOICE_def)
qed

theorem refusals_change_nothing_witness:
  "\<exists>out st. handle_receive_lockedtransfer sample_libs 0 sample_received sample_message None =
     Inr (out, sample_received, st) \<and>
   out_events out = [EventInvalidReceivedLockedTransfer 2
     (InvalidMessage MsgLockedTransfer (NonceNotSequential 2 1))]"
  using refusals_change_nothing [of sample_libs 0 sample_received sample_message None]
    sample_sent_again [of 0] by simp

section \<open>Unlocks and expiries\<close>

lemma receive_unlock_accepted:
  assumes "channel_ok L c" "receive_unlock_with first L c unlock = Inr ((evs, None), c')"
  obtains lock tree e' where "get_lock (partner_state c) (ru_secrethash unlock) = Some lock"
    "is_valid_unlock L unlock c (partner_state c) = Inr (Inr tree)"
    "bp_transferred_amount (ru_balance_proof unlock) =
       current_transferred_amount (partner_state c) + lock_amount lock"
    "c' = c\<lparr>partner_state := e'\<rparr>" "locks_mset (partner_state c) = add_mset lock (locks_mset e')"
    "es_balance_proof e' = Some (Signed (ru_balance_proof unlock))"
    "contract_balance e' = contract_balance (partner_state c)"
    "es_address e' = es_address (partner_state c)" "\<not> is_lock_pending e' (ru_secrethash unlock)"
proof -
  let ?p = "partner_state c" and ?h = "ru_secrethash unlock" and ?bp = "ru_balance_proof unlock"
  from assms(2) obtain r where r: "is_valid_unlock L unlock c ?p = Inr r"
    by (auto simp: receive_unlock_with_def res_bind_Inr)
  with assms(2) obtain tree e' where t: "r = Inr tree"
    "del_lock ?h (set_proof (Signed ?bp) tree ?p) = Inr e'" "c' = c\<lparr>partner_state := e'\<rparr>"
    by (cases r) (auto simp: receive_unlock_with_def res_bind_Inr)
  from r [unfolded t(1) unlock_iff] obtain lock where l: "get_lock ?p ?h = Some lock"
    "bp_transferred_amount ?bp = current_transferred_amount ?p + lock_amount lock" by blast
  have "maps_ok (set_proof (Signed ?bp) tree ?p)" "get_lock (set_proof (Signed ?bp) tree ?p) ?h
      = Some lock"
    using end_okD(1) [OF channel_okD(2) [OF assms(1)]] l by simp_all
  then obtain e2 where "del_lock ?h (set_proof (Signed ?bp) tree ?p) = Inr e2"
    "locks_mset (set_proof (Signed ?bp) tree ?p) = add_mset lock (locks_mset e2)"
    "es_address e2 = es_address (set_proof (Signed ?bp) tree ?p)"
    "contract_balance e2 = contract_balance (set_proof (Signed ?bp) tree ?p)"
    "es_balance_proof e2 = es_balance_proof (set_proof (Signed ?bp) tree ?p)"
    "\<not> is_lock_pending e2 ?h"
    by (rule del_lock_props)
  with t l r show thesis by (intro that [of lock tree e']) auto
qed


lemma sample_unlock_run:
  "\<exists>c'. handle_unlock sample_libs sample_received sample_unlock =
     Inr (([send_processed bob 5], None), c')"
proof -
  let ?e = "set_proof (Signed (sample_next_proof 10)) make_empty_merkle_tree
    (partner_state sample_received)"
  have "is_lock_pending ?e sample_secrethash"
    using sample_pending(1) unfolding is_lock_pending_def dict_has_def by simp
  then obtain e where "del_lock sample_secrethash ?e = Inr e"
    by (auto simp: del_lock_def Let_def)
  then show ?thesis
    using sample_unlock_valid by (simp add: handle_unlock_def receive_unlock_with_def)
qed




section \<open>Secrets\<close>

text \<open>Registering a secret that was revealed on-chain: every pending lock of the hash that had not
  expired before the reveal becomes unlocked on-chain on the side that holds it, with this secret,
  and a lock that had expired stays as it was; no amount changes, and no error occurs.\<close>

theorem onchain_secret_registered:
  assumes "keccak_ok L" "reachable L c" "e = our_state c \<or> e = partner_state c"
    and "get_lock e h = Some lock" "\<not> is_secret_known_onchain e h"
  shows "\<exists>e'. register_onchain_secret_endstate secret h n True e = Inr e' \<and>
    get_amount_locked e' = get_amount_locked e \<and> get_lock e' h = Some lock \<and>
    (if lock_expiration lock < n then e' = e
     else is_secret_known_onchain e' h \<and> get_secret e' h = Some secret)"
proof -
  have e: "maps_ok e"
    using assms(3) reachable_inv [OF assms(1,2)] channel_okD(1,2) end_okD(1) by blast
  obtain e' where e': "register_onchain_secret_endstate secret h n True e = Inr e'"
    using register_onchain_total [OF e] by blast
  have same: "get_amount_locked e' = get_amount_locked e"
    using register_onchain_refiled [OF e e'] by (simp add: refiled_def get_amount_locked_mset)
  have pending: "(case dict_get (secrethashes_to_unlockedlocks e) h of
      Some p \<Rightarrow> Some (pp_lock p) | None \<Rightarrow> dict_get (secrethashes_to_lockedlocks e) h) = Some lock"
  proof (cases "dict_get (secrethashes_to_unlockedlocks e) h")
    case None
    then show ?thesis
      using assms(4,5) by (auto simp: get_lock_def is_secret_known_onchain_def dict_has_def
          split: option.splits)
  next
    case (Some p)
    then have "h \<notin> dict_keys (secrethashes_to_lockedlocks e)"
      using e dict_get_key [OF Some] unfolding maps_ok_def by blast
    then show ?thesis
      using Some assms(4) by (simp add: get_lock_def map_of_eq_None_iff [THEN iffD2])
  qed
  show ?thesis
  proof (cases "lock_expiration lock < n")
    case True
    then show ?thesis
      using pending assms(4) by (simp add: register_onchain_secret_endstate_def)
  next
    case False
    from del_lock_props [OF e assms(4)] obtain d where d: "del_lock h e = Inr d"
      "\<not> is_lock_pending d h" by metis
    have k: "dict_get (secrethashes_to_lockedlocks d) h = None"
      "dict_get (secrethashes_to_unlockedlocks d) h = None"
      using d(2) by (simp_all add: is_lock_pending_def dict_has_def)
    have "e' = d\<lparr>secrethashes_to_onchain_unlockedlocks := dict_set h
        (mk_UnlockPartialProofState lock secret) (secrethashes_to_onchain_unlockedlocks d)\<rparr>"
      using e' d(1) pending False by (simp add: register_onchain_secret_endstate_def)
    then show ?thesis
      using e' same k False
      by (simp add: get_lock_def get_secret_def is_secret_known_onchain_def dict_has_def
          update_conv' mk_UnlockPartialProofState_def)
  qed
qed

theorem onchain_secret_registered_witness:
  "\<exists>e'. register_onchain_secret_endstate sample_secret sample_secrethash 90 True
      (partner_state sample_received) = Inr e' \<and>
    is_secret_known_onchain e' sample_secrethash \<and>
    get_secret e' sample_secrethash = Some sample_secret"
proof -
  have "\<not> is_secret_known_onchain (partner_state sample_received) sample_secrethash"
    using sample_pending(3) by (simp add: is_secret_known_onchain_def dict_has_def)
  then show ?thesis
    using onchain_secret_registered [OF sample_keccak_ok sample_received_reachable, of
        "partner_state sample_received" sample_secrethash "sample_lock 10" sample_secret 90]
      sample_pending(4)
    by auto
qed

end
