(* ===== verification/ChannelFindings.thy ===== *)
theory ChannelFindings
  imports Samples
begin

text \<open>
  Where \<open>transfer/channel.py\<close> does something else than it means to, as theorems about the code as
  it is: the unlock message of a light client, the invoice of a refused transfer, and a second
  pending lock with the same secrethash.
\<close>

section \<open>Light clients\<close>

text \<open>\<open>create_unlock\<close> never returns an unlock for a light client: where it would return one for a
  regular node it raises a TypeError, because the event's constructor is called without two of its
  required arguments.\<close>

theorem light_unlock_never_created:
  "create_unlock L c m p secret lock True =
     (case create_unlock L c m p secret lock False of
        Inl e \<Rightarrow> Inl e
      | Inr _ \<Rightarrow> Inl TypeError)"
  by (auto simp: create_unlock_def Let_def res_bind_def py_assert_def
      split: option.splits sum.splits)

section \<open>Invoices of refused transfers\<close>

text \<open>A computation that leaves the storage \<open>s\<close> wherever it returns.\<close>

definition leaves_storage :: "storage \<Rightarrow> ('a \<times> storage) result \<Rightarrow> bool" where
  "leaves_storage s m \<longleftrightarrow> (\<forall>r s'. m = Inr (r, s') \<longrightarrow> s' = s)"

lemma leaves_storage_intros:
  "leaves_storage s (Inr (r, s))"
  "(\<And>x. leaves_storage s (k x)) \<Longrightarrow> leaves_storage s (res_bind m k)"
  "leaves_storage s a \<Longrightarrow> leaves_storage s b \<Longrightarrow> leaves_storage s (if c then a else b)"
  "leaves_storage s n \<Longrightarrow> (\<And>x. leaves_storage s (f x)) \<Longrightarrow>
     leaves_storage s (case opt of None \<Rightarrow> n | Some x \<Rightarrow> f x)"
  "(\<And>x y. leaves_storage s (g x y)) \<Longrightarrow> leaves_storage s (case p of (x, y) \<Rightarrow> g x y)"
  by (auto simp: leaves_storage_def res_bind_Inr split: option.splits prod.splits)

lemma check_leaves_storage:
  assumes "handle_received_invoice now st ph = Inr (i, st1)"
  shows "leaves_storage st1 (valid_lockedtransfer_check L now c sender receiver name bp lock ph st)"
  unfolding valid_lockedtransfer_check_def assms res_bind_simps prod.case Let_def
  by (intro leaves_storage_intros)

text \<open>A transfer that is refused has already marked the invoice it names as paid: the pending
  invoice is updated before the transfer is checked, and the refusal does not undo it.\<close>

theorem refused_transfer_pays_invoice:
  assumes "lt_payment_hash_invoice t \<noteq> []"
    and "query_invoice rows (lt_payment_hash_invoice t) = Some invoice"
    and "inv_status invoice = PENDING"
    and "handle_receive_lockedtransfer L now c t (Some rows) = Inr (out, c', st')"
    and "out_msg out = Some m"
  shows "c' = c \<and> st' = Some (update_invoice rows (lt_payment_hash_invoice t) PAID) \<and>
    (\<exists>paid. query_invoice (update_invoice rows (lt_payment_hash_invoice t) PAID)
        (lt_payment_hash_invoice t) = Some paid \<and> inv_status paid = PAID)"
proof -
  have i: "handle_received_invoice now (Some rows) (lt_payment_hash_invoice t) =
      Inr (None, Some (update_invoice rows (lt_payment_hash_invoice t) PAID))"
    using assms(1-3) by (simp add: handle_received_invoice_def EMPTY_PAYMENT_HASH_INVOICE_def)
  from assms(4) obtain r st2 where r: "is_valid_lockedtransfer L now t c (partner_state c)
      (our_state c) (Some rows) = Inr (r, st2)"
    by (auto simp: handle_receive_lockedtransfer_def receive_lockedtransfer_with_def res_bind_Inr)
  have keep: "st2 = Some (update_invoice rows (lt_payment_hash_invoice t) PAID)"
    using r check_leaves_storage [OF i] by (simp add: is_valid_lockedtransfer_def leaves_storage_def)
  show ?thesis
    using assms(2,4,5) r keep
    by (cases r) (auto simp: handle_receive_lockedtransfer_def receive_lockedtransfer_with_def
        query_update_same)
qed

text \<open>The message that was accepted before, sent again with an invoice.\<close>

definition sample_invoiced :: LockedTransferSignedState where
  "sample_invoiced = sample_message\<lparr>lt_payment_hash_invoice := [1]\<rparr>"

definition sample_invoice :: invoice_row where
  "sample_invoice = \<lparr>inv_payment_hash = [1], inv_status = PENDING, inv_expiration_date = 1000\<rparr>"

lemma sample_invoiced_refused:
  "\<exists>out. handle_receive_lockedtransfer sample_libs 10 sample_received sample_invoiced
     (Some [sample_invoice]) =
       Inr (out, sample_received, Some (update_invoice [sample_invoice] [1] PAID)) \<and>
     out_msg out = Some (InvalidMessage MsgLockedTransfer (NonceNotSequential 2 1))"
proof -
  have m: "lt_payment_hash_invoice sample_invoiced = [1]" "lt_lock sample_invoiced = sample_lock 10"
    "lt_balance_proof sample_invoiced = sample_signed 10" "lt_payment_identifier sample_invoiced = 2"
    by (simp_all add: sample_invoiced_def sample_message_def)
  have bal: "is_balance_proof_usable_onchain sample_libs (sample_signed 10) sample_received
      (partner_state sample_received) = Inr (Some (NonceNotSequential 2 1))"
    using sample_signature [of 10]
    by (simp add: is_balance_proof_usable_onchain_def mk_NettingChannelEndState_def
        get_next_nonce_def is_balance_proof_safe_for_onchain_operations_def UINT256_MAX_def)
  have tree: "compute_merkletree_with sample_libs (sample_tree 10) (lock_lockhash (sample_lock 10)) =
      Inr None"
    by (simp add: compute_merkletree_with_def sample_tree_def merkle_leaves_def)
  have i: "handle_received_invoice 10 (Some [sample_invoice]) [1] =
      Inr (None, Some (update_invoice [sample_invoice] [1] PAID))"
    by (simp add: handle_received_invoice_def EMPTY_PAYMENT_HASH_INVOICE_def query_invoice_def
        sample_invoice_def)
  obtain r where "get_current_balanceproof (partner_state sample_received) = r" by simp
  then show ?thesis
    using bal
    by (cases r) (simp add: handle_receive_lockedtransfer_def receive_lockedtransfer_with_def
        is_valid_lockedtransfer_def valid_lockedtransfer_check_def m tree i)
qed

theorem refused_transfer_pays_invoice_witness:
  "\<exists>paid. query_invoice (update_invoice [sample_invoice] [1] PAID) [1] = Some paid \<and>
     inv_status paid = PAID"
proof -
  obtain out where o: "handle_receive_lockedtransfer sample_libs 10 sample_received sample_invoiced
      (Some [sample_invoice]) =
        Inr (out, sample_received, Some (update_invoice [sample_invoice] [1] PAID))"
    "out_msg out = Some (InvalidMessage MsgLockedTransfer (NonceNotSequential 2 1))"
    using sample_invoiced_refused by blast
  have "lt_payment_hash_invoice sample_invoiced = [1]" by (simp add: sample_invoiced_def)
  then show ?thesis
    using refused_transfer_pays_invoice [OF _ _ _ o, of sample_invoice]
    by (simp add: query_invoice_def sample_invoice_def)
qed

section \<open>Two locks with one secrethash\<close>

lemma distinct_mset_head: "distinct xs \<Longrightarrow> mset xs = add_mset a M \<Longrightarrow> a \<notin># M"
proof -
  assume d: "distinct xs" and m: "mset xs = add_mset a M"
  have "count (mset xs) a \<le> 1" using d by (simp add: distinct_count_atmost_1)
  then show ?thesis unfolding m by (simp add: not_in_iff)
qed

text \<open>A lock that is recorded under the secrethash of a pending one takes its place.\<close>

lemma replaced_lock:
  assumes "maps_ok e" "dict_get (secrethashes_to_lockedlocks e) (lock_secrethash l) = Some old"
  obtains N where "locks_mset e = add_mset old N" "locks_mset (record_lock bp tree l e) = add_mset l N"
proof -
  have "old \<in># locks_mset e" using assms(2) dict_get_value by (fastforce simp: locks_mset_iff)
  then obtain N where N: "locks_mset e = add_mset old N" by (metis multi_member_split)
  have "add_mset old (mset (dict_values (dict_set (lock_secrethash l) l (secrethashes_to_lockedlocks e)))) =
      add_mset l (mset (dict_values (secrethashes_to_lockedlocks e)))"
    using assms by (intro mset_values_replace) (simp_all add: maps_ok_def keyed_def)
  then have "add_mset old (locks_mset (record_lock bp tree l e)) = add_mset l (locks_mset e)"
    by (simp add: locks_mset_def record_lock_def flip: union_mset_add_mset_left)
  with that N show thesis by (simp add: add_mset_commute)
qed

text \<open>A leaf without a lock makes the unlock proof raise.\<close>

lemma leaf_without_lock:
  assumes "h \<in> set (leaf_list (es_merkletree e))" "merkle_leaves (es_merkletree e) = Inr (leaf_list (es_merkletree e))"
    and "\<And>l. l \<in># locks_mset e \<Longrightarrow> lock_lockhash l \<noteq> h"
  shows "get_batch_unlock e = Inl KeyError"
proof -
  have none: "dict_get (index_by_lockhash (map pp_lock (dict_values (secrethashes_to_onchain_unlockedlocks e)))
      (index_by_lockhash (map pp_lock (dict_values (secrethashes_to_unlockedlocks e)))
        (index_by_lockhash (dict_values (secrethashes_to_lockedlocks e)) []))) h = None" (is "dict_get ?d _ = None")
  proof (rule ccontr)
    assume "dict_get ?d h \<noteq> None"
    then obtain x where "dict_get ?d h = Some x" by blast
    then have "x \<in># locks_mset e" "lock_lockhash x = h"
      unfolding locks_mset_iff by (auto dest!: index_by_lockhash_from)
    with assms(3) show False by blast
  qed
  have "leaf_list (es_merkletree e) \<noteq> []" using assms(1) by auto
  with lookup_all_KeyError [OF assms(1) none] show ?thesis
    using assms(2) by (simp add: get_batch_unlock_def Let_def)
qed


text \<open>A second transfer of \<open>bob\<close> with the same secrethash and another amount.\<close>

definition sample_tree2 :: MerkleTreeState where
  "sample_tree2 =
     (case compute_merkletree_with sample_libs (sample_tree 10) (lock_lockhash (sample_lock 5)) of
        Inr (Some t) \<Rightarrow> t | _ \<Rightarrow> make_empty_merkle_tree)"

definition sample_root2 :: bytes where
  "sample_root2 = (case merkleroot sample_tree2 of Inr r \<Rightarrow> r | Inl _ \<Rightarrow> [])"

definition sample_duplicate :: LockedTransferSignedState where
  "sample_duplicate =
     \<lparr>lt_payment_identifier = 3, lt_payment_hash_invoice = [], lt_token = replicate 20 8,
      lt_balance_proof = (sample_next_proof 0)\<lparr>bp_locked_amount := 15, bp_locksroot := sample_root2\<rparr>,
      lt_lock = sample_lock 5, lt_initiator = bob, lt_target = alice, lt_message_identifier = 7\<rparr>"

lemma sample_lock_ok5: "lock_ok sample_libs (sample_lock 5)"
  using lock_okI [OF sample_lock_made [of 5]] by (simp add: UINT256_MAX_def)

lemma sum_be_bytes: "0 \<le> v \<Longrightarrow> v < 256 \<Longrightarrow> sum_list (be_bytes (Suc n) v) = word_of_int v"
proof (induction n arbitrary: v)
  case (Suc n)
  have "sum_list (be_bytes (Suc n) 0) = 0" using Suc.IH [of 0] by simp
  then show ?case using Suc.prems by simp
qed simp

lemma sample_lockhashes_differ: "lock_lockhash (sample_lock 5) \<noteq> lock_lockhash (sample_lock 10)"
proof
  have s: "lock_lockhash (sample_lock a) ! 1 =
      sum_list (be_bytes 32 100) + (word_of_int a + sum_list sample_secrethash)"
    if "0 \<le> a" "a < 256" for a
    using sum_be_bytes [of a 31] that by (simp add: sample_lock_def sample_libs_def)
  assume "lock_lockhash (sample_lock 5) = lock_lockhash (sample_lock 10)"
  then show False using s [of 5] s [of 10] by simp
qed

lemma sample_tree_ok: "merkle_ok sample_libs (sample_tree 10)"
  using with_fresh [OF merkle_ok_empty, of "lock_lockhash (sample_lock 10)" sample_libs]
    first_leaf [of "lock_lockhash (sample_lock 10)" sample_libs]
  by (simp add: leaf_ok_def sample_tree_def)

lemma sample_tree2:
  "compute_merkletree_with sample_libs (sample_tree 10) (lock_lockhash (sample_lock 5)) =
     Inr (Some sample_tree2)"
  "merkle_ok sample_libs sample_tree2" "length (leaf_list sample_tree2) = 2"
  "merkleroot sample_tree2 = Inr sample_root2"
proof -
  have leaf: "leaf_ok (lock_lockhash (sample_lock 5))" by (simp add: leaf_ok_def)
  have "lock_lockhash (sample_lock 5) \<notin> set (leaf_list (sample_tree 10))"
    using sample_lockhashes_differ by (simp add: sample_tree_def leaf_list_def)
  from with_fresh [OF sample_tree_ok leaf this]
  show with5: "compute_merkletree_with sample_libs (sample_tree 10) (lock_lockhash (sample_lock 5)) =
     Inr (Some sample_tree2)"
    by (auto simp: sample_tree2_def)
  show ok: "merkle_ok sample_libs sample_tree2"
    using mt.addD [OF sample_tree_ok leaf with5] by simp
  show "length (leaf_list sample_tree2) = 2"
    using mt.add_width [OF sample_tree_ok leaf with5] by (simp add: sample_tree_def leaf_list_def)
  show "merkleroot sample_tree2 = Inr sample_root2"
    using merkleroot_ok [OF ok] by (auto simp: sample_root2_def)
qed

lemma sample_duplicate_check:
  "valid_lockedtransfer_check sample_libs now sample_received (partner_state sample_received)
     (our_state sample_received) name (lt_balance_proof sample_duplicate) (sample_lock 5) [] None =
     Inr (Inr (sample_tree2, None), None)"
proof -
  have bp: "bp_nonce (lt_balance_proof sample_duplicate) = 2"
    "bp_transferred_amount (lt_balance_proof sample_duplicate) = 0"
    "bp_locked_amount (lt_balance_proof sample_duplicate) = 15"
    "bp_locksroot (lt_balance_proof sample_duplicate) = sample_root2"
    "bp_canonical_identifier (lt_balance_proof sample_duplicate) = sample_ci"
    "bp_signature (lt_balance_proof sample_duplicate) = bob @ replicate 45 0"
    by (simp_all add: sample_duplicate_def sample_next_proof_def)
  have r: "recover sample_libs d (bob @ replicate 45 0) = Inr bob" for d
    by (simp add: recover_def py_last_def sample_libs_def bob_def)
  obtain h where h: "hash_balance_data sample_libs 0 15 sample_root2 = Inr h"
    using hash_balance_data_total merkleroot_length [OF sample_keccak_ok sample_tree2(2,4)] by blast
  have "is_valid_signature sample_libs (lt_balance_proof sample_duplicate) bob = Inr None"
    using h pack_balance_proof_total r by (simp add: is_valid_signature_iff bp)
  moreover have "handle_received_invoice now None [] = Inr (None, None)"
    using empty_invoice_hash [of now None] by (simp add: EMPTY_PAYMENT_HASH_INVOICE_def)
  moreover have "sample_secrethash \<noteq> EMPTY_HASH_KECCAK sample_libs"
    using sample_check [of 0 MsgLockedTransfer, unfolded lockedtransfer_iff] by simp
  moreover have "get_distributable (partner_state sample_received) (our_state sample_received) = 40"
    using sample_pending(5)
    by (simp add: get_distributable_def get_current_balanceproof_def get_balance_def
        current_transferred_amount_def mk_NettingChannelEndState_def UINT256_MAX_def)
  ultimately show ?thesis
    unfolding lockedtransfer_iff usable_iff bp
    using sample_tree2 sample_pending(6) merkletree_width_leaves [OF sample_tree2(2)]
    by (simp add: MAXIMUM_PENDING_TRANSFERS_def UINT256_MAX_def get_next_nonce_def
        mk_NettingChannelEndState_def current_transferred_amount_def)
qed


end
