(* ===== verification/PaymentTasks.thy ===== *)
theory PaymentTasks
  imports ChannelMachine
begin

text \<open>
  What the tasks of a payment share: the map of the node's channels, the loops over the parts of a
  task, \<open>is_valid_secret_reveal\<close> (\<open>transfer/utils.py\<close>) and the safety test \<open>is_safe_to_wait\<close>
  (\<open>mediated_transfer/mediator.py\<close>).  Python changes channels and parts of a task in place; here
  the channel map and the parts are passed on and returned.  A task returns
  its new state (None where it is finished) and the events, as \<open>TransitionResult\<close> does.
\<close>

type_synonym channelmap = "(int, NettingChannelState) dict"

text \<open>A loop that may change the current element and a state, and may raise.\<close>

fun for_each :: "('a \<Rightarrow> 's \<Rightarrow> ('a \<times> 's) result) \<Rightarrow> 'a list \<Rightarrow> 's \<Rightarrow> ('a list \<times> 's) result" where
  "for_each f [] s = Inr ([], s)"
| "for_each f (x # xs) s =
     res_bind (f x s) (\<lambda>(x', s').
     res_bind (for_each f xs s') (\<lambda>(xs', s''). Inr (x' # xs', s'')))"

text \<open>The same loop over \<open>reversed(xs)\<close>; the elements keep their places.\<close>

definition for_each_reversed ::
    "('a \<Rightarrow> 's \<Rightarrow> ('a \<times> 's) result) \<Rightarrow> 'a list \<Rightarrow> 's \<Rightarrow> ('a list \<times> 's) result" where
  "for_each_reversed f xs s =
     res_bind (for_each f (rev xs) s) (\<lambda>(ys, s'). Inr (rev ys, s'))"

text \<open>A change of the channel with an identifier, where the map has one.\<close>

definition change_channel ::
    "int \<Rightarrow> (NettingChannelState \<Rightarrow> NettingChannelState result) \<Rightarrow> channelmap \<Rightarrow> channelmap result"
  where
  "change_channel k f m =
     (case dict_get m k of
        None \<Rightarrow> Inr m
      | Some c \<Rightarrow> res_bind (f c) (\<lambda>c'. Inr (dict_set k c' m)))"

definition is_valid_secret_reveal :: "bytes \<Rightarrow> bytes \<Rightarrow> bytes \<Rightarrow> bool" where
  "is_valid_secret_reveal secrethash transfer_secrethash secret \<longleftrightarrow>
     secret \<noteq> EMPTY_HASH \<and> secrethash = transfer_secrethash"

definition is_safe_to_wait :: "int \<Rightarrow> int \<Rightarrow> int \<Rightarrow> bool result" where
  "is_safe_to_wait expiration timeout block_number =
     py_assert (block_number > 0) ''block_number > 0''
     (py_assert (timeout > 0) ''reveal_timeout > 0''
     (py_assert (expiration > timeout) ''lock_expiration > reveal_timeout''
       (Inr (expiration - block_number > timeout))))"

section \<open>Lemmas on the loops\<close>

lemma for_each_invariant:
  assumes "for_each f xs s = Inr (ys, s')" and "I s"
    and "\<And>x s x' s'. x \<in> set xs \<Longrightarrow> I s \<Longrightarrow> f x s = Inr (x', s') \<Longrightarrow> I s' \<and> R x x'"
  shows "I s' \<and> list_all2 R xs ys"
  using assms
proof (induction xs arbitrary: s ys)
  case (Cons x xs)
  from Cons.prems(1) obtain x' s1 zs where *: "f x s = Inr (x', s1)"
    "for_each f xs s1 = Inr (zs, s')" "ys = x' # zs"
    by (auto simp: res_bind_Inr)
  have "I s1 \<and> R x x'"
    by (rule Cons.prems(3) [OF _ Cons.prems(2) *(1)]) simp
  moreover from this have "I s' \<and> list_all2 R xs zs"
    by (intro Cons.IH [OF *(2)] Cons.prems(3)) simp_all
  ultimately show ?case using *(3) by simp
qed simp

lemma for_each_reversed_invariant:
  assumes "for_each_reversed f xs s = Inr (ys, s')" and "I s"
    and "\<And>x s x' s'. x \<in> set xs \<Longrightarrow> I s \<Longrightarrow> f x s = Inr (x', s') \<Longrightarrow> I s' \<and> R x x'"
  shows "I s' \<and> list_all2 R xs ys"
proof -
  from assms(1) obtain zs where "for_each f (rev xs) s = Inr (zs, s')" "ys = rev zs"
    by (auto simp: for_each_reversed_def res_bind_Inr)
  with for_each_invariant [of f "rev xs" s zs s' I R] assms(2,3) show ?thesis
    by (simp add: list_all2_rev1)
qed

lemma is_safe_to_wait_Inr [res_simps]:
  "is_safe_to_wait x r b = Inr safe \<longleftrightarrow> b > 0 \<and> r > 0 \<and> x > r \<and> safe = (x - b > r)"
  by (auto simp: is_safe_to_wait_def res_simps)

end
