(* ===== verification/ChannelTasks.thy ===== *)
theory ChannelTasks
  imports ChannelSafety PaymentTasks
begin

text \<open>
  What a payment task relies on when it works on the node's channels.  A channel keeps its
  identity, an operation on one lock leaves the others, and an unlocked lock stays a copy of the
  lock it was made from; the locale \<open>channel_law\<close> is the contract between the channels and the
  tasks: a law about a channel that every channel step keeps is kept by every operation that a task
  applies to its channels.  It is interpreted on the reachable channels and on the channels that
  steps lead to.
\<close>

section \<open>Unlocked locks are copies\<close>

definition all_copies :: "(bytes, UnlockPartialProofState) dict \<Rightarrow> bool" where
  "all_copies d \<longleftrightarrow> (\<forall>p \<in> set (dict_values d). HashTimeLockState.truncate p = pp_lock p)"

definition copies_ok :: "NettingChannelEndState \<Rightarrow> bool" where
  "copies_ok e \<longleftrightarrow>
     all_copies (secrethashes_to_unlockedlocks e) \<and>
     all_copies (secrethashes_to_onchain_unlockedlocks e)"

lemma truncate_copy [simp]:
  "HashTimeLockState.truncate (mk_UnlockPartialProofState l s) = l"
  by (simp add: mk_UnlockPartialProofState_def HashTimeLockState.truncate_def)

lemma pp_lock_copy [simp]: "pp_lock (mk_UnlockPartialProofState l s) = l"
  by (simp add: mk_UnlockPartialProofState_def)

lemma all_copies_Nil [simp]: "all_copies []"
  by (simp add: all_copies_def)

lemma all_copies_del [simp]: "all_copies d \<Longrightarrow> all_copies (dict_del k d)"
  using dict_del_subset [of k d] by (auto simp: all_copies_def)

lemma all_copies_set [simp]: "all_copies d \<Longrightarrow> all_copies (dict_set k (mk_UnlockPartialProofState l s) d)"
  by (induction d) (auto simp: all_copies_def)

lemma all_copies_get: "all_copies d \<Longrightarrow> dict_get d k = Some p \<Longrightarrow> HashTimeLockState.truncate p = pp_lock p"
  using map_of_SomeD [of d k p] by (force simp: all_copies_def)

lemma copies_ok_ops [simp]:
  "copies_ok e \<Longrightarrow> copies_ok (record_lock bp tree l e)"
  "copies_ok e \<Longrightarrow> copies_ok (set_proof bp tree e)"
  "copies_ok e \<Longrightarrow> copies_ok (del_unclaimed_lock h e)"
  "copies_ok e \<Longrightarrow> copies_ok (register_secret_endstate secret h e)"
  by (simp_all add: copies_ok_def record_lock_def set_proof_def del_unclaimed_lock_def
      register_secret_endstate_def split: option.splits)

lemma copies_ok_del_lock: "copies_ok e \<Longrightarrow> del_lock h e = Inr e' \<Longrightarrow> copies_ok e'"
  by (auto simp: del_lock_def Let_def res_simps copies_ok_def del_unclaimed_lock_def)

lemma register_onchain_cases:
  assumes "register_onchain_secret_endstate secret h n True e = Inr e'"
  obtains "e' = e"
  | d l where "del_lock h e = Inr d" "e' = d\<lparr>secrethashes_to_onchain_unlockedlocks :=
      dict_set h (mk_UnlockPartialProofState l secret) (secrethashes_to_onchain_unlockedlocks d)\<rparr>"
proof -
  define found where "found = (case dict_get (secrethashes_to_unlockedlocks e) h of
    Some proof \<Rightarrow> Some (pp_lock proof) | None \<Rightarrow> dict_get (secrethashes_to_lockedlocks e) h)"
  note run = assms [unfolded register_onchain_secret_endstate_def Let_def, folded found_def]
  show thesis
  proof (cases found)
    case None
    with run that(1) show ?thesis by simp
  next
    case (Some l)
    with run that show ?thesis by (auto simp: res_simps split: if_splits)
  qed
qed

lemma copies_ok_register_onchain:
  assumes "copies_ok e" "register_onchain_secret_endstate secret h n True e = Inr e'"
  shows "copies_ok e'"
  using assms(2)
proof (cases rule: register_onchain_cases)
  case (2 d l)
  then show ?thesis using copies_ok_del_lock [OF assms(1) 2(1)] by (simp add: copies_ok_def)
qed (use assms(1) in simp)

lemma copies_ok_topped_up: "copies_ok e \<Longrightarrow> topped_up e e' \<Longrightarrow> copies_ok e'"
  by (simp add: copies_ok_def topped_up_def)

section \<open>What a step keeps of a channel\<close>

text \<open>The identity of a channel: what its constructor got and no operation changes.\<close>

definition channel_static ::
    "NettingChannelState \<Rightarrow> CanonicalIdentifier \<times> bytes \<times> bytes \<times> int \<times> int \<times> bytes \<times> bytes" where
  "channel_static c =
     (ch_canonical_identifier c, ch_token_address c, payment_network_identifier c, reveal_timeout c,
      settle_timeout c, es_address (our_state c), es_address (partner_state c))"

definition keeps_copies :: "NettingChannelState \<Rightarrow> NettingChannelState \<Rightarrow> bool" where
  "keeps_copies c c' \<longleftrightarrow>
     channel_static c' = channel_static c \<and>
     (copies_ok (our_state c) \<longrightarrow> copies_ok (our_state c')) \<and>
     (copies_ok (partner_state c) \<longrightarrow> copies_ok (partner_state c'))"

lemma end_ops_address [simp]:
  "es_address (record_lock bp tree l e) = es_address e"
  "es_address (set_proof bp tree e) = es_address e"
  "es_address (del_unclaimed_lock h e) = es_address e"
  "es_address (register_secret_endstate secret h e) = es_address e"
  by (simp_all add: record_lock_def set_proof_def del_unclaimed_lock_def register_secret_endstate_def
      split: option.splits)

lemma del_lock_address: "del_lock h e = Inr e' \<Longrightarrow> es_address e' = es_address e"
  by (auto simp: del_lock_def Let_def res_simps)

lemma register_onchain_address:
  "register_onchain_secret_endstate secret h n True e = Inr e' \<Longrightarrow> es_address e' = es_address e"
  by (elim register_onchain_cases) (simp_all add: del_lock_address)

text \<open>A change on one end.\<close>

lemma keeps_our:
  "es_address e = es_address (our_state c) \<Longrightarrow> (copies_ok (our_state c) \<Longrightarrow> copies_ok e)
   \<Longrightarrow> keeps_copies c (c\<lparr>our_state := e\<rparr>)"
  by (simp add: keeps_copies_def channel_static_def)

lemma keeps_partner:
  "es_address e = es_address (partner_state c) \<Longrightarrow> (copies_ok (partner_state c) \<Longrightarrow> copies_ok e)
   \<Longrightarrow> keeps_copies c (c\<lparr>partner_state := e\<rparr>)"
  by (simp add: keeps_copies_def channel_static_def)

lemma keeps_refl [simp]: "keeps_copies c c"
  by (simp add: keeps_copies_def)

lemma keeps_trans: "keeps_copies a b \<Longrightarrow> keeps_copies b c \<Longrightarrow> keeps_copies a c"
  by (simp add: keeps_copies_def)

lemma send_lockedtransfer_keeps:
  "send_lockedtransfer L c i t amount m p ph x h = Inr (ev, c') \<Longrightarrow> keeps_copies c c'"
  by (auto simp: send_lockedtransfer_def res_simps Let_def intro: keeps_our)

lemma send_refundtransfer_keeps:
  "send_refundtransfer L c i t amount m p x h = Inr (ev, c') \<Longrightarrow> keeps_copies c c'"
  by (auto simp: send_refundtransfer_def res_simps Let_def intro: keeps_our)

lemma send_unlock_keeps: "send_unlock L c m p secret h lc = Inr (unlock, c') \<Longrightarrow> keeps_copies c c'"
  by (auto simp: send_unlock_def res_simps split: option.splits intro!: keeps_our
      dest: del_lock_address copies_ok_del_lock [rotated])

lemma events_for_expired_lock_keeps:
  "events_for_expired_lock L c lock g = Inr (evs, c', g') \<Longrightarrow> keeps_copies c c'"
  by (auto simp: events_for_expired_lock_def res_simps split: option.splits intro!: keeps_our)

lemma register_offchain_keeps: "keeps_copies c (register_offchain_secret c secret h)"
  by (simp add: register_offchain_secret_def keeps_copies_def channel_static_def)

lemma register_onchain_keeps:
  "register_onchain_secret c secret h n True = Inr c' \<Longrightarrow> keeps_copies c c'"
  by (auto simp: register_onchain_secret_def res_simps keeps_copies_def channel_static_def
      dest: register_onchain_address copies_ok_register_onchain [rotated])

text \<open>Every handler of a message either refuses it and leaves the channel or accepts it.\<close>

lemma receive_lockedtransfer_cases:
  assumes "receive_lockedtransfer_with evs L now c t st = Inr (out, c', st')"
  obtains (refused) msg where "out_msg out = Some msg" "c' = c"
    "out_events out = [EventInvalidReceivedLockedTransfer (lt_payment_identifier t) msg]"
  | (accepted) tree invoice where "out_msg out = None" "out_events out = evs"
    "is_valid_lockedtransfer L now t c (partner_state c) (our_state c) st
       = Inr (Inr (tree, invoice), st')" "out_invoice out = Some invoice"
    "c' = upd_partner (record_lock (Signed (lt_balance_proof t)) tree (lt_lock t)) c"
proof -
  from assms obtain r st2 where
    r: "is_valid_lockedtransfer L now t c (partner_state c) (our_state c) st = Inr (r, st2)"
    by (auto simp: receive_lockedtransfer_with_def res_bind_Inr)
  show thesis
  proof (cases r)
    case (Inl msg)
    with assms r refused [of msg] show ?thesis by (auto simp: receive_lockedtransfer_with_def)
  next
    case (Inr x)
    then obtain tree y where "r = Inr (tree, y)" by (cases x) simp
    with assms r accepted [of tree y] show ?thesis by (auto simp: receive_lockedtransfer_with_def)
  qed
qed

lemma handle_refundtransfer_cases:
  assumes "handle_refundtransfer L now original c refund = Inr ((evs, msg), c')"
  obtains (refused) m where "msg = Some m" "c' = c"
    "evs = [EventInvalidReceivedTransferRefund (lt_payment_identifier original) m]"
  | (accepted) tree where "msg = None"
    "is_valid_refund L now refund c (partner_state c) (our_state c) original = Inr (Inr tree)"
    "c' = upd_partner (record_lock (Signed (lt_balance_proof (rtr_transfer refund))) tree
            (lt_lock (rtr_transfer refund))) c"
    "evs = [send_processed (bp_sender (lt_balance_proof (rtr_transfer refund)))
              (lt_message_identifier (rtr_transfer refund))]"
proof -
  from assms obtain r where
    r: "is_valid_refund L now refund c (partner_state c) (our_state c) original = Inr r"
    by (auto simp: handle_refundtransfer_def res_bind_Inr)
  show thesis
  proof (cases r)
    case (Inl m)
    with assms r refused [of m] show ?thesis by (auto simp: handle_refundtransfer_def)
  next
    case (Inr tree)
    with assms r accepted [of tree] show ?thesis by (auto simp: handle_refundtransfer_def)
  qed
qed

lemma receive_lock_expired_cases:
  assumes "handle_receive_lock_expired L c sc n = Inr (evs, c')"
  obtains (refused) m where "c' = c" "evs = [EventInvalidReceivedLockExpired (rle_secrethash sc) m]"
  | (accepted) tree where
    "is_valid_lock_expired L sc c (partner_state c) (our_state c) n = Inr (Inr tree)"
    "c' = upd_partner (\<lambda>partner. del_unclaimed_lock (rle_secrethash sc)
            (set_proof (Signed (rle_balance_proof sc)) tree partner)) c"
    "evs = [send_processed (bp_sender (rle_balance_proof sc)) (rle_message_identifier sc)]"
proof -
  from assms obtain r where
    r: "is_valid_lock_expired L sc c (partner_state c) (our_state c) n = Inr r"
    by (auto simp: handle_receive_lock_expired_def res_bind_Inr)
  show thesis
  proof (cases r)
    case (Inl m)
    with assms r refused [of m] show ?thesis by (auto simp: handle_receive_lock_expired_def)
  next
    case (Inr tree)
    with assms r accepted [of tree] show ?thesis by (auto simp: handle_receive_lock_expired_def)
  qed
qed

lemma receive_unlock_cases:
  assumes "receive_unlock_with accepted_evs L c ru = Inr ((evs, msg), c')"
  obtains (refused) m where "msg = Some m" "c' = c"
    "evs = [EventInvalidReceivedUnlock (ru_secrethash ru) m]"
  | (accepted) tree e where "msg = None" "evs = accepted_evs"
    "is_valid_unlock L ru c (partner_state c) = Inr (Inr tree)"
    "del_lock (ru_secrethash ru) (set_proof (Signed (ru_balance_proof ru)) tree (partner_state c)) = Inr e"
    "c' = c\<lparr>partner_state := e\<rparr>"
proof -
  from assms obtain r where r: "is_valid_unlock L ru c (partner_state c) = Inr r"
    by (auto simp: receive_unlock_with_def res_bind_Inr)
  show thesis
  proof (cases r)
    case (Inl m)
    with assms r refused [of m] show ?thesis by (auto simp: receive_unlock_with_def)
  next
    case (Inr tree)
    with assms r accepted [of tree] show ?thesis by (auto simp: receive_unlock_with_def res_bind_Inr)
  qed
qed

lemma receive_lockedtransfer_keeps:
  "receive_lockedtransfer_with evs L now c tr st = Inr (out, c', st') \<Longrightarrow> keeps_copies c c'"
  by (elim receive_lockedtransfer_cases) (auto intro: keeps_partner)

lemma handle_refundtransfer_keeps:
  "handle_refundtransfer L now original c refund = Inr (out, c') \<Longrightarrow> keeps_copies c c'"
  by (cases out) (auto elim!: handle_refundtransfer_cases intro: keeps_partner)

lemma receive_lock_expired_keeps:
  "handle_receive_lock_expired L c sc n = Inr (evs, c') \<Longrightarrow> keeps_copies c c'"
  by (elim receive_lock_expired_cases) (auto intro: keeps_partner)

lemma receive_unlock_keeps: "receive_unlock_with evs L c ru = Inr (out, c') \<Longrightarrow> keeps_copies c c'"
  by (cases out) (auto elim!: receive_unlock_cases intro!: keeps_partner
      dest: del_lock_address copies_ok_del_lock [rotated])

lemma apply_channel_newbalance_static:
  "channel_static (apply_channel_newbalance c d) = channel_static c"
  by (simp add: channel_static_def apply_channel_newbalance_def update_contract_balance_def)

lemma apply_confirmed_static:
  "apply_confirmed_deposits c n = Inr c' \<Longrightarrow> channel_static c' = channel_static c"
proof (induction c n rule: apply_confirmed_deposits.induct)
  case (1 c n)
  show ?case
  proof (cases "is_deposit_confirmed c n")
    case False
    then show ?thesis using "1.prems" by (simp add: apply_confirmed_deposits.simps [of c n])
  next
    case True
    with "1.prems" obtain x q where
      pop: "heappop (deposit_transaction_queue c) = Inr (x, q)" and
      rest: "apply_confirmed_deposits (apply_channel_newbalance
        (c\<lparr>deposit_transaction_queue := q\<rparr>) (order_transaction x)) n = Inr c'"
      by (auto simp: apply_confirmed_deposits.simps [of c n] split: sum.splits)
    from "1.IH" [OF True pop refl rest] show ?thesis
      by (simp add: apply_channel_newbalance_static) (simp add: channel_static_def)
  qed
qed

lemma handle_block_static:
  assumes "handle_block c b h n = Inr (Some c', evs)" shows "channel_static c' = channel_static c"
proof -
  from assms obtain c1 where "c1 = c \<or> c1 = c\<lparr>settle_transaction := Some (tx_started b)\<rparr>"
    "apply_confirmed_deposits c1 n = Inr c'"
    by (auto simp: handle_block_def res_simps split: if_splits option.splits)
  then show ?thesis using apply_confirmed_static [of c1 n c'] by (auto simp: channel_static_def)
qed

text \<open>The handlers of contract logs and of actions.\<close>

lemmas chain_handlers = handle_action_close_def events_for_close_def handle_action_set_fee_def
  handle_channel_closed_def handle_channel_closed_light_def handle_channel_updated_transfer_def
  handle_channel_settled_def handle_channel_batch_unlock_def handle_channel_newbalance_def
  set_closed_def set_settled_def set_onchain_locksroot_def

lemma chain_static:
  "state_transition c sc n h = Inr (Some c', evs) \<Longrightarrow> channel_static c' = channel_static c"
proof (cases sc)
  case Block
  then show "state_transition c sc n h = Inr (Some c', evs) \<Longrightarrow> ?thesis"
    by (simp add: state_transition_def handle_block_static)
qed (auto simp: state_transition_def chain_handlers Let_def res_simps channel_static_def
      apply_channel_newbalance_def update_contract_balance_def
      split: if_splits option.splits balance_proof.splits)

lemma chain_keeps: "state_transition c sc n h = Inr (Some c', evs) \<Longrightarrow> keeps_copies c c'"
  using state_transition_change [of c sc n h c' evs] chain_static [of c sc n h c' evs]
  by (auto simp: keeps_copies_def chain_change_def dest: copies_ok_topped_up)

lemma channel_step_keeps:
  assumes "channel_step L c c'" shows "keeps_copies c c'"
  using assms
  by (cases rule: channel_step.cases)
    (simp_all add: send_lockedtransfer_keeps send_refundtransfer_keeps send_unlock_keeps
      events_for_expired_lock_keeps register_offchain_keeps register_onchain_keeps
      receive_lockedtransfer_keeps handle_refundtransfer_keeps receive_lock_expired_keeps
      receive_unlock_keeps chain_keeps)

section \<open>Locks by their hash\<close>

lemma get_lock_refiled:
  assumes "maps_ok e" "refiled e e'" shows "get_lock e' h = get_lock e h"
proof -
  have "get_lock e' h = Some l \<longleftrightarrow> get_lock e h = Some l" for l
    using assms by (simp add: get_lock_iff refiled_def)
  then show ?thesis by (metis option.exhaust)
qed

lemma get_lock_without:
  assumes "maps_ok e" "maps_ok e'" "locks_mset e = add_mset l (locks_mset e')" "h \<noteq> lock_secrethash l"
  shows "get_lock e' h = get_lock e h"
proof -
  have "get_lock e' h = Some k \<longleftrightarrow> get_lock e h = Some k" for k
    using assms by (auto simp: get_lock_iff)
  then show ?thesis by (metis option.exhaust)
qed

lemma get_lock_del_unclaimed:
  "\<not> dict_has (secrethashes_to_onchain_unlockedlocks e) h \<Longrightarrow>
     get_lock (del_unclaimed_lock h (set_proof bp tree e)) h = None"
  "k \<noteq> h \<Longrightarrow> get_lock (del_unclaimed_lock h (set_proof bp tree e)) k = get_lock e k"
  by (auto simp: get_lock_def del_unclaimed_lock_def set_proof_def delete_conv' dict_has_def
      split: option.splits)

lemma get_lock_deleted:
  assumes "del_lock h (set_proof bp tree e) = Inr e'"
  shows "get_lock e' h = None" "k \<noteq> h \<Longrightarrow> get_lock e' k = get_lock e k"
  using assms
  by (auto simp: del_lock_def Let_def res_simps get_lock_def del_unclaimed_lock_def set_proof_def
      delete_conv' split: option.splits)

lemma partner_get_lock_offchain:
  assumes "channel_ok L c"
  shows "get_lock (partner_state (register_offchain_secret c secret h)) k = get_lock (partner_state c) k"
  using get_lock_refiled [OF _ register_secret_refiled] end_okD(1) [OF channel_okD(2) [OF assms]]
  by (simp add: register_offchain_secret_def)

lemma partner_get_lock_onchain:
  assumes "channel_ok L c" "register_onchain_secret c secret h n True = Inr c'"
  shows "get_lock (partner_state c') k = get_lock (partner_state c) k"
proof -
  have m: "maps_ok (partner_state c)" using end_okD(1) [OF channel_okD(2) [OF assms(1)]] .
  from assms(2) have "register_onchain_secret_endstate secret h n True (partner_state c)
      = Inr (partner_state c')"
    by (auto simp: register_onchain_secret_def res_simps)
  from get_lock_refiled [OF m register_onchain_refiled [OF m this]] show ?thesis .
qed

section \<open>Laws of a node's channels\<close>

definition channels_all ::
    "(int \<Rightarrow> NettingChannelState \<Rightarrow> bool) \<Rightarrow> channelmap \<Rightarrow> bool" where
  "channels_all P m \<longleftrightarrow> (\<forall>k c. dict_get m k = Some c \<longrightarrow> P k c)"

lemma channels_allD: "channels_all P m \<Longrightarrow> dict_get m k = Some c \<Longrightarrow> P k c"
  by (simp add: channels_all_def)

lemma channels_all_set: "channels_all P m \<Longrightarrow> P k c \<Longrightarrow> channels_all P (dict_set k c m)"
  by (simp add: channels_all_def update_conv')

locale channel_law =
  fixes L :: libs and P :: "int \<Rightarrow> NettingChannelState \<Rightarrow> bool"
  assumes step: "P k c \<Longrightarrow> channel_step L c c' \<Longrightarrow> P k c'"
    and sound: "P k c \<Longrightarrow> channel_ok L c"
    and copies: "P k c \<Longrightarrow> copies_ok (our_state c)"
    and named: "P k c \<Longrightarrow> ch_identifier c = k"
begin

lemma change_all:
  assumes "channels_all P m" "change_channel k f m = Inr m'"
    and "\<And>c c'. P k c \<Longrightarrow> f c = Inr c' \<Longrightarrow> P k c'"
  shows "channels_all P m'"
proof (cases "dict_get m k")
  case None
  then show ?thesis using assms(1,2) by (simp add: change_channel_def)
next
  case (Some c)
  with assms(2) obtain c' where "f c = Inr c'" "m' = dict_set k c' m"
    by (auto simp: change_channel_def res_simps)
  then show ?thesis
    using assms(3) [of c c'] channels_allD [OF assms(1) Some] channels_all_set [OF assms(1)] by simp
qed

lemma offchain: "P k c \<Longrightarrow> P k (register_offchain_secret c secret h)"
  by (rule step [OF _ channel_step.learn_secret])

lemma onchain: "P k c \<Longrightarrow> register_onchain_secret c secret h n True = Inr c' \<Longrightarrow> P k c'"
  by (rule step [OF _ channel_step.learn_onchain_secret])

lemma unlock: "P k c \<Longrightarrow> send_unlock L c m p secret h lc = Inr (e, c') \<Longrightarrow> P k c'"
  by (rule step [OF _ channel_step.send_unlock])

lemma transfer:
  "P k c \<Longrightarrow> \<not> is_lock_pending (our_state c) h
   \<Longrightarrow> send_lockedtransfer L c i t amount m p ph x h = Inr (e, c') \<Longrightarrow> P k c'"
  by (rule step [OF _ channel_step.send_transfer])

lemma refund:
  "P k c \<Longrightarrow> \<not> is_lock_pending (our_state c) h
   \<Longrightarrow> send_refundtransfer L c i t amount m p x h = Inr (e, c') \<Longrightarrow> P k c'"
  by (rule step [OF _ channel_step.send_refund])

lemma got_unlock: "P k c \<Longrightarrow> handle_unlock L c u = Inr (out, c') \<Longrightarrow> P k c'"
  unfolding handle_unlock_def by (rule step [OF _ channel_step.receive_unlock])

lemma got_unlock_light: "P k c \<Longrightarrow> handle_unlock_light L c u = Inr (out, c') \<Longrightarrow> P k c'"
  unfolding handle_unlock_light_def by (rule step [OF _ channel_step.receive_unlock])

lemma got_expired: "P k c \<Longrightarrow> handle_receive_lock_expired L c sc n = Inr (evs, c') \<Longrightarrow> P k c'"
  by (rule step [OF _ channel_step.receive_expired])

lemma got_transfer:
  assumes "P k c" "receive_lockedtransfer_with evs L now c t st = Inr (out, c', st')"
    and "out_msg out = None \<Longrightarrow> lock_ok L (lt_lock t) \<and>
           \<not> is_lock_pending (partner_state c) (lock_secrethash (lt_lock t))"
  shows "P k c'"
  using assms(2)
proof (cases rule: receive_lockedtransfer_cases)
  case refused
  then show ?thesis using assms(1) by simp
next
  case accepted
  then show ?thesis using step [OF assms(1) channel_step.receive_transfer] assms(2,3) by blast
qed

lemma got_refund:
  assumes "P k c" "handle_refundtransfer L now original c r = Inr ((evs, msg), c')"
    and "msg = None \<Longrightarrow> lock_ok L (lt_lock (rtr_transfer r)) \<and>
           \<not> is_lock_pending (partner_state c) (lock_secrethash (lt_lock (rtr_transfer r)))"
  shows "P k c'"
  using assms(2)
proof (cases rule: handle_refundtransfer_cases)
  case refused
  then show ?thesis using assms(1) by simp
next
  case accepted
  then show ?thesis using step [OF assms(1) channel_step.receive_refund] assms(2,3) by blast
qed

lemma expired:
  assumes "P k c" "get_lock (our_state c) (lock_secrethash lock) = Some lock"
    and "is_lock_expired (our_state c) lock n threshold = None"
    and "events_for_expired_lock L c lock g = Inr (evs, c', g')"
  shows "P k c'"
proof (rule step [OF assms(1) channel_step.send_expired [OF assms(2) _ assms(4)]])
  show "\<not> dict_has (secrethashes_to_onchain_unlockedlocks (our_state c)) (lock_secrethash lock)"
    using assms(3) by (auto simp: is_lock_expired_def split: if_splits)
qed

end

text \<open>The channels of a node: reachable, under the key of their identifier.\<close>

definition node_channel :: "libs \<Rightarrow> int \<Rightarrow> NettingChannelState \<Rightarrow> bool" where
  "node_channel L k c \<longleftrightarrow> keccak_ok L \<and> reachable L c \<and> ch_identifier c = k"

text \<open>A channel that steps have led to from the one a map has under the key.\<close>

definition evolved_channel :: "libs \<Rightarrow> channelmap \<Rightarrow> int \<Rightarrow> NettingChannelState \<Rightarrow> bool" where
  "evolved_channel L m k c \<longleftrightarrow>
     node_channel L k c \<and> (\<exists>c0. dict_get m k = Some c0 \<and> (channel_step L)\<^sup>*\<^sup>* c0 c)"

lemma channel_step_identifier: "channel_step L c c' \<Longrightarrow> ch_identifier c' = ch_identifier c"
  using channel_step_keeps [of L c c'] by (simp add: keeps_copies_def channel_static_def)

lemma reachable_copies:
  assumes "reachable L c" shows "copies_ok (our_state c) \<and> copies_ok (partner_state c)"
  using assms
proof (induction rule: reachable.induct)
  case (new c)
  then show ?case
    by (auto simp: new_channel_def mk_NettingChannelState_def mk_NettingChannelEndState_def
        copies_ok_def split: if_splits)
next
  case (step c c')
  then show ?case using channel_step_keeps [of L c c'] by (simp add: keeps_copies_def)
qed

interpretation node: channel_law L "node_channel L" for L
proof (unfold_locales)
  fix k c c'
  show "node_channel L k c \<Longrightarrow> channel_step L c c' \<Longrightarrow> node_channel L k c'"
    using reachable.step [of L c c'] channel_step_identifier [of L c c']
    by (simp add: node_channel_def)
qed (auto simp: node_channel_def reachable_inv reachable_copies)

interpretation evolved: channel_law L "evolved_channel L m" for L m
proof (unfold_locales)
  fix k c c'
  show "evolved_channel L m k c \<Longrightarrow> channel_step L c c' \<Longrightarrow> evolved_channel L m k c'"
    using node.step [of L k c c'] rtranclp.rtrancl_into_rtrancl [of "channel_step L" _ c c']
    by (auto simp: evolved_channel_def)
qed (auto simp: evolved_channel_def node.sound node.copies node.named)

lemma evolved_self: "channels_all (node_channel L) m \<Longrightarrow> channels_all (evolved_channel L m) m"
  by (auto simp: channels_all_def evolved_channel_def)

end
