(* ===== verification/ChannelSync.thy ===== *)
theory ChannelSync
  imports Samples ChannelTasks
begin

text \<open>
  The two nodes of a channel.  Each keeps its own end and its view of the partner's end; the
  channel is in sync when each view agrees with the partner's own end in everything that a balance
  proof is about.  What a node sends in a reachable, synchronised channel is accepted by its
  partner, and brings the two back in sync.
\<close>

text \<open>The end \<open>a\<close> as its owner keeps it and the partner's view \<open>b\<close> of it.  Which locks have a known
  secret may differ.\<close>

definition mirror :: "NettingChannelEndState \<Rightarrow> NettingChannelEndState \<Rightarrow> bool" where
  "mirror a b \<longleftrightarrow>
     es_address a = es_address b \<and> contract_balance a = contract_balance b \<and>
     locks_mset a = locks_mset b \<and> es_merkletree a = es_merkletree b \<and>
     map_option bp_data (es_balance_proof a) = map_option bp_data (es_balance_proof b)"

definition in_sync :: "NettingChannelState \<Rightarrow> NettingChannelState \<Rightarrow> bool" where
  "in_sync c d \<longleftrightarrow>
     mirror (our_state c) (partner_state d) \<and> mirror (our_state d) (partner_state c) \<and>
     ch_canonical_identifier c = ch_canonical_identifier d"

lemma mirror_amounts:
  assumes "mirror a b"
  shows "get_amount_locked a = get_amount_locked b" "get_next_nonce a = get_next_nonce b"
    "current_transferred_amount a = current_transferred_amount b"
    "current_locked_amount a = current_locked_amount b"
    "get_current_nonce a = get_current_nonce b"
  using assms
  by (cases "es_balance_proof a"; cases "es_balance_proof b";
      simp add: mirror_def get_amount_locked_mset get_next_nonce_def current_transferred_amount_def
        current_locked_amount_def get_current_nonce_def)+

lemma distributable_parts:
  "get_distributable a b = min (max (UINT256_MAX - current_transferred_amount a
     - current_locked_amount a) 0) (get_balance a b - get_amount_locked a)"
proof -
  obtain r where "get_current_balanceproof a =
      (r, get_current_nonce a, current_transferred_amount a, current_locked_amount a)"
    using current_balanceproof_parts by blast
  then show ?thesis by (simp add: get_distributable_def)
qed

lemma mirror_distributable:
  "mirror a b \<Longrightarrow> mirror a' b' \<Longrightarrow> get_distributable a b' = get_distributable b a'"
  using mirror_amounts [of a b] mirror_amounts [of a' b']
  by (simp add: distributable_parts get_balance_def) (simp add: mirror_def)

lemma mirror_get_lock:
  assumes "mirror a b" "maps_ok a" "maps_ok b"
  shows "get_lock a h = get_lock b h"
proof -
  have "get_lock a h = Some l \<longleftrightarrow> get_lock b h = Some l" for l
    using assms by (simp add: get_lock_iff mirror_def)
  then show ?thesis by (metis not_Some_eq)
qed

lemma mirror_pending:
  "mirror a b \<Longrightarrow> maps_ok a \<Longrightarrow> maps_ok b \<Longrightarrow> is_lock_pending a h = is_lock_pending b h"
  using mirror_get_lock [of a b h] get_lock_None [of a h] get_lock_None [of b h] by auto

text \<open>The signed copy of a balance proof, as the partner decodes it from the message.\<close>

definition signed_copy :: "libs \<Rightarrow> bytes \<Rightarrow> BalanceProofUnsignedState \<Rightarrow> BalanceProofSignedState \<Rightarrow> bool"
  where
  "signed_copy L sender bp sbp \<longleftrightarrow>
     BalanceProofUnsignedState.truncate sbp = bp \<and> is_valid_signature L sbp sender = Inr None"

lemma signed_copyD:
  assumes "signed_copy L sender bp sbp"
  shows "bp_nonce sbp = bp_nonce bp" "bp_transferred_amount sbp = bp_transferred_amount bp"
    "bp_locked_amount sbp = bp_locked_amount bp" "bp_locksroot sbp = bp_locksroot bp"
    "bp_canonical_identifier sbp = bp_canonical_identifier bp"
    "is_valid_signature L sbp sender = Inr None" "bp_data (Signed sbp) = bp"
  using assms by (auto simp: signed_copy_def)

lemma reachable_ends:
  assumes "keccak_ok L" "reachable L c"
  shows "end_ok L (our_state c)" "end_ok L (partner_state c)"
    "maps_ok (our_state c)" "maps_ok (partner_state c)"
  using reachable_inv [OF assms] channel_okD(1,2) end_okD(1) by blast+

lemma transfer_in_sync:
  assumes L: "keccak_ok L" and c: "reachable L c" and d: "reachable L d" and sync: "in_sync c d"
    and opened: "get_status d = CHANNEL_STATE_OPENED"
    and sent: "send_lockedtransfer L c i target amount m p ph x h = Inr (ev, c')"
    and amount: "0 < amount" and fresh: "\<not> is_lock_pending (our_state c) h"
    and usable: "h \<noteq> EMPTY_HASH_KECCAK L"
    and width: "length (leaf_list (es_merkletree (our_state c))) < MAXIMUM_PENDING_TRANSFERS"
    and lock: "lt_lock t = lt_lock (ste_transfer ev)" and invoice: "lt_payment_hash_invoice t = []"
    and copy: "signed_copy L (es_address (our_state c)) (lt_balance_proof (ste_transfer ev))
      (lt_balance_proof t)"
  shows "\<exists>d'. handle_receive_lockedtransfer L now d t st =
      Inr (\<lparr>out_events = [send_processed (bp_sender (lt_balance_proof t)) (lt_message_identifier t)],
            out_msg = None, out_invoice = Some None\<rparr>, d', st) \<and>
    in_sync c' d' \<and> get_lock (partner_state d') h = Some (lt_lock t) \<and>
    our_state d' = our_state d \<and> get_status d' = get_status d \<and>
    channel_static d' = channel_static d"
proof -
  let ?a = "our_state c" and ?b = "partner_state d"
  have mir: "mirror ?a ?b" "mirror (our_state d) (partner_state c)"
    and ci: "ch_canonical_identifier c = ch_canonical_identifier d"
    using sync by (simp_all add: in_sync_def)
  from sent obtain tree where s: "create_sendlockedtransfer L c i target amount m p ph x h
      = Inr (ev, tree)" and c': "c' = upd_our (record_lock (Unsigned (lt_balance_proof
        (ste_transfer ev))) tree (lt_lock (ste_transfer ev))) c"
    by (auto simp: send_lockedtransfer_def res_simps Let_def)
  from s obtain l bp where *: "lt_lock (ste_transfer ev) = l"
    "lt_balance_proof (ste_transfer ev) = bp" "mk_HashTimeLockState L amount x h = Inr l"
    "amount \<le> get_distributable ?a (partner_state c)"
    "compute_merkletree_with L (es_merkletree ?a) (lock_lockhash l) = Inr (Some tree)"
    "merkleroot tree = Inr (bp_locksroot bp)" "bp_nonce bp = get_next_nonce ?a"
    "bp_transferred_amount bp = current_transferred_amount ?a"
    "bp_locked_amount bp = get_amount_locked ?a + amount"
    "bp_canonical_identifier bp = ch_canonical_identifier c"
    by (rule create_sendlockedtransferD)
  have l: "lock_amount l = amount" "lock_secrethash l = h" "lock_ok L l"
    using *(3) mk_lock_sel lock_okI by auto
  note sc = signed_copyD [OF copy, unfolded *(2)]
  note ends = reachable_ends [OF L c] reachable_ends [OF L d]
  have loc: "current_locked_amount ?a = get_amount_locked ?a" using current_locked_ok ends by blast
  have tree_ok: "merkle_ok L tree" and w: "length (leaf_list tree) =
      Suc (length (leaf_list (es_merkletree ?a)))"
    using mt.addD [OF end_okD(5) [OF ends(1)] lock_ok_leaf [OF L l(3)] *(5)]
      mt.add_width [OF end_okD(5) [OF ends(1)] lock_ok_leaf [OF L l(3)] *(5)] by simp_all
  let ?out = "\<lparr>out_events = [send_processed (bp_sender (lt_balance_proof t))
      (lt_message_identifier t)], out_msg = None, out_invoice = Some None\<rparr>"
  let ?d = "upd_partner (record_lock (Signed (lt_balance_proof t)) tree l) d"
  have "handle_received_invoice now st [] = Inr (None, st)"
    using empty_invoice_hash [of now st] by (simp add: EMPTY_PAYMENT_HASH_INVOICE_def)
  moreover have "bp_transferred_amount bp + bp_locked_amount bp \<le> UINT256_MAX"
    using *(4,8,9) amount loc by (auto simp: distributable_parts)
  moreover have "amount \<le> get_distributable ?b (our_state d)"
    using *(4) mirror_distributable [OF mir] by simp
  moreover have "es_merkletree ?a = es_merkletree ?b" "es_address ?a = es_address ?b"
    using mir(1) by (simp_all add: mirror_def)
  moreover have "merkletree_width tree = Inr (length (leaf_list tree))"
    "length (leaf_list tree) \<le> MAXIMUM_PENDING_TRANSFERS"
    using merkletree_width_leaves [OF tree_ok] w width by simp_all
  ultimately have run: "handle_receive_lockedtransfer L now d t st = Inr (?out, ?d, st)"
    using opened usable * sc ci l mirror_amounts [OF mir(1)] loc invoice lock
    by (simp add: handle_receive_lockedtransfer_def receive_lockedtransfer_with_def
        is_valid_lockedtransfer_def
        lockedtransfer_iff [of L now d ?b _ _ _ _ _ _ tree None st, THEN iffD2] usable_iff)
  have "in_sync c' ?d"
  proof -
    have "\<not> is_lock_pending ?b h" using mirror_pending [OF mir(1)] ends fresh by blast
    then have "locks_mset (record_lock (Signed (lt_balance_proof t)) tree l ?b) =
        locks_mset (record_lock (Unsigned bp) tree l ?a)"
      using record_lock_maps(2) [of ?a l] record_lock_maps(2) [of ?b l] ends fresh l mir(1)
      by (simp add: mirror_def)
    then show ?thesis
      using mir sc(7) ci c' * by (simp add: in_sync_def mirror_def)
  qed
  moreover have "get_status ?d = get_status d"
    by (simp add: get_status_def cong: option.case_cong)
  moreover have "get_lock (partner_state ?d) h = Some (lt_lock t)"
    using * lock l(2) get_lock_recorded [of "Signed (lt_balance_proof t)" tree l "partner_state d"]
    by simp
  ultimately show ?thesis
    using run by (intro exI [of _ ?d]) (simp add: channel_static_def)
qed

text \<open>A transfer that a node sends over a channel in sync is accepted by its partner, if the
  partner still has the channel open, the message carries the node's valid signature and no
  invoice, the secrethash is fresh and not that of the empty secret, and fewer than 160 transfers
  are pending; both nodes are then in sync again.\<close>

theorem sent_transfer_is_accepted:
  assumes L: "keccak_ok L" and c: "reachable L c" and d: "reachable L d" and sync: "in_sync c d"
    and opened: "get_status d = CHANNEL_STATE_OPENED"
    and sent: "send_lockedtransfer L c i target amount m p ph x h = Inr (ev, c')"
    and amount: "0 < amount" and fresh: "\<not> is_lock_pending (our_state c) h"
    and usable: "h \<noteq> EMPTY_HASH_KECCAK L"
    and width: "length (leaf_list (es_merkletree (our_state c))) < MAXIMUM_PENDING_TRANSFERS"
    and lock: "lt_lock t = lt_lock (ste_transfer ev)" and invoice: "lt_payment_hash_invoice t = []"
    and copy: "signed_copy L (es_address (our_state c)) (lt_balance_proof (ste_transfer ev))
      (lt_balance_proof t)"
  shows "\<exists>out d'. handle_receive_lockedtransfer L now d t st = Inr (out, d', st) \<and>
    out_msg out = None \<and> in_sync c' d'"
  using transfer_in_sync [OF assms, of now st] by force

theorem sent_transfer_is_accepted_witness:
  "\<exists>out d'. handle_receive_lockedtransfer sample_libs 0 sample_channel sample_message None =
      Inr (out, d', None) \<and> out_msg out = None \<and> in_sync sample_bob_sent d'"
proof -
  have sync: "in_sync sample_bob sample_channel"
    by (simp add: in_sync_def mirror_def sample_bob_def sample_channel_def)
  have e: "lt_lock (ste_transfer (sample_event bob alice 4)) = sample_lock 10"
    "lt_balance_proof (ste_transfer (sample_event bob alice 4)) = sample_proof 10"
    by (simp_all add: sample_event_def)
  have m: "lt_lock sample_message = sample_lock 10" "lt_payment_hash_invoice sample_message = []"
    "lt_balance_proof sample_message = sample_signed 10"
    by (simp_all add: sample_message_def)
  have copy: "signed_copy sample_libs bob (sample_proof 10) (sample_signed 10)"
    using sample_signature
    by (simp add: signed_copy_def sample_signed_def BalanceProofUnsignedState.defs)
  have b: "our_state sample_bob = mk_NettingChannelEndState bob 50"
    "es_address (mk_NettingChannelEndState bob 50) = bob"
    "leaf_list (es_merkletree (mk_NettingChannelEndState bob 50)) = []"
    by (simp_all add: sample_bob_def mk_NettingChannelEndState_def)
  have u: "sample_secrethash \<noteq> EMPTY_HASH_KECCAK sample_libs"
    using sample_check [of 0 MsgLockedTransfer, unfolded lockedtransfer_iff] by simp
  show ?thesis
    using sent_transfer_is_accepted [OF sample_keccak_ok sample_bob_reachable sample_reachable sync
        _ sample_bob_send, of sample_message 0 None] e m copy b u
    by (simp add: MAXIMUM_PENDING_TRANSFERS_def)
qed

section \<open>Unlocks and expiries\<close>

text \<open>What both ends look like after the sender has dropped a lock and its partner has followed.\<close>

lemma mirror_after_drop:
  assumes "mirror a b" "locks_mset a = add_mset l (locks_mset a')"
    and "locks_mset b = add_mset l (locks_mset b')"
    and "es_address a' = es_address a" "es_address b' = es_address b"
    and "contract_balance a' = contract_balance a" "contract_balance b' = contract_balance b"
    and "es_balance_proof a' = Some (Unsigned bp)" "es_balance_proof b' = Some (Signed sbp)"
    and "bp_data (Signed sbp) = bp" "es_merkletree a' = t" "es_merkletree b' = t"
  shows "mirror a' b'"
  using assms by (simp add: mirror_def)

lemma unlock_in_sync:
  assumes L: "keccak_ok L" and c: "reachable L c" and d: "reachable L d" and sync: "in_sync c d"
    and opened: "get_status d = CHANNEL_STATE_OPENED"
    and sent: "send_unlock L c m p secret (keccak L secret) False = Inr (ev, c')"
    and copy: "signed_copy L (es_address (our_state c)) (sbp_balance_proof ev) sbp"
    and safe: "bp_transferred_amount sbp + bp_locked_amount sbp \<le> UINT256_MAX"
  shows "\<exists>d'. handle_unlock L d (mk_ReceiveUnlock L mid secret sbp) =
      Inr (([send_processed (bp_sender sbp) mid], None), d') \<and> in_sync c' d'"
proof -
  let ?a = "our_state c" and ?b = "partner_state d" and ?h = "keccak L secret"
  let ?u = "mk_ReceiveUnlock L mid secret sbp"
  have mir: "mirror ?a ?b" and sync': "mirror (our_state d) (partner_state c)"
    "ch_canonical_identifier c = ch_canonical_identifier d"
    using sync by (simp_all add: in_sync_def)
  note ends = reachable_ends [OF L c] reachable_ends [OF L d]
  from sent obtain l tree a' where s: "get_lock ?a ?h = Some l"
    "create_unlock L c m p secret l False = Inr (ev, tree)"
    "del_lock (lock_secrethash l) (set_proof (Unsigned (sbp_balance_proof ev)) tree ?a) = Inr a'"
    "c' = c\<lparr>our_state := a'\<rparr>"
    by (auto simp: send_unlock_def res_simps split: option.splits)
  have h: "lock_secrethash l = ?h" using get_lock_SomeD(1) [OF ends(3) s(1)] .
  from s(2) obtain bp where *: "sbp_balance_proof ev = bp"
    "compute_merkletree_without L (es_merkletree ?a) (lock_lockhash l) = Inr (Some tree)"
    "merkleroot tree = Inr (bp_locksroot bp)" "bp_nonce bp = get_next_nonce ?a"
    "bp_transferred_amount bp = current_transferred_amount ?a + lock_amount l"
    "bp_locked_amount bp = get_amount_locked ?a - lock_amount l"
    "bp_canonical_identifier bp = ch_canonical_identifier c"
    by (rule create_unlockD)
  note sc = signed_copyD [OF copy, unfolded *(1)]
  have get: "get_lock ?b ?h = Some l" using mirror_get_lock [OF mir ends(3,8)] s(1) by simp
  have "is_valid_unlock L ?u d ?b = Inr (Inr tree)"
    unfolding unlock_iff usable_iff
    using get * sc mir sync'(2) mirror_amounts [OF mir] opened safe
      current_locked_ok [OF ends(6)]
    by (intro exI [of _ l]) (simp add: mk_ReceiveUnlock_def mirror_def)
  moreover obtain b' where b': "del_lock ?h (set_proof (Signed sbp) tree ?b) = Inr b'"
    "locks_mset ?b = add_mset l (locks_mset b')" "es_address b' = es_address ?b"
    "contract_balance b' = contract_balance ?b" "es_balance_proof b' = Some (Signed sbp)"
    "es_merkletree b' = tree"
    using del_lock_props [of "set_proof (Signed sbp) tree ?b" ?h l] ends(8) get by auto
  moreover have "ru_secrethash ?u = ?h" "ru_balance_proof ?u = sbp"
    by (simp_all add: mk_ReceiveUnlock_def)
  ultimately have run: "handle_unlock L d ?u =
      Inr (([send_processed (bp_sender sbp) mid], None), d\<lparr>partner_state := b'\<rparr>)"
    by (simp add: handle_unlock_def receive_unlock_with_def) (simp add: mk_ReceiveUnlock_def)
  obtain a2 where "del_lock ?h (set_proof (Unsigned bp) tree ?a) = Inr a2"
    "locks_mset ?a = add_mset l (locks_mset a2)" "es_address a2 = es_address ?a"
    "contract_balance a2 = contract_balance ?a" "es_balance_proof a2 = Some (Unsigned bp)"
    "es_merkletree a2 = tree"
    using del_lock_props [of "set_proof (Unsigned bp) tree ?a" ?h l] ends(3) s(1) by auto
  then have "mirror a' b'"
    using s(3) h * b' sc(7) by (intro mirror_after_drop [OF mir, of l]) auto
  then have "in_sync c' (d\<lparr>partner_state := b'\<rparr>)" using s(4) sync' by (simp add: in_sync_def)
  with run show ?thesis by blast
qed

text \<open>An unlock that a node sends over a channel in sync is accepted by its partner, if the
  partner still has the channel open, the message carries the secret and the node's valid
  signature, and its amounts do not overflow; both nodes are then in sync again.\<close>

theorem sent_unlock_is_accepted:
  assumes L: "keccak_ok L" and c: "reachable L c" and d: "reachable L d" and sync: "in_sync c d"
    and opened: "get_status d = CHANNEL_STATE_OPENED"
    and sent: "send_unlock L c m p secret (keccak L secret) False = Inr (ev, c')"
    and copy: "signed_copy L (es_address (our_state c)) (sbp_balance_proof ev) sbp"
    and safe: "bp_transferred_amount sbp + bp_locked_amount sbp \<le> UINT256_MAX"
  shows "\<exists>evs d'. handle_unlock L d (mk_ReceiveUnlock L mid secret sbp) = Inr ((evs, None), d') \<and>
    in_sync c' d'"
  using unlock_in_sync [OF assms, of mid] by blast

text \<open>C27. An expiry message that a node sends over a channel in sync is accepted by its partner from
  the block on at which the expiry is confirmed, if the partner still has the channel open and does
  not know the secret on-chain, and the message carries the node's valid signature; both nodes are
  then in sync again.\<close>

theorem sent_expiry_is_accepted:
  assumes L: "keccak_ok L" and c: "reachable L c" and d: "reachable L d" and sync: "in_sync c d"
    and opened: "get_status d = CHANNEL_STATE_OPENED"
    and lock: "get_lock (our_state c) (lock_secrethash l) = Some l"
    and off: "\<not> is_secret_known_onchain (our_state c) (lock_secrethash l)"
      "\<not> is_secret_known_onchain (our_state d) (lock_secrethash l)"
      "\<not> is_secret_known_onchain (partner_state d) (lock_secrethash l)"
    and sent: "events_for_expired_lock L c l g = Inr ([SendLockExpired ev], c', g')"
    and msg: "rle_secrethash sc = sle_secrethash ev"
      "signed_copy L (es_address (our_state c)) (sle_balance_proof ev) (rle_balance_proof sc)"
    and safe: "bp_transferred_amount (rle_balance_proof sc) + bp_locked_amount (rle_balance_proof sc)
      \<le> UINT256_MAX"
    and late: "lock_expiration l + DEFAULT_NUMBER_OF_BLOCK_CONFIRMATIONS \<le> n"
  shows "\<exists>d'. handle_receive_lock_expired L d sc n =
      Inr ([send_processed (bp_sender (rle_balance_proof sc)) (rle_message_identifier sc)], d') \<and>
    in_sync c' d'"
proof -
  let ?a = "our_state c" and ?b = "partner_state d" and ?h = "lock_secrethash l"
  have mir: "mirror ?a ?b" and sync': "mirror (our_state d) (partner_state c)"
    "ch_canonical_identifier c = ch_canonical_identifier d"
    using sync by (simp_all add: in_sync_def)
  note ends = reachable_ends [OF L c] reachable_ends [OF L d]
  from sent obtain tree where s: "create_sendexpiredlock L ?a l g (ch_chain_id c)
      (ch_token_network_identifier c) (ch_identifier c) (es_address (partner_state c))
      = Inr (Some (ev, tree), g')"
    "c' = upd_our (\<lambda>our. del_unclaimed_lock ?h
       (set_proof (Unsigned (sle_balance_proof ev)) tree our)) c"
    by (auto simp: events_for_expired_lock_def res_simps split: option.splits)
  from s(1) obtain bp where *: "sle_balance_proof ev = bp" "sle_secrethash ev = ?h"
    "compute_merkletree_without L (es_merkletree ?a) (lock_lockhash l) = Inr (Some tree)"
    "merkleroot tree = Inr (bp_locksroot bp)" "bp_nonce bp = get_next_nonce ?a"
    "bp_transferred_amount bp = current_transferred_amount ?a"
    "bp_locked_amount bp = get_amount_locked ?a - lock_amount l"
    "bp_canonical_identifier bp = \<lparr>chain_identifier = ch_chain_id c,
       token_network_address = ch_token_network_identifier c, channel_identifier = ch_identifier c\<rparr>"
    by (rule create_sendexpiredlockD)
  note sc = signed_copyD [OF msg(2), unfolded *(1)]
  have get: "get_lock ?b ?h = Some l" using mirror_get_lock [OF mir ends(3,8)] lock by simp
  have found: "(case dict_get (secrethashes_to_lockedlocks ?b) (rle_secrethash sc) of
        Some lock \<Rightarrow> Some lock
      | None \<Rightarrow> map_option pp_lock
          (dict_get (secrethashes_to_unlockedlocks ?b) (rle_secrethash sc))) = Some l"
    unfolding msg(1) *(2) using get off(3) by (auto simp: get_lock_def is_secret_known_onchain_def dict_has_def
        split: option.splits)
  have "is_valid_lock_expired L sc d ?b (our_state d) n = Inr (Inr tree)"
    unfolding lock_expired_iff usable_iff
    using found * sc mir sync'(2) mirror_amounts [OF mir] opened safe msg(1) off late
      current_locked_ok [OF ends(6)]
    by (intro exI [of _ l]) (simp add: mirror_def is_secret_known_onchain_def is_lock_expired_def
        get_receiver_expiration_threshold_def cong: option.case_cong)
  then have run: "handle_receive_lock_expired L d sc n =
      Inr ([send_processed (bp_sender (rle_balance_proof sc)) (rle_message_identifier sc)],
        upd_partner (\<lambda>partner. del_unclaimed_lock ?h
          (set_proof (Signed (rle_balance_proof sc)) tree partner)) d)"
    using msg(1) * by (simp add: handle_receive_lock_expired_def)
  have "mirror (del_unclaimed_lock ?h (set_proof (Unsigned bp) tree ?a))
      (del_unclaimed_lock ?h (set_proof (Signed (rle_balance_proof sc)) tree ?b))"
    using del_unclaimed_mset [of "set_proof (Unsigned bp) tree ?a" ?h l]
      del_unclaimed_mset [of "set_proof (Signed (rle_balance_proof sc)) tree ?b" ?h l]
      ends(3,8) lock get off sc(7)
    by (intro mirror_after_drop [OF mir, of l]) (simp_all add: is_secret_known_onchain_def)
  then show ?thesis using run s(2) sync' * by (simp add: in_sync_def)
qed

section \<open>Witnesses\<close>

lemma sample_bob_sent_sel:
  "our_state sample_bob_sent = record_lock (Unsigned (sample_proof 10)) (sample_tree 10)
     (sample_lock 10) (mk_NettingChannelEndState bob 50)"
  "partner_state sample_bob_sent = mk_NettingChannelEndState alice 100"
  "ch_canonical_identifier sample_bob_sent = sample_ci"
  "get_status sample_bob_sent = CHANNEL_STATE_OPENED"
  "ch_token_address sample_bob_sent = replicate 20 8"
  by (simp_all add: sample_bob_sent_def sample_sent_from_def sample_bob_def sample_channel_def
      get_status_def)

lemma sample_bob_pending:
  "secrethashes_to_lockedlocks (our_state sample_bob_sent) = [(sample_secrethash, sample_lock 10)]"
  "secrethashes_to_onchain_unlockedlocks (our_state sample_bob_sent) = []"
  "get_lock (our_state sample_bob_sent) sample_secrethash = Some (sample_lock 10)"
  "get_amount_locked (our_state sample_bob_sent) = 10"
  "get_next_nonce (our_state sample_bob_sent) = 2"
  "es_balance_proof (our_state sample_bob_sent) = Some (Unsigned (sample_proof 10))"
  "bp_transferred_amount (sample_proof 10) = 0"
  "es_merkletree (our_state sample_bob_sent) = sample_tree 10"
  "es_address (our_state sample_bob_sent) = bob"
  by (simp_all add: sample_bob_sent_sel record_lock_def mk_NettingChannelEndState_def get_lock_def
      get_amount_locked_def get_amount_unclaimed_onchain_def get_next_nonce_def sample_proof_def)

lemma sample_in_sync: "in_sync sample_bob_sent sample_received"
proof -
  have "bp_data (Signed (sample_signed 10)) = sample_proof 10"
    by (simp add: sample_signed_def BalanceProofUnsignedState.defs)
  moreover have "locks_mset (record_lock b t l e) = locks_mset (record_lock b' t l e')"
    if "locks_mset e = {#}" "locks_mset e' = {#}" "\<not> is_lock_pending e (lock_secrethash l)"
      "\<not> is_lock_pending e' (lock_secrethash l)" "maps_ok e" "maps_ok e'" for b b' t l e e'
    using that by (simp add: record_lock_maps)
  moreover have "locks_mset (mk_NettingChannelEndState a b) = {#}"
    "maps_ok (mk_NettingChannelEndState a b)" for a b
    by (simp_all add: locks_mset_def maps_ok_def mk_NettingChannelEndState_def)
  ultimately show ?thesis
    by (simp add: in_sync_def mirror_def sample_bob_sent_sel record_lock_maps)
qed

lemma sample_next_copy: "0 \<le> a \<Longrightarrow> a \<le> 10 \<Longrightarrow>
    signed_copy sample_libs bob (BalanceProofUnsignedState.truncate (sample_next_proof a))
      (sample_next_proof a)"
  using sample_next_usable [of a]
  by (simp add: signed_copy_def usable_iff) (simp add: mk_NettingChannelEndState_def)

lemma sample_next_made:
  "0 \<le> a \<Longrightarrow> a \<le> 10 \<Longrightarrow> mk_BalanceProofUnsignedState 2 a 0 EMPTY_MERKLE_ROOT sample_ci =
     Inr (BalanceProofUnsignedState.truncate (sample_next_proof a))"
  by (simp add: mk_BalanceProofUnsignedState_def balance_proof_checks_def UINT64_MAX_def
      UINT256_MAX_def canonical_identifier_validate_def sample_ci_def sample_next_proof_def
      BalanceProofUnsignedState.truncate_def)

lemma sample_bob_unlock:
  "\<exists>ev c'. send_unlock sample_libs sample_bob_sent 5 2 sample_secret (keccak sample_libs sample_secret)
     False = Inr (ev, c') \<and>
   sbp_balance_proof ev = BalanceProofUnsignedState.truncate (sample_next_proof 10)"
proof -
  let ?e = "set_proof (Unsigned (BalanceProofUnsignedState.truncate (sample_next_proof 10)))
    make_empty_merkle_tree (our_state sample_bob_sent)"
  have pend: "is_lock_pending (our_state sample_bob_sent) sample_secrethash"
    using sample_bob_pending(1) unfolding is_lock_pending_def dict_has_def by simp
  then have "is_lock_pending ?e sample_secrethash" by simp
  then obtain e where e: "del_lock sample_secrethash ?e = Inr e"
    by (auto simp: del_lock_def Let_def)
  have "create_unlock sample_libs sample_bob_sent 5 2 sample_secret (sample_lock 10) False =
      Inr (mk_SendBalanceProof sample_libs (es_address (partner_state sample_bob_sent))
        (ch_identifier sample_bob_sent) 5 2 (ch_token_address sample_bob_sent) sample_secret
        (BalanceProofUnsignedState.truncate (sample_next_proof 10)), make_empty_merkle_tree)"
    using pend sample_next_made [of 10]
    by (simp add: create_unlock_def Let_def sample_bob_pending sample_bob_sent_sel(3,4)
        sample_without sample_empty_root)
  then show ?thesis
    using sample_bob_pending(3) e
    by (simp add: send_unlock_def mk_SendBalanceProof_def sample_secrethash_def [symmetric])
qed

theorem sent_unlock_is_accepted_witness:
  "\<exists>evs (c' :: NettingChannelState) d'.
     handle_unlock sample_libs sample_received sample_unlock = Inr ((evs, None), d') \<and> in_sync c' d'"
proof -
  obtain ev c' where s: "send_unlock sample_libs sample_bob_sent 5 2 sample_secret
      (keccak sample_libs sample_secret) False = Inr (ev, c')"
    "sbp_balance_proof ev = BalanceProofUnsignedState.truncate (sample_next_proof 10)"
    using sample_bob_unlock by blast
  have "bp_transferred_amount (sample_next_proof 10) + bp_locked_amount (sample_next_proof 10)
      \<le> UINT256_MAX"
    by (simp add: sample_next_proof_def UINT256_MAX_def)
  then show ?thesis
    using sent_unlock_is_accepted [OF sample_keccak_ok sample_bob_sent_reachable
        sample_received_reachable sample_in_sync _ s(1), of "sample_next_proof 10" 5]
      sample_next_copy [of 10] s(2) sample_bob_pending(9) sample_received_sel(4)
    unfolding sample_unlock_def by fastforce
qed

theorem sent_expiry_is_accepted_witness:
  "\<exists>(c' :: NettingChannelState) d'. handle_receive_lock_expired sample_libs sample_received sample_expired 105 =
     Inr ([send_processed bob 6], d') \<and> in_sync c' d'"
proof -
  let ?bp = "BalanceProofUnsignedState.truncate (sample_next_proof 0)"
  let ?ev = "\<lparr>sle_recipient = alice, sle_message_identifier = 6, sle_balance_proof = ?bp,
    sle_secrethash = sample_secrethash\<rparr>"
  let ?c = "upd_our (\<lambda>our. del_unclaimed_lock sample_secrethash
    (set_proof (Unsigned ?bp) make_empty_merkle_tree our)) sample_bob_sent"
  have ci: "\<lparr>chain_identifier = chain_identifier sample_ci, token_network_address =
      token_network_address sample_ci, channel_identifier = channel_identifier sample_ci\<rparr> = sample_ci"
    by simp
  have a: "es_address (mk_NettingChannelEndState alice 100) = alice"
    by (simp add: mk_NettingChannelEndState_def)
  have run: "events_for_expired_lock sample_libs sample_bob_sent (sample_lock 10) 6 =
      Inr ([SendLockExpired ?ev], ?c, 7)"
    using sample_next_made [of 0]
    by (simp add: events_for_expired_lock_def create_sendexpiredlock_def sample_bob_pending
        sample_bob_sent_sel(2-4) sample_without sample_empty_root ci a
        message_identifier_from_prng_def)
      (simp add: sample_libs_def)
  have off: "\<not> is_secret_known_onchain (our_state sample_bob_sent) sample_secrethash"
    "\<not> is_secret_known_onchain (our_state sample_received) sample_secrethash"
    "\<not> is_secret_known_onchain (partner_state sample_received) sample_secrethash"
    using sample_bob_pending(2) sample_pending(3)
    by (simp_all add: is_secret_known_onchain_def dict_has_def)
      (simp add: mk_NettingChannelEndState_def)
  show ?thesis
    using sent_expiry_is_accepted [OF sample_keccak_ok sample_bob_sent_reachable
        sample_received_reachable sample_in_sync _ _ _ _ _ run, of sample_expired 105]
      sample_next_copy [of 0] sample_bob_pending(3,9) off
    by (auto simp: sample_next_proof_def [of 0] UINT256_MAX_def
        DEFAULT_NUMBER_OF_BLOCK_CONFIRMATIONS_def)
qed

end
