(* ===== verification/Mediator.thy ===== *)
theory Mediator
  imports PaymentTasks
begin

text \<open>
  The mediator of a payment (\<open>transfer/mediated_transfer/mediator.py\<close>) with its state classes
  (\<open>mediated_transfer/state.py\<close>): a mediator receives a transfer from a payer, forwards it to a
  payee (or refunds it, or waits for a route), learns the secret from the payee, reveals it to the
  payer and unlocks towards the payee while that is safe.  The functions are in the order of the
  source; a function whose name \<open>channel.py\<close> has too ends in \<open>_mediator\<close>.
\<close>

section \<open>State\<close>

text \<open>The members of \<open>valid_payee_states\<close> and \<open>valid_payer_states\<close>.\<close>

datatype PayeeState =
    payee_pending | payee_secret_revealed | payee_contract_unlock | payee_balance_proof
  | payee_expired

datatype PayerState =
    payer_pending | payer_secret_revealed | payer_waiting_unlock | payer_waiting_secret_reveal
  | payer_balance_proof | payer_expired

record MediationPairState =
  payee_address :: bytes
  payee_transfer :: LockedTransferUnsignedState
  payee_state :: PayeeState
  payer_transfer :: LockedTransferSignedState
  payer_state :: PayerState

definition mk_MediationPairState ::
    "LockedTransferSignedState \<Rightarrow> bytes \<Rightarrow> LockedTransferUnsignedState \<Rightarrow> MediationPairState" where
  "mk_MediationPairState payer address payee =
     \<lparr>payee_address = address, payee_transfer = payee, payee_state = payee_pending,
      payer_transfer = payer, payer_state = payer_pending\<rparr>"

datatype WaitingState = Waiting | WaitingExpired

record WaitingTransferState =
  wt_transfer :: LockedTransferSignedState
  wt_state :: WaitingState

record MediatorTransferState =
  mt_secrethash :: bytes
  mt_secret :: "bytes option"
  transfers_pair :: "MediationPairState list"
  waiting_transfer :: "WaitingTransferState option"
  mt_routes :: "RouteState list"

definition mk_MediatorTransferState :: "bytes \<Rightarrow> RouteState list \<Rightarrow> MediatorTransferState" where
  "mk_MediatorTransferState secrethash routes =
     \<lparr>mt_secrethash = secrethash, mt_secret = None, transfers_pair = [], waiting_transfer = None,
      mt_routes = routes\<rparr>"

text \<open>\<open>transfer.balance_proof.channel_identifier\<close> and the two ends of a pair.\<close>

abbreviation received_channel :: "LockedTransferSignedState \<Rightarrow> int" where
  "received_channel t \<equiv> channel_identifier (bp_canonical_identifier (lt_balance_proof t))"

abbreviation sent_channel :: "LockedTransferUnsignedState \<Rightarrow> int" where
  "sent_channel t \<equiv> channel_identifier (bp_canonical_identifier (lt_balance_proof t))"

text \<open>
  The constants \<open>STATE_SECRET_KNOWN\<close>, \<open>STATE_TRANSFER_PAID\<close> and \<open>STATE_TRANSFER_FINAL\<close> mix the
  states of both ends; here each is a predicate per end.
\<close>

fun payee_secret_known :: "PayeeState \<Rightarrow> bool" where
  "payee_secret_known s =
     (s = payee_secret_revealed \<or> s = payee_contract_unlock \<or> s = payee_balance_proof)"

fun payer_secret_known :: "PayerState \<Rightarrow> bool" where
  "payer_secret_known s =
     (s = payer_secret_revealed \<or> s = payer_waiting_unlock \<or> s = payer_balance_proof)"

fun payee_paid :: "PayeeState \<Rightarrow> bool" where
  "payee_paid s = (s = payee_contract_unlock \<or> s = payee_balance_proof)"

fun payer_paid :: "PayerState \<Rightarrow> bool" where
  "payer_paid s = (s = payer_balance_proof)"

fun payee_final :: "PayeeState \<Rightarrow> bool" where
  "payee_final s =
     (s = payee_contract_unlock \<or> s = payee_balance_proof \<or> s = payee_expired)"

fun payer_final :: "PayerState \<Rightarrow> bool" where
  "payer_final s = (s = payer_balance_proof \<or> s = payer_expired)"

section \<open>Tests\<close>

definition is_lock_valid :: "int \<Rightarrow> int \<Rightarrow> bool" where
  "is_lock_valid expiration block_number \<longleftrightarrow> block_number \<le> expiration"

definition is_channel_usable :: "NettingChannelState \<Rightarrow> int \<Rightarrow> int \<Rightarrow> bool result" where
  "is_channel_usable c transfer_amount lock_timeout =
     res_bind (get_number_of_pending_transfers (our_state c)) (\<lambda>pending_transfers.
       Inr (lock_timeout > 0 \<and> get_status c = CHANNEL_STATE_OPENED \<and>
            settle_timeout c \<ge> lock_timeout \<and> reveal_timeout c < lock_timeout \<and>
            pending_transfers < MAXIMUM_PENDING_TRANSFERS \<and>
            transfer_amount \<le> get_distributable (our_state c) (partner_state c) \<and>
            is_valid_amount (our_state c) transfer_amount))"

definition is_send_transfer_almost_equal ::
    "NettingChannelState \<Rightarrow> LockedTransferUnsignedState \<Rightarrow> LockedTransferSignedState \<Rightarrow> bool" where
  "is_send_transfer_almost_equal send_channel send received \<longleftrightarrow>
     lt_payment_identifier send = lt_payment_identifier received \<and>
     lt_token send = lt_token received \<and>
     lock_amount (lt_lock send) = lock_amount (lt_lock received) - mediation_fee send_channel \<and>
     lock_expiration (lt_lock send) = lock_expiration (lt_lock received) \<and>
     lock_secrethash (lt_lock send) = lock_secrethash (lt_lock received) \<and>
     lt_initiator send = lt_initiator received \<and>
     lt_target send = lt_target received"

definition has_secret_registration_started ::
    "NettingChannelState list \<Rightarrow> MediationPairState list \<Rightarrow> bytes \<Rightarrow> bool" where
  "has_secret_registration_started channel_states pairs secrethash \<longleftrightarrow>
     list_ex (\<lambda>c. is_secret_known_onchain (partner_state c) secrethash) channel_states \<or>
     list_ex (\<lambda>p. payer_state p = payer_waiting_secret_reveal) pairs"

section \<open>Routes\<close>

definition filter_reachable_routes ::
    "RouteState list \<Rightarrow> (bytes, network_state) dict \<Rightarrow> RouteState list" where
  "filter_reachable_routes routes states =
     filter (\<lambda>r. dict_get states (route_node_address r) = Some NODE_NETWORK_REACHABLE) routes"

text \<open>
  The two dictionaries of \<open>filter_used_routes\<close>: a later route with the same channel (or the same
  node) overwrites the entry of an earlier one.  Every route left has a position, as all come from
  \<open>routes\<close>.
\<close>

definition channelid_to_route :: "RouteState list \<Rightarrow> (int, RouteState) dict" where
  "channelid_to_route routes = fold (\<lambda>r d. dict_set (route_channel_identifier r) r d) routes []"

definition routes_order :: "RouteState list \<Rightarrow> (bytes, nat) dict" where
  "routes_order routes =
     fold (\<lambda>(i, r) d. dict_set (route_node_address r) i d) (enumerate 0 routes) []"

definition filter_used_routes ::
    "MediationPairState list \<Rightarrow> RouteState list \<Rightarrow> RouteState list" where
  "filter_used_routes pairs routes =
     sort_key (\<lambda>r. the (dict_get (routes_order routes) (route_node_address r)))
       (dict_values (fold (\<lambda>p d. dict_del (sent_channel (payee_transfer p))
                                   (dict_del (received_channel (payer_transfer p)) d))
                      pairs (channelid_to_route routes)))"

definition get_payee_channel ::
    "channelmap \<Rightarrow> MediationPairState \<Rightarrow> NettingChannelState option" where
  "get_payee_channel m p = dict_get m (sent_channel (payee_transfer p))"

definition get_payer_channel ::
    "channelmap \<Rightarrow> MediationPairState \<Rightarrow> NettingChannelState option" where
  "get_payer_channel m p = dict_get m (received_channel (payer_transfer p))"

definition pair_pending :: "MediationPairState \<Rightarrow> bool" where
  "pair_pending p \<longleftrightarrow> \<not> payee_final (payee_state p) \<or> \<not> payer_final (payer_state p)"

definition get_pending_transfer_pairs :: "MediationPairState list \<Rightarrow> MediationPairState list" where
  "get_pending_transfer_pairs pairs = filter pair_pending pairs"

definition get_lock_amount_after_fees :: "HashTimeLockState \<Rightarrow> NettingChannelState \<Rightarrow> int" where
  "get_lock_amount_after_fees lock payee_channel = lock_amount lock - mediation_fee payee_channel"

section \<open>Sanity and end of the task\<close>

definition pair_sane :: "channelmap \<Rightarrow> MediationPairState \<Rightarrow> bool" where
  "pair_sane m p \<longleftrightarrow>
     (case get_payee_channel m p of
        None \<Rightarrow> True
      | Some c \<Rightarrow> is_send_transfer_almost_equal c (payee_transfer p) (payer_transfer p))"

definition refund_sane :: "channelmap \<Rightarrow> MediationPairState \<times> MediationPairState \<Rightarrow> bool" where
  "refund_sane m = (\<lambda>(original, refund).
     payee_address original = bp_sender (lt_balance_proof (payer_transfer refund)) \<and>
     (case get_payer_channel m refund of
        None \<Rightarrow> True
      | Some c \<Rightarrow>
          is_send_transfer_almost_equal c (payee_transfer original) (payer_transfer refund)))"

definition sanity_check :: "MediatorTransferState \<Rightarrow> channelmap \<Rightarrow> unit result" where
  "sanity_check s m =
     (let pairs = transfers_pair s in
      py_assert (list_ex (\<lambda>p. payee_paid (payee_state p) \<or> payer_paid (payer_state p)) pairs \<longrightarrow>
                 mt_secret s \<noteq> None) ''state.secret is not None''
      (py_assert (case pairs of
                    [] \<Rightarrow> True
                  | p # _ \<Rightarrow> mt_secrethash s = lock_secrethash (lt_lock (payer_transfer p)))
         ''state.secrethash == first_pair.payer_transfer.lock.secrethash''
      (py_assert (list_all (pair_sane m) pairs) ''is_send_transfer_almost_equal''
      (py_assert (list_all (refund_sane m) (zip (butlast pairs) (tl pairs)))
         ''original.payee_address == refund.payer_address''
      (py_assert (case waiting_transfer s of
                    None \<Rightarrow> True
                  | Some w \<Rightarrow>
                      pairs = [] \<or>
                      (case get_payee_channel m (last pairs) of
                         None \<Rightarrow> True
                       | Some c \<Rightarrow> is_send_transfer_almost_equal c (payee_transfer (last pairs))
                                    (wt_transfer w)))
         ''is_send_transfer_almost_equal''
         (Inr ()))))))"

text \<open>A lock of the task that one of its channels still has.\<close>

definition pair_has_lock :: "channelmap \<Rightarrow> bytes \<Rightarrow> MediationPairState \<Rightarrow> bool" where
  "pair_has_lock m secrethash p \<longleftrightarrow>
     (case get_payer_channel m p of
        None \<Rightarrow> False | Some c \<Rightarrow> is_lock_pending (partner_state c) secrethash) \<or>
     (case get_payee_channel m p of
        None \<Rightarrow> False | Some c \<Rightarrow> is_lock_pending (our_state c) secrethash)"

definition has_pending_lock :: "channelmap \<Rightarrow> MediatorTransferState \<Rightarrow> bool" where
  "has_pending_lock m s \<longleftrightarrow>
     list_ex (pair_has_lock m (mt_secrethash s)) (transfers_pair s) \<or>
     (case waiting_transfer s of
        None \<Rightarrow> False
      | Some w \<Rightarrow>
          (case dict_get m (received_channel (wt_transfer w)) of
             None \<Rightarrow> False
           | Some c \<Rightarrow> is_lock_pending (partner_state c) (mt_secrethash s)))"

definition clear_if_finalized ::
    "MediatorTransferState option \<Rightarrow> channelmap \<Rightarrow> MediatorTransferState option" where
  "clear_if_finalized new_state m =
     (case new_state of
        None \<Rightarrow> None
      | Some s \<Rightarrow> if has_pending_lock m s then Some s else None)"

section \<open>Forwarding and refunding\<close>

text \<open>The channel that is found comes with its key in the map.\<close>

fun next_channel_from_routes ::
    "RouteState list \<Rightarrow> channelmap \<Rightarrow> int \<Rightarrow> int \<Rightarrow> (int \<times> NettingChannelState) option result"
  where
  "next_channel_from_routes [] m transfer_amount lock_timeout = Inr None"
| "next_channel_from_routes (route # routes) m transfer_amount lock_timeout =
     (case dict_get m (route_channel_identifier route) of
        None \<Rightarrow> next_channel_from_routes routes m transfer_amount lock_timeout
      | Some c \<Rightarrow>
          res_bind (is_channel_usable c transfer_amount lock_timeout) (\<lambda>usable.
            if usable then Inr (Some (route_channel_identifier route, c))
            else next_channel_from_routes routes m transfer_amount lock_timeout))"

definition forward_transfer_pair ::
    "libs \<Rightarrow> LockedTransferSignedState \<Rightarrow> RouteState list \<Rightarrow> channelmap \<Rightarrow> prng \<Rightarrow> int
     \<Rightarrow> (MediationPairState option \<times> event list \<times> channelmap \<times> prng) result" where
  "forward_transfer_pair L payer available_routes m g block_number =
     (let lock = lt_lock payer; lock_timeout = lock_expiration lock - block_number in
      res_bind (next_channel_from_routes available_routes m (lock_amount lock) lock_timeout)
        (\<lambda>found.
         case found of
           None \<Rightarrow> Inr (None, [], m, g)
         | Some (key, c) \<Rightarrow>
             py_assert (settle_timeout c \<ge> lock_timeout) ''settle_timeout >= lock_timeout''
             (py_assert (ch_token_address c = lt_token payer) ''token_address == token''
             (let (message_identifier, g') = message_identifier_from_prng L g in
              res_bind (send_lockedtransfer L c (lt_initiator payer) (lt_target payer)
                          (get_lock_amount_after_fees lock c) message_identifier
                          (lt_payment_identifier payer) (lt_payment_hash_invoice payer)
                          (lock_expiration lock) (lock_secrethash lock)) (\<lambda>(event, c').
                Inr (Some (mk_MediationPairState payer (es_address (partner_state c'))
                             (ste_transfer event)),
                     [SendLockedTransfer event], dict_set key c' m, g'))))))"

definition backward_transfer_pair ::
    "libs \<Rightarrow> int \<Rightarrow> NettingChannelState \<Rightarrow> LockedTransferSignedState \<Rightarrow> channelmap \<Rightarrow> prng \<Rightarrow> int
     \<Rightarrow> (MediationPairState option \<times> event list \<times> channelmap \<times> prng) result" where
  "backward_transfer_pair L key c payer m g block_number =
     (let lock = lt_lock payer; lock_timeout = lock_expiration lock - block_number in
      res_bind (is_channel_usable c (lock_amount lock) lock_timeout) (\<lambda>usable.
        if usable
        then let (message_identifier, g') = message_identifier_from_prng L g in
             res_bind (send_refundtransfer L c (lt_initiator payer) (lt_target payer)
                         (get_lock_amount_after_fees lock c) message_identifier
                         (lt_payment_identifier payer) (lock_expiration lock)
                         (lock_secrethash lock)) (\<lambda>(refund, c').
               Inr (Some (mk_MediationPairState payer (es_address (partner_state c'))
                            (ste_transfer refund)),
                    [SendRefundTransfer refund], dict_set key c' m, g'))
        else Inr (None, [], m, g)))"

section \<open>Secrets\<close>

text \<open>An operation on the payer's and then the payee's channel of every pair.\<close>

definition change_pair_channels ::
    "(NettingChannelState \<Rightarrow> NettingChannelState result) \<Rightarrow> MediationPairState \<Rightarrow> channelmap
     \<Rightarrow> (MediationPairState \<times> channelmap) result" where
  "change_pair_channels f p m =
     res_bind (change_channel (received_channel (payer_transfer p)) f m) (\<lambda>m.
     res_bind (change_channel (sent_channel (payee_transfer p)) f m) (\<lambda>m. Inr (p, m)))"

definition set_secret ::
    "(NettingChannelState \<Rightarrow> NettingChannelState result) \<Rightarrow> MediatorTransferState \<Rightarrow> channelmap
     \<Rightarrow> bytes \<Rightarrow> bytes \<Rightarrow> (event list \<times> MediatorTransferState \<times> channelmap) result" where
  "set_secret register s m secret secrethash =
     res_bind (for_each (change_pair_channels register) (transfers_pair s) m) (\<lambda>(_, m).
       case waiting_transfer s of
         None \<Rightarrow> Inr ([], s\<lparr>mt_secret := Some secret\<rparr>, m)
       | Some w \<Rightarrow>
           res_bind (change_channel (received_channel (wt_transfer w)) register m) (\<lambda>m.
             Inr ([EventUnexpectedSecretReveal secrethash WaitingTransfer],
                  s\<lparr>mt_secret := Some secret\<rparr>, m)))"

definition set_offchain_secret ::
    "MediatorTransferState \<Rightarrow> channelmap \<Rightarrow> bytes \<Rightarrow> bytes
     \<Rightarrow> (event list \<times> MediatorTransferState \<times> channelmap) result" where
  "set_offchain_secret s m secret secrethash =
     set_secret (\<lambda>c. Inr (register_offchain_secret c secret secrethash)) s m secret secrethash"

definition set_onchain_secret ::
    "MediatorTransferState \<Rightarrow> channelmap \<Rightarrow> bytes \<Rightarrow> bytes \<Rightarrow> int
     \<Rightarrow> (event list \<times> MediatorTransferState \<times> channelmap) result" where
  "set_onchain_secret s m secret secrethash block_number =
     set_secret (\<lambda>c. register_onchain_secret c secret secrethash block_number True) s m secret
       secrethash"

definition set_offchain_reveal_state ::
    "MediationPairState list \<Rightarrow> bytes \<Rightarrow> MediationPairState list" where
  "set_offchain_reveal_state pairs address =
     map (\<lambda>p. if payee_address p = address then p\<lparr>payee_state := payee_secret_revealed\<rparr> else p) pairs"

section \<open>Events\<close>

text \<open>
  The loops over \<open>get_pending_transfer_pairs\<close> run over all pairs here and skip those that are not
  pending: a pair's states change in its own round only.
\<close>

definition payer_transfer_expired :: "channelmap \<Rightarrow> int \<Rightarrow> MediationPairState \<Rightarrow> bool" where
  "payer_transfer_expired m block_number p \<longleftrightarrow>
     pair_pending p \<and>
     (case get_payer_channel m p of
        None \<Rightarrow> False | Some c \<Rightarrow> is_transfer_expired (payer_transfer p) c block_number)"

definition claim_failed :: "LockedTransferSignedState \<Rightarrow> event" where
  "claim_failed t =
     EventUnlockClaimFailed (lt_payment_identifier t) (lock_secrethash (lt_lock t)) LockExpiredText"

definition events_for_expired_pairs ::
    "channelmap \<Rightarrow> MediationPairState list \<Rightarrow> WaitingTransferState option \<Rightarrow> int
     \<Rightarrow> event list \<times> MediationPairState list \<times> WaitingTransferState option" where
  "events_for_expired_pairs m pairs waiting block_number =
     (let expired = filter (payer_transfer_expired m block_number) pairs;
          pairs' = map (\<lambda>p. if payer_transfer_expired m block_number p
                            then p\<lparr>payer_state := payer_expired\<rparr> else p) pairs;
          events = map (\<lambda>p. claim_failed (payer_transfer p)) expired
      in case waiting of
           None \<Rightarrow> (events, pairs', None)
         | Some w \<Rightarrow>
             if wt_state w \<noteq> WaitingExpired
             then (events @ [claim_failed (wt_transfer w)], pairs',
                   Some (w\<lparr>wt_state := WaitingExpired\<rparr>))
             else (events, pairs', Some w))"

definition reveal_to_payer ::
    "libs \<Rightarrow> bytes \<Rightarrow> MediationPairState \<Rightarrow> prng \<times> event list
     \<Rightarrow> (MediationPairState \<times> prng \<times> event list) result" where
  "reveal_to_payer L secret p = (\<lambda>(g, events).
     if payee_secret_known (payee_state p) \<and> \<not> payer_secret_known (payer_state p) \<and>
        payer_state p = payer_pending
     then let (message_identifier, g') = message_identifier_from_prng L g in
          Inr (p\<lparr>payer_state := payer_secret_revealed\<rparr>, g',
               events @ [SendSecretReveal (mk_SendSecretReveal L
                 (bp_sender (lt_balance_proof (payer_transfer p))) CHANNEL_IDENTIFIER_GLOBAL_QUEUE
                 message_identifier secret)])
     else Inr (p, g, events))"

definition events_for_secretreveal ::
    "libs \<Rightarrow> MediationPairState list \<Rightarrow> bytes \<Rightarrow> prng
     \<Rightarrow> (MediationPairState list \<times> prng \<times> event list) result" where
  "events_for_secretreveal L pairs secret g =
     for_each_reversed (reveal_to_payer L secret) pairs (g, [])"

definition is_safe_to_send_balanceproof ::
    "channelmap \<Rightarrow> MediationPairState \<Rightarrow> int \<Rightarrow> bool result" where
  "is_safe_to_send_balanceproof m p block_number =
     (case get_payer_channel m p of
        None \<Rightarrow> Inr False
      | Some c \<Rightarrow>
          is_safe_to_wait (lock_expiration (lt_lock (payer_transfer p))) (reveal_timeout c)
            block_number)"

definition unlock_payee ::
    "libs \<Rightarrow> int \<Rightarrow> bytes \<Rightarrow> bytes \<Rightarrow> MediationPairState \<Rightarrow> channelmap \<times> prng \<times> event list
     \<Rightarrow> (MediationPairState \<times> channelmap \<times> prng \<times> event list) result" where
  "unlock_payee L block_number secret secrethash p = (\<lambda>(m, g, events).
     res_bind (is_safe_to_send_balanceproof m p block_number) (\<lambda>safe.
       case get_payee_channel m p of
         None \<Rightarrow> Inr (p, m, g, events)
       | Some c \<Rightarrow>
           if get_status c = CHANNEL_STATE_OPENED \<and> payee_secret_known (payee_state p) \<and>
              \<not> payee_paid (payee_state p) \<and> safe
           then let (message_identifier, g') = message_identifier_from_prng L g in
                res_bind (send_unlock L c message_identifier
                            (lt_payment_identifier (payee_transfer p)) secret secrethash False)
                  (\<lambda>(unlock, c').
                   Inr (p\<lparr>payee_state := payee_balance_proof\<rparr>,
                        dict_set (sent_channel (payee_transfer p)) c' m, g',
                        events @ [SendBalanceProof unlock,
                                  EventUnlockSuccess (lt_payment_identifier (payer_transfer p))
                                    (lock_secrethash (lt_lock (payer_transfer p)))]))
           else Inr (p, m, g, events)))"

definition events_for_balanceproof ::
    "libs \<Rightarrow> channelmap \<Rightarrow> MediationPairState list \<Rightarrow> prng \<Rightarrow> int \<Rightarrow> bytes \<Rightarrow> bytes
     \<Rightarrow> (MediationPairState list \<times> channelmap \<times> prng \<times> event list) result" where
  "events_for_balanceproof L m pairs g block_number secret secrethash =
     for_each_reversed (unlock_payee L block_number secret secrethash) pairs (m, g, [])"

definition payer_channels :: "channelmap \<Rightarrow> MediationPairState list \<Rightarrow> NettingChannelState list" where
  "payer_channels m pairs = List.map_filter (get_payer_channel m) pairs"

definition reveal_in_dangerzone ::
    "channelmap \<Rightarrow> int \<Rightarrow> bytes \<Rightarrow> MediationPairState \<Rightarrow> bool \<times> event list
     \<Rightarrow> (MediationPairState \<times> bool \<times> event list) result" where
  "reveal_in_dangerzone m block_number block_hash p = (\<lambda>(transaction_sent, events).
     if \<not> pair_pending p then Inr (p, transaction_sent, events)
     else (case get_payer_channel m p of
       None \<Rightarrow> Inr (p, transaction_sent, events)
     | Some c \<Rightarrow>
         let lock = lt_lock (payer_transfer p) in
         res_bind (is_safe_to_wait (lock_expiration lock) (reveal_timeout c) block_number) (\<lambda>safe.
         if \<not> safe \<and> is_secret_known (partner_state c) (lock_secrethash lock)
         then let p' = p\<lparr>payer_state := payer_waiting_secret_reveal\<rparr> in
              if \<not> transaction_sent
              then (case get_secret (partner_state c) (lock_secrethash lock) of
                      None \<Rightarrow> Inl (AssertionError ''the secret should be known at this point'')
                    | Some secret \<Rightarrow>
                        py_assert (secret \<noteq> []) ''the secret should be known at this point''
                        (Inr (p', True,
                              events @ events_for_onchain_secretreveal c secret
                                         (lock_expiration lock) block_hash)))
              else Inr (p', transaction_sent, events)
         else Inr (p, transaction_sent, events))))"

definition events_for_onchain_secretreveal_if_dangerzone ::
    "channelmap \<Rightarrow> bytes \<Rightarrow> MediationPairState list \<Rightarrow> int \<Rightarrow> bytes
     \<Rightarrow> (MediationPairState list \<times> event list) result" where
  "events_for_onchain_secretreveal_if_dangerzone m secrethash pairs block_number block_hash =
     res_bind (for_each (reveal_in_dangerzone m block_number block_hash) pairs
                (has_secret_registration_started (payer_channels m pairs) pairs secrethash, []))
       (\<lambda>(pairs', _, events). Inr (pairs', events))"

definition reveal_if_closed ::
    "channelmap \<Rightarrow> bytes \<Rightarrow> bytes \<Rightarrow> bytes \<Rightarrow> MediationPairState \<Rightarrow> bool \<times> event list
     \<Rightarrow> (MediationPairState \<times> bool \<times> event list) result" where
  "reveal_if_closed m secret secrethash block_hash p = (\<lambda>(transaction_sent, events).
     if \<not> pair_pending p then Inr (p, transaction_sent, events)
     else (case get_payer_channel m p of
       None \<Rightarrow> Inr (p, transaction_sent, events)
     | Some c \<Rightarrow>
         if get_status c = CHANNEL_STATE_CLOSED
         then let p' = p\<lparr>payer_state := payer_waiting_secret_reveal\<rparr> in
              (case (if transaction_sent then None else get_lock (partner_state c) secrethash) of
                 None \<Rightarrow> Inr (p', transaction_sent, events)
               | Some lock \<Rightarrow>
                   Inr (p', True, events @ events_for_onchain_secretreveal c secret
                                             (lock_expiration lock) block_hash))
         else Inr (p, transaction_sent, events)))"

definition events_for_onchain_secretreveal_if_closed ::
    "channelmap \<Rightarrow> MediationPairState list \<Rightarrow> bytes \<Rightarrow> bytes \<Rightarrow> bytes
     \<Rightarrow> (MediationPairState list \<times> event list) result" where
  "events_for_onchain_secretreveal_if_closed m pairs secret secrethash block_hash =
     res_bind (for_each (reveal_if_closed m secret secrethash block_hash) pairs
                (has_secret_registration_started (payer_channels m pairs) pairs secrethash, []))
       (\<lambda>(pairs', _, events). Inr (pairs', events))"

text \<open>The lock of the task on this node's side: a locked lock or an unlocked one.\<close>

definition sent_lock :: "NettingChannelState \<Rightarrow> bytes \<Rightarrow> HashTimeLockState option result" where
  "sent_lock c secrethash =
     (case dict_get (secrethashes_to_lockedlocks (our_state c)) secrethash of
        Some lock \<Rightarrow>
          py_assert (\<not> dict_has (secrethashes_to_unlockedlocks (our_state c)) secrethash)
            ''secrethash not in secrethashes_to_unlockedlocks'' (Inr (Some lock))
      | None \<Rightarrow>
          Inr (map_option HashTimeLockState.truncate
                 (dict_get (secrethashes_to_unlockedlocks (our_state c)) secrethash)))"

definition remove_expired_lock ::
    "libs \<Rightarrow> bytes \<Rightarrow> int \<Rightarrow> MediationPairState \<Rightarrow> channelmap \<times> prng \<times> event list
     \<Rightarrow> (MediationPairState \<times> channelmap \<times> prng \<times> event list) result" where
  "remove_expired_lock L secrethash block_number p = (\<lambda>(m, g, events).
     case get_payee_channel m p of
       None \<Rightarrow> Inr (p, m, g, events)
     | Some c \<Rightarrow>
         res_bind (sent_lock c secrethash) (\<lambda>found.
           case found of
             None \<Rightarrow> Inr (p, m, g, events)
           | Some lock \<Rightarrow>
               if is_lock_expired (our_state c) lock block_number
                    (get_sender_expiration_threshold lock) = None \<and>
                  get_status c = CHANNEL_STATE_OPENED
               then res_bind (events_for_expired_lock L c lock g) (\<lambda>(expired, c', g').
                      Inr (p\<lparr>payee_state := payee_expired\<rparr>,
                           dict_set (sent_channel (payee_transfer p)) c' m, g',
                           events @ expired @
                             [EventUnlockFailed (lt_payment_identifier (payee_transfer p))
                                (lock_secrethash (lt_lock (payee_transfer p))) LockExpiredText]))
               else Inr (p, m, g, events)))"

definition events_to_remove_expired_locks ::
    "libs \<Rightarrow> MediatorTransferState \<Rightarrow> channelmap \<Rightarrow> int \<Rightarrow> prng
     \<Rightarrow> (MediationPairState list \<times> channelmap \<times> prng \<times> event list) result" where
  "events_to_remove_expired_locks L s m block_number g =
     for_each (remove_expired_lock L (mt_secrethash s) block_number) (transfers_pair s) (m, g, [])"

section \<open>Handlers\<close>

text \<open>The result of a handler: the task's new state, the events, the channels, the generator.\<close>

type_synonym mediator_result =
  "((MediatorTransferState option \<times> event list) \<times> channelmap \<times> prng) result"

definition secret_learned ::
    "libs \<Rightarrow> MediatorTransferState \<Rightarrow> channelmap \<Rightarrow> prng \<Rightarrow> int \<Rightarrow> bytes \<Rightarrow> bytes \<Rightarrow> bytes
     \<Rightarrow> bytes \<Rightarrow> mediator_result" where
  "secret_learned L s m g block_number block_hash secret secrethash address =
     res_bind (set_offchain_secret s m secret secrethash) (\<lambda>(secret_reveal_events, s, m).
     let pairs = set_offchain_reveal_state (transfers_pair s) address in
     res_bind (events_for_onchain_secretreveal_if_closed m pairs secret secrethash block_hash)
       (\<lambda>(pairs, onchain_secret_reveal).
     res_bind (events_for_secretreveal L pairs secret g) (\<lambda>(pairs, g, offchain_secret_reveal).
     res_bind (events_for_balanceproof L m pairs g block_number secret secrethash)
       (\<lambda>(pairs, m, g, balance_proof).
       Inr ((Some (s\<lparr>transfers_pair := pairs\<rparr>),
             secret_reveal_events @ offchain_secret_reveal @ balance_proof @ onchain_secret_reveal),
            m, g)))))"

text \<open>
  The payer's channel is given with its key.  Where no new pair could be made the transfer waits.
\<close>

definition mediate_transfer ::
    "libs \<Rightarrow> MediatorTransferState \<Rightarrow> RouteState list \<Rightarrow> int \<Rightarrow> NettingChannelState \<Rightarrow> channelmap
     \<Rightarrow> (bytes, network_state) dict \<Rightarrow> prng \<Rightarrow> LockedTransferSignedState \<Rightarrow> int
     \<Rightarrow> mediator_result" where
  "mediate_transfer L s possible_routes payer_key payer_channel m states g payer block_number =
     (let available_routes =
        filter_used_routes (transfers_pair s) (filter_reachable_routes possible_routes states)
      in py_assert (es_address (partner_state payer_channel) = bp_sender (lt_balance_proof payer))
           ''payer_channel.partner_state.address == payer_transfer.balance_proof.sender''
      (res_bind (forward_transfer_pair L payer available_routes m g block_number)
        (\<lambda>(forwarded, events, m, g).
         res_bind
           (case forwarded of
              Some pair \<Rightarrow> Inr (Some pair, events, m, g)
            | None \<Rightarrow>
                (case (case transfers_pair s of
                         [] \<Rightarrow> Some (payer_key, payer_channel)
                       | original # _ \<Rightarrow>
                           map_option (Pair (received_channel (payer_transfer original)))
                             (get_payer_channel m original)) of
                   None \<Rightarrow> Inr (None, [], m, g)
                 | Some (key, c) \<Rightarrow> backward_transfer_pair L key c payer m g block_number))
           (\<lambda>(pair, events, m, g).
            case pair of
              None \<Rightarrow>
                Inr ((Some (s\<lparr>waiting_transfer := Some \<lparr>wt_transfer = payer, wt_state = Waiting\<rparr>\<rparr>), []),
                     m, g)
            | Some p \<Rightarrow>
                Inr ((Some (s\<lparr>transfers_pair := transfers_pair s @ [p]\<rparr>), events), m, g)))))"

text \<open>The storage that \<open>handle_init\<close> hands to the channel is None.\<close>

definition handle_init ::
    "libs \<Rightarrow> int \<Rightarrow> RouteState list \<Rightarrow> RouteState \<Rightarrow> LockedTransferSignedState \<Rightarrow> channelmap
     \<Rightarrow> (bytes, network_state) dict \<Rightarrow> prng \<Rightarrow> int \<Rightarrow> mediator_result" where
  "handle_init L now routes from_route from_transfer m states g block_number =
     (let key = route_channel_identifier from_route in
      case dict_get m key of
        None \<Rightarrow> Inr ((None, []), m, g)
      | Some payer_channel \<Rightarrow>
          res_bind (handle_receive_lockedtransfer L now payer_channel from_transfer None)
            (\<lambda>(outcome, payer_channel, _).
             let m = dict_set key payer_channel m in
             if out_msg outcome \<noteq> None then Inr ((None, out_events outcome), m, g)
             else res_bind (mediate_transfer L
                    (mk_MediatorTransferState (lock_secrethash (lt_lock from_transfer)) routes)
                    routes key payer_channel m states g from_transfer block_number)
                  (\<lambda>((s, events), m, g). Inr ((s, out_events outcome @ events), m, g))))"

definition handle_block_mediator ::
    "libs \<Rightarrow> MediatorTransferState \<Rightarrow> int \<Rightarrow> bytes \<Rightarrow> channelmap \<Rightarrow> prng \<Rightarrow> mediator_result" where
  "handle_block_mediator L s block_number block_hash m g =
     res_bind (events_to_remove_expired_locks L s m block_number g)
       (\<lambda>(pairs, m, g, expired_locks_events).
     res_bind (events_for_onchain_secretreveal_if_dangerzone m (mt_secrethash s) pairs block_number
                 block_hash) (\<lambda>(pairs, secret_reveal_events).
     case events_for_expired_pairs m pairs (waiting_transfer s) block_number of
       (unlock_fail_events, pairs, waiting) \<Rightarrow>
         Inr ((Some (s\<lparr>transfers_pair := pairs, waiting_transfer := waiting\<rparr>),
               unlock_fail_events @ secret_reveal_events @ expired_locks_events), m, g)))"

definition handle_refundtransfer_mediator ::
    "libs \<Rightarrow> int \<Rightarrow> MediatorTransferState \<Rightarrow> ReceiveTransferRefund \<Rightarrow> channelmap
     \<Rightarrow> (bytes, network_state) dict \<Rightarrow> prng \<Rightarrow> int \<Rightarrow> mediator_result" where
  "handle_refundtransfer_mediator L now s refund m states g block_number =
     (if mt_secret s \<noteq> None then Inr ((Some s, []), m, g)
      else res_bind (py_last (transfers_pair s)) (\<lambda>pair.
        let payer = rtr_transfer refund; key = received_channel payer in
        case dict_get m key of
          None \<Rightarrow> Inr ((Some s, []), m, g)
        | Some payer_channel \<Rightarrow>
            res_bind (handle_refundtransfer L now (payee_transfer pair) payer_channel refund)
              (\<lambda>((channel_events, msg), payer_channel).
               let m = dict_set key payer_channel m in
               if msg \<noteq> None then Inr ((Some s, channel_events), m, g)
               else res_bind (mediate_transfer L s (rtr_routes refund) key payer_channel m states g
                                payer block_number)
                      (\<lambda>((s, events), m, g). Inr ((s, channel_events @ events), m, g)))))"

definition handle_offchain_secretreveal_mediator ::
    "libs \<Rightarrow> MediatorTransferState \<Rightarrow> ReceiveSecretReveal \<Rightarrow> channelmap \<Rightarrow> prng \<Rightarrow> int \<Rightarrow> bytes
     \<Rightarrow> mediator_result" where
  "handle_offchain_secretreveal_mediator L s reveal m g block_number block_hash =
     (let is_valid_reveal =
        is_valid_secret_reveal (rsr_secrethash reveal) (mt_secrethash s) (rsr_secret reveal)
      in res_bind (py_last (transfers_pair s)) (\<lambda>pair.
         case get_payer_channel m pair of
           None \<Rightarrow> Inr ((Some s, []), m, g)
         | Some payer_channel \<Rightarrow>
             if mt_secret s = None \<and> is_valid_reveal \<and>
                \<not> is_transfer_expired (payer_transfer pair) payer_channel block_number
             then secret_learned L s m g block_number block_hash (rsr_secret reveal)
                    (rsr_secrethash reveal) (rsr_sender reveal)
             else Inr ((Some s, []), m, g)))"

definition handle_onchain_secretreveal_mediator ::
    "libs \<Rightarrow> MediatorTransferState \<Rightarrow> ContractReceiveSecretReveal \<Rightarrow> channelmap \<Rightarrow> prng
     \<Rightarrow> mediator_result" where
  "handle_onchain_secretreveal_mediator L s reveal m g =
     (let secret = csr_secret reveal; secrethash = csr_secrethash reveal;
          block_number = csr_block_number reveal
      in if is_valid_secret_reveal secrethash (mt_secrethash s) secret
         then res_bind (set_onchain_secret s m secret secrethash block_number)
                (\<lambda>(secret_reveal, s, m).
              res_bind (events_for_balanceproof L m (transfers_pair s) g block_number secret
                          secrethash) (\<lambda>(pairs, m, g, balance_proof).
                Inr ((Some (s\<lparr>transfers_pair := pairs\<rparr>), secret_reveal @ balance_proof), m, g)))
         else Inr ((Some s, []), m, g))"

definition claim_from_payer ::
    "libs \<Rightarrow> ReceiveUnlock \<Rightarrow> MediationPairState \<Rightarrow> channelmap \<times> event list
     \<Rightarrow> (MediationPairState \<times> channelmap \<times> event list) result" where
  "claim_from_payer L unlock p = (\<lambda>(m, events).
     let sender = bp_sender (ru_balance_proof unlock);
         key = channel_identifier (bp_canonical_identifier (ru_balance_proof unlock))
     in if bp_sender (lt_balance_proof (payer_transfer p)) \<noteq> sender then Inr (p, m, events)
        else (case dict_get m key of
          None \<Rightarrow> Inr (p, m, events)
        | Some c \<Rightarrow>
            res_bind (handle_unlock L c unlock) (\<lambda>((channel_events, msg), c').
              if msg = None
              then Inr (p\<lparr>payer_state := payer_balance_proof\<rparr>, dict_set key c' m,
                        events @ channel_events @
                        [EventUnlockClaimSuccess (lt_payment_identifier (payee_transfer p))
                           (lock_secrethash (lt_lock (payee_transfer p))),
                         SendProcessed sender CHANNEL_IDENTIFIER_GLOBAL_QUEUE
                           (ru_message_identifier unlock)])
              else Inr (p, dict_set key c' m, events @ channel_events))))"

definition handle_unlock_mediator ::
    "libs \<Rightarrow> MediatorTransferState \<Rightarrow> ReceiveUnlock \<Rightarrow> channelmap \<Rightarrow> prng \<Rightarrow> mediator_result" where
  "handle_unlock_mediator L s unlock m g =
     res_bind (for_each (claim_from_payer L unlock) (transfers_pair s) (m, []))
       (\<lambda>(pairs, m, events). Inr ((Some (s\<lparr>transfers_pair := pairs\<rparr>), events), m, g))"

text \<open>
  The loop over the pairs returns from the handler, without events, at a pair whose payer channel
  is gone; what the earlier rounds changed stays.  The flag says whether that has happened.
\<close>

definition expire_from_payer ::
    "libs \<Rightarrow> bytes \<Rightarrow> ReceiveLockExpired \<Rightarrow> int \<Rightarrow> MediationPairState
     \<Rightarrow> bool \<times> channelmap \<times> event list
     \<Rightarrow> (MediationPairState \<times> bool \<times> channelmap \<times> event list) result" where
  "expire_from_payer L secrethash sc block_number p = (\<lambda>(returned, m, events).
     if returned then Inr (p, returned, m, events)
     else (case get_payer_channel m p of
       None \<Rightarrow> Inr (p, True, m, [])
     | Some c \<Rightarrow>
         res_bind (handle_receive_lock_expired L c sc block_number) (\<lambda>(channel_events, c').
           Inr (if get_lock (partner_state c') secrethash = None
                then p\<lparr>payer_state := payer_expired\<rparr> else p,
                False, dict_set (received_channel (payer_transfer p)) c' m,
                events @ channel_events))))"

definition handle_lock_expired_mediator ::
    "libs \<Rightarrow> MediatorTransferState \<Rightarrow> ReceiveLockExpired \<Rightarrow> channelmap \<Rightarrow> prng \<Rightarrow> int
     \<Rightarrow> mediator_result" where
  "handle_lock_expired_mediator L s sc m g block_number =
     res_bind (for_each (expire_from_payer L (mt_secrethash s) sc block_number)
                 (transfers_pair s) (False, m, [])) (\<lambda>(pairs, returned, m, events).
       let s = s\<lparr>transfers_pair := pairs\<rparr> in
       if returned then Inr ((Some s, []), m, g)
       else (case waiting_transfer s of
         None \<Rightarrow> Inr ((Some s, events), m, g)
       | Some w \<Rightarrow>
           (case dict_get m (received_channel (wt_transfer w)) of
              None \<Rightarrow> Inr ((Some s, events), m, g)
            | Some c \<Rightarrow>
                res_bind (handle_receive_lock_expired L c sc block_number) (\<lambda>(channel_events, c').
                  Inr ((Some s, events @ channel_events),
                       dict_set (received_channel (wt_transfer w)) c' m, g)))))"

definition handle_node_change_network_state ::
    "libs \<Rightarrow> MediatorTransferState \<Rightarrow> bytes \<Rightarrow> network_state \<Rightarrow> channelmap \<Rightarrow> prng \<Rightarrow> int
     \<Rightarrow> mediator_result" where
  "handle_node_change_network_state L s node_address state m g block_number =
     (if state \<noteq> NODE_NETWORK_REACHABLE then Inr ((Some s, []), m, g)
      else (case find (\<lambda>r. route_node_address r = node_address) (mt_routes s) of
        None \<Rightarrow> Inr ((Some s, []), m, g)
      | Some route \<Rightarrow>
          (case waiting_transfer s of
             None \<Rightarrow> Inr ((Some s, []), m, g)
           | Some w \<Rightarrow>
               let payer_key = received_channel (wt_transfer w) in
               (case (dict_get m (route_channel_identifier route), dict_get m payer_key) of
                  (Some payee_channel, Some payer_channel) \<Rightarrow>
                    if get_status payee_channel \<noteq> CHANNEL_STATE_OPENED then Inr ((Some s, []), m, g)
                    else mediate_transfer L s [route] payer_key payer_channel m
                           [(node_address, state)] g (wt_transfer w) block_number
                | _ \<Rightarrow> Inr ((Some s, []), m, g)))))"

text \<open>
  \<open>now\<close> is the time that the invoice handler reads.  A state change of another class, and an
  \<open>ActionInitMediator\<close> for a task that runs, leave the task as it is.
\<close>

definition dispatch_mediator ::
    "libs \<Rightarrow> int \<Rightarrow> MediatorTransferState option \<Rightarrow> state_change \<Rightarrow> channelmap
     \<Rightarrow> (bytes, network_state) dict \<Rightarrow> prng \<Rightarrow> int \<Rightarrow> bytes \<Rightarrow> mediator_result" where
  "dispatch_mediator L now state sc m states g block_number block_hash =
     (let running = (\<lambda>msg handler. case state of
                       None \<Rightarrow> Inl (AssertionError msg) | Some s \<Rightarrow> handler s)
      in case sc of
           ActionInitMediator routes from_route from_transfer \<Rightarrow>
             (case state of
                None \<Rightarrow> handle_init L now routes from_route from_transfer m states g block_number
              | Some s \<Rightarrow> Inr ((state, []), m, g))
         | Block n _ h \<Rightarrow>
             running ''Block should be accompanied by a valid mediator state''
               (\<lambda>s. handle_block_mediator L s n h m g)
         | ReceiveTransferRefundChange refund \<Rightarrow>
             running ''ReceiveTransferRefund should be accompanied by a valid mediator state''
               (\<lambda>s. handle_refundtransfer_mediator L now s refund m states g block_number)
         | ReceiveSecretRevealChange reveal \<Rightarrow>
             running ''ReceiveSecretReveal should be accompanied by a valid mediator state''
               (\<lambda>s. handle_offchain_secretreveal_mediator L s reveal m g block_number block_hash)
         | ContractReceiveSecretRevealChange reveal \<Rightarrow>
             running ''ContractReceiveSecretReveal should be accompanied by a valid mediator state''
               (\<lambda>s. handle_onchain_secretreveal_mediator L s reveal m g)
         | ReceiveUnlockChange unlock \<Rightarrow>
             running ''ReceiveUnlock should be accompanied by a valid mediator state''
               (\<lambda>s. handle_unlock_mediator L s unlock m g)
         | ReceiveLockExpiredChange expired \<Rightarrow>
             running ''ReceiveLockExpired should be accompanied by a valid mediator state''
               (\<lambda>s. handle_lock_expired_mediator L s expired m g block_number)
         | ActionChangeNodeNetworkState address network \<Rightarrow>
             running ''ActionChangeNodeNetworkState should be accompanied by a valid mediator state''
               (\<lambda>s. handle_node_change_network_state L s address network m g block_number)
         | _ \<Rightarrow> Inr ((state, []), m, g))"

definition state_transition_mediator ::
    "libs \<Rightarrow> int \<Rightarrow> MediatorTransferState option \<Rightarrow> state_change \<Rightarrow> channelmap
     \<Rightarrow> (bytes, network_state) dict \<Rightarrow> prng \<Rightarrow> int \<Rightarrow> bytes \<Rightarrow> mediator_result" where
  "state_transition_mediator L now state sc m states g block_number block_hash =
     res_bind (dispatch_mediator L now state sc m states g block_number block_hash)
       (\<lambda>((new_state, events), m, g).
         res_bind (case new_state of None \<Rightarrow> Inr () | Some s \<Rightarrow> sanity_check s m) (\<lambda>_.
           Inr ((clear_if_finalized new_state m, events), m, g)))"

end
