(* ===== verification/MediatorFacts.thy ===== *)
theory MediatorFacts
  imports Mediator ChannelTasks
begin

text \<open>
  What the mediator's steps do: to its channels (every operation is a step of the channel it is
  applied to, so it keeps every law of the channels), to its pairs, and which locks it adds.
\<close>

section \<open>Routes\<close>

lemma channelid_to_route_get:
  "dict_get (fold (\<lambda>r d. dict_set (route_channel_identifier r) r d) rs d) k = Some r \<Longrightarrow>
     (r \<in> set rs \<and> route_channel_identifier r = k) \<or> dict_get d k = Some r"
proof (induction rs arbitrary: d)
  case (Cons r0 rs)
  from Cons.IH [of "dict_set (route_channel_identifier r0) r0 d"] Cons.prems
  show ?case by (auto simp: update_conv' split: if_splits)
qed simp

lemma channelid_to_route_ok:
  "dict_ok d \<Longrightarrow> dict_ok (fold (\<lambda>r d. dict_set (route_channel_identifier r) r d) rs d)"
  by (induction rs arbitrary: d) simp_all

lemma fold_del_subset:
  "set (fold (\<lambda>p d. dict_del (f p) (dict_del (g p) d)) ps d) \<subseteq> set d"
proof (induction ps arbitrary: d)
  case (Cons p ps)
  from Cons.IH [of "dict_del (f p) (dict_del (g p) d)"] show ?case
    using dict_del_subset [of "f p" "dict_del (g p) d"] dict_del_subset [of "g p" d] by auto
qed simp

lemma fold_del_keys:
  "dict_keys (fold (\<lambda>p d. dict_del (f p) (dict_del (g p) d)) ps d) =
     dict_keys d - (f ` set ps \<union> g ` set ps)"
  by (induction ps arbitrary: d) (auto simp: dict_keys_del)

lemma filter_used_routes_set:
  assumes "r \<in> set (filter_used_routes pairs routes)"
  shows "r \<in> set routes"
    "route_channel_identifier r \<notin> (sent_channel \<circ> payee_transfer) ` set pairs"
    "route_channel_identifier r \<notin> (received_channel \<circ> payer_transfer) ` set pairs"
proof -
  define d where "d = fold (\<lambda>p d. dict_del (sent_channel (payee_transfer p))
    (dict_del (received_channel (payer_transfer p)) d)) pairs (channelid_to_route routes)"
  from assms obtain k where k: "(k, r) \<in> set d"
    by (auto simp: filter_used_routes_def d_def)
  then have "(k, r) \<in> set (channelid_to_route routes)"
    using fold_del_subset [of "\<lambda>p. sent_channel (payee_transfer p)"
        "\<lambda>p. received_channel (payer_transfer p)" pairs "channelid_to_route routes"]
    by (auto simp: d_def)
  then have "dict_get (channelid_to_route routes) k = Some r"
    using channelid_to_route_ok [of "[]" routes]
    by (simp add: dict_get_iff channelid_to_route_def)
  then have r: "r \<in> set routes \<and> route_channel_identifier r = k"
    using channelid_to_route_get [of routes "[]" k r] by (simp add: channelid_to_route_def)
  moreover have "k \<in> dict_keys d" using k by force
  ultimately show "r \<in> set routes"
    "route_channel_identifier r \<notin> (sent_channel \<circ> payee_transfer) ` set pairs"
    "route_channel_identifier r \<notin> (received_channel \<circ> payer_transfer) ` set pairs"
    by (auto simp: d_def fold_del_keys)
qed

lemma next_channel_from_routes_Some:
  assumes "next_channel_from_routes routes m amount timeout = Inr (Some (k, c))"
  shows "dict_get m k = Some c" "k \<in> route_channel_identifier ` set routes"
    "is_channel_usable c amount timeout = Inr True"
  using assms by (induction routes) (auto simp: res_simps split: option.splits if_splits)

section \<open>The hash of a task\<close>

text \<open>All transfers of a task have its secrethash.\<close>

definition pair_hash :: "bytes \<Rightarrow> MediationPairState \<Rightarrow> bool" where
  "pair_hash h p \<longleftrightarrow>
     lock_secrethash (lt_lock (payer_transfer p)) = h \<and>
     lock_secrethash (lt_lock (payee_transfer p)) = h"

definition task_hash :: "MediatorTransferState \<Rightarrow> bool" where
  "task_hash s \<longleftrightarrow>
     list_all (pair_hash (mt_secrethash s)) (transfers_pair s) \<and>
     (case waiting_transfer s of
        None \<Rightarrow> True | Some w \<Rightarrow> lock_secrethash (lt_lock (wt_transfer w)) = mt_secrethash s)"

text \<open>
  Only the payee channels of the task have a lock of its secrethash on this node's side, and the
  first payer has not been refunded.
\<close>

definition payee_keys :: "MediatorTransferState \<Rightarrow> int set" where
  "payee_keys s = (sent_channel \<circ> payee_transfer) ` set (transfers_pair s)"

definition hash_unused :: "channelmap \<Rightarrow> MediatorTransferState \<Rightarrow> bool" where
  "hash_unused m s \<longleftrightarrow>
     list_all (\<lambda>(k, c). k \<in> payee_keys s \<or> \<not> is_lock_pending (our_state c) (mt_secrethash s)) m \<and>
     (case transfers_pair s of
        [] \<Rightarrow> True | p # _ \<Rightarrow> received_channel (payer_transfer p) \<notin> payee_keys s)"

lemma hash_unusedD:
  "hash_unused m s \<Longrightarrow> dict_get m k = Some c \<Longrightarrow> k \<notin> payee_keys s
   \<Longrightarrow> \<not> is_lock_pending (our_state c) (mt_secrethash s)"
  by (fastforce simp: hash_unused_def list_all_iff dest: map_of_SomeD)

text \<open>A received transfer whose lock its channel does not have yet.\<close>

definition transfer_fresh :: "libs \<Rightarrow> channelmap \<Rightarrow> LockedTransferSignedState \<Rightarrow> bool" where
  "transfer_fresh L m t \<longleftrightarrow>
     lock_ok L (lt_lock t) \<and>
     (case dict_get m (received_channel t) of
        None \<Rightarrow> True
      | Some c \<Rightarrow> \<not> is_lock_pending (partner_state c) (lock_secrethash (lt_lock t)))"

section \<open>Channels\<close>

text \<open>The channel of an accepted transfer is the one that the transfer names.\<close>

lemma accepted_channel:
  assumes "is_valid_lockedtransfer L now t c (partner_state c) (our_state c) st = Inr (Inr x, st')"
  shows "received_channel t = ch_identifier c"
  using assms
  by (cases x) (auto simp: is_valid_lockedtransfer_def lockedtransfer_iff usable_iff)

lemma accepted_refund_channel:
  assumes "is_valid_refund L now r c (partner_state c) (our_state c) original = Inr (Inr tree)"
  shows "received_channel (rtr_transfer r) = ch_identifier c"
    "refund_transfer_matches_transfer (rtr_transfer r) original"
  using assms by (auto simp: refund_iff lockedtransfer_iff usable_iff)

text \<open>What forwarding and refunding do: nothing, or one transfer in one channel.\<close>

lemma forward_transfer_cases:
  assumes "forward_transfer_pair L t routes m g n = Inr (pair, evs, m', g')"
  obtains (none) "next_channel_from_routes routes m (lock_amount (lt_lock t))
      (lock_expiration (lt_lock t) - n) = Inr None" "pair = None" "evs = []" "m' = m" "g' = g"
  | (sent) k c e c' where
    "next_channel_from_routes routes m (lock_amount (lt_lock t)) (lock_expiration (lt_lock t) - n)
       = Inr (Some (k, c))"
    "ch_token_address c = lt_token t"
    "send_lockedtransfer L c (lt_initiator t) (lt_target t) (get_lock_amount_after_fees (lt_lock t) c)
       (randint64 L g) (lt_payment_identifier t) (lt_payment_hash_invoice t)
       (lock_expiration (lt_lock t)) (lock_secrethash (lt_lock t)) = Inr (e, c')"
    "pair = Some (mk_MediationPairState t (es_address (partner_state c')) (ste_transfer e))"
    "evs = [SendLockedTransfer e]" "m' = dict_set k c' m" "g' = Suc g"
proof -
  from assms obtain found where found: "next_channel_from_routes routes m (lock_amount (lt_lock t))
      (lock_expiration (lt_lock t) - n) = Inr found"
    by (auto simp: forward_transfer_pair_def Let_def res_bind_Inr)
  show thesis
  proof (cases found)
    case None
    show ?thesis
      by (rule none) (use assms found None in \<open>simp_all add: forward_transfer_pair_def Let_def\<close>)
  next
    case (Some x)
    obtain k c where x: "x = (k, c)" by (cases x)
    from assms found Some x obtain e c' where *: "ch_token_address c = lt_token t"
      "send_lockedtransfer L c (lt_initiator t) (lt_target t) (get_lock_amount_after_fees (lt_lock t) c)
         (randint64 L g) (lt_payment_identifier t) (lt_payment_hash_invoice t)
         (lock_expiration (lt_lock t)) (lock_secrethash (lt_lock t)) = Inr (e, c')"
      "pair = Some (mk_MediationPairState t (es_address (partner_state c')) (ste_transfer e))"
      "evs = [SendLockedTransfer e]" "m' = dict_set k c' m" "g' = Suc g"
      by (auto simp: forward_transfer_pair_def Let_def res_bind_Inr py_assert_Inr
          message_identifier_from_prng_def)
    show ?thesis by (rule sent [OF _ *]) (use found Some x in simp)
  qed
qed

lemma backward_transfer_cases:
  assumes "backward_transfer_pair L k c t m g n = Inr (pair, evs, m', g')"
  obtains (none) "is_channel_usable c (lock_amount (lt_lock t)) (lock_expiration (lt_lock t) - n)
      = Inr False" "pair = None" "evs = []" "m' = m" "g' = g"
  | (sent) e c' where
    "is_channel_usable c (lock_amount (lt_lock t)) (lock_expiration (lt_lock t) - n) = Inr True"
    "send_refundtransfer L c (lt_initiator t) (lt_target t) (get_lock_amount_after_fees (lt_lock t) c)
       (randint64 L g) (lt_payment_identifier t) (lock_expiration (lt_lock t))
       (lock_secrethash (lt_lock t)) = Inr (e, c')"
    "pair = Some (mk_MediationPairState t (es_address (partner_state c')) (ste_transfer e))"
    "evs = [SendRefundTransfer e]" "m' = dict_set k c' m" "g' = Suc g"
proof -
  from assms obtain usable where
    usable: "is_channel_usable c (lock_amount (lt_lock t)) (lock_expiration (lt_lock t) - n) = Inr usable"
    by (auto simp: backward_transfer_pair_def Let_def res_bind_Inr)
  show thesis
  proof (cases usable)
    case False
    show ?thesis
      by (rule none) (use assms usable False in \<open>simp_all add: backward_transfer_pair_def Let_def\<close>)
  next
    case True
    with assms usable obtain e c' where *:
      "send_refundtransfer L c (lt_initiator t) (lt_target t) (get_lock_amount_after_fees (lt_lock t) c)
         (randint64 L g) (lt_payment_identifier t) (lock_expiration (lt_lock t))
         (lock_secrethash (lt_lock t)) = Inr (e, c')"
      "pair = Some (mk_MediationPairState t (es_address (partner_state c')) (ste_transfer e))"
      "evs = [SendRefundTransfer e]" "m' = dict_set k c' m" "g' = Suc g"
      by (auto simp: backward_transfer_pair_def Let_def res_bind_Inr message_identifier_from_prng_def)
    show ?thesis by (rule sent [OF _ *]) (use usable True in simp)
  qed
qed

text \<open>The routes that are left for a transfer, and the channel a transfer goes back on.\<close>

definition open_routes ::
    "MediatorTransferState \<Rightarrow> RouteState list \<Rightarrow> (bytes, network_state) dict \<Rightarrow> RouteState list" where
  "open_routes s routes states =
     filter_used_routes (transfers_pair s) (filter_reachable_routes routes states)"

definition refund_channel ::
    "MediatorTransferState \<Rightarrow> channelmap \<Rightarrow> int \<Rightarrow> NettingChannelState
     \<Rightarrow> (int \<times> NettingChannelState) option" where
  "refund_channel s m key c =
     (case transfers_pair s of
        [] \<Rightarrow> Some (key, c)
      | original # _ \<Rightarrow>
          map_option (Pair (received_channel (payer_transfer original))) (get_payer_channel m original))"

definition wait_for :: "LockedTransferSignedState \<Rightarrow> WaitingTransferState" where
  "wait_for t = \<lparr>wt_transfer = t, wt_state = Waiting\<rparr>"

lemma mediate_transfer_cases:
  assumes "mediate_transfer L s routes key c m states g t n = Inr ((s', evs), m', g')"
  obtains (forwarded) p where
    "forward_transfer_pair L t (open_routes s routes states) m g n = Inr (Some p, evs, m', g')"
    "s' = Some (s\<lparr>transfers_pair := transfers_pair s @ [p]\<rparr>)"
  | (refunded) k rc p where
    "forward_transfer_pair L t (open_routes s routes states) m g n = Inr (None, [], m, g)"
    "refund_channel s m key c = Some (k, rc)"
    "backward_transfer_pair L k rc t m g n = Inr (Some p, evs, m', g')"
    "s' = Some (s\<lparr>transfers_pair := transfers_pair s @ [p]\<rparr>)"
  | (waits)
    "forward_transfer_pair L t (open_routes s routes states) m g n = Inr (None, [], m, g)"
    "case refund_channel s m key c of None \<Rightarrow> True
     | Some (k, rc) \<Rightarrow> backward_transfer_pair L k rc t m g n = Inr (None, [], m, g)"
    "s' = Some (s\<lparr>waiting_transfer := Some (wait_for t)\<rparr>)" "evs = []" "m' = m" "g' = g"
proof -
  note run = assms [unfolded mediate_transfer_def Let_def py_assert_Inr, folded open_routes_def
      refund_channel_def wait_for_def]
  from run obtain forwarded evs1 m1 g1 where
    fwd: "forward_transfer_pair L t (open_routes s routes states) m g n = Inr (forwarded, evs1, m1, g1)"
    by (auto simp: res_bind_Inr)
  show thesis
  proof (cases forwarded)
    case (Some p)
    show ?thesis by (rule that(1)) (use run fwd Some in auto)
  next
    case None
    then have same: "evs1 = [] \<and> m1 = m \<and> g1 = g"
      using fwd by (elim forward_transfer_cases) auto
    show ?thesis
    proof (cases "refund_channel s m key c")
      case none: None
      show ?thesis by (rule that(3)) (use run fwd None same none in auto)
    next
      case (Some x)
      obtain k rc where x: "x = (k, rc)" by (cases x)
      from run fwd None same Some x obtain pair evs2 m2 g2 where
        bwd: "backward_transfer_pair L k rc t m g n = Inr (pair, evs2, m2, g2)"
        by (auto simp: res_bind_Inr)
      show ?thesis
      proof (cases pair)
        case no: None
        then have "evs2 = [] \<and> m2 = m \<and> g2 = g"
          using bwd by (elim backward_transfer_cases) auto
        then show ?thesis by (intro that(3)) (use run fwd None same Some x bwd no in auto)
      next
        case p: (Some p)
        show ?thesis by (rule that(2)) (use run fwd None same Some x bwd p in auto)
      qed
    qed
  qed
qed

context channel_law
begin

lemma set_secret_all:
  assumes "channels_all P m" "set_secret register s m secret h = Inr (evs, s', m')"
    and keep: "\<And>k c c'. P k c \<Longrightarrow> register c = Inr c' \<Longrightarrow> P k c'"
  shows "channels_all P m'"
proof -
  from assms(2) obtain pairs m1 where
    loop: "for_each (change_pair_channels register) (transfers_pair s) m = Inr (pairs, m1)"
    by (cases "for_each (change_pair_channels register) (transfers_pair s) m")
      (auto simp: set_secret_def)
  have all: "channels_all P m1 \<and> list_all2 (\<lambda>p p'. True) (transfers_pair s) pairs"
    using loop assms(1)
  proof (rule for_each_invariant)
    fix p m p' m'
    assume "channels_all P m" "change_pair_channels register p m = Inr (p', m')"
    then show "channels_all P m' \<and> True"
      by (auto simp: change_pair_channels_def res_bind_Inr intro: change_all [OF _ _ keep])
  qed
  show ?thesis
  proof (cases "waiting_transfer s")
    case None
    with assms(2) loop all show ?thesis by (simp add: set_secret_def)
  next
    case (Some w)
    with assms(2) loop have "change_channel (received_channel (wt_transfer w)) register m1 = Inr m'"
      by (cases "change_channel (received_channel (wt_transfer w)) register m1")
        (simp_all add: set_secret_def)
    then show ?thesis using all change_all keep by blast
  qed
qed

lemma set_offchain_secret_all:
  "channels_all P m \<Longrightarrow> set_offchain_secret s m secret h = Inr (evs, s', m') \<Longrightarrow> channels_all P m'"
  unfolding set_offchain_secret_def by (erule set_secret_all) (auto intro: offchain)

lemma set_onchain_secret_all:
  "channels_all P m \<Longrightarrow> set_onchain_secret s m secret h n = Inr (evs, s', m') \<Longrightarrow> channels_all P m'"
  unfolding set_onchain_secret_def by (erule set_secret_all) (auto intro: onchain)

lemma unlock_payee_all:
  assumes "channels_all P m" "unlock_payee L n secret h p (m, g, evs) = Inr (p', m', g', evs')"
  shows "channels_all P m'"
proof (cases "get_payee_channel m p")
  case None
  with assms show ?thesis by (auto simp: unlock_payee_def res_bind_Inr)
next
  case (Some c)
  then have "P (sent_channel (payee_transfer p)) c"
    using channels_allD [OF assms(1)] by (simp add: get_payee_channel_def)
  with assms Some show ?thesis
    by (auto simp: unlock_payee_def res_bind_Inr message_identifier_from_prng_def
        intro!: channels_all_set intro: unlock split: if_splits)
qed

lemma events_for_balanceproof_all:
  assumes "channels_all P m"
    and "events_for_balanceproof L m pairs g n secret h = Inr (pairs', m', g', evs)"
  shows "channels_all P m'"
proof -
  have "(case (m', g', evs) of (m, _) \<Rightarrow> channels_all P m) \<and> list_all2 (\<lambda>p p'. True) pairs pairs'"
    using assms(2) [unfolded events_for_balanceproof_def]
    by (rule for_each_reversed_invariant) (auto simp: assms(1) dest: unlock_payee_all)
  then show ?thesis by simp
qed

lemma sent_lock_get:
  assumes "P k c" "sent_lock c h = Inr (Some lock)"
  shows "get_lock (our_state c) (lock_secrethash lock) = Some lock"
proof -
  let ?e = "our_state c"
  have get: "get_lock ?e h = Some lock"
  proof (cases "dict_get (secrethashes_to_lockedlocks ?e) h")
    case None
    with assms(2) obtain p where "dict_get (secrethashes_to_unlockedlocks ?e) h = Some p"
      "lock = HashTimeLockState.truncate p"
      by (auto simp: sent_lock_def)
    moreover from this have "HashTimeLockState.truncate p = pp_lock p"
      using copies [OF assms(1)] all_copies_get by (auto simp: copies_ok_def)
    ultimately show ?thesis using None by (simp add: get_lock_def)
  qed (use assms(2) in \<open>auto simp: sent_lock_def res_simps get_lock_def\<close>)
  moreover have "maps_ok ?e" using sound [OF assms(1)] end_okD(1) channel_okD(1) by blast
  ultimately show ?thesis using get_lock_SomeD(1) [of ?e h lock] by simp
qed

lemma remove_expired_lock_all:
  assumes "channels_all P m" "remove_expired_lock L h n p (m, g, evs) = Inr (p', m', g', evs')"
  shows "channels_all P m'"
proof (cases "get_payee_channel m p")
  case None
  with assms show ?thesis by (simp add: remove_expired_lock_def)
next
  case (Some c)
  then have c: "P (sent_channel (payee_transfer p)) c"
    using channels_allD [OF assms(1)] by (simp add: get_payee_channel_def)
  from assms(2) Some obtain found where found: "sent_lock c h = Inr found"
    by (auto simp: remove_expired_lock_def res_bind_Inr)
  show ?thesis
  proof (cases found)
    case None
    with assms Some found show ?thesis by (simp add: remove_expired_lock_def)
  next
    case lock: (Some lock)
    with assms(1) assms(2) Some found show ?thesis
      using sent_lock_get [OF c found [unfolded lock]]
      by (auto simp: remove_expired_lock_def res_bind_Inr split: if_splits
          intro!: channels_all_set intro: expired [OF c])
  qed
qed

lemma events_to_remove_expired_locks_all:
  assumes "channels_all P m" "events_to_remove_expired_locks L s m n g = Inr (pairs', m', g', evs)"
  shows "channels_all P m'"
proof -
  have "(case (m', g', evs) of (m, _) \<Rightarrow> channels_all P m) \<and>
      list_all2 (\<lambda>p p'. True) (transfers_pair s) pairs'"
    using assms(2) [unfolded events_to_remove_expired_locks_def]
    by (rule for_each_invariant) (auto simp: assms(1) dest: remove_expired_lock_all)
  then show ?thesis by simp
qed

lemma secret_learned_all:
  assumes "channels_all P m"
    and "secret_learned L s m g n bh secret h address = Inr ((s', evs), m', g')"
  shows "channels_all P m'"
proof -
  from assms(2) obtain evs1 s1 m1 pairs g1 pairs' g2 evs' where
    "set_offchain_secret s m secret h = Inr (evs1, s1, m1)"
    "events_for_balanceproof L m1 pairs g1 n secret h = Inr (pairs', m', g2, evs')"
    by (auto simp: secret_learned_def Let_def res_bind_Inr)
  then show ?thesis
    using set_offchain_secret_all [OF assms(1)] events_for_balanceproof_all by blast
qed

lemma handle_block_all:
  assumes "channels_all P m" "handle_block_mediator L s n bh m g = Inr ((s', evs), m', g')"
  shows "channels_all P m'"
proof -
  from assms(2) obtain pairs g1 evs1 where
    "events_to_remove_expired_locks L s m n g = Inr (pairs, m', g1, evs1)"
    by (auto simp: handle_block_mediator_def res_bind_Inr case_prod_beta)
  then show ?thesis by (rule events_to_remove_expired_locks_all [OF assms(1)])
qed

lemma handle_onchain_secretreveal_all:
  assumes "channels_all P m" "handle_onchain_secretreveal_mediator L s reveal m g = Inr ((s', evs), m', g')"
  shows "channels_all P m'"
proof (cases "is_valid_secret_reveal (csr_secrethash reveal) (mt_secrethash s) (csr_secret reveal)")
  case True
  with assms(2) obtain evs1 s1 m1 where
    "set_onchain_secret s m (csr_secret reveal) (csr_secrethash reveal) (csr_block_number reveal)
       = Inr (evs1, s1, m1)"
    "\<exists>pairs g' evs'. events_for_balanceproof L m1 (transfers_pair s1) g (csr_block_number reveal)
       (csr_secret reveal) (csr_secrethash reveal) = Inr (pairs, m', g', evs')"
    by (auto simp: handle_onchain_secretreveal_mediator_def Let_def res_bind_Inr)
  then show ?thesis
    using set_onchain_secret_all [OF assms(1)] events_for_balanceproof_all by blast
qed (use assms in \<open>simp add: handle_onchain_secretreveal_mediator_def Let_def\<close>)

lemma handle_offchain_secretreveal_all:
  assumes "channels_all P m"
    and "handle_offchain_secretreveal_mediator L s reveal m g n bh = Inr ((s', evs), m', g')"
  shows "channels_all P m'"
proof -
  from assms(2) consider "m' = m"
    | "secret_learned L s m g n bh (rsr_secret reveal) (rsr_secrethash reveal) (rsr_sender reveal)
        = Inr ((s', evs), m', g')"
    unfolding handle_offchain_secretreveal_mediator_def Let_def res_bind_Inr
    by (elim exE conjE) (auto split: option.splits if_splits)
  then show ?thesis using assms(1) secret_learned_all [OF assms(1)] by cases blast+
qed

lemma claim_from_payer_all:
  assumes "channels_all P m" "claim_from_payer L u p (m, evs) = Inr (p', m', evs')"
  shows "channels_all P m'"
  using assms
  by (auto simp: claim_from_payer_def Let_def res_bind_Inr split: if_splits option.splits
      intro!: channels_all_set intro: got_unlock channels_allD)

lemma handle_unlock_all:
  assumes "channels_all P m" "handle_unlock_mediator L s u m g = Inr ((s', evs), m', g')"
  shows "channels_all P m'"
proof -
  from assms(2) obtain pairs where
    "for_each (claim_from_payer L u) (transfers_pair s) (m, []) = Inr (pairs, m', evs)"
    by (auto simp: handle_unlock_mediator_def res_bind_Inr)
  then have "(case (m', evs) of (m, _) \<Rightarrow> channels_all P m) \<and>
      list_all2 (\<lambda>p p'. True) (transfers_pair s) pairs"
    by (rule for_each_invariant) (auto simp: assms(1) dest: claim_from_payer_all)
  then show ?thesis by simp
qed

lemma expire_from_payer_all:
  assumes "channels_all P m" "expire_from_payer L h sc n p (r, m, evs) = Inr (p', r', m', evs')"
  shows "channels_all P m'"
  using assms
  by (auto simp: expire_from_payer_def get_payer_channel_def res_bind_Inr split: if_splits option.splits
      intro!: channels_all_set intro: got_expired channels_allD)

lemma handle_lock_expired_all:
  assumes "channels_all P m" "handle_lock_expired_mediator L s sc m g n = Inr ((s', evs), m', g')"
  shows "channels_all P m'"
proof -
  from assms(2) obtain pairs returned m1 evs1 where
    loop: "for_each (expire_from_payer L (mt_secrethash s) sc n) (transfers_pair s) (False, m, [])
      = Inr (pairs, returned, m1, evs1)"
    by (auto simp: handle_lock_expired_mediator_def res_bind_Inr)
  then have "(case (returned, m1, evs1) of (_, m, _) \<Rightarrow> channels_all P m) \<and>
      list_all2 (\<lambda>p p'. True) (transfers_pair s) pairs"
    by (rule for_each_invariant) (auto simp: assms(1) dest: expire_from_payer_all)
  then have all: "channels_all P m1" by simp
  note run = assms(2) [unfolded handle_lock_expired_mediator_def loop Let_def res_bind_simps prod.case]
  show ?thesis
  proof (cases "returned \<or> waiting_transfer s = None")
    case True
    with run all show ?thesis by (cases returned) auto
  next
    case False
    then obtain w where w: "\<not> returned" "waiting_transfer s = Some w" by auto
    let ?k = "received_channel (wt_transfer w)"
    show ?thesis
    proof (cases "dict_get m1 ?k")
      case None
      with run w all show ?thesis by simp
    next
      case (Some c)
      with run w obtain evs' c' where "handle_receive_lock_expired L c sc n = Inr (evs', c')"
        "m' = dict_set ?k c' m1"
        by (auto simp: res_bind_Inr)
      then show ?thesis
        using channels_all_set [OF all] got_expired [OF channels_allD [OF all Some]] by blast
    qed
  qed
qed

lemma forward_transfer_all:
  assumes "channels_all P m"
    and "\<And>k c. k \<in> route_channel_identifier ` set routes \<Longrightarrow> dict_get m k = Some c
           \<Longrightarrow> \<not> is_lock_pending (our_state c) (lock_secrethash (lt_lock t))"
    and "forward_transfer_pair L t routes m g n = Inr (pair, evs, m', g')"
  shows "channels_all P m'"
  using assms(3)
proof (cases rule: forward_transfer_cases)
  case (sent k c e c')
  note found = next_channel_from_routes_Some [OF sent(1)]
  have "P k c'"
    by (rule transfer [OF channels_allD [OF assms(1) found(1)] assms(2) [OF found(2,1)] sent(3)])
  then show ?thesis using sent(6) channels_all_set [OF assms(1)] by simp
qed (use assms(1) in simp)

lemma backward_transfer_all:
  assumes "channels_all P m" "P k c" "\<not> is_lock_pending (our_state c) (lock_secrethash (lt_lock t))"
    and "backward_transfer_pair L k c t m g n = Inr (pair, evs, m', g')"
  shows "channels_all P m'"
  using assms(4)
proof (cases rule: backward_transfer_cases)
  case (sent e c')
  have "P k c'" by (rule refund [OF assms(2,3) sent(2)])
  then show ?thesis using sent(5) channels_all_set [OF assms(1)] by simp
qed (use assms(1) in simp)

lemma mediate_transfer_all:
  assumes all: "channels_all P m" and c: "dict_get m key = Some c"
    and h: "lock_secrethash (lt_lock t) = mt_secrethash s" and unused: "hash_unused m s"
    and run: "mediate_transfer L s routes key c m states g t n = Inr ((s', evs), m', g')"
  shows "channels_all P m'"
proof -
  have fresh: "\<not> is_lock_pending (our_state c) (lock_secrethash (lt_lock t))"
    if "k \<in> route_channel_identifier ` set (open_routes s routes states)" "dict_get m k = Some c" for k c
    using that(1) filter_used_routes_set(2) hash_unusedD [OF unused that(2)] h
    unfolding open_routes_def payee_keys_def by auto
  have returned: "P k rc \<and> \<not> is_lock_pending (our_state rc) (lock_secrethash (lt_lock t))"
    if "refund_channel s m key c = Some (k, rc)" for k rc
  proof -
    have rc: "dict_get m k = Some rc \<and> k \<notin> payee_keys s"
      using that c unused
      by (auto simp: refund_channel_def get_payer_channel_def hash_unused_def payee_keys_def
          split: list.splits)
    then show ?thesis using channels_allD [OF all] hash_unusedD [OF unused] h by auto
  qed
  from run show ?thesis
  proof (cases rule: mediate_transfer_cases)
    case forwarded
    from forward_transfer_all [OF all fresh forwarded(1)] show ?thesis .
  next
    case (refunded k rc)
    with returned [OF refunded(2)] backward_transfer_all [OF all] show ?thesis by blast
  qed (use all in simp)
qed

end

end
