(* ===== verification/MediatorInvariant.thy ===== *)
theory MediatorInvariant
  imports MediatorFacts
begin

text \<open>
  The whole mediator step: the invariant of a mediator's state, that every step keeps it, and that
  every step keeps the laws of the channels.
\<close>

section \<open>Sent transfers\<close>

lemma created_transfer_fields:
  assumes "create_sendlockedtransfer L c i t amount m p ph x h = Inr (e, tree)"
  shows "lt_payment_identifier (ste_transfer e) = p \<and> lt_token (ste_transfer e) = ch_token_address c \<and>
    lt_initiator (ste_transfer e) = i \<and> lt_target (ste_transfer e) = t \<and>
    lock_amount (lt_lock (ste_transfer e)) = amount \<and>
    lock_expiration (lt_lock (ste_transfer e)) = x \<and>
    lock_secrethash (lt_lock (ste_transfer e)) = h \<and>
    bp_canonical_identifier (lt_balance_proof (ste_transfer e)) = ch_canonical_identifier c"
proof -
  have "lt_payment_identifier (ste_transfer e) = p \<and> lt_token (ste_transfer e) = ch_token_address c \<and>
      lt_initiator (ste_transfer e) = i \<and> lt_target (ste_transfer e) = t"
    using assms
    by (auto simp: create_sendlockedtransfer_def Let_def res_simps mk_LockedTransferUnsignedState_def
        split: option.splits if_splits)
  moreover have "lock_amount (lt_lock (ste_transfer e)) = amount \<and>
      lock_expiration (lt_lock (ste_transfer e)) = x \<and> lock_secrethash (lt_lock (ste_transfer e)) = h \<and>
      bp_canonical_identifier (lt_balance_proof (ste_transfer e)) = ch_canonical_identifier c"
    using assms by (elim create_sendlockedtransferD) (auto dest: mk_lock_sel)
  ultimately show ?thesis by simp
qed

lemma sent_transfer_fields:
  assumes "send_lockedtransfer L c i t amount m p ph x h = Inr (e, c')"
  shows "lt_payment_identifier (ste_transfer e) = p \<and> lt_token (ste_transfer e) = ch_token_address c \<and>
    lt_initiator (ste_transfer e) = i \<and> lt_target (ste_transfer e) = t \<and>
    lock_amount (lt_lock (ste_transfer e)) = amount \<and>
    lock_expiration (lt_lock (ste_transfer e)) = x \<and>
    lock_secrethash (lt_lock (ste_transfer e)) = h \<and>
    sent_channel (ste_transfer e) = ch_identifier c"
  using assms created_transfer_fields
  by (fastforce simp: send_lockedtransfer_def res_bind_Inr Let_def)

lemma sent_refund_fields:
  assumes "send_refundtransfer L c i t amount m p x h = Inr (e, c')"
  shows "lt_payment_identifier (ste_transfer e) = p \<and> lt_token (ste_transfer e) = ch_token_address c \<and>
    lt_initiator (ste_transfer e) = i \<and> lt_target (ste_transfer e) = t \<and>
    lock_amount (lt_lock (ste_transfer e)) = amount \<and>
    lock_expiration (lt_lock (ste_transfer e)) = x \<and>
    lock_secrethash (lt_lock (ste_transfer e)) = h \<and>
    sent_channel (ste_transfer e) = ch_identifier c"
  using assms created_transfer_fields
  by (fastforce simp: send_refundtransfer_def res_bind_Inr Let_def py_assert_Inr refund_from_sendmediated_def)

section \<open>The invariant\<close>

text \<open>The two transfers of a pair belong to the same payment.\<close>

definition pair_ok :: "bytes \<Rightarrow> MediationPairState \<Rightarrow> bool" where
  "pair_ok h p \<longleftrightarrow>
     pair_hash h p \<and>
     lt_payment_identifier (payee_transfer p) = lt_payment_identifier (payer_transfer p) \<and>
     lt_initiator (payee_transfer p) = lt_initiator (payer_transfer p) \<and>
     lt_target (payee_transfer p) = lt_target (payer_transfer p) \<and>
     lock_expiration (lt_lock (payee_transfer p)) = lock_expiration (lt_lock (payer_transfer p))"

text \<open>An end of a pair counts as knowing the secret only where the task knows it.\<close>

definition pair_unrevealed :: "MediationPairState \<Rightarrow> bool" where
  "pair_unrevealed p \<longleftrightarrow>
     \<not> payee_secret_known (payee_state p) \<and> \<not> payer_secret_known (payer_state p)"

definition mediator_ok :: "libs \<Rightarrow> MediatorTransferState \<Rightarrow> bool" where
  "mediator_ok L s \<longleftrightarrow>
     list_all (pair_ok (mt_secrethash s)) (transfers_pair s) \<and>
     (case waiting_transfer s of
        None \<Rightarrow> True | Some w \<Rightarrow> lock_secrethash (lt_lock (wt_transfer w)) = mt_secrethash s) \<and>
     (case mt_secret s of
        None \<Rightarrow> list_all pair_unrevealed (transfers_pair s)
      | Some secret \<Rightarrow> keccak L secret = mt_secrethash s \<and> secret \<noteq> EMPTY_HASH)"

lemma mediator_ok_hash: "mediator_ok L s \<Longrightarrow> task_hash s"
  by (auto simp: mediator_ok_def task_hash_def pair_ok_def list_all_iff split: option.splits)

lemma new_mediator_ok: "mediator_ok L (mk_MediatorTransferState h routes)"
  by (simp add: mediator_ok_def mk_MediatorTransferState_def)

text \<open>What a step does to a pair: it keeps its transfers, and the states move.\<close>

definition same_transfers :: "MediationPairState \<Rightarrow> MediationPairState \<Rightarrow> bool" where
  "same_transfers p p' \<longleftrightarrow>
     payee_address p' = payee_address p \<and> payee_transfer p' = payee_transfer p \<and>
     payer_transfer p' = payer_transfer p"

definition not_revealing :: "MediationPairState \<Rightarrow> MediationPairState \<Rightarrow> bool" where
  "not_revealing p p' \<longleftrightarrow>
     same_transfers p p' \<and>
     (payee_secret_known (payee_state p') \<longrightarrow> payee_secret_known (payee_state p)) \<and>
     (payer_secret_known (payer_state p') \<longrightarrow> payer_secret_known (payer_state p))"

definition claiming :: "MediationPairState \<Rightarrow> MediationPairState \<Rightarrow> bool" where
  "claiming p p' \<longleftrightarrow>
     same_transfers p p' \<and> payee_state p' = payee_state p \<and>
     (payer_state p' = payer_state p \<or> payer_state p' = payer_balance_proof)"

lemma move_refl [simp]: "same_transfers p p" "not_revealing p p" "claiming p p"
  by (simp_all add: same_transfers_def not_revealing_def claiming_def)

lemma same_transfers_trans: "same_transfers p q \<Longrightarrow> same_transfers q r \<Longrightarrow> same_transfers p r"
  by (simp add: same_transfers_def)

lemma not_revealing_trans: "not_revealing p q \<Longrightarrow> not_revealing q r \<Longrightarrow> not_revealing p r"
  by (simp add: not_revealing_def same_transfers_def
      del: payee_secret_known.simps payer_secret_known.simps)

lemma pairs_ok_same:
  "list_all2 same_transfers ps ps' \<Longrightarrow> list_all (pair_ok h) ps \<Longrightarrow> list_all (pair_ok h) ps'"
  by (induction rule: list_all2_induct) (auto simp: same_transfers_def pair_ok_def pair_hash_def)

lemma pairs_unrevealed:
  "list_all2 not_revealing ps ps' \<Longrightarrow> list_all pair_unrevealed ps \<Longrightarrow> list_all pair_unrevealed ps'"
  by (induction rule: list_all2_induct) (auto simp: not_revealing_def pair_unrevealed_def)

lemma pairs_unclaimed:
  "list_all2 claiming ps ps' \<Longrightarrow> list_all pair_unrevealed ps \<Longrightarrow>
     \<not> list_ex (\<lambda>p. payee_paid (payee_state p) \<or> payer_paid (payer_state p)) ps' \<Longrightarrow>
     list_all pair_unrevealed ps'"
proof (induction rule: list_all2_induct)
  case (Cons p ps p' ps')
  then have "pair_unrevealed p'"
    by (auto simp: claiming_def pair_unrevealed_def)
  with Cons show ?case by simp
qed simp

text \<open>What a step does to the task as a whole, for a relation on its pairs.\<close>

definition task_moves ::
    "(MediationPairState \<Rightarrow> MediationPairState \<Rightarrow> bool) \<Rightarrow> MediatorTransferState
     \<Rightarrow> MediatorTransferState \<Rightarrow> bool" where
  "task_moves R s s' \<longleftrightarrow>
     mt_secrethash s' = mt_secrethash s \<and> mt_routes s' = mt_routes s \<and>
     list_all2 R (transfers_pair s) (transfers_pair s') \<and>
     map_option wt_transfer (waiting_transfer s') = map_option wt_transfer (waiting_transfer s)"

lemma task_moves_refl: "(\<And>p. R p p) \<Longrightarrow> task_moves R s s"
  by (simp add: task_moves_def list.rel_refl)

lemma task_moves_mono: "task_moves R s s' \<Longrightarrow> (\<And>p p'. R p p' \<Longrightarrow> Q p p') \<Longrightarrow> task_moves Q s s'"
  by (auto simp: task_moves_def elim: list_all2_mono)

section \<open>Moves of the loops\<close>

lemma for_each_pairs:
  assumes "for_each f ps x = Inr (ps', x')"
    and "\<And>p x p' x'. f p x = Inr (p', x') \<Longrightarrow> R p p'"
  shows "list_all2 R ps ps'"
  using for_each_invariant [OF assms(1), of "\<lambda>_. True" R] assms(2) by blast

lemma for_each_reversed_pairs:
  assumes "for_each_reversed f ps x = Inr (ps', x')"
    and "\<And>p x p' x'. f p x = Inr (p', x') \<Longrightarrow> R p p'"
  shows "list_all2 R ps ps'"
  using for_each_reversed_invariant [OF assms(1), of "\<lambda>_. True" R] assms(2) by blast

lemma remove_expired_lock_pair:
  assumes "remove_expired_lock L h n p x = Inr (p', x')"
  shows "p' = p \<or> p' = p\<lparr>payee_state := payee_expired\<rparr>"
proof -
  obtain m g evs where x: "x = (m, g, evs)" by (metis prod_cases3)
  show ?thesis
  proof (cases "get_payee_channel m p")
    case None
    with assms show ?thesis by (simp add: x remove_expired_lock_def)
  next
    case (Some c)
    with assms obtain found where found: "sent_lock c h = Inr found"
      by (auto simp: x remove_expired_lock_def res_bind_Inr)
    with assms Some show ?thesis
      by (cases found) (auto simp: x remove_expired_lock_def res_bind_Inr split: if_splits)
  qed
qed

lemma reveal_in_dangerzone_pair:
  assumes "reveal_in_dangerzone m n bh p x = Inr (p', x')"
  shows "p' = p \<or> p' = p\<lparr>payer_state := payer_waiting_secret_reveal\<rparr>"
proof -
  obtain sent evs where x: "x = (sent, evs)" by (cases x)
  show ?thesis
  proof (cases "get_payer_channel m p")
    case None
    with assms show ?thesis by (auto simp: x reveal_in_dangerzone_def split: if_splits)
  next
    case (Some c)
    with assms show ?thesis
      by (cases "get_secret (partner_state c) (lock_secrethash (lt_lock (payer_transfer p)))"; cases sent)
        (auto simp: x reveal_in_dangerzone_def Let_def res_bind_Inr py_assert_Inr split: if_splits)
  qed
qed

lemma not_revealing_states:
  "not_revealing p (p\<lparr>payee_state := payee_expired\<rparr>)"
  "not_revealing p (p\<lparr>payer_state := payer_waiting_secret_reveal\<rparr>)"
  "not_revealing p (p\<lparr>payer_state := payer_expired\<rparr>)"
  by (simp_all add: not_revealing_def same_transfers_def)

lemma events_to_remove_expired_locks_pairs:
  assumes "events_to_remove_expired_locks L s m n g = Inr (pairs, m', g', evs)"
  shows "list_all2 not_revealing (transfers_pair s) pairs"
  using assms [unfolded events_to_remove_expired_locks_def]
  by (rule for_each_pairs) (use remove_expired_lock_pair not_revealing_states move_refl in blast)

lemma dangerzone_pairs:
  assumes "events_for_onchain_secretreveal_if_dangerzone m h pairs n bh = Inr (pairs', evs)"
  shows "list_all2 not_revealing pairs pairs'"
proof -
  from assms obtain x where "for_each (reveal_in_dangerzone m n bh) pairs
       (has_secret_registration_started (payer_channels m pairs) pairs h, []) = Inr (pairs', x)"
    by (auto simp: events_for_onchain_secretreveal_if_dangerzone_def res_bind_Inr)
  then show ?thesis
    by (rule for_each_pairs) (use reveal_in_dangerzone_pair not_revealing_states move_refl in blast)
qed

lemma expired_pairs:
  assumes "events_for_expired_pairs m pairs w n = (evs, pairs', w')"
  shows "list_all2 not_revealing pairs pairs' \<and> map_option wt_transfer w' = map_option wt_transfer w"
  using assms
  by (auto simp: events_for_expired_pairs_def Let_def list_all2_conv_all_nth not_revealing_def
      same_transfers_def split: option.splits if_splits)

lemma handle_block_moves:
  assumes "handle_block_mediator L s n bh m g = Inr ((s', evs), m', g')"
  obtains t where "s' = Some t" "mt_secret t = mt_secret s" "task_moves not_revealing s t"
proof -
  from assms obtain pairs g1 evs1 pairs2 evs2 where
    1: "events_to_remove_expired_locks L s m n g = Inr (pairs, m', g1, evs1)" and
    2: "events_for_onchain_secretreveal_if_dangerzone m' (mt_secrethash s) pairs n bh = Inr (pairs2, evs2)"
    by (auto simp: handle_block_mediator_def res_bind_Inr case_prod_beta)
  obtain evs3 pairs3 w where
    3: "events_for_expired_pairs m' pairs2 (waiting_transfer s) n = (evs3, pairs3, w)"
    by (metis prod_cases3)
  have "list_all2 not_revealing (transfers_pair s) pairs3"
    using events_to_remove_expired_locks_pairs [OF 1] dangerzone_pairs [OF 2] expired_pairs [OF 3]
      list_all2_trans [of not_revealing not_revealing not_revealing] not_revealing_trans by meson
  with expired_pairs [OF 3] show thesis
    by (intro that [of "s\<lparr>transfers_pair := pairs3, waiting_transfer := w\<rparr>"])
      (use assms 1 2 3 in \<open>simp_all add: handle_block_mediator_def task_moves_def\<close>)
qed

lemma reveal_if_closed_pair:
  assumes "reveal_if_closed m secret h bh p x = Inr (p', x')"
  shows "p' = p \<or> p' = p\<lparr>payer_state := payer_waiting_secret_reveal\<rparr>"
proof -
  obtain sent evs where x: "x = (sent, evs)" by (cases x)
  show ?thesis
  proof (cases "get_payer_channel m p")
    case None
    with assms show ?thesis by (auto simp: x reveal_if_closed_def split: if_splits)
  next
    case (Some c)
    with assms show ?thesis
      by (cases "get_lock (partner_state c) h"; cases sent)
        (auto simp: x reveal_if_closed_def Let_def split: if_splits)
  qed
qed

lemma reveal_to_payer_pair:
  "reveal_to_payer L secret p x = Inr (p', x') \<Longrightarrow>
     p' = p \<or> p' = p\<lparr>payer_state := payer_secret_revealed\<rparr>"
  by (cases x) (auto simp: reveal_to_payer_def message_identifier_from_prng_def split: if_splits)

lemma unlock_payee_pair:
  assumes "unlock_payee L n secret h p x = Inr (p', x')"
  shows "p' = p \<or> p' = p\<lparr>payee_state := payee_balance_proof\<rparr>"
proof -
  obtain m g evs where x: "x = (m, g, evs)" by (metis prod_cases3)
  from assms obtain safe where "is_safe_to_send_balanceproof m p n = Inr safe"
    by (auto simp: x unlock_payee_def res_bind_Inr)
  with assms show ?thesis
    by (cases "get_payee_channel m p")
      (auto simp: x unlock_payee_def message_identifier_from_prng_def res_bind_Inr split: if_splits)
qed

lemma same_transfers_states:
  "same_transfers p (p\<lparr>payee_state := a\<rparr>)" "same_transfers p (p\<lparr>payer_state := b\<rparr>)"
  by (simp_all add: same_transfers_def)

lemma events_for_balanceproof_pairs:
  "events_for_balanceproof L m pairs g n secret h = Inr (pairs', m', g', evs) \<Longrightarrow>
     list_all2 same_transfers pairs pairs'"
  unfolding events_for_balanceproof_def
  by (erule for_each_reversed_pairs) (use unlock_payee_pair same_transfers_states move_refl in blast)

lemma events_for_secretreveal_pairs:
  "events_for_secretreveal L pairs secret g = Inr (pairs', g', evs) \<Longrightarrow>
     list_all2 same_transfers pairs pairs'"
  unfolding events_for_secretreveal_def
  by (erule for_each_reversed_pairs) (use reveal_to_payer_pair same_transfers_states move_refl in blast)

lemma if_closed_pairs:
  assumes "events_for_onchain_secretreveal_if_closed m pairs secret h bh = Inr (pairs', evs)"
  shows "list_all2 same_transfers pairs pairs'"
proof -
  from assms obtain x where "for_each (reveal_if_closed m secret h bh) pairs
       (has_secret_registration_started (payer_channels m pairs) pairs h, []) = Inr (pairs', x)"
    by (auto simp: events_for_onchain_secretreveal_if_closed_def res_bind_Inr)
  then show ?thesis
    by (rule for_each_pairs) (use reveal_if_closed_pair same_transfers_states move_refl in blast)
qed

lemma set_secret_task:
  assumes "set_secret register s m secret h = Inr (evs, s', m')"
  shows "s' = s\<lparr>mt_secret := Some secret\<rparr>"
proof -
  from assms obtain x where loop: "for_each (change_pair_channels register) (transfers_pair s) m = Inr x"
    by (cases "for_each (change_pair_channels register) (transfers_pair s) m") (auto simp: set_secret_def)
  obtain ps m1 where x: "x = (ps, m1)" by (cases x)
  show ?thesis
  proof (cases "waiting_transfer s")
    case None
    with assms loop x show ?thesis by (simp add: set_secret_def)
  next
    case (Some w)
    with assms loop x show ?thesis
      by (cases "change_channel (received_channel (wt_transfer w)) register m1")
        (simp_all add: set_secret_def)
  qed
qed

lemma set_offchain_reveal_state_pairs:
  "list_all2 same_transfers pairs (set_offchain_reveal_state pairs address)"
  by (simp add: set_offchain_reveal_state_def list_all2_conv_all_nth same_transfers_def)

lemma same_transfers_chain:
  "list_all2 same_transfers ps qs \<Longrightarrow> list_all2 same_transfers qs rs \<Longrightarrow> list_all2 same_transfers ps rs"
  using list_all2_trans [of same_transfers same_transfers same_transfers] same_transfers_trans by blast

lemma secret_learned_moves:
  assumes "secret_learned L s m g n bh secret h address = Inr ((s', evs), m', g')"
  obtains t where "s' = Some t" "mt_secret t = Some secret" "task_moves same_transfers s t"
proof -
  from assms obtain evs1 s1 m1 pairs1 evs2 pairs2 g2 evs3 pairs3 g3 evs4 where *:
    "set_offchain_secret s m secret h = Inr (evs1, s1, m1)"
    "events_for_onchain_secretreveal_if_closed m1 (set_offchain_reveal_state (transfers_pair s1) address)
       secret h bh = Inr (pairs1, evs2)"
    "events_for_secretreveal L pairs1 secret g = Inr (pairs2, g2, evs3)"
    "events_for_balanceproof L m1 pairs2 g2 n secret h = Inr (pairs3, m', g3, evs4)"
    "s' = Some (s1\<lparr>transfers_pair := pairs3\<rparr>)"
    by (auto simp: secret_learned_def Let_def res_bind_Inr)
  have s1: "s1 = s\<lparr>mt_secret := Some secret\<rparr>"
    using set_secret_task * by (simp add: set_offchain_secret_def)
  have "list_all2 same_transfers (transfers_pair s) pairs3"
    using set_offchain_reveal_state_pairs [of "transfers_pair s1" address] if_closed_pairs [OF *(2)]
      events_for_secretreveal_pairs [OF *(3)] events_for_balanceproof_pairs [OF *(4)] s1
    by (auto intro: same_transfers_chain)
  then show thesis
    by (intro that [OF *(5)]) (simp_all add: s1 task_moves_def)
qed

lemma handle_offchain_secretreveal_moves:
  assumes "handle_offchain_secretreveal_mediator L s reveal m g n bh = Inr ((s', evs), m', g')"
  obtains (ignored) "s' = Some s" "evs = []" "m' = m" "g' = g"
  | (learned) t where "s' = Some t" "mt_secret t = Some (rsr_secret reveal)"
    "task_moves same_transfers s t" "rsr_secrethash reveal = mt_secrethash s"
    "rsr_secret reveal \<noteq> EMPTY_HASH" "mt_secret s = None"
    "secret_learned L s m g n bh (rsr_secret reveal) (rsr_secrethash reveal) (rsr_sender reveal)
       = Inr ((s', evs), m', g')"
proof -
  from assms obtain p where last: "py_last (transfers_pair s) = Inr p"
    by (cases "py_last (transfers_pair s)") (simp_all add: handle_offchain_secretreveal_mediator_def)
  note run = assms [unfolded handle_offchain_secretreveal_mediator_def last Let_def res_bind_simps]
  let ?valid = "is_valid_secret_reveal (rsr_secrethash reveal) (mt_secrethash s) (rsr_secret reveal)"
  show thesis
  proof (cases "\<exists>c. get_payer_channel m p = Some c \<and> mt_secret s = None \<and> ?valid \<and>
      \<not> is_transfer_expired (payer_transfer p) c n")
    case True
    with run have lrn: "secret_learned L s m g n bh (rsr_secret reveal) (rsr_secrethash reveal)
        (rsr_sender reveal) = Inr ((s', evs), m', g')" and ?valid and "mt_secret s = None"
      by auto
    from secret_learned_moves [OF lrn] obtain t where
      "s' = Some t" "mt_secret t = Some (rsr_secret reveal)" "task_moves same_transfers s t" .
    then show ?thesis
      by (rule learned) (use lrn \<open>?valid\<close> \<open>mt_secret s = None\<close> in \<open>simp_all add: is_valid_secret_reveal_def\<close>)
  next
    case False
    then have "s' = Some s \<and> evs = [] \<and> m' = m \<and> g' = g"
      using run by (cases "get_payer_channel m p") (auto split: if_splits)
    then show ?thesis by (intro ignored) simp_all
  qed
qed

lemma handle_onchain_secretreveal_moves:
  assumes "handle_onchain_secretreveal_mediator L s reveal m g = Inr ((s', evs), m', g')"
  obtains (ignored) "s' = Some s" "evs = []" "m' = m" "g' = g"
  | (learned) t where "s' = Some t" "mt_secret t = Some (csr_secret reveal)"
    "task_moves same_transfers s t" "csr_secrethash reveal = mt_secrethash s"
    "csr_secret reveal \<noteq> EMPTY_HASH"
proof (cases "is_valid_secret_reveal (csr_secrethash reveal) (mt_secrethash s) (csr_secret reveal)")
  case False
  show ?thesis
    by (rule ignored) (use assms False in \<open>simp_all add: handle_onchain_secretreveal_mediator_def Let_def\<close>)
next
  case True
  with assms obtain evs1 s1 m1 pairs evs2 where *:
    "set_onchain_secret s m (csr_secret reveal) (csr_secrethash reveal) (csr_block_number reveal)
       = Inr (evs1, s1, m1)"
    "events_for_balanceproof L m1 (transfers_pair s1) g (csr_block_number reveal) (csr_secret reveal)
       (csr_secrethash reveal) = Inr (pairs, m', g', evs2)"
    "s' = Some (s1\<lparr>transfers_pair := pairs\<rparr>)"
    by (auto simp: handle_onchain_secretreveal_mediator_def Let_def res_bind_Inr)
  have s1: "s1 = s\<lparr>mt_secret := Some (csr_secret reveal)\<rparr>"
    using set_secret_task * by (simp add: set_onchain_secret_def)
  show ?thesis
    by (rule learned [OF *(3)])
      (use s1 True events_for_balanceproof_pairs [OF *(2)] in
        \<open>simp_all add: task_moves_def is_valid_secret_reveal_def\<close>)
qed

lemma claim_from_payer_pair:
  assumes "claim_from_payer L u p x = Inr (p', x')" shows "claiming p p'"
proof -
  obtain m evs where x: "x = (m, evs)" by (cases x)
  let ?k = "channel_identifier (bp_canonical_identifier (ru_balance_proof u))"
  show ?thesis
  proof (cases "bp_sender (lt_balance_proof (payer_transfer p)) \<noteq> bp_sender (ru_balance_proof u) \<or>
      dict_get m ?k = None")
    case True
    with assms show ?thesis by (auto simp: x claim_from_payer_def Let_def split: option.splits)
  next
    case False
    then obtain c where c: "dict_get m ?k = Some c" by auto
    note run = assms [unfolded x claim_from_payer_def Let_def prod.case c option.case]
    obtain out where "handle_unlock L c u = Inr out"
      using run False by (cases "handle_unlock L c u") simp_all
    then obtain channel_events msg c' where "handle_unlock L c u = Inr ((channel_events, msg), c')"
      by (metis surj_pair)
    with run False have "p' = p \<or> p' = p\<lparr>payer_state := payer_balance_proof\<rparr>"
      by (cases msg) simp_all
    then show ?thesis by (auto simp: claiming_def same_transfers_def)
  qed
qed

lemma handle_unlock_moves:
  assumes "handle_unlock_mediator L s u m g = Inr ((s', evs), m', g')"
  obtains t where "s' = Some t" "mt_secret t = mt_secret s" "task_moves claiming s t" "g' = g"
proof -
  from assms obtain pairs where
    loop: "for_each (claim_from_payer L u) (transfers_pair s) (m, []) = Inr (pairs, m', evs)" and
    s': "s' = Some (s\<lparr>transfers_pair := pairs\<rparr>)" "g' = g"
    by (auto simp: handle_unlock_mediator_def res_bind_Inr)
  from for_each_pairs [OF loop claim_from_payer_pair] show thesis
    by (intro that [OF s'(1)]) (simp_all add: task_moves_def s')
qed

lemma expire_from_payer_pair:
  assumes "expire_from_payer L h sc n p x = Inr (p', x')"
  shows "p' = p \<or> p' = p\<lparr>payer_state := payer_expired\<rparr>"
proof -
  obtain r m evs where x: "x = (r, m, evs)" by (metis prod_cases3)
  show ?thesis
  proof (cases "r \<or> get_payer_channel m p = None")
    case True
    with assms show ?thesis by (auto simp: x expire_from_payer_def split: if_splits)
  next
    case False
    then obtain c where c: "get_payer_channel m p = Some c" by auto
    with assms False obtain out where "handle_receive_lock_expired L c sc n = Inr out"
      by (auto simp: x expire_from_payer_def res_bind_Inr)
    with assms False c show ?thesis
      by (cases out) (auto simp: x expire_from_payer_def split: if_splits)
  qed
qed

lemma handle_lock_expired_moves:
  assumes "handle_lock_expired_mediator L s sc m g n = Inr ((s', evs), m', g')"
  obtains t where "s' = Some t" "mt_secret t = mt_secret s" "task_moves not_revealing s t" "g' = g"
proof -
  from assms obtain pairs returned m1 evs1 where
    loop: "for_each (expire_from_payer L (mt_secrethash s) sc n) (transfers_pair s) (False, m, [])
      = Inr (pairs, returned, m1, evs1)"
    by (auto simp: handle_lock_expired_mediator_def res_bind_Inr)
  note run = assms [unfolded handle_lock_expired_mediator_def loop Let_def res_bind_simps prod.case]
  have s': "s' = Some (s\<lparr>transfers_pair := pairs\<rparr>) \<and> g' = g"
  proof (cases "returned \<or> waiting_transfer s = None")
    case True
    with run show ?thesis by (cases returned) auto
  next
    case False
    then obtain w where w: "\<not> returned" "waiting_transfer s = Some w" by auto
    show ?thesis
    proof (cases "dict_get m1 (received_channel (wt_transfer w))")
      case None
      with run w show ?thesis by simp
    next
      case (Some c)
      with run w show ?thesis
        by (cases "handle_receive_lock_expired L c sc n") auto
    qed
  qed
  have "list_all2 not_revealing (transfers_pair s) pairs"
    by (rule for_each_pairs [OF loop])
      (use expire_from_payer_pair not_revealing_states move_refl in blast)
  with s' show thesis
    by (intro that [of "s\<lparr>transfers_pair := pairs\<rparr>"]) (simp_all add: task_moves_def)
qed

section \<open>The invariant is kept\<close>

lemma moves_ok:
  assumes "mediator_ok L s" "task_moves same_transfers s t"
    and "case mt_secret t of None \<Rightarrow> list_all pair_unrevealed (transfers_pair t)
         | Some secret \<Rightarrow> keccak L secret = mt_secrethash s \<and> secret \<noteq> EMPTY_HASH"
  shows "mediator_ok L t"
proof -
  have "list_all (pair_ok (mt_secrethash t)) (transfers_pair t)"
    using assms(1,2) pairs_ok_same by (auto simp: mediator_ok_def task_moves_def)
  moreover have "case waiting_transfer t of None \<Rightarrow> True
      | Some w \<Rightarrow> lock_secrethash (lt_lock (wt_transfer w)) = mt_secrethash t"
    using assms(1,2)
    by (cases "waiting_transfer s"; cases "waiting_transfer t") (auto simp: mediator_ok_def task_moves_def)
  moreover have "mt_secrethash t = mt_secrethash s" using assms(2) by (simp add: task_moves_def)
  ultimately show ?thesis using assms(3) by (simp add: mediator_ok_def split: option.splits)
qed

lemma not_revealing_ok:
  assumes "mediator_ok L s" "mt_secret t = mt_secret s" "task_moves not_revealing s t"
  shows "mediator_ok L t"
proof (rule moves_ok [OF assms(1)])
  show "task_moves same_transfers s t"
    by (rule task_moves_mono [OF assms(3)]) (simp add: not_revealing_def)
  have "list_all2 not_revealing (transfers_pair s) (transfers_pair t)"
    using assms(3) by (simp add: task_moves_def)
  then show "case mt_secret t of None \<Rightarrow> list_all pair_unrevealed (transfers_pair t)
      | Some secret \<Rightarrow> keccak L secret = mt_secrethash s \<and> secret \<noteq> EMPTY_HASH"
    using assms(1,2) pairs_unrevealed by (auto simp: mediator_ok_def split: option.splits)
qed

lemma claiming_ok:
  assumes "mediator_ok L s" "mt_secret t = mt_secret s" "task_moves claiming s t"
    and "sanity_check t m = Inr ()"
  shows "mediator_ok L t"
proof (rule moves_ok [OF assms(1)])
  show "task_moves same_transfers s t"
    by (rule task_moves_mono [OF assms(3)]) (simp add: claiming_def)
  have "list_all2 claiming (transfers_pair s) (transfers_pair t)"
    using assms(3) by (simp add: task_moves_def)
  moreover have "mt_secret t = None \<longrightarrow>
      \<not> list_ex (\<lambda>p. payee_paid (payee_state p) \<or> payer_paid (payer_state p)) (transfers_pair t)"
    using assms(4) by (auto simp: sanity_check_def Let_def py_assert_Inr)
  ultimately show "case mt_secret t of None \<Rightarrow> list_all pair_unrevealed (transfers_pair t)
      | Some secret \<Rightarrow> keccak L secret = mt_secrethash s \<and> secret \<noteq> EMPTY_HASH"
    using assms(1,2) pairs_unclaimed by (auto simp: mediator_ok_def split: option.splits)
qed

text \<open>A new pair.\<close>

lemma new_pair_states:
  "payer_transfer (mk_MediationPairState t a u) = t" "payee_transfer (mk_MediationPairState t a u) = u"
  "pair_unrevealed (mk_MediationPairState t a u)"
  by (simp_all add: mk_MediationPairState_def pair_unrevealed_def)

lemma forwarded_pair:
  assumes "forward_transfer_pair L t routes m g n = Inr (Some p, evs, m', g')"
  shows "pair_ok (lock_secrethash (lt_lock t)) p \<and> pair_unrevealed p \<and> payer_transfer p = t"
  using assms
proof (cases rule: forward_transfer_cases)
  case (sent k c e c')
  then show ?thesis using sent_transfer_fields [OF sent(3)] sent(4)
    by (simp add: pair_ok_def pair_hash_def new_pair_states)
qed simp

lemma refunded_pair:
  assumes "backward_transfer_pair L k c t m g n = Inr (Some p, evs, m', g')"
  shows "pair_ok (lock_secrethash (lt_lock t)) p \<and> pair_unrevealed p \<and> payer_transfer p = t"
  using assms
proof (cases rule: backward_transfer_cases)
  case (sent e c')
  then show ?thesis using sent_refund_fields [OF sent(2)] sent(3)
    by (simp add: pair_ok_def pair_hash_def new_pair_states)
qed simp

lemma append_pair_ok:
  "mediator_ok L s \<Longrightarrow> pair_ok (mt_secrethash s) p \<Longrightarrow> pair_unrevealed p
   \<Longrightarrow> mediator_ok L (s\<lparr>transfers_pair := transfers_pair s @ [p]\<rparr>)"
  by (simp add: mediator_ok_def split: option.splits)

lemma mediate_transfer_ok:
  assumes ok: "mediator_ok L s" and h: "lock_secrethash (lt_lock t) = mt_secrethash s"
    and run: "mediate_transfer L s routes key c m states g t n = Inr ((s', evs), m', g')"
  obtains u where "s' = Some u" "mediator_ok L u" "mt_secrethash u = mt_secrethash s"
  using run
proof (cases rule: mediate_transfer_cases)
  case (forwarded p)
  then show ?thesis
    using that append_pair_ok [OF ok] forwarded_pair [OF forwarded(1)] h by simp
next
  case (refunded k rc p)
  then show ?thesis
    using that append_pair_ok [OF ok] refunded_pair [OF refunded(3)] h by simp
next
  case waits
  have "mediator_ok L (s\<lparr>waiting_transfer := Some (wait_for t)\<rparr>)"
    using ok h by (simp add: mediator_ok_def wait_for_def split: option.splits)
  then show ?thesis using that waits by simp
qed

text \<open>The task that a state change finds: for an \<open>ActionInitMediator\<close>, the new one.\<close>

definition task_before :: "MediatorTransferState option \<Rightarrow> state_change \<Rightarrow> MediatorTransferState option"
  where
  "task_before state sc =
     (case state of
        Some s \<Rightarrow> Some s
      | None \<Rightarrow>
          (case sc of
             ActionInitMediator routes _ t \<Rightarrow>
               Some (mk_MediatorTransferState (lock_secrethash (lt_lock t)) routes)
           | _ \<Rightarrow> None))"

text \<open>A revealed secret hashes to the secrethash it comes with (as the constructor and the
  contract make it).\<close>

definition genuine_secret :: "libs \<Rightarrow> state_change \<Rightarrow> bool" where
  "genuine_secret L sc \<longleftrightarrow>
     (case sc of
        ReceiveSecretRevealChange r \<Rightarrow> rsr_secrethash r = keccak L (rsr_secret r)
      | ContractReceiveSecretRevealChange r \<Rightarrow> csr_secrethash r = keccak L (csr_secret r)
      | _ \<Rightarrow> True)"

lemma handle_init_cases:
  assumes "handle_init L now routes from_route t m states g n = Inr ((s', evs), m', g')"
  obtains (none) "s' = None" "m' = m"
  | (refused) c msg where "dict_get m (route_channel_identifier from_route) = Some c" "s' = None"
      "m' = dict_set (route_channel_identifier from_route) c m"
      "evs = [EventInvalidReceivedLockedTransfer (lt_payment_identifier t) msg]"
  | (accepted) c out c' st evs' where "dict_get m (route_channel_identifier from_route) = Some c"
      "handle_receive_lockedtransfer L now c t None = Inr (out, c', st)" "out_msg out = None"
      "mediate_transfer L (mk_MediatorTransferState (lock_secrethash (lt_lock t)) routes) routes
         (route_channel_identifier from_route) c'
         (dict_set (route_channel_identifier from_route) c' m) states g t n = Inr ((s', evs'), m', g')"
      "evs = out_events out @ evs'"
proof (cases "dict_get m (route_channel_identifier from_route)")
  case None
  show ?thesis by (rule none) (use assms None in \<open>simp_all add: handle_init_def\<close>)
next
  case (Some c)
  note run = assms [unfolded handle_init_def Let_def Some option.case]
  from run obtain x where "handle_receive_lockedtransfer L now c t None = Inr x"
    by (cases "handle_receive_lockedtransfer L now c t None") simp_all
  then obtain out c' st where got: "handle_receive_lockedtransfer L now c t None = Inr (out, c', st)"
    by (metis prod_cases3)
  show ?thesis
  proof (cases "out_msg out")
    case None
    with run got obtain evs' where
      "mediate_transfer L (mk_MediatorTransferState (lock_secrethash (lt_lock t)) routes) routes
         (route_channel_identifier from_route) c'
         (dict_set (route_channel_identifier from_route) c' m) states g t n = Inr ((s', evs'), m', g')"
      "evs = out_events out @ evs'"
      by (auto simp: res_bind_Inr)
    then show ?thesis by (rule accepted [OF Some got None])
  next
    case msg: (Some msg)
    then have "c' = c \<and>
        (\<exists>msg. out_events out = [EventInvalidReceivedLockedTransfer (lt_payment_identifier t) msg])"
      using got unfolding handle_receive_lockedtransfer_def by (elim receive_lockedtransfer_cases) auto
    with run got msg Some refused show ?thesis by auto
  qed
qed

lemma handle_refundtransfer_mediator_cases:
  assumes "handle_refundtransfer_mediator L now s r m states g n = Inr ((s', evs), m', g')"
  obtains (ignored) "s' = Some s" "m' = m" "evs = []" "g' = g"
  | (refused) c msg where "dict_get m (received_channel (rtr_transfer r)) = Some c" "s' = Some s"
      "m' = dict_set (received_channel (rtr_transfer r)) c m" "g' = g"
      "\<exists>i. evs = [EventInvalidReceivedTransferRefund i msg]"
  | (accepted) c evs1 c' evs2 where "mt_secret s = None" "transfers_pair s \<noteq> []"
      "dict_get m (received_channel (rtr_transfer r)) = Some c"
      "handle_refundtransfer L now (payee_transfer (last (transfers_pair s))) c r = Inr ((evs1, None), c')"
      "mediate_transfer L s (rtr_routes r) (received_channel (rtr_transfer r)) c'
         (dict_set (received_channel (rtr_transfer r)) c' m) states g (rtr_transfer r) n
         = Inr ((s', evs2), m', g')"
      "evs = evs1 @ evs2"
proof (cases "mt_secret s")
  case (Some secret)
  show ?thesis
    by (rule ignored) (use assms Some in \<open>simp_all add: handle_refundtransfer_mediator_def\<close>)
next
  case secret: None
  from assms secret obtain p where last: "py_last (transfers_pair s) = Inr p"
    by (cases "py_last (transfers_pair s)") (simp_all add: handle_refundtransfer_mediator_def)
  then have p: "transfers_pair s \<noteq> [] \<and> p = last (transfers_pair s)" by (auto simp: py_last_Inr)
  let ?k = "received_channel (rtr_transfer r)"
  note run = assms [unfolded handle_refundtransfer_mediator_def secret last Let_def res_bind_simps]
  show ?thesis
  proof (cases "dict_get m ?k")
    case None
    show ?thesis by (rule ignored) (use run None in simp_all)
  next
    case (Some c)
    from run Some obtain x where "handle_refundtransfer L now (payee_transfer p) c r = Inr x"
      by (cases "handle_refundtransfer L now (payee_transfer p) c r") simp_all
    then obtain evs1 msg c' where got:
      "handle_refundtransfer L now (payee_transfer p) c r = Inr ((evs1, msg), c')"
      by (metis surj_pair)
    show ?thesis
    proof (cases msg)
      case None
      with run Some got obtain evs2 where
        "mediate_transfer L s (rtr_routes r) ?k c' (dict_set ?k c' m) states g (rtr_transfer r) n
           = Inr ((s', evs2), m', g')" "evs = evs1 @ evs2"
        by (auto simp: res_bind_Inr)
      then show ?thesis using accepted [of c evs1 c' evs2] secret p Some got None by simp
    next
      case msg: (Some ms)
      then have "c' = c \<and> (\<exists>i. evs1 = [EventInvalidReceivedTransferRefund i ms])"
        using got by (elim handle_refundtransfer_cases) auto
      then show ?thesis using run Some got msg refused [of c] by auto
    qed
  qed
qed

lemma handle_node_change_cases:
  assumes "handle_node_change_network_state L s address state m g n = Inr ((s', evs), m', g')"
  obtains (ignored) "s' = Some s" "m' = m" "evs = []" "g' = g"
  | (mediated) route w c where "waiting_transfer s = Some w"
      "dict_get m (received_channel (wt_transfer w)) = Some c" "route \<in> set (mt_routes s)"
      "route_node_address route = address" "state = NODE_NETWORK_REACHABLE"
      "mediate_transfer L s [route] (received_channel (wt_transfer w)) c m [(address, state)] g
         (wt_transfer w) n = Inr ((s', evs), m', g')"
proof -
  note run = assms [unfolded handle_node_change_network_state_def Let_def]
  show thesis
  proof (cases "state = NODE_NETWORK_REACHABLE \<and> waiting_transfer s \<noteq> None \<and>
      find (\<lambda>r. route_node_address r = address) (mt_routes s) \<noteq> None")
    case False
    then have "s' = Some s \<and> m' = m \<and> evs = [] \<and> g' = g"
      using run by (auto split: if_splits option.splits)
    then show ?thesis by (intro ignored) simp_all
  next
    case True
    then obtain w route where w: "waiting_transfer s = Some w"
      and r: "find (\<lambda>r. route_node_address r = address) (mt_routes s) = Some route"
      and state: "state = NODE_NETWORK_REACHABLE"
      by auto
    from r have route: "route \<in> set (mt_routes s)" "route_node_address route = address"
      by (auto simp: find_Some_iff in_set_conv_nth)
    show ?thesis
    proof (cases "\<exists>pc c. dict_get m (route_channel_identifier route) = Some pc \<and>
        dict_get m (received_channel (wt_transfer w)) = Some c \<and> get_status pc = CHANNEL_STATE_OPENED")
      case True
      then obtain pc c where c: "dict_get m (route_channel_identifier route) = Some pc"
        "dict_get m (received_channel (wt_transfer w)) = Some c" "get_status pc = CHANNEL_STATE_OPENED"
        by blast
      show ?thesis by (rule mediated [OF w c(2) route state]) (use run w r state c in simp)
    next
      case False
      then have "s' = Some s \<and> m' = m \<and> evs = [] \<and> g' = g"
        using run w r state by (auto split: if_splits option.splits)
      then show ?thesis by (intro ignored) simp_all
    qed
  qed
qed

lemma dispatch_ok:
  assumes ok: "\<forall>s. task_before state sc = Some s \<longrightarrow> mediator_ok L s" and genuine: "genuine_secret L sc"
    and run: "dispatch_mediator L now state sc m states g n bh = Inr ((Some t, evs), m', g')"
    and sane: "sanity_check t m' = Inr ()"
  shows "mediator_ok L t \<and> (\<forall>s. task_before state sc = Some s \<longrightarrow> mt_secrethash t = mt_secrethash s)"
proof (cases state)
  case None
  with run obtain routes from_route tr where sc: "sc = ActionInitMediator routes from_route tr"
    by (cases sc) (simp_all add: dispatch_mediator_def)
  let ?s = "mk_MediatorTransferState (lock_secrethash (lt_lock tr)) routes"
  have b: "task_before state sc = Some ?s" using None sc by (simp add: task_before_def)
  from run None sc have "handle_init L now routes from_route tr m states g n = Inr ((Some t, evs), m', g')"
    by (simp add: dispatch_mediator_def)
  then show ?thesis
  proof (cases rule: handle_init_cases)
    case (accepted c out c' st evs')
    have "lock_secrethash (lt_lock tr) = mt_secrethash ?s" by (simp add: mk_MediatorTransferState_def)
    from mediate_transfer_ok [OF new_mediator_ok this accepted(4)] show ?thesis using b by auto
  qed simp_all
next
  case (Some s)
  then have b: "task_before state sc = Some s" by (simp add: task_before_def)
  with ok have s: "mediator_ok L s" by simp
  note run = run [unfolded dispatch_mediator_def Some Let_def option.case]
  have "mediator_ok L t \<and> mt_secrethash t = mt_secrethash s"
  proof (cases sc)
    case Block
    with run show ?thesis
      by (auto elim!: handle_block_moves intro: not_revealing_ok [OF s] simp: task_moves_def)
  next
    case (ReceiveTransferRefundChange r)
    with run have "handle_refundtransfer_mediator L now s r m states g n = Inr ((Some t, evs), m', g')"
      by simp
    then show ?thesis
    proof (cases rule: handle_refundtransfer_mediator_cases)
      case (accepted c evs1 c' evs2)
      let ?p = "last (transfers_pair s)"
      have "refund_transfer_matches_transfer (rtr_transfer r) (payee_transfer ?p)"
        using accepted(4) by (elim handle_refundtransfer_cases) (auto dest: accepted_refund_channel)
      moreover have "pair_ok (mt_secrethash s) ?p"
        using s accepted(2) by (simp add: mediator_ok_def list_all_iff)
      ultimately have "lock_secrethash (lt_lock (rtr_transfer r)) = mt_secrethash s"
        by (auto simp: refund_transfer_matches_transfer_def pair_ok_def pair_hash_def split: if_splits)
      from mediate_transfer_ok [OF s this accepted(5)] show ?thesis by auto
    qed (use s in simp_all)
  next
    case (ReceiveSecretRevealChange r)
    with run have "handle_offchain_secretreveal_mediator L s r m g n bh = Inr ((Some t, evs), m', g')"
      by simp
    then show ?thesis
    proof (cases rule: handle_offchain_secretreveal_moves)
      case (learned u)
      then show ?thesis using moves_ok [OF s learned(3)] genuine ReceiveSecretRevealChange
        by (simp add: genuine_secret_def task_moves_def)
    qed (use s in simp)
  next
    case (ContractReceiveSecretRevealChange r)
    with run have "handle_onchain_secretreveal_mediator L s r m g = Inr ((Some t, evs), m', g')"
      by simp
    then show ?thesis
    proof (cases rule: handle_onchain_secretreveal_moves)
      case (learned u)
      then show ?thesis using moves_ok [OF s learned(3)] genuine ContractReceiveSecretRevealChange
        by (simp add: genuine_secret_def task_moves_def)
    qed (use s in simp)
  next
    case (ReceiveUnlockChange u)
    with run sane show ?thesis
      by (auto elim!: handle_unlock_moves intro: claiming_ok [OF s] simp: task_moves_def)
  next
    case (ReceiveLockExpiredChange x)
    with run show ?thesis
      by (auto elim!: handle_lock_expired_moves intro: not_revealing_ok [OF s] simp: task_moves_def)
  next
    case (ActionChangeNodeNetworkState address network)
    with run have "handle_node_change_network_state L s address network m g n
        = Inr ((Some t, evs), m', g')"
      by simp
    then show ?thesis
    proof (cases rule: handle_node_change_cases)
      case (mediated route w c)
      then have "lock_secrethash (lt_lock (wt_transfer w)) = mt_secrethash s"
        using s by (simp add: mediator_ok_def)
      from mediate_transfer_ok [OF s this mediated(6)] show ?thesis by auto
    qed (use s in simp)
  qed (use run s in simp_all)
  with b show ?thesis by simp
qed

section \<open>The channels\<close>

text \<open>The transfer that a state change brings.\<close>

definition change_fresh :: "libs \<Rightarrow> channelmap \<Rightarrow> state_change \<Rightarrow> bool" where
  "change_fresh L m sc \<longleftrightarrow>
     (case sc of
        ActionInitMediator _ _ t \<Rightarrow> transfer_fresh L m t
      | ReceiveTransferRefundChange r \<Rightarrow> transfer_fresh L m (rtr_transfer r)
      | _ \<Rightarrow> True)"

text \<open>The state changes on which a task may send a transfer.\<close>

definition may_forward :: "MediatorTransferState option \<Rightarrow> state_change \<Rightarrow> bool" where
  "may_forward state sc \<longleftrightarrow>
     (case sc of
        ActionInitMediator _ _ _ \<Rightarrow> state = None
      | ReceiveTransferRefundChange _ \<Rightarrow> state \<noteq> None
      | ActionChangeNodeNetworkState _ _ \<Rightarrow> state \<noteq> None
      | _ \<Rightarrow> False)"

lemma may_forward_cases:
  assumes "may_forward state sc"
  obtains (init) routes from_route t where "state = None" "sc = ActionInitMediator routes from_route t"
  | (refund) s r where "state = Some s" "sc = ReceiveTransferRefundChange r"
  | (network) s address network where "state = Some s" "sc = ActionChangeNodeNetworkState address network"
  using assms by (cases sc) (auto simp: may_forward_def)

lemma hash_unused_update:
  assumes "hash_unused m s" "dict_get m k = Some c"
    and "is_lock_pending (our_state c') (mt_secrethash s) \<Longrightarrow> is_lock_pending (our_state c) (mt_secrethash s)"
  shows "hash_unused (dict_set k c' m) s"
proof -
  have "set (dict_set k c' m) \<subseteq> insert (k, c') (set m)"
    by (induction m) auto
  moreover have "(k, c) \<in> set m" using assms(2) by (rule map_of_SomeD)
  ultimately show ?thesis
    using assms(1,3) unfolding hash_unused_def list_all_iff by fastforce
qed

lemma hash_unused_set:
  "hash_unused m s \<Longrightarrow> dict_get m k = Some c \<Longrightarrow> our_state c' = our_state c
   \<Longrightarrow> hash_unused (dict_set k c' m) s"
  by (rule hash_unused_update) simp_all

lemma accepted_our_state:
  assumes "handle_receive_lockedtransfer L now c t st = Inr (out, c', st')"
  shows "our_state c' = our_state c"
  using assms unfolding handle_receive_lockedtransfer_def by (elim receive_lockedtransfer_cases) simp_all

lemma refund_our_state:
  "handle_refundtransfer L now original c r = Inr ((evs, msg), c') \<Longrightarrow> our_state c' = our_state c"
  by (elim handle_refundtransfer_cases) simp_all

context channel_law
begin

lemma handle_init_all:
  assumes all: "channels_all P m" and fresh: "transfer_fresh L m t"
    and unused: "hash_unused m (mk_MediatorTransferState (lock_secrethash (lt_lock t)) routes)"
    and run: "handle_init L now routes from_route t m states g n = Inr ((s', evs), m', g')"
  shows "channels_all P m'"
  using run
proof (cases rule: handle_init_cases)
  case none
  then show ?thesis using all by simp
next
  case (refused c msg)
  then show ?thesis using all channels_all_set [OF all channels_allD [OF all]] by simp
next
  case (accepted c out c' st evs')
  let ?k = "route_channel_identifier from_route"
  have c: "P ?k c" by (rule channels_allD [OF all accepted(1)])
  have key: "received_channel t = ?k"
    using accepted(2,3) named [OF c] unfolding handle_receive_lockedtransfer_def
    by (elim receive_lockedtransfer_cases) (auto dest: accepted_channel)
  have "P ?k c'"
    by (rule got_transfer [OF c accepted(2) [unfolded handle_receive_lockedtransfer_def]])
      (use fresh key accepted(1) in \<open>simp add: transfer_fresh_def\<close>)
  then have "channels_all P (dict_set ?k c' m)" by (rule channels_all_set [OF all])
  from mediate_transfer_all [OF this _ _ _ accepted(4)] show ?thesis
    using hash_unused_set [OF unused accepted(1) accepted_our_state [OF accepted(2)]]
    by (simp add: mk_MediatorTransferState_def update_conv')
qed

lemma handle_refundtransfer_mediator_all:
  assumes all: "channels_all P m" and fresh: "transfer_fresh L m (rtr_transfer r)"
    and s: "mediator_ok L s" and unused: "hash_unused m s"
    and run: "handle_refundtransfer_mediator L now s r m states g n = Inr ((s', evs), m', g')"
  shows "channels_all P m'"
  using run
proof (cases rule: handle_refundtransfer_mediator_cases)
  case ignored
  then show ?thesis using all by simp
next
  case (refused c msg)
  then show ?thesis using all channels_all_set [OF all channels_allD [OF all]] by simp
next
  case (accepted c evs1 c' evs2)
  let ?k = "received_channel (rtr_transfer r)" and ?p = "last (transfers_pair s)"
  have "refund_transfer_matches_transfer (rtr_transfer r) (payee_transfer ?p)"
    using accepted(4) by (elim handle_refundtransfer_cases) (auto dest: accepted_refund_channel)
  moreover have "pair_ok (mt_secrethash s) ?p"
    using s accepted(2) by (simp add: mediator_ok_def list_all_iff)
  ultimately have h: "lock_secrethash (lt_lock (rtr_transfer r)) = mt_secrethash s"
    by (auto simp: refund_transfer_matches_transfer_def pair_ok_def pair_hash_def split: if_splits)
  have "P ?k c'"
    by (rule got_refund [OF channels_allD [OF all accepted(3)] accepted(4)])
      (use fresh accepted(3) in \<open>simp add: transfer_fresh_def\<close>)
  then have "channels_all P (dict_set ?k c' m)" by (rule channels_all_set [OF all])
  from mediate_transfer_all [OF this _ h _ accepted(5)] show ?thesis
    using hash_unused_set [OF unused accepted(3) refund_our_state [OF accepted(4)]]
    by (simp add: update_conv')
qed

lemma dispatch_quiet_all:
  assumes all: "channels_all P m" and quiet: "\<not> may_forward state sc"
    and run: "dispatch_mediator L now state sc m states g n bh = Inr ((s', evs), m', g')"
  shows "channels_all P m'"
proof (cases state)
  case None
  with run all quiet show ?thesis
    by (cases sc) (simp_all add: dispatch_mediator_def may_forward_def)
next
  case (Some s)
  note run = run [unfolded dispatch_mediator_def Some Let_def option.case]
  show ?thesis
  proof (cases sc)
    case Block
    with run show ?thesis using handle_block_all [OF all] by simp
  next
    case (ReceiveSecretRevealChange r)
    with run show ?thesis using handle_offchain_secretreveal_all [OF all] by simp
  next
    case (ContractReceiveSecretRevealChange r)
    with run show ?thesis using handle_onchain_secretreveal_all [OF all] by simp
  next
    case (ReceiveUnlockChange u)
    with run show ?thesis using handle_unlock_all [OF all] by simp
  next
    case (ReceiveLockExpiredChange x)
    with run show ?thesis using handle_lock_expired_all [OF all] by simp
  qed (use run all quiet Some in \<open>simp_all add: may_forward_def\<close>)
qed

lemma dispatch_all:
  assumes all: "channels_all P m" and fresh: "change_fresh L m sc"
    and ready: "\<forall>s. task_before state sc = Some s \<longrightarrow> mediator_ok L s \<and> hash_unused m s"
    and run: "dispatch_mediator L now state sc m states g n bh = Inr ((s', evs), m', g')"
  shows "channels_all P m'"
proof (cases "may_forward state sc")
  case True
  then show ?thesis
  proof (cases rule: may_forward_cases)
    case (init routes from_route t)
    with run ready fresh show ?thesis
      by (intro handle_init_all [OF all])
        (simp_all add: task_before_def change_fresh_def dispatch_mediator_def)
  next
    case (refund s r)
    then have s: "mediator_ok L s" "hash_unused m s" using ready by (simp_all add: task_before_def)
    from refund run fresh show ?thesis
      using handle_refundtransfer_mediator_all [OF all _ s]
      by (simp add: change_fresh_def dispatch_mediator_def)
  next
    case (network s address network)
    then have s: "mediator_ok L s" "hash_unused m s" using ready by (simp_all add: task_before_def)
    from network run have "handle_node_change_network_state L s address network m g n
        = Inr ((s', evs), m', g')"
      by (simp add: dispatch_mediator_def)
    then show ?thesis
    proof (cases rule: handle_node_change_cases)
      case (mediated route w c)
      then have "lock_secrethash (lt_lock (wt_transfer w)) = mt_secrethash s"
        using s by (simp add: mediator_ok_def)
      from mediate_transfer_all [OF all mediated(2) this s(2) mediated(6)] show ?thesis .
    qed (use all in simp)
  qed
qed (rule dispatch_quiet_all [OF all _ run])

end

lemma state_transition_mediatorD:
  assumes "state_transition_mediator L now state sc m states g n bh = Inr ((s', evs), m', g')"
  obtains t where "dispatch_mediator L now state sc m states g n bh = Inr ((t, evs), m', g')"
    "\<forall>s. t = Some s \<longrightarrow> sanity_check s m' = Inr ()" "s' = clear_if_finalized t m'"
proof -
  from assms obtain t where
    "dispatch_mediator L now state sc m states g n bh = Inr ((t, evs), m', g')"
    "(case t of None \<Rightarrow> Inr () | Some s \<Rightarrow> sanity_check s m') = Inr ()" "s' = clear_if_finalized t m'"
    by (auto simp: state_transition_mediator_def res_bind_Inr)
  then show thesis by (intro that) auto
qed

lemma clear_if_finalized_Some: "clear_if_finalized t m = Some s \<Longrightarrow> t = Some s"
  by (auto simp: clear_if_finalized_def split: option.splits if_splits)

end
