(* ===== verification/MediatorPayments.thy ===== *)
theory MediatorPayments
  imports MediatorInvariant
begin

text \<open>
  Which payments a mediator makes: an unlock towards a payee is sent only by the two steps that
  learn a secret, and only while the payer's lock leaves time to claim it.
\<close>

section \<open>Who is paid\<close>

lemma unlock_payee_cases:
  assumes "unlock_payee L n secret h p (m, g, evs) = Inr (p', m', g', evs')"
  obtains (kept) "p' = p" "m' = m" "g' = g" "evs' = evs"
  | (paid) c pc u c' where "get_payer_channel m p = Some pc"
    "n + reveal_timeout pc < lock_expiration (lt_lock (payer_transfer p))"
    "get_payee_channel m p = Some c" "get_status c = CHANNEL_STATE_OPENED"
    "payee_secret_known (payee_state p)" "\<not> payee_paid (payee_state p)"
    "send_unlock L c (randint64 L g) (lt_payment_identifier (payee_transfer p)) secret h False
       = Inr (u, c')"
    "p' = p\<lparr>payee_state := payee_balance_proof\<rparr>" "m' = dict_set (sent_channel (payee_transfer p)) c' m"
    "evs' = evs @ [SendBalanceProof u, EventUnlockSuccess (lt_payment_identifier (payer_transfer p))
              (lock_secrethash (lt_lock (payer_transfer p)))]"
proof -
  obtain safe where safe: "is_safe_to_send_balanceproof m p n = Inr safe"
    using assms by (cases "is_safe_to_send_balanceproof m p n") (simp_all add: unlock_payee_def)
  note run = assms [unfolded unlock_payee_def prod.case safe res_bind_simps]
  show thesis
  proof (cases "\<exists>c. get_payee_channel m p = Some c \<and> get_status c = CHANNEL_STATE_OPENED \<and>
      payee_secret_known (payee_state p) \<and> \<not> payee_paid (payee_state p) \<and> safe")
    case False
    then have "p' = p \<and> m' = m \<and> g' = g \<and> evs' = evs"
      using run by (auto split: option.splits if_splits)
    then show ?thesis using kept by blast
  next
    case True
    then obtain c where c: "get_payee_channel m p = Some c" "get_status c = CHANNEL_STATE_OPENED"
      "payee_secret_known (payee_state p)" "\<not> payee_paid (payee_state p)" safe
      by blast
    from safe c(5) obtain pc where pc: "get_payer_channel m p = Some pc"
      "n + reveal_timeout pc < lock_expiration (lt_lock (payer_transfer p))"
      by (auto simp: is_safe_to_send_balanceproof_def is_safe_to_wait_Inr split: option.splits)
    have "case payee_state p of payee_secret_revealed \<Rightarrow> True | _ \<Rightarrow> False"
      using c(3,4) by (cases "payee_state p") simp_all
    then have "payee_state p = payee_secret_revealed" by (cases "payee_state p") simp_all
    with run c obtain u c' where
      "send_unlock L c (randint64 L g) (lt_payment_identifier (payee_transfer p)) secret h False
         = Inr (u, c')"
      "p' = p\<lparr>payee_state := payee_balance_proof\<rparr>" "m' = dict_set (sent_channel (payee_transfer p)) c' m"
      "evs' = evs @ [SendBalanceProof u, EventUnlockSuccess (lt_payment_identifier (payer_transfer p))
              (lock_secrethash (lt_lock (payer_transfer p)))]"
      by (auto simp: res_bind_Inr message_identifier_from_prng_def)
    then show ?thesis by (rule paid [OF pc c(1-4)])
  qed
qed

text \<open>A channel whose lock of the hash is not in danger: its secret is known, or it has expired.\<close>

definition secured :: "int \<Rightarrow> bytes \<Rightarrow> NettingChannelState \<Rightarrow> bool" where
  "secured n h c \<longleftrightarrow>
     (case dict_get (secrethashes_to_lockedlocks (partner_state c)) h of
        None \<Rightarrow> True | Some l \<Rightarrow> lock_expiration l < n)"

lemma secured_get_lock:
  "secured n h c \<Longrightarrow> get_lock (partner_state c) h = Some l
     \<Longrightarrow> is_secret_known (partner_state c) h \<or> lock_expiration l < n"
  by (auto simp: secured_def get_lock_def is_secret_known_def dict_has_def split: option.splits)

lemma offchain_secured: "secured n h (register_offchain_secret c secret h)"
  by (simp add: secured_def register_offchain_secret_def register_secret_endstate_def delete_conv'
      split: option.split)

lemma register_onchain_locked:
  assumes "maps_ok e" "register_onchain_secret_endstate secret h n True e = Inr e'"
    and "dict_get (secrethashes_to_lockedlocks e') h = Some l"
  shows "lock_expiration l < n"
proof (cases "dict_get (secrethashes_to_unlockedlocks e) h")
  case None
  then show ?thesis using assms(2,3)
    by (cases "dict_get (secrethashes_to_lockedlocks e) h")
      (auto simp: register_onchain_secret_endstate_def res_bind_Inr del_lock_def
        del_unclaimed_lock_def py_assert_Inr delete_conv' split: if_splits)
next
  case (Some q)
  then have "h \<notin> dict_keys (secrethashes_to_lockedlocks e)"
    using assms(1) dict_get_key [OF Some] unfolding maps_ok_def by blast
  then have "dict_get (secrethashes_to_lockedlocks e) h = None"
    by (simp add: map_of_eq_None_iff)
  then show ?thesis using assms(2,3) Some
    by (auto simp: register_onchain_secret_endstate_def res_bind_Inr del_lock_def
        del_unclaimed_lock_def py_assert_Inr delete_conv' split: if_splits)
qed

lemma onchain_secured:
  assumes "maps_ok (partner_state c)" "register_onchain_secret c secret h n True = Inr c'"
  shows "secured n h c'"
proof -
  from assms(2) have "register_onchain_secret_endstate secret h n True (partner_state c)
      = Inr (partner_state c')"
    by (auto simp: register_onchain_secret_def res_simps)
  from register_onchain_locked [OF assms(1) this] show ?thesis
    by (auto simp: secured_def split: option.split)
qed

text \<open>The keys whose channel, if there is one, is secured.\<close>

definition secured_keys :: "int \<Rightarrow> bytes \<Rightarrow> channelmap \<Rightarrow> int set" where
  "secured_keys n h m = {k. \<forall>c. dict_get m k = Some c \<longrightarrow> secured n h c}"

context channel_law
begin

lemma change_channel_secured:
  assumes "channels_all P m" "change_channel k f m = Inr m'"
    and f: "\<forall>k c c'. P k c \<and> f c = Inr c' \<longrightarrow> P k c' \<and> secured n h c'"
  shows "channels_all P m' \<and> insert k (secured_keys n h m) \<subseteq> secured_keys n h m'"
proof (cases "dict_get m k")
  case None
  with assms show ?thesis by (simp add: change_channel_def secured_keys_def)
next
  case (Some c)
  with assms(2) obtain c' where c': "f c = Inr c'" "m' = dict_set k c' m"
    by (auto simp: change_channel_def res_bind_Inr)
  then have "P k c' \<and> secured n h c'" using f channels_allD [OF assms(1) Some] by blast
  then show ?thesis
    using c' channels_all_set [OF assms(1)] by (auto simp: secured_keys_def update_conv')
qed

lemma pair_channels_secured:
  assumes "for_each (change_pair_channels f) ps m = Inr (ps', m')" "channels_all P m"
    and f: "\<forall>k c c'. P k c \<and> f c = Inr c' \<longrightarrow> P k c' \<and> secured n h c'"
  shows "channels_all P m' \<and>
    (received_channel \<circ> payer_transfer) ` set ps \<union> secured_keys n h m \<subseteq> secured_keys n h m'"
  using assms(1,2)
proof (induction ps arbitrary: m ps')
  case (Cons p ps)
  from Cons.prems(1) obtain q m2 qs where
    one: "change_pair_channels f p m = Inr (q, m2)" and
    3: "for_each (change_pair_channels f) ps m2 = Inr (qs, m')"
    by (auto simp: res_bind_Inr)
  from one obtain m1 where
    1: "change_channel (received_channel (payer_transfer p)) f m = Inr m1" and
    2: "change_channel (sent_channel (payee_transfer p)) f m1 = Inr m2"
    by (auto simp: change_pair_channels_def res_bind_Inr)
  note a = change_channel_secured [OF Cons.prems(2) 1 f]
  note b = change_channel_secured [OF conjunct1 [OF a] 2 f]
  show ?case using a b Cons.IH [OF 3] by auto
qed simp

lemma set_secret_secured:
  assumes "channels_all P m" "set_secret register s m secret h = Inr (evs, s', m')"
    and f: "\<forall>k c c'. P k c \<and> register c = Inr c' \<longrightarrow> P k c' \<and> secured n h c'"
  shows "(received_channel \<circ> payer_transfer) ` set (transfers_pair s) \<subseteq> secured_keys n h m'"
proof -
  from assms(2) obtain ps m1 where
    loop: "for_each (change_pair_channels register) (transfers_pair s) m = Inr (ps, m1)"
    by (cases "for_each (change_pair_channels register) (transfers_pair s) m") (auto simp: set_secret_def)
  note all = pair_channels_secured [OF loop assms(1) f]
  show ?thesis
  proof (cases "waiting_transfer s")
    case None
    with assms(2) loop all show ?thesis by (simp add: set_secret_def)
  next
    case (Some w)
    with assms(2) loop have w: "change_channel (received_channel (wt_transfer w)) register m1 = Inr m'"
      by (cases "change_channel (received_channel (wt_transfer w)) register m1")
        (simp_all add: set_secret_def)
    from all change_channel_secured [OF conjunct1 [OF all] w f] show ?thesis by blast
  qed
qed

end

lemma send_unlock_fields:
  assumes "send_unlock L c m p secret h lc = Inr (u, c')"
  shows "sbp_channel_identifier u = ch_identifier c" "sbp_secret u = secret"
    "\<exists>e. c' = c\<lparr>our_state := e\<rparr>" "\<exists>lock. get_lock (our_state c) h = Some lock"
proof -
  from assms obtain lock tree e where *: "get_lock (our_state c) h = Some lock"
    "create_unlock L c m p secret lock lc = Inr (u, tree)" "c' = c\<lparr>our_state := e\<rparr>"
    by (auto simp: send_unlock_def res_bind_Inr split: option.splits)
  from *(2) have "sbp_channel_identifier u = ch_identifier c \<and> sbp_secret u = secret"
    by (elim create_unlockD) (simp add: mk_SendBalanceProof_def)
  with * show "sbp_channel_identifier u = ch_identifier c" "sbp_secret u = secret"
    "\<exists>e. c' = c\<lparr>our_state := e\<rparr>" "\<exists>lock. get_lock (our_state c) h = Some lock" by auto
qed

text \<open>The channels as the payers see them: without this node's side.\<close>

definition payers_view :: "channelmap \<Rightarrow> int \<Rightarrow> NettingChannelState option" where
  "payers_view m k =
     map_option (\<lambda>c. c\<lparr>our_state := mk_NettingChannelEndState [] 0\<rparr>) (dict_get m k)"

lemma payers_view_our:
  "dict_get m k = Some c \<Longrightarrow> payers_view (dict_set k (c\<lparr>our_state := e\<rparr>) m) = payers_view m"
  by (auto simp: payers_view_def update_conv' fun_eq_iff)

lemma payers_view_Some:
  assumes "payers_view m' = payers_view m" "dict_get m k = Some c"
  obtains e where "dict_get m' k = Some (c\<lparr>our_state := e\<rparr>)"
proof -
  let ?x = "mk_NettingChannelEndState [] 0"
  have "map_option (our_state_update (\<lambda>_. ?x)) (dict_get m' k) = Some (c\<lparr>our_state := ?x\<rparr>)"
    using fun_cong [OF assms(1), of k] assms(2) by (simp add: payers_view_def)
  then obtain c' where c': "dict_get m' k = Some c'" "c'\<lparr>our_state := ?x\<rparr> = c\<lparr>our_state := ?x\<rparr>"
    by blast
  have "c\<lparr>our_state := ?x\<rparr>\<lparr>our_state := our_state c'\<rparr> = c'\<lparr>our_state := ?x\<rparr>\<lparr>our_state := our_state c'\<rparr>"
    using c'(2) by simp
  then have "c' = c\<lparr>our_state := our_state c'\<rparr>" by simp
  with c'(1) that show thesis by metis
qed

definition covered_payment ::
    "int \<Rightarrow> bytes \<Rightarrow> bytes \<Rightarrow> channelmap \<Rightarrow> SendBalanceProofEvent \<Rightarrow> MediationPairState \<Rightarrow> bool" where
  "covered_payment n h secret m u p \<longleftrightarrow>
     sbp_channel_identifier u = sent_channel (payee_transfer p) \<and> sbp_secret u = secret \<and>
     payee_state p = payee_secret_revealed \<and>
     (\<exists>c. dict_get m (received_channel (payer_transfer p)) = Some c \<and>
        n + reveal_timeout c < lock_expiration (lt_lock (payer_transfer p)))"

context channel_law
begin

lemma events_for_balanceproof_covered:
  assumes all: "channels_all P m0"
    and run: "events_for_balanceproof L m0 pairs g n secret h = Inr (pairs', m', g', evs)"
  shows "payers_view m' = payers_view m0 \<and>
    (\<forall>u. SendBalanceProof u \<in> set evs \<longrightarrow> (\<exists>p \<in> set pairs. covered_payment n h secret m0 u p))"
proof -
  define I where "I = (\<lambda>(m, g :: prng, evs). channels_all P m \<and> payers_view m = payers_view m0 \<and>
    (\<forall>u. SendBalanceProof u \<in> set evs \<longrightarrow> (\<exists>p \<in> set pairs. covered_payment n h secret m0 u p)))"
  have "I (m', g', evs) \<and> list_all2 (\<lambda>_ _. True) pairs pairs'"
    using run [unfolded events_for_balanceproof_def]
  proof (rule for_each_reversed_invariant)
    show "I (m0, g, [])" using all by (simp add: I_def)
  next
    fix p x p' x'
    assume p: "p \<in> set pairs" and I: "I x" and step: "unlock_payee L n secret h p x = Inr (p', x')"
    obtain m g1 evs1 m2 g2 evs2 where x: "x = (m, g1, evs1)" "x' = (m2, g2, evs2)"
      by (metis prod_cases3)
    from I x have inv: "channels_all P m" "payers_view m = payers_view m0"
      "\<And>u. SendBalanceProof u \<in> set evs1 \<Longrightarrow> \<exists>p \<in> set pairs. covered_payment n h secret m0 u p"
      by (auto simp: I_def)
    have "I x'"
      using step [unfolded x]
    proof (cases rule: unlock_payee_cases)
      case kept
      then show ?thesis using I x by simp
    next
      case (paid c pc u c')
      let ?k = "sent_channel (payee_transfer p)"
      have c: "dict_get m ?k = Some c" "P ?k c"
        using paid(3) channels_allD [OF inv(1)] by (simp_all add: get_payee_channel_def)
      note u = send_unlock_fields [OF paid(7)]
      have "payers_view m2 = payers_view m"
        using paid(9) payers_view_our [OF c(1)] u(3) by auto
      moreover have "channels_all P m2"
        using paid(9) unlock [OF c(2) paid(7)] channels_all_set [OF inv(1)] by simp
      moreover obtain e where "dict_get m0 (received_channel (payer_transfer p))
          = Some (pc\<lparr>our_state := e\<rparr>)"
        using payers_view_Some [OF inv(2) [symmetric]] paid(1) by (auto simp: get_payer_channel_def)
      then have "covered_payment n h secret m0 u p"
        using u named [OF c(2)] paid(2,5,6)
        by (cases "payee_state p") (auto simp: covered_payment_def)
      ultimately show ?thesis using inv p paid(10) by (auto simp: I_def x)
    qed
    then show "I x' \<and> True" by simp
  qed
  then show ?thesis by (simp add: I_def)
qed

end

text \<open>Steps that pay nobody.\<close>

definition pays_none :: "event list \<Rightarrow> bool" where
  "pays_none evs \<longleftrightarrow> (\<forall>u. SendBalanceProof u \<notin> set evs)"

lemma pays_none_simps [simp]:
  "pays_none []" "pays_none (a @ b) \<longleftrightarrow> pays_none a \<and> pays_none b"
  "pays_none (e # b) \<longleftrightarrow> (\<forall>u. e \<noteq> SendBalanceProof u) \<and> pays_none b"
  by (auto simp: pays_none_def)

lemma claim_failed_none [simp]: "claim_failed t \<noteq> SendBalanceProof u"
  by (simp add: claim_failed_def)

lemma pays_none_map [simp]: "(\<And>x u. f x \<noteq> SendBalanceProof u) \<Longrightarrow> pays_none (map f xs)"
  by (auto simp: pays_none_def) (metis)

lemma send_processed_none [simp]: "send_processed a b \<noteq> SendBalanceProof u"
  by (simp add: send_processed_def)

lemma onchain_secretreveal_none [simp]: "pays_none (events_for_onchain_secretreveal c x l h)"
  by (simp add: events_for_onchain_secretreveal_def)

lemma expired_lock_none: "events_for_expired_lock L c l g = Inr (evs, c', g') \<Longrightarrow> pays_none evs"
  by (auto simp: events_for_expired_lock_def res_bind_Inr py_assert_Inr split: option.splits)

lemma for_each_events:
  assumes "for_each f xs x = Inr (ys, y)" "pays_none (ev x)"
    and "\<And>p x p' x'. pays_none (ev x) \<Longrightarrow> f p x = Inr (p', x') \<Longrightarrow> pays_none (ev x')"
  shows "pays_none (ev y)"
  using for_each_invariant [OF assms(1), of "\<lambda>x. pays_none (ev x)" "\<lambda>_ _. True"] assms(2,3) by blast

lemma remove_expired_lock_none:
  assumes "remove_expired_lock L h n p (m, g, evs) = Inr (p', m', g', evs')" "pays_none evs"
  shows "pays_none evs'"
proof (cases "get_payee_channel m p")
  case None
  with assms show ?thesis by (simp add: remove_expired_lock_def)
next
  case (Some c)
  with assms obtain found where "sent_lock c h = Inr found"
    by (auto simp: remove_expired_lock_def res_bind_Inr)
  with assms Some show ?thesis
    by (cases found)
      (auto simp: remove_expired_lock_def res_bind_Inr split: if_splits dest!: expired_lock_none)
qed

lemma reveal_in_dangerzone_none:
  assumes "reveal_in_dangerzone m n bh p (sent, evs) = Inr (p', sent', evs')" "pays_none evs"
  shows "pays_none evs'"
proof (cases "get_payer_channel m p")
  case None
  with assms show ?thesis by (auto simp: reveal_in_dangerzone_def split: if_splits)
next
  case (Some c)
  with assms show ?thesis
    by (cases "get_secret (partner_state c) (lock_secrethash (lt_lock (payer_transfer p)))"; cases sent)
      (auto simp: reveal_in_dangerzone_def Let_def res_bind_Inr py_assert_Inr split: if_splits)
qed

lemma dangerzone_none:
  assumes "events_for_onchain_secretreveal_if_dangerzone m h pairs n bh = Inr (pairs', evs)"
  shows "pays_none evs"
proof -
  from assms obtain sent where "for_each (reveal_in_dangerzone m n bh) pairs
       (has_secret_registration_started (payer_channels m pairs) pairs h, []) = Inr (pairs', sent, evs)"
    by (auto simp: events_for_onchain_secretreveal_if_dangerzone_def res_bind_Inr)
  then have "pays_none (snd (sent, evs))"
    by (rule for_each_events) (auto intro: reveal_in_dangerzone_none)
  then show ?thesis by simp
qed

lemma handle_block_none:
  assumes "handle_block_mediator L s n bh m g = Inr ((s', evs), m', g')"
  shows "pays_none evs"
proof -
  from assms obtain pairs g1 evs1 pairs2 evs2 where
    1: "events_to_remove_expired_locks L s m n g = Inr (pairs, m', g1, evs1)" and
    2: "events_for_onchain_secretreveal_if_dangerzone m' (mt_secrethash s) pairs n bh = Inr (pairs2, evs2)"
    by (auto simp: handle_block_mediator_def res_bind_Inr case_prod_beta)
  obtain evs3 pairs3 w where
    3: "events_for_expired_pairs m' pairs2 (waiting_transfer s) n = (evs3, pairs3, w)"
    by (metis prod_cases3)
  have "pays_none (snd (snd (m', g1, evs1)))"
    using 1 [unfolded events_to_remove_expired_locks_def]
    by (rule for_each_events) (auto intro: remove_expired_lock_none)
  moreover have "pays_none evs3"
    using 3 by (auto simp: events_for_expired_pairs_def Let_def split: option.splits if_splits)
  moreover have "evs = evs3 @ evs2 @ evs1"
    using assms 1 2 3 by (simp add: handle_block_mediator_def)
  ultimately show ?thesis using dangerzone_none [OF 2] by simp
qed

lemma handle_unlock_none:
  "handle_unlock L c u = Inr ((evs, msg), c') \<Longrightarrow> pays_none evs"
  unfolding handle_unlock_def by (elim receive_unlock_cases) auto

lemma receive_lock_expired_none:
  "handle_receive_lock_expired L c sc n = Inr (evs, c') \<Longrightarrow> pays_none evs"
  by (elim receive_lock_expired_cases) auto

lemma claim_from_payer_none:
  assumes "claim_from_payer L u p (m, evs) = Inr (p', m', evs')" "pays_none evs"
  shows "pays_none evs'"
proof -
  let ?k = "channel_identifier (bp_canonical_identifier (ru_balance_proof u))"
  show ?thesis
  proof (cases "bp_sender (lt_balance_proof (payer_transfer p)) \<noteq> bp_sender (ru_balance_proof u) \<or>
      dict_get m ?k = None")
    case True
    with assms show ?thesis by (auto simp: claim_from_payer_def Let_def split: option.splits)
  next
    case False
    then obtain c where c: "dict_get m ?k = Some c" by auto
    note run = assms(1) [unfolded claim_from_payer_def Let_def prod.case c option.case]
    obtain out where "handle_unlock L c u = Inr out"
      using run False by (cases "handle_unlock L c u") simp_all
    then obtain channel_events msg c' where got: "handle_unlock L c u = Inr ((channel_events, msg), c')"
      by (metis surj_pair)
    with run False assms(2) handle_unlock_none [OF got] show ?thesis
      by (cases msg) auto
  qed
qed

lemma handle_unlock_mediator_none:
  assumes "handle_unlock_mediator L s u m g = Inr ((s', evs), m', g')"
  shows "pays_none evs"
proof -
  from assms obtain pairs where
    "for_each (claim_from_payer L u) (transfers_pair s) (m, []) = Inr (pairs, m', evs)"
    by (auto simp: handle_unlock_mediator_def res_bind_Inr)
  then have "pays_none (snd (m', evs))"
    by (rule for_each_events) (auto intro: claim_from_payer_none)
  then show ?thesis by simp
qed

lemma expire_from_payer_none:
  assumes "expire_from_payer L h sc n p (r, m, evs) = Inr (p', r', m', evs')" "pays_none evs"
  shows "pays_none evs'"
proof (cases "r \<or> get_payer_channel m p = None")
  case True
  with assms show ?thesis by (auto simp: expire_from_payer_def split: if_splits)
next
  case False
  then obtain c where c: "get_payer_channel m p = Some c" by auto
  with assms False obtain evs1 c' where got: "handle_receive_lock_expired L c sc n = Inr (evs1, c')"
    by (auto simp: expire_from_payer_def res_bind_Inr)
  with assms False c receive_lock_expired_none [OF got] show ?thesis
    by (auto simp: expire_from_payer_def split: if_splits)
qed

lemma handle_lock_expired_none:
  assumes "handle_lock_expired_mediator L s sc m g n = Inr ((s', evs), m', g')"
  shows "pays_none evs"
proof -
  from assms obtain pairs returned m1 evs1 where
    loop: "for_each (expire_from_payer L (mt_secrethash s) sc n) (transfers_pair s) (False, m, [])
      = Inr (pairs, returned, m1, evs1)"
    by (auto simp: handle_lock_expired_mediator_def res_bind_Inr)
  then have "pays_none (snd (snd (returned, m1, evs1)))"
    by (rule for_each_events) (auto intro: expire_from_payer_none)
  then have evs1: "pays_none evs1" by simp
  note run = assms [unfolded handle_lock_expired_mediator_def loop Let_def res_bind_simps prod.case]
  show ?thesis
  proof (cases "returned \<or> waiting_transfer s = None")
    case True
    with run evs1 show ?thesis by (cases returned) auto
  next
    case False
    then obtain w where w: "\<not> returned" "waiting_transfer s = Some w" by auto
    show ?thesis
    proof (cases "dict_get m1 (received_channel (wt_transfer w))")
      case None
      with run w evs1 show ?thesis by simp
    next
      case (Some c)
      with run w evs1 show ?thesis
        by (auto simp: res_bind_Inr dest: receive_lock_expired_none)
    qed
  qed
qed

lemma mediate_transfer_none:
  assumes "mediate_transfer L s routes key c m states g t n = Inr ((s', evs), m', g')"
  shows "pays_none evs"
  using assms
  by (elim mediate_transfer_cases) (auto elim!: forward_transfer_cases backward_transfer_cases)

lemma handle_refundtransfer_mediator_none:
  assumes "handle_refundtransfer_mediator L now s r m states g n = Inr ((s', evs), m', g')"
  shows "pays_none evs"
  using assms
proof (cases rule: handle_refundtransfer_mediator_cases)
  case (accepted c evs1 c' evs2)
  have "pays_none evs1" using accepted(4) by (elim handle_refundtransfer_cases) auto
  with accepted(6) mediate_transfer_none [OF accepted(5)] show ?thesis by simp
qed auto

lemma handle_node_change_none:
  assumes "handle_node_change_network_state L s address state m g n = Inr ((s', evs), m', g')"
  shows "pays_none evs"
  using assms by (elim handle_node_change_cases) (auto dest: mediate_transfer_none)

text \<open>The block at which a state change reveals a secret.\<close>

definition reveal_block :: "state_change \<Rightarrow> int \<Rightarrow> int" where
  "reveal_block sc n = (case sc of ContractReceiveSecretRevealChange r \<Rightarrow> csr_block_number r | _ \<Rightarrow> n)"

definition payment_backed ::
    "MediatorTransferState \<Rightarrow> channelmap \<Rightarrow> int \<Rightarrow> SendBalanceProofEvent \<Rightarrow> MediationPairState \<Rightarrow> bool"
  where
  "payment_backed s m n u p \<longleftrightarrow>
     sbp_channel_identifier u = sent_channel (payee_transfer p) \<and>
     \<not> payee_paid (payee_state p) \<and>
     (\<exists>c. dict_get m (received_channel (payer_transfer p)) = Some c \<and>
        n + reveal_timeout c < lock_expiration (lt_lock (payer_transfer p)) \<and>
        (\<forall>l. get_lock (partner_state c) (mt_secrethash s) = Some l \<longrightarrow>
           is_secret_known (partner_state c) (mt_secrethash s) \<or> lock_expiration l < n))"

lemma covered_backed:
  assumes "covered_payment n h secret m1 u q" "payers_view m' = payers_view m1" "h = mt_secrethash s"
    and "same_transfers p q" "\<not> payee_paid (payee_state p)"
    and "received_channel (payer_transfer p) \<in> secured_keys n h m1"
  shows "payment_backed s m' n u p"
proof -
  let ?k = "received_channel (payer_transfer p)"
  from assms(1,4) obtain c where c: "dict_get m1 ?k = Some c"
    "n + reveal_timeout c < lock_expiration (lt_lock (payer_transfer p))"
    "sbp_channel_identifier u = sent_channel (payee_transfer p)"
    by (auto simp: covered_payment_def same_transfers_def)
  moreover have "secured n h c" using assms(6) c(1) by (simp add: secured_keys_def)
  moreover obtain e where "dict_get m' ?k = Some (c\<lparr>our_state := e\<rparr>)"
    by (rule payers_view_Some [OF assms(2) c(1)])
  ultimately show ?thesis
    using assms(3,5) secured_get_lock [of n h c] by (auto simp: payment_backed_def)
qed

lemma list_all2_origin:
  "list_all2 R xs ys \<Longrightarrow> y \<in> set ys \<Longrightarrow> \<exists>x \<in> set xs. R x y"
  by (induction rule: list_all2_induct) auto

lemma reveal_to_payer_none:
  "reveal_to_payer L secret p (g, evs) = Inr (p', g', evs') \<Longrightarrow> pays_none evs \<Longrightarrow> pays_none evs'"
  by (auto simp: reveal_to_payer_def message_identifier_from_prng_def split: if_splits)

lemma events_for_secretreveal_none:
  assumes "events_for_secretreveal L pairs secret g = Inr (pairs', g', evs)"
  shows "pays_none evs"
proof -
  from assms obtain ps where "for_each (reveal_to_payer L secret) (rev pairs) (g, []) = Inr (ps, g', evs)"
    by (auto simp: events_for_secretreveal_def for_each_reversed_def res_bind_Inr)
  then have "pays_none (snd (g', evs))"
    by (rule for_each_events) (auto intro: reveal_to_payer_none)
  then show ?thesis by simp
qed

lemma if_closed_none:
  assumes "events_for_onchain_secretreveal_if_closed m pairs secret h bh = Inr (pairs', evs)"
  shows "pays_none evs"
proof -
  have step: "pays_none evs'"
    if "reveal_if_closed m secret h bh p (sent, evs) = Inr (p', sent', evs')" "pays_none evs"
    for p sent evs p' sent' evs'
  proof (cases "get_payer_channel m p")
    case None
    with that show ?thesis by (auto simp: reveal_if_closed_def split: if_splits)
  next
    case (Some c)
    with that show ?thesis
      by (cases "get_lock (partner_state c) h"; cases sent)
        (auto simp: reveal_if_closed_def Let_def split: if_splits)
  qed
  from assms obtain sent where "for_each (reveal_if_closed m secret h bh) pairs
       (has_secret_registration_started (payer_channels m pairs) pairs h, []) = Inr (pairs', sent, evs)"
    by (auto simp: events_for_onchain_secretreveal_if_closed_def res_bind_Inr)
  then have "pays_none (snd (sent, evs))"
    by (rule for_each_events) (auto intro: step)
  then show ?thesis by simp
qed

lemma set_secret_none:
  assumes "set_secret register s m secret h = Inr (evs, s', m')"
  shows "pays_none evs"
proof -
  from assms obtain x where loop: "for_each (change_pair_channels register) (transfers_pair s) m = Inr x"
    by (cases "for_each (change_pair_channels register) (transfers_pair s) m") (auto simp: set_secret_def)
  obtain ps m1 where x: "x = (ps, m1)" by (cases x)
  show ?thesis
  proof (cases "waiting_transfer s")
    case None
    with assms loop x show ?thesis by (auto simp: set_secret_def)
  next
    case (Some w)
    with assms loop x show ?thesis
      by (cases "change_channel (received_channel (wt_transfer w)) register m1")
        (auto simp: set_secret_def)
  qed
qed

context channel_law
begin

lemma secret_learned_backed:
  assumes all: "channels_all P m" and ok: "mediator_ok L s" "mt_secret s = None"
    and h: "h = mt_secrethash s"
    and run: "secret_learned L s m g n bh secret h address = Inr ((s', evs), m', g')"
    and u: "SendBalanceProof u \<in> set evs"
  shows "\<exists>p \<in> set (transfers_pair s). payment_backed s m' n u p"
proof -
  from run obtain evs1 s1 m1 pairs1 evs2 pairs2 g2 evs3 pairs3 g3 evs4 where *:
    "set_offchain_secret s m secret h = Inr (evs1, s1, m1)"
    "events_for_onchain_secretreveal_if_closed m1 (set_offchain_reveal_state (transfers_pair s1) address)
       secret h bh = Inr (pairs1, evs2)"
    "events_for_secretreveal L pairs1 secret g = Inr (pairs2, g2, evs3)"
    "events_for_balanceproof L m1 pairs2 g2 n secret h = Inr (pairs3, m', g3, evs4)"
    "evs = evs1 @ evs3 @ evs4 @ evs2"
    by (auto simp: secret_learned_def Let_def res_bind_Inr)
  have s1: "s1 = s\<lparr>mt_secret := Some secret\<rparr>"
    using set_secret_task *(1) by (simp add: set_offchain_secret_def)
  have "SendBalanceProof u \<in> set evs4"
    using u * set_secret_none [OF *(1) [unfolded set_offchain_secret_def]] if_closed_none [OF *(2)]
      events_for_secretreveal_none [OF *(3)] by (auto simp: pays_none_def)
  with events_for_balanceproof_covered [OF set_offchain_secret_all [OF all *(1)] *(4)]
  obtain q where q: "q \<in> set pairs2" "covered_payment n h secret m1 u q"
    and view: "payers_view m' = payers_view m1" by blast
  have "list_all2 same_transfers (transfers_pair s) pairs2"
    using set_offchain_reveal_state_pairs [of "transfers_pair s1" address] if_closed_pairs [OF *(2)]
      events_for_secretreveal_pairs [OF *(3)] s1
    by (auto intro: same_transfers_chain)
  then obtain p where p: "p \<in> set (transfers_pair s)" "same_transfers p q"
    using list_all2_origin q(1) by metis
  have "\<not> payee_paid (payee_state p)"
    using ok p(1) by (auto simp: mediator_ok_def list_all_iff pair_unrevealed_def)
  moreover have "received_channel (payer_transfer p) \<in> secured_keys n h m1"
    using set_secret_secured [OF all *(1) [unfolded set_offchain_secret_def], of n] p(1)
      offchain offchain_secured by auto
  ultimately show ?thesis using covered_backed [OF q(2) view h p(2)] p(1) by blast
qed

lemma handle_onchain_secretreveal_backed:
  assumes all: "channels_all P m"
    and run: "handle_onchain_secretreveal_mediator L s r m g = Inr ((s', evs), m', g')"
    and u: "SendBalanceProof u \<in> set evs"
  shows "\<exists>p \<in> set (transfers_pair s). payment_backed s m' (csr_block_number r) u p"
proof (cases "is_valid_secret_reveal (csr_secrethash r) (mt_secrethash s) (csr_secret r)")
  case False
  with run u show ?thesis by (simp add: handle_onchain_secretreveal_mediator_def Let_def)
next
  case True
  let ?n = "csr_block_number r" and ?h = "csr_secrethash r"
  from run True obtain evs1 s1 m1 pairs evs2 where *:
    "set_onchain_secret s m (csr_secret r) ?h ?n = Inr (evs1, s1, m1)"
    "events_for_balanceproof L m1 (transfers_pair s1) g ?n (csr_secret r) ?h
       = Inr (pairs, m', g', evs2)" "evs = evs1 @ evs2"
    by (auto simp: handle_onchain_secretreveal_mediator_def Let_def res_bind_Inr)
  have s1: "s1 = s\<lparr>mt_secret := Some (csr_secret r)\<rparr>"
    using set_secret_task *(1) by (simp add: set_onchain_secret_def)
  have "SendBalanceProof u \<in> set evs2"
    using u *(3) set_secret_none [OF *(1) [unfolded set_onchain_secret_def]] by (auto simp: pays_none_def)
  with events_for_balanceproof_covered [OF set_onchain_secret_all [OF all *(1)] *(2)] s1
  obtain p where p: "p \<in> set (transfers_pair s)" "covered_payment ?n ?h (csr_secret r) m1 u p"
    and view: "payers_view m' = payers_view m1" by auto
  have "maps_ok (partner_state c)" if "P k c" for k c
    using sound [OF that] channel_okD(2) end_okD(1) by blast
  then have "\<forall>k c c'. P k c \<and> register_onchain_secret c (csr_secret r) ?h ?n True = Inr c' \<longrightarrow>
      P k c' \<and> secured ?n ?h c'"
    using onchain onchain_secured by blast
  from set_secret_secured [OF all *(1) [unfolded set_onchain_secret_def] this]
  have "received_channel (payer_transfer p) \<in> secured_keys ?n ?h m1"
    using p(1) by auto
  moreover have "\<not> payee_paid (payee_state p)" using p(2) by (simp add: covered_payment_def)
  moreover have "?h = mt_secrethash s" using True by (simp add: is_valid_secret_reveal_def)
  ultimately show ?thesis using covered_backed [OF p(2) view _ move_refl(1)] p(1) by blast
qed

end

section \<open>Steps of the mediator\<close>

text \<open>What \<open>dispatch_mediator\<close> does with a running task.\<close>

lemma dispatch_backed:
  assumes all: "channels_all (node_channel L) m" and ok: "mediator_ok L s"
    and run: "dispatch_mediator L now (Some s) sc m states g n bh = Inr ((s', evs), m', g')"
    and u: "SendBalanceProof u \<in> set evs"
  shows "\<exists>p \<in> set (transfers_pair s). payment_backed s m' (reveal_block sc n) u p"
proof -
  note run = run [unfolded dispatch_mediator_def Let_def option.case]
  have none: "\<not> pays_none evs" using u by (auto simp: pays_none_def)
  show ?thesis
  proof (cases sc)
    case Block
    with run none handle_block_none show ?thesis by auto
  next
    case (ReceiveTransferRefundChange r)
    with run none handle_refundtransfer_mediator_none show ?thesis by auto
  next
    case (ReceiveSecretRevealChange r)
    with run have "handle_offchain_secretreveal_mediator L s r m g n bh = Inr ((s', evs), m', g')"
      by simp
    then show ?thesis
    proof (cases rule: handle_offchain_secretreveal_moves)
      case (learned t)
      from node.secret_learned_backed [OF all ok learned(6,4,7) u] show ?thesis
        using ReceiveSecretRevealChange by (simp add: reveal_block_def)
    qed (use u in simp)
  next
    case (ContractReceiveSecretRevealChange r)
    with run have "handle_onchain_secretreveal_mediator L s r m g = Inr ((s', evs), m', g')"
      by simp
    from node.handle_onchain_secretreveal_backed [OF all this u] show ?thesis
      using ContractReceiveSecretRevealChange by (simp add: reveal_block_def)
  next
    case (ReceiveUnlockChange u)
    with run none handle_unlock_mediator_none show ?thesis by auto
  next
    case (ReceiveLockExpiredChange x)
    with run none handle_lock_expired_none show ?thesis by auto
  next
    case (ActionChangeNodeNetworkState address network)
    with run none handle_node_change_none show ?thesis by auto
  qed (use run none in auto)
qed

end
