(* ===== verification/MediatorDeadline.thy ===== *)
theory MediatorDeadline
  imports MediatorPayments
begin

text \<open>
  The mediator's last resort: before the lock of a payer can expire, the mediator registers the
  secret it knows on-chain, with one transaction for all pairs.
\<close>

text \<open>A pair whose payer's lock is not safe to wait for any more, while the secret is known.\<close>

definition endangered :: "channelmap \<Rightarrow> int \<Rightarrow> MediationPairState \<Rightarrow> bool" where
  "endangered m n p \<longleftrightarrow>
     pair_pending p \<and>
     (case get_payer_channel m p of
        None \<Rightarrow> False
      | Some c \<Rightarrow>
          lock_expiration (lt_lock (payer_transfer p)) - n \<le> reveal_timeout c \<and>
          is_secret_known (partner_state c) (lock_secrethash (lt_lock (payer_transfer p))))"

definition mark_waiting :: "channelmap \<Rightarrow> int \<Rightarrow> MediationPairState \<Rightarrow> MediationPairState" where
  "mark_waiting m n p =
     (if endangered m n p then p\<lparr>payer_state := payer_waiting_secret_reveal\<rparr> else p)"

text \<open>The transaction for the first endangered pair.\<close>

definition reveal_for :: "channelmap \<Rightarrow> bytes \<Rightarrow> MediationPairState \<Rightarrow> event list" where
  "reveal_for m bh p =
     (case get_payer_channel m p of
        None \<Rightarrow> []
      | Some c \<Rightarrow>
          (case get_secret (partner_state c) (lock_secrethash (lt_lock (payer_transfer p))) of
             None \<Rightarrow> []
           | Some secret \<Rightarrow>
               events_for_onchain_secretreveal c secret (lock_expiration (lt_lock (payer_transfer p))) bh))"

lemma reveal_in_dangerzone_step:
  assumes "reveal_in_dangerzone m n bh p (sent, evs) = Inr (p', sent', evs')"
  shows "p' = mark_waiting m n p \<and> sent' = (sent \<or> endangered m n p) \<and>
    evs' = evs @ (if \<not> sent \<and> endangered m n p then reveal_for m bh p else [])"
proof (cases "pair_pending p \<and> get_payer_channel m p \<noteq> None")
  case False
  with assms show ?thesis
    by (auto simp: reveal_in_dangerzone_def mark_waiting_def endangered_def split: if_splits option.splits)
next
  case True
  then obtain c where c: "pair_pending p" "get_payer_channel m p = Some c" by auto
  let ?x = "lock_expiration (lt_lock (payer_transfer p))"
    and ?h = "lock_secrethash (lt_lock (payer_transfer p))"
  from assms c obtain safe where safe: "is_safe_to_wait ?x (reveal_timeout c) n = Inr safe"
    by (auto simp: reveal_in_dangerzone_def Let_def res_bind_Inr)
  then have e: "endangered m n p \<longleftrightarrow> \<not> safe \<and> is_secret_known (partner_state c) ?h"
    using c by (auto simp: endangered_def is_safe_to_wait_Inr)
  show ?thesis
  proof (cases "endangered m n p")
    case False
    then show ?thesis using assms c safe e
      by (auto simp: reveal_in_dangerzone_def Let_def mark_waiting_def)
  next
    case True
    show ?thesis
    proof (cases sent)
      case True
      then show ?thesis using assms c safe e \<open>endangered m n p\<close>
        by (simp add: reveal_in_dangerzone_def Let_def mark_waiting_def)
    next
      case False
      then show ?thesis using assms c safe e True
        by (cases "get_secret (partner_state c) ?h")
          (auto simp: reveal_in_dangerzone_def Let_def mark_waiting_def reveal_for_def py_assert_Inr)
    qed
  qed
qed

lemma reveal_in_dangerzone_loop:
  assumes "for_each (reveal_in_dangerzone m n bh) pairs (sent, evs) = Inr (pairs', sent', evs')"
  shows "pairs' = map (mark_waiting m n) pairs \<and>
    evs' = evs @ (if sent then [] else case find (endangered m n) pairs of
      None \<Rightarrow> [] | Some p \<Rightarrow> reveal_for m bh p)"
  using assms
proof (induction pairs arbitrary: sent evs pairs')
  case (Cons p pairs)
  from Cons.prems obtain p1 sent1 evs1 qs where
    1: "reveal_in_dangerzone m n bh p (sent, evs) = Inr (p1, sent1, evs1)" and
    2: "for_each (reveal_in_dangerzone m n bh) pairs (sent1, evs1) = Inr (qs, sent', evs')"
    "pairs' = p1 # qs"
    by (auto simp: res_bind_Inr)
  from reveal_in_dangerzone_step [OF 1] Cons.IH [OF 2(1)] 2(2) show ?case by auto
qed simp

definition is_reveal :: "event \<Rightarrow> bool" where
  "is_reveal e \<longleftrightarrow> (case e of ContractSendSecretReveal _ _ _ \<Rightarrow> True | _ \<Rightarrow> False)"

lemma expired_lock_no_reveal:
  "events_for_expired_lock L c l g = Inr (evs, c', g') \<Longrightarrow> filter is_reveal evs = []"
  by (auto simp: events_for_expired_lock_def res_bind_Inr py_assert_Inr is_reveal_def split: option.splits)

lemma events_for_expired_lock_our:
  "events_for_expired_lock L c l g = Inr (evs, c', g') \<Longrightarrow> \<exists>e. c' = c\<lparr>our_state := e\<rparr>"
  by (auto simp: events_for_expired_lock_def res_bind_Inr py_assert_Inr split: option.splits)
    (metis NettingChannelState.surjective NettingChannelState.update_convs(7))

lemma remove_expired_lock_step:
  assumes "remove_expired_lock L h n p (m, g, evs) = Inr (p', m', g', evs')"
  shows "payers_view m' = payers_view m \<and> filter is_reveal evs' = filter is_reveal evs \<and>
    same_transfers p p' \<and> payer_state p' = payer_state p"
proof (cases "get_payee_channel m p")
  case None
  with assms show ?thesis by (simp add: remove_expired_lock_def)
next
  case (Some c)
  then have c: "dict_get m (sent_channel (payee_transfer p)) = Some c"
    by (simp add: get_payee_channel_def)
  from assms Some obtain found where found: "sent_lock c h = Inr found"
    by (auto simp: remove_expired_lock_def res_bind_Inr)
  show ?thesis
  proof (cases found)
    case None
    with assms Some found show ?thesis by (simp add: remove_expired_lock_def)
  next
    case (Some lock)
    note run = assms [unfolded remove_expired_lock_def prod.case \<open>get_payee_channel m p = Some c\<close>
        option.case found res_bind_simps Some]
    show ?thesis
    proof (cases "is_lock_expired (our_state c) lock n (get_sender_expiration_threshold lock) = None \<and>
        get_status c = CHANNEL_STATE_OPENED")
      case False
      with run show ?thesis by (simp split: if_splits)
    next
      case True
      with run obtain evs1 c' where 1: "events_for_expired_lock L c lock g = Inr (evs1, c', g')"
        "p' = p\<lparr>payee_state := payee_expired\<rparr>" "m' = dict_set (sent_channel (payee_transfer p)) c' m"
        "evs' = evs @ evs1 @ [EventUnlockFailed (lt_payment_identifier (payee_transfer p))
           (lock_secrethash (lt_lock (payee_transfer p))) LockExpiredText]"
        by (auto simp: res_bind_Inr)
      from events_for_expired_lock_our [OF 1(1)] payers_view_our [OF c] 1 expired_lock_no_reveal [OF 1(1)]
      show ?thesis by (auto simp: same_transfers_def is_reveal_def)
    qed
  qed
qed

lemma registration_started_iff:
  "has_secret_registration_started (payer_channels m pairs) pairs h \<longleftrightarrow>
     (\<exists>p \<in> set pairs. payer_state p = payer_waiting_secret_reveal \<or>
        (\<exists>c. get_payer_channel m p = Some c \<and> is_secret_known_onchain (partner_state c) h))"
  by (induction pairs)
    (auto simp: has_secret_registration_started_def payer_channels_def map_filter_simps
      split: option.splits)

text \<open>What the removal of expired locks leaves for the test that follows it.\<close>

definition payer_side :: "MediationPairState \<Rightarrow> MediationPairState \<Rightarrow> bool" where
  "payer_side p p' \<longleftrightarrow> same_transfers p p' \<and> payer_state p' = payer_state p"

lemma removal_keeps_payer_side:
  assumes "events_to_remove_expired_locks L s m n g = Inr (pairs, m', g', evs)"
  shows "payers_view m' = payers_view m" "filter is_reveal evs = []"
    "list_all2 payer_side (transfers_pair s) pairs"
proof -
  define I where "I = (\<lambda>(m1, g1 :: prng, evs1). payers_view m1 = payers_view m \<and> filter is_reveal evs1 = [])"
  have "I (m', g', evs) \<and> list_all2 payer_side (transfers_pair s) pairs"
    using assms [unfolded events_to_remove_expired_locks_def]
  proof (rule for_each_invariant)
    fix p x p' x'
    assume "I x" "remove_expired_lock L (mt_secrethash s) n p x = Inr (p', x')"
    then show "I x' \<and> payer_side p p'"
      by (cases x; cases x') (auto simp: I_def payer_side_def dest!: remove_expired_lock_step)
  qed (simp add: I_def)
  then show "payers_view m' = payers_view m" "filter is_reveal evs = []"
    "list_all2 payer_side (transfers_pair s) pairs"
    by (simp_all add: I_def)
qed

lemma payer_channel_moved:
  assumes "payers_view m' = payers_view m" "payer_side p p'"
  shows "get_payer_channel m' p' = Some d \<Longrightarrow> \<exists>c e. get_payer_channel m p = Some c \<and> d = c\<lparr>our_state := e\<rparr>"
    and "get_payer_channel m p = Some c \<Longrightarrow> \<exists>e. get_payer_channel m' p' = Some (c\<lparr>our_state := e\<rparr>)"
proof -
  have k: "received_channel (payer_transfer p') = received_channel (payer_transfer p)"
    using assms(2) by (simp add: payer_side_def same_transfers_def)
  show "get_payer_channel m p = Some c \<Longrightarrow> \<exists>e. get_payer_channel m' p' = Some (c\<lparr>our_state := e\<rparr>)"
    using payers_view_Some [OF assms(1)] k unfolding get_payer_channel_def by metis
  assume "get_payer_channel m' p' = Some d"
  then obtain e where "dict_get m (received_channel (payer_transfer p)) = Some (d\<lparr>our_state := e\<rparr>)"
    using payers_view_Some [OF assms(1) [symmetric]] k unfolding get_payer_channel_def by metis
  then show "\<exists>c e. get_payer_channel m p = Some c \<and> d = c\<lparr>our_state := e\<rparr>"
    unfolding get_payer_channel_def
    by (intro exI [of _ "d\<lparr>our_state := e\<rparr>"] exI [of _ "our_state d"]) simp
qed

lemma list_all2_image:
  "list_all2 R xs ys \<Longrightarrow> x \<in> set xs \<Longrightarrow> \<exists>y \<in> set ys. R x y"
  by (induction rule: list_all2_induct) auto

lemma registration_started_moved:
  assumes "payers_view m' = payers_view m" "list_all2 payer_side pairs pairs'"
  shows "has_secret_registration_started (payer_channels m' pairs') pairs' h =
    has_secret_registration_started (payer_channels m pairs) pairs h"
  unfolding registration_started_iff
proof
  assume "\<exists>p' \<in> set pairs'. payer_state p' = payer_waiting_secret_reveal \<or>
    (\<exists>c. get_payer_channel m' p' = Some c \<and> is_secret_known_onchain (partner_state c) h)"
  then obtain p' where p': "p' \<in> set pairs'" "payer_state p' = payer_waiting_secret_reveal \<or>
    (\<exists>c. get_payer_channel m' p' = Some c \<and> is_secret_known_onchain (partner_state c) h)" by blast
  then obtain p where p: "p \<in> set pairs" "payer_side p p'" using list_all2_origin [OF assms(2)] by blast
  with p'(2) show "\<exists>p \<in> set pairs. payer_state p = payer_waiting_secret_reveal \<or>
      (\<exists>c. get_payer_channel m p = Some c \<and> is_secret_known_onchain (partner_state c) h)"
    using payer_channel_moved(1) [OF assms(1) p(2)]
    by (intro bexI [of _ p]) (fastforce simp: payer_side_def)+
next
  assume "\<exists>p \<in> set pairs. payer_state p = payer_waiting_secret_reveal \<or>
    (\<exists>c. get_payer_channel m p = Some c \<and> is_secret_known_onchain (partner_state c) h)"
  then obtain p where p: "p \<in> set pairs" "payer_state p = payer_waiting_secret_reveal \<or>
    (\<exists>c. get_payer_channel m p = Some c \<and> is_secret_known_onchain (partner_state c) h)" by blast
  then obtain p' where p': "p' \<in> set pairs'" "payer_side p p'" using list_all2_image [OF assms(2)] by blast
  with p(2) show "\<exists>p \<in> set pairs'. payer_state p = payer_waiting_secret_reveal \<or>
      (\<exists>c. get_payer_channel m' p = Some c \<and> is_secret_known_onchain (partner_state c) h)"
    using payer_channel_moved(2) [OF assms(1) p'(2)]
    by (intro bexI [of _ p']) (fastforce simp: payer_side_def)+
qed

lemma reveal_for_event:
  assumes "endangered m n q" "get_payer_channel m q = Some d"
    and "get_status d \<in> CHANNEL_STATES_PRIOR_TO_CLOSED \<union> {CHANNEL_STATE_CLOSED}"
  obtains secret where
    "get_secret (partner_state d) (lock_secrethash (lt_lock (payer_transfer q))) = Some secret"
    "reveal_for m bh q = [ContractSendSecretReveal (lock_expiration (lt_lock (payer_transfer q))) secret bh]"
proof -
  have "is_secret_known (partner_state d) (lock_secrethash (lt_lock (payer_transfer q)))"
    using assms(1,2) by (simp add: endangered_def)
  then obtain secret where
    s: "get_secret (partner_state d) (lock_secrethash (lt_lock (payer_transfer q))) = Some secret"
    by (cases "dict_get (secrethashes_to_unlockedlocks (partner_state d))
          (lock_secrethash (lt_lock (payer_transfer q)))")
      (auto simp: is_secret_known_def get_secret_def dict_has_def)
  show thesis
    by (rule that [OF s]) (use assms s in \<open>simp add: reveal_for_def events_for_onchain_secretreveal_def\<close>)
qed

text \<open>A whole block: the first endangered payer's lock is revealed, if no registration has started.\<close>

lemma block_reveals:
  assumes run: "handle_block_mediator L s n bh m g = Inr ((t, evs), m', g')"
  obtains pairs where "payers_view m' = payers_view m" "list_all2 payer_side (transfers_pair s) pairs"
    "filter is_reveal evs =
       (if has_secret_registration_started (payer_channels m (transfers_pair s)) (transfers_pair s)
             (mt_secrethash s) then []
        else case find (endangered m' n) pairs of
          None \<Rightarrow> [] | Some q \<Rightarrow> filter is_reveal (reveal_for m' bh q))"
proof -
  let ?started = "has_secret_registration_started (payer_channels m (transfers_pair s))
    (transfers_pair s) (mt_secrethash s)"
  from run obtain pairs g1 evs1 pairs2 evs2 where
    1: "events_to_remove_expired_locks L s m n g = Inr (pairs, m', g1, evs1)" and
    2: "events_for_onchain_secretreveal_if_dangerzone m' (mt_secrethash s) pairs n bh = Inr (pairs2, evs2)"
    by (auto simp: handle_block_mediator_def res_bind_Inr case_prod_beta)
  obtain evs3 pairs3 w where
    3: "events_for_expired_pairs m' pairs2 (waiting_transfer s) n = (evs3, pairs3, w)"
    by (metis prod_cases3)
  have evs: "evs = evs3 @ evs2 @ evs1" using run 1 2 3 by (simp add: handle_block_mediator_def)
  note r = removal_keeps_payer_side [OF 1]
  have "filter is_reveal evs3 = []"
    using 3 by (auto simp: events_for_expired_pairs_def Let_def is_reveal_def claim_failed_def
        filter_empty_conv split: option.splits if_splits)
  moreover from 2 obtain sent where "for_each (reveal_in_dangerzone m' n bh) pairs (?started, [])
      = Inr (pairs2, sent, evs2)"
    by (auto simp: events_for_onchain_secretreveal_if_dangerzone_def res_bind_Inr
        registration_started_moved [OF r(1,3)])
  from reveal_in_dangerzone_loop [OF this]
  have "evs2 = (if ?started then [] else case find (endangered m' n) pairs of
      None \<Rightarrow> [] | Some q \<Rightarrow> reveal_for m' bh q)"
    by simp
  ultimately show thesis using evs r by (intro that) (auto split: option.split)
qed

lemma endangered_found:
  assumes view: "payers_view m' = payers_view m" and sides: "list_all2 payer_side ps pairs"
    and p: "p \<in> set ps" "get_payer_channel m p = Some c" "\<not> payer_final (payer_state p)"
      "lock_expiration (lt_lock (payer_transfer p)) - n \<le> reveal_timeout c"
      "is_secret_known (partner_state c) (lock_secrethash (lt_lock (payer_transfer p)))"
  obtains q q' d e where "find (endangered m' n) pairs = Some q'" "endangered m' n q'"
    "q \<in> set ps" "payer_side q q'" "get_payer_channel m q = Some d"
    "get_payer_channel m' q' = Some (d\<lparr>our_state := e\<rparr>)"
proof -
  obtain p' where p': "p' \<in> set pairs" "payer_side p p'" using list_all2_image [OF sides p(1)] by blast
  then obtain e where "get_payer_channel m' p' = Some (c\<lparr>our_state := e\<rparr>)"
    using payer_channel_moved(2) [OF view _ p(2)] by blast
  then have "endangered m' n p'"
    using p p'(2) by (simp add: endangered_def payer_side_def same_transfers_def pair_pending_def)
  then obtain q' where q': "find (endangered m' n) pairs = Some q'"
    using p'(1) by (cases "find (endangered m' n) pairs") (auto simp: find_None_iff)
  then have e: "q' \<in> set pairs" "endangered m' n q'"
    by (auto simp: find_Some_iff in_set_conv_nth)
  obtain q where q: "q \<in> set ps" "payer_side q q'" using list_all2_origin [OF sides e(1)] by blast
  obtain d' where d': "get_payer_channel m' q' = Some d'"
    using e(2) by (auto simp: endangered_def split: option.splits)
  then obtain d e2 where "get_payer_channel m q = Some d" "d' = d\<lparr>our_state := e2\<rparr>"
    using payer_channel_moved(1) [OF view q(2)] by blast
  with that [OF q' e(2) q] d' show thesis by blast
qed

end
