(* ===== verification/MediatorSamples.thy ===== *)
theory MediatorSamples
  imports MediatorInvariant Samples
begin

text \<open>
  A mediated payment for the witnesses: \<open>bob\<close> pays \<open>carol\<close> through \<open>alice\<close>.  The transfer is
  received and forwarded at block 10; \<open>carol\<close> reveals the secret at block 20 and is unlocked; \<open>bob\<close>
  does not react and at block 60 his lock is in danger.
\<close>

definition carol :: bytes where "carol = replicate 20 3"

definition carol_ci :: CanonicalIdentifier where
  "carol_ci = \<lparr>chain_identifier = 30, token_network_address = replicate 20 9,
     channel_identifier = 2\<rparr>"

definition carol_channel :: NettingChannelState where
  "carol_channel = sample_channel\<lparr>ch_canonical_identifier := carol_ci,
     partner_state := mk_NettingChannelEndState carol 50\<rparr>"

definition med_map :: channelmap where
  "med_map = [(1, sample_channel), (2, carol_channel)]"

definition bob_route :: RouteState where
  "bob_route = \<lparr>route_node_address = bob, route_channel_identifier = 1\<rparr>"

definition carol_route :: RouteState where
  "carol_route = \<lparr>route_node_address = carol, route_channel_identifier = 2\<rparr>"

definition med_message :: LockedTransferSignedState where
  "med_message = sample_message\<lparr>lt_target := carol\<rparr>"

definition med_event :: SendTransferEvent where
  "med_event = sample_event_on carol_ci bob carol carol 7"

definition carol_sent :: NettingChannelState where
  "carol_sent = sample_sent_on carol_ci carol_channel"

definition med_pair :: MediationPairState where
  "med_pair = mk_MediationPairState med_message carol (ste_transfer med_event)"

definition med_start :: MediatorTransferState where
  "med_start = mk_MediatorTransferState sample_secrethash [carol_route]"

definition med_state :: MediatorTransferState where
  "med_state = med_start\<lparr>transfers_pair := [med_pair]\<rparr>"

definition med_map1 :: channelmap where
  "med_map1 = [(1, sample_received), (2, carol_sent)]"

abbreviation med_init :: state_change where
  "med_init \<equiv> ActionInitMediator [carol_route] bob_route med_message"

lemma med_sel [simp]:
  "lt_payment_identifier med_message = 2" "lt_payment_hash_invoice med_message = []"
  "lt_token med_message = replicate 20 8" "lt_balance_proof med_message = sample_signed 10"
  "lt_lock med_message = sample_lock 10" "lt_initiator med_message = bob"
  "lt_target med_message = carol" "lt_message_identifier med_message = 4"
  by (simp_all add: med_message_def sample_message_def)

lemma carol_channel_sel [simp]:
  "our_state carol_channel = mk_NettingChannelEndState alice 100"
  "partner_state carol_channel = mk_NettingChannelEndState carol 50"
  "ch_canonical_identifier carol_channel = carol_ci"
  "ch_token_address carol_channel = replicate 20 8"
  "get_status carol_channel = CHANNEL_STATE_OPENED" "reveal_timeout carol_channel = 50"
  "settle_timeout carol_channel = 500" "mediation_fee carol_channel = 0"
  by (simp_all add: carol_channel_def sample_channel_def get_status_def)

lemma carol_ci_sel [simp]: "channel_identifier carol_ci = 2" "channel_identifier sample_ci = 1"
  "canonical_identifier_validate carol_ci = Inr ()"
  by (simp_all add: carol_ci_def sample_ci_def canonical_identifier_validate_def UINT256_MAX_def)

lemma route_sel [simp]:
  "route_channel_identifier carol_route = 2" "route_node_address carol_route = carol"
  "route_channel_identifier bob_route = 1"
  by (simp_all add: carol_route_def bob_route_def)

lemma med_event_sel [simp]:
  "lt_payment_identifier (ste_transfer med_event) = 2"
  "lt_token (ste_transfer med_event) = replicate 20 8" "lt_lock (ste_transfer med_event) = sample_lock 10"
  "lt_initiator (ste_transfer med_event) = bob" "lt_target (ste_transfer med_event) = carol"
  "bp_canonical_identifier (lt_balance_proof (ste_transfer med_event)) = carol_ci"
  by (simp_all add: med_event_def sample_event_on_def sample_proof_on_def)

lemma med_receive:
  "handle_receive_lockedtransfer sample_libs now sample_channel med_message None =
     Inr (\<lparr>out_events = [send_processed bob 4], out_msg = None, out_invoice = Some None\<rparr>,
          sample_received, None)"
  using sample_check [of now MsgLockedTransfer]
  by (simp add: handle_receive_lockedtransfer_def receive_lockedtransfer_with_def
      is_valid_lockedtransfer_def sample_received_def)

lemma new_width: "get_number_of_pending_transfers (mk_NettingChannelEndState a b) = Inr 0"
  by (simp add: get_number_of_pending_transfers_def mk_NettingChannelEndState_def
      merkletree_width_def merkle_leaves_def make_empty_merkle_tree_def)

lemma carol_usable: "is_channel_usable carol_channel 10 90 = Inr True"
  by (simp add: is_channel_usable_def new_width MAXIMUM_PENDING_TRANSFERS_def)
    (simp add: mk_NettingChannelEndState_def get_distributable_def get_current_balanceproof_def
      get_balance_def current_transferred_amount_def get_amount_locked_def
      get_amount_unclaimed_onchain_def UINT256_MAX_def is_valid_amount_def)

lemma carol_send:
  "send_lockedtransfer sample_libs carol_channel bob carol 10 7 2 [] 100 sample_secrethash =
     Inr (med_event, carol_sent)"
  unfolding med_event_def carol_sent_def
  by (rule first_send_on [where a = alice and b = 100])
    (simp_all add: mk_NettingChannelEndState_def current_transferred_amount_def)

lemma sample_randint [simp]: "randint64 sample_libs g = int g"
  by (simp add: sample_libs_def)

lemma med_routes:
  "open_routes med_start [carol_route] [(carol, NODE_NETWORK_REACHABLE)] = [carol_route]"
  by (simp add: open_routes_def med_start_def mk_MediatorTransferState_def filter_used_routes_def
      filter_reachable_routes_def carol_route_def channelid_to_route_def)

lemma med_forward:
  "forward_transfer_pair sample_libs med_message [carol_route] [(1, sample_received), (2, carol_channel)]
     7 10 = Inr (Some med_pair, [SendLockedTransfer med_event], med_map1, 8)"
proof -
  have "next_channel_from_routes [carol_route] [(1, sample_received), (2, carol_channel)] 10 90 =
      Inr (Some (2, carol_channel))"
    using carol_usable by simp
  moreover have "es_address (partner_state carol_sent) = carol"
    by (simp add: carol_sent_def sample_sent_on_def mk_NettingChannelEndState_def)
  ultimately show ?thesis
    using carol_send
    by (simp add: forward_transfer_pair_def Let_def message_identifier_from_prng_def
        get_lock_amount_after_fees_def med_pair_def med_map1_def del: next_channel_from_routes.simps)
qed

lemma med_mediate:
  "mediate_transfer sample_libs med_start [carol_route] 1 sample_received
     [(1, sample_received), (2, carol_channel)] [(carol, NODE_NETWORK_REACHABLE)] 7 med_message 10 =
   Inr ((Some med_state, [SendLockedTransfer med_event]), med_map1, 8)"
  unfolding mediate_transfer_def open_routes_def [symmetric] med_routes Let_def med_forward
  by (simp add: med_state_def) (simp add: med_start_def mk_MediatorTransferState_def
      mk_NettingChannelEndState_def)

lemma med_pair_sel [simp]:
  "payer_transfer med_pair = med_message" "payee_transfer med_pair = ste_transfer med_event"
  "payee_address med_pair = carol" "payee_state med_pair = payee_pending"
  "payer_state med_pair = payer_pending"
  by (simp_all add: med_pair_def mk_MediationPairState_def)

lemma med_state_sel [simp]:
  "mt_secrethash med_state = sample_secrethash" "mt_secret med_state = None"
  "transfers_pair med_state = [med_pair]" "waiting_transfer med_state = None"
  "mt_routes med_state = [carol_route]"
  by (simp_all add: med_state_def med_start_def mk_MediatorTransferState_def)

lemma med_map1_get [simp]:
  "dict_get med_map1 1 = Some sample_received" "dict_get med_map1 2 = Some carol_sent"
  by (simp_all add: med_map1_def)

lemma med_channels [simp]:
  "get_payer_channel med_map1 med_pair = Some sample_received"
  "get_payee_channel med_map1 med_pair = Some carol_sent"
  by (simp_all add: get_payer_channel_def get_payee_channel_def)

lemma carol_sent_sel [simp]:
  "mediation_fee carol_sent = 0" "get_status carol_sent = CHANNEL_STATE_OPENED"
  "our_state carol_sent = record_lock (Unsigned (sample_proof_on carol_ci)) (sample_tree 10)
     (sample_lock 10) (mk_NettingChannelEndState alice 100)"
  "partner_state carol_sent = mk_NettingChannelEndState carol 50"
  "ch_canonical_identifier carol_sent = carol_ci" "reveal_timeout carol_sent = 50"
  by (simp_all add: carol_sent_def sample_sent_on_def carol_channel_def sample_channel_def get_status_def)

lemma med_sane: "sanity_check med_state med_map1 = Inr ()"
  by (simp add: sanity_check_def pair_sane_def is_send_transfer_almost_equal_def)

lemma med_pending: "has_pending_lock med_map1 med_state"
  using sample_pending(1)
  by (simp add: has_pending_lock_def pair_has_lock_def is_lock_pending_def dict_has_def)

lemma med_run:
  "state_transition_mediator sample_libs 0 None med_init med_map [(carol, NODE_NETWORK_REACHABLE)]
     7 10 bh = Inr ((Some med_state, [send_processed bob 4, SendLockedTransfer med_event]), med_map1, 8)"
proof -
  have start: "mk_MediatorTransferState (lock_secrethash (lt_lock med_message)) [carol_route] = med_start"
    by (simp add: med_start_def)
  have map: "dict_set 1 sample_received med_map = [(1, sample_received), (2, carol_channel)]"
    "dict_get med_map 1 = Some sample_channel"
    by (simp_all add: med_map_def)
  have "dispatch_mediator sample_libs 0 None med_init med_map [(carol, NODE_NETWORK_REACHABLE)] 7 10 bh =
      Inr ((Some med_state, [send_processed bob 4, SendLockedTransfer med_event]), med_map1, 8)"
    by (simp add: dispatch_mediator_def handle_init_def Let_def map med_receive start [simplified] med_mediate)
  then show ?thesis
    by (simp add: state_transition_mediator_def med_sane clear_if_finalized_def med_pending)
qed

section \<open>The secret is revealed\<close>

definition bob_known :: NettingChannelState where
  "bob_known = register_offchain_secret sample_received sample_secret sample_secrethash"

definition carol_known :: NettingChannelState where
  "carol_known = register_offchain_secret carol_sent sample_secret sample_secrethash"

abbreviation sample_copy :: UnlockPartialProofState where
  "sample_copy \<equiv> mk_UnlockPartialProofState (sample_lock 10) sample_secret"

lemma bob_known_sel [simp]:
  "secrethashes_to_lockedlocks (partner_state bob_known) = []"
  "secrethashes_to_unlockedlocks (partner_state bob_known) = [(sample_secrethash, sample_copy)]"
  "secrethashes_to_onchain_unlockedlocks (partner_state bob_known) = []"
  "get_status bob_known = CHANNEL_STATE_OPENED" "reveal_timeout bob_known = 50"
  "our_state bob_known = mk_NettingChannelEndState alice 100"
  by (simp_all add: bob_known_def register_offchain_secret_def register_secret_endstate_def
      sample_received_def sample_channel_def get_status_def)
    (simp_all add: record_lock_def mk_NettingChannelEndState_def)

lemma carol_known_sel [simp]:
  "secrethashes_to_lockedlocks (our_state carol_known) = []"
  "secrethashes_to_unlockedlocks (our_state carol_known) = [(sample_secrethash, sample_copy)]"
  "secrethashes_to_onchain_unlockedlocks (our_state carol_known) = []"
  "es_balance_proof (our_state carol_known) = Some (Unsigned (sample_proof_on carol_ci))"
  "es_merkletree (our_state carol_known) = sample_tree 10" "es_address (our_state carol_known) = alice"
  "contract_balance (our_state carol_known) = 100" "onchain_locksroot (our_state carol_known) = EMPTY_MERKLE_ROOT"
  "get_status carol_known = CHANNEL_STATE_OPENED" "reveal_timeout carol_known = 50"
  "mediation_fee carol_known = 0" "ch_canonical_identifier carol_known = carol_ci"
  "partner_state carol_known = mk_NettingChannelEndState carol 50"
  "ch_token_address carol_known = replicate 20 8"
  by (simp_all add: carol_known_def register_offchain_secret_def register_secret_endstate_def
      get_status_def carol_sent_def sample_sent_on_def carol_channel_def sample_channel_def)
    (simp_all add: record_lock_def mk_NettingChannelEndState_def)

definition carol_unlock :: SendBalanceProofEvent where
  "carol_unlock = mk_SendBalanceProof sample_libs carol 2 9 2 (replicate 20 8) sample_secret
     \<lparr>bp_nonce = 2, bp_transferred_amount = 10, bp_locked_amount = 0,
      bp_locksroot = EMPTY_MERKLE_ROOT, bp_canonical_identifier = carol_ci\<rparr>"

definition carol_paid :: NettingChannelState where
  "carol_paid = carol_known\<lparr>our_state := (mk_NettingChannelEndState alice 100)
     \<lparr>es_balance_proof := Some (Unsigned (sbp_balance_proof carol_unlock))\<rparr>\<rparr>"

lemma carol_lock: "get_lock (our_state carol_known) sample_secrethash = Some (sample_lock 10)"
  by (simp add: get_lock_def)

lemma carol_create_unlock:
  "create_unlock sample_libs carol_known 9 2 sample_secret (sample_lock 10) False =
     Inr (carol_unlock, make_empty_merkle_tree)"
proof -
  have p: "is_lock_pending (our_state carol_known) sample_secrethash"
    by (simp add: is_lock_pending_def dict_has_def)
  have a: "get_amount_locked (our_state carol_known) = 10"
    by (simp add: get_amount_locked_def get_amount_unclaimed_onchain_def)
  have n: "get_next_nonce (our_state carol_known) = 2"
    by (simp add: get_next_nonce_def sample_proof_on_def sample_proof_def)
  have bp: "mk_BalanceProofUnsignedState 2 10 0 EMPTY_MERKLE_ROOT carol_ci =
      Inr (sbp_balance_proof carol_unlock)"
    by (simp add: mk_BalanceProofUnsignedState_def balance_proof_checks_def UINT64_MAX_def
        UINT256_MAX_def carol_unlock_def mk_SendBalanceProof_def)
  show ?thesis
    by (simp add: create_unlock_def p a n sample_without sample_empty_root sample_proof_on_def
        sample_proof_def bp) (simp add: carol_unlock_def mk_SendBalanceProof_def mk_NettingChannelEndState_def)
qed

lemma carol_pay:
  "send_unlock sample_libs carol_known 9 2 sample_secret sample_secrethash False =
     Inr (carol_unlock, carol_paid)"
  by (simp add: send_unlock_def carol_lock carol_create_unlock del_lock_def del_unclaimed_lock_def
      set_proof_def is_lock_pending_def dict_has_def carol_paid_def)
    (simp add: mk_NettingChannelEndState_def)

definition carol_reveal :: ReceiveSecretReveal where
  "carol_reveal = mk_ReceiveSecretReveal sample_libs sample_secret carol"

lemma carol_reveal_sel [simp]:
  "rsr_secret carol_reveal = sample_secret" "rsr_secrethash carol_reveal = sample_secrethash"
  "rsr_sender carol_reveal = carol"
  by (simp_all add: carol_reveal_def mk_ReceiveSecretReveal_def sample_secrethash_def)

lemma sample_secret_nonempty [simp]: "sample_secret \<noteq> EMPTY_HASH" "sample_secret \<noteq> []"
proof -
  have "last sample_secret \<noteq> last EMPTY_HASH" by (simp add: sample_secret_def EMPTY_HASH_def)
  then show "sample_secret \<noteq> EMPTY_HASH" by metis
qed (simp add: sample_secret_def)

definition med_known :: channelmap where
  "med_known = [(1, bob_known), (2, carol_known)]"

definition med_map2 :: channelmap where
  "med_map2 = [(1, bob_known), (2, carol_paid)]"

definition bob_reveal :: event where
  "bob_reveal = SendSecretReveal (mk_SendSecretReveal sample_libs bob CHANNEL_IDENTIFIER_GLOBAL_QUEUE 8
     sample_secret)"

definition med_pair_revealed :: MediationPairState where
  "med_pair_revealed = med_pair\<lparr>payee_state := payee_secret_revealed,
     payer_state := payer_secret_revealed\<rparr>"

definition med_pair_paid :: MediationPairState where
  "med_pair_paid = med_pair\<lparr>payee_state := payee_balance_proof, payer_state := payer_secret_revealed\<rparr>"

definition med_state2 :: MediatorTransferState where
  "med_state2 = med_state\<lparr>mt_secret := Some sample_secret, transfers_pair := [med_pair_paid]\<rparr>"

lemma med_known_get [simp]:
  "dict_get med_known 1 = Some bob_known" "dict_get med_known 2 = Some carol_known"
  "dict_get med_map2 1 = Some bob_known" "dict_get med_map2 2 = Some carol_paid"
  by (simp_all add: med_known_def med_map2_def)

lemma med_set_secret:
  "set_offchain_secret med_state med_map1 sample_secret sample_secrethash =
     Inr ([], med_state\<lparr>mt_secret := Some sample_secret\<rparr>, med_known)"
  by (simp add: set_offchain_secret_def set_secret_def change_pair_channels_def change_channel_def
      med_map1_def med_known_def bob_known_def carol_known_def)

lemma med_if_closed:
  "events_for_onchain_secretreveal_if_closed med_known
     [med_pair\<lparr>payee_state := payee_secret_revealed\<rparr>] sample_secret sample_secrethash bh =
   Inr ([med_pair\<lparr>payee_state := payee_secret_revealed\<rparr>], [])"
  by (simp add: events_for_onchain_secretreveal_if_closed_def reveal_if_closed_def pair_pending_def
      get_payer_channel_def has_secret_registration_started_def payer_channels_def map_filter_simps
      is_secret_known_onchain_def dict_has_def)

lemma med_secretreveal:
  "events_for_secretreveal sample_libs [med_pair\<lparr>payee_state := payee_secret_revealed\<rparr>] sample_secret 8 =
   Inr ([med_pair_revealed], 9, [bob_reveal])"
  by (simp add: events_for_secretreveal_def for_each_reversed_def reveal_to_payer_def
      message_identifier_from_prng_def med_pair_revealed_def bob_reveal_def)

lemma med_balanceproof:
  "events_for_balanceproof sample_libs med_known [med_pair_revealed] 9 20 sample_secret sample_secrethash =
   Inr ([med_pair_paid], med_map2, 10,
        [SendBalanceProof carol_unlock, EventUnlockSuccess 2 sample_secrethash])"
proof -
  have "is_safe_to_send_balanceproof med_known med_pair_revealed 20 = Inr True"
    by (simp add: is_safe_to_send_balanceproof_def get_payer_channel_def med_pair_revealed_def
        is_safe_to_wait_def)
  then show ?thesis
    using carol_pay
    by (simp add: events_for_balanceproof_def for_each_reversed_def unlock_payee_def
        get_payee_channel_def message_identifier_from_prng_def med_pair_revealed_def
        med_pair_paid_def) (simp add: med_map2_def med_known_def)
qed

lemma med_pair_paid_sel [simp]:
  "payer_transfer med_pair_paid = med_message" "payee_transfer med_pair_paid = ste_transfer med_event"
  "payee_address med_pair_paid = carol" "payee_state med_pair_paid = payee_balance_proof"
  "payer_state med_pair_paid = payer_secret_revealed"
  by (simp_all add: med_pair_paid_def)

lemma med_state2_sel [simp]:
  "mt_secrethash med_state2 = sample_secrethash" "mt_secret med_state2 = Some sample_secret"
  "transfers_pair med_state2 = [med_pair_paid]" "waiting_transfer med_state2 = None"
  by (simp_all add: med_state2_def)

lemma carol_paid_fee [simp]: "mediation_fee carol_paid = 0"
  by (simp add: carol_paid_def)

lemma med_sane2: "sanity_check med_state2 med_map2 = Inr ()"
  by (simp add: sanity_check_def pair_sane_def is_send_transfer_almost_equal_def get_payee_channel_def)

lemma med_pending2: "has_pending_lock med_map2 med_state2"
  by (simp add: has_pending_lock_def pair_has_lock_def is_lock_pending_def dict_has_def
      get_payer_channel_def)

lemma med_learned:
  "secret_learned sample_libs med_state med_map1 8 20 bh sample_secret sample_secrethash carol =
   Inr ((Some med_state2, [bob_reveal, SendBalanceProof carol_unlock, EventUnlockSuccess 2 sample_secrethash]),
        med_map2, 10)"
  using med_if_closed [of bh]
  by (simp add: secret_learned_def med_set_secret Let_def set_offchain_reveal_state_def
      med_secretreveal med_balanceproof) (simp add: med_state2_def)

lemma med_reveal_run:
  "state_transition_mediator sample_libs 0 (Some med_state) (ReceiveSecretRevealChange carol_reveal)
     med_map1 [] 8 20 bh =
   Inr ((Some med_state2, [bob_reveal, SendBalanceProof carol_unlock, EventUnlockSuccess 2 sample_secrethash]),
        med_map2, 10)"
proof -
  have "\<not> is_transfer_expired med_message sample_received 20"
    by (simp add: is_transfer_expired_def is_lock_expired_def get_sender_expiration_threshold_def
        DEFAULT_NUMBER_OF_BLOCK_CONFIRMATIONS_def)
  then have "handle_offchain_secretreveal_mediator sample_libs med_state carol_reveal med_map1 8 20 bh =
   Inr ((Some med_state2, [bob_reveal, SendBalanceProof carol_unlock, EventUnlockSuccess 2 sample_secrethash]),
        med_map2, 10)"
    by (simp add: handle_offchain_secretreveal_mediator_def Let_def is_valid_secret_reveal_def med_learned)
  then show ?thesis
    by (simp add: state_transition_mediator_def dispatch_mediator_def med_sane2 clear_if_finalized_def
        med_pending2)
qed

section \<open>The lock of the payer is in danger\<close>

definition med_state3 :: MediatorTransferState where
  "med_state3 = med_state2\<lparr>transfers_pair := [med_pair_paid\<lparr>payer_state := payer_waiting_secret_reveal\<rparr>]\<rparr>"

lemma carol_paid_sel [simp]:
  "secrethashes_to_lockedlocks (our_state carol_paid) = []"
  "secrethashes_to_unlockedlocks (our_state carol_paid) = []"
  by (simp_all add: carol_paid_def mk_NettingChannelEndState_def)

lemma med_danger_run:
  "state_transition_mediator sample_libs 0 (Some med_state2) (Block 60 0 bh) med_map2 [] 10 60 bh =
   Inr ((Some med_state3, [ContractSendSecretReveal 100 sample_secret bh]), med_map2, 10)"
proof -
  let ?p = "med_pair_paid\<lparr>payer_state := payer_waiting_secret_reveal\<rparr>"
  have 1: "events_to_remove_expired_locks sample_libs med_state2 med_map2 60 10 =
      Inr ([med_pair_paid], med_map2, 10, [])"
    by (simp add: events_to_remove_expired_locks_def remove_expired_lock_def get_payee_channel_def
        sent_lock_def)
  have k: "is_secret_known (partner_state bob_known) sample_secrethash"
    "get_secret (partner_state bob_known) sample_secrethash = Some sample_secret"
    by (simp_all add: is_secret_known_def dict_has_def get_secret_def mk_UnlockPartialProofState_def)
  have e: "events_for_onchain_secretreveal bob_known sample_secret 100 bh =
      [ContractSendSecretReveal 100 sample_secret bh]"
    by (simp add: events_for_onchain_secretreveal_def CHANNEL_STATES_PRIOR_TO_CLOSED_def)
  have 2: "events_for_onchain_secretreveal_if_dangerzone med_map2 sample_secrethash [med_pair_paid] 60 bh =
      Inr ([?p], [ContractSendSecretReveal 100 sample_secret bh])"
    by (simp add: events_for_onchain_secretreveal_if_dangerzone_def reveal_in_dangerzone_def pair_pending_def
        get_payer_channel_def has_secret_registration_started_def payer_channels_def map_filter_simps
        is_secret_known_onchain_def dict_has_def is_safe_to_wait_def k e)
  have 3: "events_for_expired_pairs med_map2 [?p] None 60 = ([], [?p], None)"
    by (simp add: events_for_expired_pairs_def payer_transfer_expired_def pair_pending_def
        get_payer_channel_def is_transfer_expired_def is_lock_expired_def
        get_sender_expiration_threshold_def DEFAULT_NUMBER_OF_BLOCK_CONFIRMATIONS_def)
  have s: "med_state2\<lparr>transfers_pair := [?p], waiting_transfer := None\<rparr> = med_state3"
    by (simp add: med_state3_def)
  have "handle_block_mediator sample_libs med_state2 60 bh med_map2 10 =
      Inr ((Some med_state3, [ContractSendSecretReveal 100 sample_secret bh]), med_map2, 10)"
    by (simp add: handle_block_mediator_def 1 2 3 s)
  moreover have "sanity_check med_state3 med_map2 = Inr ()"
    by (simp add: med_state3_def sanity_check_def pair_sane_def is_send_transfer_almost_equal_def
        get_payee_channel_def)
  moreover have "has_pending_lock med_map2 med_state3"
    by (simp add: med_state3_def has_pending_lock_def pair_has_lock_def is_lock_pending_def dict_has_def
        get_payer_channel_def)
  ultimately show ?thesis
    by (simp add: state_transition_mediator_def dispatch_mediator_def clear_if_finalized_def)
qed

section \<open>The hypotheses hold\<close>

lemma carol_new: "new_channel carol_channel"
proof -
  have "mk_NettingChannelState carol_ci (replicate 20 8) (replicate 20 7) 50 500 0
      (mk_NettingChannelEndState alice 100) (mk_NettingChannelEndState carol 50)
      \<lparr>started_block_number = None, finished_block_number = Some 1, tx_result = Some SUCCESS\<rparr>
      None None None = Inr carol_channel"
    by (simp add: mk_NettingChannelState_def sample_channel_def carol_channel_def carol_ci_def
        UINT256_MAX_def)
  then show ?thesis
    unfolding new_channel_def by (metis zero_le_numeral)
qed

lemma med_map_ok: "channels_all (node_channel sample_libs) med_map"
  using sample_reachable reachable.new [OF carol_new]
  by (auto simp: channels_all_def med_map_def node_channel_def)

lemma carol_sent_reachable: "reachable sample_libs carol_sent"
  by (rule reachable.step [OF reachable.new [OF carol_new] channel_step.send_transfer [OF _ carol_send]])
    simp

lemma med_map1_ok: "channels_all (node_channel sample_libs) med_map1"
  using sample_received_reachable carol_sent_reachable
  by (auto simp: channels_all_def med_map1_def node_channel_def)

lemma med_unused: "hash_unused med_map med_start"
  by (simp add: hash_unused_def med_map_def med_start_def mk_MediatorTransferState_def)

lemma med_fresh: "change_fresh sample_libs med_map med_init"
  by (simp add: change_fresh_def transfer_fresh_def sample_lock_ok med_map_def)

lemma med_before: "task_before None med_init = Some med_start"
  by (simp add: task_before_def med_start_def)

lemma med_start_ok: "mediator_ok sample_libs med_start"
  by (simp add: med_start_def new_mediator_ok)

lemma med_state_ok: "mediator_ok sample_libs med_state"
  by (simp add: mediator_ok_def pair_ok_def pair_hash_def pair_unrevealed_def)

end
