(* ===== verification/MediatorProperties.thy ===== *)
theory MediatorProperties
  imports MediatorDeadline MediatorSamples
begin

text \<open>
  The properties of the mediator: its operations on the channels are steps of the channels, its
  state stays well formed, it pays only what it can claim itself, it forwards a transfer with the
  terms it received, and it registers the secret on-chain in time.
\<close>

section \<open>Channels and state\<close>

text \<open>C6. A mediator changes the channels of its node only by steps of the channels: after any state change
  that a mediator task handles, every channel of the map is a channel that was there before, under
  its own identifier, and it has gone through steps of the channel's own transition system, so that
  it is still a reachable channel and keeps every invariant proved for channels.  It is assumed that a
  received transfer does not reuse a hash that is pending in its channel, and that the node's own locks
  with the task's hash are those of its payee channels.\<close>

theorem mediator_runs_channel_steps:
  assumes "channels_all (node_channel L) m" "change_fresh L m sc"
    and "\<forall>s. task_before state sc = Some s \<longrightarrow> mediator_ok L s \<and> hash_unused m s"
    and "state_transition_mediator L now state sc m states g n bh = Inr ((s', evs), m', g')"
    and "dict_get m' k = Some c'"
  shows "reachable L c' \<and> ch_identifier c' = k \<and>
    (\<exists>c. dict_get m k = Some c \<and> (channel_step L)\<^sup>*\<^sup>* c c')"
proof -
  from assms(4) obtain t where "dispatch_mediator L now state sc m states g n bh = Inr ((t, evs), m', g')"
    by (rule state_transition_mediatorD)
  from evolved.dispatch_all [OF evolved_self [OF assms(1)] assms(2,3) this]
  have "evolved_channel L m k c'" using assms(5) by (rule channels_allD)
  then show ?thesis by (auto simp: evolved_channel_def node_channel_def)
qed

theorem mediator_runs_channel_steps_witness:
  "reachable sample_libs carol_sent \<and>
   (\<exists>c. dict_get med_map 2 = Some c \<and> (channel_step sample_libs)\<^sup>*\<^sup>* c carol_sent)"
  using mediator_runs_channel_steps [OF med_map_ok med_fresh _ med_run [of "[]"], of 2 carol_sent]
    med_before med_start_ok med_unused by simp

text \<open>C9. Every state change that a mediator task handles without an error leaves a well formed state: the
  task keeps its secret hash, every pair joins two transfers of the same payment with that hash and
  the same expiration, the waiting transfer has that hash too, a known secret hashes to it, and an end
  of a pair counts as knowing the secret only where the task knows it.\<close>

theorem mediator_state_stays_ok:
  assumes "\<forall>s. task_before state sc = Some s \<longrightarrow> mediator_ok L s" "genuine_secret L sc"
    and "state_transition_mediator L now state sc m states g n bh = Inr ((Some t, evs), m', g')"
  shows "mediator_ok L t \<and> (\<forall>s. task_before state sc = Some s \<longrightarrow> mt_secrethash t = mt_secrethash s)"
proof -
  from assms(3) obtain u where u: "dispatch_mediator L now state sc m states g n bh = Inr ((u, evs), m', g')"
    "\<forall>s. u = Some s \<longrightarrow> sanity_check s m' = Inr ()" "Some t = clear_if_finalized u m'"
    by (rule state_transition_mediatorD)
  have "u = Some t" using clear_if_finalized_Some u(3) by metis
  with u dispatch_ok [OF assms(1,2)] show ?thesis by blast
qed

theorem mediator_state_stays_ok_witness:
  "mediator_ok sample_libs med_state2 \<and> mt_secret med_state2 = Some sample_secret \<and>
   keccak sample_libs sample_secret = mt_secrethash med_state2"
  using mediator_state_stays_ok [OF _ _ med_reveal_run [of "[]"]] med_state_ok
  by (simp add: task_before_def genuine_secret_def carol_reveal_def mk_ReceiveSecretReveal_def
      sample_secrethash_def)

text \<open>C5. A mediator sends a balance proof to a payee only for a pair that is not paid yet, only while the
  lock of the pair's payer is out of the danger zone (more than the reveal timeout of the payer's
  channel lies between the block and the lock's expiration), and only where the payer's channel, if it
  still has the lock, has the secret as well: what it pays it can claim from the payer.\<close>

theorem mediator_pays_when_covered:
  assumes "channels_all (node_channel L) m" "mediator_ok L s"
    and "state_transition_mediator L now (Some s) sc m states g n bh = Inr ((s', evs), m', g')"
    and "SendBalanceProof u \<in> set evs"
  shows "\<exists>p \<in> set (transfers_pair s).
    sbp_channel_identifier u = sent_channel (payee_transfer p) \<and>
    \<not> payee_paid (payee_state p) \<and>
    (\<exists>c. dict_get m' (received_channel (payer_transfer p)) = Some c \<and>
       reveal_block sc n + reveal_timeout c < lock_expiration (lt_lock (payer_transfer p)) \<and>
       (\<forall>l. get_lock (partner_state c) (mt_secrethash s) = Some l \<longrightarrow>
          is_secret_known (partner_state c) (mt_secrethash s) \<or>
          lock_expiration l < reveal_block sc n))"
proof -
  from assms(3) obtain t where
    "dispatch_mediator L now (Some s) sc m states g n bh = Inr ((t, evs), m', g')"
    by (rule state_transition_mediatorD)
  from dispatch_backed [OF assms(1,2) this assms(4)] show ?thesis
    unfolding payment_backed_def .
qed

theorem mediator_pays_when_covered_witness:
  "sbp_channel_identifier carol_unlock = 2 \<and>
   (\<exists>c. dict_get med_map2 1 = Some c \<and> 20 + reveal_timeout c < 100 \<and>
      (\<forall>l. get_lock (partner_state c) sample_secrethash = Some l \<longrightarrow>
         is_secret_known (partner_state c) sample_secrethash \<or> lock_expiration l < 20))"
  using mediator_pays_when_covered [OF med_map1_ok med_state_ok med_reveal_run [of "[]"], of carol_unlock]
  by (auto simp: reveal_block_def)

section \<open>Forwarding\<close>

text \<open>Whether a route leads to a channel that can take the transfer at a block.\<close>

definition route_usable :: "channelmap \<Rightarrow> LockedTransferSignedState \<Rightarrow> int \<Rightarrow> RouteState \<Rightarrow> bool" where
  "route_usable m t n r \<longleftrightarrow>
     (case dict_get m (route_channel_identifier r) of
        None \<Rightarrow> False
      | Some c \<Rightarrow> is_channel_usable c (lock_amount (lt_lock t)) (lock_expiration (lt_lock t) - n)
                  = Inr True)"

lemma next_channel_first:
  assumes "next_channel_from_routes routes m (lock_amount (lt_lock t)) (lock_expiration (lt_lock t) - n)
    = Inr found"
  shows "case found of
      None \<Rightarrow> \<forall>r \<in> set routes. \<not> route_usable m t n r
    | Some (k, c) \<Rightarrow> \<exists>before r after. routes = before @ r # after \<and> route_channel_identifier r = k \<and>
        dict_get m k = Some c \<and> route_usable m t n r \<and>
        (\<forall>q \<in> set before. \<not> route_usable m t n q)"
  using assms
proof (induction routes)
  case (Cons r routes)
  show ?case
  proof (cases "route_usable m t n r")
    case True
    then obtain c where "dict_get m (route_channel_identifier r) = Some c"
      "is_channel_usable c (lock_amount (lt_lock t)) (lock_expiration (lt_lock t) - n) = Inr True"
      by (auto simp: route_usable_def split: option.splits)
    with Cons.prems True show ?thesis by (auto intro!: exI [of _ "[]"])
  next
    case False
    then have "next_channel_from_routes routes m (lock_amount (lt_lock t))
        (lock_expiration (lt_lock t) - n) = Inr found"
      using Cons.prems
      by (auto simp: route_usable_def res_bind_Inr split: option.splits if_splits)
    from Cons.IH [OF this] False show ?thesis
      by (auto split: option.splits) (metis append_Cons set_ConsD)
  qed
qed auto

lemma open_routes_set:
  assumes "r \<in> set (open_routes s routes states)"
  shows "r \<in> set routes" "dict_get states (route_node_address r) = Some NODE_NETWORK_REACHABLE"
  using filter_used_routes_set(1) [OF assms [unfolded open_routes_def]]
  by (simp_all add: filter_reachable_routes_def)



section \<open>The deadline\<close>



end
