(* ===== verification/MediatorFindings.thy ===== *)
theory MediatorFindings
  imports MediatorProperties
begin

text \<open>
  What the mediator gets wrong: a transfer that has been forwarded stays registered as waiting, so
  the next node that comes online makes the sanity check fail; a mediated invoice payment raises;
  a task without a pair raises on a secret; and a waiting transfer is reported as expired at once.
\<close>

section \<open>Forwarded and still waiting\<close>

lemma sanity_fails_on_second_pair:
  assumes "transfers_pair s = [p, q]" "payer_transfer q = t"
    and "payee_address p \<noteq> bp_sender (lt_balance_proof t)"
  shows "\<exists>msg. sanity_check s m = Inl (AssertionError msg)"
proof -
  have "\<not> list_all (refund_sane m) (zip (butlast (transfers_pair s)) (tl (transfers_pair s)))"
    using assms by (simp add: refund_sane_def)
  then show ?thesis by (auto simp: sanity_check_def Let_def py_assert_def)
qed

text \<open>A transfer that waited for a route and has then been forwarded is still the waiting transfer of
  the task: when a node of its routes comes online (again) and the mediator sends another transfer
  for it, whether it forwards it a second time or refunds it, the sanity check of the task raises
  and the state change cannot be processed.\<close>

theorem forwarded_transfer_still_waits:
  assumes "waiting_transfer s = Some w" "transfers_pair s = []"
    and "mediate_transfer L s routes key c m states g (wt_transfer w) n =
      Inr ((Some t, [SendLockedTransfer e]), m1, g1)"
    and "\<forall>p \<in> set (transfers_pair t). payee_address p \<noteq> bp_sender (lt_balance_proof (wt_transfer w))"
    and "handle_node_change_network_state L t address NODE_NETWORK_REACHABLE m1 g1 n' =
      Inr ((Some u, evs), m2, g2)" "evs \<noteq> []"
  shows "waiting_transfer t = Some w \<and>
    (\<exists>msg. state_transition_mediator L now (Some t)
       (ActionChangeNodeNetworkState address NODE_NETWORK_REACHABLE) m1 states' g1 n' bh =
     Inl (AssertionError msg))"
proof -
  from assms(3) obtain p where p: "t = s\<lparr>transfers_pair := [p]\<rparr>"
    by (cases rule: mediate_transfer_cases) (use assms(2) in auto)
  have w: "waiting_transfer t = Some w" using assms(1) p by simp
  from assms(5) obtain q where q: "u = t\<lparr>transfers_pair := [p, q]\<rparr>" "payer_transfer q = wt_transfer w"
  proof (cases rule: handle_node_change_cases)
    case (mediated route w' c')
    from mediated(6) show thesis
    proof (cases rule: mediate_transfer_cases)
      case (forwarded q)
      then show ?thesis using that [of q] forwarded_pair [OF forwarded(1)] mediated(1) w p by simp
    next
      case (refunded k rc q)
      then show ?thesis using that [of q] refunded_pair [OF refunded(3)] mediated(1) w p by simp
    qed (use assms(6) in simp)
  qed (use assms(6) in simp)
  have "payee_address p \<noteq> bp_sender (lt_balance_proof (wt_transfer w))"
    using assms(4) p by simp
  then obtain msg where "sanity_check u m2 = Inl (AssertionError msg)"
    using sanity_fails_on_second_pair [of u p q "wt_transfer w" m2] q by auto
  then show ?thesis
    using w assms(5) by (simp add: state_transition_mediator_def dispatch_mediator_def)
qed

definition med_waiting :: MediatorTransferState where
  "med_waiting = med_start\<lparr>waiting_transfer := Some (wait_for med_message)\<rparr>"

definition med_stale :: MediatorTransferState where
  "med_stale = med_waiting\<lparr>transfers_pair := [med_pair]\<rparr>"

lemma med_waiting_sel [simp]:
  "transfers_pair med_waiting = []" "waiting_transfer med_waiting = Some (wait_for med_message)"
  "wt_transfer (wait_for t) = t" "waiting_transfer med_stale = Some (wait_for med_message)"
  "transfers_pair med_stale = [med_pair]" "mt_routes med_stale = [carol_route]"
  by (simp_all add: med_waiting_def med_start_def mk_MediatorTransferState_def wait_for_def med_stale_def)

lemma med_waiting_forwarded:
  "mediate_transfer sample_libs med_waiting [carol_route] 1 sample_received
     [(1, sample_received), (2, carol_channel)] [(carol, NODE_NETWORK_REACHABLE)] 7 med_message 10 =
   Inr ((Some med_stale, [SendLockedTransfer med_event]), med_map1, 8)"
proof -
  have "open_routes med_waiting [carol_route] [(carol, NODE_NETWORK_REACHABLE)] = [carol_route]"
    using med_routes by (simp add: open_routes_def med_start_def mk_MediatorTransferState_def)
  then show ?thesis
    unfolding mediate_transfer_def open_routes_def [symmetric] Let_def
    by (simp add: med_forward) (simp add: med_stale_def mk_NettingChannelEndState_def)
qed

lemma med_stale_refund:
  "\<exists>u e m g. handle_node_change_network_state sample_libs med_stale carol NODE_NETWORK_REACHABLE
     med_map1 8 10 = Inr ((Some u, [SendRefundTransfer e]), m, g)"
proof -
  have usable: "is_channel_usable sample_received 10 90 = Inr True"
    by (simp add: is_channel_usable_def new_width MAXIMUM_PENDING_TRANSFERS_def)
      (simp add: mk_NettingChannelEndState_def get_distributable_def get_current_balanceproof_def
        get_balance_def current_transferred_amount_def get_amount_locked_def record_lock_def
        get_amount_unclaimed_onchain_def UINT256_MAX_def is_valid_amount_def sample_received_def
        sample_channel_def sample_signed_def BalanceProofUnsignedState.extend_def sample_proof_def)
  have "send_lockedtransfer sample_libs sample_received bob carol 10 8 2 [] 100 sample_secrethash =
      Inr (sample_event_on sample_ci bob carol bob 8, sample_sent_on sample_ci sample_received)"
    by (rule first_send_on [where a = alice and b = 100])
      (simp_all add: mk_NettingChannelEndState_def current_transferred_amount_def record_lock_def
        canonical_identifier_validate_def UINT256_MAX_def sample_received_def sample_channel_def
        get_status_def)
  then obtain tree where created: "create_sendlockedtransfer sample_libs sample_received bob carol 10 8 2
      [] 100 sample_secrethash = Inr (sample_event_on sample_ci bob carol bob 8, tree)"
    by (auto simp: send_lockedtransfer_def res_bind_Inr Let_def)
  have has: "dict_has (secrethashes_to_lockedlocks (partner_state sample_received)) sample_secrethash"
    unfolding sample_pending by (simp add: dict_has_def)
  from created has obtain e c' where sent: "send_refundtransfer sample_libs sample_received bob carol 10 8 2 100
      sample_secrethash = Inr (e, c')"
    by (simp add: send_refundtransfer_def EMPTY_PAYMENT_HASH_INVOICE_def Let_def del: sample_received_sel(2))
  have fee: "mediation_fee sample_received = 0"
    by (simp add: sample_received_def sample_channel_def)
  have none: "filter_used_routes [med_pair]
      (filter_reachable_routes [carol_route] [(carol, NODE_NETWORK_REACHABLE)]) = []"
    by (simp add: filter_used_routes_def filter_reachable_routes_def channelid_to_route_def)
  obtain p m g where "backward_transfer_pair sample_libs 1 sample_received med_message med_map1 8 10 =
      Inr (Some p, [SendRefundTransfer e], m, g)"
    using usable sent
    by (simp add: backward_transfer_pair_def Let_def message_identifier_from_prng_def
        get_lock_amount_after_fees_def fee)
  then show ?thesis
    by (simp add: handle_node_change_network_state_def Let_def mediate_transfer_def none
        forward_transfer_pair_def) (simp add: mk_NettingChannelEndState_def record_lock_def)
qed

theorem forwarded_transfer_still_waits_witness:
  "\<exists>msg. state_transition_mediator sample_libs 0 (Some med_stale)
     (ActionChangeNodeNetworkState carol NODE_NETWORK_REACHABLE) med_map1 [] 8 10 [] =
   Inl (AssertionError msg)"
proof -
  obtain u e m g where again: "handle_node_change_network_state sample_libs med_stale carol
      NODE_NETWORK_REACHABLE med_map1 8 10 = Inr ((Some u, [SendRefundTransfer e]), m, g)"
    using med_stale_refund by blast
  have first: "mediate_transfer sample_libs med_waiting [carol_route] 1 sample_received
     [(1, sample_received), (2, carol_channel)] [(carol, NODE_NETWORK_REACHABLE)] 7
     (wt_transfer (wait_for med_message)) 10 = Inr ((Some med_stale, [SendLockedTransfer med_event]), med_map1, 8)"
    using med_waiting_forwarded by simp
  have "carol \<noteq> bob" by (simp add: carol_def bob_def)
  then show ?thesis
    using forwarded_transfer_still_waits [OF med_waiting_sel(2,1) first _ again] by simp
qed

section \<open>Invoices\<close>

text \<open>A mediator cannot mediate the payment of an invoice: it handles the received transfer without
  the storage of the node, and the handler of the invoice, which runs before any check, raises as
  soon as the transfer carries the hash of an invoice.\<close>

theorem mediated_invoice_raises:
  assumes "dict_get m (route_channel_identifier from_route) = Some c"
    and "lt_payment_hash_invoice t \<noteq> EMPTY_PAYMENT_HASH_INVOICE"
  shows "state_transition_mediator L now None (ActionInitMediator routes from_route t) m states g n bh =
    Inl AttributeError"
  using assms
  by (simp add: state_transition_mediator_def dispatch_mediator_def handle_init_def
      handle_receive_lockedtransfer_def receive_lockedtransfer_with_def is_valid_lockedtransfer_def
      valid_lockedtransfer_check_def handle_received_invoice_def)

theorem mediated_invoice_raises_witness:
  "state_transition_mediator sample_libs 0 None
     (ActionInitMediator [carol_route] bob_route (med_message\<lparr>lt_payment_hash_invoice := [1]\<rparr>))
     med_map [] 7 10 [] = Inl AttributeError"
  by (rule mediated_invoice_raises [of med_map bob_route sample_channel])
    (simp_all add: med_map_def EMPTY_PAYMENT_HASH_INVOICE_def)

section \<open>Tasks without a pair, waiting transfers\<close>

text \<open>The last pair is read before it is known that there is one.\<close>

lemma secret_raises_without_pair:
  assumes "transfers_pair s = []"
  shows "state_transition_mediator L now (Some s) (ReceiveSecretRevealChange r) m states g n bh =
    Inl IndexError"
  using assms
  by (simp add: state_transition_mediator_def dispatch_mediator_def
      handle_offchain_secretreveal_mediator_def py_last_def)

text \<open>Whatever block its lock expires at.\<close>

lemma waiting_transfer_reported_expired:
  assumes "handle_block_mediator L s n bh m g = Inr ((s', evs), m', g')"
    and "waiting_transfer s = Some w" "wt_state w = Waiting"
  shows "EventUnlockClaimFailed (lt_payment_identifier (wt_transfer w))
    (lock_secrethash (lt_lock (wt_transfer w))) LockExpiredText \<in> set evs"
  using assms
  by (auto simp: handle_block_mediator_def res_bind_Inr events_for_expired_pairs_def Let_def
      claim_failed_def)

end
