(* ===== verification/Target.thy ===== *)
theory Target
  imports PaymentTasks
begin

text \<open>
  The target of a payment (\<open>transfer/mediated_transfer/target.py\<close>) with its state class
  (\<open>mediated_transfer/state.py\<close>): it asks the initiator for the secret of an accepted transfer,
  passes the secret back along the route, registers it on-chain where waiting is not safe any more,
  and ends with the unlock or the expiry of the lock.  A function whose name another module has too
  ends in \<open>_target\<close>.
\<close>

section \<open>State\<close>

datatype TargetState =
    TARGET_EXPIRED | OFFCHAIN_SECRET_REVEAL | ONCHAIN_SECRET_REVEAL | ONCHAIN_UNLOCK | SECRET_REQUEST

record TargetTransferState =
  tt_route :: RouteState
  tt_transfer :: LockedTransferSignedState
  tt_secret :: "bytes option"
  tt_state :: TargetState

definition mk_TargetTransferState ::
    "RouteState \<Rightarrow> LockedTransferSignedState \<Rightarrow> bytes option \<Rightarrow> TargetTransferState" where
  "mk_TargetTransferState route transfer secret =
     \<lparr>tt_route = route, tt_transfer = transfer, tt_secret = secret, tt_state = SECRET_REQUEST\<rparr>"

abbreviation tt_lock :: "TargetTransferState \<Rightarrow> HashTimeLockState" where
  "tt_lock s \<equiv> lt_lock (tt_transfer s)"

abbreviation tt_secrethash :: "TargetTransferState \<Rightarrow> bytes" where
  "tt_secrethash s \<equiv> lock_secrethash (tt_lock s)"

text \<open>The table of the light clients' payments (\<open>lightclient\<close>, \<open>storage/sqlite.py\<close>).\<close>

datatype LightClientPaymentStatus =
    PaymentInProgress | PaymentExpired | PaymentFailed | PaymentDone | PaymentPending | PaymentDeleted

record LightClientPayment =
  lcp_payment_id :: int
  lcp_light_client_address :: bytes
  lcp_partner_address :: bytes
  lcp_is_lc_initiator :: bool
  lcp_token_network_id :: bytes
  lcp_amount :: int
  lcp_created_on :: string
  lcp_payment_status :: LightClientPaymentStatus

definition get_light_client_payment :: "LightClientPayment list \<Rightarrow> int \<Rightarrow> LightClientPayment option" where
  "get_light_client_payment rows payment_id = find (\<lambda>r. lcp_payment_id r = payment_id) rows"

definition store_light_client_payment ::
    "LightClientPayment list \<Rightarrow> LightClientPayment \<Rightarrow> LightClientPayment list" where
  "store_light_client_payment rows payment = rows @ [payment]"

text \<open>
  What a handler leaves: the task's new state, the events, the channel, the generator, the storage
  with its invoices, and the payments of light clients.
\<close>

record target_world =
  tw_channel :: NettingChannelState
  tw_prng :: prng
  tw_storage :: storage
  tw_payments :: "LightClientPayment list"

type_synonym target_result = "((TargetTransferState option \<times> event list) \<times> target_world) result"

section \<open>Checks\<close>

definition sanity_check_target ::
    "TargetTransferState option \<Rightarrow> TargetTransferState option \<Rightarrow> NettingChannelState \<Rightarrow> unit result"
  where
  "sanity_check_target old_state new_state c =
     (case (old_state, new_state) of
        (Some s, None) \<Rightarrow>
          py_assert (get_lock (partner_state c) (tt_secrethash s) = None)
            ''The lock must be cleared once the task exists'' (Inr ())
      | (_, Some s) \<Rightarrow>
          py_assert (get_lock (partner_state c) (tt_secrethash s) \<noteq> None)
            ''The lock must not be cleared while the task is running'' (Inr ())
      | (None, None) \<Rightarrow> Inr ())"

definition events_for_onchain_secretreveal_target ::
    "TargetTransferState \<Rightarrow> NettingChannelState \<Rightarrow> int \<Rightarrow> bytes
     \<Rightarrow> (TargetTransferState \<times> event list) result" where
  "events_for_onchain_secretreveal_target s c block_number block_hash =
     (let expiration = lock_expiration (tt_lock s) in
      res_bind (is_safe_to_wait expiration (reveal_timeout c) block_number) (\<lambda>safe_to_wait.
        if \<not> safe_to_wait \<and> is_secret_known_offchain (partner_state c) (tt_secrethash s) \<and>
           tt_state s \<noteq> ONCHAIN_SECRET_REVEAL
        then (case get_secret (partner_state c) (tt_secrethash s) of
                None \<Rightarrow> Inl (AssertionError ''secret should be known at this point'')
              | Some secret \<Rightarrow>
                  py_assert (secret \<noteq> []) ''secret should be known at this point''
                    (Inr (s\<lparr>tt_state := ONCHAIN_SECRET_REVEAL\<rparr>,
                          events_for_onchain_secretreveal c secret expiration block_hash)))
        else Inr (s, [])))"

section \<open>The received transfer\<close>

definition secret_request_for ::
    "LockedTransferSignedState \<Rightarrow> int \<Rightarrow> SendSecretRequestEvent" where
  "secret_request_for transfer message_identifier =
     \<lparr>ssq_recipient = lt_initiator transfer,
      ssq_channel_identifier = CHANNEL_IDENTIFIER_GLOBAL_QUEUE,
      ssq_message_identifier = message_identifier,
      ssq_payment_identifier = lt_payment_identifier transfer,
      ssq_amount = lock_amount (lt_lock transfer),
      ssq_expiration = lock_expiration (lt_lock transfer),
      ssq_secrethash = lock_secrethash (lt_lock transfer)\<rparr>"

text \<open>A refused transfer: no task, and the reason among the events.\<close>

definition refused_inittarget ::
    "LockedTransferSignedState \<Rightarrow> event list \<Rightarrow> reason \<Rightarrow> TargetTransferState option \<times> event list" where
  "refused_inittarget transfer channel_events errormsg =
     (None, channel_events @
        [EventUnlockClaimFailed (lt_payment_identifier transfer)
           (lock_secrethash (lt_lock transfer)) (TransferRefused errormsg)])"

definition handle_inittarget ::
    "libs \<Rightarrow> int \<Rightarrow> RouteState \<Rightarrow> LockedTransferSignedState \<Rightarrow> target_world \<Rightarrow> int
     \<Rightarrow> target_result" where
  "handle_inittarget L now route transfer w block_number =
     py_assert (ch_identifier (tw_channel w) =
                channel_identifier (bp_canonical_identifier (lt_balance_proof transfer)))
       ''channel_state.identifier == transfer.balance_proof.channel_identifier''
     (res_bind (handle_receive_lockedtransfer L now (tw_channel w) transfer (tw_storage w))
       (\<lambda>(outcome, c, storage).
        let w = w\<lparr>tw_channel := c, tw_storage := storage\<rparr> in
        case out_msg outcome of
          None \<Rightarrow>
            (let target_state = mk_TargetTransferState route transfer None in
             res_bind (is_safe_to_wait (lock_expiration (lt_lock transfer)) (reveal_timeout c)
                         block_number) (\<lambda>safe_to_wait.
               if safe_to_wait \<and> out_invoice outcome = Some None
               then let (message_identifier, g) = message_identifier_from_prng L (tw_prng w) in
                    Inr ((Some target_state,
                          out_events outcome @
                            [SendSecretRequest (secret_request_for transfer message_identifier)]),
                         w\<lparr>tw_prng := g\<rparr>)
               else Inr ((Some target_state, out_events outcome), w)))
        | Some errormsg \<Rightarrow>
            Inr (refused_inittarget transfer (out_events outcome) errormsg, w)))"

text \<open>
  \<open>today\<close> is the date that the payment of a light client is stored with.  The payment is looked up
  in the storage, so there must be one.
\<close>

definition handle_inittarget_light ::
    "libs \<Rightarrow> int \<Rightarrow> string \<Rightarrow> RouteState \<Rightarrow> LockedTransferSignedState \<Rightarrow> LockedTransferMessage
     \<Rightarrow> target_world \<Rightarrow> int \<Rightarrow> target_result" where
  "handle_inittarget_light L now today route transfer signed_lockedtransfer w block_number =
     py_assert (ch_identifier (tw_channel w) =
                channel_identifier (bp_canonical_identifier (lt_balance_proof transfer)))
       ''channel_state.identifier == transfer.balance_proof.channel_identifier''
     (res_bind (handle_receive_lockedtransfer_light L now (tw_channel w) transfer (tw_storage w))
       (\<lambda>(outcome, c, storage).
        let w = w\<lparr>tw_channel := c, tw_storage := storage\<rparr> in
        case out_msg outcome of
          None \<Rightarrow>
            (let target_state = mk_TargetTransferState route transfer None in
             res_bind (is_safe_to_wait (lock_expiration (lt_lock transfer)) (reveal_timeout c)
                         block_number) (\<lambda>safe_to_wait.
               if safe_to_wait \<and> out_invoice outcome = Some None
               then if storage = None then Inl AttributeError
                 else let payment =
                     \<lparr>lcp_payment_id = lt_payment_identifier transfer,
                      lcp_light_client_address = lt_target transfer,
                      lcp_partner_address = lt_initiator transfer, lcp_is_lc_initiator = False,
                      lcp_token_network_id = ch_token_network_identifier c,
                      lcp_amount = lock_amount (lt_lock transfer), lcp_created_on = today,
                      lcp_payment_status = PaymentPending\<rparr>;
                   payments =
                     (case get_light_client_payment (tw_payments w) (lcp_payment_id payment) of
                        None \<Rightarrow> store_light_client_payment (tw_payments w) payment
                      | Some _ \<Rightarrow> tw_payments w);
                   (message_identifier, g) = message_identifier_from_prng L (tw_prng w)
                 in Inr ((Some target_state,
                          out_events outcome @
                            [StoreMessageEvent message_identifier (lt_payment_identifier transfer) 5
                               (SecretRequestOf (secret_request_for transfer message_identifier))
                               False,
                             StoreMessageEvent (lt_message_identifier transfer)
                               (lt_payment_identifier transfer) 1
                               (StoredLockedTransfer signed_lockedtransfer) True]),
                         w\<lparr>tw_prng := g, tw_payments := payments\<rparr>)
               else Inr ((Some target_state, out_events outcome), w)))
        | Some errormsg \<Rightarrow>
            Inr (refused_inittarget transfer (out_events outcome) errormsg, w)))"

section \<open>Messages that a light client has signed\<close>

definition handle_send_secret_reveal_light ::
    "libs \<Rightarrow> TargetTransferState \<Rightarrow> RevealSecretMessage \<Rightarrow> bytes \<Rightarrow> target_world \<Rightarrow> target_result" where
  "handle_send_secret_reveal_light L s reveal_secret sender w =
     (let message_identifier = rsm_message_identifier reveal_secret; transfer = tt_transfer s in
      Inr ((Some s,
            [SendSecretRevealLight sender
               (mk_SendSecretReveal L (lt_initiator transfer) CHANNEL_IDENTIFIER_GLOBAL_QUEUE
                  message_identifier (rsm_secret reveal_secret)) reveal_secret,
             StoreMessageEvent message_identifier (lt_payment_identifier transfer) 9
               (StoredRevealSecret reveal_secret) True]), w))"

definition handle_send_secret_request_light ::
    "TargetTransferState \<Rightarrow> SecretRequestMessage \<Rightarrow> target_world \<Rightarrow> int \<Rightarrow> target_result" where
  "handle_send_secret_request_light s secret_request w block_number =
     (let transfer = tt_transfer s; message_identifier = srm_message_identifier secret_request in
      py_assert (ch_identifier (tw_channel w) =
                 channel_identifier (bp_canonical_identifier (lt_balance_proof transfer)))
        ''channel_state.identifier == transfer.balance_proof.channel_identifier''
      (res_bind (is_safe_to_wait (lock_expiration (lt_lock transfer))
                   (reveal_timeout (tw_channel w)) block_number) (\<lambda>safe_to_wait.
         Inr ((Some s,
               if safe_to_wait
               then [SendSecretRequestLight (lt_target transfer)
                       (secret_request_for transfer message_identifier) secret_request,
                     StoreMessageEvent message_identifier (lt_payment_identifier transfer) 5
                       (StoredSecretRequest secret_request) True]
               else []), w))))"

section \<open>The secret\<close>

definition handle_offchain_secretreveal_target ::
    "libs \<Rightarrow> TargetTransferState \<Rightarrow> ReceiveSecretReveal \<Rightarrow> target_world \<Rightarrow> int \<Rightarrow> target_result" where
  "handle_offchain_secretreveal_target L s reveal w block_number =
     (if is_valid_secret_reveal (rsr_secrethash reveal) (tt_secrethash s) (rsr_secret reveal) \<and>
         \<not> is_transfer_expired (tt_transfer s) (tw_channel w) block_number
      then let c = register_offchain_secret (tw_channel w) (rsr_secret reveal)
                     (rsr_secrethash reveal);
               (message_identifier, g) = message_identifier_from_prng L (tw_prng w)
           in Inr ((Some (s\<lparr>tt_state := OFFCHAIN_SECRET_REVEAL, tt_secret := Some (rsr_secret reveal)\<rparr>),
                    [SendSecretReveal
                       (mk_SendSecretReveal L (route_node_address (tt_route s))
                          CHANNEL_IDENTIFIER_GLOBAL_QUEUE message_identifier (rsr_secret reveal))]),
                   w\<lparr>tw_channel := c, tw_prng := g\<rparr>)
      else Inr ((Some s, []), w))"

text \<open>The channel of a light client does not learn the secret here.\<close>

definition handle_offchain_secretreveal_light ::
    "libs \<Rightarrow> TargetTransferState \<Rightarrow> ReceiveSecretReveal \<Rightarrow> RevealSecretMessage \<Rightarrow> target_world \<Rightarrow> int
     \<Rightarrow> target_result" where
  "handle_offchain_secretreveal_light L s reveal secret_reveal_message w block_number =
     (if is_valid_secret_reveal (rsr_secrethash reveal) (tt_secrethash s) (rsr_secret reveal) \<and>
         \<not> is_transfer_expired (tt_transfer s) (tw_channel w) block_number
      then let (message_identifier, g) = message_identifier_from_prng L (tw_prng w);
               payment_identifier = lt_payment_identifier (tt_transfer s);
               to_send = mk_SendSecretReveal L (route_node_address (tt_route s))
                           CHANNEL_IDENTIFIER_GLOBAL_QUEUE message_identifier (rsr_secret reveal)
           in Inr ((Some (s\<lparr>tt_state := OFFCHAIN_SECRET_REVEAL, tt_secret := Some (rsr_secret reveal)\<rparr>),
                    [StoreMessageEvent (rsm_message_identifier secret_reveal_message)
                       payment_identifier 7 (StoredRevealSecret secret_reveal_message) True,
                     StoreMessageEvent message_identifier payment_identifier 9
                       (RevealSecretOf to_send) False]),
                   w\<lparr>tw_prng := g\<rparr>)
      else Inr ((Some s, []), w))"

definition handle_onchain_secretreveal_target ::
    "TargetTransferState \<Rightarrow> ContractReceiveSecretReveal \<Rightarrow> target_world \<Rightarrow> target_result" where
  "handle_onchain_secretreveal_target s reveal w =
     (if is_valid_secret_reveal (csr_secrethash reveal) (tt_secrethash s) (csr_secret reveal)
      then res_bind (register_onchain_secret (tw_channel w) (csr_secret reveal)
                       (csr_secrethash reveal) (csr_block_number reveal) True) (\<lambda>c.
             Inr ((Some (s\<lparr>tt_state := ONCHAIN_UNLOCK, tt_secret := Some (csr_secret reveal)\<rparr>), []),
                  w\<lparr>tw_channel := c\<rparr>))
      else Inr ((Some s, []), w))"

section \<open>The end of the payment\<close>

definition payment_received :: "TargetTransferState \<Rightarrow> NettingChannelState \<Rightarrow> event list" where
  "payment_received s c =
     [EventPaymentReceivedSuccess (payment_network_identifier c) (ch_token_network_identifier c)
        (lt_payment_identifier (tt_transfer s)) (lock_amount (tt_lock s))
        (lt_initiator (tt_transfer s)),
      EventUnlockClaimSuccess (lt_payment_identifier (tt_transfer s)) (tt_secrethash s)]"

definition handle_unlock_light_target ::
    "libs \<Rightarrow> TargetTransferState \<Rightarrow> ReceiveUnlock \<Rightarrow> UnlockMessage \<Rightarrow> target_world \<Rightarrow> target_result" where
  "handle_unlock_light_target L s unlock signed_unlock w =
     res_bind (handle_unlock_light L (tw_channel w) unlock) (\<lambda>((events, msg), c).
       Inr (if msg = None
            then (None, events @ payment_received s c @
                    [StoreMessageEvent (em_message_identifier signed_unlock)
                       (um_payment_identifier signed_unlock) 11 (StoredUnlock signed_unlock) True])
            else (Some s, events), w\<lparr>tw_channel := c\<rparr>))"

definition handle_unlock_target ::
    "libs \<Rightarrow> TargetTransferState \<Rightarrow> ReceiveUnlock \<Rightarrow> target_world \<Rightarrow> target_result" where
  "handle_unlock_target L s unlock w =
     res_bind (handle_unlock L (tw_channel w) unlock) (\<lambda>((events, msg), c).
       Inr (if msg = None
            then (None, events @ payment_received s c @
                    [SendProcessed (bp_sender (ru_balance_proof unlock))
                       CHANNEL_IDENTIFIER_GLOBAL_QUEUE (ru_message_identifier unlock)])
            else (Some s, events), w\<lparr>tw_channel := c\<rparr>))"

definition handle_block_target ::
    "TargetTransferState \<Rightarrow> target_world \<Rightarrow> int \<Rightarrow> bytes \<Rightarrow> target_result" where
  "handle_block_target s w block_number block_hash =
     (let lock = tt_lock s; c = tw_channel w in
      if is_lock_expired (our_state c) lock block_number (get_receiver_expiration_threshold lock) =
           None \<and> tt_state s \<noteq> TARGET_EXPIRED
      then Inr ((Some (s\<lparr>tt_state := TARGET_EXPIRED\<rparr>),
                 [EventUnlockClaimFailed (lt_payment_identifier (tt_transfer s)) (tt_secrethash s)
                    LockExpiredText]), w)
      else if is_secret_known (partner_state c) (lock_secrethash lock)
      then res_bind (events_for_onchain_secretreveal_target s c block_number block_hash)
             (\<lambda>(s, events). Inr ((Some s, events), w))
      else Inr ((Some s, []), w))"

definition handle_lock_expired_target ::
    "libs \<Rightarrow> TargetTransferState \<Rightarrow> ReceiveLockExpired \<Rightarrow> target_world \<Rightarrow> int \<Rightarrow> target_result" where
  "handle_lock_expired_target L s sc w block_number =
     res_bind (handle_receive_lock_expired L (tw_channel w) sc block_number) (\<lambda>(events, c).
       Inr (if get_lock (partner_state c) (tt_secrethash s) = None
            then (None, events @
                    [EventUnlockClaimFailed (lt_payment_identifier (tt_transfer s))
                       (tt_secrethash s) LockExpiredText])
            else (Some s, events), w\<lparr>tw_channel := c\<rparr>))"

section \<open>The state machine\<close>

text \<open>
  \<open>ReceiveSecretRevealLight\<close> is the one state change whose handler is called without asking for a
  state: it raises on the missing one.
\<close>

definition dispatch_target ::
    "libs \<Rightarrow> int \<Rightarrow> string \<Rightarrow> TargetTransferState option \<Rightarrow> state_change \<Rightarrow> target_world \<Rightarrow> int
     \<Rightarrow> target_result" where
  "dispatch_target L now today state sc w block_number =
     (let running = (\<lambda>msg handler. case state of
                       None \<Rightarrow> Inl (AssertionError msg) | Some s \<Rightarrow> handler s)
      in case sc of
           ActionInitTarget route transfer \<Rightarrow>
             (case state of
                None \<Rightarrow> handle_inittarget L now route transfer w block_number
              | Some s \<Rightarrow> Inr ((state, []), w))
         | ActionInitTargetLight route transfer signed_lockedtransfer \<Rightarrow>
             (case state of
                None \<Rightarrow> handle_inittarget_light L now today route transfer signed_lockedtransfer w
                          block_number
              | Some s \<Rightarrow> Inr ((state, []), w))
         | ActionSendSecretRequestLight secret_request sender receiver \<Rightarrow>
             running ''ActionSendSecretRequestLight should be accompanied by a valid target state''
               (\<lambda>s. handle_send_secret_request_light s secret_request w block_number)
         | ActionSendSecretRevealLight reveal_secret sender receiver \<Rightarrow>
             running ''ActionSendSecretRevealLight should be accompanied by a valid target state''
               (\<lambda>s. handle_send_secret_reveal_light L s reveal_secret sender w)
         | Block n _ h \<Rightarrow>
             py_assert (n = block_number) ''state_change.block_number == block_number''
               (running ''Block state changes should be accompanied by a valid target state''
                 (\<lambda>s. handle_block_target s w n h))
         | ReceiveSecretRevealChange reveal \<Rightarrow>
             running ''ReceiveSecretReveal should be accompanied by a valid target state''
               (\<lambda>s. handle_offchain_secretreveal_target L s reveal w block_number)
         | ReceiveSecretRevealLight reveal message \<Rightarrow>
             (case state of
                None \<Rightarrow> Inl AttributeError
              | Some s \<Rightarrow> handle_offchain_secretreveal_light L s reveal message w block_number)
         | ContractReceiveSecretRevealChange reveal \<Rightarrow>
             running ''ContractReceiveSecretReveal should be accompanied by a valid target state''
               (\<lambda>s. handle_onchain_secretreveal_target s reveal w)
         | ReceiveUnlockChange unlock \<Rightarrow>
             running ''ReceiveUnlock should be accompanied by a valid target state''
               (\<lambda>s. handle_unlock_target L s unlock w)
         | ReceiveUnlockLight unlock signed_unlock \<Rightarrow>
             running ''ReceiveUnlock should be accompanied by a valid target state''
               (\<lambda>s. handle_unlock_light_target L s unlock signed_unlock w)
         | ReceiveLockExpiredChange expired \<Rightarrow>
             running ''ReceiveLockExpired should be accompanied by a valid target state''
               (\<lambda>s. handle_lock_expired_target L s expired w block_number)
         | _ \<Rightarrow> Inr ((state, []), w))"

definition state_transition_target ::
    "libs \<Rightarrow> int \<Rightarrow> string \<Rightarrow> TargetTransferState option \<Rightarrow> state_change \<Rightarrow> target_world \<Rightarrow> int
     \<Rightarrow> target_result" where
  "state_transition_target L now today state sc w block_number =
     res_bind (dispatch_target L now today state sc w block_number)
       (\<lambda>((new_state, events), w').
         res_bind (sanity_check_target state new_state (tw_channel w')) (\<lambda>_.
           Inr ((new_state, events), w')))"

end
