(* ===== verification/TargetFacts.thy ===== *)
theory TargetFacts
  imports Target ChannelTasks
begin

text \<open>
  What the target's steps do: its channel moves by channel steps, and as long as the task runs the
  partner's side of the channel has the lock of the task.
\<close>

section \<open>The invariant of a running task\<close>

text \<open>The partner's side has the lock of the task, and a secret that the task knows is the lock's.\<close>

definition target_ok :: "libs \<Rightarrow> TargetTransferState \<Rightarrow> NettingChannelState \<Rightarrow> bool" where
  "target_ok L s c \<longleftrightarrow>
     get_lock (partner_state c) (tt_secrethash s) = Some (tt_lock s) \<and>
     (case tt_secret s of
        None \<Rightarrow> True
      | Some secret \<Rightarrow> keccak L secret = tt_secrethash s \<and> secret \<noteq> EMPTY_HASH)"

text \<open>A state change that is routed to the task: what ends a lock names the lock of the task.\<close>

definition concerns :: "TargetTransferState option \<Rightarrow> state_change \<Rightarrow> bool" where
  "concerns state sc \<longleftrightarrow>
     (case state of
        None \<Rightarrow> True
      | Some s \<Rightarrow>
          (case sc of
             ReceiveUnlockChange u \<Rightarrow> ru_secrethash u = tt_secrethash s
           | ReceiveUnlockLight u _ \<Rightarrow> ru_secrethash u = tt_secrethash s
           | _ \<Rightarrow> True))"

text \<open>The secret of a state change hashes to the hash it comes with, as the constructors make it.\<close>

definition genuine_reveal :: "libs \<Rightarrow> state_change \<Rightarrow> bool" where
  "genuine_reveal L sc \<longleftrightarrow>
     (case sc of
        ReceiveSecretRevealChange r \<Rightarrow> rsr_secrethash r = keccak L (rsr_secret r)
      | ReceiveSecretRevealLight r _ \<Rightarrow> rsr_secrethash r = keccak L (rsr_secret r)
      | ContractReceiveSecretRevealChange r \<Rightarrow> csr_secrethash r = keccak L (csr_secret r)
      | _ \<Rightarrow> True)"

lemma target_ok_state [simp]:
  "target_ok L (s\<lparr>tt_state := x\<rparr>) c = target_ok L s c"
  "target_ok L (s\<lparr>tt_state := x, tt_secret := Some secret\<rparr>) c \<longleftrightarrow>
     get_lock (partner_state c) (tt_secrethash s) = Some (tt_lock s) \<and>
     keccak L secret = tt_secrethash s \<and> secret \<noteq> EMPTY_HASH"
  by (auto simp: target_ok_def split: option.splits)

lemma new_target_ok [simp]:
  "target_ok L (mk_TargetTransferState route t None)
     (upd_partner (record_lock bp tree (lt_lock t)) c)"
  by (simp add: target_ok_def mk_TargetTransferState_def)

section \<open>Steps of the channel\<close>

text \<open>A transfer that starts a task does not reuse a hash that is pending in the channel.\<close>

definition target_fresh :: "libs \<Rightarrow> NettingChannelState \<Rightarrow> state_change \<Rightarrow> bool" where
  "target_fresh L c sc \<longleftrightarrow>
     (case sc of
        ActionInitTarget _ t \<Rightarrow>
          lock_ok L (lt_lock t) \<and> \<not> is_lock_pending (partner_state c) (lock_secrethash (lt_lock t))
      | ActionInitTargetLight _ t _ \<Rightarrow>
          lock_ok L (lt_lock t) \<and> \<not> is_lock_pending (partner_state c) (lock_secrethash (lt_lock t))
      | _ \<Rightarrow> True)"

text \<open>What an accepted or a refused transfer leads to, with or without a light client.\<close>

lemma handle_inittarget_cases:
  assumes "handle_inittarget L now route t w n = Inr ((new, evs), w')"
  obtains out where
    "handle_receive_lockedtransfer L now (tw_channel w) t (tw_storage w) =
       Inr (out, tw_channel w', tw_storage w')"
    "new = (if out_msg out = None then Some (mk_TargetTransferState route t None) else None)"
    "case out_msg out of
       None \<Rightarrow> lock_expiration (lt_lock t) > reveal_timeout (tw_channel w') \<and>
         (if n + reveal_timeout (tw_channel w') < lock_expiration (lt_lock t) \<and>
             out_invoice out = Some None
          then evs = out_events out @ [SendSecretRequest (secret_request_for t (randint64 L (tw_prng w)))]
          else evs = out_events out)
     | Some msg \<Rightarrow> evs = snd (refused_inittarget t (out_events out) msg)"
proof -
  from assms obtain out c st where r:
    "handle_receive_lockedtransfer L now (tw_channel w) t (tw_storage w) = Inr (out, c, st)"
    by (auto simp: handle_inittarget_def res_simps)
  note run = assms [unfolded handle_inittarget_def r res_bind_simps prod.case Let_def py_assert_Inr]
  show thesis
  proof (cases "out_msg out")
    case None
    with run obtain safe where safe: "n > 0" "reveal_timeout c > 0"
      "lock_expiration (lt_lock t) > reveal_timeout c"
      "safe = (lock_expiration (lt_lock t) - n > reveal_timeout c)"
      by (auto simp: res_simps)
    show ?thesis
      by (rule that [of out])
        (use run None safe r in \<open>auto simp: res_simps message_identifier_from_prng_def split: if_splits\<close>)
  next
    case (Some msg)
    show ?thesis
      by (rule that [of out]) (use run Some r in \<open>auto simp: refused_inittarget_def\<close>)
  qed
qed

lemma handle_inittarget_light_cases:
  assumes "handle_inittarget_light L now today route t message w n = Inr ((new, evs), w')"
  obtains out where
    "handle_receive_lockedtransfer_light L now (tw_channel w) t (tw_storage w) =
       Inr (out, tw_channel w', tw_storage w')"
    "new = (if out_msg out = None then Some (mk_TargetTransferState route t None) else None)"
proof -
  from assms obtain out c st where r:
    "handle_receive_lockedtransfer_light L now (tw_channel w) t (tw_storage w) = Inr (out, c, st)"
    by (auto simp: handle_inittarget_light_def res_simps)
  note run = assms [unfolded handle_inittarget_light_def r res_bind_simps prod.case Let_def py_assert_Inr]
  show thesis
    by (rule that [of out])
      (use run r in \<open>auto simp: res_simps refused_inittarget_def message_identifier_from_prng_def
         split: if_splits option.splits\<close>)
qed

lemma dispatch_target_idle:
  assumes "dispatch_target L now today None sc w n = Inr ((new, evs), w')"
  obtains (start) route t where "sc = ActionInitTarget route t"
    "handle_inittarget L now route t w n = Inr ((new, evs), w')"
  | (start_light) route t message where "sc = ActionInitTargetLight route t message"
    "handle_inittarget_light L now today route t message w n = Inr ((new, evs), w')"
  | (other) "new = None" "evs = []" "w' = w"
proof (cases sc)
  case ActionInitTarget
  with assms start show thesis by (simp add: dispatch_target_def)
next
  case ActionInitTargetLight
  with assms start_light show thesis by (simp add: dispatch_target_def)
qed (use assms other in \<open>simp_all add: dispatch_target_def py_assert_def split: if_splits\<close>)

fun is_payment :: "event \<Rightarrow> bool" where
  "is_payment (EventPaymentReceivedSuccess network token p amount sender) = True"
| "is_payment _ = False"

lemma dispatch_target_unlock:
  assumes "dispatch_target L now today (Some s) sc w n = Inr ((new, evs), w')"
    and "sc = ReceiveUnlockChange u \<or> (\<exists>m. sc = ReceiveUnlockLight u m)"
  obtains first tail msg out where
    "receive_unlock_with first L (tw_channel w) u = Inr ((out, msg), tw_channel w')"
    "new = (if msg = None then None else Some s)"
    "evs = out @ (if msg = None then payment_received s (tw_channel w') @ [tail] else [])"
    "first = [] \<or> first = [send_processed (bp_sender (ru_balance_proof u)) (ru_message_identifier u)]"
    "\<not> is_payment tail"
proof (cases "sc = ReceiveUnlockChange u")
  case True
  with assms(1) obtain out msg c where
    "handle_unlock L (tw_channel w) u = Inr ((out, msg), c)" "w' = w\<lparr>tw_channel := c\<rparr>"
    "(new, evs) = (if msg = None
      then (None, out @ payment_received s c @ [SendProcessed (bp_sender (ru_balance_proof u))
                       CHANNEL_IDENTIFIER_GLOBAL_QUEUE (ru_message_identifier u)])
      else (Some s, out))"
    by (auto simp: dispatch_target_def handle_unlock_target_def res_simps)
  then show thesis by (intro that [of _ out msg]) (auto simp: handle_unlock_def)
next
  case False
  with assms(2) obtain m where "sc = ReceiveUnlockLight u m" by blast
  with assms(1) obtain out msg c where
    "handle_unlock_light L (tw_channel w) u = Inr ((out, msg), c)" "w' = w\<lparr>tw_channel := c\<rparr>"
    "(new, evs) = (if msg = None
      then (None, out @ payment_received s c @ [StoreMessageEvent (em_message_identifier m)
                       (um_payment_identifier m) 11 (StoredUnlock m) True])
      else (Some s, out))"
    by (auto simp: dispatch_target_def handle_unlock_light_target_def res_simps)
  then show thesis by (intro that [of _ out msg]) (auto simp: handle_unlock_light_def)
qed

text \<open>A state change of a running task moves the channel in one of five ways, if at all.\<close>

lemma dispatch_target_running:
  assumes "dispatch_target L now today (Some s) sc w n = Inr ((new, evs), w')"
  obtains (same) "tw_channel w' = tw_channel w" "\<exists>x. new = Some (s\<lparr>tt_state := x\<rparr>)"
  | (same_secret) secret x where "tw_channel w' = tw_channel w"
    "new = Some (s\<lparr>tt_state := x, tt_secret := Some secret\<rparr>)" "secret \<noteq> EMPTY_HASH"
    "\<exists>r m. sc = ReceiveSecretRevealLight r m \<and> rsr_secret r = secret \<and> rsr_secrethash r = tt_secrethash s"
  | (offchain) secret x where
    "tw_channel w' = register_offchain_secret (tw_channel w) secret (tt_secrethash s)"
    "new = Some (s\<lparr>tt_state := x, tt_secret := Some secret\<rparr>)" "secret \<noteq> EMPTY_HASH"
    "\<exists>r. sc = ReceiveSecretRevealChange r \<and> rsr_secret r = secret \<and> rsr_secrethash r = tt_secrethash s"
  | (onchain) secret x b where
    "register_onchain_secret (tw_channel w) secret (tt_secrethash s) b True = Inr (tw_channel w')"
    "new = Some (s\<lparr>tt_state := x, tt_secret := Some secret\<rparr>)" "secret \<noteq> EMPTY_HASH"
    "\<exists>r. sc = ContractReceiveSecretRevealChange r \<and> csr_secret r = secret \<and>
       csr_secrethash r = tt_secrethash s"
  | (unlock) u first msg out where "sc = ReceiveUnlockChange u \<or> (\<exists>m. sc = ReceiveUnlockLight u m)"
    "receive_unlock_with first L (tw_channel w) u = Inr ((out, msg), tw_channel w')"
    "new = (if msg = None then None else Some s)"
  | (expired) e out where "sc = ReceiveLockExpiredChange e"
    "handle_receive_lock_expired L (tw_channel w) e n = Inr (out, tw_channel w')"
    "new = (if get_lock (partner_state (tw_channel w')) (tt_secrethash s) = None then None else Some s)"
proof -
  have stay: thesis if "new = Some s" "tw_channel w' = tw_channel w"
    by (intro same exI [of _ "tt_state s"]) (simp_all add: that)
  show thesis
  proof (cases sc)
    case (Block b l h)
    with assms have "handle_block_target s w n h = Inr ((new, evs), w')"
      by (auto simp: dispatch_target_def res_simps)
    then have "tw_channel w' = tw_channel w \<and> (\<exists>x. new = Some (s\<lparr>tt_state := x\<rparr>))"
      by (auto simp: handle_block_target_def Let_def events_for_onchain_secretreveal_target_def
          py_assert_Inr res_bind_Inr split: if_splits option.splits
          intro: exI [of _ "tt_state s"])
    then show thesis using same by blast
  next
    case (ReceiveSecretRevealChange r)
    show thesis
      by (cases "is_valid_secret_reveal (rsr_secrethash r) (tt_secrethash s) (rsr_secret r) \<and>
           \<not> is_transfer_expired (tt_transfer s) (tw_channel w) n")
        (use assms ReceiveSecretRevealChange in \<open>auto simp: dispatch_target_def
           handle_offchain_secretreveal_target_def message_identifier_from_prng_def
           is_valid_secret_reveal_def Let_def intro: offchain stay\<close>)
  next
    case (ReceiveSecretRevealLight r m)
    show thesis
      by (cases "is_valid_secret_reveal (rsr_secrethash r) (tt_secrethash s) (rsr_secret r) \<and>
           \<not> is_transfer_expired (tt_transfer s) (tw_channel w) n")
        (use assms ReceiveSecretRevealLight in \<open>auto simp: dispatch_target_def
           handle_offchain_secretreveal_light_def message_identifier_from_prng_def
           is_valid_secret_reveal_def Let_def intro: same_secret stay\<close>)
  next
    case (ContractReceiveSecretRevealChange r)
    show thesis
      by (cases "is_valid_secret_reveal (csr_secrethash r) (tt_secrethash s) (csr_secret r)")
        (use assms ContractReceiveSecretRevealChange in \<open>auto simp: dispatch_target_def res_simps
           handle_onchain_secretreveal_target_def is_valid_secret_reveal_def
           intro: onchain stay\<close>)
  next
    case (ReceiveUnlockChange u)
    with assms obtain first tail msg out where
      "receive_unlock_with first L (tw_channel w) u = Inr ((out, msg), tw_channel w')"
      "new = (if msg = None then None else Some s)"
      by (auto elim: dispatch_target_unlock)
    then show thesis using ReceiveUnlockChange by (intro unlock) auto
  next
    case (ReceiveUnlockLight u m)
    with assms obtain first tail msg out where
      "receive_unlock_with first L (tw_channel w) u = Inr ((out, msg), tw_channel w')"
      "new = (if msg = None then None else Some s)"
      by (auto elim: dispatch_target_unlock)
    then show thesis using ReceiveUnlockLight by (intro unlock) auto
  next
    case (ReceiveLockExpiredChange e)
    with assms obtain out c where
      "handle_receive_lock_expired L (tw_channel w) e n = Inr (out, c)" "w' = w\<lparr>tw_channel := c\<rparr>"
      "new = (if get_lock (partner_state c) (tt_secrethash s) = None then None else Some s)"
      by (auto simp: dispatch_target_def handle_lock_expired_target_def res_simps split: if_splits)
    then show thesis
      using ReceiveLockExpiredChange by (intro expired [of e out]) simp_all
  qed (use assms stay in \<open>auto simp: dispatch_target_def handle_send_secret_request_light_def
         handle_send_secret_reveal_light_def Let_def res_simps\<close>)
qed

lemma expired_get_lock:
  assumes "handle_receive_lock_expired L c e n = Inr (out, c')" "get_lock (partner_state c') h = Some l"
  shows "get_lock (partner_state c) h = Some l"
  using assms(1)
proof (cases rule: receive_lock_expired_cases)
  case (accepted tree)
  have "\<not> dict_has (secrethashes_to_onchain_unlockedlocks (partner_state c)) (rle_secrethash e)"
    using accepted(1) unfolding lock_expired_iff by blast
  then show ?thesis
    using accepted(2) assms(2) get_lock_del_unclaimed
    by (cases "h = rle_secrethash e") auto
qed (use assms(2) in simp)

section \<open>The target and the laws of its channel\<close>

context channel_law
begin

lemma received_transfer_law:
  assumes "P k c" "target_fresh L c (ActionInitTarget route t)"
    and "receive_lockedtransfer_with evs L now c t st = Inr (out, c', st')"
  shows "P k c'"
  by (rule got_transfer [OF assms(1,3)]) (use assms(2) in \<open>simp add: target_fresh_def\<close>)

lemma dispatch_target_law:
  assumes c: "P k (tw_channel w)" "state = None \<Longrightarrow> target_fresh L (tw_channel w) sc"
    and run: "dispatch_target L now today state sc w n = Inr ((new, evs), w')"
  shows "P k (tw_channel w')"
proof (cases state)
  case None
  note run [unfolded None]
  then show ?thesis
  proof (cases rule: dispatch_target_idle)
    case (start route t)
    then show ?thesis
      using c None by (elim handle_inittarget_cases)
        (auto simp: handle_receive_lockedtransfer_def intro: received_transfer_law)
  next
    case (start_light route t message)
    then show ?thesis
      using c None by (elim handle_inittarget_light_cases)
        (auto simp: handle_receive_lockedtransfer_light_def target_fresh_def
          intro: received_transfer_law)
  qed (use c(1) in simp)
next
  case (Some s)
  note run [unfolded Some]
  then show ?thesis
  proof (cases rule: dispatch_target_running)
    case (unlock u first msg out)
    then show ?thesis using step [OF c(1) channel_step.receive_unlock] by blast
  next
    case (expired e out)
    then show ?thesis using got_expired [OF c(1)] by blast
  qed (use c(1) offchain onchain in \<open>simp_all\<close>)
qed

lemma dispatch_target_ok:
  assumes c: "P k (tw_channel w)" and ready: "\<forall>s. state = Some s \<longrightarrow> target_ok L s (tw_channel w)"
    and routed: "concerns state sc" "genuine_reveal L sc"
    and run: "dispatch_target L now today state sc w n = Inr ((new, evs), w')"
  shows "(\<forall>s. new = Some s \<longrightarrow> target_ok L s (tw_channel w')) \<and>
    (\<forall>s. state = Some s \<and> new = None \<longrightarrow>
       get_lock (partner_state (tw_channel w')) (tt_secrethash s) = None)"
proof (cases state)
  case None
  note run [unfolded None]
  then show ?thesis
  proof (cases rule: dispatch_target_idle)
    case (start route t)
    then show ?thesis
      using None by (elim handle_inittarget_cases)
        (auto simp: handle_receive_lockedtransfer_def elim!: receive_lockedtransfer_cases)
  next
    case (start_light route t message)
    then show ?thesis
      using None by (elim handle_inittarget_light_cases)
        (auto simp: handle_receive_lockedtransfer_light_def elim!: receive_lockedtransfer_cases)
  qed (use None in simp)
next
  case (Some s)
  have s: "target_ok L s (tw_channel w)" using ready Some by simp
  note run [unfolded Some]
  then show ?thesis
  proof (cases rule: dispatch_target_running)
    case same
    then show ?thesis using s by auto
  next
    case same_secret
    then show ?thesis using s routed(2) by (auto simp: genuine_reveal_def) (simp add: target_ok_def)
  next
    case offchain
    then show ?thesis
      using s routed(2) partner_get_lock_offchain [OF sound [OF c]]
      by (auto simp: genuine_reveal_def) (simp add: target_ok_def)
  next
    case onchain
    then show ?thesis
      using s routed(2) partner_get_lock_onchain [OF sound [OF c] onchain(1)]
      by (auto simp: genuine_reveal_def) (simp add: target_ok_def)
  next
    case (unlock u first msg out)
    then have "ru_secrethash u = tt_secrethash s" using routed(1) Some by (auto simp: concerns_def)
    with unlock(2) show ?thesis
      by (cases rule: receive_unlock_cases) (use unlock s Some get_lock_deleted in \<open>auto\<close>)
  next
    case (expired e out)
    then show ?thesis
      using s Some expired_get_lock [OF expired(2)]
      by (auto simp: target_ok_def split: if_splits)
  qed
qed

end

end
