(* ===== verification/TargetProperties.thy ===== *)
theory TargetProperties
  imports TargetFacts ChannelMessages
begin

text \<open>
  The properties of the target, each with a witness: \<open>bob\<close> pays \<open>alice\<close>, who receives the transfer
  at block 10 and asks for the secret, gets it, and is unlocked; or reacts at block 60, where the
  lock is in danger.
\<close>

section \<open>A payment to alice\<close>

definition bob_hop :: RouteState where
  "bob_hop = \<lparr>route_node_address = bob, route_channel_identifier = 1\<rparr>"

definition sample_world :: target_world where
  "sample_world = \<lparr>tw_channel = sample_channel, tw_prng = 7, tw_storage = None, tw_payments = []\<rparr>"

definition asked_world :: target_world where
  "asked_world = sample_world\<lparr>tw_channel := sample_received, tw_prng := 8\<rparr>"

definition sample_target :: TargetTransferState where
  "sample_target = mk_TargetTransferState bob_hop sample_message None"

definition informed_target :: TargetTransferState where
  "informed_target =
     sample_target\<lparr>tt_state := OFFCHAIN_SECRET_REVEAL, tt_secret := Some sample_secret\<rparr>"

definition informed_world :: target_world where
  "informed_world = asked_world\<lparr>tw_channel :=
     register_offchain_secret sample_received sample_secret sample_secrethash, tw_prng := 9\<rparr>"

definition bob_reveal :: ReceiveSecretReveal where
  "bob_reveal = mk_ReceiveSecretReveal sample_libs sample_secret bob"

lemma sample_transfer_sel [simp]:
  "lt_payment_identifier sample_message = 2" "lt_payment_hash_invoice sample_message = []"
  "lt_balance_proof sample_message = sample_signed 10" "lt_lock sample_message = sample_lock 10"
  "lt_initiator sample_message = bob" "lt_target sample_message = alice"
  by (simp_all add: sample_message_def)

lemma sample_target_sel [simp]:
  "tt_transfer sample_target = sample_message" "tt_secret sample_target = None"
  "tt_state sample_target = SECRET_REQUEST" "tt_transfer informed_target = sample_message"
  "tt_state informed_target = OFFCHAIN_SECRET_REVEAL" "tt_secret informed_target = Some sample_secret"
  by (simp_all add: sample_target_def mk_TargetTransferState_def informed_target_def)

lemma sample_world_sel [simp]:
  "tw_channel sample_world = sample_channel" "tw_prng sample_world = 7" "tw_storage sample_world = None"
  "tw_channel asked_world = sample_received" "tw_storage asked_world = None" "tw_prng asked_world = 8"
  "tw_channel informed_world =
     register_offchain_secret sample_received sample_secret sample_secrethash"
  by (simp_all add: sample_world_def asked_world_def informed_world_def)

lemma sample_timeouts [simp]:
  "reveal_timeout sample_received = 50" "reveal_timeout sample_channel = 50"
  by (simp_all add: sample_received_def sample_channel_def)

lemma asked_run:
  "state_transition_target sample_libs 0 [] None (ActionInitTarget bob_hop sample_message)
     sample_world 10 =
   Inr ((Some sample_target,
         [send_processed bob 4, SendSecretRequest (secret_request_for sample_message
            (randint64 sample_libs 7))]), asked_world)"
  using sample_receive [of 0] sample_pending(4)
  by (simp add: state_transition_target_def dispatch_target_def handle_inittarget_def
      sanity_check_target_def is_safe_to_wait_def message_identifier_from_prng_def
      sample_target_def [symmetric] sample_ci_def asked_world_def)

lemma sample_target_ok: "target_ok sample_libs sample_target sample_received"
  using sample_pending(4) by (simp add: target_ok_def)

lemma state_transition_targetD:
  assumes "state_transition_target L now today state sc w n = Inr ((new, evs), w')"
  shows "dispatch_target L now today state sc w n = Inr ((new, evs), w')"
    "sanity_check_target state new (tw_channel w') = Inr ()"
  using assms by (auto simp: state_transition_target_def res_bind_Inr)

lemma sample_sane: "genuine_reveal sample_libs (ReceiveSecretRevealChange bob_reveal)"
  by (simp add: genuine_reveal_def bob_reveal_def mk_ReceiveSecretReveal_def)

lemma sample_secret_nonzero: "sample_secret \<noteq> EMPTY_HASH"
proof -
  have "last sample_secret \<noteq> last EMPTY_HASH"
    by (simp add: sample_secret_def EMPTY_HASH_def)
  then show ?thesis by auto
qed

lemma informed_run:
  "dispatch_target sample_libs 0 [] (Some sample_target) (ReceiveSecretRevealChange bob_reveal)
     asked_world 20 =
   Inr ((Some informed_target,
         [SendSecretReveal (mk_SendSecretReveal sample_libs bob CHANNEL_IDENTIFIER_GLOBAL_QUEUE
            (randint64 sample_libs 8) sample_secret)]), informed_world)"
proof -
  have "\<not> is_transfer_expired sample_message sample_received 20"
    by (simp add: is_transfer_expired_def is_lock_expired_def get_sender_expiration_threshold_def
        DEFAULT_NUMBER_OF_BLOCK_CONFIRMATIONS_def mk_NettingChannelEndState_def dict_has_def)
  then show ?thesis
    using sample_secret_nonzero
    by (simp add: dispatch_target_def handle_offchain_secretreveal_target_def bob_reveal_def
        mk_ReceiveSecretReveal_def sample_secrethash_def [symmetric] is_valid_secret_reveal_def
        informed_target_def informed_world_def message_identifier_from_prng_def)
      (simp add: sample_target_def mk_TargetTransferState_def bob_hop_def)
qed

section \<open>Channels and tasks\<close>

text \<open>The target of a payment changes its channel only by steps of the channel: after every state
  change the channel is still a reachable one, and steps of the channel's own transition system lead
  to it.  A transfer that starts a task is assumed not to reuse a hash that is pending in the channel.\<close>

theorem target_runs_channel_steps:
  assumes "keccak_ok L" "reachable L (tw_channel w)" "target_fresh L (tw_channel w) sc"
    and "state_transition_target L now today state sc w n = Inr ((new, evs), w')"
  shows "reachable L (tw_channel w') \<and> (channel_step L)\<^sup>*\<^sup>* (tw_channel w) (tw_channel w')"
proof -
  let ?k = "ch_identifier (tw_channel w)"
  have "evolved_channel L [(?k, tw_channel w)] ?k (tw_channel w)"
    using assms(1,2) by (simp add: evolved_channel_def node_channel_def)
  from evolved.dispatch_target_law [OF this assms(3) state_transition_targetD(1) [OF assms(4)]]
  show ?thesis by (simp add: evolved_channel_def node_channel_def)
qed

theorem target_runs_channel_steps_witness:
  "(channel_step sample_libs)\<^sup>*\<^sup>* sample_channel sample_received"
  using target_runs_channel_steps [OF sample_keccak_ok _ _ asked_run] sample_reachable sample_lock_ok
  by (simp add: target_fresh_def)

text \<open>C11. A target's task runs exactly as long as the partner's side of the channel has the lock of the
  transfer: a state change that is routed to the task (an unlock is one of its own lock, a secret is
  the one that its hash belongs to) leaves a running task with its lock, and a secret the task stores
  is the one of the lock; where the task ends the lock is gone; so the sanity check at the end of the
  transition never raises.\<close>

theorem target_runs_with_its_lock:
  assumes "keccak_ok L" "reachable L (tw_channel w)"
    and "\<forall>s. state = Some s \<longrightarrow> target_ok L s (tw_channel w)"
    and "concerns state sc" "genuine_reveal L sc"
    and "dispatch_target L now today state sc w n = Inr ((new, evs), w')"
  shows "state_transition_target L now today state sc w n = Inr ((new, evs), w') \<and>
    (\<forall>s. new = Some s \<longrightarrow> target_ok L s (tw_channel w')) \<and>
    (\<forall>s. state = Some s \<and> new = None \<longrightarrow>
       get_lock (partner_state (tw_channel w')) (tt_secrethash s) = None)"
proof -
  let ?k = "ch_identifier (tw_channel w)"
  have "node_channel L ?k (tw_channel w)" using assms(1,2) by (simp add: node_channel_def)
  note ok = node.dispatch_target_ok [OF this assms(3-6)]
  have "sanity_check_target state new (tw_channel w') = Inr ()"
  proof (cases new)
    case (Some s)
    then have "get_lock (partner_state (tw_channel w')) (tt_secrethash s) = Some (tt_lock s)"
      using ok by (simp add: target_ok_def)
    then show ?thesis using Some by (cases state) (simp_all add: sanity_check_target_def)
  qed (use ok in \<open>cases state; simp add: sanity_check_target_def\<close>)
  then show ?thesis using ok assms(6) by (simp add: state_transition_target_def)
qed

theorem target_runs_with_its_lock_witness:
  "target_ok sample_libs informed_target
     (register_offchain_secret sample_received sample_secret sample_secrethash)"
  using target_runs_with_its_lock [OF sample_keccak_ok _ _ _ sample_sane informed_run]
    sample_received_reachable sample_target_ok
  by (simp add: concerns_def)

section \<open>Asking for the secret\<close>

lemma accepted_invoice:
  assumes "receive_lockedtransfer_with first L now c t st = Inr (out, c', st')" "out_msg out = None"
  obtains invoice where "out_invoice out = Some invoice"
    "handle_received_invoice now st (lt_payment_hash_invoice t) = Inr (invoice, st')"
  using assms(1)
proof (cases rule: receive_lockedtransfer_cases)
  case (accepted tree invoice)
  then have "handle_received_invoice now st (lt_payment_hash_invoice t) = Inr (invoice, st')"
    unfolding is_valid_lockedtransfer_def lockedtransfer_iff by blast
  with accepted that show ?thesis by blast
qed (use assms(2) in simp)



section \<open>Being paid\<close>

lemma onchain_reveal_no_payment [simp]:
  "e \<in> set (events_for_onchain_secretreveal c x l h) \<Longrightarrow> \<not> is_payment e"
  by (auto simp: events_for_onchain_secretreveal_def split: if_splits)

lemma payment_only_by_unlock:
  assumes "dispatch_target L now today (Some s) sc w n = Inr ((new, evs), w')"
    and "e \<in> set evs" "is_payment e"
  shows "\<exists>u. sc = ReceiveUnlockChange u \<or> (\<exists>m. sc = ReceiveUnlockLight u m)"
proof (cases sc)
  case (Block b l h)
  with assms(1) have "handle_block_target s w n h = Inr ((new, evs), w')"
    by (auto simp: dispatch_target_def res_simps)
  with assms(2,3) show ?thesis
    by (auto simp: handle_block_target_def Let_def events_for_onchain_secretreveal_target_def
        py_assert_Inr res_bind_Inr dest: onchain_reveal_no_payment split: if_splits option.splits)
next
  case (ReceiveLockExpiredChange x)
  with assms(1) obtain out c where "handle_receive_lock_expired L (tw_channel w) x n = Inr (out, c)"
    "set evs \<subseteq> set out \<union> {EventUnlockClaimFailed (lt_payment_identifier (tt_transfer s))
       (tt_secrethash s) LockExpiredText}"
    by (auto simp: dispatch_target_def handle_lock_expired_target_def res_bind_Inr split: if_splits)
  with assms(2,3) show ?thesis
    by (elim receive_lock_expired_cases) (auto simp: send_processed_def)
qed (use assms in \<open>auto simp: dispatch_target_def handle_send_secret_request_light_def
      handle_send_secret_reveal_light_def handle_offchain_secretreveal_target_def
      handle_offchain_secretreveal_light_def handle_onchain_secretreveal_target_def
      message_identifier_from_prng_def Let_def res_simps split: if_splits\<close>)

text \<open>C10. When a target reports a payment as received it has been paid: the task ends, the report is the
  only one of the transition and names the identifier, amount and initiator of the transfer, the
  balance of the node has grown by exactly that amount, and the lock is gone from the channel.\<close>

theorem reported_payment_is_received:
  assumes "keccak_ok L" "reachable L (tw_channel w)" "target_ok L s (tw_channel w)"
    and "state_transition_target L now today (Some s) sc w n = Inr ((new, evs), w')"
    and "EventPaymentReceivedSuccess network token p amount sender \<in> set evs"
  shows "new = None \<and> p = lt_payment_identifier (tt_transfer s) \<and> amount = lock_amount (tt_lock s) \<and>
    sender = lt_initiator (tt_transfer s) \<and> length (filter is_payment evs) = 1 \<and>
    get_balance (our_state (tw_channel w')) (partner_state (tw_channel w')) =
      get_balance (our_state (tw_channel w)) (partner_state (tw_channel w)) + amount \<and>
    get_lock (partner_state (tw_channel w')) (tt_secrethash s) = None"
proof -
  let ?c = "tw_channel w" and ?c' = "tw_channel w'"
  note run = state_transition_targetD [OF assms(4)]
  from payment_only_by_unlock [OF run(1) assms(5)] obtain u where
    u: "sc = ReceiveUnlockChange u \<or> (\<exists>m. sc = ReceiveUnlockLight u m)"
    by auto
  from dispatch_target_unlock [OF run(1) u] obtain first tail msg out where *:
    "receive_unlock_with first L ?c u = Inr ((out, msg), ?c')"
    "new = (if msg = None then None else Some s)"
    "evs = out @ (if msg = None then payment_received s ?c' @ [tail] else [])"
    "first = [] \<or> first = [send_processed (bp_sender (ru_balance_proof u)) (ru_message_identifier u)]"
    "\<not> is_payment tail"
    by metis
  have msg: "msg = None"
    using *(1) by (cases rule: receive_unlock_cases) (use *(3) assms(5) in auto)
  then have out: "filter is_payment out = []"
    using *(1,4) by (elim receive_unlock_cases) (auto simp: send_processed_def)
  have ok: "channel_ok L ?c" using reachable_inv [OF assms(1,2)] by simp
  from receive_unlock_accepted [OF ok *(1) [unfolded msg]] obtain lock tree e' where acc:
    "get_lock (partner_state ?c) (ru_secrethash u) = Some lock"
    "bp_transferred_amount (ru_balance_proof u) =
       current_transferred_amount (partner_state ?c) + lock_amount lock"
    "?c' = ?c\<lparr>partner_state := e'\<rparr>" "es_balance_proof e' = Some (Signed (ru_balance_proof u))"
    "contract_balance e' = contract_balance (partner_state ?c)"
    by metis
  have gone: "get_lock (partner_state ?c') (tt_secrethash s) = None"
    using run(2) * msg by (simp add: sanity_check_target_def py_assert_Inr)
  have "ru_secrethash u = tt_secrethash s"
    using *(1)
  proof (cases rule: receive_unlock_cases)
    case (accepted tree e)
    then show ?thesis
      using gone get_lock_deleted(2) [OF accepted(4), of "tt_secrethash s"] assms(3)
      by (cases "tt_secrethash s = ru_secrethash u") (auto simp: target_ok_def)
  qed (use msg in simp)
  then have "lock = tt_lock s" using acc(1) assms(3) by (simp add: target_ok_def)
  then have "get_balance (our_state ?c') (partner_state ?c') =
      get_balance (our_state ?c) (partner_state ?c) + lock_amount (tt_lock s)"
    using acc by (simp add: get_balance_def current_transferred_amount_def [of e'])
  then show ?thesis
    using msg * assms(5) gone out
    by (auto simp: payment_received_def filter_empty_conv)
qed

lemma paid_run:
  "\<exists>w'. state_transition_target sample_libs 0 [] (Some sample_target) (ReceiveUnlockChange sample_unlock)
     asked_world 30 =
   Inr ((None, [send_processed bob 5,
        EventPaymentReceivedSuccess (payment_network_identifier sample_received)
          (ch_token_network_identifier sample_received) 2 10 bob,
        EventUnlockClaimSuccess 2 sample_secrethash,
        SendProcessed bob CHANNEL_IDENTIFIER_GLOBAL_QUEUE 5]), w')"
proof -
  obtain c where c: "handle_unlock sample_libs sample_received sample_unlock =
      Inr (([send_processed bob 5], None), c)"
    using sample_unlock_run by blast
  from c have "get_lock (partner_state c) sample_secrethash = None \<and>
      payment_network_identifier c = payment_network_identifier sample_received \<and>
      ch_token_network_identifier c = ch_token_network_identifier sample_received"
    unfolding handle_unlock_def
    by (elim receive_unlock_cases) (auto dest: get_lock_deleted(1))
  with c show ?thesis
    by (simp add: state_transition_target_def dispatch_target_def handle_unlock_target_def
        sanity_check_target_def payment_received_def)
qed

theorem reported_payment_is_received_witness:
  "\<exists>c :: NettingChannelState. get_balance (our_state c) (partner_state c) =
     get_balance (our_state sample_received) (partner_state sample_received) + 10"
proof -
  from paid_run obtain w' where "state_transition_target sample_libs 0 [] (Some sample_target)
      (ReceiveUnlockChange sample_unlock) asked_world 30 =
    Inr ((None, [send_processed bob 5,
        EventPaymentReceivedSuccess (payment_network_identifier sample_received)
          (ch_token_network_identifier sample_received) 2 10 bob,
        EventUnlockClaimSuccess 2 sample_secrethash,
        SendProcessed bob CHANNEL_IDENTIFIER_GLOBAL_QUEUE 5]), w')" by blast
  from reported_payment_is_received [OF sample_keccak_ok _ _ this, of
      "payment_network_identifier sample_received" "ch_token_network_identifier sample_received" 2 10 bob]
  have "get_balance (our_state (tw_channel w')) (partner_state (tw_channel w')) =
      get_balance (our_state sample_received) (partner_state sample_received) + 10"
    unfolding sample_world_sel using sample_received_reachable sample_target_ok by simp
  then show ?thesis by blast
qed

section \<open>The deadline\<close>

text \<open>A lock in the danger zone whose secret the channel has off-chain, in a channel that still accepts
  the registration.\<close>

definition in_danger :: "TargetTransferState \<Rightarrow> NettingChannelState \<Rightarrow> bytes \<Rightarrow> int \<Rightarrow> bool" where
  "in_danger s c secret n \<longleftrightarrow>
     0 < n \<and> 0 < reveal_timeout c \<and> reveal_timeout c < lock_expiration (tt_lock s) \<and>
     lock_expiration (tt_lock s) \<le> n + reveal_timeout c \<and>
     is_secret_known_offchain (partner_state c) (tt_secrethash s) \<and>
     get_secret (partner_state c) (tt_secrethash s) = Some secret \<and> secret \<noteq> [] \<and>
     get_status c \<in> CHANNEL_STATES_PRIOR_TO_CLOSED \<union> {CHANNEL_STATE_CLOSED}"

lemma known_offchain_known:
  "is_secret_known_offchain e h \<Longrightarrow> is_secret_known e h"
  by (simp add: is_secret_known_offchain_def is_secret_known_def)

lemma danger_reveals:
  assumes "in_danger s c secret n"
  shows "events_for_onchain_secretreveal_target s c n bh =
    Inr (if tt_state s = ONCHAIN_SECRET_REVEAL then (s, [])
         else (s\<lparr>tt_state := ONCHAIN_SECRET_REVEAL\<rparr>,
               [ContractSendSecretReveal (lock_expiration (tt_lock s)) secret bh]))"
  using assms
  by (auto simp: in_danger_def events_for_onchain_secretreveal_target_def is_safe_to_wait_def
      events_for_onchain_secretreveal_def)

lemma block_in_danger:
  assumes "in_danger s (tw_channel w) secret n" "target_ok L s (tw_channel w)"
  shows "state_transition_target L now today (Some s) (Block n gl bh) w n =
    (if is_lock_expired (our_state (tw_channel w)) (tt_lock s) n
          (get_receiver_expiration_threshold (tt_lock s)) = None \<and> tt_state s \<noteq> TARGET_EXPIRED
     then Inr ((Some (s\<lparr>tt_state := TARGET_EXPIRED\<rparr>),
                [EventUnlockClaimFailed (lt_payment_identifier (tt_transfer s)) (tt_secrethash s)
                   LockExpiredText]), w)
     else if tt_state s = ONCHAIN_SECRET_REVEAL then Inr ((Some s, []), w)
     else Inr ((Some (s\<lparr>tt_state := ONCHAIN_SECRET_REVEAL\<rparr>),
                [ContractSendSecretReveal (lock_expiration (tt_lock s)) secret bh]), w))"
proof -
  have known: "is_secret_known (partner_state (tw_channel w)) (tt_secrethash s)"
    using assms(1) unfolding in_danger_def by (blast intro: known_offchain_known)
  have lock: "get_lock (partner_state (tw_channel w)) (tt_secrethash s) = Some (tt_lock s)"
    using assms(2) unfolding target_ok_def by blast
  let ?expired = "is_lock_expired (our_state (tw_channel w)) (tt_lock s) n
    (get_receiver_expiration_threshold (tt_lock s)) = None \<and> tt_state s \<noteq> TARGET_EXPIRED"
  have "handle_block_target s w n bh =
    (if ?expired
     then Inr ((Some (s\<lparr>tt_state := TARGET_EXPIRED\<rparr>),
                [EventUnlockClaimFailed (lt_payment_identifier (tt_transfer s)) (tt_secrethash s)
                   LockExpiredText]), w)
     else if tt_state s = ONCHAIN_SECRET_REVEAL then Inr ((Some s, []), w)
     else Inr ((Some (s\<lparr>tt_state := ONCHAIN_SECRET_REVEAL\<rparr>),
                [ContractSendSecretReveal (lock_expiration (tt_lock s)) secret bh]), w))"
    unfolding handle_block_target_def Let_def danger_reveals [OF assms(1)]
    by (simp only: known if_True res_bind_simps prod.case split: if_split) blast
  then show ?thesis
    by (simp add: state_transition_target_def dispatch_target_def sanity_check_target_def lock
        del: split_paired_All)
qed

text \<open>A target that has the secret of its lock registers it on-chain in time: at the first block at
  which waiting is not safe any more it sends exactly one transaction, with the secret and the
  expiration of the lock, and remembers it; at every later block until the lock's expiration is
  confirmed it sends none.\<close>

theorem target_registers_in_danger_zone:
  assumes "in_danger s (tw_channel w) secret n" "target_ok L s (tw_channel w)"
    and "tt_state s \<noteq> ONCHAIN_SECRET_REVEAL"
    and "n \<le> n'" "n' < lock_expiration (tt_lock s) + DEFAULT_NUMBER_OF_BLOCK_CONFIRMATIONS"
  shows "state_transition_target L now today (Some s) (Block n gl bh) w n =
      Inr ((Some (s\<lparr>tt_state := ONCHAIN_SECRET_REVEAL\<rparr>),
            [ContractSendSecretReveal (lock_expiration (tt_lock s)) secret bh]), w) \<and>
    state_transition_target L now today (Some (s\<lparr>tt_state := ONCHAIN_SECRET_REVEAL\<rparr>))
      (Block n' gl' bh') w n' = Inr ((Some (s\<lparr>tt_state := ONCHAIN_SECRET_REVEAL\<rparr>), []), w)"
proof -
  have "in_danger (s\<lparr>tt_state := ONCHAIN_SECRET_REVEAL\<rparr>) (tw_channel w) secret n'"
    using assms(1,4) by (auto simp: in_danger_def)
  from block_in_danger [OF assms(1,2)] block_in_danger [OF this, of L] show ?thesis
    using assms(2-5)
    by (simp add: is_lock_expired_def get_receiver_expiration_threshold_def)
qed

lemma informed_danger: "n \<ge> 50 \<Longrightarrow> in_danger informed_target (tw_channel informed_world) sample_secret n"
  using sample_pending
  by (simp add: in_danger_def register_offchain_secret_def register_secret_endstate_def
      is_secret_known_offchain_def get_secret_def dict_has_def CHANNEL_STATES_PRIOR_TO_CLOSED_def
      sample_secret_def mk_UnlockPartialProofState_def)
    (simp add: sample_received_def sample_channel_def get_status_def)

lemma informed_ok: "target_ok sample_libs informed_target (tw_channel informed_world)"
proof -
  have "target_ok sample_libs informed_target sample_received"
    using sample_target_ok sample_secret_nonzero
    by (simp add: target_ok_def sample_secrethash_def)
  moreover have "channel_ok sample_libs sample_received"
    using reachable_inv [OF sample_keccak_ok sample_received_reachable] by simp
  ultimately show ?thesis
    using partner_get_lock_offchain by (simp add: target_ok_def)
qed

theorem target_registers_in_danger_zone_witness:
  "state_transition_target sample_libs 0 [] (Some informed_target) (Block 60 0 []) informed_world 60 =
     Inr ((Some (informed_target\<lparr>tt_state := ONCHAIN_SECRET_REVEAL\<rparr>),
           [ContractSendSecretReveal 100 sample_secret []]), informed_world)"
  using target_registers_in_danger_zone [OF informed_danger informed_ok, of 60 60 0 "[]" 0 "[]" 0 "[]"]
  by (simp add: DEFAULT_NUMBER_OF_BLOCK_CONFIRMATIONS_def)

text \<open>After the expiration of its lock a target that still has the secret off-chain never comes to
  rest: at one block it sends a transaction that registers the secret of the expired lock, although
  the registration cannot help any more, and at the next block it reports the claim as failed again
  and is back in the state it started from, so that every second block sends one more transaction.\<close>

theorem expired_target_reveals_again:
  assumes "in_danger s (tw_channel w) secret n" "target_ok L s (tw_channel w)"
    and "tt_state s = TARGET_EXPIRED" "n \<le> n'"
    and "lock_expiration (tt_lock s) + DEFAULT_NUMBER_OF_BLOCK_CONFIRMATIONS \<le> n"
    and "\<not> is_secret_known_onchain (our_state (tw_channel w)) (tt_secrethash s)"
  shows "state_transition_target L now today (Some s) (Block n gl bh) w n =
      Inr ((Some (s\<lparr>tt_state := ONCHAIN_SECRET_REVEAL\<rparr>),
            [ContractSendSecretReveal (lock_expiration (tt_lock s)) secret bh]), w) \<and>
    state_transition_target L now today (Some (s\<lparr>tt_state := ONCHAIN_SECRET_REVEAL\<rparr>))
      (Block n' gl' bh') w n' =
      Inr ((Some s, [EventUnlockClaimFailed (lt_payment_identifier (tt_transfer s)) (tt_secrethash s)
                       LockExpiredText]), w)"
proof -
  have "in_danger (s\<lparr>tt_state := ONCHAIN_SECRET_REVEAL\<rparr>) (tw_channel w) secret n'"
    using assms(1,4) by (auto simp: in_danger_def)
  from block_in_danger [OF assms(1,2)] block_in_danger [OF this, of L] show ?thesis
    using assms(2-6)
    by (simp add: is_lock_expired_def get_receiver_expiration_threshold_def
        is_secret_known_onchain_def)
qed

theorem expired_target_reveals_again_witness:
  "state_transition_target sample_libs 0 [] (Some (informed_target\<lparr>tt_state := TARGET_EXPIRED\<rparr>))
     (Block 106 0 []) informed_world 106 =
   Inr ((Some (informed_target\<lparr>tt_state := ONCHAIN_SECRET_REVEAL\<rparr>),
         [ContractSendSecretReveal 100 sample_secret []]), informed_world)"
proof -
  have danger: "in_danger (informed_target\<lparr>tt_state := TARGET_EXPIRED\<rparr>) (tw_channel informed_world)
      sample_secret 106"
    using informed_danger [of 106] by (simp add: in_danger_def)
  have ok: "target_ok sample_libs (informed_target\<lparr>tt_state := TARGET_EXPIRED\<rparr>) (tw_channel informed_world)"
    using informed_ok by simp
  have "\<not> is_secret_known_onchain (our_state (tw_channel informed_world)) sample_secrethash"
    by (simp add: register_offchain_secret_def register_secret_endstate_def
        mk_NettingChannelEndState_def is_secret_known_onchain_def dict_has_def)
  then show ?thesis
    using expired_target_reveals_again [OF danger ok, of 106 0 "[]" 0 "[]" 0 "[]"]
    by (simp add: DEFAULT_NUMBER_OF_BLOCK_CONFIRMATIONS_def)
qed

section \<open>What the target gets wrong\<close>

text \<open>A lock whose secret has been registered on-chain in time is reported as failed all the same: the
  expiry is looked up on the target's own side of the channel, where the lock of a received transfer
  never is.\<close>

lemma unlocked_lock_reported_failed:
  assumes "is_secret_known_onchain (partner_state (tw_channel w)) (tt_secrethash s)"
    and "\<not> is_secret_known_onchain (our_state (tw_channel w)) (tt_secrethash s)"
    and "lock_expiration (tt_lock s) + DEFAULT_NUMBER_OF_BLOCK_CONFIRMATIONS \<le> n"
    and "tt_state s = ONCHAIN_UNLOCK" "target_ok L s (tw_channel w)"
  shows "state_transition_target L now today (Some s) (Block n gl bh) w n =
    Inr ((Some (s\<lparr>tt_state := TARGET_EXPIRED\<rparr>),
          [EventUnlockClaimFailed (lt_payment_identifier (tt_transfer s)) (tt_secrethash s)
             LockExpiredText]), w)"
  using assms
  by (simp add: state_transition_target_def dispatch_target_def handle_block_target_def Let_def
      is_lock_expired_def is_secret_known_onchain_def get_receiver_expiration_threshold_def
      sanity_check_target_def target_ok_def)

text \<open>The channel accepts a lock with any expiration; one at or below the reveal timeout makes the
  safety test raise.\<close>

lemma short_lock_raises:
  assumes "handle_receive_lockedtransfer L now (tw_channel w) t (tw_storage w) = Inr (out, c, st)"
    and "out_msg out = None" "lock_expiration (lt_lock t) \<le> reveal_timeout c"
    and "ch_identifier (tw_channel w) = channel_identifier (bp_canonical_identifier (lt_balance_proof t))"
  shows "\<exists>msg. state_transition_target L now today None (ActionInitTarget route t) w n =
    Inl (AssertionError msg)"
  using assms
  by (auto simp: state_transition_target_def dispatch_target_def handle_inittarget_def
      is_safe_to_wait_def py_assert_def)

end
