(* ===== verification/Initiator.thy ===== *)
theory Initiator
  imports PaymentTasks
begin

text \<open>
  One transfer of a payment at the node that starts it (\<open>transfer/mediated_transfer/initiator.py\<close>)
  with its state class (\<open>mediated_transfer/state.py\<close>): choosing a channel and locking the amount,
  answering the target's secret request, unlocking towards the next hop, and giving up when the lock
  expires.  A function whose name another module has too ends in \<open>_initiator\<close>.

  The map \<open>channelidentifiers_to_channels\<close> that the initiator gets has two levels: a node works for
  its own account and for its light clients, so the outer key is the address of the owner of the
  channels.
\<close>

type_synonym owner_channels = "(bytes, channelmap) dict"

section \<open>State\<close>

datatype transfer_status = transfer_pending | transfer_cancelled | transfer_expired

text \<open>\<open>revealsecret\<close> is the \<open>SendSecretReveal\<close> or \<open>SendSecretRevealLight\<close> that was sent.\<close>

record InitiatorTransferState =
  it_transfer_description :: TransferDescription
  it_channel_identifier :: int
  it_transfer :: LockedTransferUnsignedState
  it_revealsecret :: "event option"
  it_received_secret_request :: bool
  it_transfer_state :: transfer_status

definition mk_InitiatorTransferState ::
    "TransferDescription \<Rightarrow> int \<Rightarrow> LockedTransferUnsignedState \<Rightarrow> event option \<Rightarrow> bool
     \<Rightarrow> InitiatorTransferState" where
  "mk_InitiatorTransferState description identifier transfer revealsecret received =
     \<lparr>it_transfer_description = description, it_channel_identifier = identifier,
      it_transfer = transfer, it_revealsecret = revealsecret,
      it_received_secret_request = received, it_transfer_state = transfer_pending\<rparr>"

text \<open>The result of a handler: the new state, the events, the channel, the generator.\<close>

type_synonym initiator_result =
  "((InitiatorTransferState option \<times> event list) \<times> NettingChannelState \<times> prng) result"

section \<open>Unlocking\<close>

definition events_for_unlock_base ::
    "InitiatorTransferState \<Rightarrow> NettingChannelState \<Rightarrow> bytes \<Rightarrow> event list" where
  "events_for_unlock_base s c secret =
     (let description = it_transfer_description s in
      [EventPaymentSentSuccess (payment_network_identifier c) (ch_token_network_identifier c)
         (td_payment_identifier description) (td_amount description) (td_target description) secret,
       EventUnlockSuccess (td_payment_identifier description) (td_secrethash description)])"

definition events_for_unlock_lock ::
    "libs \<Rightarrow> InitiatorTransferState \<Rightarrow> NettingChannelState \<Rightarrow> bytes \<Rightarrow> bytes \<Rightarrow> prng
     \<Rightarrow> (event list \<times> NettingChannelState \<times> prng) result" where
  "events_for_unlock_lock L s c secret secrethash g =
     (let (message_identifier, g') = message_identifier_from_prng L g in
      res_bind (send_unlock L c message_identifier
                  (td_payment_identifier (it_transfer_description s)) secret secrethash False)
        (\<lambda>(unlock, c'). Inr (events_for_unlock_base s c' secret @ [SendBalanceProof unlock], c', g')))"

section \<open>Blocks\<close>

definition payment_failed :: "TransferDescription \<Rightarrow> failure \<Rightarrow> event" where
  "payment_failed description why =
     EventPaymentSentFailed (td_payment_network_identifier description)
       (td_token_network_identifier description) (td_payment_identifier description)
       (td_target description) why"

definition handle_block_initiator ::
    "libs \<Rightarrow> InitiatorTransferState \<Rightarrow> int \<Rightarrow> NettingChannelState \<Rightarrow> prng \<Rightarrow> initiator_result" where
  "handle_block_initiator L s block_number c g =
     (let secrethash = lock_secrethash (lt_lock (it_transfer s)) in
      case dict_get (secrethashes_to_lockedlocks (our_state c)) secrethash of
        None \<Rightarrow>
          (if dict_get (secrethashes_to_lockedlocks (partner_state c)) secrethash \<noteq> None
           then Inr ((Some s, []), c, g) else Inr ((None, []), c, g))
      | Some locked_lock \<Rightarrow>
          if is_lock_expired (our_state c) locked_lock block_number
               (get_sender_expiration_threshold locked_lock) = None \<and>
             it_transfer_state s \<noteq> transfer_expired
          then res_bind (if get_status c = CHANNEL_STATE_OPENED
                         then events_for_expired_lock L c locked_lock g else Inr ([], c, g))
                 (\<lambda>(events, c', g').
                  let why = (if it_received_secret_request s then BadSecretRequest else LockExpiredText);
                      description = it_transfer_description s in
                  Inr ((if lock_exists_in_either_channel_side c' secrethash
                        then Some (s\<lparr>it_transfer_state := transfer_expired\<rparr>) else None,
                        events @
                          [payment_failed description why, EventRouteFailed secrethash,
                           EventUnlockFailed (td_payment_identifier description)
                             (td_secrethash description) why]), c', g'))
          else Inr ((Some s, []), c, g))"

section \<open>Starting a transfer\<close>

definition get_initial_lock_expiration :: "int \<Rightarrow> int \<Rightarrow> int" where
  "get_initial_lock_expiration block_number timeout = block_number + timeout * 2"

text \<open>The channel that is found comes with its identifier in the owner's map.\<close>

fun next_channel_from_routes_initiator ::
    "RouteState list \<Rightarrow> owner_channels \<Rightarrow> int \<Rightarrow> bytes \<Rightarrow> (int \<times> NettingChannelState) option result"
  where
  "next_channel_from_routes_initiator [] m transfer_amount initiator = Inr None"
| "next_channel_from_routes_initiator (route # routes) m transfer_amount initiator =
     (case dict_get m initiator of
        None \<Rightarrow> next_channel_from_routes_initiator routes m transfer_amount initiator
      | Some channels \<Rightarrow>
          (case dict_get channels (route_channel_identifier route) of
             None \<Rightarrow> next_channel_from_routes_initiator routes m transfer_amount initiator
           | Some c \<Rightarrow>
               if get_status c \<noteq> CHANNEL_STATE_OPENED
               then next_channel_from_routes_initiator routes m transfer_amount initiator
               else res_bind (get_number_of_pending_transfers (our_state c)) (\<lambda>pending_transfers.
                 if pending_transfers < MAXIMUM_PENDING_TRANSFERS \<and>
                    transfer_amount \<le> get_distributable (our_state c) (partner_state c) \<and>
                    is_valid_amount (our_state c) transfer_amount
                 then Inr (Some (route_channel_identifier route, c))
                 else next_channel_from_routes_initiator routes m transfer_amount initiator)))"

text \<open>The owner's map with a changed channel.\<close>

definition set_channel ::
    "bytes \<Rightarrow> int \<Rightarrow> NettingChannelState \<Rightarrow> owner_channels \<Rightarrow> owner_channels" where
  "set_channel initiator key c m =
     (case dict_get m initiator of
        None \<Rightarrow> m
      | Some channels \<Rightarrow> dict_set initiator (dict_set key c channels) m)"

text \<open>The event where no channel can be used.\<close>

definition no_route_failed :: "RouteState list \<Rightarrow> TransferDescription \<Rightarrow> event" where
  "no_route_failed available_routes description =
     payment_failed description (if available_routes = [] then NoRouteAvailable else NoUsableRoute)"

text \<open>The result of a new route: the state, the events, the channels, the generator.\<close>

type_synonym route_result =
  "((InitiatorTransferState option \<times> event list) \<times> owner_channels \<times> prng) result"

text \<open>The transfer of a light client: it is computed again from the signed message, recorded in the
  channel, and compared with the message.\<close>

definition try_new_route_light ::
    "libs \<Rightarrow> owner_channels \<Rightarrow> RouteState list \<Rightarrow> TransferDescription \<Rightarrow> LockedTransferMessage
     \<Rightarrow> ((InitiatorTransferState option \<times> event list) \<times> owner_channels) result" where
  "try_new_route_light L m available_routes description signed_locked_transfer =
     res_bind (next_channel_from_routes_initiator available_routes m (td_amount description)
                 (td_initiator description)) (\<lambda>found.
       case found of
         None \<Rightarrow> Inr ((None, [no_route_failed available_routes description]), m)
       | Some (key, c) \<Rightarrow>
           res_bind (create_sendlockedtransfer L c (ltm_initiator signed_locked_transfer)
                       (ltm_target signed_locked_transfer) (em_locked_amount signed_locked_transfer)
                       (em_message_identifier signed_locked_transfer)
                       (ltm_payment_identifier signed_locked_transfer)
                       (ltm_payment_hash_invoice signed_locked_transfer)
                       (ltm_lock_expiration signed_locked_transfer)
                       (ltm_lock_secrethash signed_locked_transfer)) (\<lambda>(event, tree).
             let transfer = ste_transfer event;
                 c' = upd_our (record_lock (Unsigned (lt_balance_proof transfer)) tree
                                 (lt_lock transfer)) c;
                 m' = set_channel (td_initiator description) key c' m
             in res_bind (merkleroot tree) (\<lambda>calculated_locksroot.
                  if em_locksroot signed_locked_transfer = calculated_locksroot
                  then Inr ((Some (mk_InitiatorTransferState description (ch_identifier c') transfer
                                     None False),
                             [SendLockedTransferLight (ltm_recipient signed_locked_transfer)
                                (em_channel_identifier signed_locked_transfer)
                                (em_message_identifier signed_locked_transfer)
                                signed_locked_transfer,
                              StoreMessageEvent (em_message_identifier signed_locked_transfer)
                                (ltm_payment_identifier signed_locked_transfer) 1
                                (StoredLockedTransfer signed_locked_transfer) True]), m')
                  else Inr ((None,
                             [payment_failed description
                                (LocksrootDiffers (em_locksroot signed_locked_transfer)
                                   calculated_locksroot)]), m'))))"

definition send_lockedtransfer_initiator ::
    "libs \<Rightarrow> TransferDescription \<Rightarrow> NettingChannelState \<Rightarrow> int \<Rightarrow> int
     \<Rightarrow> (SendTransferEvent \<times> NettingChannelState) result" where
  "send_lockedtransfer_initiator L description c message_identifier block_number =
     py_assert (ch_token_network_identifier c = td_token_network_identifier description)
       ''channel_state.token_network_identifier == transfer_description.token_network_identifier''
     (let expiration = get_initial_lock_expiration block_number (reveal_timeout c);
          total_amount = td_amount description + td_allocated_fee description
      in send_lockedtransfer L c (td_initiator description) (td_target description) total_amount
           message_identifier (td_payment_identifier description)
           (td_payment_hash_invoice description) expiration (td_secrethash description))"

definition try_new_route ::
    "libs \<Rightarrow> owner_channels \<Rightarrow> RouteState list \<Rightarrow> TransferDescription \<Rightarrow> prng \<Rightarrow> int
     \<Rightarrow> route_result" where
  "try_new_route L m available_routes description g block_number =
     res_bind (next_channel_from_routes_initiator available_routes m (td_amount description)
                 (td_initiator description)) (\<lambda>found.
       case found of
         None \<Rightarrow> Inr ((None, [no_route_failed available_routes description]), m, g)
       | Some (key, c) \<Rightarrow>
           let (message_identifier, g') = message_identifier_from_prng L g in
           res_bind (send_lockedtransfer_initiator L description c message_identifier block_number)
             (\<lambda>(event, c').
              Inr ((Some (mk_InitiatorTransferState description (ch_identifier c')
                            (ste_transfer event) None False),
                    [SendLockedTransfer event]),
                   set_channel (td_initiator description) key c' m, g')))"

section \<open>The secret request\<close>

definition is_message_from_target :: "InitiatorTransferState \<Rightarrow> ReceiveSecretRequest \<Rightarrow> bool" where
  "is_message_from_target s request \<longleftrightarrow>
     (let description = it_transfer_description s in
      rsq_sender request = td_target description \<and>
      rsq_secrethash request = td_secrethash description \<and>
      rsq_payment_identifier request = td_payment_identifier description)"

definition is_valid_secretrequest ::
    "InitiatorTransferState \<Rightarrow> HashTimeLockState \<Rightarrow> ReceiveSecretRequest \<Rightarrow> bool" where
  "is_valid_secretrequest s lock request \<longleftrightarrow>
     rsq_amount request \<le> lock_amount lock \<and>
     rsq_amount request \<ge> td_amount (it_transfer_description s) \<and>
     rsq_expiration request = lock_expiration lock"

text \<open>
  Both handlers of a secret request, which differ in what a valid first request of the target leads
  to.  \<open>answer\<close> gives the events, the secret that was sent and the generator.
\<close>

definition secretrequest_with ::
    "(prng \<Rightarrow> (event list \<times> event option \<times> prng) result) \<Rightarrow> InitiatorTransferState
     \<Rightarrow> ReceiveSecretRequest \<Rightarrow> NettingChannelState \<Rightarrow> prng \<Rightarrow> initiator_result" where
  "secretrequest_with answer s request c g =
     (case get_lock (our_state c) (td_secrethash (it_transfer_description s)) of
        None \<Rightarrow> Inl (AssertionError ''channel is does not have the transfer's lock'')
      | Some lock \<Rightarrow>
          if \<not> is_message_from_target s request \<or> it_received_secret_request s
          then Inr ((Some s, []), c, g)
          else if is_valid_secretrequest s lock request
          then res_bind (answer g) (\<lambda>(events, revealsecret, g').
                 Inr ((Some (s\<lparr>it_revealsecret := revealsecret,
                               it_received_secret_request := True\<rparr>), events), c, g'))
          else Inr ((Some (s\<lparr>it_received_secret_request := True\<rparr>), []), c, g))"

text \<open>\<open>SendSecretReveal\<close> hashes the secret, which raises where the description has none.\<close>

definition handle_secretrequest ::
    "libs \<Rightarrow> InitiatorTransferState \<Rightarrow> ReceiveSecretRequest \<Rightarrow> NettingChannelState \<Rightarrow> prng
     \<Rightarrow> initiator_result" where
  "handle_secretrequest L s request c g =
     secretrequest_with (\<lambda>g.
       let (message_identifier, g') = message_identifier_from_prng L g in
       case td_secret (it_transfer_description s) of
         None \<Rightarrow> Inl TypeError
       | Some secret \<Rightarrow>
           let revealsecret = SendSecretReveal (mk_SendSecretReveal L
                 (td_target (it_transfer_description s)) CHANNEL_IDENTIFIER_GLOBAL_QUEUE
                 message_identifier secret)
           in Inr ([revealsecret], Some revealsecret, g')) s request c g"

definition handle_secretrequest_light ::
    "InitiatorTransferState \<Rightarrow> ReceiveSecretRequest \<Rightarrow> SecretRequestMessage \<Rightarrow> NettingChannelState
     \<Rightarrow> prng \<Rightarrow> initiator_result" where
  "handle_secretrequest_light s request message c g =
     secretrequest_with (\<lambda>g.
       Inr ([StoreMessageEvent (srm_message_identifier message) (rsq_payment_identifier request) 5
               (StoredSecretRequest message) True], it_revealsecret s, g)) s request c g"

definition handle_send_secret_reveal_light_initiator ::
    "libs \<Rightarrow> InitiatorTransferState \<Rightarrow> RevealSecretMessage \<Rightarrow> bytes \<Rightarrow> NettingChannelState \<Rightarrow> prng
     \<Rightarrow> initiator_result" where
  "handle_send_secret_reveal_light_initiator L s reveal_secret sender c g =
     (let message_identifier = rsm_message_identifier reveal_secret;
          description = it_transfer_description s;
          revealsecret = SendSecretRevealLight sender (mk_SendSecretReveal L (td_target description)
            CHANNEL_IDENTIFIER_GLOBAL_QUEUE message_identifier (rsm_secret reveal_secret)) reveal_secret
      in Inr ((Some (s\<lparr>it_revealsecret := Some revealsecret, it_received_secret_request := True\<rparr>),
               [revealsecret, StoreMessageEvent message_identifier
                  (td_payment_identifier description) 7 (StoredRevealSecret reveal_secret) True]),
              c, g))"

section \<open>The secret\<close>

text \<open>\<open>valid_reveal and is_channel_open and sent_by_partner\<close>.\<close>

definition may_unlock :: "InitiatorTransferState \<Rightarrow> ReceiveSecretReveal \<Rightarrow> NettingChannelState \<Rightarrow> bool" where
  "may_unlock s reveal c \<longleftrightarrow>
     is_valid_secret_reveal (rsr_secrethash reveal) (td_secrethash (it_transfer_description s))
       (rsr_secret reveal) \<and>
     get_status c = CHANNEL_STATE_OPENED \<and> rsr_sender reveal = es_address (partner_state c)"

definition handle_offchain_secretreveal_light_initiator ::
    "libs \<Rightarrow> InitiatorTransferState \<Rightarrow> ReceiveSecretReveal \<Rightarrow> RevealSecretMessage
     \<Rightarrow> NettingChannelState \<Rightarrow> prng \<Rightarrow> initiator_result" where
  "handle_offchain_secretreveal_light_initiator L s reveal message c g =
     (if may_unlock s reveal c
      then let payment_identifier = td_payment_identifier (it_transfer_description s);
               unlock_events = events_for_unlock_base s c (rsr_secret reveal);
               (message_identifier, g') = message_identifier_from_prng L g in
           res_bind (send_unlock L c message_identifier payment_identifier (rsr_secret reveal)
                       (rsr_secrethash reveal) False) (\<lambda>(unlock, c').
             Inr ((None,
                   [StoreMessageEvent (rsm_message_identifier message) payment_identifier 9
                      (StoredRevealSecret message) True,
                    StoreMessageEvent message_identifier payment_identifier 11 (UnlockOf unlock) False]
                   @ unlock_events), c', g'))
      else Inr ((Some s, []), c, g))"

definition handle_offchain_secretreveal_initiator ::
    "libs \<Rightarrow> InitiatorTransferState \<Rightarrow> ReceiveSecretReveal \<Rightarrow> NettingChannelState \<Rightarrow> prng
     \<Rightarrow> initiator_result" where
  "handle_offchain_secretreveal_initiator L s reveal c g =
     (if may_unlock s reveal c
      then res_bind (events_for_unlock_lock L s c (rsr_secret reveal) (rsr_secrethash reveal) g)
             (\<lambda>(events, c', g'). Inr ((None, events), c', g'))
      else Inr ((Some s, []), c, g))"

definition handle_onchain_secretreveal_initiator ::
    "libs \<Rightarrow> InitiatorTransferState \<Rightarrow> ContractReceiveSecretReveal \<Rightarrow> NettingChannelState \<Rightarrow> prng
     \<Rightarrow> initiator_result" where
  "handle_onchain_secretreveal_initiator L s reveal c g =
     (let secret = csr_secret reveal; secrethash = td_secrethash (it_transfer_description s);
          is_channel_open = (get_status c = CHANNEL_STATE_OPENED);
          is_lock_unlocked =
            is_valid_secret_reveal (csr_secrethash reveal) secrethash secret \<and>
            \<not> csr_block_number reveal > lock_expiration (lt_lock (it_transfer s))
      in res_bind (if is_lock_unlocked
                   then register_onchain_secret c secret secrethash (csr_block_number reveal) True
                   else Inr c) (\<lambda>c.
           if is_lock_unlocked \<and> is_channel_open
           then res_bind (events_for_unlock_lock L s c (csr_secret reveal) (csr_secrethash reveal) g)
                  (\<lambda>(events, c', g'). Inr ((None, events), c', g'))
           else Inr ((Some s, []), c, g)))"

section \<open>The state machine of a transfer\<close>

definition state_transition_initiator ::
    "libs \<Rightarrow> InitiatorTransferState \<Rightarrow> state_change \<Rightarrow> NettingChannelState \<Rightarrow> prng
     \<Rightarrow> initiator_result" where
  "state_transition_initiator L s sc c g =
     (case sc of
        Block n _ _ \<Rightarrow> handle_block_initiator L s n c g
      | ReceiveSecretRequestChange request \<Rightarrow> handle_secretrequest L s request c g
      | ReceiveSecretRequestLight request message \<Rightarrow>
          handle_secretrequest_light s request message c g
      | ReceiveSecretRevealChange reveal \<Rightarrow> handle_offchain_secretreveal_initiator L s reveal c g
      | ReceiveSecretRevealLight reveal message \<Rightarrow>
          handle_offchain_secretreveal_light_initiator L s reveal message c g
      | ContractReceiveSecretRevealChange reveal \<Rightarrow>
          handle_onchain_secretreveal_initiator L s reveal c g
      | ActionSendSecretRevealLight reveal_secret sender receiver \<Rightarrow>
          handle_send_secret_reveal_light_initiator L s reveal_secret sender c g
      | _ \<Rightarrow> Inr ((Some s, []), c, g))"

end
