(* ===== verification/InitiatorManager.thy ===== *)
theory InitiatorManager
  imports Initiator
begin

text \<open>
  The payments that a node starts (\<open>transfer/mediated_transfer/initiator_manager.py\<close>): a payment
  holds its transfers by secrethash, hands every state change to the transfers it concerns, and tries
  a new route when a transfer comes back.  A function whose name another module has too ends in
  \<open>_payment\<close>.

  Three handlers look up a channel identifier directly in the two-level map of the channels, among
  keys that are addresses.  Their model takes what such a lookup can find, a map of channels by
  identifier, as an argument of its own; \<open>channels_by_identifier\<close> says what the two-level map has
  of them.
\<close>

section \<open>State\<close>

record InitiatorPaymentState =
  cancelled_channels :: "int list"
  initiator_transfers :: "(bytes, InitiatorTransferState) dict"

definition mk_InitiatorPaymentState ::
    "(bytes, InitiatorTransferState) dict \<Rightarrow> InitiatorPaymentState" where
  "mk_InitiatorPaymentState transfers =
     \<lparr>cancelled_channels = [], initiator_transfers = transfers\<rparr>"

text \<open>The result of a handler: the payment, the events, the channels, the generator.\<close>

type_synonym payment_result =
  "((InitiatorPaymentState option \<times> event list) \<times> owner_channels \<times> prng) result"

text \<open>No key of the outer map is a channel identifier.\<close>

definition channels_by_identifier :: "owner_channels \<Rightarrow> channelmap" where
  "channels_by_identifier m = []"

definition clear_if_finalized_payment ::
    "InitiatorPaymentState option \<Rightarrow> InitiatorPaymentState option" where
  "clear_if_finalized_payment new_state =
     (case new_state of
        None \<Rightarrow> None | Some p \<Rightarrow> if initiator_transfers p = [] then None else Some p)"

definition transfer_exists :: "InitiatorPaymentState \<Rightarrow> bytes \<Rightarrow> bool" where
  "transfer_exists p secrethash \<longleftrightarrow> dict_has (initiator_transfers p) secrethash"

definition cancel_other_transfers :: "InitiatorPaymentState \<Rightarrow> InitiatorPaymentState" where
  "cancel_other_transfers p =
     p\<lparr>initiator_transfers :=
        map (\<lambda>(h, s). (h, s\<lparr>it_transfer_state := transfer_cancelled\<rparr>)) (initiator_transfers p)\<rparr>"

definition can_cancel :: "InitiatorTransferState \<Rightarrow> bool" where
  "can_cancel s \<longleftrightarrow> it_revealsecret s = None"

section \<open>Cancelling a route\<close>

definition events_for_cancel_current_route :: "TransferDescription \<Rightarrow> event list" where
  "events_for_cancel_current_route description =
     [EventUnlockFailed (td_payment_identifier description) (td_secrethash description) RouteCanceled]"

definition cancel_current_route ::
    "InitiatorPaymentState \<Rightarrow> InitiatorTransferState \<Rightarrow> (event list \<times> InitiatorPaymentState) result"
  where
  "cancel_current_route p s =
     py_assert (can_cancel s) ''Cannot cancel a route after the secret is revealed''
       (Inr (events_for_cancel_current_route (it_transfer_description s),
             p\<lparr>cancelled_channels := cancelled_channels p @ [it_channel_identifier s]\<rparr>))"

definition maybe_try_new_route ::
    "libs \<Rightarrow> InitiatorPaymentState \<Rightarrow> InitiatorTransferState \<Rightarrow> TransferDescription
     \<Rightarrow> RouteState list \<Rightarrow> owner_channels \<Rightarrow> prng \<Rightarrow> int
     \<Rightarrow> ((InitiatorPaymentState \<times> event list) \<times> owner_channels \<times> prng) result" where
  "maybe_try_new_route L p s description available_routes m g block_number =
     (if can_cancel s
      then res_bind (cancel_current_route p s) (\<lambda>(cancel_events, p).
           res_bind (try_new_route L m available_routes description g block_number)
             (\<lambda>((new_state, events), m, g).
              Inr ((case new_state of
                      None \<Rightarrow> p
                    | Some t \<Rightarrow>
                        p\<lparr>initiator_transfers :=
                           dict_set (lock_secrethash (lt_lock (it_transfer t))) t
                             (initiator_transfers p)\<rparr>,
                    cancel_events @ events), m, g)))
      else Inr ((p, []), m, g))"

section \<open>Dispatching to the transfers\<close>

text \<open>
  The state change goes to the transfer under a key of the payment.  The transfer's handler changes
  it in place; where it returns None the entry of the transfer's hash is deleted, which raises if
  there is none.
\<close>

definition subdispatch_to_initiatortransfer ::
    "libs \<Rightarrow> InitiatorPaymentState \<Rightarrow> bytes \<Rightarrow> InitiatorTransferState \<Rightarrow> state_change
     \<Rightarrow> owner_channels \<Rightarrow> prng
     \<Rightarrow> ((InitiatorPaymentState \<times> event list) \<times> owner_channels \<times> prng) result" where
  "subdispatch_to_initiatortransfer L p key s sc m g =
     (let initiator = td_initiator (it_transfer_description s);
          identifier = it_channel_identifier s;
          secrethash = lock_secrethash (lt_lock (it_transfer s))
      in case dict_get m initiator of
           None \<Rightarrow> Inl KeyError
         | Some channels \<Rightarrow>
             (case dict_get channels identifier of
                None \<Rightarrow> Inr ((p, []), m, g)
              | Some c \<Rightarrow>
                  res_bind (state_transition_initiator L s sc c g) (\<lambda>((new_state, events), c', g').
                    let m' = set_channel initiator identifier c' m;
                        transfers = initiator_transfers p
                    in case new_state of
                         Some s' \<Rightarrow>
                           Inr ((p\<lparr>initiator_transfers := dict_set key s' transfers\<rparr>, events),
                                m', g')
                       | None \<Rightarrow>
                           if dict_has transfers secrethash
                           then Inr ((p\<lparr>initiator_transfers := dict_del secrethash transfers\<rparr>,
                                      events), m', g')
                           else Inl KeyError)))"

text \<open>The loop over a copy of the keys; the lookup of a key that is gone raises.\<close>

fun subdispatch_to_keys ::
    "libs \<Rightarrow> bytes list \<Rightarrow> InitiatorPaymentState \<Rightarrow> state_change \<Rightarrow> owner_channels \<Rightarrow> prng
     \<Rightarrow> ((InitiatorPaymentState \<times> event list) \<times> owner_channels \<times> prng) result" where
  "subdispatch_to_keys L [] p sc m g = Inr ((p, []), m, g)"
| "subdispatch_to_keys L (key # ks) p sc m g =
     (case dict_get (initiator_transfers p) key of
        None \<Rightarrow> Inl KeyError
      | Some s \<Rightarrow>
          res_bind (subdispatch_to_initiatortransfer L p key s sc m g) (\<lambda>((p, events), m, g).
          res_bind (subdispatch_to_keys L ks p sc m g) (\<lambda>((p, more), m, g).
            Inr ((p, events @ more), m, g))))"

definition subdispatch_to_all_initiatortransfer ::
    "libs \<Rightarrow> InitiatorPaymentState \<Rightarrow> state_change \<Rightarrow> owner_channels \<Rightarrow> prng
     \<Rightarrow> ((InitiatorPaymentState \<times> event list) \<times> owner_channels \<times> prng) result" where
  "subdispatch_to_all_initiatortransfer L p sc m g =
     subdispatch_to_keys L (map fst (initiator_transfers p)) p sc m g"

section \<open>Handlers\<close>

definition running_payment ::
    "((InitiatorPaymentState \<times> event list) \<times> owner_channels \<times> prng) result \<Rightarrow> payment_result" where
  "running_payment r = res_bind r (\<lambda>((p, events), m, g). Inr ((Some p, events), m, g))"

definition handle_block_payment ::
    "libs \<Rightarrow> InitiatorPaymentState \<Rightarrow> state_change \<Rightarrow> owner_channels \<Rightarrow> prng \<Rightarrow> payment_result" where
  "handle_block_payment L p sc m g =
     running_payment (subdispatch_to_all_initiatortransfer L p sc m g)"

text \<open>A payment with the one transfer that was started.\<close>

definition started_payment :: "InitiatorTransferState option \<Rightarrow> InitiatorPaymentState option" where
  "started_payment new_state =
     map_option (\<lambda>s. mk_InitiatorPaymentState [(lock_secrethash (lt_lock (it_transfer s)), s)])
       new_state"

definition handle_init_payment ::
    "libs \<Rightarrow> InitiatorPaymentState option \<Rightarrow> TransferDescription \<Rightarrow> RouteState list
     \<Rightarrow> owner_channels \<Rightarrow> prng \<Rightarrow> int \<Rightarrow> payment_result" where
  "handle_init_payment L state description routes m g block_number =
     (case state of
        Some _ \<Rightarrow> Inr ((state, []), m, g)
      | None \<Rightarrow>
          res_bind (try_new_route L m routes description g block_number)
            (\<lambda>((new_state, events), m, g). Inr ((started_payment new_state, events), m, g)))"

definition handle_init_light ::
    "libs \<Rightarrow> InitiatorPaymentState option \<Rightarrow> TransferDescription \<Rightarrow> RouteState list
     \<Rightarrow> LockedTransferMessage \<Rightarrow> owner_channels \<Rightarrow> prng \<Rightarrow> payment_result" where
  "handle_init_light L state description routes signed_locked_transfer m g =
     (case state of
        Some _ \<Rightarrow> Inr ((state, []), m, g)
      | None \<Rightarrow>
          res_bind (try_new_route_light L m routes description signed_locked_transfer)
            (\<lambda>((new_state, events), m). Inr ((started_payment new_state, events), m, g)))"

text \<open>
  One round of the loop of \<open>handle_cancelpayment\<close>, on the state of the transfer under a key and the
  payment's cancelled channels.
\<close>

definition cancel_transfer ::
    "channelmap \<Rightarrow> InitiatorTransferState \<Rightarrow> int list \<times> event list
     \<Rightarrow> (InitiatorTransferState \<times> int list \<times> event list) result" where
  "cancel_transfer ids s = (\<lambda>(cancelled, events).
     case dict_get ids (it_channel_identifier s) of
       None \<Rightarrow> Inr (s, cancelled, events)
     | Some c \<Rightarrow>
         if can_cancel s
         then let description = it_transfer_description s in
              Inr (s\<lparr>it_transfer_state := transfer_cancelled\<rparr>,
                   cancelled @ [it_channel_identifier s],
                   events @ events_for_cancel_current_route description @
                     [EventPaymentSentFailed (payment_network_identifier c)
                        (ch_token_network_identifier c) (td_payment_identifier description)
                        (td_target description) UserCanceled])
         else Inr (s, cancelled, events))"

definition handle_cancelpayment :: "InitiatorPaymentState \<Rightarrow> channelmap
    \<Rightarrow> (InitiatorPaymentState \<times> event list) result" where
  "handle_cancelpayment p ids =
     res_bind (for_each (cancel_transfer ids) (map snd (initiator_transfers p))
                 (cancelled_channels p, [])) (\<lambda>(states, cancelled, events).
       Inr (\<lparr>cancelled_channels = cancelled,
             initiator_transfers = zip (map fst (initiator_transfers p)) states\<rparr>, events))"

definition handle_transferrefundcancelroute ::
    "libs \<Rightarrow> int \<Rightarrow> InitiatorPaymentState \<Rightarrow> ReceiveTransferRefundCancelRoute \<Rightarrow> channelmap
     \<Rightarrow> owner_channels \<Rightarrow> prng \<Rightarrow> int
     \<Rightarrow> ((InitiatorPaymentState \<times> event list) \<times> channelmap \<times> owner_channels \<times> prng) result" where
  "handle_transferrefundcancelroute L now p sc ids m g block_number =
     (let refund_transfer = rcr_transfer sc in
      case dict_get (initiator_transfers p) (lock_secrethash (lt_lock refund_transfer)) of
        None \<Rightarrow> Inr ((p, []), ids, m, g)
      | Some s \<Rightarrow>
          (case dict_get ids (it_channel_identifier s) of
             None \<Rightarrow> Inr ((p, []), ids, m, g)
           | Some c \<Rightarrow>
               let original_transfer = it_transfer s;
                   is_valid_lock =
                     (lock_secrethash (lt_lock refund_transfer) =
                        lock_secrethash (lt_lock original_transfer) \<and>
                      lock_amount (lt_lock refund_transfer) = lock_amount (lt_lock original_transfer) \<and>
                      lock_expiration (lt_lock refund_transfer) =
                        lock_expiration (lt_lock original_transfer));
                   is_valid_refund = refund_transfer_matches_transfer refund_transfer original_transfer
               in if \<not> is_valid_lock \<or> \<not> is_valid_refund then Inr ((p, []), ids, m, g)
                  else res_bind (handle_receive_refundtransfercancelroute L now c refund_transfer)
                    (\<lambda>(outcome, c', _).
                     let ids = dict_set (it_channel_identifier s) c' ids in
                     if out_msg outcome \<noteq> None then Inr ((p, []), ids, m, g)
                     else let description = (it_transfer_description s)
                                \<lparr>td_secret := Some (rcr_secret sc),
                                 td_secrethash := keccak L (rcr_secret sc)\<rparr>
                          in res_bind (maybe_try_new_route L p s description (rcr_routes sc) m g
                                         block_number) (\<lambda>((p, events), m, g).
                               Inr ((p, out_events outcome @
                                        [EventRouteFailed (lock_secrethash (lt_lock original_transfer))]
                                        @ events), ids, m, g)))))"

definition handle_lock_expired_payment ::
    "libs \<Rightarrow> InitiatorPaymentState \<Rightarrow> ReceiveLockExpired \<Rightarrow> channelmap \<Rightarrow> int
     \<Rightarrow> ((InitiatorPaymentState \<times> event list) \<times> channelmap) result" where
  "handle_lock_expired_payment L p sc ids block_number =
     (case dict_get (initiator_transfers p) (rle_secrethash sc) of
        None \<Rightarrow> Inr ((p, []), ids)
      | Some s \<Rightarrow>
          (case dict_get ids (it_channel_identifier s) of
             None \<Rightarrow> Inr ((p, []), ids)
           | Some c \<Rightarrow>
               let secrethash = lock_secrethash (lt_lock (it_transfer s)) in
               res_bind (handle_receive_lock_expired L c sc block_number) (\<lambda>(events, c').
                 Inr ((p, events @
                          (if get_lock (partner_state c') secrethash = None
                           then [EventUnlockClaimFailed (lt_payment_identifier (it_transfer s))
                                   secrethash LockExpiredText] else [])),
                      dict_set (it_channel_identifier s) c' ids))))"

text \<open>
  A secret goes to the transfer of its hash; where that unlocked the transfer, the others are
  cancelled.  The three handlers of secrets differ in the class of the state change only, and so do
  the three handlers of secret requests and of signed messages.
\<close>

definition secretreveal_with ::
    "libs \<Rightarrow> InitiatorPaymentState \<Rightarrow> bytes \<Rightarrow> state_change \<Rightarrow> owner_channels \<Rightarrow> prng
     \<Rightarrow> payment_result" where
  "secretreveal_with L p secrethash sc m g =
     (case dict_get (initiator_transfers p) secrethash of
        None \<Rightarrow> Inr ((Some p, []), m, g)
      | Some s \<Rightarrow>
          py_assert (it_transfer_state s \<noteq> transfer_cancelled)
            ''initiator_state.transfer_state != transfer_cancelled''
          (running_payment
            (res_bind (subdispatch_to_initiatortransfer L p secrethash s sc m g)
              (\<lambda>((p, events), m, g).
               Inr ((if transfer_exists p secrethash then p else cancel_other_transfers p, events),
                    m, g)))))"

definition secretrequest_to_transfer ::
    "libs \<Rightarrow> InitiatorPaymentState \<Rightarrow> bytes \<Rightarrow> state_change \<Rightarrow> owner_channels \<Rightarrow> prng
     \<Rightarrow> payment_result" where
  "secretrequest_to_transfer L p secrethash sc m g =
     (case dict_get (initiator_transfers p) secrethash of
        None \<Rightarrow> Inr ((Some p, []), m, g)
      | Some s \<Rightarrow>
          if it_transfer_state s = transfer_cancelled then Inr ((Some p, []), m, g)
          else running_payment (subdispatch_to_initiatortransfer L p secrethash s sc m g))"

section \<open>The state machine of a payment\<close>

definition dispatch_payment ::
    "libs \<Rightarrow> int \<Rightarrow> InitiatorPaymentState option \<Rightarrow> state_change \<Rightarrow> owner_channels \<Rightarrow> prng \<Rightarrow> int
     \<Rightarrow> payment_result" where
  "dispatch_payment L now state sc m g block_number =
     (let running = (\<lambda>msg handler. case state of
                       None \<Rightarrow> Inl (AssertionError msg) | Some p \<Rightarrow> handler p);
          ids = channels_by_identifier m
      in case sc of
           Block _ _ _ \<Rightarrow>
             running ''Block state changes should be accompanied by a valid payment state''
               (\<lambda>p. handle_block_payment L p sc m g)
         | ActionInitInitiator description routes \<Rightarrow>
             handle_init_payment L state description routes m g block_number
         | ActionInitInitiatorLight description routes signed_locked_transfer \<Rightarrow>
             handle_init_light L state description routes signed_locked_transfer m g
         | ReceiveSecretRequestChange request \<Rightarrow>
             running ''ReceiveSecretRequest should be accompanied by a valid payment state''
               (\<lambda>p. secretrequest_to_transfer L p (rsq_secrethash request) sc m g)
         | ReceiveSecretRequestLight request _ \<Rightarrow>
             running ''ReceiveSecretRequestLight should be accompanied by a valid payment state''
               (\<lambda>p. secretrequest_to_transfer L p (rsq_secrethash request) sc m g)
         | ActionSendSecretRevealLight reveal_secret _ _ \<Rightarrow>
             running ''ActionSendSecretRevealLight should be accompanied by a valid payment state''
               (\<lambda>p. secretrequest_to_transfer L p (keccak L (rsm_secret reveal_secret)) sc m g)
         | ReceiveTransferRefundCancelRouteChange refund \<Rightarrow>
             running ''ReceiveTransferRefundCancelRoute should be accompanied by a valid payment state''
               (\<lambda>p. res_bind (handle_transferrefundcancelroute L now p refund ids m g block_number)
                      (\<lambda>((p, events), _, m, g). Inr ((Some p, events), m, g)))
         | ActionCancelPayment _ \<Rightarrow>
             running ''ActionCancelPayment should be accompanied by a valid payment state''
               (\<lambda>p. res_bind (handle_cancelpayment p ids)
                      (\<lambda>(p, events). Inr ((Some p, events), m, g)))
         | ReceiveSecretRevealChange reveal \<Rightarrow>
             running ''ReceiveSecretReveal should be accompanied by a valid payment state''
               (\<lambda>p. secretreveal_with L p (rsr_secrethash reveal) sc m g)
         | ReceiveSecretRevealLight reveal _ \<Rightarrow>
             running ''ReceiveSecretRevealLight should be accompanied by a valid payment state''
               (\<lambda>p. secretreveal_with L p (rsr_secrethash reveal) sc m g)
         | ReceiveLockExpiredChange expired \<Rightarrow>
             running ''ReceiveLockExpired should be accompanied by a valid payment state''
               (\<lambda>p. res_bind (handle_lock_expired_payment L p expired ids block_number)
                      (\<lambda>((p, events), _). Inr ((Some p, events), m, g)))
         | ContractReceiveSecretRevealChange reveal \<Rightarrow>
             running ''ContractReceiveSecretReveal should be accompanied by a valid payment state''
               (\<lambda>p. secretreveal_with L p (csr_secrethash reveal) sc m g)
         | _ \<Rightarrow> Inr ((state, []), m, g))"

definition state_transition_payment ::
    "libs \<Rightarrow> int \<Rightarrow> InitiatorPaymentState option \<Rightarrow> state_change \<Rightarrow> owner_channels \<Rightarrow> prng \<Rightarrow> int
     \<Rightarrow> payment_result" where
  "state_transition_payment L now state sc m g block_number =
     res_bind (dispatch_payment L now state sc m g block_number)
       (\<lambda>((new_state, events), m, g). Inr ((clear_if_finalized_payment new_state, events), m, g))"

end
