(* ===== verification/InitiatorFacts.thy ===== *)
theory InitiatorFacts
  imports InitiatorManager ChannelTasks
begin

text \<open>
  What the steps of a payment do to the channels, which keep every law of the channels of their
  owner, and where the events of a payment come from.
\<close>

section \<open>The channels of several owners\<close>

text \<open>A law for the channels of every owner.\<close>

definition owners_all ::
    "(bytes \<Rightarrow> int \<Rightarrow> NettingChannelState \<Rightarrow> bool) \<Rightarrow> owner_channels \<Rightarrow> bool" where
  "owners_all Q m \<longleftrightarrow> (\<forall>a ms. dict_get m a = Some ms \<longrightarrow> channels_all (Q a) ms)"

definition channel_at :: "owner_channels \<Rightarrow> bytes \<Rightarrow> int \<Rightarrow> NettingChannelState option" where
  "channel_at m a k = Option.bind (dict_get m a) (\<lambda>ms. dict_get ms k)"

lemma owners_allD: "owners_all Q m \<Longrightarrow> channel_at m a k = Some c \<Longrightarrow> Q a k c"
  by (auto simp: owners_all_def channel_at_def channels_all_def bind_eq_Some_conv)

lemma channel_atI: "dict_get m a = Some ms \<Longrightarrow> dict_get ms k = Some c \<Longrightarrow> channel_at m a k = Some c"
  by (simp add: channel_at_def)

lemma channel_at_set:
  "channel_at m a k = Some c \<Longrightarrow>
   channel_at (set_channel a k c' m) b j = (if b = a \<and> j = k then Some c' else channel_at m b j)"
  by (auto simp: channel_at_def set_channel_def bind_eq_Some_conv update_conv')

lemma owners_all_iff: "owners_all Q m \<longleftrightarrow> (\<forall>a k c. channel_at m a k = Some c \<longrightarrow> Q a k c)"
  by (auto simp: owners_all_def channel_at_def channels_all_def bind_eq_Some_conv)

lemma owners_all_set:
  "owners_all Q m \<Longrightarrow> channel_at m a k = Some c \<Longrightarrow> Q a k c' \<Longrightarrow> owners_all Q (set_channel a k c' m)"
  by (auto simp: owners_all_iff channel_at_set)

section \<open>Routes\<close>

text \<open>A route whose channel can take the amount.\<close>

definition route_open :: "owner_channels \<Rightarrow> int \<Rightarrow> bytes \<Rightarrow> RouteState \<Rightarrow> bool" where
  "route_open m amount a r \<longleftrightarrow>
     (\<exists>c w. channel_at m a (route_channel_identifier r) = Some c \<and>
        get_status c = CHANNEL_STATE_OPENED \<and>
        get_number_of_pending_transfers (our_state c) = Inr w \<and> w < MAXIMUM_PENDING_TRANSFERS \<and>
        amount \<le> get_distributable (our_state c) (partner_state c) \<and>
        is_valid_amount (our_state c) amount)"

lemma next_channel_initiator_first:
  assumes "next_channel_from_routes_initiator routes m amount a = Inr found"
  shows "case found of
      None \<Rightarrow> \<forall>r \<in> set routes. \<not> route_open m amount a r
    | Some (k, c) \<Rightarrow> \<exists>before r after. routes = before @ r # after \<and> route_channel_identifier r = k \<and>
        channel_at m a k = Some c \<and> route_open m amount a r \<and>
        (\<forall>q \<in> set before. \<not> route_open m amount a q)"
  using assms
proof (induction routes)
  case (Cons r routes)
  show ?case
  proof (cases "next_channel_from_routes_initiator (r # routes) m amount a =
      next_channel_from_routes_initiator routes m amount a \<and> \<not> route_open m amount a r")
    case True
    with Cons have rest: "case found of
      None \<Rightarrow> \<forall>r \<in> set routes. \<not> route_open m amount a r
    | Some (k, c) \<Rightarrow> \<exists>before r after. routes = before @ r # after \<and> route_channel_identifier r = k \<and>
        channel_at m a k = Some c \<and> route_open m amount a r \<and>
        (\<forall>q \<in> set before. \<not> route_open m amount a q)" by metis
    have closed: "\<not> route_open m amount a r" using True ..
    show ?thesis
    proof (cases found)
      case None
      then show ?thesis using rest closed by simp
    next
      case (Some x)
      obtain k c where x: "x = (k, c)" by (cases x)
      from rest Some x obtain before r' after where *: "routes = before @ r' # after"
        "route_channel_identifier r' = k" "channel_at m a k = Some c" "route_open m amount a r'"
        "\<forall>q \<in> set before. \<not> route_open m amount a q" by auto
      then have "r # routes = (r # before) @ r' # after \<and> route_channel_identifier r' = k \<and>
          channel_at m a k = Some c \<and> route_open m amount a r' \<and>
          (\<forall>q \<in> set (r # before). \<not> route_open m amount a q)" using closed by simp
      then show ?thesis unfolding Some x option.case prod.case by blast
    qed
  next
    case False
    with Cons.prems obtain c where c: "channel_at m a (route_channel_identifier r) = Some c"
      "found = Some (route_channel_identifier r, c)" "route_open m amount a r"
      by (auto simp: route_open_def channel_at_def bind_eq_Some_conv res_bind_Inr
          split: option.splits if_splits)
    then show ?thesis by (auto intro!: exI [of _ "[]"])
  qed
qed simp

section \<open>What a step of a transfer does\<close>

text \<open>The events that tell the application how the payment ended.\<close>

fun is_outcome :: "event \<Rightarrow> bool" where
  "is_outcome (EventPaymentSentSuccess network token p amount target secret) = True"
| "is_outcome (EventPaymentSentFailed network token p target why) = True"
| "is_outcome _ = False"

definition same_transfer :: "InitiatorTransferState \<Rightarrow> InitiatorTransferState \<Rightarrow> bool" where
  "same_transfer s s' \<longleftrightarrow>
     it_transfer_description s' = it_transfer_description s \<and>
     it_channel_identifier s' = it_channel_identifier s \<and> it_transfer s' = it_transfer s"

lemma same_transfer_changes [simp]:
  "same_transfer s s"
  "same_transfer s (s\<lparr>it_transfer_state := x\<rparr>)"
  "same_transfer s (s\<lparr>it_revealsecret := r, it_received_secret_request := b\<rparr>)"
  "same_transfer s (s\<lparr>it_received_secret_request := b\<rparr>)"
  by (simp_all add: same_transfer_def)

text \<open>The state change shows that the partner or the chain knows the secret of the transfer in time.\<close>

definition reveals ::
    "InitiatorTransferState \<Rightarrow> NettingChannelState \<Rightarrow> state_change \<Rightarrow> bytes \<Rightarrow> bool" where
  "reveals s c sc secret \<longleftrightarrow>
     get_status c = CHANNEL_STATE_OPENED \<and>
     (case sc of
        ReceiveSecretRevealChange r \<Rightarrow> may_unlock s r c \<and> rsr_secret r = secret
      | ReceiveSecretRevealLight r _ \<Rightarrow> may_unlock s r c \<and> rsr_secret r = secret
      | ContractReceiveSecretRevealChange r \<Rightarrow>
          is_valid_secret_reveal (csr_secrethash r) (td_secrethash (it_transfer_description s)) secret \<and>
          csr_block_number r \<le> lock_expiration (lt_lock (it_transfer s)) \<and> csr_secret r = secret
      | _ \<Rightarrow> False)"

abbreviation transfer_hash :: "InitiatorTransferState \<Rightarrow> bytes" where
  "transfer_hash s \<equiv> td_secrethash (it_transfer_description s)"

text \<open>The unlock message is sent, or kept for the light client to sign.\<close>

definition hands_over :: "SendBalanceProofEvent \<Rightarrow> event list \<Rightarrow> bool" where
  "hands_over u evs \<longleftrightarrow>
     SendBalanceProof u \<in> set evs \<or>
     (\<exists>m p. StoreMessageEvent m p 11 (UnlockOf u) False \<in> set evs)"

definition reports_success :: "InitiatorTransferState \<Rightarrow> bytes \<Rightarrow> event list \<Rightarrow> bool" where
  "reports_success s secret evs \<longleftrightarrow>
     (let d = it_transfer_description s in
      \<exists>network token. filter is_outcome evs =
        [EventPaymentSentSuccess network token (td_payment_identifier d) (td_amount d)
           (td_target d) secret])"

definition reports_failure :: "InitiatorTransferState \<Rightarrow> event list \<Rightarrow> bool" where
  "reports_failure s evs \<longleftrightarrow>
     (\<exists>why. filter is_outcome evs = [payment_failed (it_transfer_description s) why])"

lemma expired_lock_no_outcome:
  "events_for_expired_lock L c l g = Inr (out, c', g') \<Longrightarrow> filter is_outcome out = []"
  by (auto simp: events_for_expired_lock_def res_simps split: option.splits)

lemma unlock_lock_cases:
  assumes "events_for_unlock_lock L s d secret h g = Inr (evs, c', g')"
  obtains u m where
    "send_unlock L d m (td_payment_identifier (it_transfer_description s)) secret h False = Inr (u, c')"
    "hands_over u evs" "reports_success s secret evs"
  using assms
  by (auto simp: events_for_unlock_lock_def message_identifier_from_prng_def res_bind_Inr
      events_for_unlock_base_def hands_over_def reports_success_def Let_def)

text \<open>A step of a transfer does one of four things to its channel.\<close>

lemma initiator_cases:
  assumes run: "state_transition_initiator L s sc c g = Inr ((new, evs), c', g')"
  obtains (same) "c' = c" "filter is_outcome evs = []"
    "\<And>s'. new = Some s' \<Longrightarrow> same_transfer s s' \<and> it_transfer_state s' = it_transfer_state s"
  | (onchain) secret b where "new = Some s" "evs = []"
    "register_onchain_secret c secret (transfer_hash s) b True = Inr c'"
  | (unlock) d m secret u where "new = None" "reveals s c sc secret"
    "d = c \<or> (\<exists>b. register_onchain_secret c secret (transfer_hash s) b True = Inr d)"
    "send_unlock L d m (td_payment_identifier (it_transfer_description s)) secret (transfer_hash s)
       False = Inr (u, c')"
    "hands_over u evs" "reports_success s secret evs"
  | (failed) l n hash lock where "sc = Block n l hash"
    "dict_get (secrethashes_to_lockedlocks (our_state c))
       (lock_secrethash (lt_lock (it_transfer s))) = Some lock"
    "is_lock_expired (our_state c) lock n (get_sender_expiration_threshold lock) = None"
    "it_transfer_state s \<noteq> transfer_expired" "reports_failure s evs"
    "\<And>s'. new = Some s' \<Longrightarrow> same_transfer s s' \<and> it_transfer_state s' = transfer_expired"
    "get_status c \<noteq> CHANNEL_STATE_OPENED \<and> c' = c \<or>
     get_status c = CHANNEL_STATE_OPENED \<and>
       (\<exists>out. events_for_expired_lock L c lock g = Inr (out, c', g'))"
proof (cases sc)
  case (Block n l hash)
  with run have step: "handle_block_initiator L s n c g = Inr ((new, evs), c', g')"
    by (simp add: state_transition_initiator_def)
  let ?h = "lock_secrethash (lt_lock (it_transfer s))"
  show thesis
  proof (cases "dict_get (secrethashes_to_lockedlocks (our_state c)) ?h")
    case None
    with step show thesis
      by (intro same) (auto simp: handle_block_initiator_def split: if_splits)
  next
    case (Some lock)
    show thesis
    proof (cases "is_lock_expired (our_state c) lock n (get_sender_expiration_threshold lock) = None \<and>
        it_transfer_state s \<noteq> transfer_expired")
      case False
      with step Some show thesis
        by (intro same) (auto simp: handle_block_initiator_def Let_def split: if_splits)
    next
      case True
      with step Some obtain out where out: "(if get_status c = CHANNEL_STATE_OPENED
          then events_for_expired_lock L c lock g else Inr ([], c, g)) = Inr (out, c', g')"
        "new = (if lock_exists_in_either_channel_side c' ?h
          then Some (s\<lparr>it_transfer_state := transfer_expired\<rparr>) else None)"
        "\<exists>why x y. evs = out @ [payment_failed (it_transfer_description s) why, EventRouteFailed x,
          EventUnlockFailed y (transfer_hash s) why]"
        by (auto simp: handle_block_initiator_def Let_def res_bind_Inr simp del: if_split_asm)
      have "filter is_outcome out = []"
        using out(1) expired_lock_no_outcome by (auto split: if_splits)
      with out(3) have "reports_failure s evs"
        by (auto simp: reports_failure_def payment_failed_def)
      moreover have "\<And>s'. new = Some s' \<Longrightarrow> same_transfer s s' \<and> it_transfer_state s' = transfer_expired"
        using out(2) by (auto split: if_splits)
      ultimately show thesis
        using failed [OF Block Some] True out(1) by (auto split: if_splits)
    qed
  qed
next
  case (ContractReceiveSecretRevealChange r)
  with run have step: "handle_onchain_secretreveal_initiator L s r c g = Inr ((new, evs), c', g')"
    by (simp add: state_transition_initiator_def)
  let ?ok = "is_valid_secret_reveal (csr_secrethash r) (transfer_hash s) (csr_secret r) \<and>
    \<not> csr_block_number r > lock_expiration (lt_lock (it_transfer s))"
  show thesis
  proof (cases ?ok)
    case False
    with step show thesis
      by (intro same) (auto simp: handle_onchain_secretreveal_initiator_def Let_def)
  next
    case True
    then have hash: "csr_secrethash r = transfer_hash s" by (simp add: is_valid_secret_reveal_def)
    from True step obtain d where
      d: "register_onchain_secret c (csr_secret r) (transfer_hash s) (csr_block_number r) True = Inr d"
      "(if get_status c = CHANNEL_STATE_OPENED
        then res_bind (events_for_unlock_lock L s d (csr_secret r) (csr_secrethash r) g)
               (\<lambda>(events, c', g'). Inr ((None, events), c', g'))
        else Inr ((Some s, []), d, g)) = Inr ((new, evs), c', g')"
      by (auto simp: handle_onchain_secretreveal_initiator_def Let_def res_bind_Inr)
    show thesis
    proof (cases "get_status c = CHANNEL_STATE_OPENED")
      case False
      with d show thesis by (intro onchain) auto
    next
      case opened: True
      with d(2) have new: "new = None" and
        "events_for_unlock_lock L s d (csr_secret r) (csr_secrethash r) g = Inr (evs, c', g')"
        by (auto simp: res_bind_Inr)
      from this(2) show thesis
        by (rule unlock_lock_cases)
          (rule unlock [OF new], use True opened hash d(1) ContractReceiveSecretRevealChange in
            \<open>auto simp: reveals_def\<close>)
    qed
  qed
next
  case (ReceiveSecretRevealChange r)
  show thesis
  proof (cases "may_unlock s r c")
    case False
    with run ReceiveSecretRevealChange show thesis
      by (intro same) (auto simp: state_transition_initiator_def
          handle_offchain_secretreveal_initiator_def)
  next
    case True
    with run ReceiveSecretRevealChange have new: "new = None" and
      "events_for_unlock_lock L s c (rsr_secret r) (rsr_secrethash r) g = Inr (evs, c', g')"
      by (auto simp: state_transition_initiator_def handle_offchain_secretreveal_initiator_def
          res_bind_Inr)
    from this(2) show thesis
      by (rule unlock_lock_cases)
        (rule unlock [OF new _ disjI1 [OF refl]], use True ReceiveSecretRevealChange in
          \<open>auto simp: reveals_def may_unlock_def is_valid_secret_reveal_def\<close>)
  qed
next
  case (ReceiveSecretRevealLight r message)
  show thesis
  proof (cases "may_unlock s r c")
    case False
    with run ReceiveSecretRevealLight show thesis
      by (intro same) (auto simp: state_transition_initiator_def
          handle_offchain_secretreveal_light_initiator_def)
  next
    case True
    with run ReceiveSecretRevealLight obtain m u where new: "new = None" and
      u: "send_unlock L c m (td_payment_identifier (it_transfer_description s)) (rsr_secret r)
        (rsr_secrethash r) False = Inr (u, c')" and
      evs: "evs = [StoreMessageEvent (rsm_message_identifier message)
          (td_payment_identifier (it_transfer_description s)) 9 (StoredRevealSecret message) True,
        StoreMessageEvent m (td_payment_identifier (it_transfer_description s)) 11 (UnlockOf u) False]
        @ events_for_unlock_base s c (rsr_secret r)"
      by (auto simp: state_transition_initiator_def handle_offchain_secretreveal_light_initiator_def
          message_identifier_from_prng_def Let_def res_bind_Inr)
    from evs have "hands_over u evs" "reports_success s (rsr_secret r) evs"
      by (auto simp: hands_over_def reports_success_def events_for_unlock_base_def Let_def)
    note sent = this
    show thesis
      by (rule unlock [OF new _ disjI1 [OF refl]])
        (use True u sent ReceiveSecretRevealLight in
          \<open>auto simp: reveals_def may_unlock_def is_valid_secret_reveal_def\<close>)
  qed
qed (use run same in \<open>auto simp: state_transition_initiator_def handle_secretrequest_def
      handle_secretrequest_light_def secretrequest_with_def handle_send_secret_reveal_light_initiator_def
      message_identifier_from_prng_def Let_def res_bind_Inr split: option.splits if_splits\<close>)

section \<open>What a step leaves of the locks\<close>

lemma lockedlock_hash:
  assumes "channel_ok L c" "dict_get (secrethashes_to_lockedlocks (our_state c)) h = Some l"
  shows "lock_secrethash l = h" "get_lock (our_state c) h = Some l"
proof -
  show "get_lock (our_state c) h = Some l" using assms(2) by (simp add: get_lock_def)
  then show "lock_secrethash l = h"
    using get_lock_SomeD(1) end_okD(1) [OF channel_okD(1) [OF assms(1)]] by blast
qed

lemma unlock_get_lock:
  assumes "maps_ok (our_state c)" "send_unlock L c m p secret h lc = Inr (u, c')"
  shows "get_lock (our_state c') h = None"
    and "k \<noteq> h \<Longrightarrow> get_lock (our_state c') k = get_lock (our_state c) k"
proof -
  from assms(2) obtain lock tree e where l: "get_lock (our_state c) h = Some lock"
    "del_lock (lock_secrethash lock) (set_proof (Unsigned (sbp_balance_proof u)) tree (our_state c))
       = Inr e" "c' = c\<lparr>our_state := e\<rparr>"
    by (auto simp: send_unlock_def res_simps split: option.splits)
  have "lock_secrethash lock = h" using get_lock_SomeD(1) [OF assms(1) l(1)] .
  with get_lock_deleted [OF l(2)] l(3) show "get_lock (our_state c') h = None"
    "k \<noteq> h \<Longrightarrow> get_lock (our_state c') k = get_lock (our_state c) k" by simp_all
qed

lemma our_get_lock_onchain:
  assumes "channel_ok L c" "register_onchain_secret c secret h n True = Inr c'"
  shows "get_lock (our_state c') k = get_lock (our_state c) k" "maps_ok (our_state c')"
    and "get_status c' = get_status c"
    and "current_transferred_amount (our_state c') = current_transferred_amount (our_state c)"
proof -
  have m: "maps_ok (our_state c)" using end_okD(1) [OF channel_okD(1) [OF assms(1)]] .
  from assms(2) obtain our partner where
    ends: "register_onchain_secret_endstate secret h n True (our_state c) = Inr our"
      "c' = c\<lparr>our_state := our, partner_state := partner\<rparr>"
    by (auto simp: register_onchain_secret_def res_simps)
  from get_lock_refiled [OF m register_onchain_refiled [OF m ends(1)]] ends(2)
  show "get_lock (our_state c') k = get_lock (our_state c) k" by simp
  show "maps_ok (our_state c')"
    using register_onchain_refiled [OF m ends(1)] m ends(2) by (simp add: refiled_def)
  show "get_status c' = get_status c"
    using ends(2) by (simp add: get_status_def cong: option.case_cong)
  show "current_transferred_amount (our_state c') = current_transferred_amount (our_state c)"
    using register_onchain_refiled [OF m ends(1)] ends(2)
    by (simp add: refiled_def current_transferred_amount_def)
qed

text \<open>The unlock adds the lock's amount to what the partner has for good.\<close>

lemma unlock_pays:
  assumes "get_lock (our_state c) h = Some l" "send_unlock L c m p secret h lc = Inr (u, c')"
  shows "current_transferred_amount (our_state c') =
    current_transferred_amount (our_state c) + lock_amount l"
proof -
  from assms obtain tree e where u: "create_unlock L c m p secret l lc = Inr (u, tree)"
    "del_lock (lock_secrethash l) (set_proof (Unsigned (sbp_balance_proof u)) tree (our_state c))
       = Inr e" "c' = c\<lparr>our_state := e\<rparr>"
    by (auto simp: send_unlock_def res_simps)
  from u(2) have "es_balance_proof e = Some (Unsigned (sbp_balance_proof u))"
    by (auto simp: del_lock_def Let_def res_simps del_unclaimed_lock_def set_proof_def)
  moreover from u(1) have "bp_transferred_amount (sbp_balance_proof u) =
      current_transferred_amount (our_state c) + lock_amount l"
    by (rule create_unlockD) simp
  ultimately show ?thesis using u(3) by (simp add: current_transferred_amount_def)
qed

text \<open>The tree has every lock, so an expired lock is always taken out of it.\<close>

lemma sendexpiredlock_known:
  assumes "compute_merkletree_without L (es_merkletree e) (lock_lockhash l) = Inr (Some tree)"
  shows "create_sendexpiredlock L e l g ci tn ch r \<noteq> Inr (None, g')"
proof (cases "es_balance_proof e")
  case (Some bp)
  show ?thesis
    unfolding create_sendexpiredlock_def Some assms
    by (auto simp: res_bind_Inr Let_def split: prod.splits)
qed (simp add: create_sendexpiredlock_def)

lemma expired_lock_get_lock:
  assumes c: "channel_ok L c" and l: "get_lock (our_state c) (lock_secrethash l) = Some l"
    and run: "events_for_expired_lock L c l g = Inr (evs, c', g')"
    and onchain: "\<not> dict_has (secrethashes_to_onchain_unlockedlocks (our_state c)) (lock_secrethash l)"
  shows "get_lock (our_state c') (lock_secrethash l) = None"
    and "k \<noteq> lock_secrethash l \<Longrightarrow> get_lock (our_state c') k = get_lock (our_state c) k"
proof -
  let ?e = "our_state c"
  have e: "end_ok L ?e" using channel_okD(1) [OF c] .
  have "l \<in># locks_mset ?e" using get_lock_SomeD(2) [OF end_okD(1) [OF e] l] .
  then have "lock_lockhash l \<in># image_mset lock_lockhash (locks_mset ?e)" by auto
  then have "lock_lockhash l \<in> set (leaf_list (es_merkletree ?e))"
    using end_okD(6) [OF e] by (metis set_mset_mset)
  then obtain tree where tree:
    "compute_merkletree_without L (es_merkletree ?e) (lock_lockhash l) = Inr (Some tree)"
    using without_known [OF end_okD(5) [OF e]] by blast
  from run obtain sent g2 where sent: "create_sendexpiredlock L ?e l g (ch_chain_id c)
      (ch_token_network_identifier c) (ch_identifier c) (es_address (partner_state c)) = Inr (sent, g2)"
    "case sent of None \<Rightarrow> c' = c
     | Some (ev, t) \<Rightarrow> c' = c\<lparr>our_state := del_unclaimed_lock (lock_secrethash l)
         (set_proof (Unsigned (sle_balance_proof ev)) t ?e)\<rparr>"
    by (auto simp: events_for_expired_lock_def res_simps split: option.splits)
  have "sent \<noteq> None" using sent(1) sendexpiredlock_known [OF tree] by metis
  with sent(2) obtain bp t where "c' = c\<lparr>our_state := del_unclaimed_lock (lock_secrethash l)
      (set_proof (Unsigned bp) t ?e)\<rparr>" by auto
  then have e': "our_state c' = del_unclaimed_lock (lock_secrethash l) (set_proof (Unsigned bp) t ?e)"
    by simp
  show "get_lock (our_state c') (lock_secrethash l) = None"
    unfolding e' by (rule get_lock_del_unclaimed(1) [OF onchain])
  show "k \<noteq> lock_secrethash l \<Longrightarrow> get_lock (our_state c') k = get_lock (our_state c) k"
    unfolding e' by (rule get_lock_del_unclaimed(2))
qed

text \<open>
  The lock of a running transfer is on our side of its channel; the lock of a transfer whose
  failure was reported is gone, or the channel is not open any more.
\<close>

definition transfer_lock_ok :: "InitiatorTransferState \<Rightarrow> NettingChannelState \<Rightarrow> bool" where
  "transfer_lock_ok s c \<longleftrightarrow>
     (if it_transfer_state s = transfer_expired
      then get_status c \<noteq> CHANNEL_STATE_OPENED \<or> get_lock (our_state c) (transfer_hash s) = None
      else get_lock (our_state c) (transfer_hash s) = Some (lt_lock (it_transfer s)))"

lemma initiator_locks:
  assumes c: "channel_ok L c" and h: "lock_secrethash (lt_lock (it_transfer s)) = transfer_hash s"
    and run: "state_transition_initiator L s sc c g = Inr ((new, evs), c', g')"
  shows "(transfer_lock_ok s c \<longrightarrow> (\<forall>s'. new = Some s' \<longrightarrow> same_transfer s s' \<and> transfer_lock_ok s' c')) \<and>
    (\<forall>k. k \<noteq> transfer_hash s \<longrightarrow> get_lock (our_state c') k = get_lock (our_state c) k)"
  using run
proof (cases rule: initiator_cases)
  case same
  show ?thesis
  proof (cases new)
    case (Some s')
    with same(1) same(3) [OF Some] show ?thesis by (simp add: same_transfer_def transfer_lock_ok_def)
  qed (simp add: same(1))
next
  case onchain
  then show ?thesis
    using our_get_lock_onchain [OF c onchain(3)] by (simp add: transfer_lock_ok_def)
next
  case (unlock d m secret u)
  have "maps_ok (our_state d) \<and> (\<forall>k. get_lock (our_state d) k = get_lock (our_state c) k)"
    using unlock(3) our_get_lock_onchain [OF c] end_okD(1) [OF channel_okD(1) [OF c]] by blast
  then show ?thesis using unlock(1) unlock_get_lock [OF _ unlock(4)] by simp
next
  case (failed l n hash lock)
  note lock = lockedlock_hash [OF c failed(2)]
  have "\<not> dict_has (secrethashes_to_onchain_unlockedlocks (our_state c)) (lock_secrethash lock)"
    using failed(3) lock(1) by (auto simp: is_lock_expired_def split: if_splits)
  with failed(7) lock h have "get_status c' \<noteq> CHANNEL_STATE_OPENED \<and> c' = c \<or>
      get_lock (our_state c') (transfer_hash s) = None \<and>
      (\<forall>k. k \<noteq> transfer_hash s \<longrightarrow> get_lock (our_state c') k = get_lock (our_state c) k)"
    using expired_lock_get_lock [OF c, of lock] by auto
  note locks = this
  show ?thesis
  proof (cases new)
    case (Some s')
    with locks failed(6) [OF Some] show ?thesis by (auto simp: transfer_lock_ok_def same_transfer_def)
  qed (use locks in auto)
qed

text \<open>A transfer that has failed reports nothing more, and a transfer reports once.\<close>

lemma initiator_outcome:
  assumes c: "channel_ok L c" and s: "transfer_lock_ok s c"
    and h: "lock_secrethash (lt_lock (it_transfer s)) = transfer_hash s"
    and run: "state_transition_initiator L s sc c g = Inr ((new, evs), c', g')"
  obtains (nothing_yet) "filter is_outcome evs = []"
    "\<And>s'. new = Some s' \<Longrightarrow> it_transfer_state s' = it_transfer_state s"
  | (paid) secret where "reports_success s secret evs" "new = None" "reveals s c sc secret"
    "it_transfer_state s \<noteq> transfer_expired"
  | (lost) "reports_failure s evs" "it_transfer_state s \<noteq> transfer_expired"
    "\<And>s'. new = Some s' \<Longrightarrow> it_transfer_state s' = transfer_expired"
  using run
proof (cases rule: initiator_cases)
  case (unlock d m secret u)
  have "get_lock (our_state d) (transfer_hash s) = get_lock (our_state c) (transfer_hash s)"
    using unlock(3) our_get_lock_onchain [OF c] by blast
  moreover have "get_lock (our_state d) (transfer_hash s) \<noteq> None"
    using unlock(4) by (auto simp: send_unlock_def split: option.splits)
  ultimately have "it_transfer_state s \<noteq> transfer_expired"
    using s unlock(2) by (auto simp: transfer_lock_ok_def reveals_def split: if_splits)
  then show thesis using paid unlock by blast
qed (use nothing_yet lost in auto)

section \<open>Revealing the secret\<close>

fun is_secret_reveal :: "event \<Rightarrow> bool" where
  "is_secret_reveal (SendSecretReveal r) = True"
| "is_secret_reveal _ = False"

lemma expired_lock_no_secret:
  "events_for_expired_lock L c l g = Inr (out, c', g') \<Longrightarrow> \<not> list_ex is_secret_reveal out"
  by (auto simp: events_for_expired_lock_def res_simps split: option.splits)

lemma unlock_lock_no_secret:
  "events_for_unlock_lock L s d secret h g = Inr (evs, c', g') \<Longrightarrow> \<not> list_ex is_secret_reveal evs"
  by (auto simp: events_for_unlock_lock_def message_identifier_from_prng_def res_bind_Inr
      events_for_unlock_base_def Let_def)

text \<open>Only the answer to a secret request reveals the secret.\<close>

lemma initiator_reveals:
  assumes run: "state_transition_initiator L s sc c g = Inr ((new, evs), c', g')"
    and r: "list_ex is_secret_reveal evs"
  obtains request lock secret m where "sc = ReceiveSecretRequestChange request"
    "get_lock (our_state c) (transfer_hash s) = Some lock"
    "is_message_from_target s request" "is_valid_secretrequest s lock request"
    "\<not> it_received_secret_request s" "td_secret (it_transfer_description s) = Some secret"
    "evs = [SendSecretReveal (mk_SendSecretReveal L (td_target (it_transfer_description s))
              CHANNEL_IDENTIFIER_GLOBAL_QUEUE m secret)]"
    "case new of None \<Rightarrow> False | Some s' \<Rightarrow> it_received_secret_request s'"
proof (cases sc)
  case (ReceiveSecretRequestChange request)
  with run r that show thesis
    by (auto simp: state_transition_initiator_def handle_secretrequest_def secretrequest_with_def
        message_identifier_from_prng_def Let_def res_bind_Inr split: option.splits if_splits)
next
  case (Block n l hash)
  with run r show thesis
    by (auto simp: state_transition_initiator_def handle_block_initiator_def Let_def res_bind_Inr
        payment_failed_def dest: expired_lock_no_secret split: option.splits if_splits)
qed (use run r unlock_lock_no_secret in \<open>auto simp: state_transition_initiator_def
      handle_secretrequest_light_def secretrequest_with_def handle_send_secret_reveal_light_initiator_def
      handle_offchain_secretreveal_initiator_def handle_offchain_secretreveal_light_initiator_def
      handle_onchain_secretreveal_initiator_def events_for_unlock_base_def
      message_identifier_from_prng_def Let_def res_bind_Inr split: option.splits if_splits\<close>)

section \<open>The channels keep their laws\<close>

context channel_law
begin

lemmas register_law = onchain
lemmas unlock_law = unlock

lemma initiator_law:
  assumes c: "P k c" and run: "state_transition_initiator L s sc c g = Inr ((new, evs), c', g')"
  shows "P k c'"
  using run
proof (cases rule: initiator_cases)
  case same
  then show ?thesis using c by simp
next
  case (onchain secret b)
  show ?thesis by (rule register_law [OF c onchain(3)])
next
  case (unlock d m secret u)
  then have "P k d" using register_law [OF c] c by blast
  then show ?thesis by (rule unlock_law) (rule unlock(4))
next
  case (failed l n hash lock)
  then show ?thesis
    using expired [OF c] lockedlock_hash [OF sound [OF c] failed(2)] c by metis
qed

end

end
