(* ===== verification/PaymentFacts.thy ===== *)
theory PaymentFacts
  imports InitiatorManager InitiatorFacts
begin

text \<open>
  What a payment does to the channels of its initiator and to its transfer: the routes it takes, the
  transfers it hands a state change to, the laws of the channels and the one transfer that a payment
  has.  The locale \<open>owner_law\<close> lifts the contract \<open>channel_law\<close> to the channels of several owners.
\<close>

section \<open>Taking a route\<close>

lemma next_channel_cases:
  assumes "next_channel_from_routes_initiator routes m amount a = Inr found"
  obtains (none) "found = None" "\<And>r. r \<in> set routes \<Longrightarrow> \<not> route_open m amount a r"
  | (first) before r after c where "routes = before @ r # after"
      "found = Some (route_channel_identifier r, c)"
      "channel_at m a (route_channel_identifier r) = Some c" "route_open m amount a r"
      "\<And>q. q \<in> set before \<Longrightarrow> \<not> route_open m amount a q"
proof (cases found)
  case None
  with next_channel_initiator_first [OF assms] none show thesis by simp
next
  case (Some x)
  obtain k c where x: "x = (k, c)" by (cases x)
  from next_channel_initiator_first [OF assms] Some x obtain before r after where
    "routes = before @ r # after" "route_channel_identifier r = k" "channel_at m a k = Some c"
    "route_open m amount a r" "\<forall>q \<in> set before. \<not> route_open m amount a q" by auto
  with Some x show thesis by (intro first [of before r after c]) auto
qed

lemma try_new_route_cases:
  assumes run: "try_new_route L m routes d g n = Inr ((new, evs), m', g')"
  obtains (none) "new = None" "evs = [no_route_failed routes d]" "m' = m"
      "\<And>r. r \<in> set routes \<Longrightarrow> \<not> route_open m (td_amount d) (td_initiator d) r"
  | (sent) before r after c c' i event where "routes = before @ r # after"
      "channel_at m (td_initiator d) (route_channel_identifier r) = Some c"
      "route_open m (td_amount d) (td_initiator d) r"
      "\<And>q. q \<in> set before \<Longrightarrow> \<not> route_open m (td_amount d) (td_initiator d) q"
      "send_lockedtransfer L c (td_initiator d) (td_target d) (td_amount d + td_allocated_fee d) i
         (td_payment_identifier d) (td_payment_hash_invoice d) (n + reveal_timeout c * 2)
         (td_secrethash d) = Inr (event, c')"
      "new = Some (mk_InitiatorTransferState d (ch_identifier c') (ste_transfer event) None False)"
      "evs = [SendLockedTransfer event]"
      "m' = set_channel (td_initiator d) (route_channel_identifier r) c' m"
proof -
  from run obtain found where
    f: "next_channel_from_routes_initiator routes m (td_amount d) (td_initiator d) = Inr found"
    by (auto simp: try_new_route_def res_bind_Inr)
  from f show thesis
  proof (cases rule: next_channel_cases)
    case none
    then show thesis using run f that(1) by (auto simp: try_new_route_def)
  next
    case (first before r after c)
    with run f obtain i event c' where
      "send_lockedtransfer_initiator L d c i n = Inr (event, c')"
      "new = Some (mk_InitiatorTransferState d (ch_identifier c') (ste_transfer event) None False)"
      "evs = [SendLockedTransfer event]"
      "m' = set_channel (td_initiator d) (route_channel_identifier r) c' m"
      by (auto simp: try_new_route_def message_identifier_from_prng_def res_bind_Inr)
    with first show thesis
      by (intro sent [of before r after c i event c'])
        (auto simp: send_lockedtransfer_initiator_def Let_def py_assert_Inr
          get_initial_lock_expiration_def)
  qed
qed

text \<open>A light client's transfer is recorded as \<open>send_lockedtransfer\<close> records one.\<close>

lemma try_new_route_light_cases:
  assumes run: "try_new_route_light L m routes d msg = Inr ((new, evs), m')"
  obtains (none) "new = None" "evs = [no_route_failed routes d]" "m' = m"
  | (sent) k c c' event where "channel_at m (td_initiator d) k = Some c"
      "send_lockedtransfer L c (ltm_initiator msg) (ltm_target msg) (em_locked_amount msg)
         (em_message_identifier msg) (ltm_payment_identifier msg) (ltm_payment_hash_invoice msg)
         (ltm_lock_expiration msg) (ltm_lock_secrethash msg) = Inr (event, c')"
      "m' = set_channel (td_initiator d) k c' m"
      "new = None \<and> (\<exists>why. filter is_outcome evs = [payment_failed d why])
       \<or> new = Some (mk_InitiatorTransferState d (ch_identifier c') (ste_transfer event) None False) \<and>
         filter is_outcome evs = []"
proof -
  from run obtain found where
    f: "next_channel_from_routes_initiator routes m (td_amount d) (td_initiator d) = Inr found"
    by (auto simp: try_new_route_light_def res_bind_Inr)
  from f show thesis
  proof (cases rule: next_channel_cases)
    case none
    then show thesis using run f that(1) by (auto simp: try_new_route_light_def)
  next
    case (first before r after c)
    with run f obtain event tree root where
      e: "create_sendlockedtransfer L c (ltm_initiator msg) (ltm_target msg) (em_locked_amount msg)
         (em_message_identifier msg) (ltm_payment_identifier msg) (ltm_payment_hash_invoice msg)
         (ltm_lock_expiration msg) (ltm_lock_secrethash msg) = Inr (event, tree)" and
      root: "merkleroot tree = Inr root"
      by (auto simp: try_new_route_light_def res_bind_Inr Let_def)
    show thesis
      by (rule sent [OF first(3), of _ "upd_our (record_lock (Unsigned (lt_balance_proof
            (ste_transfer event))) tree (lt_lock (ste_transfer event))) c"])
        (use run f first(2) e root in \<open>auto simp: try_new_route_light_def send_lockedtransfer_def
           payment_failed_def Let_def split: if_splits\<close>)
  qed
qed

lemma sent_transfer:
  assumes "send_lockedtransfer L c i t amount m p ph x h = Inr (event, c')"
  shows "lock_secrethash (lt_lock (ste_transfer event)) = h"
    and "get_lock (our_state c') h = Some (lt_lock (ste_transfer event))"
    and "get_status c' = get_status c" "ch_identifier c' = ch_identifier c"
    and "ste_recipient event = es_address (partner_state c)"
    and "lock_amount (lt_lock (ste_transfer event)) = amount"
    and "lock_expiration (lt_lock (ste_transfer event)) = x"
proof -
  from assms obtain tree where
    e: "create_sendlockedtransfer L c i t amount m p ph x h = Inr (event, tree)"
    "c' = upd_our (record_lock (Unsigned (lt_balance_proof (ste_transfer event))) tree
            (lt_lock (ste_transfer event))) c"
    by (auto simp: send_lockedtransfer_def res_bind_Inr Let_def)
  from e(1) show h: "lock_secrethash (lt_lock (ste_transfer event)) = h"
    "ste_recipient event = es_address (partner_state c)"
    "lock_amount (lt_lock (ste_transfer event)) = amount"
    "lock_expiration (lt_lock (ste_transfer event)) = x"
    by (auto simp: create_sendlockedtransfer_def Let_def res_simps mk_HashTimeLockState_def
        mk_LockedTransferUnsignedState_def split: option.splits if_splits)
  show "get_lock (our_state c') h = Some (lt_lock (ste_transfer event))"
    using e(2) h(1) by auto
  show "get_status c' = get_status c" "ch_identifier c' = ch_identifier c"
    using e(2) by (simp_all add: get_status_def cong: option.case_cong)
qed

section \<open>Handing a state change to the transfers\<close>

abbreviation transfer_owner :: "InitiatorTransferState \<Rightarrow> bytes" where
  "transfer_owner s \<equiv> td_initiator (it_transfer_description s)"

lemma subdispatch_cases:
  assumes run: "subdispatch_to_initiatortransfer L p key s sc m g = Inr ((p', evs), m', g')"
  obtains (absent) "channel_at m (transfer_owner s) (it_channel_identifier s) = None"
      "p' = p" "evs = []" "m' = m"
  | (step) c c' new where
      "channel_at m (transfer_owner s) (it_channel_identifier s) = Some c"
      "state_transition_initiator L s sc c g = Inr ((new, evs), c', g')"
      "m' = set_channel (transfer_owner s) (it_channel_identifier s) c' m"
      "p' = p\<lparr>initiator_transfers := (case new of
         Some s' \<Rightarrow> dict_set key s' (initiator_transfers p)
       | None \<Rightarrow> dict_del (lock_secrethash (lt_lock (it_transfer s))) (initiator_transfers p))\<rparr>"
proof -
  from run obtain ms where ms: "dict_get m (transfer_owner s) = Some ms"
    by (auto simp: subdispatch_to_initiatortransfer_def Let_def split: option.splits)
  show thesis
  proof (cases "dict_get ms (it_channel_identifier s)")
    case None
    with run ms have "p' = p" "evs = []" "m' = m"
      by (simp_all add: subdispatch_to_initiatortransfer_def)
    moreover have "channel_at m (transfer_owner s) (it_channel_identifier s) = None"
      using ms None by (simp add: channel_at_def)
    ultimately show thesis using absent by simp
  next
    case (Some c)
    note run' = run [unfolded subdispatch_to_initiatortransfer_def Let_def ms option.case Some]
    then obtain new es c' g2 where tr: "state_transition_initiator L s sc c g = Inr ((new, es), c', g2)"
      by (auto simp: res_bind_Inr)
    have "evs = es" "g' = g2" "m' = set_channel (transfer_owner s) (it_channel_identifier s) c' m"
      "p' = p\<lparr>initiator_transfers := (case new of
         Some s' \<Rightarrow> dict_set key s' (initiator_transfers p)
       | None \<Rightarrow> dict_del (lock_secrethash (lt_lock (it_transfer s))) (initiator_transfers p))\<rparr>"
      using run' unfolding tr by (cases new; simp split: if_splits)+
    with tr have "state_transition_initiator L s sc c g = Inr ((new, evs), c', g')" by simp
    then show thesis
      by (rule step [OF channel_atI [OF ms Some]]) fact+
  qed
qed

text \<open>No channel is found by its identifier alone, so these handlers leave everything.\<close>

lemma cancel_nothing: "for_each (cancel_transfer []) xs (ks, evs) = Inr (xs, ks, evs)"
  by (induction xs) (simp_all add: cancel_transfer_def)

lemma handle_cancelpayment_ignored: "handle_cancelpayment p [] = Inr (p, [])"
  by (simp add: handle_cancelpayment_def cancel_nothing zip_map_fst_snd)

lemma handle_refund_ignored:
  "handle_transferrefundcancelroute L now p sc [] m g n = Inr ((p, []), [], m, g)"
  by (simp add: handle_transferrefundcancelroute_def Let_def split: option.split)

lemma handle_lock_expired_ignored: "handle_lock_expired_payment L p sc [] n = Inr ((p, []), [])"
  by (simp add: handle_lock_expired_payment_def split: option.split)

lemmas ignored_handlers = handle_cancelpayment_ignored handle_refund_ignored
  handle_lock_expired_ignored channels_by_identifier_def

lemma secretreveal_cases:
  assumes "secretreveal_with L p h sc m g = Inr ((new, evs), m', g')"
  obtains (idle) "new = Some p" "evs = []" "m' = m"
  | (one) s p' where "dict_get (initiator_transfers p) h = Some s"
      "subdispatch_to_initiatortransfer L p h s sc m g = Inr ((p', evs), m', g')"
      "new = Some (if transfer_exists p' h then p' else cancel_other_transfers p')"
  using assms
  by (auto simp: secretreveal_with_def running_payment_def py_assert_Inr res_bind_Inr
      split: option.splits)

lemma secretrequest_to_transfer_cases:
  assumes "secretrequest_to_transfer L p h sc m g = Inr ((new, evs), m', g')"
  obtains (idle) "new = Some p" "evs = []" "m' = m"
  | (one) s p' where "dict_get (initiator_transfers p) h = Some s"
      "it_transfer_state s \<noteq> transfer_cancelled"
      "subdispatch_to_initiatortransfer L p h s sc m g = Inr ((p', evs), m', g')" "new = Some p'"
  using assms
  by (auto simp: secretrequest_to_transfer_def running_payment_def res_bind_Inr
      split: option.splits if_splits)

lemma dispatch_payment_running:
  assumes run: "dispatch_payment L now (Some p) sc m g n = Inr ((new, evs), m', g')"
  obtains (idle) "new = Some p" "evs = []" "m' = m"
  | (block) p' where "new = Some p'"
      "subdispatch_to_keys L (map fst (initiator_transfers p)) p sc m g = Inr ((p', evs), m', g')"
  | (one) key s p' where "dict_get (initiator_transfers p) key = Some s"
      "subdispatch_to_initiatortransfer L p key s sc m g = Inr ((p', evs), m', g')"
      "new = Some p' \<or> \<not> transfer_exists p' key \<and> new = Some (cancel_other_transfers p')"
proof (cases sc)
  case (Block b l h)
  with run obtain p' where "new = Some p'"
    "subdispatch_to_keys L (map fst (initiator_transfers p)) p sc m g = Inr ((p', evs), m', g')"
    by (auto simp: dispatch_payment_def handle_block_payment_def running_payment_def
        subdispatch_to_all_initiatortransfer_def res_bind_Inr)
  then show thesis by (rule block)
next
  case (ReceiveSecretRequestChange r)
  with run have "secretrequest_to_transfer L p (rsq_secrethash r) sc m g = Inr ((new, evs), m', g')"
    by (simp add: dispatch_payment_def)
  then show thesis by (cases rule: secretrequest_to_transfer_cases) (use idle one in blast)+
next
  case (ReceiveSecretRequestLight r message)
  with run have "secretrequest_to_transfer L p (rsq_secrethash r) sc m g = Inr ((new, evs), m', g')"
    by (simp add: dispatch_payment_def)
  then show thesis by (cases rule: secretrequest_to_transfer_cases) (use idle one in blast)+
next
  case (ActionSendSecretRevealLight reveal sender receiver)
  with run have "secretrequest_to_transfer L p (keccak L (rsm_secret reveal)) sc m g
      = Inr ((new, evs), m', g')"
    by (simp add: dispatch_payment_def)
  then show thesis by (cases rule: secretrequest_to_transfer_cases) (use idle one in blast)+
next
  case (ReceiveSecretRevealChange r)
  with run have "secretreveal_with L p (rsr_secrethash r) sc m g = Inr ((new, evs), m', g')"
    by (simp add: dispatch_payment_def)
  then show thesis by (cases rule: secretreveal_cases) (use idle one in \<open>auto split: if_splits\<close>)
next
  case (ReceiveSecretRevealLight r message)
  with run have "secretreveal_with L p (rsr_secrethash r) sc m g = Inr ((new, evs), m', g')"
    by (simp add: dispatch_payment_def)
  then show thesis by (cases rule: secretreveal_cases) (use idle one in \<open>auto split: if_splits\<close>)
next
  case (ContractReceiveSecretRevealChange r)
  with run have "secretreveal_with L p (csr_secrethash r) sc m g = Inr ((new, evs), m', g')"
    by (simp add: dispatch_payment_def)
  then show thesis by (cases rule: secretreveal_cases) (use idle one in \<open>auto split: if_splits\<close>)
qed (use run idle in \<open>auto simp: dispatch_payment_def handle_init_payment_def handle_init_light_def
      ignored_handlers\<close>)

lemma dispatch_payment_new:
  assumes run: "dispatch_payment L now None sc m g n = Inr ((new, evs), m', g')"
  obtains (idle) "new = None" "evs = []" "m' = m"
  | (init) d routes started where "sc = ActionInitInitiator d routes"
      "try_new_route L m routes d g n = Inr ((started, evs), m', g')" "new = started_payment started"
  | (init_light) d routes msg started where "sc = ActionInitInitiatorLight d routes msg"
      "try_new_route_light L m routes d msg = Inr ((started, evs), m')" "new = started_payment started"
proof (cases sc)
  case (ActionInitInitiator d routes)
  with run init show thesis
    by (auto simp: dispatch_payment_def handle_init_payment_def res_bind_Inr)
next
  case (ActionInitInitiatorLight d routes msg)
  with run init_light show thesis
    by (auto simp: dispatch_payment_def handle_init_light_def res_bind_Inr)
qed (use run idle in \<open>auto simp: dispatch_payment_def\<close>)

lemma state_transition_paymentD:
  assumes "state_transition_payment L now state sc m g n = Inr ((new, evs), m', g')"
  obtains p where "dispatch_payment L now state sc m g n = Inr ((p, evs), m', g')"
    "new = clear_if_finalized_payment p"
  using assms by (auto simp: state_transition_payment_def res_bind_Inr)

lemma dict_set_not_Nil: "dict_set k v d \<noteq> []"
  by (cases d) auto

text \<open>Which state change reveals the secret of a payment.\<close>

lemma subdispatch_secret_reveal:
  assumes "subdispatch_to_initiatortransfer L p key s sc m g = Inr ((p', evs), m', g')"
    and "list_ex is_secret_reveal evs"
  shows "\<exists>request. sc = ReceiveSecretRequestChange request"
  using assms(1)
proof (cases rule: subdispatch_cases)
  case (step c c' new)
  show ?thesis using initiator_reveals [OF step(2) assms(2)] by metis
qed (use assms(2) in simp)

lemma subdispatch_keys_secret_reveal:
  "subdispatch_to_keys L ks p sc m g = Inr ((p', evs), m', g') \<Longrightarrow> list_ex is_secret_reveal evs
   \<Longrightarrow> \<exists>request. sc = ReceiveSecretRequestChange request"
proof (induction ks arbitrary: p m g evs)
  case (Cons key ks)
  from Cons.prems(1) obtain s p1 evs1 m1 g1 evs2 where r:
    "subdispatch_to_initiatortransfer L p key s sc m g = Inr ((p1, evs1), m1, g1)"
    "subdispatch_to_keys L ks p1 sc m1 g1 = Inr ((p', evs2), m', g')" "evs = evs1 @ evs2"
    by (auto simp: res_bind_Inr split: option.splits)
  with Cons.prems(2) consider "list_ex is_secret_reveal evs1" | "list_ex is_secret_reveal evs2"
    by auto
  then show ?case
    using subdispatch_secret_reveal [OF r(1)] Cons.IH [OF r(2)] by cases
qed simp

lemma dispatch_secret_reveal:
  assumes "dispatch_payment L now (Some p) sc m g n = Inr ((new, evs), m', g')"
    and "list_ex is_secret_reveal evs"
  shows "\<exists>request. sc = ReceiveSecretRequestChange request"
  using assms(1)
proof (cases rule: dispatch_payment_running)
  case (block p')
  show ?thesis by (rule subdispatch_keys_secret_reveal [OF block(2) assms(2)])
next
  case (one key s p')
  show ?thesis by (rule subdispatch_secret_reveal [OF one(2) assms(2)])
qed (use assms(2) in simp)

lemma new_route_light_no_secret:
  "try_new_route_light L m routes d msg = Inr ((started, evs), m') \<Longrightarrow> \<not> list_ex is_secret_reveal evs"
  by (auto simp: try_new_route_light_def res_bind_Inr Let_def no_route_failed_def payment_failed_def
      split: option.splits if_splits)

lemma new_payment_no_secret:
  assumes "dispatch_payment L now None sc m g n = Inr ((new, evs), m', g')"
  shows "\<not> list_ex is_secret_reveal evs"
  using assms
proof (cases rule: dispatch_payment_new)
  case (init d routes started)
  from init(2) show ?thesis
    by (cases rule: try_new_route_cases) (simp_all add: no_route_failed_def payment_failed_def)
next
  case (init_light d routes msg started)
  then show ?thesis using new_route_light_no_secret by blast
qed simp

section \<open>The laws of the channels of an initiator\<close>

text \<open>A transfer that starts a payment does not reuse a hash that is pending in one of the channels.\<close>

definition init_fresh :: "owner_channels \<Rightarrow> state_change \<Rightarrow> bool" where
  "init_fresh m sc \<longleftrightarrow>
     (case sc of
        ActionInitInitiator d _ \<Rightarrow> \<forall>k c. channel_at m (td_initiator d) k = Some c \<longrightarrow>
          \<not> is_lock_pending (our_state c) (td_secrethash d)
      | ActionInitInitiatorLight d _ msg \<Rightarrow> \<forall>k c. channel_at m (td_initiator d) k = Some c \<longrightarrow>
          \<not> is_lock_pending (our_state c) (ltm_lock_secrethash msg)
      | _ \<Rightarrow> True)"

locale owner_law =
  fixes L :: libs and Q :: "bytes \<Rightarrow> int \<Rightarrow> NettingChannelState \<Rightarrow> bool"
  assumes owner: "channel_law L (Q a)"
begin

lemma subdispatch_law:
  assumes m: "owners_all Q m"
    and run: "subdispatch_to_initiatortransfer L p key s sc m g = Inr ((p', evs), m', g')"
  shows "owners_all Q m'"
  using run
proof (cases rule: subdispatch_cases)
  case (step c c' new)
  from channel_law.initiator_law [OF owner owners_allD [OF m step(1)] step(2)] show ?thesis
    using owners_all_set [OF m step(1)] step(3) by simp
qed (use m in simp)

lemma subdispatch_keys_law:
  "owners_all Q m \<Longrightarrow> subdispatch_to_keys L ks p sc m g = Inr ((p', evs), m', g') \<Longrightarrow> owners_all Q m'"
proof (induction ks arbitrary: p m g evs)
  case (Cons key ks)
  from Cons.prems(2) obtain s p1 evs1 m1 g1 evs2 where
    "subdispatch_to_initiatortransfer L p key s sc m g = Inr ((p1, evs1), m1, g1)"
    "subdispatch_to_keys L ks p1 sc m1 g1 = Inr ((p', evs2), m', g')"
    by (auto simp: res_bind_Inr split: option.splits)
  with Cons.IH subdispatch_law [OF Cons.prems(1)] show ?case by blast
qed simp

lemma sent_law:
  assumes m: "owners_all Q m" and c: "channel_at m a k = Some c"
    and fresh: "\<not> is_lock_pending (our_state c) h"
    and sent: "send_lockedtransfer L c i t amount j p ph x h = Inr (event, c')"
  shows "owners_all Q (set_channel a k c' m)"
  by (rule owners_all_set [OF m c channel_law.transfer [OF owner owners_allD [OF m c] fresh sent]])

lemma payment_law:
  assumes m: "owners_all Q m" and fresh: "state = None \<Longrightarrow> init_fresh m sc"
    and run: "dispatch_payment L now state sc m g n = Inr ((new, evs), m', g')"
  shows "owners_all Q m'"
proof (cases state)
  case None
  note run [unfolded None]
  then show ?thesis
  proof (cases rule: dispatch_payment_new)
    case (init d routes started)
    from init(2) show ?thesis
    proof (cases rule: try_new_route_cases)
      case (sent before r after c c' i event)
      have "\<not> is_lock_pending (our_state c) (td_secrethash d)"
        using fresh [OF None] init(1) sent(2) by (simp add: init_fresh_def)
      from sent_law [OF m sent(2) this sent(5)] sent(8) show ?thesis by simp
    qed (use m in simp)
  next
    case (init_light d routes msg started)
    from init_light(2) show ?thesis
    proof (cases rule: try_new_route_light_cases)
      case (sent k c c' event)
      have "\<not> is_lock_pending (our_state c) (ltm_lock_secrethash msg)"
        using fresh [OF None] init_light(1) sent(1) by (simp add: init_fresh_def)
      from sent_law [OF m sent(1) this sent(2)] sent(3) show ?thesis by simp
    qed (use m in simp)
  qed (use m in simp)
next
  case (Some p)
  note run [unfolded Some]
  then show ?thesis
    by (cases rule: dispatch_payment_running)
      (use m subdispatch_law subdispatch_keys_law in \<open>blast+\<close>)
qed

end

text \<open>The channels of every owner of a node: reachable ones, and ones that steps have led to.\<close>

definition evolved_owner ::
    "libs \<Rightarrow> owner_channels \<Rightarrow> bytes \<Rightarrow> int \<Rightarrow> NettingChannelState \<Rightarrow> bool" where
  "evolved_owner L m a k c \<longleftrightarrow>
     evolved_channel L (case dict_get m a of None \<Rightarrow> [] | Some ms \<Rightarrow> ms) k c"

lemma evolved_owner_self:
  "owners_all (\<lambda>a. node_channel L) m \<Longrightarrow> owners_all (evolved_owner L m) m"
  using evolved_self by (auto simp: owners_all_def evolved_owner_def channels_all_def)

lemma evolved_owner_iff:
  "evolved_owner L m a k c \<longleftrightarrow>
     node_channel L k c \<and> (\<exists>c0. channel_at m a k = Some c0 \<and> (channel_step L)\<^sup>*\<^sup>* c0 c)"
  by (auto simp: evolved_owner_def evolved_channel_def channel_at_def split: option.splits)

interpretation owner_node: owner_law L "\<lambda>a. node_channel L" for L
  by (unfold_locales) (use node.step node.sound node.copies node.named in auto)

interpretation owner_moved: owner_law L "evolved_owner L m" for L m
proof (unfold_locales)
  fix a k c c'
  show "evolved_owner L m a k c \<Longrightarrow> channel_step L c c' \<Longrightarrow> evolved_owner L m a k c'"
    unfolding evolved_owner_def by (rule evolved.step)
qed (auto simp: evolved_owner_def evolved.sound evolved.copies evolved.named)

section \<open>The one transfer of a payment\<close>

text \<open>
  A payment has one transfer: a second one starts only after a refund, which no payment notices.
  Its hash is the key, and its lock is where \<open>transfer_lock_ok\<close> says.
\<close>

definition transfer_ok :: "bytes \<Rightarrow> InitiatorTransferState \<Rightarrow> owner_channels \<Rightarrow> bool" where
  "transfer_ok h s m \<longleftrightarrow>
     lock_secrethash (lt_lock (it_transfer s)) = h \<and> transfer_hash s = h \<and>
     (case channel_at m (transfer_owner s) (it_channel_identifier s) of
        None \<Rightarrow> True | Some c \<Rightarrow> transfer_lock_ok s c)"

definition payment_ok :: "InitiatorPaymentState \<Rightarrow> owner_channels \<Rightarrow> bool" where
  "payment_ok p m \<longleftrightarrow>
     (case initiator_transfers p of [(h, s)] \<Rightarrow> transfer_ok h s m | _ \<Rightarrow> False)"

text \<open>The reports that a payment still owes: one as long as its transfer has not failed.\<close>

definition reports_due :: "InitiatorPaymentState option \<Rightarrow> nat" where
  "reports_due state =
     (case state of
        None \<Rightarrow> 0
      | Some p \<Rightarrow> length (filter (\<lambda>(h, s). it_transfer_state s \<noteq> transfer_expired)
                          (initiator_transfers p)))"

lemma payment_okD:
  assumes "payment_ok p m"
  obtains h s where "initiator_transfers p = [(h, s)]" "transfer_ok h s m"
proof -
  obtain x xs where x: "initiator_transfers p = x # xs"
    using assms by (cases "initiator_transfers p") (simp_all add: payment_ok_def)
  obtain h s where "x = (h, s)" by (cases x)
  moreover have "xs = []" using assms x by (cases xs) (auto simp: payment_ok_def)
  ultimately show thesis using assms x that by (simp add: payment_ok_def)
qed

definition outcome_count :: "event list \<Rightarrow> nat" where
  "outcome_count evs = length (filter is_outcome evs)"

lemma outcome_count_simps [simp]:
  "outcome_count [] = 0" "outcome_count (as @ bs) = outcome_count as + outcome_count bs"
  by (simp_all add: outcome_count_def)

lemma reports_count:
  "reports_success s secret evs \<Longrightarrow> outcome_count evs = 1"
  "reports_failure s evs \<Longrightarrow> outcome_count evs = 1"
  by (auto simp: reports_success_def reports_failure_def outcome_count_def Let_def)

lemma subdispatch_single:
  assumes m: "owners_all (\<lambda>a. node_channel L) m"
    and p: "initiator_transfers p = [(h, s)]" "transfer_ok h s m"
    and run: "subdispatch_to_initiatortransfer L p h s sc m g = Inr ((p', evs), m', g')"
  shows "(initiator_transfers p' = [] \<or> payment_ok p' m') \<and>
    outcome_count evs + reports_due (Some p') \<le> reports_due (Some p)"
  using run
proof (cases rule: subdispatch_cases)
  case absent
  then show ?thesis using p by (simp add: payment_ok_def)
next
  case (step c c' new)
  have c: "channel_ok L c" using owners_allD [OF m step(1)] node.sound by blast
  have h: "lock_secrethash (lt_lock (it_transfer s)) = transfer_hash s" "transfer_hash s = h"
    using p(2) by (simp_all add: transfer_ok_def)
  have s: "transfer_lock_ok s c" using p(2) step(1) by (simp add: transfer_ok_def)
  note locks = initiator_locks [OF c h(1) step(2)]
  have c': "channel_at m' (transfer_owner s) (it_channel_identifier s) = Some c'"
    using channel_at_set [OF step(1)] step(3) by simp
  have "initiator_transfers p' = [] \<or> payment_ok p' m'"
  proof (cases new)
    case None
    then show ?thesis using step(4) p h by simp
  next
    case (Some s')
    with locks s have "same_transfer s s'" "transfer_lock_ok s' c'" by blast+
    then have "transfer_ok h s' m'" using h c' by (simp add: transfer_ok_def same_transfer_def)
    then show ?thesis using step(4) p Some by (simp add: payment_ok_def)
  qed
  moreover have "outcome_count evs + reports_due (Some p') \<le> reports_due (Some p)"
    using c s h(1) step(2)
  proof (cases rule: initiator_outcome)
    case nothing_yet
    then show ?thesis using step(4) p h
      by (cases new) (simp_all add: reports_due_def outcome_count_def)
  next
    case (paid secret)
    then show ?thesis using step(4) p h reports_count(1) [OF paid(1)] by (simp add: reports_due_def)
  next
    case lost
    then show ?thesis using step(4) p h reports_count(2) [OF lost(1)]
      by (cases new) (simp_all add: reports_due_def)
  qed
  ultimately show ?thesis ..
qed

lemma cancel_no_transfers: "initiator_transfers p = [] \<Longrightarrow> cancel_other_transfers p = p"
  by (simp add: cancel_other_transfers_def)

lemma payment_ok_transfers: "payment_ok p m \<Longrightarrow> initiator_transfers p \<noteq> []"
  by (auto simp: payment_ok_def)

lemma dispatch_payment_single:
  assumes m: "owners_all (\<lambda>a. node_channel L) m" and p: "payment_ok p m"
    and run: "dispatch_payment L now (Some p) sc m g n = Inr ((new, evs), m', g')"
  obtains p' where "new = Some p'" "initiator_transfers p' = [] \<or> payment_ok p' m'"
    "outcome_count evs + reports_due new \<le> reports_due (Some p)"
proof -
  obtain h s where s: "initiator_transfers p = [(h, s)]" "transfer_ok h s m"
    using p by (rule payment_okD)
  from run show thesis
  proof (cases rule: dispatch_payment_running)
    case idle
    then show thesis using p that by simp
  next
    case (block p')
    then have "subdispatch_to_initiatortransfer L p h s sc m g = Inr ((p', evs), m', g')"
      using s(1) by (auto simp: res_bind_Inr)
    from subdispatch_single [OF m s this] show thesis using that block(1) by blast
  next
    case (one key t p')
    then have k: "key = h" "t = s" using s(1) by (auto split: if_splits)
    have *: "(initiator_transfers p' = [] \<or> payment_ok p' m') \<and>
        outcome_count evs + reports_due (Some p') \<le> reports_due (Some p)"
      using subdispatch_single [OF m s] one(2) k by simp
    have "new = Some p'"
    proof (cases "transfer_exists p' key")
      case True
      then show ?thesis using one(3) by blast
    next
      case False
      have "initiator_transfers p' = []"
        using one(2) unfolding k
      proof (cases rule: subdispatch_cases)
        case absent
        then show ?thesis using False s k by (simp add: transfer_exists_def dict_has_def)
      next
        case (step c c' fresh)
        then show ?thesis using False s k
          by (cases fresh) (auto simp: transfer_exists_def dict_has_def transfer_ok_def)
      qed
      then show ?thesis using one(3) cancel_no_transfers by metis
    qed
    then show thesis using that * by blast
  qed
qed

text \<open>What a reported success comes with.\<close>

lemma initiator_success_paid:
  assumes c: "channel_ok L c" and s: "transfer_lock_ok s c"
    and h: "lock_secrethash (lt_lock (it_transfer s)) = transfer_hash s"
    and run: "state_transition_initiator L s sc c g = Inr ((new, evs), c', g')"
    and e: "EventPaymentSentSuccess network token i amount target secret \<in> set evs"
  shows "new = None \<and> reveals s c sc secret \<and> (\<exists>u. hands_over u evs) \<and>
    current_transferred_amount (our_state c') =
      current_transferred_amount (our_state c) + lock_amount (lt_lock (it_transfer s)) \<and>
    get_lock (our_state c') (transfer_hash s) = None"
proof -
  have outcome:
    "EventPaymentSentSuccess network token i amount target secret \<in> set (filter is_outcome evs)"
    using e by simp
  from run show ?thesis
  proof (cases rule: initiator_cases)
    case (unlock d j x u)
    obtain net tok where f: "filter is_outcome evs = [EventPaymentSentSuccess net tok
        (td_payment_identifier (it_transfer_description s)) (td_amount (it_transfer_description s))
        (td_target (it_transfer_description s)) x]"
      using unlock(6) by (auto simp: reports_success_def Let_def)
    have x: "x = secret" using outcome unfolding f by simp
    have d: "maps_ok (our_state d)"
      "get_lock (our_state d) (transfer_hash s) = get_lock (our_state c) (transfer_hash s)"
      "current_transferred_amount (our_state d) = current_transferred_amount (our_state c)"
      using unlock(3) our_get_lock_onchain [OF c] end_okD(1) [OF channel_okD(1) [OF c]] by blast+
    have "get_lock (our_state d) (transfer_hash s) \<noteq> None"
      using unlock(4) by (auto simp: send_unlock_def split: option.splits)
    then have "get_lock (our_state c) (transfer_hash s) = Some (lt_lock (it_transfer s))"
      using s unlock(2) d(2) by (auto simp: transfer_lock_ok_def reveals_def split: if_splits)
    then show ?thesis
      using unlock_pays [OF _ unlock(4)] unlock_get_lock(1) [OF d(1) unlock(4)] unlock(1,2,5) d x
      by auto
  next
    case (failed l n hash lock)
    then obtain why where "filter is_outcome evs = [payment_failed (it_transfer_description s) why]"
      by (auto simp: reports_failure_def)
    from outcome [unfolded this] show ?thesis by (simp add: payment_failed_def)
  next
    case same
    from outcome [unfolded same(2)] show ?thesis by simp
  qed (use e in simp)
qed

lemma dispatch_success_paid:
  assumes m: "owners_all (\<lambda>a. node_channel L) m"
    and p: "initiator_transfers p = [(h, s)]" "transfer_ok h s m"
    and run: "dispatch_payment L now (Some p) sc m g n = Inr ((new, evs), m', g')"
    and e: "EventPaymentSentSuccess network token i amount target secret \<in> set evs"
  obtains c c' u where "clear_if_finalized_payment new = None"
    "channel_at m (transfer_owner s) (it_channel_identifier s) = Some c"
    "channel_at m' (transfer_owner s) (it_channel_identifier s) = Some c'"
    "reveals s c sc secret" "hands_over u evs"
    "current_transferred_amount (our_state c') =
      current_transferred_amount (our_state c) + lock_amount (lt_lock (it_transfer s))"
    "get_lock (our_state c') h = None"
proof -
  have "\<exists>p'. subdispatch_to_initiatortransfer L p h s sc m g = Inr ((p', evs), m', g') \<and>
      (new = Some p' \<or> new = Some (cancel_other_transfers p'))"
    using run
  proof (cases rule: dispatch_payment_running)
    case (block p')
    then show ?thesis using p(1) by (auto simp: res_bind_Inr)
  next
    case (one key t p')
    then show ?thesis using p(1) by (auto split: if_splits)
  qed (use e in simp)
  then obtain p' where sub: "subdispatch_to_initiatortransfer L p h s sc m g = Inr ((p', evs), m', g')"
    "new = Some p' \<or> new = Some (cancel_other_transfers p')" by blast
  from sub(1) show thesis
  proof (cases rule: subdispatch_cases)
    case (step c c' fresh)
    have c: "channel_ok L c" using owners_allD [OF m step(1)] node.sound by blast
    have h: "lock_secrethash (lt_lock (it_transfer s)) = transfer_hash s" "transfer_hash s = h"
      using p(2) by (simp_all add: transfer_ok_def)
    have s: "transfer_lock_ok s c" using p(2) step(1) by (simp add: transfer_ok_def)
    note paid = initiator_success_paid [OF c s h(1) step(2) e]
    then have "initiator_transfers p' = []" using step(4) p h by simp
    then have "clear_if_finalized_payment new = None"
      using sub(2) by (auto simp: clear_if_finalized_payment_def cancel_no_transfers)
    moreover have "channel_at m' (transfer_owner s) (it_channel_identifier s) = Some c'"
      using channel_at_set [OF step(1)] step(3) by simp
    ultimately show thesis using that paid step(1) h(2) by blast
  qed (use e in simp)
qed

section \<open>The history of a payment\<close>

text \<open>A light client signs a transfer of the hash that its payment has.\<close>

definition same_hash :: "state_change \<Rightarrow> bool" where
  "same_hash sc \<longleftrightarrow>
     (case sc of
        ActionInitInitiatorLight d _ msg \<Rightarrow> ltm_lock_secrethash msg = td_secrethash d
      | _ \<Rightarrow> True)"

lemma new_transfer_ok:
  assumes m: "owners_all (\<lambda>a. node_channel L) m" and c: "channel_at m (td_initiator d) k = Some c"
    and sent: "send_lockedtransfer L c i t amount j ph pi x (td_secrethash d) = Inr (event, c')"
  shows "transfer_ok (td_secrethash d)
    (mk_InitiatorTransferState d (ch_identifier c') (ste_transfer event) r b)
    (set_channel (td_initiator d) k c' m)"
proof -
  have "ch_identifier c' = k"
    using sent_transfer(4) [OF sent] owners_allD [OF m c] node.named by auto
  then show ?thesis
    using sent_transfer(1,2) [OF sent] channel_at_set [OF c]
    by (simp add: transfer_ok_def mk_InitiatorTransferState_def transfer_lock_ok_def)
qed

lemma dispatch_payment_starts:
  assumes m: "owners_all (\<lambda>a. node_channel L) m" and h: "same_hash sc"
    and run: "dispatch_payment L now None sc m g n = Inr ((new, evs), m', g')"
  shows "(case new of None \<Rightarrow> True | Some p \<Rightarrow> payment_ok p m') \<and>
    outcome_count evs + reports_due new \<le> 1"
  using run
proof (cases rule: dispatch_payment_new)
  case idle
  then show ?thesis by (simp add: reports_due_def)
next
  case (init d routes started)
  from init(2) show ?thesis
  proof (cases rule: try_new_route_cases)
    case none
    then show ?thesis using init(3)
      by (simp add: started_payment_def reports_due_def outcome_count_def no_route_failed_def
          payment_failed_def)
  next
    case (sent before r after c c' i event)
    then show ?thesis
      using init(3) new_transfer_ok [OF m sent(2,5), of None False] sent_transfer(1) [OF sent(5)]
      by (simp add: started_payment_def reports_due_def outcome_count_def payment_ok_def
          mk_InitiatorPaymentState_def mk_InitiatorTransferState_def)
  qed
next
  case (init_light d routes msg started)
  have hash: "ltm_lock_secrethash msg = td_secrethash d"
    using h init_light(1) by (simp add: same_hash_def)
  from init_light(2) show ?thesis
  proof (cases rule: try_new_route_light_cases)
    case none
    then show ?thesis using init_light(3)
      by (simp add: started_payment_def reports_due_def outcome_count_def no_route_failed_def
          payment_failed_def)
  next
    case (sent k c c' event)
    note ok = new_transfer_ok [OF m sent(1) sent(2) [unfolded hash], of None False]
    show ?thesis
    proof (cases started)
      case None
      then show ?thesis using sent(4) init_light(3)
        by (auto simp: started_payment_def reports_due_def outcome_count_def)
    next
      case (Some s)
      then show ?thesis
        using sent(3,4) init_light(3) ok sent_transfer(1) [OF sent(2)] hash
        by (simp add: started_payment_def reports_due_def outcome_count_def payment_ok_def
            mk_InitiatorPaymentState_def mk_InitiatorTransferState_def)
    qed
  qed
qed

text \<open>
  Between the steps of a payment the node's other work changes its channels.  It leaves the lock of
  the payment's transfer, and no channel that is not open opens again.
\<close>

definition leaves_transfer ::
    "owner_channels \<Rightarrow> owner_channels \<Rightarrow> bytes \<times> InitiatorTransferState \<Rightarrow> bool" where
  "leaves_transfer m m' = (\<lambda>(h, s).
     case channel_at m' (transfer_owner s) (it_channel_identifier s) of
       None \<Rightarrow> True
     | Some c' \<Rightarrow>
         (case channel_at m (transfer_owner s) (it_channel_identifier s) of
            None \<Rightarrow> False
          | Some c \<Rightarrow>
              get_lock (our_state c') h = get_lock (our_state c) h \<and>
              (get_status c' = CHANNEL_STATE_OPENED \<longrightarrow> get_status c = CHANNEL_STATE_OPENED)))"

text \<open>
  A payment from its start, with the node's other work in between: its state, the channels, and all
  the events of the payment so far.
\<close>

inductive payment_history ::
    "libs \<Rightarrow> InitiatorPaymentState option \<Rightarrow> owner_channels \<Rightarrow> event list \<Rightarrow> bool" for L where
  begins: "owners_all (\<lambda>a. node_channel L) m \<Longrightarrow> init_fresh m sc \<Longrightarrow> same_hash sc \<Longrightarrow>
    state_transition_payment L now None sc m g n = Inr ((new, evs), m', g') \<Longrightarrow>
    payment_history L new m' evs"
| moves: "payment_history L (Some p) m es \<Longrightarrow>
    state_transition_payment L now (Some p) sc m g n = Inr ((new, evs), m', g') \<Longrightarrow>
    payment_history L new m' (es @ evs)"
| others: "payment_history L (Some p) m es \<Longrightarrow> owners_all (\<lambda>a. node_channel L) m' \<Longrightarrow>
    \<forall>t \<in> set (initiator_transfers p). leaves_transfer m m' t \<Longrightarrow>
    payment_history L (Some p) m' es"

lemma leaves_transfer_ok:
  assumes "payment_ok p m" "\<forall>t \<in> set (initiator_transfers p). leaves_transfer m m' t"
  shows "payment_ok p m'"
proof -
  from assms(1) obtain h s where s: "initiator_transfers p = [(h, s)]" "transfer_ok h s m"
    by (rule payment_okD)
  then have "leaves_transfer m m' (h, s)" using assms(2) by simp
  with s(2) have "transfer_ok h s m'"
    by (auto simp: transfer_ok_def leaves_transfer_def transfer_lock_ok_def split: option.splits)
  with s(1) show ?thesis by (simp add: payment_ok_def)
qed

lemma clear_if_finalized_cases:
  assumes "p = None \<or> (\<exists>q. p = Some q \<and> (initiator_transfers q = [] \<or> payment_ok q m))"
  shows "case clear_if_finalized_payment p of None \<Rightarrow> True | Some q \<Rightarrow> payment_ok q m"
    and "reports_due (clear_if_finalized_payment p) = reports_due p"
  using assms payment_ok_transfers
  by (auto simp: clear_if_finalized_payment_def reports_due_def split: option.splits)

lemma payment_history_ok:
  assumes "payment_history L state m evs"
  shows "owners_all (\<lambda>a. node_channel L) m \<and>
    (case state of None \<Rightarrow> True | Some p \<Rightarrow> payment_ok p m) \<and>
    outcome_count evs + reports_due state \<le> 1"
  using assms
proof (induction rule: payment_history.induct)
  case (begins m sc now g n new evs m' g')
  from begins(4) obtain p where p: "dispatch_payment L now None sc m g n = Inr ((p, evs), m', g')"
    "new = clear_if_finalized_payment p" by (rule state_transition_paymentD)
  note started = dispatch_payment_starts [OF begins(1,3) p(1)]
  then have "p = None \<or> (\<exists>q. p = Some q \<and> (initiator_transfers q = [] \<or> payment_ok q m'))"
    by (cases p) auto
  from clear_if_finalized_cases [OF this] started
  show ?case using owner_node.payment_law [OF begins(1,2) p(1)] p(2) by simp
next
  case (moves p m es now sc g n new evs m' g')
  from moves(2) obtain q where q: "dispatch_payment L now (Some p) sc m g n = Inr ((q, evs), m', g')"
    "new = clear_if_finalized_payment q" by (rule state_transition_paymentD)
  have m: "owners_all (\<lambda>a. node_channel L) m" and p: "payment_ok p m"
    and count: "outcome_count es + reports_due (Some p) \<le> 1"
    using moves.IH by simp_all
  from m p q(1) obtain r where r: "q = Some r" "initiator_transfers r = [] \<or> payment_ok r m'"
    "outcome_count evs + reports_due q \<le> reports_due (Some p)"
    by (rule dispatch_payment_single)
  from r(1,2) have "q = None \<or> (\<exists>r. q = Some r \<and> (initiator_transfers r = [] \<or> payment_ok r m'))"
    by blast
  from clear_if_finalized_cases [OF this] r(3) count
  show ?case using owner_node.payment_law [OF m _ q(1)] q(2) by simp
next
  case (others p m es m')
  then show ?case using leaves_transfer_ok [of p m m'] by simp
qed

end
