(* ===== verification/InitiatorProperties.thy ===== *)
theory InitiatorProperties
  imports PaymentFacts ChannelSync
begin

text \<open>
  The properties of the node that starts a payment, each with a witness: \<open>bob\<close> pays \<open>alice\<close> over
  their channel, is asked for the secret, reveals it, and unlocks when \<open>alice\<close> shows that she has it.
\<close>

section \<open>A payment of bob\<close>

definition bob_description :: TransferDescription where
  "bob_description =
     \<lparr>td_payment_network_identifier = replicate 20 7, td_payment_identifier = 2,
      td_payment_hash_invoice = [], td_amount = 10, td_allocated_fee = 0,
      td_token_network_identifier = replicate 20 9, td_initiator = bob, td_target = alice,
      td_secret = Some sample_secret, td_secrethash = sample_secrethash\<rparr>"

definition alice_hop :: RouteState where
  "alice_hop = \<lparr>route_node_address = alice, route_channel_identifier = 1\<rparr>"

definition bob_channels :: "NettingChannelState \<Rightarrow> owner_channels" where
  "bob_channels c = [(bob, [(1, c)])]"

definition bob_transfer :: InitiatorTransferState where
  "bob_transfer =
     mk_InitiatorTransferState bob_description 1 (ste_transfer (sample_event bob alice 4)) None False"

definition bob_payment :: InitiatorPaymentState where
  "bob_payment = mk_InitiatorPaymentState [(sample_secrethash, bob_transfer)]"

definition alice_request :: ReceiveSecretRequest where
  "alice_request =
     \<lparr>rsq_payment_identifier = 2, rsq_amount = 10, rsq_expiration = 100,
      rsq_secrethash = sample_secrethash, rsq_sender = alice\<rparr>"

definition alice_reveal :: ReceiveSecretReveal where
  "alice_reveal = mk_ReceiveSecretReveal sample_libs sample_secret alice"

abbreviation bob_init :: state_change where
  "bob_init \<equiv> ActionInitInitiator bob_description [alice_hop]"

lemma bob_description_sel [simp]:
  "td_payment_identifier bob_description = 2" "td_payment_hash_invoice bob_description = []"
  "td_amount bob_description = 10" "td_allocated_fee bob_description = 0"
  "td_token_network_identifier bob_description = replicate 20 9"
  "td_initiator bob_description = bob" "td_target bob_description = alice"
  "td_secret bob_description = Some sample_secret" "td_secrethash bob_description = sample_secrethash"
  by (simp_all add: bob_description_def)

lemma bob_transfer_sel [simp]:
  "it_transfer_description bob_transfer = bob_description" "it_channel_identifier bob_transfer = 1"
  "lt_lock (it_transfer bob_transfer) = sample_lock 10" "it_revealsecret bob_transfer = None"
  "it_received_secret_request bob_transfer = False" "it_transfer_state bob_transfer = transfer_pending"
  by (simp_all add: bob_transfer_def mk_InitiatorTransferState_def sample_event_def)

lemma bob_payment_sel [simp]:
  "initiator_transfers bob_payment = [(sample_secrethash, bob_transfer)]"
  by (simp add: bob_payment_def mk_InitiatorPaymentState_def)

lemma bob_channel_at [simp]:
  "channel_at (bob_channels c) a k = (if a = bob \<and> k = 1 then Some c else None)"
  by (simp add: channel_at_def bob_channels_def)

lemma bob_set_channel [simp]: "set_channel bob 1 c' (bob_channels c) = bob_channels c'"
  by (simp add: set_channel_def bob_channels_def)

lemma bob_channels_get [simp]: "dict_get (bob_channels c) bob = Some [(1, c)]"
  by (simp add: bob_channels_def)

lemma alice_hop_sel [simp]: "route_channel_identifier alice_hop = 1"
  by (simp add: alice_hop_def)

lemma sample_bob_sel [simp]:
  "our_state sample_bob = mk_NettingChannelEndState bob 50"
  "partner_state sample_bob = mk_NettingChannelEndState alice 100"
  "get_status sample_bob = CHANNEL_STATE_OPENED" "reveal_timeout sample_bob = 50"
  "ch_canonical_identifier sample_bob = sample_ci"
  by (simp_all add: sample_bob_def sample_channel_def get_status_def)

lemma sample_ci_sel [simp]:
  "channel_identifier sample_ci = 1" "token_network_address sample_ci = replicate 20 9"
  by (simp_all add: sample_ci_def)

lemma bob_finds_route:
  "next_channel_from_routes_initiator [alice_hop] (bob_channels sample_bob) 10 bob =
     Inr (Some (1, sample_bob))"
  by (simp add: mk_NettingChannelEndState_def get_number_of_pending_transfers_def
      merkletree_width_def make_empty_merkle_tree_def merkle_leaves_def
      MAXIMUM_PENDING_TRANSFERS_def get_distributable_def get_current_balanceproof_def
      get_balance_def get_amount_locked_def get_amount_unclaimed_onchain_def
      current_transferred_amount_def is_valid_amount_def UINT256_MAX_def)

lemma bob_starts:
  "state_transition_payment sample_libs now None bob_init (bob_channels sample_bob) 4 0 =
     Inr ((Some bob_payment, [SendLockedTransfer (sample_event bob alice 4)]),
          bob_channels sample_bob_sent, 5)"
proof -
  have "message_identifier_from_prng sample_libs 4 = (4, 5)"
    by (simp add: message_identifier_from_prng_def) (simp add: sample_libs_def)
  moreover have "ch_identifier sample_bob_sent = 1" by (simp add: sample_bob_sent_sel)
  ultimately show ?thesis
    using bob_finds_route sample_bob_send
    by (simp add: state_transition_payment_def dispatch_payment_def handle_init_payment_def
        try_new_route_def send_lockedtransfer_initiator_def get_initial_lock_expiration_def
        started_payment_def clear_if_finalized_payment_def mk_InitiatorPaymentState_def)
      (simp add: bob_payment_def bob_transfer_def mk_InitiatorPaymentState_def
        mk_InitiatorTransferState_def sample_event_def)
qed

lemma bob_channels_ok:
  "reachable sample_libs c \<Longrightarrow> ch_identifier c = 1 \<Longrightarrow>
   owners_all (\<lambda>a. node_channel sample_libs) (bob_channels c)"
  by (simp add: owners_all_iff node_channel_def split: if_splits)

lemma bob_fresh: "init_fresh (bob_channels sample_bob) bob_init"
  by (simp add: init_fresh_def)

lemma bob_history:
  "payment_history sample_libs (Some bob_payment) (bob_channels sample_bob_sent)
     [SendLockedTransfer (sample_event bob alice 4)]"
  by (rule payment_history.begins [OF bob_channels_ok [OF sample_bob_reachable] bob_fresh _ bob_starts])
    (simp_all add: same_hash_def)

text \<open>Alice asks for the secret, and bob answers once.\<close>

definition asked_payment :: "event \<Rightarrow> InitiatorPaymentState" where
  "asked_payment reveal = mk_InitiatorPaymentState [(sample_secrethash,
     bob_transfer\<lparr>it_revealsecret := Some reveal, it_received_secret_request := True\<rparr>)]"

definition bob_reveal_event :: SendSecretRevealEvent where
  "bob_reveal_event =
     mk_SendSecretReveal sample_libs alice CHANNEL_IDENTIFIER_GLOBAL_QUEUE 5 sample_secret"

lemma bob_asked:
  "state_transition_payment sample_libs now (Some bob_payment) (ReceiveSecretRequestChange alice_request)
     (bob_channels sample_bob_sent) 5 10 =
   Inr ((Some (asked_payment (SendSecretReveal bob_reveal_event)), [SendSecretReveal bob_reveal_event]),
        bob_channels sample_bob_sent, 6)"
proof -
  have "message_identifier_from_prng sample_libs 5 = (5, 6)"
    by (simp add: message_identifier_from_prng_def) (simp add: sample_libs_def)
  then show ?thesis
    using sample_bob_pending(3)
    by (simp add: state_transition_payment_def dispatch_payment_def secretrequest_to_transfer_def
        alice_request_def subdispatch_to_initiatortransfer_def state_transition_initiator_def
        handle_secretrequest_def secretrequest_with_def is_message_from_target_def
        is_valid_secretrequest_def running_payment_def clear_if_finalized_payment_def Let_def
        bob_payment_def mk_InitiatorPaymentState_def asked_payment_def bob_reveal_event_def)
qed

lemma bob_paid:
  "\<exists>u c evs. state_transition_payment sample_libs now (Some bob_payment)
     (ReceiveSecretRevealChange alice_reveal) (bob_channels sample_bob_sent) 5 20 =
       Inr ((None, evs), bob_channels c, 6) \<and>
     evs = [EventPaymentSentSuccess (payment_network_identifier c) (ch_token_network_identifier c) 2 10
              alice sample_secret, EventUnlockSuccess 2 sample_secrethash, SendBalanceProof u] \<and>
     send_unlock sample_libs sample_bob_sent 5 2 sample_secret sample_secrethash False = Inr (u, c)"
proof -
  have g: "message_identifier_from_prng sample_libs 5 = (5, 6)"
    by (simp add: message_identifier_from_prng_def) (simp add: sample_libs_def)
  have "sample_secret \<noteq> EMPTY_HASH"
  proof -
    have "last sample_secret \<noteq> last EMPTY_HASH" by (simp add: sample_secret_def EMPTY_HASH_def)
    then show ?thesis by auto
  qed
  then have may: "may_unlock bob_transfer alice_reveal sample_bob_sent"
    by (simp add: may_unlock_def is_valid_secret_reveal_def alice_reveal_def
        mk_ReceiveSecretReveal_def sample_secrethash_def [symmetric] sample_bob_sent_sel)
      (simp add: mk_NettingChannelEndState_def)
  have r: "rsr_secret alice_reveal = sample_secret" "rsr_secrethash alice_reveal = sample_secrethash"
    by (simp_all add: alice_reveal_def mk_ReceiveSecretReveal_def sample_secrethash_def)
  obtain u c where u: "send_unlock sample_libs sample_bob_sent 5 2 sample_secret sample_secrethash False
      = Inr (u, c)"
    using sample_bob_unlock by (auto simp: sample_secrethash_def)
  then show ?thesis
    using may r
    by (intro exI [of _ u] exI [of _ c])
      (simp add: state_transition_payment_def dispatch_payment_def secretreveal_with_def
        subdispatch_to_initiatortransfer_def state_transition_initiator_def dict_has_def
        handle_offchain_secretreveal_initiator_def events_for_unlock_lock_def g py_assert_def
        events_for_unlock_base_def running_payment_def clear_if_finalized_payment_def Let_def
        transfer_exists_def cancel_other_transfers_def)
qed

section \<open>The channels of a payment\<close>

text \<open>A payment changes the channels of its initiator only by steps of the channels' own transition
  system, whatever state change it handles and however many transfers it has: each channel after the
  state change is a reachable one that steps lead to from the channel that had its place before.  A
  payment that starts is assumed not to reuse a hash that is pending in a channel.\<close>

theorem payments_run_channel_steps:
  assumes "owners_all (\<lambda>a. node_channel L) m" "state = None \<Longrightarrow> init_fresh m sc"
    and "state_transition_payment L now state sc m g n = Inr ((new, evs), m', g')"
    and "channel_at m' a k = Some c'"
  shows "\<exists>c. channel_at m a k = Some c \<and> reachable L c' \<and> (channel_step L)\<^sup>*\<^sup>* c c'"
proof -
  from assms(3) obtain p where "dispatch_payment L now state sc m g n = Inr ((p, evs), m', g')"
    by (rule state_transition_paymentD)
  from owner_moved.payment_law [OF evolved_owner_self [OF assms(1)] assms(2) this]
  show ?thesis
    using owners_allD [OF _ assms(4), of "evolved_owner L m"]
    by (auto simp: evolved_owner_iff node_channel_def)
qed

theorem payments_run_channel_steps_witness:
  "\<exists>c. channel_at (bob_channels sample_bob) bob 1 = Some c \<and> reachable sample_libs sample_bob_sent \<and>
     (channel_step sample_libs)\<^sup>*\<^sup>* c sample_bob_sent"
  by (rule payments_run_channel_steps [OF bob_channels_ok [OF sample_bob_reachable] bob_fresh bob_starts])
    simp_all



section \<open>Routes\<close>

text \<open>C16. A payment starts on the first of its routes whose channel is open, can take another lock and
  has the amount to give; the transfer to that partner locks the amount and the fee until twice the
  reveal timeout from now, and only that channel changes.  Without such a route the payment fails
  at once and nothing changes.\<close>

theorem payment_takes_first_route:
  assumes "state_transition_payment L now None (ActionInitInitiator d routes) m g n =
      Inr ((new, evs), m', g')"
  shows "(\<forall>r \<in> set routes. \<not> route_open m (td_amount d) (td_initiator d) r) \<and>
      new = None \<and> evs = [no_route_failed routes d] \<and> m' = m \<or>
    (\<exists>before r after c c' event t. routes = before @ r # after \<and>
      (\<forall>q \<in> set before. \<not> route_open m (td_amount d) (td_initiator d) q) \<and>
      route_open m (td_amount d) (td_initiator d) r \<and>
      channel_at m (td_initiator d) (route_channel_identifier r) = Some c \<and>
      evs = [SendLockedTransfer event] \<and> ste_recipient event = es_address (partner_state c) \<and>
      lock_amount (lt_lock (ste_transfer event)) = td_amount d + td_allocated_fee d \<and>
      lock_expiration (lt_lock (ste_transfer event)) = n + 2 * reveal_timeout c \<and>
      lock_secrethash (lt_lock (ste_transfer event)) = td_secrethash d \<and>
      m' = set_channel (td_initiator d) (route_channel_identifier r) c' m \<and>
      it_transfer t = ste_transfer event \<and> it_transfer_description t = d \<and>
      new = Some (mk_InitiatorPaymentState [(td_secrethash d, t)]))"
proof -
  from assms obtain p where p: "dispatch_payment L now None (ActionInitInitiator d routes) m g n =
      Inr ((p, evs), m', g')" "new = clear_if_finalized_payment p"
    by (rule state_transition_paymentD)
  then obtain started where run: "try_new_route L m routes d g n = Inr ((started, evs), m', g')"
    "p = started_payment started"
    by (auto simp: dispatch_payment_def handle_init_payment_def res_bind_Inr)
  note new = p(2) run(2)
  from run(1) show ?thesis
  proof (cases rule: try_new_route_cases)
    case none
    then show ?thesis
      using new by (simp add: started_payment_def clear_if_finalized_payment_def)
  next
    case (sent before r after c c' i event)
    let ?t = "mk_InitiatorTransferState d (ch_identifier c') (ste_transfer event) None False"
    note facts = sent_transfer(1,5-7) [OF sent(5)]
    have "new = Some (mk_InitiatorPaymentState [(td_secrethash d, ?t)])"
      using new sent(6) facts(1)
      by (simp add: started_payment_def clear_if_finalized_payment_def mk_InitiatorPaymentState_def
          mk_InitiatorTransferState_def)
    moreover have "it_transfer ?t = ste_transfer event" "it_transfer_description ?t = d"
      by (simp_all add: mk_InitiatorTransferState_def)
    ultimately show ?thesis
      using sent(1-4,7,8) facts by (intro disjI2 exI [of _ before] exI [of _ r] exI [of _ after]
          exI [of _ c] exI [of _ c'] exI [of _ event] exI [of _ ?t]) auto
  qed
qed

theorem payment_takes_first_route_witness:
  "route_open (bob_channels sample_bob) 10 bob alice_hop"
  using payment_takes_first_route [OF bob_starts] by (auto simp: Cons_eq_append_conv)

section \<open>The secret and the unlock\<close>



text \<open>C14. A payment is reported as sent only when its money is with the partner: the secret was shown by
  the partner or on chain before the lock expired, the unlock is sent (or kept for the light client
  to sign), the amount of the lock is added to what the partner has for good, the lock is gone from
  our side, and the payment's task ends.\<close>

theorem reported_success_is_paid:
  assumes "payment_history L (Some p) m es"
    and "state_transition_payment L now (Some p) sc m g n = Inr ((new, evs), m', g')"
    and "EventPaymentSentSuccess network token i amount target secret \<in> set evs"
  shows "new = None \<and> (\<exists>h s c c' u. initiator_transfers p = [(h, s)] \<and>
    channel_at m (transfer_owner s) (it_channel_identifier s) = Some c \<and>
    channel_at m' (transfer_owner s) (it_channel_identifier s) = Some c' \<and>
    reveals s c sc secret \<and> hands_over u evs \<and>
    current_transferred_amount (our_state c') =
      current_transferred_amount (our_state c) + lock_amount (lt_lock (it_transfer s)) \<and>
    get_lock (our_state c') h = None)"
proof -
  note ok = payment_history_ok [OF assms(1)]
  then have m: "owners_all (\<lambda>a. node_channel L) m" and p: "payment_ok p m" by simp_all
  from assms(2) obtain q where d: "dispatch_payment L now (Some p) sc m g n = Inr ((q, evs), m', g')"
    "new = clear_if_finalized_payment q" by (rule state_transition_paymentD)
  from p obtain h s where s: "initiator_transfers p = [(h, s)]" "transfer_ok h s m"
    by (rule payment_okD)
  from m s d(1) assms(3) show ?thesis
  proof (rule dispatch_success_paid)
  qed (use d(2) s(1) in blast)
qed

theorem reported_success_is_paid_witness:
  "\<exists>c' :: NettingChannelState. get_lock (our_state c') sample_secrethash = None \<and>
    current_transferred_amount (our_state c') =
      current_transferred_amount (our_state sample_bob_sent) + 10"
proof -
  obtain u c evs where run: "state_transition_payment sample_libs 0 (Some bob_payment)
      (ReceiveSecretRevealChange alice_reveal) (bob_channels sample_bob_sent) 5 20 =
        Inr ((None, evs), bob_channels c, 6)"
    and e: "EventPaymentSentSuccess (payment_network_identifier c) (ch_token_network_identifier c) 2 10
              alice sample_secret \<in> set evs"
    using bob_paid [of 0] by auto
  show ?thesis
    using reported_success_is_paid [OF bob_history run e] by auto
qed

end
