(* ===== verification/InitiatorFindings.thy ===== *)
theory InitiatorFindings
  imports InitiatorProperties
begin

text \<open>
  What the initiator gets wrong: it looks for channels by identifier among the addresses of their
  owners, so refunds, cancellations and expired locks go unnoticed; a light client's transfer that is
  refused stays recorded in the channel; and the fee is not part of the amount a route is checked for.
\<close>

section \<open>Handlers that find no channel\<close>

fun looks_up_identifier :: "state_change \<Rightarrow> bool" where
  "looks_up_identifier (ReceiveTransferRefundCancelRouteChange r) = True"
| "looks_up_identifier (ActionCancelPayment p) = True"
| "looks_up_identifier (ReceiveLockExpiredChange e) = True"
| "looks_up_identifier sc = False"



section \<open>A refused transfer of a light client\<close>

text \<open>A light client's transfer whose locksroot is not the expected one is refused, and its lock is
  in the channel nevertheless, under a balance proof that nobody signed and without a task that
  would remove it: the channel is changed before the roots are compared.\<close>

theorem refused_light_transfer_stays:
  assumes "state_transition_payment L now None (ActionInitInitiatorLight d routes msg) m g n =
      Inr ((None, [EventPaymentSentFailed network token i target (LocksrootDiffers r r')]), m', g')"
  shows "\<exists>k c' l. channel_at m' (td_initiator d) k = Some c' \<and>
    get_lock (our_state c') (ltm_lock_secrethash msg) = Some l \<and>
    lock_amount l = em_locked_amount msg"
proof -
  from assms obtain p where p: "dispatch_payment L now None (ActionInitInitiatorLight d routes msg) m g n
      = Inr ((p, [EventPaymentSentFailed network token i target (LocksrootDiffers r r')]), m', g')"
    by (rule state_transition_paymentD)
  then obtain started where run: "try_new_route_light L m routes d msg =
      Inr ((started, [EventPaymentSentFailed network token i target (LocksrootDiffers r r')]), m')"
    by (auto simp: dispatch_payment_def handle_init_light_def res_bind_Inr)
  then show ?thesis
  proof (cases rule: try_new_route_light_cases)
    case none
    then show ?thesis by (simp add: no_route_failed_def payment_failed_def split: if_splits)
  next
    case (sent k c c' event)
    have "channel_at m' (td_initiator d) k = Some c'"
      using channel_at_set [OF sent(1)] sent(3) by simp
    then show ?thesis using sent_transfer(2,6) [OF sent(2)] by blast
  qed
qed

definition bad_message :: LockedTransferMessage where
  "bad_message =
     \<lparr>em_chain_id = 30, em_message_identifier = 4, em_nonce = 1, em_transferred_amount = 0,
      em_locked_amount = 10, em_locksroot = [], em_channel_identifier = 1,
      em_token_network_address = replicate 20 9, em_message_hash = [], em_signature = [],
      em_sender = bob, ltm_payment_identifier = 2, ltm_payment_hash_invoice = [],
      ltm_recipient = alice, ltm_initiator = bob, ltm_target = alice, ltm_lock_expiration = 100,
      ltm_lock_secrethash = sample_secrethash\<rparr>"

lemma bad_message_refused:
  "state_transition_payment sample_libs 0 None
     (ActionInitInitiatorLight bob_description [alice_hop] bad_message) (bob_channels sample_bob) 4 0 =
   Inr ((None, [EventPaymentSentFailed (replicate 20 7) (replicate 20 9) 2 alice
          (LocksrootDiffers [] (lock_lockhash (sample_lock 10)))]), bob_channels sample_bob_sent, 4)"
proof -
  from sample_bob_send obtain tree where e: "create_sendlockedtransfer sample_libs sample_bob bob alice
      10 4 2 [] 100 sample_secrethash = Inr (sample_event bob alice 4, tree)"
    "sample_bob_sent = upd_our (record_lock (Unsigned (lt_balance_proof (ste_transfer
       (sample_event bob alice 4)))) tree (lt_lock (ste_transfer (sample_event bob alice 4)))) sample_bob"
    by (auto simp: send_lockedtransfer_def res_bind_Inr Let_def)
  have "es_merkletree (our_state sample_bob_sent) = tree" by (simp add: e(2) record_lock_def)
  then have tree: "tree = sample_tree 10" using sample_bob_pending by simp
  have n: "[] \<noteq> lock_lockhash (sample_lock 10)" using sample_lockhash_length [of 10] by force
  have b: "td_payment_network_identifier bob_description = replicate 20 7"
    by (simp add: bob_description_def)
  show ?thesis
    using bob_finds_route e n b unfolding tree
    by (simp add: state_transition_payment_def dispatch_payment_def handle_init_light_def
        try_new_route_light_def bad_message_def Let_def payment_failed_def started_payment_def
        clear_if_finalized_payment_def)
qed

theorem refused_light_transfer_stays_witness:
  "\<exists>l. get_lock (our_state sample_bob_sent) sample_secrethash = Some l \<and> lock_amount l = 10"
  using refused_light_transfer_stays [OF bad_message_refused]
  by (auto simp: bad_message_def split: if_splits)

section \<open>The fee\<close>

text \<open>A route whose channel has the amount but not the fee is chosen, and sending raises.\<close>

lemma fee_is_not_checked:
  assumes "next_channel_from_routes_initiator routes m (td_amount d) (td_initiator d) = Inr (Some (k, c))"
    and "ch_token_network_identifier c = td_token_network_identifier d"
    and "get_distributable (our_state c) (partner_state c) < td_amount d + td_allocated_fee d"
  shows "state_transition_payment L now None (ActionInitInitiator d routes) m g n =
    Inl (AssertionError ''caller must make sure there is enough balance'')"
  using assms
  by (simp add: state_transition_payment_def dispatch_payment_def handle_init_payment_def
      try_new_route_def message_identifier_from_prng_def send_lockedtransfer_initiator_def
      send_lockedtransfer_def create_sendlockedtransfer_def Let_def py_assert_def)

end
