(* ===== verification/ChannelBounds.thy ===== *)
theory ChannelBounds
  imports Samples ChannelSync
begin

text \<open>
  The bounds of a reachable channel: the amounts of a balance proof fit the 256 bits that the
  contract computes with, and the partner never has more locks pending than the contract can unlock
  in one transaction.
\<close>

definition end_bounded :: "NettingChannelEndState \<Rightarrow> bool" where
  "end_bounded e \<longleftrightarrow>
     (case es_balance_proof e of
        None \<Rightarrow> True
      | Some bp \<Rightarrow> 0 < bp_nonce (bp_data bp) \<and> 0 \<le> bp_transferred_amount (bp_data bp) \<and>
          bp_transferred_amount (bp_data bp) + bp_locked_amount (bp_data bp) \<le> UINT256_MAX)"

definition width_bounded :: "NettingChannelEndState \<Rightarrow> bool" where
  "width_bounded e \<longleftrightarrow> length (leaf_list (es_merkletree e)) \<le> MAXIMUM_PENDING_TRANSFERS"

definition bounded :: "NettingChannelState \<Rightarrow> bool" where
  "bounded c \<longleftrightarrow> end_bounded (our_state c) \<and> end_bounded (partner_state c) \<and>
     width_bounded (partner_state c)"

lemma end_boundedD:
  assumes "end_bounded e" "end_ok L e"
  shows "0 \<le> current_transferred_amount e" "0 < get_next_nonce e"
    "current_transferred_amount e + get_amount_locked e \<le> UINT256_MAX"
  using assms
  by (auto simp: end_bounded_def current_transferred_amount_def get_next_nonce_def end_ok_def
      proof_ok_def get_amount_locked_mset UINT256_MAX_def split: option.splits)

lemma end_bounded_same: "es_balance_proof e' = es_balance_proof e \<Longrightarrow> end_bounded e' = end_bounded e"
  by (simp add: end_bounded_def)

lemma width_bounded_same: "es_merkletree e' = es_merkletree e \<Longrightarrow> width_bounded e' = width_bounded e"
  by (simp add: width_bounded_def)

lemma sum_locks_nonneg:
  "(\<And>l. l \<in># M \<Longrightarrow> lock_ok L l) \<Longrightarrow> 0 \<le> sum_mset (image_mset lock_amount M)"
  using lock_ok_amount by (induction M) fastforce+

lemma lock_amount_nonneg:
  assumes "end_ok L e" "get_lock e h = Some l" shows "0 \<le> lock_amount l"
  using lock_ok_amount end_okD(4) [OF assms(1)] get_lock_SomeD(2) [OF end_okD(1) [OF assms(1)] assms(2)]
  by blast

text \<open>An end whose new balance proof is within the bounds.\<close>

lemma end_bounded_proof:
  assumes "end_bounded e0" "end_ok L e0" "es_balance_proof e = Some bp"
    and "bp_nonce (bp_data bp) = get_next_nonce e0" "0 \<le> bp_transferred_amount (bp_data bp)"
    and "bp_transferred_amount (bp_data bp) + bp_locked_amount (bp_data bp) \<le> UINT256_MAX"
  shows "end_bounded e"
  using assms(3-) end_boundedD(2) [OF assms(1,2)] by (simp add: end_bounded_def)

section \<open>Sending\<close>

lemma create_send_bounds:
  assumes b: "end_bounded (our_state c)" "end_ok L (our_state c)"
    and sent: "create_sendlockedtransfer L c i t amount m p ph x h = Inr (ev, tree)"
  shows "bp_nonce (lt_balance_proof (ste_transfer ev)) = get_next_nonce (our_state c)"
    "0 \<le> bp_transferred_amount (lt_balance_proof (ste_transfer ev))"
    "bp_transferred_amount (lt_balance_proof (ste_transfer ev))
       + bp_locked_amount (lt_balance_proof (ste_transfer ev)) \<le> UINT256_MAX"
proof -
  from sent obtain lock bp where *: "lt_balance_proof (ste_transfer ev) = bp"
    "mk_HashTimeLockState L amount x h = Inr lock"
    "amount \<le> get_distributable (our_state c) (partner_state c)"
    "bp_nonce bp = get_next_nonce (our_state c)"
    "bp_transferred_amount bp = current_transferred_amount (our_state c)"
    "bp_locked_amount bp = get_amount_locked (our_state c) + amount"
    by (rule create_sendlockedtransferD)
  note d = end_boundedD [OF b]
  have "amount \<le> UINT256_MAX - current_transferred_amount (our_state c)
      - get_amount_locked (our_state c)"
    using *(3) d(3) current_locked_ok [OF b(2)] by (auto simp: distributable_parts)
  with * d show "bp_nonce (lt_balance_proof (ste_transfer ev)) = get_next_nonce (our_state c)"
    "0 \<le> bp_transferred_amount (lt_balance_proof (ste_transfer ev))"
    "bp_transferred_amount (lt_balance_proof (ste_transfer ev))
       + bp_locked_amount (lt_balance_proof (ste_transfer ev)) \<le> UINT256_MAX"
    by simp_all
qed

lemma send_bounds:
  assumes b: "end_bounded (our_state c)" "end_ok L (our_state c)"
    and sent: "create_sendlockedtransfer L c i t amount m p ph x h = Inr (ev, tree)"
  shows "end_bounded (record_lock (Unsigned (lt_balance_proof (ste_transfer ev))) tree l (our_state c))"
  using create_send_bounds [OF assms] by - (rule end_bounded_proof [OF b], simp, simp_all)

lemma send_unlock_bounds:
  assumes b: "end_bounded (our_state c)" "end_ok L (our_state c)"
    and sent: "send_unlock L c m p secret h lc = Inr (u, c')"
  shows "end_bounded (our_state c') \<and> partner_state c' = partner_state c"
proof -
  from sent obtain l tree e where s: "get_lock (our_state c) h = Some l"
    "create_unlock L c m p secret l lc = Inr (u, tree)"
    "del_lock (lock_secrethash l) (set_proof (Unsigned (sbp_balance_proof u)) tree (our_state c))
       = Inr e" "c' = c\<lparr>our_state := e\<rparr>"
    by (auto simp: send_unlock_def res_simps split: option.splits)
  from s(2) obtain bp where *: "sbp_balance_proof u = bp" "bp_nonce bp = get_next_nonce (our_state c)"
    "bp_transferred_amount bp = current_transferred_amount (our_state c) + lock_amount l"
    "bp_locked_amount bp = get_amount_locked (our_state c) - lock_amount l"
    by (rule create_unlockD)
  have e: "es_balance_proof e = Some (Unsigned bp)"
    using s(3) *(1) by (auto simp: del_lock_def Let_def res_simps del_unclaimed_lock_def set_proof_def)
  have "end_bounded e"
    using * end_boundedD [OF b] lock_amount_nonneg [OF b(2) s(1)]
    by (intro end_bounded_proof [OF b e]) simp_all
  with s(4) show ?thesis by simp
qed

lemma send_expired_bounds:
  assumes b: "end_bounded (our_state c)" "end_ok L (our_state c)"
    and l: "get_lock (our_state c) (lock_secrethash l) = Some l"
    and sent: "events_for_expired_lock L c l g = Inr (evs, c', g')"
  shows "end_bounded (our_state c') \<and> partner_state c' = partner_state c"
proof -
  from sent obtain r g2 where r: "create_sendexpiredlock L (our_state c) l g (ch_chain_id c)
      (ch_token_network_identifier c) (ch_identifier c) (es_address (partner_state c)) = Inr (r, g2)"
    "case r of None \<Rightarrow> c' = c
     | Some (ev, t) \<Rightarrow> c' = c\<lparr>our_state := del_unclaimed_lock (lock_secrethash l)
         (set_proof (Unsigned (sle_balance_proof ev)) t (our_state c))\<rparr>"
    by (auto simp: events_for_expired_lock_def res_simps split: option.splits)
  show ?thesis
  proof (cases r)
    case None
    then show ?thesis using r b by simp
  next
    case (Some x)
    obtain ev t where x: "x = (ev, t)" by (cases x)
    from r(1) Some x obtain bp where *: "sle_balance_proof ev = bp"
      "bp_nonce bp = get_next_nonce (our_state c)"
      "bp_transferred_amount bp = current_transferred_amount (our_state c)"
      "bp_locked_amount bp = get_amount_locked (our_state c) - lock_amount l"
      by (auto elim!: create_sendexpiredlockD)
    have "end_bounded (del_unclaimed_lock (lock_secrethash l) (set_proof (Unsigned bp) t (our_state c)))"
      using * end_boundedD [OF b] lock_amount_nonneg [OF b(2) l]
      by - (rule end_bounded_proof [OF b], simp, simp_all)
    then show ?thesis using r(2) Some x *(1) by simp
  qed
qed


section \<open>Receiving\<close>

text \<open>A received proof that is usable is within the bounds, if its transferred amount is not negative.\<close>

lemma usable_bounds:
  assumes b: "end_bounded e0" "end_ok L e0"
    and u: "is_balance_proof_usable_onchain L bp c e0 = Inr None"
    and t: "0 \<le> bp_transferred_amount bp" and e: "es_balance_proof e = Some (Signed bp)"
  shows "end_bounded e"
  using u t e unfolding usable_iff by - (rule end_bounded_proof [OF b e], simp_all)

lemma receive_transfer_bounds:
  assumes b: "end_bounded (partner_state c)" "end_ok L (partner_state c)"
    and ok: "valid_lockedtransfer_check L now c (partner_state c) receiver name bp lock invoice st =
      Inr (Inr (tree, r), st')" and lock: "lock_ok L lock" and L: "keccak_ok L"
  shows "end_bounded (record_lock (Signed bp) tree lock (partner_state c)) \<and>
    width_bounded (record_lock (Signed bp) tree lock (partner_state c))"
proof -
  note ok = ok [unfolded lockedtransfer_iff]
  have "end_bounded (record_lock (Signed bp) tree lock (partner_state c))"
    using ok end_boundedD(1) [OF b] by (intro usable_bounds [OF b, of bp c]) simp_all
  moreover have "merkle_ok L tree"
    using mt.addD [OF end_okD(5) [OF b(2)] lock_ok_leaf [OF L lock]] ok by blast
  then have "merkletree_width tree = Inr (length (leaf_list tree))"
    by (rule merkletree_width_leaves)
  then have "width_bounded (record_lock (Signed bp) tree lock (partner_state c))"
    using ok by (auto simp: width_bounded_def)
  ultimately show ?thesis ..
qed

lemma receive_unlock_bounds:
  assumes b: "end_bounded (partner_state c)" "end_ok L (partner_state c)" "width_bounded (partner_state c)"
    and ok: "is_valid_unlock L ru c (partner_state c) = Inr (Inr tree)"
    and e: "del_lock (ru_secrethash ru) (set_proof (Signed (ru_balance_proof ru)) tree (partner_state c))
      = Inr e"
  shows "end_bounded e \<and> width_bounded e"
proof -
  from ok [unfolded unlock_iff] obtain l where l:
    "get_lock (partner_state c) (ru_secrethash ru) = Some l"
    "compute_merkletree_without L (es_merkletree (partner_state c)) (lock_lockhash l) = Inr (Some tree)"
    "is_balance_proof_usable_onchain L (ru_balance_proof ru) c (partner_state c) = Inr None"
    "bp_transferred_amount (ru_balance_proof ru) =
       current_transferred_amount (partner_state c) + lock_amount l" by blast
  have sel: "es_balance_proof e = Some (Signed (ru_balance_proof ru))" "es_merkletree e = tree"
    using e by (auto simp: del_lock_def Let_def res_simps del_unclaimed_lock_def set_proof_def)
  have "end_bounded e"
    using l(4) end_boundedD(1) [OF b(1,2)] lock_amount_nonneg [OF b(2) l(1)]
    by (intro usable_bounds [OF b(1,2) l(3) _ sel(1)]) simp
  then show ?thesis
    using mt.remove_width [OF end_okD(5) [OF b(2)] l(2)] b(3) sel(2) by (simp add: width_bounded_def)
qed

lemma receive_expired_bounds:
  assumes b: "end_bounded (partner_state c)" "end_ok L (partner_state c)" "width_bounded (partner_state c)"
    and ok: "is_valid_lock_expired L sc c (partner_state c) receiver n = Inr (Inr tree)"
  shows "end_bounded (del_unclaimed_lock h (set_proof (Signed (rle_balance_proof sc)) tree
        (partner_state c))) \<and>
    width_bounded (del_unclaimed_lock h (set_proof (Signed (rle_balance_proof sc)) tree
        (partner_state c)))"
proof -
  obtain l :: HashTimeLockState where l:
    "compute_merkletree_without L (es_merkletree (partner_state c)) (lock_lockhash l) = Inr (Some tree)"
    "is_balance_proof_usable_onchain L (rle_balance_proof sc) c (partner_state c) = Inr None"
    "bp_transferred_amount (rle_balance_proof sc) = current_transferred_amount (partner_state c)"
    using ok [unfolded lock_expired_iff] by blast
  have "end_bounded (del_unclaimed_lock h (set_proof (Signed (rle_balance_proof sc)) tree
      (partner_state c)))"
    using l(3) end_boundedD(1) [OF b(1,2)] by (intro usable_bounds [OF b(1,2) l(2)]) simp_all
  then show ?thesis
    using mt.remove_width [OF end_okD(5) [OF b(2)] l(1)] b(3) by (simp add: width_bounded_def)
qed

section \<open>Every reachable channel\<close>

lemma channel_step_bounds:
  assumes L: "keccak_ok L" and c: "channel_ok L c" and b: "bounded c" and step: "channel_step L c c'"
  shows "bounded c'"
  using step
proof (cases rule: channel_step.cases)
  note our = channel_okD(1) [OF c] and partner = channel_okD(2) [OF c]
  note b = b [unfolded bounded_def]
  {
    case (send_transfer h i t amount m p ph x ev)
    then show ?thesis
      using b send_bounds [OF _ our] by (auto simp: bounded_def send_lockedtransfer_def res_simps Let_def)
  next
    case (send_refund h i t amount m p x ev)
    then show ?thesis
      using b send_bounds [OF _ our] by (auto simp: bounded_def send_refundtransfer_def res_simps Let_def)
  next
    case (send_unlock m p secret h lc unlock)
    then show ?thesis using b send_unlock_bounds [OF _ our] by (simp add: bounded_def)
  next
    case (send_expired lock g evs g')
    then show ?thesis using b send_expired_bounds [OF _ our] by (simp add: bounded_def)
  next
    case (learn_secret secret h)
    have "refiled (our_state c) (register_secret_endstate secret h (our_state c))"
      "refiled (partner_state c) (register_secret_endstate secret h (partner_state c))"
      using register_secret_refiled end_okD(1) our partner by blast+
    then show ?thesis
      using b learn_secret by (simp add: bounded_def register_offchain_secret_def refiled_def
          end_bounded_def width_bounded_def)
  next
    case (learn_onchain_secret secret h n)
    then obtain o' p' where
      "register_onchain_secret_endstate secret h n True (our_state c) = Inr o'"
      "register_onchain_secret_endstate secret h n True (partner_state c) = Inr p'"
      "c' = c\<lparr>our_state := o', partner_state := p'\<rparr>"
      by (auto simp: register_onchain_secret_def res_simps)
    moreover from this have "refiled (our_state c) o'" "refiled (partner_state c) p'"
      using register_onchain_refiled end_okD(1) our partner by blast+
    ultimately show ?thesis
      using b by (simp add: bounded_def refiled_def end_bounded_def width_bounded_def)
  next
    case (receive_transfer tr evs now st out st')
    from receive_transfer(3) show ?thesis
    proof (cases rule: receive_lockedtransfer_cases)
      case (accepted tree invoice)
      then show ?thesis
        using b receive_transfer_bounds [OF _ partner _ receive_transfer(1) L]
        by (auto simp: bounded_def is_valid_lockedtransfer_def)
    qed (use assms in simp)
  next
    case (receive_refund refund now original out')
    obtain evs msg where o: "out' = (evs, msg)" by (cases out')
    from receive_refund(3) [unfolded o] show ?thesis
    proof (cases rule: handle_refundtransfer_cases)
      case (accepted tree)
      then show ?thesis
        using b receive_transfer_bounds [OF _ partner _ receive_refund(1) L]
        by (auto simp: bounded_def refund_iff)
    qed (use assms in simp)
  next
    case (receive_expired sc n evs)
    then show ?thesis
    proof (cases rule: receive_lock_expired_cases)
      case (accepted tree)
      then show ?thesis using b receive_expired_bounds [OF _ partner] by (auto simp: bounded_def)
    qed (use assms in simp)
  next
    case (receive_unlock evs ru out'')
    obtain es msg where o: "out'' = (es, msg)" by (cases out'')
    from receive_unlock [unfolded o] show ?thesis
    proof (cases rule: receive_unlock_cases)
      case (accepted tree e)
      then show ?thesis using b receive_unlock_bounds [OF _ partner] by (auto simp: bounded_def)
    qed (use assms in simp)
  next
    case (chain change n hash evs)
    then show ?thesis
      using b state_transition_change [OF chain]
      by (simp add: bounded_def chain_change_def topped_up_def end_bounded_def width_bounded_def)
  }
qed

lemma reachable_bounds:
  assumes L: "keccak_ok L" and c: "reachable L c"
  shows "bounded c"
  using c
proof (induction rule: reachable.induct)
  case (new c)
  then show ?case
    by (auto simp: new_channel_def mk_NettingChannelState_def bounded_def end_bounded_def
        width_bounded_def mk_NettingChannelEndState_def res_simps MAXIMUM_PENDING_TRANSFERS_def
        split: if_splits)
next
  case (step c c')
  then show ?case using channel_step_bounds [OF L] reachable_inv [OF L] by blast
qed

lemma end_proof_bounds:
  assumes "keccak_ok L" "end_ok L e" "end_bounded e" "es_balance_proof e = Some bp"
  shows "0 < bp_nonce (bp_data bp)" "0 \<le> bp_transferred_amount (bp_data bp)"
    "0 \<le> bp_locked_amount (bp_data bp)"
    "bp_transferred_amount (bp_data bp) + bp_locked_amount (bp_data bp) \<le> UINT256_MAX"
    "length (bp_locksroot (bp_data bp)) = 32"
proof -
  have p: "bp_locked_amount (bp_data bp) = get_amount_locked e"
    "merkleroot (es_merkletree e) = Inr (bp_locksroot (bp_data bp))"
    using end_okD(3) [OF assms(2)] assms(4) by (simp_all add: proof_ok_def)
  show "0 \<le> bp_locked_amount (bp_data bp)"
    unfolding p(1) get_amount_locked_mset by (rule sum_locks_nonneg [OF end_okD(4) [OF assms(2)]])
  show "length (bp_locksroot (bp_data bp)) = 32"
    using merkleroot_length [OF assms(1) end_okD(5) [OF assms(2)] p(2)] .
qed (use assms(3,4) in \<open>simp_all add: end_bounded_def\<close>)

text \<open>C17. The balance proofs of a reachable channel stay within what the contract can represent: the
  nonce is positive, the transferred and the locked amount are not negative and their sum fits
  256 bits, and the locksroot has 32 bytes.\<close>

theorem balance_proofs_in_bounds:
  assumes "keccak_ok L" and "reachable L c" and "e = our_state c \<or> e = partner_state c"
    and "es_balance_proof e = Some bp"
  shows "0 < bp_nonce (bp_data bp) \<and> 0 \<le> bp_transferred_amount (bp_data bp) \<and>
    0 \<le> bp_locked_amount (bp_data bp) \<and>
    bp_transferred_amount (bp_data bp) + bp_locked_amount (bp_data bp) \<le> UINT256_MAX \<and>
    length (bp_locksroot (bp_data bp)) = 32"
  using end_proof_bounds [OF assms(1) _ _ assms(4)] reachable_ends [OF assms(1,2)]
    reachable_bounds [OF assms(1,2)] assms(3) by (auto simp: bounded_def)

theorem balance_proofs_in_bounds_witness:
  "bp_transferred_amount (bp_data (Unsigned (sample_proof 10)))
     + bp_locked_amount (bp_data (Unsigned (sample_proof 10))) \<le> UINT256_MAX"
  using balance_proofs_in_bounds [OF sample_keccak_ok sample_bob_sent_reachable disjI1 [OF refl],
      of "Unsigned (sample_proof 10)"]
  by (simp add: sample_bob_sent_sel)



end
