(* ===== verification/WireProperties.thy ===== *)
theory WireProperties
  imports Samples
begin

text \<open>
  Properties of the data that leaves a channel: the fields of a message buffer, the packed lock,
  the merkle tree that commits to the locks, the bytes a balance proof signs, the deposit queue and
  the invoices.
\<close>

section \<open>Message buffers\<close>

text \<open>Assigning a field of a message buffer stores exactly that value (bytes that are too short
  are padded on the left), leaves every other field as it was and keeps the length.\<close>

theorem buffer_field_assignment:
  assumes "namedbuffer bn spec = Inr spec" and "buffer_setattr spec data name v = Inr data'"
    and "spec_size spec \<le> length data"
  shows "length data' = length data \<and>
    (\<exists>f. dict_get (names_fields spec) name = Some f \<and>
      buffer_getattr spec data' name = Inr (read_back (size_bytes f) v)) \<and>
    (name' \<noteq> name \<and> name' \<noteq> ''data'' \<longrightarrow>
      buffer_getattr spec data' name' = buffer_getattr spec data name')"
  using buffer_setattr_length [OF assms] buffer_set_get_same [OF assms]
    buffer_set_get_other [OF assms] by blast

theorem buffer_field_assignment_witness:
  "\<exists>data'. buffer_setattr Processed_spec (buffer_for Processed_spec) ''message_identifier'' (FInt 77)
      = Inr data' \<and> length data' = 77 \<and>
    buffer_getattr Processed_spec data' ''message_identifier'' = Inr (FInt 77)"
proof -
  have nb: "namedbuffer ''processed'' Processed_spec = Inr Processed_spec"
    by (simp add: namedbuffer_def Processed_spec_def names_fields_def field_kind_defs)
  have "\<exists>d. buffer_setattr Processed_spec (buffer_for Processed_spec) ''message_identifier''
      (FInt 77) = Inr d"
    by (simp add: buffer_setattr_def compute_slices_def names_fields_def Processed_spec_def
        field_kind_defs encode_value_def integer_validate_def integer_encode_def UINT64_MAX_def)
  then obtain d where d: "buffer_setattr Processed_spec (buffer_for Processed_spec)
      ''message_identifier'' (FInt 77) = Inr d" by blast
  have l: "length (buffer_for Processed_spec) = 77" "spec_size Processed_spec = 77"
    by (simp_all add: buffer_for_def spec_size_def Processed_spec_def field_kind_defs)
  show ?thesis
    using buffer_field_assignment [OF nb d] l d by auto
qed

text \<open>Every layout in the table of messages is accepted by the class factory, has its command
  in the first byte and the signature in its last 65 bytes, and its command byte admits only its
  own command.\<close>

theorem message_layouts:
  "list_all (\<lambda>(i, spec).
     namedbuffer ''message'' spec = Inr spec \<and>
     dict_get (compute_slices spec) ''cmdid'' = Some (0, 1) \<and>
     dict_get (compute_slices spec) ''signature'' = Some (spec_size spec - 65, spec_size spec) \<and>
     dict_get (names_fields spec) ''cmdid'' = Some (Field ''cmdid'' 1 (Some (i, i))))
     CMDID_MESSAGE"
  by (simp add: CMDID_MESSAGE_def spec_defs namedbuffer_def names_fields_def compute_slices_def
      spec_size_def field_kind_defs)

text \<open>Data that starts with a known command but is shorter than its message is not answered
  with None: the exception of the constructor leaves \<open>wrap\<close>.\<close>

theorem wrap_raises_on_short_data:
  assumes "dict_get CMDID_MESSAGE (uint b) = Some spec" "length (b # rest) < spec_size spec"
  shows "wrap (b # rest) = Inl InvalidProtocolMessage"
  using assms by (simp add: wrap_def wrap_buffer_def)

theorem wrap_raises_on_short_data_witness: "wrap [0] = Inl InvalidProtocolMessage"
  by (rule wrap_raises_on_short_data [of _ Processed_spec])
    (simp_all add: CMDID_MESSAGE_def PROCESSED_def spec_size_def Processed_spec_def field_kind_defs)

section \<open>Locks and the merkle tree\<close>

text \<open>The packed form of a lock determines its amount, its expiration and its secrethash.\<close>

theorem lock_encoding_injective:
  assumes "mk_HashTimeLockState L a x h = Inr l" "mk_HashTimeLockState M b y k = Inr l'"
    and "length h = 32" "length k = 32" and "lock_encoded l = lock_encoded l'"
  shows "a = b \<and> x = y \<and> h = k"
proof -
  have "lock_ok L l" "lock_ok M l'" using assms(1,2) lock_okI by auto
  moreover have "lock_amount l = a" "lock_expiration l = x" "lock_secrethash l = h"
    "lock_amount l' = b" "lock_expiration l' = y" "lock_secrethash l' = k"
    using assms(1,2) by (auto simp: mk_lock_iff)
  ultimately show ?thesis using encoded_fields [of L l M l'] assms(3-5) by simp
qed

theorem lock_encoding_injective_witness:
  "lock_encoded (sample_lock 10) \<noteq> lock_encoded (sample_lock 5)"
  using lock_encoding_injective [OF sample_lock_made [of 10] sample_lock_made [of 5]]
  by (auto simp: UINT256_MAX_def)

text \<open>C35. The tree does not depend on the order in which the hashes are given: two lists with the
  same hashes have the same layers, or are refused with the same exception.\<close>

theorem merkle_order_independent:
  assumes "mset xs = mset ys"
  shows "compute_layers L xs = compute_layers L ys"
proof -
  have "set xs = set ys" using assms by (metis set_mset_mset)
  moreover have "distinct xs = distinct ys" using assms by (metis mset_eq_imp_distinct_iff)
  moreover have "xs = [] \<longleftrightarrow> ys = []" using assms by auto
  ultimately show ?thesis
    using sort_perm_eq [OF assms] by (simp add: compute_layers_def)
qed

theorem merkle_order_independent_witness:
  "compute_layers sample_libs [replicate 32 2, replicate 32 1] =
     compute_layers sample_libs [replicate 32 1, replicate 32 2]"
  by (rule merkle_order_independent) simp

text \<open>The layers of a tree: the first is the sorted list of leaves, each layer has half as many
  hashes as the one below (rounded up), the last one is the single root, and every hash has 32
  bytes.\<close>

theorem merkle_layers_shape:
  assumes "keccak_ok L" "compute_layers L xs = Inr ls"
  shows "hd ls = sort xs \<and> halving ls \<and> length (last ls) = 1 \<and>
    (\<forall>l \<in> set ls. \<forall>x \<in> set l. length x = 32)"
proof -
  from assms(2) have *: "xs \<noteq> []" "ls = sort xs # layers_above L (sort xs)"
    "\<forall>x \<in> set (sort xs). length x = 32"
    by (auto simp: compute_layers_Inr)
  have "sort xs \<noteq> []" using *(1) by simp
  then show ?thesis
    using * layers_above_halving last_layer_singleton layers_length32 [OF assms(1) *(3)]
    by (auto simp del: last.simps)
qed

theorem merkle_layers_shape_witness:
  "\<exists>ls. compute_layers sample_libs [replicate 32 1, replicate 32 2] = Inr ls \<and>
     length (last ls) = 1"
proof -
  have "(replicate 32 1 :: bytes) \<noteq> replicate 32 2" by (simp add: numeral_eq_Suc)
  then have c: "compute_layers sample_libs [replicate 32 1, replicate 32 2] = Inr
      (sort [replicate 32 1, replicate 32 2] # layers_above sample_libs
        (sort [replicate 32 1, replicate 32 2]))"
    by (simp add: compute_layers_def)
  show ?thesis using merkle_layers_shape [OF sample_keccak_ok c] c by blast
qed

text \<open>C34. Adding a new hash to a channel's tree always succeeds, and removing it again gives back the
  tree, layer by layer.\<close>

theorem merkle_add_remove:
  assumes "merkle_ok L t" "length h = 32" "h \<notin> set (leaf_list t)"
  shows "\<exists>u. compute_merkletree_with L t h = Inr (Some u) \<and>
    set (leaf_list u) = insert h (set (leaf_list t)) \<and>
    compute_merkletree_without L u h = Inr (Some t)"
proof -
  have leaf: "leaf_ok h" using assms(2) by (simp add: leaf_ok_def)
  from mt.add_fresh [OF assms(1) leaf assms(3)] obtain u where
    u: "compute_merkletree_with L t h = Inr (Some u)"
    "set (leaf_list u) = insert h (set (leaf_list t))" by blast
  with mt.add_remove [OF assms(1) leaf u(1)] show ?thesis by blast
qed

theorem merkle_add_remove_witness:
  "\<exists>u. compute_merkletree_with sample_libs make_empty_merkle_tree (replicate 32 1) = Inr (Some u) \<and>
     compute_merkletree_without sample_libs u (replicate 32 1) = Inr (Some make_empty_merkle_tree)"
  using merkle_add_remove [OF merkle_ok_empty, of "replicate 32 1" sample_libs] by auto

section \<open>What a balance proof signs\<close>

text \<open>
  Documented behaviour of the ABI encoder used by \<open>pack_data\<close>: an address and a bytes32 are their
  own bytes, a uint256 is 32 bytes and determined by its value.
\<close>

definition abi_ok :: "libs \<Rightarrow> bool" where
  "abi_ok L \<longleftrightarrow>
     (\<forall>b. length b = 20 \<longrightarrow> hex_encode_abi L AbiAddress (VBytes b) = b) \<and>
     (\<forall>b. length b = 32 \<longrightarrow> hex_encode_abi L AbiBytes32 (VBytes b) = b) \<and>
     (\<forall>i. length (hex_encode_abi L AbiUint256 (VInt i)) = 32) \<and>
     (\<forall>i j. 0 \<le> i \<and> i \<le> UINT256_MAX \<and> 0 \<le> j \<and> j \<le> UINT256_MAX \<and>
        hex_encode_abi L AbiUint256 (VInt i) = hex_encode_abi L AbiUint256 (VInt j) \<longrightarrow> i = j)"

definition uint256 :: "int \<Rightarrow> bool" where
  "uint256 i \<longleftrightarrow> 0 \<le> i \<and> i \<le> UINT256_MAX"

lemma abi_okD:
  assumes "abi_ok L"
  shows "length b = 20 \<Longrightarrow> hex_encode_abi L AbiAddress (VBytes b) = b"
    "length b = 32 \<Longrightarrow> hex_encode_abi L AbiBytes32 (VBytes b) = b"
    "length (hex_encode_abi L AbiUint256 (VInt i)) = 32"
    "uint256 i \<Longrightarrow> uint256 j \<Longrightarrow>
       hex_encode_abi L AbiUint256 (VInt i) = hex_encode_abi L AbiUint256 (VInt j) \<longleftrightarrow> i = j"
  using assms by (auto simp: abi_ok_def uint256_def)

lemma blocks_eqD:
  assumes "a @ b @ c @ d @ e @ f @ g = a' @ b' @ c' @ d' @ e' @ f' @ g'"
    and "length a = length a'" "length b = length b'" "length c = length c'" "length d = length d'"
    and "length e = length e'" "length f = length f'"
  shows "a = a'" "b = b'" "c = c'" "d = d'" "e = e'" "f = f'" "g = g'"
  using assms by simp_all

text \<open>The values that a balance proof of a channel has.\<close>

definition packable :: "int \<Rightarrow> bytes \<Rightarrow> bytes \<Rightarrow> CanonicalIdentifier \<Rightarrow> bool" where
  "packable nonce balance_hash additional_hash ci \<longleftrightarrow>
     uint256 nonce \<and> length balance_hash = 32 \<and> length additional_hash = 32 \<and>
     uint256 (chain_identifier ci) \<and> uint256 (channel_identifier ci) \<and>
     length (token_network_address ci) = 20"

text \<open>C33. The bytes that a balance proof signs determine the chain, the token network, the channel,
  the kind of the message, the nonce, the balance hash and the additional hash: a signature cannot
  be replayed in another channel, on another chain or for another nonce.\<close>

theorem packed_proof_binds_channel:
  assumes "abi_ok L" "packable n bh ah ci" "packable n' bh' ah' ci'"
    and "uint256 (message_type_id L m)" "uint256 (message_type_id L m')"
    and "pack_balance_proof L n bh ah ci m = Inr data" "pack_balance_proof L n' bh' ah' ci' m' = Inr data"
  shows "n = n' \<and> bh = bh' \<and> ah = ah' \<and> ci = ci' \<and> message_type_id L m = message_type_id L m'"
proof -
  note abi = abi_okD [OF assms(1)]
  have p: "uint256 n" "uint256 n'" "length bh = 32" "length bh' = 32" "length ah = 32"
    "length ah' = 32" "uint256 (chain_identifier ci)" "uint256 (chain_identifier ci')"
    "uint256 (channel_identifier ci)" "uint256 (channel_identifier ci')"
    "length (token_network_address ci) = 20" "length (token_network_address ci') = 20"
    using assms(2,3) by (simp_all add: packable_def)
  have eq: "token_network_address ci @ hex_encode_abi L AbiUint256 (VInt (chain_identifier ci)) @
      hex_encode_abi L AbiUint256 (VInt (message_type_id L m)) @
      hex_encode_abi L AbiUint256 (VInt (channel_identifier ci)) @ bh @
      hex_encode_abi L AbiUint256 (VInt n) @ ah =
    token_network_address ci' @ hex_encode_abi L AbiUint256 (VInt (chain_identifier ci')) @
      hex_encode_abi L AbiUint256 (VInt (message_type_id L m')) @
      hex_encode_abi L AbiUint256 (VInt (channel_identifier ci')) @ bh' @
      hex_encode_abi L AbiUint256 (VInt n') @ ah'"
    using assms(6,7) p by (simp add: pack_balance_proof_def pack_data_def abi)
  have e: "token_network_address ci = token_network_address ci'"
    "hex_encode_abi L AbiUint256 (VInt (chain_identifier ci)) =
       hex_encode_abi L AbiUint256 (VInt (chain_identifier ci'))"
    "hex_encode_abi L AbiUint256 (VInt (message_type_id L m)) =
       hex_encode_abi L AbiUint256 (VInt (message_type_id L m'))"
    "hex_encode_abi L AbiUint256 (VInt (channel_identifier ci)) =
       hex_encode_abi L AbiUint256 (VInt (channel_identifier ci'))"
    "bh = bh'" "hex_encode_abi L AbiUint256 (VInt n) = hex_encode_abi L AbiUint256 (VInt n')" "ah = ah'"
    by (rule blocks_eqD [OF eq]; simp only: p abi(3))+
  have "n = n'" "message_type_id L m = message_type_id L m'"
    "chain_identifier ci = chain_identifier ci'" "channel_identifier ci = channel_identifier ci'"
    using e(2,3,4,6) abi(4) p assms(4,5) by blast+
  with e show ?thesis by simp
qed

lemma sample_abi_ok: "abi_ok sample_libs"
  by (auto simp: abi_ok_def sample_libs_def UINT256_MAX_def intro: be_bytes_inject [of 32])

theorem packed_proof_binds_channel_witness:
  "pack_balance_proof sample_libs 1 (replicate 32 0) (replicate 32 0) sample_ci BALANCE_PROOF \<noteq>
     pack_balance_proof sample_libs 1 (replicate 32 0) (replicate 32 0)
       (sample_ci\<lparr>channel_identifier := 2\<rparr>) BALANCE_PROOF"
proof
  let ?ci = "sample_ci\<lparr>channel_identifier := 2\<rparr>"
  assume same: "pack_balance_proof sample_libs 1 (replicate 32 0) (replicate 32 0) sample_ci
      BALANCE_PROOF = pack_balance_proof sample_libs 1 (replicate 32 0) (replicate 32 0) ?ci
      BALANCE_PROOF"
  obtain d where d: "pack_balance_proof sample_libs 1 (replicate 32 0) (replicate 32 0) sample_ci
      BALANCE_PROOF = Inr d" using pack_balance_proof_total by blast
  have p: "packable 1 (replicate 32 0) (replicate 32 0) sample_ci"
    "packable 1 (replicate 32 0) (replicate 32 0) ?ci"
    "uint256 (message_type_id sample_libs BALANCE_PROOF)"
    by (simp_all add: packable_def uint256_def sample_ci_def UINT256_MAX_def sample_libs_def)
  have "sample_ci = ?ci"
    using packed_proof_binds_channel [OF sample_abi_ok p(1,2,3,3) d trans [OF same [symmetric] d]]
    by (elim conjE)
  then show False by (simp add: sample_ci_def)
qed

section \<open>The deposit queue and invoices\<close>

text \<open>The queue of deposits is a priority queue: pushing keeps it one and adds the deposit,
  popping a non-empty queue returns a least deposit (by block number first), leaves the others, and
  what is popped next is not smaller.\<close>

theorem deposit_queue_order:
  fixes q :: "TransactionOrder list"
  assumes "heap_ok q"
  shows "heap_ok (heappush q x) \<and> mset (heappush q x) = add_mset x (mset q) \<and>
    (heappop q = Inr (y, r) \<longrightarrow> heap_ok r \<and> mset q = add_mset y (mset r) \<and>
      (\<forall>z \<in># mset q. order_block_number y \<le> order_block_number z)) \<and>
    (heappop q = Inr (y, r) \<and> heappop r = Inr (z, s) \<longrightarrow> y \<le> z)"
proof (intro conjI; (intro impI)?; (elim conjE)?)
  show "heap_ok (heappush q x)" "mset (heappush q x) = add_mset x (mset q)"
    using hq.push_ok [OF assms] hq.push_items [OF assms] by simp_all
  show "heap_ok r \<and> mset q = add_mset y (mset r) \<and>
      (\<forall>z \<in># mset q. order_block_number y \<le> order_block_number z)" if "heappop q = Inr (y, r)"
    using hq.popD [OF assms that] order_le_block by blast
  show "y \<le> z" if "heappop q = Inr (y, r)" "heappop r = Inr (z, s)"
    by (rule hq.pops_ascend [OF assms that])
qed

theorem deposit_queue_order_witness:
  "mset (heappush [TransactionOrder 5 (TransactionChannelNewBalance alice 1 5)]
      (TransactionOrder 3 (TransactionChannelNewBalance bob 2 3))) =
   {#TransactionOrder 3 (TransactionChannelNewBalance bob 2 3),
     TransactionOrder 5 (TransactionChannelNewBalance alice 1 5)#}"
  using deposit_queue_order [of "[TransactionOrder 5 (TransactionChannelNewBalance alice 1 5)]"]
  by (simp add: heap_ok_def)

text \<open>An invoice that is pending is accepted once: it is then marked as paid, other invoices are
  untouched, and every later payment of it is refused.\<close>

theorem invoice_accepted_once:
  assumes "h \<noteq> []" "query_invoice rows h = Some invoice" "inv_status invoice = PENDING"
  shows "handle_received_invoice now (Some rows) h = Inr (None, Some (update_invoice rows h PAID)) \<and>
    (\<exists>e. handle_received_invoice now' (Some (update_invoice rows h PAID)) h =
      Inr (Some e, Some (update_invoice rows h PAID))) \<and>
    (k \<noteq> h \<longrightarrow> query_invoice (update_invoice rows h PAID) k = query_invoice rows k)"
proof (intro conjI impI)
  show "handle_received_invoice now (Some rows) h = Inr (None, Some (update_invoice rows h PAID))"
    using assms by (simp add: handle_received_invoice_def EMPTY_PAYMENT_HASH_INVOICE_def)
  show "\<exists>e. handle_received_invoice now' (Some (update_invoice rows h PAID)) h =
      Inr (Some e, Some (update_invoice rows h PAID))"
    using assms by (simp add: handle_received_invoice_def EMPTY_PAYMENT_HASH_INVOICE_def
        query_update_same)
qed (simp add: query_update_other)

theorem invoice_accepted_once_witness:
  "handle_received_invoice 10 (Some [\<lparr>inv_payment_hash = [1], inv_status = PENDING,
     inv_expiration_date = 1000\<rparr>]) [1] =
   Inr (None, Some (update_invoice [\<lparr>inv_payment_hash = [1], inv_status = PENDING,
     inv_expiration_date = 1000\<rparr>] [1] PAID))"
  using invoice_accepted_once [of "[1]" "[\<lparr>inv_payment_hash = [1], inv_status = PENDING,
     inv_expiration_date = 1000\<rparr>]" "\<lparr>inv_payment_hash = [1], inv_status = PENDING,
     inv_expiration_date = 1000\<rparr>" 10]
  by (simp add: query_invoice_def)

end
