(* ===== verification/Messages.thy ===== *)
theory Messages
  imports Encoding Signing
begin

text \<open>
  The messages of \<open>raiden/messages.py\<close>: their classes with the checks of the constructors, the binary
  form that is hashed and signed, and the dictionary that travels as JSON.  A message object is its
  content, a value of the datatype \<open>message\<close> with one constructor per class, and its signature; the
  functions of a class are named after it (\<open>Unlock_pack\<close> is \<open>Unlock.pack\<close>).

  \<open>encode_hex\<close>, \<open>decode_hex\<close>, \<open>to_normalized_address\<close> and \<open>to_canonical_address\<close> of eth\_utils are
  fields of the record \<open>codec\<close>; \<open>decode_hex\<close> is None for its \<open>binascii.Error\<close>, which is a
  \<open>ValueError\<close>.  A value of another JSON type than a class expects raises a \<open>TypeError\<close> here when
  it is read; Python raises it when the value is used, or keeps it.
\<close>

section \<open>Classes\<close>

text \<open>The class \<open>Lock\<close>, and the fields that envelope messages share.\<close>

record MessageLock =
  ml_amount :: int
  ml_expiration :: int
  ml_secrethash :: bytes

record Envelope =
  ev_chain_id :: int
  ev_message_identifier :: int
  ev_nonce :: int
  ev_transferred_amount :: int
  ev_locked_amount :: int
  ev_locksroot :: bytes
  ev_channel_identifier :: int
  ev_token_network_address :: bytes

text \<open>What a transfer has besides.\<close>

record TransferContent =
  tc_payment_identifier :: int
  tc_payment_hash_invoice :: bytes
  tc_token :: bytes
  tc_recipient :: bytes
  tc_lock :: MessageLock
  tc_target :: bytes
  tc_initiator :: bytes
  tc_fee :: int

record SecretRequestContent =
  sq_message_identifier :: int
  sq_payment_identifier :: int
  sq_secrethash :: bytes
  sq_amount :: int
  sq_expiration :: int

datatype message =
    Processed int
  | ToDevice int
  | Delivered int
  | Pong int
  | Ping int int
  | SecretRequest SecretRequestContent
  | Unlock Envelope int bytes
  | RevealSecret int bytes
  | LockedTransfer Envelope TransferContent
  | RefundTransfer Envelope TransferContent
  | LockExpired Envelope bytes bytes

record Message =
  msg_content :: message
  msg_signature :: bytes

section \<open>Constructors\<close>

text \<open>\<open>if c: raise ValueError(text)\<close> before the rest.\<close>

definition reject :: "bool \<Rightarrow> string \<Rightarrow> 'a result \<Rightarrow> 'a result" where
  "reject c text k = (if c then Inl (ValueError text) else k)"

lemma reject_Inr [res_simps]: "reject c text k = Inr x \<longleftrightarrow> \<not> c \<and> k = Inr x"
  by (simp add: reject_def)

definition assert_envelope_values :: "int \<Rightarrow> int \<Rightarrow> int \<Rightarrow> int \<Rightarrow> bytes \<Rightarrow> unit result" where
  "assert_envelope_values nonce channel_id transferred_amount locked_amount locksroot =
     reject (nonce \<le> 0) ''nonce cannot be zero or negative''
     (reject (nonce > UINT64_MAX) ''nonce is too large''
     (reject (channel_id < 0) ''channel id cannot be negative''
     (reject (channel_id > UINT256_MAX) ''channel id is too large''
     (reject (transferred_amount < 0) ''transferred_amount cannot be negative''
     (reject (transferred_amount > UINT256_MAX) ''transferred_amount is too large''
     (reject (locked_amount < 0) ''locked_amount cannot be negative''
     (reject (locked_amount > UINT256_MAX) ''locked_amount is too large''
     (reject (length locksroot \<noteq> 32) ''locksroot must have length 32'' (Inr ())))))))))"

definition assert_transfer_values :: "int \<Rightarrow> bytes \<Rightarrow> bytes \<Rightarrow> unit result" where
  "assert_transfer_values payment_identifier token recipient =
     reject (payment_identifier < 0) ''payment_identifier cannot be negative''
     (reject (payment_identifier > UINT64_MAX) ''payment_identifier is too large''
     (reject (length token \<noteq> 20) ''token is an invalid address''
     (reject (length recipient \<noteq> 20) ''recipient is an invalid address'' (Inr ()))))"

text \<open>\<open>ishash\<close> also accepts the object \<open>Secret(b"")\<close> itself, which no received lock is.\<close>

definition mk_MessageLock :: "int \<Rightarrow> int \<Rightarrow> bytes \<Rightarrow> MessageLock result" where
  "mk_MessageLock amount expiration secrethash =
     reject (amount < 0) ''amount needs to be positive''
     (reject (amount \<ge> 2 ^ 256) ''amount is too large''
     (reject (expiration < 0) ''expiration needs to be positive''
     (reject (expiration \<ge> 2 ^ 256) ''expiration is too large''
     (reject (length secrethash \<noteq> 32) ''secrethash is not a valid hash''
       (Inr \<lparr>ml_amount = amount, ml_expiration = expiration, ml_secrethash = secrethash\<rparr>)))))"

definition envelope_values :: "Envelope \<Rightarrow> unit result" where
  "envelope_values e =
     assert_envelope_values (ev_nonce e) (ev_channel_identifier e) (ev_transferred_amount e)
       (ev_locked_amount e) (ev_locksroot e)"

definition mk_Unlock :: "Envelope \<Rightarrow> int \<Rightarrow> bytes \<Rightarrow> message result" where
  "mk_Unlock e payment_identifier secret =
     res_bind (envelope_values e) (\<lambda>_.
       reject (payment_identifier < 0) ''payment_identifier cannot be negative''
       (reject (payment_identifier > UINT64_MAX) ''payment_identifier is too large''
       (reject (length secret \<noteq> 32) ''secret must have 32 bytes''
         (Inr (Unlock e payment_identifier secret)))))"

text \<open>The constructor of \<open>LockedTransfer\<close>, which \<open>RefundTransfer\<close> inherits.\<close>

definition mk_LockedTransfer ::
    "(Envelope \<Rightarrow> TransferContent \<Rightarrow> message) \<Rightarrow> Envelope \<Rightarrow> TransferContent \<Rightarrow> message result" where
  "mk_LockedTransfer cls e t =
     reject (length (tc_target t) \<noteq> 20) ''target is an invalid address''
     (reject (length (tc_initiator t) \<noteq> 20) ''initiator is an invalid address''
     (reject (tc_fee t > UINT256_MAX) ''fee is too large''
     (res_bind (envelope_values e) (\<lambda>_.
      res_bind (assert_transfer_values (tc_payment_identifier t) (tc_token t) (tc_recipient t)) (\<lambda>_.
        Inr (cls e t))))))"

definition mk_LockExpired :: "Envelope \<Rightarrow> bytes \<Rightarrow> bytes \<Rightarrow> message result" where
  "mk_LockExpired e recipient secrethash =
     res_bind (envelope_values e) (\<lambda>_. Inr (LockExpired e recipient secrethash))"

section \<open>The binary form\<close>

definition class_cmdid :: "message \<Rightarrow> int" where
  "class_cmdid m =
     (case m of
        Processed _ \<Rightarrow> PROCESSED | ToDevice _ \<Rightarrow> TODEVICE | Delivered _ \<Rightarrow> DELIVERED
      | Pong _ \<Rightarrow> PONG | Ping _ _ \<Rightarrow> PING | SecretRequest _ \<Rightarrow> SECRETREQUEST
      | Unlock _ _ _ \<Rightarrow> UNLOCK | RevealSecret _ _ \<Rightarrow> REVEALSECRET
      | LockedTransfer _ _ \<Rightarrow> LOCKEDTRANSFER | RefundTransfer _ _ \<Rightarrow> REFUNDTRANSFER
      | LockExpired _ _ _ \<Rightarrow> LOCKEXPIRED)"

text \<open>What \<open>pack\<close> assigns, in its order; every class assigns the signature last.\<close>

type_synonym assignments = "(string \<times> field_value) list"

definition Processed_pack :: "int \<Rightarrow> assignments" where
  "Processed_pack message_identifier = [(''message_identifier'', FInt message_identifier)]"

definition ToDevice_pack :: "int \<Rightarrow> assignments" where
  "ToDevice_pack message_identifier = [(''message_identifier'', FInt message_identifier)]"

definition Delivered_pack :: "int \<Rightarrow> assignments" where
  "Delivered_pack delivered_message_identifier =
     [(''delivered_message_identifier'', FInt delivered_message_identifier)]"

definition Pong_pack :: "int \<Rightarrow> assignments" where
  "Pong_pack nonce = [(''nonce'', FInt nonce)]"

definition Ping_pack :: "int \<Rightarrow> int \<Rightarrow> assignments" where
  "Ping_pack nonce current_protocol_version =
     [(''nonce'', FInt nonce), (''current_protocol_version'', FInt current_protocol_version)]"

definition SecretRequest_pack :: "SecretRequestContent \<Rightarrow> assignments" where
  "SecretRequest_pack r =
     [(''message_identifier'', FInt (sq_message_identifier r)),
      (''payment_identifier'', FInt (sq_payment_identifier r)),
      (''secrethash'', FBytes (sq_secrethash r)), (''amount'', FInt (sq_amount r)),
      (''expiration'', FInt (sq_expiration r))]"

definition Unlock_pack :: "Envelope \<Rightarrow> int \<Rightarrow> bytes \<Rightarrow> assignments" where
  "Unlock_pack e payment_identifier secret =
     [(''chain_id'', FInt (ev_chain_id e)), (''message_identifier'', FInt (ev_message_identifier e)),
      (''payment_identifier'', FInt payment_identifier), (''nonce'', FInt (ev_nonce e)),
      (''token_network_address'', FBytes (ev_token_network_address e)),
      (''channel_identifier'', FInt (ev_channel_identifier e)),
      (''transferred_amount'', FInt (ev_transferred_amount e)),
      (''locked_amount'', FInt (ev_locked_amount e)), (''locksroot'', FBytes (ev_locksroot e)),
      (''secret'', FBytes secret)]"

definition RevealSecret_pack :: "int \<Rightarrow> bytes \<Rightarrow> assignments" where
  "RevealSecret_pack message_identifier secret =
     [(''message_identifier'', FInt message_identifier), (''secret'', FBytes secret)]"

text \<open>The hash of the invoice is assigned where the layout has the field: a refund has none.\<close>

definition LockedTransfer_pack ::
    "field list \<Rightarrow> Envelope \<Rightarrow> TransferContent \<Rightarrow> assignments" where
  "LockedTransfer_pack spec e t =
     [(''chain_id'', FInt (ev_chain_id e)), (''message_identifier'', FInt (ev_message_identifier e)),
      (''payment_identifier'', FInt (tc_payment_identifier t))] @
     (if dict_has (names_fields spec) ''payment_hash_invoice''
      then [(''payment_hash_invoice'', FBytes (tc_payment_hash_invoice t))] else []) @
     [(''nonce'', FInt (ev_nonce e)),
      (''token_network_address'', FBytes (ev_token_network_address e)),
      (''token'', FBytes (tc_token t)), (''channel_identifier'', FInt (ev_channel_identifier e)),
      (''transferred_amount'', FInt (ev_transferred_amount e)),
      (''locked_amount'', FInt (ev_locked_amount e)), (''recipient'', FBytes (tc_recipient t)),
      (''locksroot'', FBytes (ev_locksroot e)), (''target'', FBytes (tc_target t)),
      (''initiator'', FBytes (tc_initiator t)), (''fee'', FInt (tc_fee t)),
      (''amount'', FInt (ml_amount (tc_lock t))), (''expiration'', FInt (ml_expiration (tc_lock t))),
      (''secrethash'', FBytes (ml_secrethash (tc_lock t)))]"

definition LockExpired_pack :: "Envelope \<Rightarrow> bytes \<Rightarrow> bytes \<Rightarrow> assignments" where
  "LockExpired_pack e recipient secrethash =
     [(''chain_id'', FInt (ev_chain_id e)), (''nonce'', FInt (ev_nonce e)),
      (''message_identifier'', FInt (ev_message_identifier e)),
      (''token_network_address'', FBytes (ev_token_network_address e)),
      (''channel_identifier'', FInt (ev_channel_identifier e)),
      (''transferred_amount'', FInt (ev_transferred_amount e)),
      (''locked_amount'', FInt (ev_locked_amount e)), (''recipient'', FBytes recipient),
      (''locksroot'', FBytes (ev_locksroot e)), (''secrethash'', FBytes secrethash)]"

definition message_pack :: "field list \<Rightarrow> message \<Rightarrow> assignments" where
  "message_pack spec m =
     (case m of
        Processed i \<Rightarrow> Processed_pack i
      | ToDevice i \<Rightarrow> ToDevice_pack i
      | Delivered i \<Rightarrow> Delivered_pack i
      | Pong n \<Rightarrow> Pong_pack n
      | Ping n v \<Rightarrow> Ping_pack n v
      | SecretRequest r \<Rightarrow> SecretRequest_pack r
      | Unlock e p s \<Rightarrow> Unlock_pack e p s
      | RevealSecret i s \<Rightarrow> RevealSecret_pack i s
      | LockedTransfer e t \<Rightarrow> LockedTransfer_pack spec e t
      | RefundTransfer e t \<Rightarrow> LockedTransfer_pack spec e t
      | LockExpired e r h \<Rightarrow> LockExpired_pack e r h)"

fun assign_all :: "field list \<Rightarrow> bytes \<Rightarrow> assignments \<Rightarrow> bytes result" where
  "assign_all spec data [] = Inr data"
| "assign_all spec data ((name, v) # rest) =
     res_bind (buffer_setattr spec data name v) (\<lambda>data. assign_all spec data rest)"

text \<open>The layout of the class, the buffer with the command in its first byte, and the fields.\<close>

definition packed :: "Message \<Rightarrow> (field list \<times> bytes) result" where
  "packed M =
     (case dict_get CMDID_MESSAGE (class_cmdid (msg_content M)) of
        None \<Rightarrow> Inl KeyError
      | Some spec \<Rightarrow>
          res_bind (assign_all spec ((buffer_for spec)[0 := word_of_int (class_cmdid (msg_content M))])
                      (message_pack spec (msg_content M) @ [(''signature'', FBytes (msg_signature M))]))
            (\<lambda>data. Inr (spec, data)))"

definition message_encode :: "Message \<Rightarrow> bytes result" where
  "message_encode M = res_bind (packed M) (\<lambda>(spec, data). Inr data)"

section \<open>Reading the binary form\<close>

definition get_int :: "field list \<Rightarrow> bytes \<Rightarrow> string \<Rightarrow> int result" where
  "get_int spec data name =
     res_bind (buffer_getattr spec data name)
       (\<lambda>v. case v of FInt i \<Rightarrow> Inr i | FBytes _ \<Rightarrow> Inl TypeError)"

definition get_bytes :: "field list \<Rightarrow> bytes \<Rightarrow> string \<Rightarrow> bytes result" where
  "get_bytes spec data name =
     res_bind (buffer_getattr spec data name)
       (\<lambda>v. case v of FBytes b \<Rightarrow> Inr b | FInt _ \<Rightarrow> Inl TypeError)"

definition get_envelope :: "field list \<Rightarrow> bytes \<Rightarrow> Envelope result" where
  "get_envelope spec data =
     res_bind (get_int spec data ''chain_id'') (\<lambda>chain_id.
     res_bind (get_int spec data ''message_identifier'') (\<lambda>message_identifier.
     res_bind (get_int spec data ''nonce'') (\<lambda>nonce.
     res_bind (get_int spec data ''transferred_amount'') (\<lambda>transferred_amount.
     res_bind (get_int spec data ''locked_amount'') (\<lambda>locked_amount.
     res_bind (get_bytes spec data ''locksroot'') (\<lambda>locksroot.
     res_bind (get_int spec data ''channel_identifier'') (\<lambda>channel_identifier.
     res_bind (get_bytes spec data ''token_network_address'') (\<lambda>token_network_address.
       Inr \<lparr>ev_chain_id = chain_id, ev_message_identifier = message_identifier, ev_nonce = nonce,
            ev_transferred_amount = transferred_amount, ev_locked_amount = locked_amount,
            ev_locksroot = locksroot, ev_channel_identifier = channel_identifier,
            ev_token_network_address = token_network_address\<rparr>))))))))"

definition get_transfer ::
    "(bytes \<Rightarrow> bytes result) \<Rightarrow> field list \<Rightarrow> bytes \<Rightarrow> TransferContent result" where
  "get_transfer invoice_hash spec data =
     res_bind (get_int spec data ''amount'') (\<lambda>amount.
     res_bind (get_int spec data ''expiration'') (\<lambda>expiration.
     res_bind (get_bytes spec data ''secrethash'') (\<lambda>secrethash.
     res_bind (mk_MessageLock amount expiration secrethash) (\<lambda>lock.
     res_bind (get_int spec data ''payment_identifier'') (\<lambda>payment_identifier.
     res_bind (invoice_hash data) (\<lambda>payment_hash_invoice.
     res_bind (get_bytes spec data ''token'') (\<lambda>token.
     res_bind (get_bytes spec data ''recipient'') (\<lambda>recipient.
     res_bind (get_bytes spec data ''target'') (\<lambda>target.
     res_bind (get_bytes spec data ''initiator'') (\<lambda>initiator.
     res_bind (get_int spec data ''fee'') (\<lambda>fee.
       Inr \<lparr>tc_payment_identifier = payment_identifier,
            tc_payment_hash_invoice = payment_hash_invoice, tc_token = token,
            tc_recipient = recipient, tc_lock = lock, tc_target = target,
            tc_initiator = initiator, tc_fee = fee\<rparr>)))))))))))"

text \<open>\<open>unpack\<close>: the content of a packed message, by the command of its class.\<close>

definition SecretRequest_unpack :: "field list \<Rightarrow> bytes \<Rightarrow> message result" where
  "SecretRequest_unpack spec data =
     res_bind (get_int spec data ''message_identifier'') (\<lambda>message_identifier.
     res_bind (get_int spec data ''payment_identifier'') (\<lambda>payment_identifier.
     res_bind (get_bytes spec data ''secrethash'') (\<lambda>secrethash.
     res_bind (get_int spec data ''amount'') (\<lambda>amount.
     res_bind (get_int spec data ''expiration'') (\<lambda>expiration.
       Inr (SecretRequest \<lparr>sq_message_identifier = message_identifier,
              sq_payment_identifier = payment_identifier, sq_secrethash = secrethash,
              sq_amount = amount, sq_expiration = expiration\<rparr>))))))"

definition Unlock_unpack :: "field list \<Rightarrow> bytes \<Rightarrow> message result" where
  "Unlock_unpack spec data =
     res_bind (get_envelope spec data) (\<lambda>e.
     res_bind (get_int spec data ''payment_identifier'') (\<lambda>payment_identifier.
     res_bind (get_bytes spec data ''secret'') (\<lambda>secret.
       mk_Unlock e payment_identifier secret)))"

definition RevealSecret_unpack :: "field list \<Rightarrow> bytes \<Rightarrow> message result" where
  "RevealSecret_unpack spec data =
     res_bind (get_int spec data ''message_identifier'') (\<lambda>message_identifier.
     res_bind (get_bytes spec data ''secret'') (\<lambda>secret.
       Inr (RevealSecret message_identifier secret)))"

definition LockedTransfer_unpack :: "field list \<Rightarrow> bytes \<Rightarrow> message result" where
  "LockedTransfer_unpack spec data =
     res_bind (get_transfer (\<lambda>data. get_bytes spec data ''payment_hash_invoice'') spec data) (\<lambda>t.
     res_bind (get_envelope spec data) (\<lambda>e. mk_LockedTransfer LockedTransfer e t))"

definition RefundTransfer_unpack :: "field list \<Rightarrow> bytes \<Rightarrow> message result" where
  "RefundTransfer_unpack spec data =
     res_bind (get_transfer (\<lambda>_. Inr EMPTY_PAYMENT_HASH_INVOICE) spec data) (\<lambda>t.
     res_bind (get_envelope spec data) (\<lambda>e. mk_LockedTransfer RefundTransfer e t))"

definition LockExpired_unpack :: "field list \<Rightarrow> bytes \<Rightarrow> message result" where
  "LockExpired_unpack spec data =
     res_bind (get_envelope spec data) (\<lambda>e.
     res_bind (get_bytes spec data ''recipient'') (\<lambda>recipient.
     res_bind (get_bytes spec data ''secrethash'') (\<lambda>secrethash.
       mk_LockExpired e recipient secrethash)))"

definition Ping_unpack :: "field list \<Rightarrow> bytes \<Rightarrow> message result" where
  "Ping_unpack spec data =
     res_bind (get_int spec data ''nonce'') (\<lambda>nonce.
     res_bind (get_int spec data ''current_protocol_version'') (\<lambda>version. Inr (Ping nonce version)))"

text \<open>\<open>CMDID_TO_CLASS\<close>: the class of a command, by its \<open>unpack\<close>.\<close>

definition CMDID_TO_CLASS :: "(int, field list \<Rightarrow> bytes \<Rightarrow> message result) dict" where
  "CMDID_TO_CLASS =
     [(DELIVERED, \<lambda>spec data.
         map_sum id Delivered (get_int spec data ''delivered_message_identifier'')),
      (LOCKEDTRANSFER, LockedTransfer_unpack),
      (PING, Ping_unpack),
      (PONG, \<lambda>spec data. map_sum id Pong (get_int spec data ''nonce'')),
      (PROCESSED, \<lambda>spec data. map_sum id Processed (get_int spec data ''message_identifier'')),
      (REFUNDTRANSFER, RefundTransfer_unpack),
      (REVEALSECRET, RevealSecret_unpack),
      (UNLOCK, Unlock_unpack),
      (SECRETREQUEST, SecretRequest_unpack),
      (LOCKEXPIRED, LockExpired_unpack),
      (TODEVICE, \<lambda>spec data. map_sum id ToDevice (get_int spec data ''message_identifier''))]"

text \<open>The module's \<open>decode\<close> with the classes' \<open>decode\<close>, which is None where \<open>wrap\<close> is.\<close>

definition message_decode :: "bytes \<Rightarrow> Message option result" where
  "message_decode data =
     res_bind (py_first data) (\<lambda>command.
     case dict_get CMDID_TO_CLASS (uint command) of
       None \<Rightarrow> Inl InvalidProtocolMessage
     | Some unpack \<Rightarrow>
         res_bind (wrap data) (\<lambda>wrapped.
         case wrapped of
           None \<Rightarrow> Inr None
         | Some (spec, data) \<Rightarrow>
             res_bind (unpack spec data) (\<lambda>content.
             res_bind (get_bytes spec data ''signature'') (\<lambda>signature.
               Inr (Some \<lparr>msg_content = content, msg_signature = signature\<rparr>)))))"

section \<open>Hashes and signatures\<close>

definition is_envelope :: "message \<Rightarrow> Envelope option" where
  "is_envelope m =
     (case m of
        Unlock e _ _ \<Rightarrow> Some e | LockedTransfer e _ \<Rightarrow> Some e | RefundTransfer e _ \<Rightarrow> Some e
      | LockExpired e _ _ \<Rightarrow> Some e | _ \<Rightarrow> None)"

definition Message_hash :: "libs \<Rightarrow> Message \<Rightarrow> bytes result" where
  "Message_hash L M = res_bind (message_encode M) (\<lambda>data. Inr (keccak L data))"

text \<open>The packed bytes before the signature, which is the last field of every layout.\<close>

definition unsigned_data :: "Message \<Rightarrow> bytes result" where
  "unsigned_data M =
     res_bind (packed M) (\<lambda>(spec, data).
       let field = last spec in
       py_assert (field_name field = ''signature'') ''signature is not the last field''
         (Inr (take (length data - size_bytes field) data)))"

definition message_hash :: "libs \<Rightarrow> Message \<Rightarrow> bytes result" where
  "message_hash L M = res_bind (unsigned_data M) (\<lambda>data. Inr (keccak L data))"

text \<open>\<open>_data_to_sign\<close>: an envelope message signs its balance proof with the hash of the message.\<close>

definition data_to_sign :: "libs \<Rightarrow> Message \<Rightarrow> bytes result" where
  "data_to_sign L M =
     (case is_envelope (msg_content M) of
        None \<Rightarrow> unsigned_data M
      | Some e \<Rightarrow>
          res_bind (hash_balance_data L (ev_transferred_amount e) (ev_locked_amount e)
                      (ev_locksroot e)) (\<lambda>balance_hash.
          res_bind (message_hash L M) (\<lambda>additional_hash.
            pack_balance_proof L (ev_nonce e) balance_hash additional_hash
              \<lparr>chain_identifier = ev_chain_id e,
               token_network_address = ev_token_network_address e,
               channel_identifier = ev_channel_identifier e\<rparr> BALANCE_PROOF)))"

text \<open>
  \<open>LocalSigner.sign\<close> with its default \<open>v\<close>: the private key of eth\_keys signs the hash
  (\<open>sign_msg_hash\<close>), and 27 is added to the last byte.
\<close>

record signer =
  signer_address :: bytes
  sign_msg_hash :: "bytes \<Rightarrow> bytes"

definition signer_sign :: "libs \<Rightarrow> signer \<Rightarrow> bytes \<Rightarrow> bytes" where
  "signer_sign L S data =
     (let sig_bytes = sign_msg_hash S (eth_sign_sha3 L data)
      in butlast sig_bytes @ [last sig_bytes + 27])"

definition sign_message :: "libs \<Rightarrow> signer \<Rightarrow> Message \<Rightarrow> Message result" where
  "sign_message L S M =
     res_bind (data_to_sign L M) (\<lambda>message_data.
       Inr (M\<lparr>msg_signature := signer_sign L S message_data\<rparr>))"

definition sender :: "libs \<Rightarrow> Message \<Rightarrow> bytes option result" where
  "sender L M =
     (if msg_signature M = [] then Inr None
      else res_bind (data_to_sign L M) (\<lambda>data_that_was_signed.
             case recover L data_that_was_signed (msg_signature M) of
               Inr address \<Rightarrow> Inr (Some address)
             | Inl InvalidSignature \<Rightarrow> Inr None
             | Inl e \<Rightarrow> Inl e))"

section \<open>The dictionary form\<close>

datatype json = JInt int | JStr string | JBytes bytes | JDict "(string, json) dict"

record codec =
  encode_hex :: "bytes \<Rightarrow> string"
  decode_hex :: "string \<Rightarrow> bytes option"
  to_normalized_address :: "bytes \<Rightarrow> string result"
  to_canonical_address :: "string \<Rightarrow> bytes result"

definition address_json :: "codec \<Rightarrow> bytes \<Rightarrow> (json \<Rightarrow> 'a result) \<Rightarrow> 'a result" where
  "address_json E a k = res_bind (to_normalized_address E a) (\<lambda>s. k (JStr s))"

definition Lock_to_dict :: "codec \<Rightarrow> MessageLock \<Rightarrow> json" where
  "Lock_to_dict E l =
     JDict [(''type'', JStr ''Lock''), (''amount'', JInt (ml_amount l)),
            (''expiration'', JInt (ml_expiration l)),
            (''secrethash'', JStr (encode_hex E (ml_secrethash l)))]"

text \<open>The classes with one identifier.\<close>

definition identifier_to_dict :: "codec \<Rightarrow> string \<Rightarrow> string \<Rightarrow> int \<Rightarrow> bytes \<Rightarrow> json" where
  "identifier_to_dict E cls key identifier signature =
     JDict [(''type'', JStr cls), (key, JInt identifier),
            (''signature'', JStr (encode_hex E signature))]"

definition SecretRequest_to_dict :: "codec \<Rightarrow> SecretRequestContent \<Rightarrow> bytes \<Rightarrow> json" where
  "SecretRequest_to_dict E r signature =
     JDict [(''type'', JStr ''SecretRequest''),
            (''message_identifier'', JInt (sq_message_identifier r)),
            (''payment_identifier'', JInt (sq_payment_identifier r)),
            (''secrethash'', JStr (encode_hex E (sq_secrethash r))),
            (''amount'', JInt (sq_amount r)), (''expiration'', JInt (sq_expiration r)),
            (''signature'', JStr (encode_hex E signature))]"

definition RevealSecret_to_dict :: "codec \<Rightarrow> int \<Rightarrow> bytes \<Rightarrow> bytes \<Rightarrow> json" where
  "RevealSecret_to_dict E message_identifier secret signature =
     JDict [(''type'', JStr ''RevealSecret''), (''message_identifier'', JInt message_identifier),
            (''secret'', JStr (encode_hex E secret)),
            (''signature'', JStr (encode_hex E signature))]"

definition Unlock_to_dict :: "codec \<Rightarrow> Envelope \<Rightarrow> int \<Rightarrow> bytes \<Rightarrow> bytes \<Rightarrow> json result" where
  "Unlock_to_dict E e payment_identifier secret signature =
     address_json E (ev_token_network_address e) (\<lambda>token_network_address.
       Inr (JDict [(''type'', JStr ''Secret''), (''chain_id'', JInt (ev_chain_id e)),
         (''message_identifier'', JInt (ev_message_identifier e)),
         (''payment_identifier'', JInt payment_identifier),
         (''secret'', JStr (encode_hex E secret)), (''nonce'', JInt (ev_nonce e)),
         (''token_network_address'', token_network_address),
         (''channel_identifier'', JInt (ev_channel_identifier e)),
         (''transferred_amount'', JInt (ev_transferred_amount e)),
         (''locked_amount'', JInt (ev_locked_amount e)),
         (''locksroot'', JStr (encode_hex E (ev_locksroot e))),
         (''signature'', JStr (encode_hex E signature))]))"

text \<open>A transfer, with the name of its class and the JSON value of its invoice hash.\<close>

definition transfer_to_dict ::
    "codec \<Rightarrow> string \<Rightarrow> json \<Rightarrow> Envelope \<Rightarrow> TransferContent \<Rightarrow> bytes \<Rightarrow> json result" where
  "transfer_to_dict E cls payment_hash_invoice e t signature =
     address_json E (ev_token_network_address e) (\<lambda>token_network_address.
     address_json E (tc_token t) (\<lambda>token.
     address_json E (tc_recipient t) (\<lambda>recipient.
     address_json E (tc_target t) (\<lambda>target.
     address_json E (tc_initiator t) (\<lambda>initiator.
       Inr (JDict [(''type'', JStr cls), (''chain_id'', JInt (ev_chain_id e)),
         (''message_identifier'', JInt (ev_message_identifier e)),
         (''payment_identifier'', JInt (tc_payment_identifier t)),
         (''payment_hash_invoice'', payment_hash_invoice), (''nonce'', JInt (ev_nonce e)),
         (''token_network_address'', token_network_address), (''token'', token),
         (''channel_identifier'', JInt (ev_channel_identifier e)),
         (''transferred_amount'', JInt (ev_transferred_amount e)),
         (''locked_amount'', JInt (ev_locked_amount e)), (''recipient'', recipient),
         (''locksroot'', JStr (encode_hex E (ev_locksroot e))),
         (''lock'', Lock_to_dict E (tc_lock t)), (''target'', target), (''initiator'', initiator),
         (''fee'', JInt (tc_fee t)), (''signature'', JStr (encode_hex E signature))]))))))"

definition LockedTransfer_to_dict ::
    "codec \<Rightarrow> Envelope \<Rightarrow> TransferContent \<Rightarrow> bytes \<Rightarrow> json result" where
  "LockedTransfer_to_dict E e t =
     transfer_to_dict E ''LockedTransfer'' (JStr (encode_hex E (tc_payment_hash_invoice t))) e t"

text \<open>A refund puts the bytes of the invoice hash into the dictionary.\<close>

definition RefundTransfer_to_dict ::
    "codec \<Rightarrow> Envelope \<Rightarrow> TransferContent \<Rightarrow> bytes \<Rightarrow> json result" where
  "RefundTransfer_to_dict E e t =
     transfer_to_dict E ''RefundTransfer'' (JBytes (tc_payment_hash_invoice t)) e t"

definition LockExpired_to_dict ::
    "codec \<Rightarrow> Envelope \<Rightarrow> bytes \<Rightarrow> bytes \<Rightarrow> bytes \<Rightarrow> json result" where
  "LockExpired_to_dict E e recipient secrethash signature =
     address_json E (ev_token_network_address e) (\<lambda>token_network_address.
     address_json E recipient (\<lambda>recipient.
       Inr (JDict [(''type'', JStr ''LockExpired''), (''chain_id'', JInt (ev_chain_id e)),
         (''nonce'', JInt (ev_nonce e)), (''token_network_address'', token_network_address),
         (''message_identifier'', JInt (ev_message_identifier e)),
         (''channel_identifier'', JInt (ev_channel_identifier e)),
         (''secrethash'', JStr (encode_hex E secrethash)),
         (''transferred_amount'', JInt (ev_transferred_amount e)),
         (''locked_amount'', JInt (ev_locked_amount e)), (''recipient'', recipient),
         (''locksroot'', JStr (encode_hex E (ev_locksroot e))),
         (''signature'', JStr (encode_hex E signature))])))"

definition message_to_dict :: "codec \<Rightarrow> Message \<Rightarrow> json result" where
  "message_to_dict E M =
     (let signature = msg_signature M in
      case msg_content M of
        Processed i \<Rightarrow> Inr (identifier_to_dict E ''Processed'' ''message_identifier'' i signature)
      | ToDevice i \<Rightarrow> Inr (identifier_to_dict E ''ToDevice'' ''message_identifier'' i signature)
      | Delivered i \<Rightarrow>
          Inr (identifier_to_dict E ''Delivered'' ''delivered_message_identifier'' i signature)
      | Pong _ \<Rightarrow> Inl NotImplementedError
      | Ping _ _ \<Rightarrow> Inl NotImplementedError
      | SecretRequest r \<Rightarrow> Inr (SecretRequest_to_dict E r signature)
      | Unlock e p s \<Rightarrow> Unlock_to_dict E e p s signature
      | RevealSecret i s \<Rightarrow> Inr (RevealSecret_to_dict E i s signature)
      | LockedTransfer e t \<Rightarrow> LockedTransfer_to_dict E e t signature
      | RefundTransfer e t \<Rightarrow> RefundTransfer_to_dict E e t signature
      | LockExpired e r h \<Rightarrow> LockExpired_to_dict E e r h signature)"


section \<open>Reading the dictionary form\<close>

text \<open>A \<open>str\<close> where bytes are expected stands for its characters.\<close>

definition str_bytes :: "string \<Rightarrow> bytes" where
  "str_bytes s = map (\<lambda>c. of_nat (of_char c)) s"

definition json_get :: "(string, json) dict \<Rightarrow> string \<Rightarrow> json result" where
  "json_get d key = (case dict_get d key of None \<Rightarrow> Inl KeyError | Some v \<Rightarrow> Inr v)"

definition json_int :: "(string, json) dict \<Rightarrow> string \<Rightarrow> int result" where
  "json_int d key =
     res_bind (json_get d key) (\<lambda>v. case v of JInt i \<Rightarrow> Inr i | _ \<Rightarrow> Inl TypeError)"

definition json_raw :: "(string, json) dict \<Rightarrow> string \<Rightarrow> bytes result" where
  "json_raw d key =
     res_bind (json_get d key)
       (\<lambda>v. case v of JStr s \<Rightarrow> Inr (str_bytes s) | JBytes b \<Rightarrow> Inr b | _ \<Rightarrow> Inl TypeError)"

text \<open>\<open>decode_hex\<close> takes a \<open>str\<close> only.\<close>

definition hex_value :: "codec \<Rightarrow> string \<Rightarrow> bytes result" where
  "hex_value E s =
     (case decode_hex E s of None \<Rightarrow> Inl (ValueError ''Non-hexadecimal digit found'') | Some b \<Rightarrow> Inr b)"

definition json_hex :: "codec \<Rightarrow> (string, json) dict \<Rightarrow> string \<Rightarrow> bytes result" where
  "json_hex E d key =
     res_bind (json_get d key) (\<lambda>v. case v of JStr s \<Rightarrow> hex_value E s | _ \<Rightarrow> Inl TypeError)"

definition json_address :: "codec \<Rightarrow> (string, json) dict \<Rightarrow> string \<Rightarrow> bytes result" where
  "json_address E d key =
     res_bind (json_get d key)
       (\<lambda>v. case v of JStr s \<Rightarrow> to_canonical_address E s | _ \<Rightarrow> Inl TypeError)"

text \<open>\<open>assert data["type"] == cls.__name__, msg\<close>.\<close>

definition assert_type :: "string \<Rightarrow> (string, json) dict \<Rightarrow> 'a result \<Rightarrow> 'a result" where
  "assert_type cls d k =
     res_bind (json_get d ''type'') (\<lambda>t.
       py_assert (t = JStr cls) ''Cannot decode data. Provided type is not the expected one'' k)"

definition Lock_from_dict :: "codec \<Rightarrow> json \<Rightarrow> MessageLock result" where
  "Lock_from_dict E v =
     (case v of
        JDict d \<Rightarrow>
          assert_type ''Lock'' d
            (res_bind (json_int d ''amount'') (\<lambda>amount.
             res_bind (json_int d ''expiration'') (\<lambda>expiration.
             res_bind (json_hex E d ''secrethash'') (\<lambda>secrethash.
               mk_MessageLock amount expiration secrethash))))
      | _ \<Rightarrow> Inl TypeError)"

definition with_signature ::
    "codec \<Rightarrow> (string, json) dict \<Rightarrow> message result \<Rightarrow> Message result" where
  "with_signature E d m =
     res_bind m (\<lambda>content.
     res_bind (json_hex E d ''signature'') (\<lambda>signature.
       Inr \<lparr>msg_content = content, msg_signature = signature\<rparr>))"

definition identifier_from_dict ::
    "codec \<Rightarrow> string \<Rightarrow> string \<Rightarrow> (int \<Rightarrow> message) \<Rightarrow> (string, json) dict \<Rightarrow> Message result" where
  "identifier_from_dict E cls key C d =
     assert_type cls d (with_signature E d (map_sum id C (json_int d key)))"

definition SecretRequest_from_dict :: "codec \<Rightarrow> (string, json) dict \<Rightarrow> Message result" where
  "SecretRequest_from_dict E d =
     assert_type ''SecretRequest'' d (with_signature E d
       (res_bind (json_int d ''message_identifier'') (\<lambda>message_identifier.
        res_bind (json_int d ''payment_identifier'') (\<lambda>payment_identifier.
        res_bind (json_hex E d ''secrethash'') (\<lambda>secrethash.
        res_bind (json_int d ''amount'') (\<lambda>amount.
        res_bind (json_int d ''expiration'') (\<lambda>expiration.
          Inr (SecretRequest \<lparr>sq_message_identifier = message_identifier,
                 sq_payment_identifier = payment_identifier, sq_secrethash = secrethash,
                 sq_amount = amount, sq_expiration = expiration\<rparr>))))))))"

definition RevealSecret_from_dict :: "codec \<Rightarrow> (string, json) dict \<Rightarrow> Message result" where
  "RevealSecret_from_dict E d =
     assert_type ''RevealSecret'' d (with_signature E d
       (res_bind (json_int d ''message_identifier'') (\<lambda>message_identifier.
        res_bind (json_hex E d ''secret'') (\<lambda>secret.
          Inr (RevealSecret message_identifier secret)))))"

definition Unlock_from_dict :: "codec \<Rightarrow> (string, json) dict \<Rightarrow> Message result" where
  "Unlock_from_dict E d =
     assert_type ''Secret'' d (with_signature E d
       (res_bind (json_int d ''chain_id'') (\<lambda>chain_id.
        res_bind (json_int d ''message_identifier'') (\<lambda>message_identifier.
        res_bind (json_int d ''payment_identifier'') (\<lambda>payment_identifier.
        res_bind (json_hex E d ''secret'') (\<lambda>secret.
        res_bind (json_int d ''nonce'') (\<lambda>nonce.
        res_bind (json_address E d ''token_network_address'') (\<lambda>token_network_address.
        res_bind (json_int d ''channel_identifier'') (\<lambda>channel_identifier.
        res_bind (json_int d ''transferred_amount'') (\<lambda>transferred_amount.
        res_bind (json_int d ''locked_amount'') (\<lambda>locked_amount.
        res_bind (json_hex E d ''locksroot'') (\<lambda>locksroot.
          mk_Unlock \<lparr>ev_chain_id = chain_id, ev_message_identifier = message_identifier,
              ev_nonce = nonce, ev_transferred_amount = transferred_amount,
              ev_locked_amount = locked_amount, ev_locksroot = locksroot,
              ev_channel_identifier = channel_identifier,
              ev_token_network_address = token_network_address\<rparr>
            payment_identifier secret))))))))))))"

text \<open>
  The transfers assert no type.  A transfer without an invoice hash gets the bytes of the empty
  one before \<open>decode_hex\<close> reads it; a refund keeps what it finds.
\<close>

definition transfer_from_dict ::
    "codec \<Rightarrow> ((string, json) dict \<Rightarrow> bytes result) \<Rightarrow> (Envelope \<Rightarrow> TransferContent \<Rightarrow> message)
     \<Rightarrow> (string, json) dict \<Rightarrow> Message result" where
  "transfer_from_dict E invoice_hash cls d =
     with_signature E d
       (res_bind (json_int d ''chain_id'') (\<lambda>chain_id.
        res_bind (json_int d ''message_identifier'') (\<lambda>message_identifier.
        res_bind (json_int d ''payment_identifier'') (\<lambda>payment_identifier.
        res_bind (invoice_hash d) (\<lambda>payment_hash_invoice.
        res_bind (json_int d ''nonce'') (\<lambda>nonce.
        res_bind (json_address E d ''token_network_address'') (\<lambda>token_network_address.
        res_bind (json_address E d ''token'') (\<lambda>token.
        res_bind (json_int d ''channel_identifier'') (\<lambda>channel_identifier.
        res_bind (json_int d ''transferred_amount'') (\<lambda>transferred_amount.
        res_bind (json_int d ''locked_amount'') (\<lambda>locked_amount.
        res_bind (json_address E d ''recipient'') (\<lambda>recipient.
        res_bind (json_hex E d ''locksroot'') (\<lambda>locksroot.
        res_bind (res_bind (json_get d ''lock'') (Lock_from_dict E)) (\<lambda>lock.
        res_bind (json_address E d ''target'') (\<lambda>target.
        res_bind (json_address E d ''initiator'') (\<lambda>initiator.
        res_bind (json_int d ''fee'') (\<lambda>fee.
          mk_LockedTransfer cls
            \<lparr>ev_chain_id = chain_id, ev_message_identifier = message_identifier,
             ev_nonce = nonce, ev_transferred_amount = transferred_amount,
             ev_locked_amount = locked_amount, ev_locksroot = locksroot,
             ev_channel_identifier = channel_identifier,
             ev_token_network_address = token_network_address\<rparr>
            \<lparr>tc_payment_identifier = payment_identifier,
             tc_payment_hash_invoice = payment_hash_invoice, tc_token = token,
             tc_recipient = recipient, tc_lock = lock, tc_target = target,
             tc_initiator = initiator, tc_fee = fee\<rparr>)))))))))))))))))"

definition LockedTransfer_from_dict :: "codec \<Rightarrow> (string, json) dict \<Rightarrow> Message result" where
  "LockedTransfer_from_dict E d =
     transfer_from_dict E (\<lambda>d. json_hex E d ''payment_hash_invoice'') LockedTransfer
       (if dict_has d ''payment_hash_invoice'' then d
        else dict_set ''payment_hash_invoice'' (JBytes EMPTY_PAYMENT_HASH_INVOICE) d)"

definition RefundTransfer_from_dict :: "codec \<Rightarrow> (string, json) dict \<Rightarrow> Message result" where
  "RefundTransfer_from_dict E d =
     transfer_from_dict E (\<lambda>d. json_raw d ''payment_hash_invoice'') RefundTransfer d"

definition LockExpired_from_dict :: "codec \<Rightarrow> (string, json) dict \<Rightarrow> Message result" where
  "LockExpired_from_dict E d =
     assert_type ''LockExpired'' d (with_signature E d
       (res_bind (json_int d ''chain_id'') (\<lambda>chain_id.
        res_bind (json_int d ''nonce'') (\<lambda>nonce.
        res_bind (json_int d ''message_identifier'') (\<lambda>message_identifier.
        res_bind (json_address E d ''token_network_address'') (\<lambda>token_network_address.
        res_bind (json_int d ''channel_identifier'') (\<lambda>channel_identifier.
        res_bind (json_int d ''transferred_amount'') (\<lambda>transferred_amount.
        res_bind (json_hex E d ''secrethash'') (\<lambda>secrethash.
        res_bind (json_address E d ''recipient'') (\<lambda>recipient.
        res_bind (json_int d ''locked_amount'') (\<lambda>locked_amount.
        res_bind (json_hex E d ''locksroot'') (\<lambda>locksroot.
          mk_LockExpired \<lparr>ev_chain_id = chain_id, ev_message_identifier = message_identifier,
              ev_nonce = nonce, ev_transferred_amount = transferred_amount,
              ev_locked_amount = locked_amount, ev_locksroot = locksroot,
              ev_channel_identifier = channel_identifier,
              ev_token_network_address = token_network_address\<rparr>
            recipient secrethash))))))))))))"

text \<open>\<open>CLASSNAME_TO_CLASS\<close>: the class of a type name, by its \<open>from_dict\<close>.\<close>

definition CLASSNAME_TO_CLASS ::
    "codec \<Rightarrow> (string, (string, json) dict \<Rightarrow> Message result) dict" where
  "CLASSNAME_TO_CLASS E =
     [(''Delivered'', identifier_from_dict E ''Delivered'' ''delivered_message_identifier'' Delivered),
      (''LockedTransfer'', LockedTransfer_from_dict E),
      (''Ping'', \<lambda>d. Inl NotImplementedError), (''Pong'', \<lambda>d. Inl NotImplementedError),
      (''Processed'', identifier_from_dict E ''Processed'' ''message_identifier'' Processed),
      (''RefundTransfer'', RefundTransfer_from_dict E),
      (''RevealSecret'', RevealSecret_from_dict E),
      (''Unlock'', Unlock_from_dict E),
      (''SecretRequest'', SecretRequest_from_dict E),
      (''LockExpired'', LockExpired_from_dict E),
      (''ToDevice'', identifier_from_dict E ''ToDevice'' ''message_identifier'' ToDevice),
      (''Secret'', Unlock_from_dict E)]"

text \<open>The module's \<open>from_dict\<close>; a dictionary as a key is not hashable.\<close>

definition message_from_dict :: "codec \<Rightarrow> json \<Rightarrow> Message result" where
  "message_from_dict E data =
     (case data of
        JDict d \<Rightarrow>
          (case dict_get d ''type'' of
             None \<Rightarrow> Inl InvalidProtocolMessage
           | Some (JDict _) \<Rightarrow> Inl TypeError
           | Some (JStr cls) \<Rightarrow>
               (case dict_get (CLASSNAME_TO_CLASS E) cls of
                  None \<Rightarrow> Inl InvalidProtocolMessage
                | Some klass \<Rightarrow> klass d)
           | Some _ \<Rightarrow> Inl InvalidProtocolMessage)
      | _ \<Rightarrow> Inl TypeError)"

text \<open>
  \<open>json.dumps\<close> writes integers, strings and dictionaries of them, and raises on bytes; the
  standard library reads back what it wrote.
\<close>

fun json_safe :: "json \<Rightarrow> bool" and items_safe :: "(string \<times> json) list \<Rightarrow> bool" where
  "json_safe (JInt i) = True"
| "json_safe (JStr s) = True"
| "json_safe (JBytes b) = False"
| "json_safe (JDict d) = items_safe d"
| "items_safe [] = True"
| "items_safe ((k, v) # d) = (json_safe v \<and> items_safe d)"

definition json_dumps :: "json \<Rightarrow> json result" where
  "json_dumps v = (if json_safe v then Inr v else Inl TypeError)"

end
