(* ===== verification/MessageFlow.thy ===== *)
theory MessageFlow
  imports Messages ChannelSync
begin

text \<open>
  How messages travel between two nodes: an event becomes a message (\<open>from_event\<close> of the classes,
  \<open>raiden/message\_event\_convertor.py\<close>), the node signs it and the transport writes it as JSON; the
  receiving transport parses and validates it (\<open>network/transport/matrix/utils.py\<close>) and the
  message handler (\<open>raiden/message\_handler.py\<close>) makes a state change of it.
\<close>

section \<open>From events to messages\<close>

text \<open>A new message is not signed.\<close>

definition unsigned_message :: "message \<Rightarrow> Message" where
  "unsigned_message m = \<lparr>msg_content = m, msg_signature = []\<rparr>"

text \<open>The envelope that a balance proof gives.\<close>

definition proof_envelope :: "int \<Rightarrow> BalanceProofUnsignedState \<Rightarrow> Envelope" where
  "proof_envelope message_id bp =
     \<lparr>ev_chain_id = chain_identifier (bp_canonical_identifier bp),
      ev_message_identifier = message_id, ev_nonce = bp_nonce bp,
      ev_transferred_amount = bp_transferred_amount bp, ev_locked_amount = bp_locked_amount bp,
      ev_locksroot = bp_locksroot bp,
      ev_channel_identifier = channel_identifier (bp_canonical_identifier bp),
      ev_token_network_address = token_network_address (bp_canonical_identifier bp)\<rparr>"

text \<open>\<open>from_event\<close> of the two transfers: the lock is built first; a refund has no invoice.\<close>

definition transfer_from_event ::
    "(Envelope \<Rightarrow> TransferContent \<Rightarrow> message) \<Rightarrow> bytes \<Rightarrow> SendTransferEvent \<Rightarrow> Message result" where
  "transfer_from_event cls payment_hash_invoice ev =
     (let transfer = ste_transfer ev; l = lt_lock transfer in
      res_bind (mk_MessageLock (lock_amount l) (lock_expiration l) (lock_secrethash l)) (\<lambda>lock.
      res_bind (mk_LockedTransfer cls
          (proof_envelope (ste_message_identifier ev) (lt_balance_proof transfer))
          \<lparr>tc_payment_identifier = lt_payment_identifier transfer,
           tc_payment_hash_invoice = payment_hash_invoice, tc_token = lt_token transfer,
           tc_recipient = ste_recipient ev, tc_lock = lock, tc_target = lt_target transfer,
           tc_initiator = lt_initiator transfer, tc_fee = 0\<rparr>) (\<lambda>m.
        Inr (unsigned_message m))))"

definition LockedTransfer_from_event :: "SendTransferEvent \<Rightarrow> Message result" where
  "LockedTransfer_from_event ev =
     transfer_from_event LockedTransfer (lt_payment_hash_invoice (ste_transfer ev)) ev"

definition RefundTransfer_from_event :: "SendTransferEvent \<Rightarrow> Message result" where
  "RefundTransfer_from_event ev = transfer_from_event RefundTransfer EMPTY_PAYMENT_HASH_INVOICE ev"

definition Unlock_from_event :: "SendBalanceProofEvent \<Rightarrow> Message result" where
  "Unlock_from_event ev =
     map_sum id unsigned_message
       (mk_Unlock (proof_envelope (sbp_message_identifier ev) (sbp_balance_proof ev))
          (sbp_payment_identifier ev) (sbp_secret ev))"

definition LockExpired_from_event :: "SendLockExpiredEvent \<Rightarrow> Message result" where
  "LockExpired_from_event ev =
     map_sum id unsigned_message
       (mk_LockExpired (proof_envelope (sle_message_identifier ev) (sle_balance_proof ev))
          (sle_recipient ev) (sle_secrethash ev))"

definition SecretRequest_from_event :: "SendSecretRequestEvent \<Rightarrow> Message" where
  "SecretRequest_from_event ev =
     unsigned_message (SecretRequest
       \<lparr>sq_message_identifier = ssq_message_identifier ev,
        sq_payment_identifier = ssq_payment_identifier ev, sq_secrethash = ssq_secrethash ev,
        sq_amount = ssq_amount ev, sq_expiration = ssq_expiration ev\<rparr>)"

definition RevealSecret_from_event :: "SendSecretRevealEvent \<Rightarrow> Message" where
  "RevealSecret_from_event ev =
     unsigned_message (RevealSecret (ssr_message_identifier ev) (ssr_secret ev))"

text \<open>
  \<open>message_from_sendevent\<close>: a message of the node's own, or the message that a light client signed
  and that its event carries.
\<close>

datatype outgoing_message = OwnMessage Message | LightMessage stored_message

definition message_from_sendevent :: "event \<Rightarrow> outgoing_message result" where
  "message_from_sendevent ev =
     (case ev of
        SendLockedTransfer e \<Rightarrow> map_sum id OwnMessage (LockedTransfer_from_event e)
      | SendLockedTransferLight _ _ _ m \<Rightarrow> Inr (LightMessage (StoredLockedTransfer m))
      | SendSecretReveal e \<Rightarrow> Inr (OwnMessage (RevealSecret_from_event e))
      | SendSecretRevealLight _ _ m \<Rightarrow> Inr (LightMessage (StoredRevealSecret m))
      | SendBalanceProof e \<Rightarrow> map_sum id OwnMessage (Unlock_from_event e)
      | SendBalanceProofLight _ _ m \<Rightarrow> Inr (LightMessage (StoredUnlock m))
      | SendSecretRequest e \<Rightarrow> Inr (OwnMessage (SecretRequest_from_event e))
      | SendSecretRequestLight _ _ m \<Rightarrow> Inr (LightMessage (StoredSecretRequest m))
      | SendRefundTransfer e \<Rightarrow> map_sum id OwnMessage (RefundTransfer_from_event e)
      | SendLockExpired e \<Rightarrow> map_sum id OwnMessage (LockExpired_from_event e)
      | SendProcessed _ _ message_id \<Rightarrow> Inr (OwnMessage (unsigned_message (Processed message_id)))
      | _ \<Rightarrow> Inl (ValueError ''Unknown event type''))"

text \<open>What the transport enqueues: the signed message as the text of \<open>json.dumps\<close>.\<close>

definition enqueued_text :: "libs \<Rightarrow> codec \<Rightarrow> signer \<Rightarrow> Message \<Rightarrow> json result" where
  "enqueued_text L E S M =
     res_bind (sign_message L S M) (\<lambda>M. res_bind (message_to_dict E M) json_dumps)"

section \<open>Parsing on the receiving side\<close>

text \<open>
  The body of a Matrix event: no string, a string that starts with \<open>0x\<close>, or lines; a line is None
  where \<open>json.loads\<close> refuses it, and the empty lines are left out.
\<close>

datatype body = NoString | HexText string | JsonLines "json option list"

definition validate_line :: "libs \<Rightarrow> codec \<Rightarrow> bytes \<Rightarrow> json option \<Rightarrow> Message list result" where
  "validate_line L E peer_address line =
     (case line of
        None \<Rightarrow> Inr []
      | Some v \<Rightarrow>
          (case message_from_dict E v of
             Inl InvalidProtocolMessage \<Rightarrow> Inr []
           | Inl e \<Rightarrow> Inl e
           | Inr M \<Rightarrow>
               res_bind (sender L M) (\<lambda>s. Inr (if s \<noteq> Some peer_address then [] else [M]))))"

fun validate_lines :: "libs \<Rightarrow> codec \<Rightarrow> bytes \<Rightarrow> json option list \<Rightarrow> Message list result" where
  "validate_lines L E peer_address [] = Inr []"
| "validate_lines L E peer_address (line # lines) =
     res_bind (validate_line L E peer_address line) (\<lambda>ms.
     res_bind (validate_lines L E peer_address lines) (\<lambda>rest. Inr (ms @ rest)))"

text \<open>The binary form is not compared with the peer's address.\<close>

definition validate_and_parse_message ::
    "libs \<Rightarrow> codec \<Rightarrow> body \<Rightarrow> bytes \<Rightarrow> Message list result" where
  "validate_and_parse_message L E data peer_address =
     (case data of
        NoString \<Rightarrow> Inr []
      | HexText s \<Rightarrow>
          (case decode_hex E s of
             None \<Rightarrow> Inr []
           | Some bs \<Rightarrow>
               (case message_decode bs of
                  Inl (AssertionError _) \<Rightarrow> Inr []
                | Inl InvalidProtocolMessage \<Rightarrow> Inr []
                | Inl e \<Rightarrow> Inl e
                | Inr None \<Rightarrow> Inr []
                | Inr (Some M) \<Rightarrow> Inr [M]))
      | JsonLines lines \<Rightarrow> validate_lines L E peer_address lines)"

section \<open>From messages to state changes\<close>

text \<open>
  A message with the attributes that \<open>balanceproof_from_envelope\<close> reads; a sender that is None is
  refused by the balance proof's constructor.
\<close>

definition envelope_message :: "libs \<Rightarrow> Message \<Rightarrow> Envelope \<Rightarrow> EnvelopeMessage result" where
  "envelope_message L M e =
     res_bind (message_hash L M) (\<lambda>hash.
     res_bind (sender L M) (\<lambda>s.
       case s of
         None \<Rightarrow> Inl (ValueError ''sender must be an address instance'')
       | Some a \<Rightarrow>
           Inr \<lparr>em_chain_id = ev_chain_id e, em_message_identifier = ev_message_identifier e,
                em_nonce = ev_nonce e, em_transferred_amount = ev_transferred_amount e,
                em_locked_amount = ev_locked_amount e, em_locksroot = ev_locksroot e,
                em_channel_identifier = ev_channel_identifier e,
                em_token_network_address = ev_token_network_address e, em_message_hash = hash,
                em_signature = msg_signature M, em_sender = a\<rparr>))"

definition lockedtransfersigned_from_message ::
    "libs \<Rightarrow> Message \<Rightarrow> Envelope \<Rightarrow> TransferContent \<Rightarrow> LockedTransferSignedState result" where
  "lockedtransfersigned_from_message L M e t =
     res_bind (envelope_message L M e) (\<lambda>em.
     res_bind (balanceproof_from_envelope em) (\<lambda>balance_proof.
     res_bind (mk_HashTimeLockState L (ml_amount (tc_lock t)) (ml_expiration (tc_lock t))
                 (ml_secrethash (tc_lock t))) (\<lambda>lock.
       mk_LockedTransferSignedState (ev_message_identifier e) (tc_payment_identifier t)
         (tc_payment_hash_invoice t) (tc_token t) balance_proof lock (tc_initiator t)
         (tc_target t))))"

text \<open>
  What the handler reads of its node: the address, the registry of secrets, the light clients it
  serves, the routes that \<open>get_best_routes\<close> finds for a transfer from a sender, the secrets of the
  payments it initiated and the next random secret.
\<close>

record node_view =
  nv_address :: bytes
  is_secret_registered :: "bytes \<Rightarrow> bool"
  is_handled_lc :: "bytes \<Rightarrow> bool"
  best_routes :: "LockedTransferSignedState \<Rightarrow> bytes \<Rightarrow> RouteState list"
  is_initiator_of :: "bytes \<Rightarrow> bool"
  transfer_secret :: "bytes \<Rightarrow> bytes option"
  random_secret :: bytes

text \<open>
  The state change that a message causes.  The two confirmations change the message queues of the
  chain state only.  A sender that is None, which equals no address, stands as the empty byte
  string.
\<close>

datatype handled =
    Change state_change
  | ReceiveDelivered bytes int
  | ReceiveProcessed bytes int
  | Ignored

definition message_sender :: "libs \<Rightarrow> Message \<Rightarrow> bytes result" where
  "message_sender L M = map_sum id (case_option [] id) (sender L M)"

definition handle_message_secretrequest ::
    "libs \<Rightarrow> Message \<Rightarrow> SecretRequestContent \<Rightarrow> bool \<Rightarrow> handled result" where
  "handle_message_secretrequest L M r is_light_client =
     res_bind (message_sender L M) (\<lambda>s.
       let change = \<lparr>rsq_payment_identifier = sq_payment_identifier r, rsq_amount = sq_amount r,
              rsq_expiration = sq_expiration r, rsq_secrethash = sq_secrethash r, rsq_sender = s\<rparr>
       in Inr (Change
            (if is_light_client
             then ReceiveSecretRequestLight change
               \<lparr>srm_message_identifier = sq_message_identifier r,
                srm_payment_identifier = sq_payment_identifier r,
                srm_secrethash = sq_secrethash r, srm_amount = sq_amount r,
                srm_expiration = sq_expiration r\<rparr>
             else ReceiveSecretRequestChange change)))"

definition handle_message_revealsecret ::
    "libs \<Rightarrow> Message \<Rightarrow> int \<Rightarrow> bytes \<Rightarrow> bool \<Rightarrow> handled result" where
  "handle_message_revealsecret L M message_id secret is_light_client =
     res_bind (message_sender L M) (\<lambda>s.
       let change = mk_ReceiveSecretReveal L secret s
       in Inr (Change
            (if is_light_client
             then ReceiveSecretRevealLight change
               \<lparr>rsm_message_identifier = message_id, rsm_secret = secret\<rparr>
             else ReceiveSecretRevealChange change)))"

definition handle_message_unlock ::
    "libs \<Rightarrow> Message \<Rightarrow> Envelope \<Rightarrow> int \<Rightarrow> bytes \<Rightarrow> bool \<Rightarrow> handled result" where
  "handle_message_unlock L M e payment_identifier secret is_light_client =
     res_bind (envelope_message L M e) (\<lambda>em.
     res_bind (balanceproof_from_envelope em) (\<lambda>balance_proof.
       let change = mk_ReceiveUnlock L (ev_message_identifier e) secret balance_proof
       in Inr (Change
            (if is_light_client
             then ReceiveUnlockLight change
               (EnvelopeMessage.extend em
                 \<lparr>um_payment_identifier = payment_identifier, um_secret = secret\<rparr>)
             else ReceiveUnlockChange change))))"

definition handle_message_lockexpired ::
    "libs \<Rightarrow> Message \<Rightarrow> Envelope \<Rightarrow> bytes \<Rightarrow> handled result" where
  "handle_message_lockexpired L M e secrethash =
     res_bind (envelope_message L M e) (\<lambda>em.
     res_bind (balanceproof_from_envelope em) (\<lambda>balance_proof.
       Inr (Change (ReceiveLockExpiredChange
         \<lparr>rle_balance_proof = balance_proof, rle_secrethash = secrethash,
          rle_message_identifier = ev_message_identifier e\<rparr>))))"

text \<open>
  A refund: the initiator gets a new secret and keeps the routes unless it has given its secret
  away as the empty one, a mediator gets the routes.
\<close>

definition handle_message_refundtransfer ::
    "libs \<Rightarrow> node_view \<Rightarrow> Message \<Rightarrow> Envelope \<Rightarrow> TransferContent \<Rightarrow> handled result" where
  "handle_message_refundtransfer L V M e t =
     res_bind (lockedtransfersigned_from_message L M e t) (\<lambda>from_transfer.
     res_bind (message_sender L M) (\<lambda>s.
       let routes = best_routes V from_transfer s;
           secrethash = lock_secrethash (lt_lock from_transfer)
       in Inr (Change
            (if is_initiator_of V secrethash
             then ReceiveTransferRefundCancelRouteChange
               \<lparr>rcr_routes = (if transfer_secret V secrethash = Some [] then [] else routes),
                rcr_transfer = from_transfer, rcr_secret = random_secret V\<rparr>
             else ReceiveTransferRefundChange
               \<lparr>rtr_transfer = from_transfer, rtr_routes = routes\<rparr>))))"

text \<open>\<open>target_init\<close>, \<open>target_init_light\<close> and \<open>mediator_init\<close> (\<open>raiden/raiden\_service.py\<close>).\<close>

definition transfer_route :: "LockedTransferSignedState \<Rightarrow> bytes \<Rightarrow> RouteState" where
  "transfer_route from_transfer s =
     \<lparr>route_node_address = s, route_channel_identifier =
        channel_identifier (bp_canonical_identifier (lt_balance_proof from_transfer))\<rparr>"

definition target_init :: "libs \<Rightarrow> Message \<Rightarrow> Envelope \<Rightarrow> TransferContent \<Rightarrow> state_change result" where
  "target_init L M e t =
     res_bind (lockedtransfersigned_from_message L M e t) (\<lambda>from_transfer.
     res_bind (message_sender L M) (\<lambda>s.
       Inr (ActionInitTarget (transfer_route from_transfer s) from_transfer)))"

definition target_init_light ::
    "libs \<Rightarrow> Message \<Rightarrow> Envelope \<Rightarrow> TransferContent \<Rightarrow> state_change result" where
  "target_init_light L M e t =
     res_bind (lockedtransfersigned_from_message L M e t) (\<lambda>from_transfer.
     res_bind (message_sender L M) (\<lambda>s.
     res_bind (envelope_message L M e) (\<lambda>em.
       Inr (ActionInitTargetLight (transfer_route from_transfer s) from_transfer
         (EnvelopeMessage.extend em
           \<lparr>ltm_payment_identifier = tc_payment_identifier t,
            ltm_payment_hash_invoice = tc_payment_hash_invoice t, ltm_recipient = tc_recipient t,
            ltm_initiator = tc_initiator t, ltm_target = tc_target t,
            ltm_lock_expiration = ml_expiration (tc_lock t),
            ltm_lock_secrethash = ml_secrethash (tc_lock t)\<rparr>)))))"

definition mediator_init ::
    "libs \<Rightarrow> node_view \<Rightarrow> Message \<Rightarrow> Envelope \<Rightarrow> TransferContent \<Rightarrow> state_change result" where
  "mediator_init L V M e t =
     res_bind (lockedtransfersigned_from_message L M e t) (\<lambda>from_transfer.
     res_bind (message_sender L M) (\<lambda>s.
       Inr (ActionInitMediator (best_routes V from_transfer s) (transfer_route from_transfer s)
         from_transfer)))"

text \<open>A transfer whose secret is registered on-chain is dropped.\<close>

definition handle_message_lockedtransfer ::
    "libs \<Rightarrow> node_view \<Rightarrow> Message \<Rightarrow> Envelope \<Rightarrow> TransferContent \<Rightarrow> handled result" where
  "handle_message_lockedtransfer L V M e t =
     (if is_secret_registered V (ml_secrethash (tc_lock t)) then Inr Ignored
      else map_sum id Change
        (if tc_target t = nv_address V then target_init L M e t
         else if is_handled_lc V (tc_recipient t) then target_init_light L M e t
         else mediator_init L V M e t))"

definition on_message :: "libs \<Rightarrow> node_view \<Rightarrow> Message \<Rightarrow> bool \<Rightarrow> handled result" where
  "on_message L V M is_light_client =
     (case msg_content M of
        SecretRequest r \<Rightarrow> handle_message_secretrequest L M r is_light_client
      | RevealSecret i secret \<Rightarrow> handle_message_revealsecret L M i secret is_light_client
      | Unlock e p secret \<Rightarrow> handle_message_unlock L M e p secret is_light_client
      | LockExpired e _ secrethash \<Rightarrow> handle_message_lockexpired L M e secrethash
      | RefundTransfer e t \<Rightarrow> handle_message_refundtransfer L V M e t
      | LockedTransfer e t \<Rightarrow> handle_message_lockedtransfer L V M e t
      | Delivered i \<Rightarrow> res_bind (message_sender L M) (\<lambda>s. Inr (ReceiveDelivered s i))
      | Processed i \<Rightarrow> res_bind (message_sender L M) (\<lambda>s. Inr (ReceiveProcessed s i))
      | _ \<Rightarrow> Inr Ignored)"

end
