(* ===== verification/MessageFacts.thy ===== *)
theory MessageFacts
  imports MessageFlow
begin

text \<open>
  Facts about messages: what a packed buffer holds and that reading it gives the message back, the
  same for the dictionary, that a message which a signer signed has that signer as its sender, and
  what the handler makes of a message that the partner signed.
\<close>

section \<open>Layouts\<close>

lemma layout:
  assumes "dict_get CMDID_MESSAGE i = Some spec"
  shows "namedbuffer ''message'' spec = Inr spec"
    "dict_get (compute_slices spec) ''cmdid'' = Some (0, 1)"
    "dict_get (names_fields spec) ''cmdid'' = Some (Field ''cmdid'' 1 (Some (i, i)))"
    "dict_get (compute_slices spec) ''signature'' = Some (spec_size spec - 65, spec_size spec)"
    "dict_get (names_fields spec) ''signature'' = Some (signature_field ''signature'')"
    "last spec = signature_field ''signature''" "66 \<le> spec_size spec" "0 \<le> i" "i < 256"
  using assms
  by (auto simp: CMDID_MESSAGE_def cmdid_defs spec_defs namedbuffer_def names_fields_def
      compute_slices_def spec_size_def field_kind_defs split: if_splits)

lemma class_layout: "\<exists>spec. dict_get CMDID_MESSAGE (class_cmdid m) = Some spec"
  by (cases m) (simp_all add: CMDID_MESSAGE_def class_cmdid_def cmdid_defs)

section \<open>The packed buffer\<close>

lemma assign_all_append:
  "assign_all spec data (xs @ ys) =
     res_bind (assign_all spec data xs) (\<lambda>data. assign_all spec data ys)"
  by (induction spec data xs rule: assign_all.induct) (simp_all add: res_bind_def split: sum.splits)

lemma assign_all_length:
  assumes ok: "namedbuffer bn spec = Inr spec"
  shows "assign_all spec data xs = Inr data' \<Longrightarrow> spec_size spec \<le> length data \<Longrightarrow>
    length data' = length data"
proof (induction xs arbitrary: data)
  case (Cons x rest)
  obtain name v where x: "x = (name, v)" by (cases x)
  with Cons.prems(1) obtain d where d: "buffer_setattr spec data name v = Inr d"
    "assign_all spec d rest = Inr data'" by (auto simp: res_simps)
  have "length d = length data"
    using buffer_setattr_length [OF ok d(1) Cons.prems(2)] .
  with Cons.IH [OF d(2)] Cons.prems(2) show ?case by simp
qed simp

lemma assign_all_other:
  assumes ok: "namedbuffer bn spec = Inr spec" and n: "n \<noteq> ''data''"
  shows "assign_all spec data xs = Inr data' \<Longrightarrow> spec_size spec \<le> length data \<Longrightarrow>
    n \<notin> set (map fst xs) \<Longrightarrow> buffer_getattr spec data' n = buffer_getattr spec data n"
proof (induction xs arbitrary: data)
  case (Cons x rest)
  obtain name v where x: "x = (name, v)" by (cases x)
  with Cons.prems(1) obtain d where d: "buffer_setattr spec data name v = Inr d"
    "assign_all spec d rest = Inr data'" by (auto simp: res_simps)
  have "length d = length data"
    using buffer_setattr_length [OF ok d(1) Cons.prems(2)] .
  then have "buffer_getattr spec data' n = buffer_getattr spec d n"
    using Cons.IH [OF d(2)] Cons.prems(2,3) by simp
  then show ?case
    using buffer_set_get_other [OF ok d(1) Cons.prems(2)] Cons.prems(3) n x by simp
qed simp

text \<open>A value that its field can hold exactly, and the assignment of such values.\<close>

definition fits :: "field \<Rightarrow> field_value \<Rightarrow> bool" where
  "fits f v =
     (case v of
        FInt i \<Rightarrow> (case encoder f of None \<Rightarrow> False
                  | Some (lo, hi) \<Rightarrow> lo \<le> i \<and> i \<le> hi \<and> 0 \<le> i \<and> i < 256 ^ size_bytes f)
      | FBytes b \<Rightarrow> encoder f = None \<and> length b = size_bytes f)"

definition all_fit :: "field list \<Rightarrow> assignments \<Rightarrow> bool" where
  "all_fit spec xs =
     list_all (\<lambda>(n, v). case dict_get (names_fields spec) n of None \<Rightarrow> False | Some f \<Rightarrow> fits f v) xs"

lemma names_have_slices:
  assumes "dict_get (names_fields spec) n = Some f"
  shows "\<exists>s e. dict_get (compute_slices spec) n = Some (s, e)"
proof -
  have "n \<in> set (map fst (slices_from 0 spec))"
    using assms unfolding map_fst_slices_from by (metis domI dom_map_of_conv_image_fst set_map)
  then show ?thesis
    using map_of_eq_None_iff [of "slices_from 0 spec" n]
    by (cases "dict_get (compute_slices spec) n") (auto simp: compute_slices_def)
qed

lemma fits_encoded:
  assumes "fits f v"
  shows "\<exists>bs. encode_value (encoder f) (size_bytes f) v = Inr bs \<and> length bs = size_bytes f"
  using assms
  by (cases v)
    (auto simp: fits_def encode_value_def integer_validate_def integer_encode_def
      split: option.splits)

lemma fits_assigned:
  assumes "dict_get (names_fields spec) n = Some f" "fits f v"
  shows "\<exists>d. buffer_setattr spec data n v = Inr d"
  using names_have_slices [OF assms(1)] fits_encoded [OF assms(2)] assms(1)
  by (auto simp: buffer_setattr_def)

lemma fits_read_back: "fits f v \<Longrightarrow> read_back (size_bytes f) v = v"
  by (cases v) (auto simp: fits_def)

lemma all_fit_simps [simp]:
  "all_fit spec [] = True"
  "all_fit spec ((n, v) # xs) \<longleftrightarrow>
     (\<exists>f. dict_get (names_fields spec) n = Some f \<and> fits f v) \<and> all_fit spec xs"
  by (auto simp: all_fit_def split: option.splits)

lemma all_fit_append: "all_fit spec (xs @ ys) \<longleftrightarrow> all_fit spec xs \<and> all_fit spec ys"
  by (simp add: all_fit_def)

lemma assign_all_ok:
  assumes ok: "namedbuffer bn spec = Inr spec"
  shows "all_fit spec xs \<Longrightarrow> \<exists>data'. assign_all spec data xs = Inr data'"
proof (induction xs arbitrary: data)
  case (Cons x rest)
  obtain n v where x: "x = (n, v)" by (cases x)
  with Cons.prems obtain f where "dict_get (names_fields spec) n = Some f" "fits f v" by auto
  from fits_assigned [OF this] obtain d where "buffer_setattr spec data n v = Inr d" by blast
  with Cons.IH [of d] Cons.prems x show ?case by auto
qed simp

lemma assign_all_reads:
  assumes ok: "namedbuffer bn spec = Inr spec"
  shows "assign_all spec data xs = Inr data' \<Longrightarrow> spec_size spec \<le> length data \<Longrightarrow>
    distinct (map fst xs) \<Longrightarrow> all_fit spec xs \<Longrightarrow>
    list_all (\<lambda>(n, v). buffer_getattr spec data' n = Inr v) xs"
proof (induction xs arbitrary: data)
  case (Cons x rest)
  obtain n v where x: "x = (n, v)" by (cases x)
  with Cons.prems(1) obtain d where d: "buffer_setattr spec data n v = Inr d"
    "assign_all spec d rest = Inr data'" by (auto simp: res_simps)
  from Cons.prems(4) x obtain f where f: "dict_get (names_fields spec) n = Some f" "fits f v"
    by auto
  have l: "length d = length data"
    using buffer_setattr_length [OF ok d(1) Cons.prems(2)] .
  have "n \<noteq> ''data''"
    using ok f(1) by (auto simp: namedbuffer_def image_iff dest!: map_of_SomeD split: if_splits)
  then have "buffer_getattr spec data' n = buffer_getattr spec d n"
    using assign_all_other [OF ok _ d(2)] Cons.prems(2,3) l x by simp
  then have "buffer_getattr spec data' n = Inr v"
    using buffer_set_get_same [OF ok d(1) Cons.prems(2)] f fits_read_back [OF f(2)] by simp
  with Cons.IH [OF d(2)] Cons.prems(2-4) l x show ?case by auto
qed simp


text \<open>The value of every assigned field, by name: the content's and the signature.\<close>

definition message_fields :: "field list \<Rightarrow> Message \<Rightarrow> assignments" where
  "message_fields spec M =
     message_pack spec (msg_content M) @ [(''signature'', FBytes (msg_signature M))]"

lemma message_fields_distinct:
  "distinct (map fst (message_fields spec M)) \<and> ''cmdid'' \<notin> set (map fst (message_fields spec M))"
  by (cases "msg_content M")
    (simp_all add: message_fields_def message_pack_def Processed_pack_def ToDevice_pack_def
      Delivered_pack_def Pong_pack_def Ping_pack_def SecretRequest_pack_def Unlock_pack_def
      RevealSecret_pack_def LockedTransfer_pack_def LockExpired_pack_def)

definition message_spec :: "message \<Rightarrow> field list" where
  "message_spec m = the (dict_get CMDID_MESSAGE (class_cmdid m))"

lemma message_spec: "dict_get CMDID_MESSAGE (class_cmdid m) = Some (message_spec m)"
  using class_layout [of m] by (auto simp: message_spec_def)

lemmas spec_layout = layout [OF message_spec]

lemma packed_alt:
  "packed M = map_sum id (Pair (message_spec (msg_content M)))
     (assign_all (message_spec (msg_content M))
        ((buffer_for (message_spec (msg_content M)))[0 := word_of_int (class_cmdid (msg_content M))])
        (message_fields (message_spec (msg_content M)) M))"
  by (simp add: packed_def message_spec message_fields_def res_bind_def split: sum.splits)

lemma getattr_cmdid:
  assumes "dict_get CMDID_MESSAGE i = Some spec" "data \<noteq> []"
  shows "buffer_getattr spec data ''cmdid'' = Inr (FInt (uint (data ! 0)))"
  using layout(2,3) [OF assms(1)] assms(2)
  by (cases data) (simp_all add: buffer_getattr_def get_slice_def integer_decode_def)

text \<open>The packed form of a message whose values fit.\<close>

lemma packed_fits:
  assumes "all_fit (message_spec (msg_content M)) (message_fields (message_spec (msg_content M)) M)"
  obtains data where "packed M = Inr (message_spec (msg_content M), data)"
    "length data = spec_size (message_spec (msg_content M))"
    "uint (data ! 0) = class_cmdid (msg_content M)"
    "list_all (\<lambda>(n, v). buffer_getattr (message_spec (msg_content M)) data n = Inr v)
       (message_fields (message_spec (msg_content M)) M)"
proof -
  let ?m = "msg_content M"
  let ?spec = "message_spec ?m"
  let ?d0 = "(buffer_for ?spec)[0 := word_of_int (class_cmdid ?m)]"
  note lay = spec_layout [of ?m]
  have l0: "length ?d0 = spec_size ?spec" by (simp add: buffer_for_def)
  obtain data where data: "assign_all ?spec ?d0 (message_fields ?spec M) = Inr data"
    using assign_all_ok [OF lay(1) assms] by blast
  have l: "length data = spec_size ?spec"
    using assign_all_length [OF lay(1) data] l0 by simp
  have "buffer_getattr ?spec data ''cmdid'' = buffer_getattr ?spec ?d0 ''cmdid''"
    using assign_all_other [OF lay(1) _ data] l0 message_fields_distinct [of ?spec M] by simp
  then have "uint (data ! 0) = uint (?d0 ! 0)"
    using getattr_cmdid [OF message_spec] lay(7) l l0
    by (metis field_value.inject(1) list.size(3) not_numeral_le_zero sum.inject(2))
  moreover have "uint (?d0 ! 0) = class_cmdid ?m"
    using lay(7-9) by (simp add: buffer_for_def uint_word_of_int)
  moreover have "packed M = Inr (?spec, data)"
    using data by (simp add: packed_alt)
  ultimately show ?thesis
    using that l assign_all_reads [OF lay(1) data] l0 message_fields_distinct assms by auto
qed


section \<open>Reading the packed form\<close>

text \<open>A message that its constructor accepts, and with it its lock.\<close>

definition constructed :: "message \<Rightarrow> bool" where
  "constructed m =
     (case m of
        Unlock e p s \<Rightarrow> mk_Unlock e p s = Inr m
      | LockedTransfer e t \<Rightarrow> mk_LockedTransfer LockedTransfer e t = Inr m \<and>
          mk_MessageLock (ml_amount (tc_lock t)) (ml_expiration (tc_lock t))
            (ml_secrethash (tc_lock t)) = Inr (tc_lock t)
      | RefundTransfer e t \<Rightarrow> mk_LockedTransfer RefundTransfer e t = Inr m \<and>
          mk_MessageLock (ml_amount (tc_lock t)) (ml_expiration (tc_lock t))
            (ml_secrethash (tc_lock t)) = Inr (tc_lock t)
      | LockExpired e r h \<Rightarrow> mk_LockExpired e r h = Inr m
      | _ \<Rightarrow> True)"

text \<open>A message whose values fit the fields of its layout; a refund has no field for an invoice.\<close>

definition message_fits :: "Message \<Rightarrow> bool" where
  "message_fits M \<longleftrightarrow>
     all_fit (message_spec (msg_content M)) (message_fields (message_spec (msg_content M)) M) \<and>
     (case msg_content M of
        RefundTransfer e t \<Rightarrow> tc_payment_hash_invoice t = EMPTY_PAYMENT_HASH_INVOICE
      | _ \<Rightarrow> True)"

definition unpack :: "message \<Rightarrow> field list \<Rightarrow> bytes \<Rightarrow> message result" where
  "unpack m = the (dict_get CMDID_TO_CLASS (class_cmdid m))"

lemma class_unpack: "dict_get CMDID_TO_CLASS (class_cmdid m) = Some (unpack m)"
  by (cases m) (simp_all add: CMDID_TO_CLASS_def class_cmdid_def cmdid_defs unpack_def)

lemmas pack_defs = message_pack_def Processed_pack_def ToDevice_pack_def Delivered_pack_def
  Pong_pack_def Ping_pack_def SecretRequest_pack_def Unlock_pack_def RevealSecret_pack_def
  LockExpired_pack_def

lemma envelope_eta [simp]:
  "\<lparr>ev_chain_id = ev_chain_id e, ev_message_identifier = ev_message_identifier e,
     ev_nonce = ev_nonce e, ev_transferred_amount = ev_transferred_amount e,
     ev_locked_amount = ev_locked_amount e, ev_locksroot = ev_locksroot e,
     ev_channel_identifier = ev_channel_identifier e,
     ev_token_network_address = ev_token_network_address e\<rparr> = e"
  by (cases e) simp

lemma transfer_eta [simp]:
  "\<lparr>tc_payment_identifier = tc_payment_identifier t,
     tc_payment_hash_invoice = tc_payment_hash_invoice t, tc_token = tc_token t,
     tc_recipient = tc_recipient t, tc_lock = tc_lock t, tc_target = tc_target t,
     tc_initiator = tc_initiator t, tc_fee = tc_fee t\<rparr> = t"
  by (cases t) simp

lemma refund_eta:
  "tc_payment_hash_invoice t = i \<Longrightarrow> \<lparr>tc_payment_identifier = tc_payment_identifier t,
     tc_payment_hash_invoice = i, tc_token = tc_token t,
     tc_recipient = tc_recipient t, tc_lock = tc_lock t, tc_target = tc_target t,
     tc_initiator = tc_initiator t, tc_fee = tc_fee t\<rparr> = t"
  by auto

lemma request_eta [simp]:
  "\<lparr>sq_message_identifier = sq_message_identifier r,
     sq_payment_identifier = sq_payment_identifier r, sq_secrethash = sq_secrethash r,
     sq_amount = sq_amount r, sq_expiration = sq_expiration r\<rparr> = r"
  by (cases r) simp

lemma unpack_packed:
  assumes "list_all (\<lambda>(n, v). buffer_getattr (message_spec m) data n = Inr v)
      (message_pack (message_spec m) m)"
    and "constructed m"
    and "\<And>e t. m = RefundTransfer e t \<Longrightarrow> tc_payment_hash_invoice t = EMPTY_PAYMENT_HASH_INVOICE"
  shows "unpack m (message_spec m) data = Inr m"
proof (cases m)
  case (LockedTransfer e t)
  then have "dict_has (names_fields (message_spec m)) ''payment_hash_invoice''"
    by (simp add: message_spec_def CMDID_MESSAGE_def class_cmdid_def cmdid_defs
        LockedTransfer_spec_def names_fields_def field_kind_defs dict_simps)
  with LockedTransfer assms show ?thesis
    by (simp add: pack_defs LockedTransfer_pack_def unpack_def CMDID_TO_CLASS_def class_cmdid_def
        cmdid_defs LockedTransfer_unpack_def get_transfer_def get_envelope_def get_int_def
        get_bytes_def constructed_def)
next
  case (RefundTransfer e t)
  with assms show ?thesis
    by (simp add: pack_defs LockedTransfer_pack_def unpack_def CMDID_TO_CLASS_def class_cmdid_def
        cmdid_defs RefundTransfer_unpack_def get_transfer_def get_envelope_def get_int_def
        get_bytes_def constructed_def refund_eta)
next
  case (Unlock e p h)
  with assms show ?thesis
    by (simp add: pack_defs unpack_def CMDID_TO_CLASS_def class_cmdid_def cmdid_defs
        Unlock_unpack_def get_envelope_def get_int_def get_bytes_def constructed_def)
next
  case (LockExpired e r h)
  with assms show ?thesis
    by (simp add: pack_defs unpack_def CMDID_TO_CLASS_def class_cmdid_def cmdid_defs
        LockExpired_unpack_def get_envelope_def get_int_def get_bytes_def constructed_def)
qed (use assms in \<open>simp_all add: pack_defs unpack_def CMDID_TO_CLASS_def class_cmdid_def cmdid_defs
    Ping_unpack_def SecretRequest_unpack_def RevealSecret_unpack_def get_int_def get_bytes_def\<close>)

lemma encoded_decodes:
  assumes "constructed (msg_content M)" and "message_fits M"
  shows "\<exists>data. message_encode M = Inr data \<and> message_decode data = Inr (Some M)"
proof -
  let ?m = "msg_content M"
  let ?spec = "message_spec ?m"
  note lay = spec_layout [of ?m]
  from assms(2) obtain data where data: "packed M = Inr (?spec, data)"
    "length data = spec_size ?spec" "uint (data ! 0) = class_cmdid ?m"
    "list_all (\<lambda>(n, v). buffer_getattr ?spec data n = Inr v) (message_fields ?spec M)"
    using packed_fits [of M] unfolding message_fits_def by blast
  have un: "unpack ?m ?spec data = Inr ?m"
  proof (rule unpack_packed [OF _ assms(1)])
    show "list_all (\<lambda>(n, v). buffer_getattr ?spec data n = Inr v) (message_pack ?spec ?m)"
      using data(4) by (simp add: message_fields_def)
    show "tc_payment_hash_invoice t = EMPTY_PAYMENT_HASH_INVOICE" if "?m = RefundTransfer e t" for e t
      using assms(2) that by (simp add: message_fits_def)
  qed
  have sig: "get_bytes ?spec data ''signature'' = Inr (msg_signature M)"
    using data(4) by (simp add: message_fields_def get_bytes_def)
  obtain b rest where b: "data = b # rest"
    using data(2) lay(7) by (cases data) auto
  have "wrap data = Inr (Some (?spec, data))"
    using b data(2,3) message_spec [of ?m] by (simp add: wrap_def wrap_buffer_def)
  with b data(3) un sig have "message_decode data = Inr (Some M)"
    using class_unpack [of ?m] by (simp add: message_decode_def)
  with data(1) show ?thesis by (simp add: message_encode_def)
qed


section \<open>Signatures\<close>

text \<open>What is signed does not depend on the signature that a message carries.\<close>

definition unsigned_buffer :: "message \<Rightarrow> bytes result" where
  "unsigned_buffer m =
     assign_all (message_spec m) ((buffer_for (message_spec m))[0 := word_of_int (class_cmdid m)])
       (message_pack (message_spec m) m)"

lemma set_signature:
  assumes "length data = spec_size (message_spec m)" "length sig \<le> 65"
  obtains d where "buffer_setattr (message_spec m) data ''signature'' (FBytes sig) = Inr d"
    "length d = length data" "take (length data - 65) d = take (length data - 65) data"
proof -
  note lay = spec_layout [of m]
  let ?v = "replicate (65 - length sig) 0 @ sig"
  have f: "size_bytes (signature_field ''signature'') = 65"
    "encoder (signature_field ''signature'') = None"
    by (simp_all add: signature_field_def)
  have "buffer_setattr (message_spec m) data ''signature'' (FBytes sig) =
      Inr (set_slice data (spec_size (message_spec m) - 65) (spec_size (message_spec m)) ?v)"
    using lay(4,5) assms(2) f by (simp add: buffer_setattr_def encode_value_def)
  then show ?thesis
    using that assms lay(7) by (simp add: set_slice_def)
qed

lemma unsigned_alt:
  assumes "length (msg_signature M) \<le> 65"
  shows "unsigned_data M =
    map_sum id (\<lambda>d. take (length d - 65) d) (unsigned_buffer (msg_content M))"
proof (cases "unsigned_buffer (msg_content M)")
  case (Inl e)
  then show ?thesis
    by (simp add: unsigned_data_def packed_alt message_fields_def assign_all_append
        unsigned_buffer_def)
next
  case (Inr d)
  let ?spec = "message_spec (msg_content M)"
  note lay = spec_layout [of "msg_content M"]
  have l: "length d = spec_size ?spec"
    using assign_all_length [OF lay(1), of _ _ d] Inr
    by (simp add: unsigned_buffer_def buffer_for_def)
  obtain d' where d': "buffer_setattr ?spec d ''signature'' (FBytes (msg_signature M)) = Inr d'"
    "length d' = length d" "take (length d - 65) d' = take (length d - 65) d"
    using set_signature [OF l assms] by blast
  have "packed M = Inr (?spec, d')"
    using Inr d'(1) by (simp add: packed_alt message_fields_def assign_all_append unsigned_buffer_def)
  then show ?thesis
    using d'(2,3) lay(6) Inr by (simp add: unsigned_data_def signature_field_def)
qed

lemma data_to_sign_signature:
  assumes "length (msg_signature M) \<le> 65" "length sig \<le> 65"
  shows "data_to_sign L (M\<lparr>msg_signature := sig\<rparr>) = data_to_sign L M"
    "message_hash L (M\<lparr>msg_signature := sig\<rparr>) = message_hash L M"
proof -
  have "unsigned_data (M\<lparr>msg_signature := sig\<rparr>) = unsigned_data M"
    using assms by (simp add: unsigned_alt)
  then show "data_to_sign L (M\<lparr>msg_signature := sig\<rparr>) = data_to_sign L M"
    "message_hash L (M\<lparr>msg_signature := sig\<rparr>) = message_hash L M"
    by (simp_all add: data_to_sign_def message_hash_def split: option.splits)
qed

text \<open>
  eth\_keys: a signature has 65 bytes, the last one 0 or 1, and the signer's address is recovered
  from it.
\<close>

definition signer_ok :: "libs \<Rightarrow> signer \<Rightarrow> bool" where
  "signer_ok L S \<longleftrightarrow>
     (\<forall>h. length (sign_msg_hash S h) = 65 \<and> last (sign_msg_hash S h) \<le> 1 \<and>
          ecdsa_recover L h (sign_msg_hash S h) = Some (signer_address S))"

lemma signature_length: "signer_ok L S \<Longrightarrow> length (signer_sign L S data) = 65"
  by (simp add: signer_sign_def signer_ok_def Let_def)

lemma recover_signed:
  assumes "signer_ok L S"
  shows "recover L data (signer_sign L S data) = Inr (signer_address S)"
proof -
  let ?h = "eth_sign_sha3 L data"
  let ?g = "sign_msg_hash S ?h"
  have g: "length ?g = 65" "last ?g \<le> 1" "ecdsa_recover L ?h ?g = Some (signer_address S)"
    using assms by (auto simp: signer_ok_def)
  have ne: "?g \<noteq> []" using g(1) by auto
  have "last ?g = 0 \<or> last ?g = 1"
    using g(2) by (auto simp: word_le_nat_alt word_unat_eq_iff le_Suc_eq)
  then have "27 \<le> last ?g + 27" by auto
  then show ?thesis
    using g ne by (simp add: recover_def signer_sign_def Let_def)
qed

lemma signed_message:
  assumes ok: "signer_ok L S" and unsigned: "msg_signature M = []"
    and signed: "sign_message L S M = Inr M'"
  shows "msg_content M' = msg_content M" "length (msg_signature M') = 65"
    "sender L M' = Inr (Some (signer_address S))" "message_hash L M' = message_hash L M"
    "\<exists>d. data_to_sign L M' = Inr d \<and> recover L d (msg_signature M') = Inr (signer_address S)"
proof -
  from signed obtain d where d: "data_to_sign L M = Inr d"
    and M': "M' = M\<lparr>msg_signature := signer_sign L S d\<rparr>"
    by (auto simp: sign_message_def res_simps)
  have l: "length (signer_sign L S d) = 65" using signature_length [OF ok] .
  have d': "data_to_sign L M' = Inr d"
    using data_to_sign_signature(1) [of M "signer_sign L S d" L] unsigned l d M' by simp
  show "msg_content M' = msg_content M" "length (msg_signature M') = 65"
    using l M' by simp_all
  show "message_hash L M' = message_hash L M"
    using data_to_sign_signature(2) [of M "signer_sign L S d" L] unsigned l M' by simp
  have r: "recover L d (msg_signature M') = Inr (signer_address S)"
    using recover_signed [OF ok] M' by simp
  with d' show "\<exists>d. data_to_sign L M' = Inr d \<and> recover L d (msg_signature M') = Inr (signer_address S)"
    by blast
  have "msg_signature M' \<noteq> []" using l M' by auto
  with d' r show "sender L M' = Inr (Some (signer_address S))"
    by (simp add: sender_def)
qed


section \<open>The dictionary\<close>

text \<open>
  eth\_utils: \<open>decode_hex\<close> inverts \<open>encode_hex\<close>, and an address of 20 bytes has a normalized form
  that \<open>to_canonical_address\<close> reads back.
\<close>

definition codec_ok :: "codec \<Rightarrow> bool" where
  "codec_ok E \<longleftrightarrow>
     (\<forall>b. decode_hex E (encode_hex E b) = Some b) \<and>
     (\<forall>a. length a = 20 \<longrightarrow>
        (\<exists>s. to_normalized_address E a = Inr s \<and> to_canonical_address E s = Inr a))"

lemma codec_hex: "codec_ok E \<Longrightarrow> hex_value E (encode_hex E b) = Inr b"
  by (simp add: codec_ok_def hex_value_def)

lemma codec_address:
  assumes "codec_ok E" "length a = 20"
  obtains s where "to_normalized_address E a = Inr s" "to_canonical_address E s = Inr a"
  using assms by (auto simp: codec_ok_def)

text \<open>The addresses that a class does not check itself.\<close>

definition addresses_ok :: "message \<Rightarrow> bool" where
  "addresses_ok m =
     (case m of
        Unlock e _ _ \<Rightarrow> length (ev_token_network_address e) = 20
      | LockedTransfer e _ \<Rightarrow> length (ev_token_network_address e) = 20
      | RefundTransfer e _ \<Rightarrow> length (ev_token_network_address e) = 20
      | LockExpired e r _ \<Rightarrow> length (ev_token_network_address e) = 20 \<and> length r = 20
      | _ \<Rightarrow> True)"

definition has_dict :: "message \<Rightarrow> bool" where
  "has_dict m = (case m of Ping _ _ \<Rightarrow> False | Pong _ \<Rightarrow> False | _ \<Rightarrow> True)"

definition is_refund :: "message \<Rightarrow> bool" where
  "is_refund m = (case m of RefundTransfer _ _ \<Rightarrow> True | _ \<Rightarrow> False)"

lemmas to_dict_defs = message_to_dict_def identifier_to_dict_def SecretRequest_to_dict_def
  RevealSecret_to_dict_def Unlock_to_dict_def LockedTransfer_to_dict_def RefundTransfer_to_dict_def
  transfer_to_dict_def LockExpired_to_dict_def Lock_to_dict_def address_json_def

lemmas from_dict_defs = message_from_dict_def CLASSNAME_TO_CLASS_def identifier_from_dict_def
  SecretRequest_from_dict_def RevealSecret_from_dict_def Unlock_from_dict_def
  LockedTransfer_from_dict_def RefundTransfer_from_dict_def transfer_from_dict_def
  LockExpired_from_dict_def Lock_from_dict_def assert_type_def with_signature_def json_get_def
  json_int_def json_hex_def json_raw_def json_address_def

lemma mk_LockedTransfer_lengths:
  assumes "mk_LockedTransfer cls e t = Inr m"
  shows "length (tc_target t) = 20" "length (tc_initiator t) = 20" "length (tc_token t) = 20"
    "length (tc_recipient t) = 20"
  using assms by (auto simp: mk_LockedTransfer_def assert_transfer_values_def res_simps)

lemma transfer_dict:
  assumes E: "codec_ok E" and mk: "mk_LockedTransfer cls e t = Inr (cls e t)"
    and lock: "mk_MessageLock (ml_amount (tc_lock t)) (ml_expiration (tc_lock t))
      (ml_secrethash (tc_lock t)) = Inr (tc_lock t)"
    and tna: "length (ev_token_network_address e) = 20"
    and inv: "\<And>d. dict_get d ''payment_hash_invoice'' = Some v \<Longrightarrow> f d = Inr (tc_payment_hash_invoice t)"
  shows "\<exists>d. transfer_to_dict E name v e t sig = Inr (JDict d) \<and>
    dict_get d ''type'' = Some (JStr name) \<and> dict_has d ''payment_hash_invoice'' \<and>
    transfer_from_dict E f cls d = Inr \<lparr>msg_content = cls e t, msg_signature = sig\<rparr> \<and>
    (items_safe d \<longleftrightarrow> json_safe v)"
proof -
  note len = mk_LockedTransfer_lengths [OF mk]
  obtain a where a: "to_normalized_address E (ev_token_network_address e) = Inr a"
    "to_canonical_address E a = Inr (ev_token_network_address e)"
    using codec_address [OF E tna] by blast
  obtain b where b: "to_normalized_address E (tc_token t) = Inr b"
    "to_canonical_address E b = Inr (tc_token t)"
    using codec_address [OF E len(3)] by blast
  obtain c where c: "to_normalized_address E (tc_recipient t) = Inr c"
    "to_canonical_address E c = Inr (tc_recipient t)"
    using codec_address [OF E len(4)] by blast
  obtain g where g: "to_normalized_address E (tc_target t) = Inr g"
    "to_canonical_address E g = Inr (tc_target t)"
    using codec_address [OF E len(1)] by blast
  obtain h where h: "to_normalized_address E (tc_initiator t) = Inr h"
    "to_canonical_address E h = Inr (tc_initiator t)"
    using codec_address [OF E len(2)] by blast
  show ?thesis
    using mk lock
    by (auto simp: transfer_to_dict_def address_json_def Lock_to_dict_def a b c g h codec_hex [OF E]
        from_dict_defs inv dict_simps)
qed

lemma dict_roundtrip:
  assumes E: "codec_ok E" and c: "constructed (msg_content M)" and a: "addresses_ok (msg_content M)"
    and d: "has_dict (msg_content M)"
  shows "\<exists>v. message_to_dict E M = Inr v \<and> message_from_dict E v = Inr M \<and>
    (json_safe v \<longleftrightarrow> \<not> is_refund (msg_content M))"
proof (cases "msg_content M")
  case (LockedTransfer e t)
  have "\<exists>d. transfer_to_dict E ''LockedTransfer'' (JStr (encode_hex E (tc_payment_hash_invoice t))) e t
      (msg_signature M) = Inr (JDict d) \<and> dict_get d ''type'' = Some (JStr ''LockedTransfer'') \<and>
    dict_has d ''payment_hash_invoice'' \<and>
    transfer_from_dict E (\<lambda>d. json_hex E d ''payment_hash_invoice'') LockedTransfer d =
      Inr \<lparr>msg_content = LockedTransfer e t, msg_signature = msg_signature M\<rparr> \<and>
    (items_safe d \<longleftrightarrow> json_safe (JStr (encode_hex E (tc_payment_hash_invoice t))))"
    by (rule transfer_dict [OF E])
      (use LockedTransfer c a in \<open>simp_all add: constructed_def addresses_ok_def json_hex_def
        json_get_def codec_hex [OF E]\<close>)
  then show ?thesis
    using LockedTransfer by (fastforce simp: message_to_dict_def LockedTransfer_to_dict_def
        message_from_dict_def CLASSNAME_TO_CLASS_def LockedTransfer_from_dict_def is_refund_def)
next
  case (RefundTransfer e t)
  have "\<exists>d. transfer_to_dict E ''RefundTransfer'' (JBytes (tc_payment_hash_invoice t)) e t
      (msg_signature M) = Inr (JDict d) \<and> dict_get d ''type'' = Some (JStr ''RefundTransfer'') \<and>
    dict_has d ''payment_hash_invoice'' \<and>
    transfer_from_dict E (\<lambda>d. json_raw d ''payment_hash_invoice'') RefundTransfer d =
      Inr \<lparr>msg_content = RefundTransfer e t, msg_signature = msg_signature M\<rparr> \<and>
    (items_safe d \<longleftrightarrow> json_safe (JBytes (tc_payment_hash_invoice t)))"
    by (rule transfer_dict [OF E])
      (use RefundTransfer c a in \<open>simp_all add: constructed_def addresses_ok_def json_raw_def
        json_get_def\<close>)
  then show ?thesis
    using RefundTransfer by (fastforce simp: message_to_dict_def RefundTransfer_to_dict_def
        message_from_dict_def CLASSNAME_TO_CLASS_def RefundTransfer_from_dict_def is_refund_def)
next
  case (Unlock e p h)
  obtain s where "to_normalized_address E (ev_token_network_address e) = Inr s"
    "to_canonical_address E s = Inr (ev_token_network_address e)"
    using codec_address [OF E] a Unlock by (auto simp: addresses_ok_def)
  with Unlock c show ?thesis
    by (simp add: to_dict_defs from_dict_defs codec_hex [OF E] constructed_def is_refund_def)
next
  case (LockExpired e r h)
  obtain s where "to_normalized_address E (ev_token_network_address e) = Inr s"
    "to_canonical_address E s = Inr (ev_token_network_address e)"
    using codec_address [OF E] a LockExpired by (auto simp: addresses_ok_def)
  moreover obtain s' where "to_normalized_address E r = Inr s'" "to_canonical_address E s' = Inr r"
    using codec_address [OF E] a LockExpired by (auto simp: addresses_ok_def)
  ultimately show ?thesis
    using LockExpired c
    by (simp add: to_dict_defs from_dict_defs codec_hex [OF E] constructed_def is_refund_def)
qed (use d in \<open>simp_all add: has_dict_def to_dict_defs from_dict_defs codec_hex [OF E]
    is_refund_def\<close>)


section \<open>Delivery\<close>

text \<open>Values that can be assigned; a short byte string is padded.\<close>

definition accepts :: "field \<Rightarrow> field_value \<Rightarrow> bool" where
  "accepts f v =
     (case v of
        FInt i \<Rightarrow> fits f v
      | FBytes b \<Rightarrow> encoder f = None \<and> length b \<le> size_bytes f)"

definition packable :: "message \<Rightarrow> bool" where
  "packable m =
     list_all (\<lambda>(n, v). case dict_get (names_fields (message_spec m)) n of
         None \<Rightarrow> False | Some f \<Rightarrow> accepts f v)
       (message_pack (message_spec m) m)"

lemma accepts_assigned:
  assumes "dict_get (names_fields spec) n = Some f" "accepts f v"
  shows "\<exists>d. buffer_setattr spec data n v = Inr d"
proof (cases v)
  case (FInt i)
  then show ?thesis using assms fits_assigned by (simp add: accepts_def)
next
  case (FBytes b)
  then show ?thesis
    using assms names_have_slices [OF assms(1)]
    by (auto simp: accepts_def buffer_setattr_def encode_value_def)
qed

lemma assign_all_accepted:
  "list_all (\<lambda>(n, v). case dict_get (names_fields spec) n of None \<Rightarrow> False | Some f \<Rightarrow> accepts f v) xs \<Longrightarrow>
     \<exists>data'. assign_all spec data xs = Inr data'"
proof (induction xs arbitrary: data)
  case (Cons x rest)
  obtain n v where x: "x = (n, v)" by (cases x)
  with Cons.prems obtain f where "dict_get (names_fields spec) n = Some f" "accepts f v"
    by (auto split: option.splits)
  from accepts_assigned [OF this] obtain d where "buffer_setattr spec data n v = Inr d" by blast
  with Cons.IH [of d] Cons.prems x show ?case by auto
qed simp

lemma unsigned_data_ok:
  assumes "packable (msg_content M)" "msg_signature M = []"
  shows "\<exists>d. unsigned_data M = Inr d"
proof -
  obtain d where "unsigned_buffer (msg_content M) = Inr d"
    using assign_all_accepted [OF assms(1) [unfolded packable_def]]
    unfolding unsigned_buffer_def by blast
  then show ?thesis using assms(2) by (simp add: unsigned_alt)
qed

lemma envelope_values_iff:
  "envelope_values e = Inr () \<longleftrightarrow>
     0 < ev_nonce e \<and> ev_nonce e \<le> UINT64_MAX \<and> 0 \<le> ev_channel_identifier e \<and>
     ev_channel_identifier e \<le> UINT256_MAX \<and> 0 \<le> ev_transferred_amount e \<and>
     ev_transferred_amount e \<le> UINT256_MAX \<and> 0 \<le> ev_locked_amount e \<and>
     ev_locked_amount e \<le> UINT256_MAX \<and> length (ev_locksroot e) = 32"
  by (auto simp: envelope_values_def assert_envelope_values_def res_simps)

lemma constructed_envelope:
  "constructed m \<Longrightarrow> is_envelope m = Some e \<Longrightarrow> envelope_values e = Inr ()"
  by (auto simp: constructed_def is_envelope_def mk_Unlock_def mk_LockedTransfer_def
      mk_LockExpired_def res_simps split: message.splits)

lemma data_to_sign_ok:
  assumes "packable (msg_content M)" "msg_signature M = []" "constructed (msg_content M)"
  shows "\<exists>d. data_to_sign L M = Inr d"
proof -
  obtain d where d: "unsigned_data M = Inr d"
    using unsigned_data_ok [OF assms(1,2)] by blast
  show ?thesis
  proof (cases "is_envelope (msg_content M)")
    case (Some e)
    then have "length (ev_locksroot e) = 32"
      using constructed_envelope [OF assms(3)] by (simp add: envelope_values_iff)
    from hash_balance_data_total [OF this] obtain h where
      "hash_balance_data L (ev_transferred_amount e) (ev_locked_amount e) (ev_locksroot e) = Inr h"
      by blast
    with d Some show ?thesis
      using pack_balance_proof_total by (simp add: data_to_sign_def message_hash_def)
  qed (use d in \<open>simp add: data_to_sign_def\<close>)
qed

text \<open>A message that travels: signed, written, parsed and found to be the sender's.\<close>

definition sent_over ::
    "libs \<Rightarrow> codec \<Rightarrow> signer \<Rightarrow> Message \<Rightarrow> Message \<Rightarrow> bool" where
  "sent_over L E S M M' \<longleftrightarrow>
     (\<exists>v. enqueued_text L E S M = Inr v \<and>
          validate_and_parse_message L E (JsonLines [Some v]) (signer_address S) = Inr [M'])"

lemma delivered:
  assumes E: "codec_ok E" and S: "signer_ok L S" and c: "constructed (msg_content M)"
    and a: "addresses_ok (msg_content M)" and d: "has_dict (msg_content M)"
    and r: "\<not> is_refund (msg_content M)" and p: "packable (msg_content M)"
    and u: "msg_signature M = []"
  obtains M' where "sent_over L E S M M'" "sign_message L S M = Inr M'"
    "msg_content M' = msg_content M" "sender L M' = Inr (Some (signer_address S))"
proof -
  obtain M' where M': "sign_message L S M = Inr M'"
    using data_to_sign_ok [OF p u c, of L] by (auto simp: sign_message_def)
  note s = signed_message [OF S u M']
  obtain v where v: "message_to_dict E M' = Inr v" "message_from_dict E v = Inr M'" "json_safe v"
    using dict_roundtrip [OF E, of M'] c a d r s(1) by auto
  have "enqueued_text L E S M = Inr v"
    using M' v by (simp add: enqueued_text_def json_dumps_def)
  moreover have "validate_and_parse_message L E (JsonLines [Some v]) (signer_address S) = Inr [M']"
    using v(2) s(3) by (simp add: validate_and_parse_message_def validate_line_def)
  ultimately show ?thesis using that M' s(1,3) by (auto simp: sent_over_def)
qed

text \<open>The balance proof that the receiver of an envelope message takes from it.\<close>

lemma delivered_proof:
  assumes L: "keccak_ok L" and S: "signer_ok L S" and u: "msg_signature M = []"
    and M': "sign_message L S M = Inr M'" and c: "constructed (msg_content M)"
    and e: "is_envelope (msg_content M) = Some e" and eq: "e = proof_envelope i bp"
  obtains em bp' where "envelope_message L M' e = Inr em" "balanceproof_from_envelope em = Inr bp'"
    "signed_copy L (signer_address S) bp bp'" "bp_sender bp' = signer_address S"
proof -
  note s = signed_message [OF S u M']
  note v = constructed_envelope [OF c e, unfolded envelope_values_iff]
  from s(5) obtain d where d: "data_to_sign L M' = Inr d"
    "recover L d (msg_signature M') = Inr (signer_address S)" by blast
  with s(1) e obtain h mh where h:
    "hash_balance_data L (ev_transferred_amount e) (ev_locked_amount e) (ev_locksroot e) = Inr h"
    "message_hash L M' = Inr mh"
    "pack_balance_proof L (ev_nonce e) h mh
      \<lparr>chain_identifier = ev_chain_id e, token_network_address = ev_token_network_address e,
       channel_identifier = ev_channel_identifier e\<rparr> BALANCE_PROOF = Inr d"
    by (auto simp: data_to_sign_def res_simps)
  have mh: "length mh = 32" using h(2) L by (auto simp: message_hash_def res_simps)
  let ?em = "\<lparr>em_chain_id = ev_chain_id e, em_message_identifier = ev_message_identifier e,
     em_nonce = ev_nonce e, em_transferred_amount = ev_transferred_amount e,
     em_locked_amount = ev_locked_amount e, em_locksroot = ev_locksroot e,
     em_channel_identifier = ev_channel_identifier e,
     em_token_network_address = ev_token_network_address e, em_message_hash = mh,
     em_signature = msg_signature M', em_sender = signer_address S\<rparr>"
  have ci: "\<lparr>chain_identifier = ev_chain_id e, token_network_address = ev_token_network_address e,
      channel_identifier = ev_channel_identifier e\<rparr> = bp_canonical_identifier bp"
    using eq by (simp add: proof_envelope_def)
  let ?bp = "\<lparr>bp_nonce = ev_nonce e, bp_transferred_amount = ev_transferred_amount e,
     bp_locked_amount = ev_locked_amount e, bp_locksroot = ev_locksroot e,
     bp_canonical_identifier = bp_canonical_identifier bp, bp_message_hash = mh,
     bp_signature = msg_signature M', bp_sender = signer_address S\<rparr>"
  have "envelope_message L M' e = Inr ?em"
    using h(2) s(3) by (simp add: envelope_message_def)
  moreover have "balanceproof_from_envelope ?em = Inr ?bp"
    using v mh s(2) ci eq
    by (simp add: balanceproof_from_envelope_def mk_BalanceProofSignedState_def
        balance_proof_checks_def canonical_identifier_validate_def proof_envelope_def)
  moreover have "is_valid_signature L ?bp (signer_address S) = Inr None"
    using h d(2) ci by (simp add: is_valid_signature_iff)
  moreover have "BalanceProofUnsignedState.truncate ?bp = bp"
    using eq by (simp add: BalanceProofUnsignedState.truncate_def proof_envelope_def)
  ultimately show ?thesis using that by (auto simp: signed_copy_def)
qed

end
