(* ===== verification/MessageProperties.thy ===== *)
theory MessageProperties
  imports MessageFacts
begin

text \<open>
  The properties of messages, each with a witness: \<open>bob\<close> signs with a key whose signatures start with
  his address, and hex strings are the bytes themselves.
\<close>

section \<open>Samples\<close>

definition sample_codec :: codec where
  "sample_codec =
     \<lparr>encode_hex = map (\<lambda>b. char_of (unat b)), decode_hex = (\<lambda>s. Some (str_bytes s)),
      to_normalized_address = (\<lambda>a. Inr (map (\<lambda>b. char_of (unat b)) a)),
      to_canonical_address = (\<lambda>s. Inr (str_bytes s))\<rparr>"

definition sample_signer :: "bytes \<Rightarrow> signer" where
  "sample_signer a = \<lparr>signer_address = a, sign_msg_hash = (\<lambda>h. a @ replicate 45 0)\<rparr>"

lemma str_bytes_inverse: "str_bytes (map (\<lambda>b. char_of (unat b)) bs) = bs"
proof -
  have "of_nat (of_char (char_of (unat b) :: char)) = b" for b :: "8 word"
  proof -
    have "unat b < 2 ^ LENGTH(8)" by (rule unsigned_less)
    then show ?thesis by simp
  qed
  then show ?thesis by (simp add: str_bytes_def comp_def)
qed

lemma sample_codec_ok: "codec_ok sample_codec"
  by (simp add: codec_ok_def sample_codec_def str_bytes_inverse)

lemma sample_signer_ok: "length a = 20 \<Longrightarrow> signer_ok sample_libs (sample_signer a)"
  by (simp add: signer_ok_def sample_signer_def sample_libs_def)

definition sample_request :: Message where
  "sample_request = unsigned_message (SecretRequest
     \<lparr>sq_message_identifier = 7, sq_payment_identifier = 2, sq_secrethash = sample_secrethash,
      sq_amount = 10, sq_expiration = 100\<rparr>)"

lemma sample_request_sel [simp]:
  "msg_signature sample_request = []" "constructed (msg_content sample_request)"
  "addresses_ok (msg_content sample_request)" "has_dict (msg_content sample_request)"
  "\<not> is_refund (msg_content sample_request)"
  by (simp_all add: sample_request_def unsigned_message_def constructed_def addresses_ok_def
      has_dict_def is_refund_def)

definition signed_request :: Message where
  "signed_request = sample_request\<lparr>msg_signature := replicate 65 3\<rparr>"

lemma request_spec: "message_spec (SecretRequest r) = SecretRequest_spec"
  by (simp add: message_spec_def CMDID_MESSAGE_def class_cmdid_def cmdid_defs)

lemma sample_request_fits: "message_fits signed_request"
  by (simp add: message_fits_def signed_request_def sample_request_def unsigned_message_def
      request_spec message_fields_def message_pack_def SecretRequest_pack_def fits_def
      SecretRequest_spec_def names_fields_def field_kind_defs UINT64_MAX_def UINT256_MAX_def)

lemma sample_request_packable: "packable (msg_content sample_request)"
  by (simp add: packable_def sample_request_def unsigned_message_def request_spec message_pack_def
      SecretRequest_pack_def accepts_def fits_def SecretRequest_spec_def names_fields_def
      field_kind_defs UINT64_MAX_def UINT256_MAX_def)

section \<open>Round trips\<close>

text \<open>C19. A message that its constructor accepts and whose values fit their fields (an integer is in the
  range of its encoder, a byte string has the width of its field, a refund has no invoice) can be
  encoded, and the binary form decodes to the same message.\<close>

theorem encoded_message_decodes:
  assumes "constructed (msg_content M)" and "message_fits M"
  shows "\<exists>data. message_encode M = Inr data \<and> message_decode data = Inr (Some M)"
  using encoded_decodes [OF assms] .

theorem encoded_message_decodes_witness:
  "\<exists>data. message_encode signed_request = Inr data \<and> message_decode data = Inr (Some signed_request)"
  by (rule encoded_message_decodes [OF _ sample_request_fits]) (simp add: signed_request_def)



section \<open>Senders\<close>

lemma sender_Some:
  assumes "sender L M = Inr (Some a)"
  shows "\<exists>d. data_to_sign L M = Inr d \<and> recover L d (msg_signature M) = Inr a"
proof -
  have "msg_signature M \<noteq> []" using assms by (auto simp: sender_def)
  with assms obtain d where d: "data_to_sign L M = Inr d"
    "(case recover L d (msg_signature M) of Inr address \<Rightarrow> Inr (Some address)
      | Inl InvalidSignature \<Rightarrow> Inr None | Inl e \<Rightarrow> Inl e) = Inr (Some a)"
    by (auto simp: sender_def res_bind_Inr)
  show ?thesis
  proof (cases "recover L d (msg_signature M)")
    case (Inl e)
    with d(2) show ?thesis by (cases e) simp_all
  qed (use d in simp)
qed

lemma validate_line_sender:
  assumes "validate_line L E peer line = Inr Ms" and "M \<in> set Ms"
  shows "sender L M = Inr (Some peer)"
proof (cases line)
  case None
  with assms show ?thesis by (simp add: validate_line_def)
next
  case (Some v)
  show ?thesis
  proof (cases "message_from_dict E v")
    case (Inl e)
    with assms Some show ?thesis by (cases e) (simp_all add: validate_line_def)
  next
    case (Inr N)
    with assms Some show ?thesis by (auto simp: validate_line_def res_bind_Inr split: if_splits)
  qed
qed

lemma validate_lines_sender:
  "validate_lines L E peer lines = Inr Ms \<Longrightarrow> M \<in> set Ms \<Longrightarrow> sender L M = Inr (Some peer)"
  by (induction lines arbitrary: Ms) (auto simp: res_bind_Inr dest: validate_line_sender)



end
