(* ===== verification/MessageFindings.thy ===== *)
theory MessageFindings
  imports MessageProperties
begin

text \<open>
  What the messages do that they should not: a refund cannot be written as JSON, the default of a
  missing invoice hash is not readable, the binary form is accepted from everybody, and a line that
  lacks a key raises out of the transport's parser.
\<close>

lemma refund_not_safe:
  assumes "message_to_dict E M = Inr v" "is_refund (msg_content M)"
  shows "\<not> json_safe v"
  using assms
  by (auto simp: is_refund_def message_to_dict_def RefundTransfer_to_dict_def transfer_to_dict_def
      address_json_def Lock_to_dict_def res_bind_Inr split: message.splits)

text \<open>The event that sends a refund never becomes a message on the wire: the dictionary of a
  \<open>RefundTransfer\<close> holds the bytes of the invoice hash, and \<open>json.dumps\<close> raises on them.\<close>

theorem refund_is_never_sent:
  assumes "message_from_sendevent (SendRefundTransfer ev) = Inr (OwnMessage M)"
  shows "enqueued_text L E S M \<noteq> Inr v"
proof -
  have r: "is_refund (msg_content M)"
    using assms
    by (auto simp: message_from_sendevent_def RefundTransfer_from_event_def transfer_from_event_def
        mk_LockedTransfer_def Let_def res_bind_Inr reject_Inr map_sum_def unsigned_message_def
        is_refund_def split: sum.splits)
  show ?thesis
  proof
    assume "enqueued_text L E S M = Inr v"
    then obtain M' where M': "sign_message L S M = Inr M'" "message_to_dict E M' = Inr v"
      "json_safe v"
      by (auto simp: enqueued_text_def json_dumps_def res_bind_Inr split: if_splits)
    then have "msg_content M' = msg_content M" by (auto simp: sign_message_def res_bind_Inr)
    with refund_not_safe [OF M'(2)] M'(3) r show False by simp
  qed
qed

theorem refund_is_never_sent_witness:
  "\<exists>M. message_from_sendevent (SendRefundTransfer (sample_event bob alice 4)) = Inr (OwnMessage M) \<and>
     enqueued_text sample_libs sample_codec (sample_signer bob) M \<noteq> Inr (JInt 0)"
proof -
  have "\<exists>M. message_from_sendevent (SendRefundTransfer (sample_event bob alice 4)) = Inr (OwnMessage M)"
    by (simp add: message_from_sendevent_def RefundTransfer_from_event_def transfer_from_event_def
        mk_LockedTransfer_def assert_transfer_values_def envelope_values_def
        assert_envelope_values_def mk_MessageLock_def reject_def proof_envelope_def sample_event_def
        sample_proof_def sample_ci_def UINT64_MAX_def UINT256_MAX_def bob_def alice_def)
  then show ?thesis using refund_is_never_sent by blast
qed

text \<open>A transfer without the key \<open>payment_hash_invoice\<close> is given the empty bytes, which \<open>decode_hex\<close>
  does not take.\<close>

theorem missing_invoice_raises:
  assumes "dict_get d ''type'' = Some (JStr ''LockedTransfer'')" "\<not> dict_has d ''payment_hash_invoice''"
  shows "message_from_dict E (JDict d) \<noteq> Inr M"
proof -
  have "json_hex E (dict_set ''payment_hash_invoice'' (JBytes EMPTY_PAYMENT_HASH_INVOICE) d)
      ''payment_hash_invoice'' = Inl TypeError"
    by (simp add: json_hex_def json_get_def update_conv')
  then show ?thesis
    using assms
    by (auto simp: message_from_dict_def CLASSNAME_TO_CLASS_def LockedTransfer_from_dict_def
        transfer_from_dict_def with_signature_def res_bind_Inr)
qed

text \<open>The binary form of a message is accepted from every peer, whoever signed it: the sender is
  compared with the peer for JSON only.\<close>

theorem binary_messages_from_anyone:
  assumes "codec_ok E" and "constructed (msg_content M)" and "message_fits M"
  shows "\<exists>s. \<forall>peer. validate_and_parse_message L E (HexText s) peer = Inr [M]"
proof -
  obtain data where data: "message_decode data = Inr (Some M)"
    using encoded_decodes [OF assms(2,3)] by blast
  have "decode_hex E (encode_hex E data) = Some data"
    using assms(1) by (simp add: codec_ok_def)
  with data have "validate_and_parse_message L E (HexText (encode_hex E data)) peer = Inr [M]" for peer
    by (simp add: validate_and_parse_message_def)
  then show ?thesis by blast
qed

theorem binary_messages_from_anyone_witness:
  "\<exists>s. validate_and_parse_message sample_libs sample_codec (HexText s) bob = Inr [signed_request] \<and>
    sender sample_libs signed_request \<noteq> Inr (Some bob)"
proof -
  obtain s where "\<forall>peer. validate_and_parse_message sample_libs sample_codec (HexText s) peer =
      Inr [signed_request]"
    using binary_messages_from_anyone [OF sample_codec_ok _ sample_request_fits, of sample_libs]
    by (auto simp: signed_request_def)
  moreover have "recover sample_libs d (msg_signature signed_request) \<noteq> Inr bob" for d
    by (simp add: recover_def signed_request_def py_last_def)
      (simp add: sample_libs_def bob_def)
  then have "sender sample_libs signed_request \<noteq> Inr (Some bob)"
    using sender_Some by blast
  ultimately show ?thesis by blast
qed

text \<open>A line without a key that its class needs is not skipped: the exception leaves the parser.\<close>

theorem incomplete_line_raises:
  "validate_and_parse_message L E (JsonLines [Some (JDict [(''type'', JStr ''Processed'')])]) peer =
     Inl KeyError"
  by (simp add: validate_and_parse_message_def validate_line_def message_from_dict_def
      CLASSNAME_TO_CLASS_def identifier_from_dict_def assert_type_def with_signature_def
      json_int_def json_get_def)

end
