(* ===== verification/Exchange.thy ===== *)
theory Exchange
  imports MessageFacts PaymentFacts TargetFacts
begin

text \<open>
  Two nodes that exchange their messages: the payer runs the tasks of an initiator, the payee the
  task of a target, and every event that is a message travels through the whole chain of
  MessageFlow, in the order in which it was sent.  The lemmas say what each message of a payment
  becomes on the other side.
\<close>

section \<open>The exchange\<close>

record parties =
  pt_libs :: libs
  pt_codec :: codec
  pt_payer_signer :: signer
  pt_payee_signer :: signer
  pt_payer_view :: node_view
  pt_payee_view :: node_view
  pt_now :: int
  pt_today :: string
  pt_payer_block :: int
  pt_payee_block :: int

record exchange =
  ex_payment :: "InitiatorPaymentState option"
  ex_channels :: owner_channels
  ex_prng :: prng
  ex_task :: "TargetTransferState option"
  ex_world :: target_world
  ex_transit :: "(bool \<times> event) list"
  ex_log :: "event list"

text \<open>What an event that is sent becomes where it arrives.\<close>

definition transmit :: "libs \<Rightarrow> codec \<Rightarrow> signer \<Rightarrow> node_view \<Rightarrow> event \<Rightarrow> handled result" where
  "transmit L E S V ev =
     res_bind (message_from_sendevent ev) (\<lambda>m.
     case m of
       LightMessage _ \<Rightarrow> Inr Ignored
     | OwnMessage M \<Rightarrow>
         res_bind (enqueued_text L E S M) (\<lambda>v.
         res_bind (validate_and_parse_message L E (JsonLines [Some v]) (signer_address S)) (\<lambda>ms.
           case ms of [M'] \<Rightarrow> on_message L V M' False | _ \<Rightarrow> Inr Ignored)))"

definition travels :: "event \<Rightarrow> bool" where
  "travels ev =
     (case ev of
        SendLockedTransfer _ \<Rightarrow> True | SendSecretRequest _ \<Rightarrow> True | SendSecretReveal _ \<Rightarrow> True
      | SendBalanceProof _ \<Rightarrow> True | SendLockExpired _ \<Rightarrow> True | SendRefundTransfer _ \<Rightarrow> True
      | SendProcessed _ _ _ \<Rightarrow> True | _ \<Rightarrow> False)"

text \<open>A state change at the payer and at the payee; \<open>True\<close> marks what the payer sends.\<close>

definition payer_step :: "parties \<Rightarrow> exchange \<Rightarrow> state_change \<Rightarrow> exchange result" where
  "payer_step P X sc =
     res_bind (state_transition_payment (pt_libs P) (pt_now P) (ex_payment X) sc (ex_channels X)
                 (ex_prng X) (pt_payer_block P)) (\<lambda>((p, events), m, g).
       Inr (X\<lparr>ex_payment := p, ex_channels := m, ex_prng := g,
              ex_transit := ex_transit X @ map (Pair True) (filter travels events),
              ex_log := ex_log X @ events\<rparr>))"

definition payee_step :: "parties \<Rightarrow> exchange \<Rightarrow> state_change \<Rightarrow> exchange result" where
  "payee_step P X sc =
     res_bind (state_transition_target (pt_libs P) (pt_now P) (pt_today P) (ex_task X) sc
                 (ex_world X) (pt_payee_block P)) (\<lambda>((t, events), w).
       Inr (X\<lparr>ex_task := t, ex_world := w,
              ex_transit := ex_transit X @ map (Pair False) (filter travels events),
              ex_log := ex_log X @ events\<rparr>))"

text \<open>The next message arrives; the confirmations change no task.\<close>

definition deliver_next :: "parties \<Rightarrow> exchange \<Rightarrow> exchange result" where
  "deliver_next P X =
     (case ex_transit X of
        [] \<Rightarrow> Inr X
      | (by_payer, ev) # rest \<Rightarrow>
          res_bind (transmit (pt_libs P) (pt_codec P)
              (if by_payer then pt_payer_signer P else pt_payee_signer P)
              (if by_payer then pt_payee_view P else pt_payer_view P) ev) (\<lambda>h.
            case h of
              Change sc \<Rightarrow>
                if by_payer then payee_step P (X\<lparr>ex_transit := rest\<rparr>) sc
                else payer_step P (X\<lparr>ex_transit := rest\<rparr>) sc
            | _ \<Rightarrow> Inr (X\<lparr>ex_transit := rest\<rparr>)))"

fun deliver :: "parties \<Rightarrow> nat \<Rightarrow> exchange \<Rightarrow> exchange result" where
  "deliver P 0 X = Inr X"
| "deliver P (Suc n) X = res_bind (deliver_next P X) (deliver P n)"

section \<open>Messages on their way\<close>

lemma transmit_message:
  assumes E: "codec_ok E" and S: "signer_ok L S" and c: "constructed m" and a: "addresses_ok m"
    and d: "has_dict m" and r: "\<not> is_refund m" and p: "packable m"
    and ev: "message_from_sendevent ev = Inr (OwnMessage (unsigned_message m))"
  obtains M' where "transmit L E S V ev = on_message L V M' False"
    "sign_message L S (unsigned_message m) = Inr M'"
    "msg_content M' = m" "sender L M' = Inr (Some (signer_address S))"
proof -
  have m: "msg_content (unsigned_message m) = m" "msg_signature (unsigned_message m) = []"
    by (simp_all add: unsigned_message_def)
  obtain M' where M': "sent_over L E S (unsigned_message m) M'"
    "sign_message L S (unsigned_message m) = Inr M'" "msg_content M' = m"
    "sender L M' = Inr (Some (signer_address S))"
    using delivered [OF E S, of "unsigned_message m"] c a d r p m by auto
  from M'(1) have "transmit L E S V ev = on_message L V M' False"
    by (auto simp: sent_over_def transmit_def ev)
  with that M'(2-4) show ?thesis by blast
qed

lemma message_spec_simps:
  "message_spec (Processed i) = Processed_spec"
  "message_spec (SecretRequest r) = SecretRequest_spec"
  "message_spec (RevealSecret i s) = RevealSecret_spec"
  "message_spec (Unlock e p s) = Unlock_spec"
  "message_spec (LockedTransfer e t) = LockedTransfer_spec"
  by (simp_all add: message_spec_def CMDID_MESSAGE_def class_cmdid_def cmdid_defs)

lemma uint_ranges:
  "i \<le> UINT64_MAX \<Longrightarrow> i < 256 ^ 8" "i \<le> UINT256_MAX \<Longrightarrow> i < 256 ^ 32" for i :: int
  by (simp_all add: UINT64_MAX_def UINT256_MAX_def)

lemmas packable_simps = packable_def message_spec_simps message_pack_def accepts_def fits_def
  names_fields_def field_kind_defs

lemma transmit_processed:
  assumes "codec_ok E" "signer_ok L S" "0 \<le> i" "i \<le> UINT64_MAX"
  shows "transmit L E S V (SendProcessed r k i) = Inr (ReceiveProcessed (signer_address S) i)"
proof -
  have "packable (Processed i)"
    using assms(3,4) uint_ranges(1) [of i]
    by (simp add: packable_simps Processed_spec_def Processed_pack_def)
  then obtain M' where "transmit L E S V (SendProcessed r k i) = on_message L V M' False"
    "msg_content M' = Processed i" "sender L M' = Inr (Some (signer_address S))"
    using transmit_message [OF assms(1,2), of "Processed i" "SendProcessed r k i" V]
    by (auto simp: constructed_def addresses_ok_def has_dict_def is_refund_def
        message_from_sendevent_def)
  then show ?thesis by (simp add: on_message_def message_sender_def)
qed

lemma transmit_request:
  assumes "codec_ok E" "signer_ok L S"
    and "0 \<le> ssq_message_identifier r" "ssq_message_identifier r \<le> UINT64_MAX"
    and "0 \<le> ssq_payment_identifier r" "ssq_payment_identifier r \<le> UINT64_MAX"
    and "0 \<le> ssq_amount r" "ssq_amount r \<le> UINT256_MAX"
    and "0 \<le> ssq_expiration r" "ssq_expiration r \<le> UINT256_MAX" "length (ssq_secrethash r) = 32"
  shows "transmit L E S V (SendSecretRequest r) = Inr (Change (ReceiveSecretRequestChange
    \<lparr>rsq_payment_identifier = ssq_payment_identifier r, rsq_amount = ssq_amount r,
     rsq_expiration = ssq_expiration r, rsq_secrethash = ssq_secrethash r,
     rsq_sender = signer_address S\<rparr>))"
proof -
  let ?c = "\<lparr>sq_message_identifier = ssq_message_identifier r,
    sq_payment_identifier = ssq_payment_identifier r, sq_secrethash = ssq_secrethash r,
    sq_amount = ssq_amount r, sq_expiration = ssq_expiration r\<rparr>"
  have "packable (SecretRequest ?c)"
    using assms(3-) uint_ranges
    by (simp add: packable_simps SecretRequest_spec_def SecretRequest_pack_def)
  then obtain M' where "transmit L E S V (SendSecretRequest r) = on_message L V M' False"
    "msg_content M' = SecretRequest ?c" "sender L M' = Inr (Some (signer_address S))"
    using transmit_message [OF assms(1,2), of "SecretRequest ?c" "SendSecretRequest r" V]
    by (auto simp: constructed_def addresses_ok_def has_dict_def is_refund_def
        message_from_sendevent_def SecretRequest_from_event_def)
  then show ?thesis
    by (simp add: on_message_def message_sender_def handle_message_secretrequest_def)
qed

lemma transmit_reveal:
  assumes "codec_ok E" "signer_ok L S"
    and "0 \<le> ssr_message_identifier r" "ssr_message_identifier r \<le> UINT64_MAX"
    and "length (ssr_secret r) = 32"
  shows "transmit L E S V (SendSecretReveal r) = Inr (Change (ReceiveSecretRevealChange
    (mk_ReceiveSecretReveal L (ssr_secret r) (signer_address S))))"
proof -
  let ?m = "RevealSecret (ssr_message_identifier r) (ssr_secret r)"
  have "packable ?m"
    using assms(3-) uint_ranges
    by (simp add: packable_simps RevealSecret_spec_def RevealSecret_pack_def)
  then obtain M' where "transmit L E S V (SendSecretReveal r) = on_message L V M' False"
    "msg_content M' = ?m" "sender L M' = Inr (Some (signer_address S))"
    using transmit_message [OF assms(1,2), of ?m "SendSecretReveal r" V]
    by (auto simp: constructed_def addresses_ok_def has_dict_def is_refund_def
        message_from_sendevent_def RevealSecret_from_event_def)
  then show ?thesis
    by (simp add: on_message_def message_sender_def handle_message_revealsecret_def)
qed


text \<open>A balance proof that an envelope can carry.\<close>

definition wire_proof :: "int \<Rightarrow> BalanceProofUnsignedState \<Rightarrow> bool" where
  "wire_proof message_id bp \<longleftrightarrow>
     0 \<le> message_id \<and> message_id \<le> UINT64_MAX \<and>
     0 \<le> chain_identifier (bp_canonical_identifier bp) \<and>
     chain_identifier (bp_canonical_identifier bp) \<le> UINT256_MAX \<and>
     length (token_network_address (bp_canonical_identifier bp)) = 20 \<and>
     envelope_values (proof_envelope message_id bp) = Inr ()"

lemma proof_envelope_sel [simp]:
  "ev_chain_id (proof_envelope i bp) = chain_identifier (bp_canonical_identifier bp)"
  "ev_message_identifier (proof_envelope i bp) = i" "ev_nonce (proof_envelope i bp) = bp_nonce bp"
  "ev_transferred_amount (proof_envelope i bp) = bp_transferred_amount bp"
  "ev_locked_amount (proof_envelope i bp) = bp_locked_amount bp"
  "ev_locksroot (proof_envelope i bp) = bp_locksroot bp"
  "ev_channel_identifier (proof_envelope i bp) = channel_identifier (bp_canonical_identifier bp)"
  "ev_token_network_address (proof_envelope i bp) =
     token_network_address (bp_canonical_identifier bp)"
  by (simp_all add: proof_envelope_def)

lemma transmit_unlock:
  assumes L: "keccak_ok L" and E: "codec_ok E" and S: "signer_ok L S"
    and w: "wire_proof (sbp_message_identifier u) (sbp_balance_proof u)"
    and p: "0 \<le> sbp_payment_identifier u" "sbp_payment_identifier u \<le> UINT64_MAX"
    and s: "length (sbp_secret u) = 32"
  obtains bp where "transmit L E S V (SendBalanceProof u) = Inr (Change (ReceiveUnlockChange
      (mk_ReceiveUnlock L (sbp_message_identifier u) (sbp_secret u) bp)))"
    "signed_copy L (signer_address S) (sbp_balance_proof u) bp" "bp_sender bp = signer_address S"
proof -
  let ?e = "proof_envelope (sbp_message_identifier u) (sbp_balance_proof u)"
  let ?m = "Unlock ?e (sbp_payment_identifier u) (sbp_secret u)"
  note v = w [unfolded wire_proof_def envelope_values_iff proof_envelope_sel]
  have mk: "mk_Unlock ?e (sbp_payment_identifier u) (sbp_secret u) = Inr ?m"
    using w p s by (simp add: mk_Unlock_def wire_proof_def reject_def)
  have pk: "packable ?m"
    using v p s uint_ranges by (simp add: packable_simps Unlock_spec_def Unlock_pack_def)
  have ev: "message_from_sendevent (SendBalanceProof u) = Inr (OwnMessage (unsigned_message ?m))"
    using mk by (simp add: message_from_sendevent_def Unlock_from_event_def)
  have c: "constructed ?m" "addresses_ok ?m" "has_dict ?m" "\<not> is_refund ?m"
    using mk v by (simp_all add: constructed_def addresses_ok_def has_dict_def is_refund_def)
  obtain M' where M': "transmit L E S V (SendBalanceProof u) = on_message L V M' False"
    "sign_message L S (unsigned_message ?m) = Inr M'" "msg_content M' = ?m"
    using transmit_message [OF E S c pk ev] by metis
  obtain em bp where b: "envelope_message L M' ?e = Inr em" "balanceproof_from_envelope em = Inr bp"
    "signed_copy L (signer_address S) (sbp_balance_proof u) bp" "bp_sender bp = signer_address S"
    by (rule delivered_proof [where i = "sbp_message_identifier u" and bp = "sbp_balance_proof u",
          OF L S _ M'(2) _ _ refl])
      (use c(1) in \<open>simp_all add: unsigned_message_def is_envelope_def\<close>)
  have "transmit L E S V (SendBalanceProof u) = Inr (Change (ReceiveUnlockChange
      (mk_ReceiveUnlock L (sbp_message_identifier u) (sbp_secret u) bp)))"
    using M' b(1,2) by (simp add: on_message_def handle_message_unlock_def Let_def)
  with that b(3,4) show ?thesis by blast
qed

lemma transmit_transfer:
  assumes L: "keccak_ok L" and E: "codec_ok E" and S: "signer_ok L S"
    and w: "wire_proof (ste_message_identifier ev) (lt_balance_proof (ste_transfer ev))"
    and root: "bp_locksroot (lt_balance_proof (ste_transfer ev)) \<noteq> EMPTY_MERKLE_ROOT"
    and lock: "mk_HashTimeLockState L amount x h = Inr (lt_lock (ste_transfer ev))" "length h = 32"
    and p: "0 \<le> lt_payment_identifier (ste_transfer ev)"
      "lt_payment_identifier (ste_transfer ev) \<le> UINT64_MAX"
      "length (lt_payment_hash_invoice (ste_transfer ev)) \<le> 32"
    and a: "length (lt_token (ste_transfer ev)) = 20" "length (ste_recipient ev) = 20"
      "length (lt_target (ste_transfer ev)) = 20" "length (lt_initiator (ste_transfer ev)) = 20"
    and V: "nv_address V = lt_target (ste_transfer ev)" "\<not> is_secret_registered V h"
  obtains t where "transmit L E S V (SendLockedTransfer ev) = Inr (Change (ActionInitTarget
      \<lparr>route_node_address = signer_address S, route_channel_identifier = channel_identifier
        (bp_canonical_identifier (lt_balance_proof (ste_transfer ev)))\<rparr> t))"
    "signed_copy L (signer_address S) (lt_balance_proof (ste_transfer ev)) (lt_balance_proof t)"
    "bp_sender (lt_balance_proof t) = signer_address S" "lt_lock t = lt_lock (ste_transfer ev)"
    "lt_payment_identifier t = lt_payment_identifier (ste_transfer ev)"
    "lt_payment_hash_invoice t = lt_payment_hash_invoice (ste_transfer ev)"
    "lt_initiator t = lt_initiator (ste_transfer ev)" "lt_target t = lt_target (ste_transfer ev)"
    "lt_message_identifier t = ste_message_identifier ev"
proof -
  let ?t = "ste_transfer ev"
  let ?e = "proof_envelope (ste_message_identifier ev) (lt_balance_proof ?t)"
  let ?l = "\<lparr>ml_amount = amount, ml_expiration = x, ml_secrethash = h\<rparr>"
  let ?c = "\<lparr>tc_payment_identifier = lt_payment_identifier ?t,
    tc_payment_hash_invoice = lt_payment_hash_invoice ?t, tc_token = lt_token ?t,
    tc_recipient = ste_recipient ev, tc_lock = ?l, tc_target = lt_target ?t,
    tc_initiator = lt_initiator ?t, tc_fee = 0\<rparr>"
  let ?m = "LockedTransfer ?e ?c"
  note v = w [unfolded wire_proof_def envelope_values_iff proof_envelope_sel]
  have l: "0 \<le> amount" "amount \<le> UINT256_MAX" "0 \<le> x" "x \<le> UINT256_MAX"
    "lock_amount (lt_lock ?t) = amount" "lock_expiration (lt_lock ?t) = x"
    "lock_secrethash (lt_lock ?t) = h"
    using lock by (auto simp: mk_lock_iff)
  have mkl: "mk_MessageLock amount x h = Inr ?l"
    using l(1-4) lock(2) by (simp add: mk_MessageLock_def reject_def UINT256_MAX_def)
  have mk: "mk_LockedTransfer LockedTransfer ?e ?c = Inr ?m"
    using w p a
    by (simp add: mk_LockedTransfer_def wire_proof_def reject_def assert_transfer_values_def
        UINT256_MAX_def)
  have pk: "packable ?m"
    using v p a l(1-4) lock(2) uint_ranges
    by (simp add: packable_simps LockedTransfer_spec_def LockedTransfer_pack_def dict_simps
        UINT256_MAX_def)
  have evm: "message_from_sendevent (SendLockedTransfer ev) = Inr (OwnMessage (unsigned_message ?m))"
    using mk mkl l
    by (simp add: message_from_sendevent_def LockedTransfer_from_event_def transfer_from_event_def
        Let_def)
  have c: "constructed ?m" "addresses_ok ?m" "has_dict ?m" "\<not> is_refund ?m"
    using mk mkl v by (simp_all add: constructed_def addresses_ok_def has_dict_def is_refund_def)
  obtain M' where M': "transmit L E S V (SendLockedTransfer ev) = on_message L V M' False"
    "sign_message L S (unsigned_message ?m) = Inr M'" "msg_content M' = ?m"
    "sender L M' = Inr (Some (signer_address S))"
    using transmit_message [OF E S c pk evm] by metis
  obtain em bp where b: "envelope_message L M' ?e = Inr em" "balanceproof_from_envelope em = Inr bp"
    "signed_copy L (signer_address S) (lt_balance_proof ?t) bp" "bp_sender bp = signer_address S"
    by (rule delivered_proof [where i = "ste_message_identifier ev" and bp = "lt_balance_proof ?t",
          OF L S _ M'(2) _ _ refl])
      (use c(1) in \<open>simp_all add: unsigned_message_def is_envelope_def\<close>)
  let ?r = "\<lparr>lt_payment_identifier = lt_payment_identifier ?t,
    lt_payment_hash_invoice = lt_payment_hash_invoice ?t, lt_token = lt_token ?t,
    lt_balance_proof = bp, lt_lock = lt_lock ?t, lt_initiator = lt_initiator ?t,
    lt_target = lt_target ?t, lt_message_identifier = ste_message_identifier ev\<rparr>"
  have "lockedtransfersigned_from_message L M' ?e ?c = Inr ?r"
    using b lock(1) root signed_copyD(4) [OF b(3)]
    by (simp add: lockedtransfersigned_from_message_def mk_LockedTransferSignedState_def)
  then have "transmit L E S V (SendLockedTransfer ev) = Inr (Change (ActionInitTarget
      \<lparr>route_node_address = signer_address S, route_channel_identifier = channel_identifier
        (bp_canonical_identifier (lt_balance_proof ?t))\<rparr> ?r))"
    using M' V signed_copyD(5) [OF b(3)]
    by (simp add: on_message_def handle_message_lockedtransfer_def target_init_def
        message_sender_def transfer_route_def)
  with that b(3,4) show ?thesis by simp
qed

end
