(* ===== verification/ExchangeFacts.thy ===== *)
theory ExchangeFacts
  imports Exchange ChannelBounds
begin

text \<open>
  What the two tasks of a payment do with the messages of each other: one lemma for each message,
  from the state of the task to the next one.  Before that, what is needed of the two channels: the
  unlock of a pending lock can be made, the proofs fit the wire, and a learned secret keeps the
  channels in sync.
\<close>

section \<open>The channels\<close>

lemma made_proof:
  assumes "mk_BalanceProofUnsignedState n t l r ci = Inr bp"
  shows "bp_nonce bp \<le> UINT64_MAX" "0 \<le> channel_identifier (bp_canonical_identifier bp)"
    "channel_identifier (bp_canonical_identifier bp) \<le> UINT256_MAX" "bp_canonical_identifier bp = ci"
  using assms
  by (auto simp: mk_BalanceProofUnsignedState_def balance_proof_checks_def res_bind_Inr
      canonical_identifier_validate_def split: if_splits)

lemma sent_proof_made:
  assumes "send_lockedtransfer L c i t a m p ph x h = Inr (ev, c')"
  shows "\<exists>n l r. mk_BalanceProofUnsignedState n (current_transferred_amount (our_state c)) l r
    (ch_canonical_identifier c) = Inr (lt_balance_proof (ste_transfer ev))"
    and "ste_message_identifier ev = m" "lt_payment_identifier (ste_transfer ev) = p"
    and "lt_payment_hash_invoice (ste_transfer ev) = ph" "lt_token (ste_transfer ev) = ch_token_address c"
    and "lt_initiator (ste_transfer ev) = i" "lt_target (ste_transfer ev) = t"
    and "mk_HashTimeLockState L a x h = Inr (lt_lock (ste_transfer ev))"
    and "bp_locksroot (lt_balance_proof (ste_transfer ev)) \<noteq> EMPTY_MERKLE_ROOT"
    and "es_balance_proof (our_state c') = Some (Unsigned (lt_balance_proof (ste_transfer ev)))"
    and "bp_canonical_identifier (lt_balance_proof (ste_transfer ev)) = ch_canonical_identifier c"
  using assms
  by (auto simp: send_lockedtransfer_def create_sendlockedtransfer_def Let_def res_simps
      mk_LockedTransferUnsignedState_def mk_BalanceProofUnsignedState_def record_lock_def
      split: option.splits if_splits)

text \<open>A proof that was made for a reachable channel fits an envelope.\<close>

lemma reachable_wire_proof:
  assumes "keccak_ok L" "reachable L c" "es_balance_proof (our_state c) = Some (Unsigned bp)"
    and "mk_BalanceProofUnsignedState n t l r ci = Inr bp" "0 \<le> m" "m \<le> UINT64_MAX"
    and "0 \<le> chain_identifier (bp_canonical_identifier bp)"
      "chain_identifier (bp_canonical_identifier bp) \<le> UINT256_MAX"
      "length (token_network_address (bp_canonical_identifier bp)) = 20"
  shows "wire_proof m bp" "bp_transferred_amount bp + bp_locked_amount bp \<le> UINT256_MAX"
proof -
  have "end_bounded (our_state c)"
    using reachable_bounds [OF assms(1,2)] by (simp add: bounded_def)
  note b = end_proof_bounds [OF assms(1) reachable_ends(1) [OF assms(1,2)] this assms(3)]
  then show "wire_proof m bp"
    using made_proof [OF assms(4)] assms(5-)
    by (simp add: wire_proof_def envelope_values_iff)
  show "bp_transferred_amount bp + bp_locked_amount bp \<le> UINT256_MAX" using b by simp
qed

text \<open>The unlock of a pending lock can be made as long as there is a nonce for it.\<close>

lemma unlock_possible:
  assumes L: "keccak_ok L" and c: "reachable L c" and l: "get_lock (our_state c) h = Some l"
    and opened: "get_status c = CHANNEL_STATE_OPENED"
    and room: "get_next_nonce (our_state c) \<le> UINT64_MAX"
    and ci: "canonical_identifier_validate (ch_canonical_identifier c) = Inr ()"
  obtains bp tree c' where "send_unlock L c m p secret h False =
      Inr (mk_SendBalanceProof L (es_address (partner_state c)) (ch_identifier c) m p
             (ch_token_address c) secret bp, c')"
    "mk_BalanceProofUnsignedState (get_next_nonce (our_state c))
       (lock_amount l + current_transferred_amount (our_state c))
       (get_amount_locked (our_state c) - lock_amount l) (bp_locksroot bp)
       (ch_canonical_identifier c) = Inr bp"
    "es_balance_proof (our_state c') = Some (Unsigned bp)"
proof -
  let ?a = "our_state c"
  note ends = reachable_ends(1) [OF L c] and maps = reachable_ends(3) [OF L c]
  have b: "end_bounded ?a" using reachable_bounds [OF L c] by (simp add: bounded_def)
  note lock = get_lock_SomeD [OF maps l]
  have leaf: "lock_lockhash l \<in> set (leaf_list (es_merkletree ?a))"
    using end_okD(6) [OF ends] lock(2) by (metis image_eqI mset_eq_setD set_image_mset set_mset_mset)
  obtain tree where tree: "compute_merkletree_without L (es_merkletree ?a) (lock_lockhash l)
      = Inr (Some tree)" "merkle_ok L tree"
    using without_known [OF end_okD(5) [OF ends] leaf] by blast
  obtain root where root: "merkleroot tree = Inr root" "length root = 32"
    using merkleroot_ok [OF tree(2)] merkleroot_length [OF L tree(2)] by blast
  obtain our_bp where bp: "es_balance_proof ?a = Some our_bp"
    using end_okD(3,6) [OF ends] lock(2) leaf by (auto simp: proof_ok_def split: option.splits)
  note pb = end_proof_bounds [OF L ends b bp]
  have t: "current_transferred_amount ?a = bp_transferred_amount (bp_data our_bp)"
    using bp by (simp add: current_transferred_amount_def)
  have la: "0 \<le> lock_amount l" "lock_amount l \<le> get_amount_locked ?a"
  proof -
    obtain M where M: "locks_mset ?a = add_mset l M" using lock(2) by (metis mset_add)
    then show "lock_amount l \<le> get_amount_locked ?a"
      using sum_locks_nonneg [of M L] end_okD(4) [OF ends] by (simp add: get_amount_locked_mset)
  qed (use lock_amount_nonneg [OF ends l] in simp)
  have amounts: "0 \<le> lock_amount l + bp_transferred_amount (bp_data our_bp)"
    "lock_amount l + bp_transferred_amount (bp_data our_bp) \<le> UINT256_MAX"
    using end_boundedD [OF b ends] la t by simp_all
  let ?bp = "\<lparr>bp_nonce = get_next_nonce ?a,
    bp_transferred_amount = lock_amount l + bp_transferred_amount (bp_data our_bp),
    bp_locked_amount = get_amount_locked ?a - lock_amount l, bp_locksroot = root,
    bp_canonical_identifier = ch_canonical_identifier c\<rparr>"
  have mk: "mk_BalanceProofUnsignedState (get_next_nonce ?a)
      (lock_amount l + bp_transferred_amount (bp_data our_bp))
      (get_amount_locked ?a - lock_amount l) root (ch_canonical_identifier c) = Inr ?bp"
    using amounts room root(2) ci end_boundedD(2) [OF b ends]
    by (simp add: mk_BalanceProofUnsignedState_def balance_proof_checks_def)
  have "create_unlock L c m p secret l False =
      Inr (mk_SendBalanceProof L (es_address (partner_state c)) (ch_identifier c) m p
             (ch_token_address c) secret ?bp, tree)"
    using lock opened bp tree root mk by (simp add: create_unlock_def Let_def)
  moreover obtain e where "del_lock h (set_proof (Unsigned ?bp) tree ?a) = Inr e"
    "es_balance_proof e = Some (Unsigned ?bp)"
    using del_lock_props [of "set_proof (Unsigned ?bp) tree ?a" h l] maps l by auto
  ultimately have "send_unlock L c m p secret h False =
      Inr (mk_SendBalanceProof L (es_address (partner_state c)) (ch_identifier c) m p
             (ch_token_address c) secret ?bp, c\<lparr>our_state := e\<rparr>)"
    using l lock(1) by (simp add: send_unlock_def mk_SendBalanceProof_def)
  moreover have "es_balance_proof (our_state (c\<lparr>our_state := e\<rparr>)) = Some (Unsigned ?bp)"
    using \<open>es_balance_proof e = Some (Unsigned ?bp)\<close> by simp
  ultimately show thesis using that [of ?bp "c\<lparr>our_state := e\<rparr>"] mk t by simp
qed

lemma learned_in_sync:
  assumes L: "keccak_ok L" and d: "reachable L d" and sync: "in_sync c d"
  shows "in_sync c (register_offchain_secret d secret h)"
  using sync register_secret_refiled [OF reachable_ends(3) [OF L d], of secret h]
    register_secret_refiled [OF reachable_ends(4) [OF L d], of secret h]
  by (simp add: in_sync_def mirror_def register_offchain_secret_def refiled_def)

section \<open>The payee\<close>

lemma payee_accepts:
  assumes L: "keccak_ok L" and c: "reachable L c" and d: "reachable L d" and sync: "in_sync c d"
    and opened: "get_status d = CHANNEL_STATE_OPENED"
    and sent: "send_lockedtransfer L c i target amount m p ph x h = Inr (ev, c1)"
    and amount: "0 < amount" and fresh: "\<not> is_lock_pending (our_state c) h"
    and usable: "h \<noteq> EMPTY_HASH_KECCAK L"
    and width: "length (leaf_list (es_merkletree (our_state c))) < MAXIMUM_PENDING_TRANSFERS"
    and lock: "lt_lock t = lt_lock (ste_transfer ev)" and invoice: "lt_payment_hash_invoice t = []"
    and copy: "signed_copy L (es_address (our_state c)) (lt_balance_proof (ste_transfer ev))
      (lt_balance_proof t)"
    and safe: "is_safe_to_wait x (reveal_timeout d) n = Inr True" and w: "tw_channel w = d"
  obtains d1 where "state_transition_target L now today None (ActionInitTarget route t) w n =
      Inr ((Some (mk_TargetTransferState route t None),
            [send_processed (bp_sender (lt_balance_proof t)) (lt_message_identifier t),
             SendSecretRequest (secret_request_for t (randint64 L (tw_prng w)))]),
           w\<lparr>tw_channel := d1, tw_prng := Suc (tw_prng w)\<rparr>)"
    "reachable L d1" "in_sync c1 d1" "get_lock (partner_state d1) h = Some (lt_lock t)"
    "get_status d1 = get_status d" "channel_static d1 = channel_static d"
proof -
  obtain d1 where d1: "handle_receive_lockedtransfer L now d t (tw_storage w) =
      Inr (\<lparr>out_events = [send_processed (bp_sender (lt_balance_proof t)) (lt_message_identifier t)],
            out_msg = None, out_invoice = Some None\<rparr>, d1, tw_storage w)"
    "in_sync c1 d1" "get_lock (partner_state d1) h = Some (lt_lock t)"
    "get_status d1 = get_status d" "channel_static d1 = channel_static d"
    using transfer_in_sync [OF L c d sync opened sent amount fresh usable width lock invoice copy,
        of now "tw_storage w"] by blast
  note made = sent_proof_made(8,11) [OF sent]
  have l: "lock_ok L (lt_lock t)" "lock_secrethash (lt_lock t) = h" "lock_expiration (lt_lock t) = x"
    using made(1) lock mk_lock_sel [OF made(1)] by (auto intro: lock_okI)
  have "\<not> is_lock_pending (partner_state d) h"
    using mirror_pending reachable_ends(3) [OF L c] reachable_ends(4) [OF L d] fresh sync
    unfolding in_sync_def by blast
  then have "channel_step L d d1"
    using d1(1) l unfolding handle_receive_lockedtransfer_def
    by (intro channel_step.receive_transfer) auto
  then have r: "reachable L d1" using d reachable.step by blast
  have "reveal_timeout d1 = reveal_timeout d" using d1(5) by (simp add: channel_static_def)
  moreover have "ch_identifier d = channel_identifier (bp_canonical_identifier (lt_balance_proof t))"
    using sync signed_copyD(5) [OF copy] made(2) by (simp add: in_sync_def)
  ultimately have "state_transition_target L now today None (ActionInitTarget route t) w n =
      Inr ((Some (mk_TargetTransferState route t None),
            [send_processed (bp_sender (lt_balance_proof t)) (lt_message_identifier t),
             SendSecretRequest (secret_request_for t (randint64 L (tw_prng w)))]),
           w\<lparr>tw_channel := d1, tw_prng := Suc (tw_prng w)\<rparr>)"
    using d1(1,3) safe w l(2,3)
    by (simp add: state_transition_target_def dispatch_target_def handle_inittarget_def
        message_identifier_from_prng_def sanity_check_target_def mk_TargetTransferState_def)
  with that r d1(2-5) show thesis by blast
qed

lemma payee_learns:
  assumes L: "keccak_ok L" and d: "reachable L (tw_channel w)"
    and lock: "get_lock (partner_state (tw_channel w)) h \<noteq> None" "lock_secrethash (lt_lock t) = h"
    and secret: "keccak L secret = h" "secret \<noteq> EMPTY_HASH"
    and soon: "n < lock_expiration (lt_lock t)"
  shows "state_transition_target L now today (Some (mk_TargetTransferState route t None))
      (ReceiveSecretRevealChange (mk_ReceiveSecretReveal L secret partner)) w n =
    Inr ((Some ((mk_TargetTransferState route t None)
            \<lparr>tt_state := OFFCHAIN_SECRET_REVEAL, tt_secret := Some secret\<rparr>),
          [SendSecretReveal (mk_SendSecretReveal L (route_node_address route)
             CHANNEL_IDENTIFIER_GLOBAL_QUEUE (randint64 L (tw_prng w)) secret)]),
         w\<lparr>tw_channel := register_offchain_secret (tw_channel w) secret h, tw_prng := Suc (tw_prng w)\<rparr>)"
proof -
  have "\<not> is_transfer_expired t (tw_channel w) n"
    using soon by (simp add: is_transfer_expired_def is_lock_expired_def
        get_sender_expiration_threshold_def DEFAULT_NUMBER_OF_BLOCK_CONFIRMATIONS_def)
  then show ?thesis
    using lock secret partner_get_lock_offchain [OF conjunct1 [OF reachable_inv [OF L d]], of secret h h]
    by (simp add: state_transition_target_def dispatch_target_def message_identifier_from_prng_def
        handle_offchain_secretreveal_target_def mk_ReceiveSecretReveal_def
        is_valid_secret_reveal_def sanity_check_target_def mk_TargetTransferState_def)
qed

lemma payee_unlocked:
  assumes L: "keccak_ok L" and c: "reachable L c" and d: "reachable L (tw_channel w)"
    and sync: "in_sync c (tw_channel w)" and opened: "get_status (tw_channel w) = CHANNEL_STATE_OPENED"
    and sent: "send_unlock L c m p secret (keccak L secret) False = Inr (u, c1)"
    and copy: "signed_copy L (es_address (our_state c)) (sbp_balance_proof u) sbp"
    and safe: "bp_transferred_amount (sbp_balance_proof u) + bp_locked_amount (sbp_balance_proof u)
      \<le> UINT256_MAX"
    and hash: "lock_secrethash (lt_lock (tt_transfer s)) = keccak L secret"
  obtains d1 where "state_transition_target L now today (Some s)
      (ReceiveUnlockChange (mk_ReceiveUnlock L mid secret sbp)) w n =
    Inr ((None, send_processed (bp_sender sbp) mid # payment_received s d1 @
            [SendProcessed (bp_sender sbp) CHANNEL_IDENTIFIER_GLOBAL_QUEUE mid]),
         w\<lparr>tw_channel := d1\<rparr>)"
    "reachable L c1" "reachable L d1" "in_sync c1 d1"
proof -
  let ?d = "tw_channel w" and ?h = "keccak L secret"
  obtain d1 where run: "handle_unlock L ?d (mk_ReceiveUnlock L mid secret sbp) =
      Inr (([send_processed (bp_sender sbp) mid], None), d1)" and s1: "in_sync c1 d1"
    using unlock_in_sync [OF L c d sync opened sent copy] safe signed_copyD(2,3) [OF copy] by auto
  have r: "reachable L c1" "reachable L d1"
    using reachable.step [OF c channel_step.send_unlock [OF sent]]
      reachable.step [OF d channel_step.receive_unlock] run
    unfolding handle_unlock_def by blast+
  have "get_lock (our_state c1) ?h = None"
    using unlock_get_lock(1) [OF reachable_ends(3) [OF L c] sent] .
  then have "get_lock (partner_state d1) ?h = None"
    using mirror_get_lock [of "our_state c1" "partner_state d1" ?h] s1
      reachable_ends(3) [OF L r(1)] reachable_ends(4) [OF L r(2)] by (simp add: in_sync_def)
  then have "state_transition_target L now today (Some s)
      (ReceiveUnlockChange (mk_ReceiveUnlock L mid secret sbp)) w n =
    Inr ((None, send_processed (bp_sender sbp) mid # payment_received s d1 @
            [SendProcessed (bp_sender sbp) CHANNEL_IDENTIFIER_GLOBAL_QUEUE mid]),
         w\<lparr>tw_channel := d1\<rparr>)"
    using run hash
    by (simp add: state_transition_target_def dispatch_target_def handle_unlock_target_def
        sanity_check_target_def) (simp add: mk_ReceiveUnlock_def)
  with that r s1 show thesis by blast
qed

section \<open>The payer\<close>

lemma payer_starts:
  assumes run: "state_transition_payment L now None (ActionInitInitiator d [r]) m g n =
      Inr ((Some p, evs), m', g')"
    and c: "channel_at m (td_initiator d) (route_channel_identifier r) = Some c"
    and k: "route_channel_identifier r = ch_identifier c"
    and ok: "merkle_ok L (es_merkletree (our_state c))"
  obtains ev c1 where "send_lockedtransfer L c (td_initiator d) (td_target d)
      (td_amount d + td_allocated_fee d) (randint64 L g) (td_payment_identifier d)
      (td_payment_hash_invoice d) (n + reveal_timeout c * 2) (td_secrethash d) = Inr (ev, c1)"
    "evs = [SendLockedTransfer ev]" "channel_at m' (td_initiator d) (ch_identifier c) = Some c1"
    "p = mk_InitiatorPaymentState [(td_secrethash d,
       mk_InitiatorTransferState d (ch_identifier c) (ste_transfer ev) None False)]"
    "g' = Suc g" "length (leaf_list (es_merkletree (our_state c))) < MAXIMUM_PENDING_TRANSFERS"
proof -
  from run obtain q where "dispatch_payment L now None (ActionInitInitiator d [r]) m g n =
      Inr ((q, evs), m', g')" and q: "Some p = clear_if_finalized_payment q"
    by (rule state_transition_paymentD)
  then obtain new where run': "try_new_route L m [r] d g n = Inr ((new, evs), m', g')"
    "q = started_payment new"
    by (auto simp: dispatch_payment_def handle_init_payment_def res_bind_Inr)
  from run'(1) obtain found where
    f: "next_channel_from_routes_initiator [r] m (td_amount d) (td_initiator d) = Inr found"
    by (auto simp: try_new_route_def res_bind_Inr)
  have new: "new \<noteq> None"
    using q run'(2)
    by (auto simp: started_payment_def clear_if_finalized_payment_def split: option.splits)
  from f show thesis
  proof (cases rule: next_channel_cases)
    case none
    then show thesis using run' f new by (auto simp: try_new_route_def)
  next
    case (first before r' after c')
    then have c': "c' = c" "found = Some (ch_identifier c, c)" "route_open m (td_amount d) (td_initiator d) r"
      using c k by (auto simp: Cons_eq_append_conv)
    from run'(1) f c'(2) obtain ev c1 where ev: "send_lockedtransfer L c (td_initiator d) (td_target d)
        (td_amount d + td_allocated_fee d) (randint64 L g) (td_payment_identifier d)
        (td_payment_hash_invoice d) (n + reveal_timeout c * 2) (td_secrethash d) = Inr (ev, c1)"
      "evs = [SendLockedTransfer ev]" "m' = set_channel (td_initiator d) (ch_identifier c) c1 m"
      "new = Some (mk_InitiatorTransferState d (ch_identifier c1) (ste_transfer ev) None False)"
      "g' = Suc g"
      by (auto simp: try_new_route_def message_identifier_from_prng_def res_bind_Inr
          send_lockedtransfer_initiator_def Let_def py_assert_Inr get_initial_lock_expiration_def)
    note sent = sent_transfer [OF ev(1)]
    have "channel_at m' (td_initiator d) (ch_identifier c) = Some c1"
      using channel_at_set [OF c] ev(3) k by simp
    moreover have "p = mk_InitiatorPaymentState [(td_secrethash d,
        mk_InitiatorTransferState d (ch_identifier c) (ste_transfer ev) None False)]"
      using q run'(2) ev(4) sent(1,4)
      by (simp add: started_payment_def clear_if_finalized_payment_def mk_InitiatorPaymentState_def
          mk_InitiatorTransferState_def)
    moreover have "length (leaf_list (es_merkletree (our_state c))) < MAXIMUM_PENDING_TRANSFERS"
      using c'(3) c merkletree_width_leaves [OF ok]
      by (auto simp: route_open_def get_number_of_pending_transfers_def)
    ultimately show thesis using that ev(1,2,5) by blast
  qed
qed

text \<open>The transfer of a payment that was not cancelled.\<close>

definition transfer_of :: "TransferDescription \<Rightarrow> InitiatorTransferState \<Rightarrow> bool" where
  "transfer_of d s \<longleftrightarrow>
     it_transfer_description s = d \<and> it_transfer_state s = transfer_pending \<and>
     lock_secrethash (lt_lock (it_transfer s)) = td_secrethash d"

lemma payer_answers:
  assumes s: "transfer_of d s" "\<not> it_received_secret_request s" and secret: "td_secret d = Some secret"
    and c: "channel_at m (td_initiator d) (it_channel_identifier s) = Some c"
    and lock: "get_lock (our_state c) (td_secrethash d) = Some l"
    and amount: "td_amount d \<le> lock_amount l"
  obtains m' s' where "state_transition_payment L now
      (Some (mk_InitiatorPaymentState [(td_secrethash d, s)])) (ReceiveSecretRequestChange
        \<lparr>rsq_payment_identifier = td_payment_identifier d, rsq_amount = lock_amount l,
         rsq_expiration = lock_expiration l, rsq_secrethash = td_secrethash d,
         rsq_sender = td_target d\<rparr>) m g n =
    Inr ((Some (mk_InitiatorPaymentState [(td_secrethash d, s')]),
          [SendSecretReveal (mk_SendSecretReveal L (td_target d) CHANNEL_IDENTIFIER_GLOBAL_QUEUE
             (randint64 L g) secret)]), m', Suc g)"
    "transfer_of d s'" "it_channel_identifier s' = it_channel_identifier s"
    "channel_at m' (td_initiator d) (it_channel_identifier s) = Some c"
proof -
  let ?r = "SendSecretReveal (mk_SendSecretReveal L (td_target d) CHANNEL_IDENTIFIER_GLOBAL_QUEUE
    (randint64 L g) secret)"
  let ?s = "s\<lparr>it_revealsecret := Some ?r, it_received_secret_request := True\<rparr>"
  let ?m = "set_channel (td_initiator d) (it_channel_identifier s) c m"
  from c obtain ms where ms: "dict_get m (td_initiator d) = Some ms"
    "dict_get ms (it_channel_identifier s) = Some c"
    by (auto simp: channel_at_def bind_eq_Some_conv)
  have "state_transition_payment L now
      (Some (mk_InitiatorPaymentState [(td_secrethash d, s)])) (ReceiveSecretRequestChange
        \<lparr>rsq_payment_identifier = td_payment_identifier d, rsq_amount = lock_amount l,
         rsq_expiration = lock_expiration l, rsq_secrethash = td_secrethash d,
         rsq_sender = td_target d\<rparr>) m g n =
    Inr ((Some (mk_InitiatorPaymentState [(td_secrethash d, ?s)]), [?r]), ?m, Suc g)"
    using s secret ms lock amount
    by (simp add: transfer_of_def state_transition_payment_def dispatch_payment_def
        secretrequest_to_transfer_def subdispatch_to_initiatortransfer_def
        state_transition_initiator_def handle_secretrequest_def secretrequest_with_def
        is_message_from_target_def is_valid_secretrequest_def message_identifier_from_prng_def
        running_payment_def clear_if_finalized_payment_def mk_InitiatorPaymentState_def Let_def)
  moreover have "transfer_of d ?s" using s(1) by (simp add: transfer_of_def)
  ultimately show thesis using that channel_at_set [OF c] by simp
qed

lemma payer_pays:
  assumes s: "transfer_of d s" and secret: "keccak L secret = td_secrethash d" "secret \<noteq> EMPTY_HASH"
    and c: "channel_at m (td_initiator d) (it_channel_identifier s) = Some c"
    and opened: "get_status c = CHANNEL_STATE_OPENED"
    and partner: "es_address (partner_state c) = td_target d"
    and unlock: "send_unlock L c (randint64 L g) (td_payment_identifier d) secret (td_secrethash d)
      False = Inr (u, c')"
  obtains m' where "state_transition_payment L now
      (Some (mk_InitiatorPaymentState [(td_secrethash d, s)]))
      (ReceiveSecretRevealChange (mk_ReceiveSecretReveal L secret (td_target d))) m g n =
    Inr ((None, [EventPaymentSentSuccess (payment_network_identifier c')
                   (ch_token_network_identifier c') (td_payment_identifier d) (td_amount d)
                   (td_target d) secret,
                 EventUnlockSuccess (td_payment_identifier d) (td_secrethash d),
                 SendBalanceProof u]), m', Suc g)"
    "channel_at m' (td_initiator d) (it_channel_identifier s) = Some c'"
proof -
  let ?m = "set_channel (td_initiator d) (it_channel_identifier s) c' m"
  from c obtain ms where ms: "dict_get m (td_initiator d) = Some ms"
    "dict_get ms (it_channel_identifier s) = Some c"
    by (auto simp: channel_at_def bind_eq_Some_conv)
  have "may_unlock s (mk_ReceiveSecretReveal L secret (td_target d)) c"
    using s secret opened partner
    by (simp add: may_unlock_def is_valid_secret_reveal_def mk_ReceiveSecretReveal_def transfer_of_def)
  moreover have "rsr_secret (mk_ReceiveSecretReveal L secret (td_target d)) = secret"
    "rsr_secrethash (mk_ReceiveSecretReveal L secret (td_target d)) = td_secrethash d"
    using secret by (simp_all add: mk_ReceiveSecretReveal_def)
  ultimately have "state_transition_payment L now
      (Some (mk_InitiatorPaymentState [(td_secrethash d, s)]))
      (ReceiveSecretRevealChange (mk_ReceiveSecretReveal L secret (td_target d))) m g n =
    Inr ((None, [EventPaymentSentSuccess (payment_network_identifier c')
                   (ch_token_network_identifier c') (td_payment_identifier d) (td_amount d)
                   (td_target d) secret,
                 EventUnlockSuccess (td_payment_identifier d) (td_secrethash d),
                 SendBalanceProof u]), ?m, Suc g)"
    using s ms unlock
    by (simp add: transfer_of_def state_transition_payment_def dispatch_payment_def
        secretreveal_with_def subdispatch_to_initiatortransfer_def state_transition_initiator_def
        handle_offchain_secretreveal_initiator_def events_for_unlock_lock_def
        message_identifier_from_prng_def events_for_unlock_base_def running_payment_def
        clear_if_finalized_payment_def mk_InitiatorPaymentState_def dict_has_def transfer_exists_def
        cancel_other_transfers_def Let_def)
  with that channel_at_set [OF c] show thesis by simp
qed

end
