(* ===== verification/DirectPayment.thy ===== *)
theory DirectPayment
  imports ExchangeFacts InitiatorProperties TargetProperties MessageProperties
begin

text \<open>
  A payment between two neighbours from its start to its end: the transfer, the request for the
  secret, the secret, the secret back, and the unlock, each sent as a signed message over the wire,
  with both channels in sync at the end.  The proof goes by the three legs of the payment.
\<close>

section \<open>The setting\<close>

definition draws_ok :: "libs \<Rightarrow> prng \<Rightarrow> bool" where
  "draws_ok L g \<longleftrightarrow> (\<forall>k<3. 0 \<le> randint64 L (g + k) \<and> randint64 L (g + k) \<le> UINT64_MAX)"

definition parties_ok :: "parties \<Rightarrow> TransferDescription \<Rightarrow> bool" where
  "parties_ok P d \<longleftrightarrow>
     keccak_ok (pt_libs P) \<and> codec_ok (pt_codec P) \<and>
     signer_ok (pt_libs P) (pt_payer_signer P) \<and> signer_ok (pt_libs P) (pt_payee_signer P) \<and>
     signer_address (pt_payer_signer P) = td_initiator d \<and>
     signer_address (pt_payee_signer P) = td_target d \<and>
     length (td_initiator d) = 20 \<and> length (td_target d) = 20 \<and>
     nv_address (pt_payee_view P) = td_target d \<and>
     \<not> is_secret_registered (pt_payee_view P) (td_secrethash d)"

definition payable :: "libs \<Rightarrow> TransferDescription \<Rightarrow> bytes \<Rightarrow> bool" where
  "payable L d secret \<longleftrightarrow>
     0 < td_amount d \<and> 0 \<le> td_allocated_fee d \<and> td_payment_hash_invoice d = [] \<and>
     0 \<le> td_payment_identifier d \<and> td_payment_identifier d \<le> UINT64_MAX \<and>
     td_secret d = Some secret \<and> length secret = 32 \<and> secret \<noteq> EMPTY_HASH \<and>
     keccak L secret = td_secrethash d \<and> td_secrethash d \<noteq> EMPTY_HASH_KECCAK L"

definition linked ::
    "libs \<Rightarrow> TransferDescription \<Rightarrow> NettingChannelState \<Rightarrow> NettingChannelState \<Rightarrow> bool" where
  "linked L d c c2 \<longleftrightarrow>
     reachable L c \<and> reachable L c2 \<and> in_sync c c2 \<and>
     get_status c = CHANNEL_STATE_OPENED \<and> get_status c2 = CHANNEL_STATE_OPENED \<and>
     es_address (our_state c) = td_initiator d \<and> es_address (partner_state c) = td_target d \<and>
     length (ch_token_address c) = 20 \<and> length (ch_token_network_identifier c) = 20 \<and>
     0 \<le> ch_chain_id c \<and> ch_chain_id c \<le> UINT256_MAX \<and>
     \<not> is_lock_pending (our_state c) (td_secrethash d) \<and>
     get_next_nonce (our_state c) < UINT64_MAX"

definition idle :: "exchange \<Rightarrow> bool" where
  "idle X \<longleftrightarrow> ex_payment X = None \<and> ex_task X = None \<and> ex_transit X = []"

section \<open>Deliveries\<close>

lemma deliver_to_payee:
  assumes "ex_transit X = (True, ev) # rest"
    and "transmit (pt_libs P) (pt_codec P) (pt_payer_signer P) (pt_payee_view P) ev = Inr (Change sc)"
    and "state_transition_target (pt_libs P) (pt_now P) (pt_today P) (ex_task X) sc (ex_world X)
      (pt_payee_block P) = Inr ((t, events), w)"
  shows "deliver P (Suc n) X = deliver P n \<lparr>ex_payment = ex_payment X,
    ex_channels = ex_channels X, ex_prng = ex_prng X, ex_task = t, ex_world = w,
    ex_transit = rest @ map (Pair False) (filter travels events), ex_log = ex_log X @ events\<rparr>"
  using assms by (cases X) (simp add: deliver_next_def payee_step_def)

lemma deliver_to_payer:
  assumes "ex_transit X = (False, ev) # rest"
    and "transmit (pt_libs P) (pt_codec P) (pt_payee_signer P) (pt_payer_view P) ev = Inr (Change sc)"
    and "state_transition_payment (pt_libs P) (pt_now P) (ex_payment X) sc (ex_channels X) (ex_prng X)
      (pt_payer_block P) = Inr ((p, events), m, g)"
  shows "deliver P (Suc n) X = deliver P n \<lparr>ex_payment = p, ex_channels = m, ex_prng = g,
    ex_task = ex_task X, ex_world = ex_world X,
    ex_transit = rest @ map (Pair True) (filter travels events), ex_log = ex_log X @ events\<rparr>"
  using assms by (cases X) (simp add: deliver_next_def payer_step_def)

lemma deliver_processed:
  assumes "parties_ok P d" "ex_transit X = (False, SendProcessed r k i) # rest"
    and "0 \<le> i" "i \<le> UINT64_MAX"
  shows "deliver P (Suc n) X = deliver P n (X\<lparr>ex_transit := rest\<rparr>)"
  using assms transmit_processed [of "pt_codec P" "pt_libs P" "pt_payee_signer P" i]
  by (simp add: deliver_next_def parties_ok_def)

declare deliver.simps [simp del]

lemma travels_simps [simp]:
  "travels (SendLockedTransfer ev)" "travels (SendSecretRequest q)" "travels (SendSecretReveal sr)"
  "travels (SendBalanceProof u)" "travels (SendProcessed r k i)" "travels (send_processed r i)"
  "\<not> travels (EventPaymentSentSuccess nw tk i a t x)" "\<not> travels (EventUnlockSuccess i h)"
  "filter travels (payment_received s c) = []"
  by (simp_all add: travels_def send_processed_def payment_received_def)

section \<open>The transfer\<close>

text \<open>What the payer's channel is after it has sent the transfer.\<close>

lemma offered:
  assumes P: "parties_ok P d" and d: "payable (pt_libs P) d secret"
    and c: "linked (pt_libs P) d c c2"
    and sent: "send_lockedtransfer (pt_libs P) c (td_initiator d) (td_target d)
      (td_amount d + td_allocated_fee d) i (td_payment_identifier d) (td_payment_hash_invoice d) x
      (td_secrethash d) = Inr (ev, c1)"
    and i: "0 \<le> i" "i \<le> UINT64_MAX"
  shows "reachable (pt_libs P) c1" "wire_proof i (lt_balance_proof (ste_transfer ev))"
    and "channel_static c1 = channel_static c" "get_status c1 = CHANNEL_STATE_OPENED"
    and "get_next_nonce (our_state c1) \<le> UINT64_MAX"
    and "canonical_identifier_validate (ch_canonical_identifier c1) = Inr ()"
    and "current_transferred_amount (our_state c1) = current_transferred_amount (our_state c)"
proof -
  note made = sent_proof_made [OF sent]
  have L: "keccak_ok (pt_libs P)" using P by (simp add: parties_ok_def)
  show r: "reachable (pt_libs P) c1"
    using c reachable.step [OF _ channel_step.send_transfer [OF _ sent]] by (simp add: linked_def)
  obtain n l root where mk: "mk_BalanceProofUnsignedState n (current_transferred_amount (our_state c))
      l root (ch_canonical_identifier c) = Inr (lt_balance_proof (ste_transfer ev))"
    using made(1) by blast
  show "wire_proof i (lt_balance_proof (ste_transfer ev))"
    using c by (intro reachable_wire_proof(1) [OF L r made(10) mk i]) (simp_all add: made(11) linked_def)
  show static: "channel_static c1 = channel_static c"
    using send_lockedtransfer_keeps [OF sent] by (simp add: keeps_copies_def)
  show "get_status c1 = CHANNEL_STATE_OPENED"
    using sent_transfer(3) [OF sent] c by (simp add: linked_def)
  obtain tree where cr: "create_sendlockedtransfer (pt_libs P) c (td_initiator d) (td_target d)
      (td_amount d + td_allocated_fee d) i (td_payment_identifier d) (td_payment_hash_invoice d) x
      (td_secrethash d) = Inr (ev, tree)"
    using sent by (auto simp: send_lockedtransfer_def res_bind_Inr Let_def)
  then have bp: "bp_nonce (lt_balance_proof (ste_transfer ev)) = get_next_nonce (our_state c)"
    "bp_transferred_amount (lt_balance_proof (ste_transfer ev))
       = current_transferred_amount (our_state c)"
    by (auto elim: create_sendlockedtransferD)
  then show "get_next_nonce (our_state c1) \<le> UINT64_MAX"
    "current_transferred_amount (our_state c1) = current_transferred_amount (our_state c)"
    using made(10) c by (simp_all add: get_next_nonce_def current_transferred_amount_def linked_def)
  show "canonical_identifier_validate (ch_canonical_identifier c1) = Inr ()"
    using made_proof(2,3) [OF mk] static made(11)
    by (simp add: canonical_identifier_validate_def channel_static_def)
qed

lemma transfer_leg:
  assumes P: "parties_ok P d" and d: "payable (pt_libs P) d secret"
    and c: "linked (pt_libs P) d c (tw_channel (ex_world X))"
    and sent: "send_lockedtransfer (pt_libs P) c (td_initiator d) (td_target d)
      (td_amount d + td_allocated_fee d) i (td_payment_identifier d) (td_payment_hash_invoice d) x
      (td_secrethash d) = Inr (ev, c1)"
    and i: "0 \<le> i" "i \<le> UINT64_MAX"
    and width: "length (leaf_list (es_merkletree (our_state c))) < MAXIMUM_PENDING_TRANSFERS"
    and safe: "is_safe_to_wait x (reveal_timeout (tw_channel (ex_world X))) (pt_payee_block P) = Inr True"
    and X: "ex_transit X = [(True, SendLockedTransfer ev)]" "ex_task X = None"
  obtains route t d1 log where
    "\<And>n. deliver P (Suc (Suc n)) X = deliver P n \<lparr>ex_payment = ex_payment X,
       ex_channels = ex_channels X, ex_prng = ex_prng X,
       ex_task = Some (mk_TargetTransferState route t None),
       ex_world = (ex_world X)\<lparr>tw_channel := d1, tw_prng := Suc (tw_prng (ex_world X))\<rparr>,
       ex_transit = [(False, SendSecretRequest (secret_request_for t
         (randint64 (pt_libs P) (tw_prng (ex_world X)))))], ex_log = ex_log X @ log\<rparr>"
    "reachable (pt_libs P) d1" "in_sync c1 d1" "get_status d1 = CHANNEL_STATE_OPENED"
    "get_lock (partner_state d1) (td_secrethash d) = Some (lt_lock t)"
    "lt_lock t = lt_lock (ste_transfer ev)" "lt_payment_identifier t = td_payment_identifier d"
    "lt_initiator t = td_initiator d" "route_node_address route = td_initiator d"
proof -
  let ?L = "pt_libs P" and ?w = "ex_world X"
  note p = P [unfolded parties_ok_def] and d' = d [unfolded payable_def] and c' = c [unfolded linked_def]
  note made = sent_proof_made [OF sent]
  have L: "keccak_ok ?L" using p by simp
  have h: "length (td_secrethash d) = 32" using keccak_okD [OF L, of secret] d' by simp
  have wp: "wire_proof (ste_message_identifier ev) (lt_balance_proof (ste_transfer ev))"
    using offered(2) [OF P d c sent i] made(2) by simp
  obtain t where t: "transmit ?L (pt_codec P) (pt_payer_signer P) (pt_payee_view P)
      (SendLockedTransfer ev) = Inr (Change (ActionInitTarget
      \<lparr>route_node_address = signer_address (pt_payer_signer P), route_channel_identifier =
        channel_identifier (bp_canonical_identifier (lt_balance_proof (ste_transfer ev)))\<rparr> t))"
    "signed_copy ?L (signer_address (pt_payer_signer P)) (lt_balance_proof (ste_transfer ev))
      (lt_balance_proof t)"
    "bp_sender (lt_balance_proof t) = signer_address (pt_payer_signer P)"
    "lt_lock t = lt_lock (ste_transfer ev)"
    "lt_payment_identifier t = lt_payment_identifier (ste_transfer ev)"
    "lt_payment_hash_invoice t = lt_payment_hash_invoice (ste_transfer ev)"
    "lt_initiator t = lt_initiator (ste_transfer ev)"
    "lt_message_identifier t = ste_message_identifier ev"
    by (rule transmit_transfer [OF L _ _ wp made(9) made(8) h, of "pt_codec P" "pt_payer_signer P"
          "pt_payee_view P"])
      (use p d' c' made sent_transfer(5) [OF sent] in simp_all)
  let ?r = "\<lparr>route_node_address = signer_address (pt_payer_signer P), route_channel_identifier =
    channel_identifier (bp_canonical_identifier (lt_balance_proof (ste_transfer ev)))\<rparr>"
  obtain d1 where d1: "state_transition_target ?L (pt_now P) (pt_today P) None (ActionInitTarget ?r t)
      ?w (pt_payee_block P) =
      Inr ((Some (mk_TargetTransferState ?r t None),
            [send_processed (bp_sender (lt_balance_proof t)) (lt_message_identifier t),
             SendSecretRequest (secret_request_for t (randint64 ?L (tw_prng ?w)))]),
           ?w\<lparr>tw_channel := d1, tw_prng := Suc (tw_prng ?w)\<rparr>)"
    "reachable ?L d1" "in_sync c1 d1" "get_lock (partner_state d1) (td_secrethash d) = Some (lt_lock t)"
    "get_status d1 = get_status (tw_channel ?w)"
    by (rule payee_accepts [OF L _ _ _ _ sent _ _ _ width t(4) _ _ safe refl])
      (use p d' c' t(2,6) made(4) in simp_all)
  note one = deliver_to_payee [OF X(1) t(1) d1(1) [folded X(2)]]
  show thesis
    by (rule that [where route = ?r and t = t and ?d1.0 = d1]) (use one d1(2-5) t(4,5,7,8) made(2,3,6) p c' i deliver_processed [OF P] in
        \<open>simp_all add: send_processed_def\<close>)
qed

section \<open>The secret\<close>

lemma secret_leg:
  assumes P: "parties_ok P d" and d: "payable (pt_libs P) d secret"
    and c1: "reachable (pt_libs P) c1" "get_status c1 = CHANNEL_STATE_OPENED"
      "get_next_nonce (our_state c1) \<le> UINT64_MAX" "es_address (partner_state c1) = td_target d"
      "canonical_identifier_validate (ch_canonical_identifier c1) = Inr ()"
      "get_lock (our_state c1) (td_secrethash d) = Some (lt_lock t)"
      "0 \<le> ch_chain_id c1" "ch_chain_id c1 \<le> UINT256_MAX"
      "length (ch_token_network_identifier c1) = 20"
    and lock: "mk_HashTimeLockState (pt_libs P) (td_amount d + td_allocated_fee d) x (td_secrethash d)
      = Inr (lt_lock t)" "pt_payee_block P < x" "lt_payment_identifier t = td_payment_identifier d"
    and d1: "reachable (pt_libs P) (tw_channel (ex_world X))"
      "get_lock (partner_state (tw_channel (ex_world X))) (td_secrethash d) = Some (lt_lock t)"
    and draws: "\<And>k. k < 2 \<Longrightarrow> 0 \<le> randint64 (pt_libs P) (ex_prng X + k) \<and>
        randint64 (pt_libs P) (ex_prng X + k) \<le> UINT64_MAX"
      "0 \<le> randint64 (pt_libs P) (tw_prng (ex_world X))"
      "randint64 (pt_libs P) (tw_prng (ex_world X)) \<le> UINT64_MAX" "0 \<le> j" "j \<le> UINT64_MAX"
    and X: "ex_payment X = Some (mk_InitiatorPaymentState [(td_secrethash d, s)])"
      "transfer_of d s" "\<not> it_received_secret_request s"
      "channel_at (ex_channels X) (td_initiator d) (it_channel_identifier s) = Some c1"
      "ex_task X = Some (mk_TargetTransferState route t None)"
      "route_node_address route = td_initiator d"
      "ex_transit X = [(False, SendSecretRequest (secret_request_for t j))]"
  obtains u c2 m g log s' where
    "\<And>n. deliver P (Suc (Suc (Suc n))) X = deliver P n \<lparr>ex_payment = None, ex_channels = m,
       ex_prng = g, ex_task = Some s', ex_world = (ex_world X)\<lparr>tw_channel :=
         register_offchain_secret (tw_channel (ex_world X)) secret (td_secrethash d),
         tw_prng := Suc (tw_prng (ex_world X))\<rparr>,
       ex_transit = [(True, SendBalanceProof u)], ex_log = ex_log X @ log @
         [EventPaymentSentSuccess (payment_network_identifier c2) (ch_token_network_identifier c2)
            (td_payment_identifier d) (td_amount d) (td_target d) secret,
          EventUnlockSuccess (td_payment_identifier d) (td_secrethash d), SendBalanceProof u]\<rparr>"
    "send_unlock (pt_libs P) c1 (sbp_message_identifier u) (td_payment_identifier d) secret
       (td_secrethash d) False = Inr (u, c2)"
    "wire_proof (sbp_message_identifier u) (sbp_balance_proof u)"
    "bp_transferred_amount (sbp_balance_proof u) + bp_locked_amount (sbp_balance_proof u) \<le> UINT256_MAX"
    "sbp_payment_identifier u = td_payment_identifier d" "sbp_secret u = secret"
    "channel_at m (td_initiator d) (it_channel_identifier s) = Some c2"
    "tt_transfer s' = t"
proof -
  let ?L = "pt_libs P" and ?w = "ex_world X" and ?g = "ex_prng X" and ?h = "td_secrethash d"
  let ?d = "tw_channel ?w" and ?gl = "CHANNEL_IDENTIFIER_GLOBAL_QUEUE"
  note p = P [unfolded parties_ok_def] and d' = d [unfolded payable_def]
  have L: "keccak_ok ?L" using p by simp
  have hash: "length ?h = 32" using keccak_okD [OF L, of secret] d' by simp
  note l = mk_lock_sel [OF lock(1)] and li = lock(1) [unfolded mk_lock_iff]
  have known: "td_secret d = Some secret" "td_amount d \<le> lock_amount (lt_lock t)" using d' l by simp_all
  obtain m1 s1 where r1: "state_transition_payment ?L (pt_now P)
      (Some (mk_InitiatorPaymentState [(?h, s)])) (ReceiveSecretRequestChange \<lparr>rsq_payment_identifier = td_payment_identifier d,
         rsq_amount = lock_amount (lt_lock t), rsq_expiration = lock_expiration (lt_lock t),
         rsq_secrethash = ?h, rsq_sender = td_target d\<rparr>) (ex_channels X) ?g (pt_payer_block P) =
    Inr ((Some (mk_InitiatorPaymentState [(?h, s1)]), [SendSecretReveal (mk_SendSecretReveal ?L
           (td_target d) ?gl (randint64 ?L ?g) secret)]), m1, Suc ?g)"
    "transfer_of d s1" "it_channel_identifier s1 = it_channel_identifier s"
    "channel_at m1 (td_initiator d) (it_channel_identifier s) = Some c1"
    by (rule payer_answers [OF X(2,3) known(1) X(4) c1(6) known(2)])
  let ?e1 = "[SendSecretReveal (mk_SendSecretReveal ?L (td_target d) ?gl (randint64 ?L ?g) secret)]"
  let ?X1 = "\<lparr>ex_payment = Some (mk_InitiatorPaymentState [(?h, s1)]), ex_channels = m1,
    ex_prng = Suc ?g, ex_task = ex_task X, ex_world = ?w, ex_transit = map (Pair True) ?e1,
    ex_log = ex_log X @ ?e1\<rparr>"
  have t1: "transmit ?L (pt_codec P) (pt_payee_signer P) (pt_payer_view P)
      (SendSecretRequest (secret_request_for t j)) = Inr (Change (ReceiveSecretRequestChange
        \<lparr>rsq_payment_identifier = td_payment_identifier d,
         rsq_amount = lock_amount (lt_lock t), rsq_expiration = lock_expiration (lt_lock t),
         rsq_secrethash = ?h, rsq_sender = td_target d\<rparr>))"
    using transmit_request [of "pt_codec P" ?L "pt_payee_signer P" "secret_request_for t j"
        "pt_payer_view P"] p d' draws(4,5) li hash lock(3)
    by (simp add: secret_request_for_def)
  have one: "deliver P (Suc n) X = deliver P n ?X1" for n
    using deliver_to_payer [OF X(7) t1 r1(1) [folded X(1)]] by simp
  let ?s = "(mk_TargetTransferState route t None)
    \<lparr>tt_state := OFFCHAIN_SECRET_REVEAL, tt_secret := Some secret\<rparr>"
  let ?w2 = "?w\<lparr>tw_channel := register_offchain_secret ?d secret ?h, tw_prng := Suc (tw_prng ?w)\<rparr>"
  let ?e2 = "[SendSecretReveal (mk_SendSecretReveal ?L (td_initiator d) ?gl
    (randint64 ?L (tw_prng ?w)) secret)]"
  let ?X2 = "\<lparr>ex_payment = Some (mk_InitiatorPaymentState [(?h, s1)]), ex_channels = m1,
    ex_prng = Suc ?g, ex_task = Some ?s, ex_world = ?w2, ex_transit = map (Pair False) ?e2,
    ex_log = ex_log X @ ?e1 @ ?e2\<rparr>"
  have t2: "transmit ?L (pt_codec P) (pt_payer_signer P) (pt_payee_view P) (hd ?e1) =
      Inr (Change (ReceiveSecretRevealChange (mk_ReceiveSecretReveal ?L secret (td_initiator d))))"
    using transmit_reveal [of "pt_codec P" ?L "pt_payer_signer P" "mk_SendSecretReveal ?L (td_target d)
        ?gl (randint64 ?L ?g) secret" "pt_payee_view P"] p d' draws(1) [of 0]
    by (simp add: mk_SendSecretReveal_def)
  have r2: "state_transition_target ?L (pt_now P) (pt_today P) (ex_task ?X1)
      (ReceiveSecretRevealChange (mk_ReceiveSecretReveal ?L secret (td_initiator d))) (ex_world ?X1)
      (pt_payee_block P) = Inr ((Some ?s, ?e2), ?w2)"
    using payee_learns [OF L d1(1), of ?h t secret "pt_payee_block P"] d1(2) l d' lock(2) X(5,6) by simp
  have two: "deliver P (Suc n) ?X1 = deliver P n ?X2" for n
    using deliver_to_payee [of ?X1 "hd ?e1" "[]", OF _ t2 r2] by simp
  obtain bp c2 where u: "send_unlock ?L c1 (randint64 ?L (Suc ?g)) (td_payment_identifier d) secret ?h
      False = Inr (mk_SendBalanceProof ?L (es_address (partner_state c1)) (ch_identifier c1)
        (randint64 ?L (Suc ?g)) (td_payment_identifier d) (ch_token_address c1) secret bp, c2)"
    "mk_BalanceProofUnsignedState (get_next_nonce (our_state c1))
       (lock_amount (lt_lock t) + current_transferred_amount (our_state c1))
       (get_amount_locked (our_state c1) - lock_amount (lt_lock t)) (bp_locksroot bp)
       (ch_canonical_identifier c1) = Inr bp"
    "es_balance_proof (our_state c2) = Some (Unsigned bp)"
    by (rule unlock_possible [OF L c1(1,6,2,3,5)])
  let ?u = "mk_SendBalanceProof ?L (es_address (partner_state c1)) (ch_identifier c1)
        (randint64 ?L (Suc ?g)) (td_payment_identifier d) (ch_token_address c1) secret bp"
  have bci: "bp_canonical_identifier bp = ch_canonical_identifier c1"
    using made_proof(4) [OF u(2)] .
  have "reachable ?L c2" using reachable.step [OF c1(1) channel_step.send_unlock [OF u(1)]] .
  note wire = reachable_wire_proof [OF L this u(3,2), of "randint64 ?L (Suc ?g)"]
  have fits: "wire_proof (randint64 ?L (Suc ?g)) bp"
    "bp_transferred_amount bp + bp_locked_amount bp \<le> UINT256_MAX"
    using wire draws(1) [of 1] c1(7-9) bci by simp_all
  obtain m2 where r3: "state_transition_payment ?L (pt_now P) (ex_payment ?X2)
      (ReceiveSecretRevealChange (mk_ReceiveSecretReveal ?L secret (td_target d))) (ex_channels ?X2)
      (ex_prng ?X2) (pt_payer_block P) =
    Inr ((None, [EventPaymentSentSuccess (payment_network_identifier c2)
                   (ch_token_network_identifier c2) (td_payment_identifier d) (td_amount d)
                   (td_target d) secret,
                 EventUnlockSuccess (td_payment_identifier d) ?h, SendBalanceProof ?u]), m2,
          Suc (Suc ?g))"
    "channel_at m2 (td_initiator d) (it_channel_identifier s1) = Some c2"
    by (rule payer_pays [OF r1(2) _ _ _ c1(2,4) u(1), where m = m1 and now = "pt_now P"
          and n = "pt_payer_block P"])
      (use d' r1(3,4) in simp_all)
  have t3: "transmit ?L (pt_codec P) (pt_payee_signer P) (pt_payer_view P) (hd ?e2) =
      Inr (Change (ReceiveSecretRevealChange (mk_ReceiveSecretReveal ?L secret (td_target d))))"
    using transmit_reveal [of "pt_codec P" ?L "pt_payee_signer P" "mk_SendSecretReveal ?L
        (td_initiator d) ?gl (randint64 ?L (tw_prng ?w)) secret" "pt_payer_view P"] p d' draws(2,3)
    by (simp add: mk_SendSecretReveal_def)
  note three = deliver_to_payer [of ?X2 "hd ?e2" "[]", OF _ t3 r3(1)]
  show thesis
    by (rule that [where m = m2 and g = "Suc (Suc ?g)" and s' = ?s and log = "?e1 @ ?e2"
        and ?c2.0 = c2 and u = ?u])
      (use one two three u(1) fits r1(3) r3(2) in
        \<open>simp_all add: mk_SendBalanceProof_def mk_TargetTransferState_def\<close>)
qed

section \<open>The unlock\<close>

lemma unlock_leg:
  assumes P: "parties_ok P d" and d: "payable (pt_libs P) d secret"
    and c1: "reachable (pt_libs P) c1" "es_address (our_state c1) = td_initiator d"
      "in_sync c1 (tw_channel (ex_world X))"
    and d2: "reachable (pt_libs P) (tw_channel (ex_world X))"
      "get_status (tw_channel (ex_world X)) = CHANNEL_STATE_OPENED"
    and sent: "send_unlock (pt_libs P) c1 i (td_payment_identifier d) secret (td_secrethash d) False
      = Inr (u, c2)"
    and u: "wire_proof (sbp_message_identifier u) (sbp_balance_proof u)"
      "bp_transferred_amount (sbp_balance_proof u) + bp_locked_amount (sbp_balance_proof u) \<le> UINT256_MAX"
      "sbp_payment_identifier u = td_payment_identifier d" "sbp_secret u = secret"
    and X: "ex_task X = Some s" "lock_secrethash (lt_lock (tt_transfer s)) = td_secrethash d"
      "ex_transit X = [(True, SendBalanceProof u)]"
  obtains d3 log log' where "\<And>n. deliver P (Suc (Suc (Suc n))) X = deliver P n
      \<lparr>ex_payment = ex_payment X, ex_channels = ex_channels X, ex_prng = ex_prng X, ex_task = None,
       ex_world = (ex_world X)\<lparr>tw_channel := d3\<rparr>, ex_transit = [],
       ex_log = ex_log X @ log @ payment_received s d3 @ log'\<rparr>"
    "in_sync c2 d3"
proof -
  let ?L = "pt_libs P" and ?w = "ex_world X"
  note p = P [unfolded parties_ok_def] and d' = d [unfolded payable_def]
  have L: "keccak_ok ?L" and hash: "td_secrethash d = keccak ?L secret" using p d' by simp_all
  obtain bp where t: "transmit ?L (pt_codec P) (pt_payer_signer P) (pt_payee_view P)
      (SendBalanceProof u) = Inr (Change (ReceiveUnlockChange
        (mk_ReceiveUnlock ?L (sbp_message_identifier u) (sbp_secret u) bp)))"
    "signed_copy ?L (signer_address (pt_payer_signer P)) (sbp_balance_proof u) bp"
    by (rule transmit_unlock [OF L _ _ u(1), of "pt_codec P" "pt_payer_signer P" "pt_payee_view P"])
      (use p d' u in simp_all)
  obtain d3 where run: "state_transition_target ?L (pt_now P) (pt_today P) (Some s)
      (ReceiveUnlockChange (mk_ReceiveUnlock ?L (sbp_message_identifier u) secret bp)) ?w
      (pt_payee_block P) =
    Inr ((None, send_processed (bp_sender bp) (sbp_message_identifier u) # payment_received s d3 @
            [SendProcessed (bp_sender bp) CHANNEL_IDENTIFIER_GLOBAL_QUEUE (sbp_message_identifier u)]),
         ?w\<lparr>tw_channel := d3\<rparr>)" and s3: "in_sync c2 d3"
    by (rule payee_unlocked [OF L c1(1) d2(1) c1(3) d2(2) sent [unfolded hash] _ u(2), of bp s])
      (use t(2) p c1(2) X(2) hash in simp_all)
  note one = deliver_to_payee [OF X(3) t(1) [unfolded u(4)] run [folded X(1)]]
  have id: "0 \<le> sbp_message_identifier u" "sbp_message_identifier u \<le> UINT64_MAX"
    using u(1) by (simp_all add: wire_proof_def)
  show thesis
    by (rule that [where ?d3.0 = d3 and log = "[send_processed (bp_sender bp) (sbp_message_identifier u)]"
          and log' = "[SendProcessed (bp_sender bp) CHANNEL_IDENTIFIER_GLOBAL_QUEUE
            (sbp_message_identifier u)]"])
      (use one s3 id deliver_processed [OF P] in \<open>simp_all add: send_processed_def\<close>)
qed

section \<open>The payment\<close>

text \<open>From the request for the secret to the end.\<close>

lemma request_to_end:
  assumes P: "parties_ok P d" and d: "payable (pt_libs P) d secret"
    and c: "linked (pt_libs P) d c c'"
    and sent: "send_lockedtransfer (pt_libs P) c (td_initiator d) (td_target d)
      (td_amount d + td_allocated_fee d) i (td_payment_identifier d) (td_payment_hash_invoice d) x
      (td_secrethash d) = Inr (ev, c1)" "0 \<le> i" "i \<le> UINT64_MAX"
    and d1: "reachable (pt_libs P) d1" "in_sync c1 d1" "get_status d1 = CHANNEL_STATE_OPENED"
      "get_lock (partner_state d1) (td_secrethash d) = Some (lt_lock t)"
    and t: "lt_lock t = lt_lock (ste_transfer ev)" "lt_payment_identifier t = td_payment_identifier d"
      "lt_initiator t = td_initiator d"
    and X: "ex_payment X = Some (mk_InitiatorPaymentState [(td_secrethash d, s)])" "transfer_of d s"
      "\<not> it_received_secret_request s"
      "channel_at (ex_channels X) (td_initiator d) (it_channel_identifier s) = Some c1"
      "ex_task X = Some (mk_TargetTransferState route t None)"
      "route_node_address route = td_initiator d" "tw_channel (ex_world X) = d1"
      "ex_transit X = [(False, SendSecretRequest (secret_request_for t j))]"
    and draws: "\<And>k. k < 2 \<Longrightarrow> 0 \<le> randint64 (pt_libs P) (ex_prng X + k) \<and>
        randint64 (pt_libs P) (ex_prng X + k) \<le> UINT64_MAX"
      "0 \<le> randint64 (pt_libs P) (tw_prng (ex_world X))"
      "randint64 (pt_libs P) (tw_prng (ex_world X)) \<le> UINT64_MAX" "0 \<le> j" "j \<le> UINT64_MAX"
    and soon: "pt_payee_block P < x"
  obtains X2 c2 d3 log log' log'' s2 where "deliver P 6 X = Inr X2"
    "ex_transit X2 = []" "ex_payment X2 = None" "ex_task X2 = None"
    "channel_at (ex_channels X2) (td_initiator d) (it_channel_identifier s) = Some c2"
    "tw_channel (ex_world X2) = d3" "in_sync c2 d3"
    "current_transferred_amount (our_state c2) =
       current_transferred_amount (our_state c) + td_amount d + td_allocated_fee d"
    "ex_log X2 = log @ EventPaymentSentSuccess (payment_network_identifier c2)
       (ch_token_network_identifier c2) (td_payment_identifier d) (td_amount d) (td_target d) secret
       # log' @ payment_received s2 d3 @ log''" "tt_transfer s2 = t"
proof -
  let ?L = "pt_libs P" and ?w = "ex_world X" and ?h = "td_secrethash d"
  note c' = c [unfolded linked_def]
  have L: "keccak_ok ?L" using P by (simp add: parties_ok_def)
  note off = offered [OF P d c sent] and made = sent_proof_made [OF sent(1)] and
    got = sent_transfer [OF sent(1)]
  note static = off(3) [unfolded channel_static_def prod.inject]
  obtain u c2 m2 g2 log2 s2 where leg2: "\<And>n. deliver P (Suc (Suc (Suc n))) X = deliver P n
      \<lparr>ex_payment = None, ex_channels = m2, ex_prng = g2, ex_task = Some s2,
       ex_world = ?w\<lparr>tw_channel := register_offchain_secret (tw_channel ?w) secret ?h,
         tw_prng := Suc (tw_prng ?w)\<rparr>,
       ex_transit = [(True, SendBalanceProof u)], ex_log = ex_log X @ log2 @
         [EventPaymentSentSuccess (payment_network_identifier c2) (ch_token_network_identifier c2)
            (td_payment_identifier d) (td_amount d) (td_target d) secret,
          EventUnlockSuccess (td_payment_identifier d) ?h, SendBalanceProof u]\<rparr>"
    and u: "send_unlock ?L c1 (sbp_message_identifier u) (td_payment_identifier d) secret ?h False
      = Inr (u, c2)" "wire_proof (sbp_message_identifier u) (sbp_balance_proof u)"
    "bp_transferred_amount (sbp_balance_proof u) + bp_locked_amount (sbp_balance_proof u) \<le> UINT256_MAX"
    "sbp_payment_identifier u = td_payment_identifier d" "sbp_secret u = secret"
    and c2: "channel_at m2 (td_initiator d) (it_channel_identifier s) = Some c2" "tt_transfer s2 = t"
    by (rule secret_leg [OF P d off(1,4,5) _ off(6) _ _ _ _ made(8) [folded t(1)] soon t(2) _ _ draws
          X(1-6,8)]) (use d1 t(1) X(7) got(2) c' static in simp_all)
  let ?d2 = "register_offchain_secret d1 secret ?h"
  let ?X3 = "\<lparr>ex_payment = None, ex_channels = m2, ex_prng = g2, ex_task = Some s2,
       ex_world = ?w\<lparr>tw_channel := ?d2, tw_prng := Suc (tw_prng ?w)\<rparr>,
       ex_transit = [(True, SendBalanceProof u)], ex_log = ex_log X @ log2 @
         [EventPaymentSentSuccess (payment_network_identifier c2) (ch_token_network_identifier c2)
            (td_payment_identifier d) (td_amount d) (td_target d) secret,
          EventUnlockSuccess (td_payment_identifier d) ?h, SendBalanceProof u]\<rparr>"
  have d2: "reachable ?L ?d2" "in_sync c1 ?d2" "get_status ?d2 = CHANNEL_STATE_OPENED"
    using reachable.step [OF d1(1) channel_step.learn_secret] learned_in_sync [OF L d1(1,2)] d1(3)
    by (simp_all add: register_offchain_secret_def get_status_def cong: option.case_cong)
  obtain d3 log3 log4 where leg3: "\<And>n. deliver P (Suc (Suc (Suc n))) ?X3 = deliver P n
      \<lparr>ex_payment = ex_payment ?X3, ex_channels = ex_channels ?X3, ex_prng = ex_prng ?X3,
       ex_task = None, ex_world = (ex_world ?X3)\<lparr>tw_channel := d3\<rparr>, ex_transit = [],
       ex_log = ex_log ?X3 @ log3 @ payment_received s2 d3 @ log4\<rparr>"
    and d3: "in_sync c2 d3"
    by (rule unlock_leg [OF P d off(1) _ _ _ _ u, of ?X3 s2])
      (use d2 c' static t(1) c2(2) got(1) in simp_all)
  let ?X4 = "\<lparr>ex_payment = None, ex_channels = m2, ex_prng = g2, ex_task = None,
       ex_world = ?w\<lparr>tw_channel := d3, tw_prng := Suc (tw_prng ?w)\<rparr>, ex_transit = [],
       ex_log = ex_log ?X3 @ log3 @ payment_received s2 d3 @ log4\<rparr>"
  have "deliver P (Suc (Suc (Suc (Suc (Suc (Suc 0)))))) X = Inr ?X4"
    using leg2 leg3 X(7) by (simp add: deliver.simps(1))
  then have "deliver P 6 X = Inr ?X4" by (simp add: eval_nat_numeral)
  moreover have "current_transferred_amount (our_state c2) =
      current_transferred_amount (our_state c) + td_amount d + td_allocated_fee d"
    using unlock_pays [OF got(2) u(1)] off(7) got(6) by simp
  ultimately show thesis
    by (intro that [OF _ _ _ _ _ _ d3, where ?X2.0 = ?X4 and log = "ex_log X @ log2" and log'' = log4 and ?s2.0 = s2
          and log' = "[EventUnlockSuccess (td_payment_identifier d) ?h, SendBalanceProof u] @ log3"])
      (use c2 in simp_all)
qed

text \<open>The start: the payment has its one transfer, which is on its way.\<close>

lemma payment_begins:
  assumes P: "parties_ok P d" and c: "linked (pt_libs P) d c c'" and X: "idle X"
    and at: "channel_at (ex_channels X) (td_initiator d) (ch_identifier c) = Some c"
      "route_channel_identifier r = ch_identifier c"
    and run: "payer_step P X (ActionInitInitiator d [r]) = Inr X1" "ex_payment X1 = Some p"
  obtains ev c1 m1 where "send_lockedtransfer (pt_libs P) c (td_initiator d) (td_target d)
      (td_amount d + td_allocated_fee d) (randint64 (pt_libs P) (ex_prng X)) (td_payment_identifier d)
      (td_payment_hash_invoice d) (pt_payer_block P + reveal_timeout c * 2) (td_secrethash d)
      = Inr (ev, c1)"
    "X1 = \<lparr>ex_payment = Some (mk_InitiatorPaymentState [(td_secrethash d,
         mk_InitiatorTransferState d (ch_identifier c) (ste_transfer ev) None False)]),
       ex_channels = m1, ex_prng = Suc (ex_prng X), ex_task = None, ex_world = ex_world X,
       ex_transit = [(True, SendLockedTransfer ev)], ex_log = ex_log X @ [SendLockedTransfer ev]\<rparr>"
    "channel_at m1 (td_initiator d) (ch_identifier c) = Some c1"
    "length (leaf_list (es_merkletree (our_state c))) < MAXIMUM_PENDING_TRANSFERS"
proof -
  have ok: "merkle_ok (pt_libs P) (es_merkletree (our_state c))"
    using end_okD(5) reachable_ends(1) P c unfolding parties_ok_def linked_def by blast
  obtain evs m1 g1 where start: "state_transition_payment (pt_libs P) (pt_now P) None
      (ActionInitInitiator d [r]) (ex_channels X) (ex_prng X) (pt_payer_block P) =
      Inr ((Some p, evs), m1, g1)"
    "X1 = X\<lparr>ex_payment := Some p, ex_channels := m1, ex_prng := g1,
       ex_transit := map (Pair True) (filter travels evs), ex_log := ex_log X @ evs\<rparr>"
    using X run by (auto simp: payer_step_def res_bind_Inr idle_def)
  show thesis
    by (rule payer_starts [OF start(1) at(1) [folded at(2)] at(2) ok], rule that)
      (use start(2) X in \<open>cases X; simp add: idle_def\<close>)+
qed


text \<open>Bob pays ten tokens to alice.\<close>

definition sample_view :: "bytes \<Rightarrow> node_view" where
  "sample_view a = \<lparr>nv_address = a, is_secret_registered = (\<lambda>_. False), is_handled_lc = (\<lambda>_. False),
     best_routes = (\<lambda>_ _. []), is_initiator_of = (\<lambda>_. False), transfer_secret = (\<lambda>_. None), random_secret = []\<rparr>"

definition sample_parties :: parties where
  "sample_parties =
     \<lparr>pt_libs = sample_libs, pt_codec = sample_codec, pt_payer_signer = sample_signer bob,
      pt_payee_signer = sample_signer alice, pt_payer_view = sample_view bob,
      pt_payee_view = sample_view alice, pt_now = 0, pt_today = [], pt_payer_block = 0,
      pt_payee_block = 10\<rparr>"

definition sample_exchange :: exchange where
  "sample_exchange =
     \<lparr>ex_payment = None, ex_channels = bob_channels sample_bob, ex_prng = 4, ex_task = None,
      ex_world = sample_world, ex_transit = [], ex_log = []\<rparr>"

lemma sample_parties_ok: "parties_ok sample_parties bob_description"
  by (simp add: parties_ok_def sample_parties_def sample_codec_ok sample_signer_ok sample_view_def
      alice_def bob_def) (simp add: sample_signer_def)

lemma sample_payable: "payable sample_libs bob_description sample_secret"
  using sample_check [of 0 MsgLockedTransfer, unfolded lockedtransfer_iff]
  by (simp add: payable_def sample_secret_nonzero sample_secrethash_def [symmetric] UINT64_MAX_def)
    (simp add: sample_secret_def)

lemma sample_linked: "linked sample_libs bob_description sample_bob sample_channel"
  by (simp add: linked_def sample_bob_reachable sample_reachable in_sync_def mirror_def)
    (simp add: sample_ci_def get_status_def get_next_nonce_def is_lock_pending_def dict_has_def
      mk_NettingChannelEndState_def UINT64_MAX_def UINT256_MAX_def alice_def bob_def
      sample_bob_def sample_channel_def)

lemma sample_draws: "g < 100 \<Longrightarrow> draws_ok sample_libs g"
  by (auto simp: draws_ok_def sample_libs_def UINT64_MAX_def)


end
