(* ===== verification/TokenNetwork.thy ===== *)
theory TokenNetwork
  imports InitiatorManager
begin

text \<open>
  A token network (\<open>transfer/token_network.py\<close> with its state classes of \<open>transfer/state.py\<close> and the
  lookups of \<open>transfer/views.py\<close>): the channels of the node and of its light clients for one token,
  the graph of all channels of the token, and the dispatch of a state change to one channel.  A
  function whose name another module has too ends in \<open>_network\<close>.

  The graph is an object of the package networkx, which is a parameter: the type \<open>'g\<close> of its objects
  and the record \<open>networkx\<close> of the operations that are used.  Python's identity of two byte strings,
  which can differ from their equality, is a parameter as well.
\<close>

section \<open>State\<close>

text \<open>\<open>remove_edge\<close> raises where there is no such edge.\<close>

record 'g networkx =
  nx_Graph :: 'g
  nx_add_edge :: "'g \<Rightarrow> bytes \<Rightarrow> bytes \<Rightarrow> 'g"
  nx_remove_edge :: "'g \<Rightarrow> bytes \<Rightarrow> bytes \<Rightarrow> 'g option"

record 'g TokenNetworkGraphState =
  ng_token_network_id :: bytes
  ng_network :: 'g
  channel_identifier_to_participants :: "(int, bytes \<times> bytes) dict"

record 'g TokenNetworkState =
  tn_address :: bytes
  tn_token_address :: bytes
  network_graph :: "'g TokenNetworkGraphState"
  channelidentifiers_to_channels :: owner_channels
  partneraddresses_to_channelidentifiers :: "(bytes, int list) dict"

definition mk_TokenNetworkState :: "'g networkx \<Rightarrow> bytes \<Rightarrow> bytes \<Rightarrow> 'g TokenNetworkState" where
  "mk_TokenNetworkState N address token_address =
     \<lparr>tn_address = address, tn_token_address = token_address,
      network_graph = \<lparr>ng_token_network_id = address, ng_network = nx_Graph N,
        channel_identifier_to_participants = []\<rparr>,
      channelidentifiers_to_channels = [], partneraddresses_to_channelidentifiers = []\<rparr>"

text \<open>The dict of the identifiers is a \<open>defaultdict(list)\<close>: a lookup enters the key.\<close>

definition default_list :: "bytes \<Rightarrow> (bytes, int list) dict \<Rightarrow> int list \<times> (bytes, int list) dict" where
  "default_list a d =
     (case dict_get d a of Some l \<Rightarrow> (l, d) | None \<Rightarrow> ([], dict_set a [] d))"

definition append_identifier :: "bytes \<Rightarrow> int \<Rightarrow> (bytes, int list) dict \<Rightarrow> (bytes, int list) dict" where
  "append_identifier a i d = (let (l, d) = default_list a d in dict_set a (l @ [i]) d)"

section \<open>Looking up a channel (views.py)\<close>

text \<open>The loop over the identifiers; \<open>same\<close> is Python's \<open>is\<close>.\<close>

fun lc_address_loop ::
    "(bytes \<Rightarrow> bytes \<Rightarrow> bool) \<Rightarrow> (int, bytes \<times> bytes) dict \<Rightarrow> bytes \<Rightarrow> int \<Rightarrow> int list \<Rightarrow> bytes option
     \<Rightarrow> bytes option" where
  "lc_address_loop same participants node_address identifier [] lc_address = lc_address"
| "lc_address_loop same participants node_address identifier (i # is) lc_address =
     (case (if i = identifier then dict_get participants i else None) of
        None \<Rightarrow> lc_address_loop same participants node_address identifier is lc_address
      | Some (a, b) \<Rightarrow>
          if same a node_address
          then lc_address_loop same participants node_address identifier is (Some b) else Some a)"

definition get_lc_address_by_channel_id_and_partner ::
    "(bytes \<Rightarrow> bytes \<Rightarrow> bool) \<Rightarrow> 'g TokenNetworkState option \<Rightarrow> bytes \<Rightarrow> CanonicalIdentifier
     \<Rightarrow> bytes option" where
  "get_lc_address_by_channel_id_and_partner same network node_address ci =
     (case network of
        None \<Rightarrow> None
      | Some tn \<Rightarrow>
          (case dict_get (partneraddresses_to_channelidentifiers tn) node_address of
             None \<Rightarrow> None
           | Some ids \<Rightarrow>
               lc_address_loop same (channel_identifier_to_participants (network_graph tn))
                 node_address (channel_identifier ci) ids None))"

text \<open>
  The channel of an identifier among those of an address, or else among those of the light client
  that is its other participant.  The channel comes with the address it is found under.
\<close>

definition find_channel ::
    "(bytes \<Rightarrow> bytes \<Rightarrow> bool) \<Rightarrow> 'g TokenNetworkState \<Rightarrow> bytes \<Rightarrow> CanonicalIdentifier
     \<Rightarrow> (bytes \<times> NettingChannelState) option" where
  "find_channel same tn address ci =
     (let channels = channelidentifiers_to_channels tn;
          under = (\<lambda>a. Option.bind (dict_get channels a) (\<lambda>ms.
                     map_option (Pair a) (dict_get ms (channel_identifier ci))))
      in if dict_has channels address then under address
         else (case get_lc_address_by_channel_id_and_partner same (Some tn) address ci of
                 None \<Rightarrow> None
               | Some lc_address \<Rightarrow> under lc_address))"

section \<open>Dispatching to a channel\<close>

text \<open>A handler may return None for its iteration, which leaves no events.\<close>

type_synonym 'g network_result = "('g TokenNetworkState \<times> event list option) result"

definition subdispatch_to_channel_by_id_and_address ::
    "(bytes \<Rightarrow> bytes \<Rightarrow> bool) \<Rightarrow> 'g TokenNetworkState \<Rightarrow> state_change \<Rightarrow> CanonicalIdentifier \<Rightarrow> int
     \<Rightarrow> bytes \<Rightarrow> bytes option \<Rightarrow> 'g network_result" where
  "subdispatch_to_channel_by_id_and_address same tn sc ci block_number block_hash node_address =
     (case Option.bind node_address (\<lambda>a. find_channel same tn a ci) of
        None \<Rightarrow> Inr (tn, Some [])
      | Some (owner, c) \<Rightarrow>
          res_bind (state_transition c sc block_number block_hash) (\<lambda>(new_state, events).
            let identifier = channel_identifier ci;
                partner = es_address (partner_state c);
                (ids, d) = default_list partner (partneraddresses_to_channelidentifiers tn);
                tn = tn\<lparr>partneraddresses_to_channelidentifiers := d\<rparr>
            in case new_state of
                 Some c' \<Rightarrow>
                   Inr (tn\<lparr>channelidentifiers_to_channels :=
                          set_channel owner identifier c' (channelidentifiers_to_channels tn)\<rparr>,
                        Some events)
               | None \<Rightarrow>
                   if identifier \<in> set ids
                   then Inr (tn\<lparr>channelidentifiers_to_channels :=
                          (case dict_get (channelidentifiers_to_channels tn) owner of
                             None \<Rightarrow> channelidentifiers_to_channels tn
                           | Some ms \<Rightarrow> dict_set owner (dict_del identifier ms)
                                          (channelidentifiers_to_channels tn)),
                        partneraddresses_to_channelidentifiers :=
                          dict_set partner (remove1 identifier ids) d\<rparr>, Some events)
                   else Inl (ValueError ''list.remove(x): x not in list'')))"

section \<open>Handlers\<close>

text \<open>A channel that is known already is not entered again, and the handler returns None.\<close>

definition handle_channelnew ::
    "'g networkx \<Rightarrow> 'g TokenNetworkState \<Rightarrow> NettingChannelState \<Rightarrow> 'g network_result" where
  "handle_channelnew N tn c =
     (let identifier = ch_identifier c;
          our_address = es_address (our_state c);
          partner_address = es_address (partner_state c);
          graph = network_graph tn;
          tn = tn\<lparr>network_graph := graph\<lparr>
                 ng_network := nx_add_edge N (ng_network graph) our_address partner_address,
                 channel_identifier_to_participants :=
                   dict_set identifier (our_address, partner_address)
                     (channel_identifier_to_participants graph)\<rparr>\<rparr>;
          ms = (case dict_get (channelidentifiers_to_channels tn) our_address of
                  None \<Rightarrow> [] | Some ms \<Rightarrow> ms);
          tn = tn\<lparr>channelidentifiers_to_channels :=
                 dict_set our_address ms (channelidentifiers_to_channels tn)\<rparr>
      in if dict_has ms identifier then Inr (tn, None)
         else Inr (tn\<lparr>channelidentifiers_to_channels :=
                     dict_set our_address (dict_set identifier c ms)
                       (channelidentifiers_to_channels tn),
                   partneraddresses_to_channelidentifiers :=
                     append_identifier partner_address identifier
                       (append_identifier our_address identifier
                         (partneraddresses_to_channelidentifiers tn))\<rparr>, Some []))"

text \<open>Removing a channel from the graph.\<close>

definition remove_route ::
    "'g networkx \<Rightarrow> 'g TokenNetworkState \<Rightarrow> int \<Rightarrow> ('g TokenNetworkState \<times> bytes option) result" where
  "remove_route N tn identifier =
     (let graph = network_graph tn in
      case dict_get (channel_identifier_to_participants graph) identifier of
        None \<Rightarrow> Inr (tn, None)
      | Some (participant1, participant2) \<Rightarrow>
          (case nx_remove_edge N (ng_network graph) participant1 participant2 of
             None \<Rightarrow> Inl NetworkXError
           | Some network \<Rightarrow>
               Inr (tn\<lparr>network_graph := graph\<lparr>ng_network := network,
                      channel_identifier_to_participants :=
                        dict_del identifier (channel_identifier_to_participants graph)\<rparr>\<rparr>,
                    Some participant1)))"

definition handle_closed_network ::
    "'g networkx \<Rightarrow> (bytes \<Rightarrow> bytes \<Rightarrow> bool) \<Rightarrow> 'g TokenNetworkState \<Rightarrow> state_change
     \<Rightarrow> CanonicalIdentifier \<Rightarrow> int \<Rightarrow> bytes \<Rightarrow> 'g network_result" where
  "handle_closed_network N same tn sc ci block_number block_hash =
     res_bind (remove_route N tn (channel_identifier ci)) (\<lambda>(tn, node_address).
       subdispatch_to_channel_by_id_and_address same tn sc ci block_number block_hash node_address)"

text \<open>No address is given, so no channel is found.\<close>

definition handle_updated_transfer_network ::
    "(bytes \<Rightarrow> bytes \<Rightarrow> bool) \<Rightarrow> 'g TokenNetworkState \<Rightarrow> state_change \<Rightarrow> CanonicalIdentifier \<Rightarrow> int
     \<Rightarrow> bytes \<Rightarrow> 'g network_result" where
  "handle_updated_transfer_network same tn sc ci block_number block_hash =
     subdispatch_to_channel_by_id_and_address same tn sc ci block_number block_hash None"

text \<open>
  The identifier is looked up among the keys of the outer map, which are addresses
  (\<open>channels_by_identifier\<close>), and deleted from it.
\<close>

definition handle_batch_unlock_network ::
    "'g TokenNetworkState \<Rightarrow> state_change \<Rightarrow> CanonicalIdentifier \<Rightarrow> int \<Rightarrow> bytes
     \<Rightarrow> 'g network_result" where
  "handle_batch_unlock_network tn sc ci block_number block_hash =
     (case dict_get (channels_by_identifier (channelidentifiers_to_channels tn))
             (channel_identifier ci) of
        None \<Rightarrow> Inr (tn, Some [])
      | Some c \<Rightarrow>
          res_bind (state_transition c sc block_number block_hash) (\<lambda>(new_state, events).
            case new_state of
              Some _ \<Rightarrow> Inr (tn, Some events)
            | None \<Rightarrow>
                if ch_identifier c \<in> set (fst (default_list (es_address (partner_state c))
                     (partneraddresses_to_channelidentifiers tn)))
                then Inl KeyError else Inl (ValueError ''list.remove(x): x not in list'')))"

definition handle_newroute ::
    "'g networkx \<Rightarrow> 'g TokenNetworkState \<Rightarrow> int \<Rightarrow> bytes \<Rightarrow> bytes \<Rightarrow> 'g network_result" where
  "handle_newroute N tn identifier participant1 participant2 =
     (let graph = network_graph tn in
      Inr (tn\<lparr>network_graph := graph\<lparr>
             ng_network := nx_add_edge N (ng_network graph) participant1 participant2,
             channel_identifier_to_participants :=
               dict_set identifier (participant1, participant2)
                 (channel_identifier_to_participants graph)\<rparr>\<rparr>, Some []))"

definition handle_closeroute ::
    "'g networkx \<Rightarrow> 'g TokenNetworkState \<Rightarrow> int \<Rightarrow> 'g network_result" where
  "handle_closeroute N tn identifier =
     res_bind (remove_route N tn identifier) (\<lambda>(tn, _). Inr (tn, Some []))"

section \<open>The state machine of a token network\<close>

text \<open>
  The state changes of a token network: those that a channel handles, a new channel of the node, and
  the channels of others.
\<close>

datatype network_change =
    ChannelChange state_change
  | ContractReceiveChannelNew bytes NettingChannelState int bytes
  | ContractReceiveRouteNew bytes CanonicalIdentifier bytes bytes int bytes
  | ContractReceiveRouteClosed bytes CanonicalIdentifier int bytes

text \<open>
  \<open>ActionChannelSetFee\<close> is given to a function that does not exist; for any other class the result
  was never assigned.
\<close>

definition state_transition_network ::
    "'g networkx \<Rightarrow> (bytes \<Rightarrow> bytes \<Rightarrow> bool) \<Rightarrow> 'g TokenNetworkState \<Rightarrow> network_change \<Rightarrow> int \<Rightarrow> bytes
     \<Rightarrow> 'g network_result" where
  "state_transition_network N same tn change block_number block_hash =
     (let to_channel = (\<lambda>sc ci a.
            subdispatch_to_channel_by_id_and_address same tn sc ci block_number block_hash (Some a))
      in case change of
           ContractReceiveChannelNew _ c _ _ \<Rightarrow> handle_channelnew N tn c
         | ContractReceiveRouteNew _ ci participant1 participant2 _ _ \<Rightarrow>
             handle_newroute N tn (channel_identifier ci) participant1 participant2
         | ContractReceiveRouteClosed _ ci _ _ \<Rightarrow> handle_closeroute N tn (channel_identifier ci)
         | ChannelChange sc \<Rightarrow>
             (case sc of
                ActionChannelClose ci _ participant1 _ \<Rightarrow> to_channel sc ci participant1
              | ActionChannelSetFee _ _ \<Rightarrow> Inl NameError
              | ContractReceiveChannelNewBalance _ ci _ _ _ participant \<Rightarrow> to_channel sc ci participant
              | ContractReceiveChannelClosed _ _ ci _ _ \<Rightarrow>
                  handle_closed_network N same tn sc ci block_number block_hash
              | ContractReceiveChannelClosedLight _ _ ci _ _ _ _ \<Rightarrow>
                  handle_closed_network N same tn sc ci block_number block_hash
              | ContractReceiveChannelSettled _ ci _ _ _ _ participant1 \<Rightarrow>
                  to_channel sc ci participant1
              | ContractReceiveUpdateTransfer _ ci _ _ _ \<Rightarrow>
                  handle_updated_transfer_network same tn sc ci block_number block_hash
              | ContractReceiveChannelBatchUnlock _ ci _ _ _ _ _ _ _ \<Rightarrow>
                  handle_batch_unlock_network tn sc ci block_number block_hash
              | _ \<Rightarrow> Inl UnboundLocalError))"

end
