(* ===== verification/Node.thy ===== *)
theory Node
  imports TokenNetwork Mediator Target
begin

text \<open>
  The state machine of a node (\<open>transfer/node.py\<close> with its state classes of \<open>transfer/state.py\<close> and the
  lookups of \<open>transfer/views.py\<close>): the payment networks with their token networks and channels, the
  tasks of the running payments by secrethash, the queues of messages that wait for a confirmation,
  and the transactions that are pending.  A state change goes to all channels and tasks, to one
  token network, or to the task of one secrethash; its events enter the queues.  A function whose
  name another module has too ends in \<open>_node\<close>.
\<close>

section \<open>State\<close>

record 'g PaymentNetworkState =
  pn_address :: bytes
  tokenidentifiers_to_tokennetworks :: "(bytes, 'g TokenNetworkState) dict"
  tokenaddresses_to_tokenidentifiers :: "(bytes, bytes) dict"

definition mk_PaymentNetworkState ::
    "bytes \<Rightarrow> 'g TokenNetworkState list \<Rightarrow> 'g PaymentNetworkState" where
  "mk_PaymentNetworkState address networks =
     \<lparr>pn_address = address,
      tokenidentifiers_to_tokennetworks = fold (\<lambda>tn. dict_set (tn_address tn) tn) networks [],
      tokenaddresses_to_tokenidentifiers =
        fold (\<lambda>tn. dict_set (tn_token_address tn) (tn_address tn)) networks []\<rparr>"

datatype transfer_task =
    InitiatorTask bytes InitiatorPaymentState
  | MediatorTask bytes MediatorTransferState
  | TargetTask CanonicalIdentifier TargetTransferState

fun task_network :: "transfer_task \<Rightarrow> bytes" where
  "task_network (InitiatorTask token_network_identifier _) = token_network_identifier"
| "task_network (MediatorTask token_network_identifier _) = token_network_identifier"
| "task_network (TargetTask ci _) = token_network_address ci"

record LightClientTransportState =
  lct_address :: bytes
  lct_auth_data :: string

record NodeTransportState =
  hub_last_transport_authdata :: string
  clients_last_transport_authdata :: "LightClientTransportState list"

record 'g ChainState =
  cs_block_number :: int
  cs_block_hash :: bytes
  cs_chain_id :: int
  identifiers_to_paymentnetworks :: "(bytes, 'g PaymentNetworkState) dict"
  nodeaddresses_to_networkstates :: "(bytes, network_state) dict"
  cs_our_address :: bytes
  secrethashes_to_task :: "(bytes, transfer_task) dict"
  pending_transactions :: "event list"
  cs_prng :: prng
  queueids_to_queues :: "(bytes \<times> int, event list) dict"
  last_node_transport_state_authdata :: "NodeTransportState option"
  tokennetworkaddresses_to_paymentnetworkaddresses :: "(bytes, bytes) dict"

definition mk_ChainState :: "prng \<Rightarrow> int \<Rightarrow> bytes \<Rightarrow> bytes \<Rightarrow> int \<Rightarrow> 'g ChainState" where
  "mk_ChainState prng block_number block_hash our_address chain_id =
     \<lparr>cs_block_number = block_number, cs_block_hash = block_hash, cs_chain_id = chain_id,
      identifiers_to_paymentnetworks = [], nodeaddresses_to_networkstates = [],
      cs_our_address = our_address, secrethashes_to_task = [], pending_transactions = [],
      cs_prng = prng, queueids_to_queues = [],
      last_node_transport_state_authdata = Some \<lparr>hub_last_transport_authdata = [],
        clients_last_transport_authdata = []\<rparr>,
      tokennetworkaddresses_to_paymentnetworkaddresses = []\<rparr>"

text \<open>
  What the state machine is run with: the cryptographic functions, networkx, Python's \<open>is\<close> on byte
  strings, \<open>to_canonical_address\<close> of eth\_utils, the time and the date.
\<close>

record 'g node_env =
  en_libs :: libs
  en_networkx :: "'g networkx"
  en_same :: "bytes \<Rightarrow> bytes \<Rightarrow> bool"
  en_canonical_address :: "bytes \<Rightarrow> bytes result"
  en_now :: int
  en_today :: string

text \<open>The storage: the invoices and the payments of light clients.\<close>

record node_db =
  db_storage :: storage
  db_payments :: "LightClientPayment list"

text \<open>
  The state changes: those of a token network, of its channels and of the tasks, and those of the
  node.  \<open>ReceiveDelivered\<close> and \<open>ReceiveProcessed\<close> are the confirmations.
\<close>

datatype 'g node_change =
    NetworkChange network_change
  | ActionInitChain prng int bytes bytes int
  | ActionNewTokenNetwork bytes "'g TokenNetworkState"
  | ActionLeaveAllNetworks
  | ActionUpdateTransportAuthData string bytes
  | ActionSendUnlockLight UnlockMessage bytes bytes
  | ContractReceiveNewPaymentNetwork bytes "'g PaymentNetworkState" int bytes
  | ContractReceiveNewTokenNetwork bytes bytes "'g TokenNetworkState" int bytes
  | ReceiveDeliveredChange bytes int
  | ReceiveProcessedChange bytes int

type_synonym 'g node_result = "('g ChainState \<times> event list) result"

section \<open>Token networks of a chain\<close>

text \<open>\<open>if x\<close> of Python is false for None and for empty bytes.  A token network comes with its
  payment network's key.\<close>

definition get_networks ::
    "'g ChainState \<Rightarrow> bytes \<Rightarrow> bytes
     \<Rightarrow> 'g PaymentNetworkState option \<times> 'g TokenNetworkState option" where
  "get_networks cs payment_network_id token_address =
     (let payment_network =
            dict_get (identifiers_to_paymentnetworks cs) payment_network_id
      in (payment_network,
          Option.bind payment_network (\<lambda>pn.
          Option.bind (dict_get (tokenaddresses_to_tokenidentifiers pn) token_address) (\<lambda>i.
            if i = [] then None else dict_get (tokenidentifiers_to_tokennetworks pn) i))))"

definition get_token_network_by_address ::
    "'g ChainState \<Rightarrow> bytes \<Rightarrow> (bytes \<times> 'g TokenNetworkState) option" where
  "get_token_network_by_address cs address =
     Option.bind (dict_get (tokennetworkaddresses_to_paymentnetworkaddresses cs) address) (\<lambda>i.
       if i = [] then None
       else Option.bind (dict_get (identifiers_to_paymentnetworks cs) i) (\<lambda>pn.
              map_option (Pair i) (dict_get (tokenidentifiers_to_tokennetworks pn) address)))"

fun first_token_network ::
    "(bytes, 'g PaymentNetworkState) dict \<Rightarrow> bytes \<Rightarrow> (bytes \<times> 'g TokenNetworkState) option" where
  "first_token_network [] token_network_id = None"
| "first_token_network ((i, pn) # pns) token_network_id =
     (case dict_get (tokenidentifiers_to_tokennetworks pn) token_network_id of
        Some tn \<Rightarrow> Some (i, tn)
      | None \<Rightarrow> first_token_network pns token_network_id)"

definition get_token_network_by_identifier ::
    "'g ChainState \<Rightarrow> bytes \<Rightarrow> (bytes \<times> 'g TokenNetworkState) option" where
  "get_token_network_by_identifier cs token_network_id =
     first_token_network (identifiers_to_paymentnetworks cs) token_network_id"

text \<open>The chain with a changed token network, which Python changes in place.\<close>

definition set_token_network ::
    "bytes \<Rightarrow> bytes \<Rightarrow> 'g TokenNetworkState \<Rightarrow> 'g ChainState \<Rightarrow> 'g ChainState" where
  "set_token_network i token_network_id tn cs =
     (case dict_get (identifiers_to_paymentnetworks cs) i of
        None \<Rightarrow> cs
      | Some pn \<Rightarrow> cs\<lparr>identifiers_to_paymentnetworks :=
          dict_set i (pn\<lparr>tokenidentifiers_to_tokennetworks :=
            dict_set token_network_id tn (tokenidentifiers_to_tokennetworks pn)\<rparr>)
          (identifiers_to_paymentnetworks cs)\<rparr>)"

text \<open>The channel with its place.  Without the token network the lookup in None raises.\<close>

definition get_channelstate_by_canonical_identifier_and_address ::
    "'g node_env \<Rightarrow> 'g ChainState \<Rightarrow> CanonicalIdentifier \<Rightarrow> bytes
     \<Rightarrow> (bytes \<times> 'g TokenNetworkState \<times> bytes \<times> NettingChannelState) option result" where
  "get_channelstate_by_canonical_identifier_and_address env cs ci address =
     (case get_token_network_by_identifier cs (token_network_address ci) of
        None \<Rightarrow> Inl AttributeError
      | Some (i, tn) \<Rightarrow>
          Inr (map_option (\<lambda>(owner, c). (i, tn, owner, c)) (find_channel (en_same env) tn address ci)))"

section \<open>Dispatching to the channels\<close>

text \<open>A loop over the values of a dict, which keep their keys.\<close>

definition over_values ::
    "('v \<Rightarrow> 's \<Rightarrow> ('v \<times> 's) result) \<Rightarrow> ('k, 'v) dict \<Rightarrow> 's \<Rightarrow> (('k, 'v) dict \<times> 's) result" where
  "over_values f = for_each (\<lambda>(k, x) s. res_bind (f x s) (\<lambda>(y, s'). Inr ((k, y), s')))"

text \<open>The new state of a channel is ignored: the channel was changed in place.\<close>

definition dispatch_to_channel ::
    "state_change \<Rightarrow> int \<Rightarrow> bytes \<Rightarrow> NettingChannelState \<Rightarrow> event list
     \<Rightarrow> (NettingChannelState \<times> event list) result" where
  "dispatch_to_channel sc block_number block_hash c events =
     res_bind (state_transition c sc block_number block_hash) (\<lambda>(new_state, more).
       Inr (case new_state of Some c' \<Rightarrow> c' | None \<Rightarrow> c, events @ more))"

definition subdispatch_to_all_channels ::
    "'g ChainState \<Rightarrow> state_change \<Rightarrow> int \<Rightarrow> bytes \<Rightarrow> 'g node_result" where
  "subdispatch_to_all_channels cs sc block_number block_hash =
     res_bind (over_values (\<lambda>pn events.
         res_bind (over_values (\<lambda>tn events.
             res_bind (over_values (over_values (dispatch_to_channel sc block_number block_hash))
                         (channelidentifiers_to_channels tn) events)
               (\<lambda>(ms, events). Inr (tn\<lparr>channelidentifiers_to_channels := ms\<rparr>, events)))
             (tokenidentifiers_to_tokennetworks pn) events)
           (\<lambda>(tns, events). Inr (pn\<lparr>tokenidentifiers_to_tokennetworks := tns\<rparr>, events)))
         (identifiers_to_paymentnetworks cs) [])
       (\<lambda>(pns, events). Inr (cs\<lparr>identifiers_to_paymentnetworks := pns\<rparr>, events))"

text \<open>A handler of the token network that returns None leaves no events.\<close>

definition handle_token_network_action ::
    "'g node_env \<Rightarrow> 'g ChainState \<Rightarrow> network_change \<Rightarrow> bytes \<Rightarrow> 'g node_result" where
  "handle_token_network_action env cs change token_network_identifier =
     (case get_token_network_by_address cs token_network_identifier of
        None \<Rightarrow> Inr (cs, [])
      | Some (i, tn) \<Rightarrow>
          res_bind (state_transition_network (en_networkx env) (en_same env) tn change
                      (cs_block_number cs) (cs_block_hash cs)) (\<lambda>(tn, iteration).
            Inr (set_token_network i token_network_identifier tn cs,
                 case iteration of None \<Rightarrow> [] | Some events \<Rightarrow> events)))"

definition subdispatch_by_canonical_id ::
    "'g node_env \<Rightarrow> 'g ChainState \<Rightarrow> CanonicalIdentifier \<Rightarrow> network_change \<Rightarrow> 'g node_result" where
  "subdispatch_by_canonical_id env cs ci change =
     (case get_token_network_by_address cs (token_network_address ci) of
        None \<Rightarrow> Inr (cs, [])
      | Some (i, tn) \<Rightarrow>
          res_bind (state_transition_network (en_networkx env) (en_same env) tn change
                      (cs_block_number cs) (cs_block_hash cs)) (\<lambda>(tn, iteration).
            case iteration of
              None \<Rightarrow> Inl AttributeError
            | Some events \<Rightarrow> Inr (set_token_network i (token_network_address ci) tn cs, events)))"

section \<open>Dispatching to the tasks\<close>

abbreviation set_task :: "bytes \<Rightarrow> transfer_task \<Rightarrow> 'g ChainState \<Rightarrow> 'g ChainState" where
  "set_task secrethash task cs \<equiv>
     cs\<lparr>secrethashes_to_task := dict_set secrethash task (secrethashes_to_task cs)\<rparr>"

abbreviation del_task :: "bytes \<Rightarrow> 'g ChainState \<Rightarrow> 'g ChainState" where
  "del_task secrethash cs \<equiv>
     cs\<lparr>secrethashes_to_task := dict_del secrethash (secrethashes_to_task cs)\<rparr>"

text \<open>The task with its new state; None removes the task, where there is one.\<close>

definition put_task ::
    "bytes \<Rightarrow> ('s \<Rightarrow> transfer_task) \<Rightarrow> 's option \<Rightarrow> 'g ChainState \<Rightarrow> 'g ChainState" where
  "put_task secrethash task new_state cs =
     (case new_state of
        Some s \<Rightarrow> set_task secrethash (task s) cs
      | None \<Rightarrow> del_task secrethash cs)"

text \<open>
  The three state machines, run on the channels of the chain.  What they change in place is put
  back: the channels and the generator.  The mediator gets the channels of the node's own address;
  it raises at its first lookup where there are none.
\<close>

definition run_initiator ::
    "'g node_env \<Rightarrow> 'g ChainState \<Rightarrow> bytes \<Rightarrow> bytes \<Rightarrow> InitiatorPaymentState option \<Rightarrow> state_change
     \<Rightarrow> 'g node_result" where
  "run_initiator env cs token_network_identifier secrethash manager_state sc =
     (case get_token_network_by_address cs token_network_identifier of
        None \<Rightarrow> Inr (cs, [])
      | Some (i, tn) \<Rightarrow>
          res_bind (state_transition_payment (en_libs env) (en_now env) manager_state sc
                      (channelidentifiers_to_channels tn) (cs_prng cs) (cs_block_number cs))
            (\<lambda>((new_state, events), m, g).
              Inr (put_task secrethash (InitiatorTask token_network_identifier) new_state
                     (set_token_network i token_network_identifier
                        (tn\<lparr>channelidentifiers_to_channels := m\<rparr>) (cs\<lparr>cs_prng := g\<rparr>)),
                   events)))"

definition run_mediator ::
    "'g node_env \<Rightarrow> 'g ChainState \<Rightarrow> bytes \<Rightarrow> bytes \<Rightarrow> MediatorTransferState option \<Rightarrow> state_change
     \<Rightarrow> 'g node_result" where
  "run_mediator env cs token_network_identifier secrethash mediator_state sc =
     (case get_token_network_by_address cs token_network_identifier of
        None \<Rightarrow> Inr (cs, [])
      | Some (i, tn) \<Rightarrow>
          (case dict_get (channelidentifiers_to_channels tn) (cs_our_address cs) of
             None \<Rightarrow> Inl AttributeError
           | Some channels \<Rightarrow>
               res_bind (state_transition_mediator (en_libs env) (en_now env) mediator_state sc
                           channels (nodeaddresses_to_networkstates cs) (cs_prng cs)
                           (cs_block_number cs) (cs_block_hash cs))
                 (\<lambda>((new_state, events), m, g).
                   Inr (put_task secrethash (MediatorTask token_network_identifier) new_state
                          (set_token_network i token_network_identifier
                             (tn\<lparr>channelidentifiers_to_channels :=
                                dict_set (cs_our_address cs) m (channelidentifiers_to_channels tn)\<rparr>)
                             (cs\<lparr>cs_prng := g\<rparr>)),
                        events))))"

text \<open>
  The channel of a target task is the one of its identifier, under the address or its light client.
  The identifier in the task is the channel's own one, or the one it had.
\<close>

definition run_target ::
    "'g node_env \<Rightarrow> node_db \<Rightarrow> 'g ChainState \<Rightarrow> CanonicalIdentifier \<Rightarrow> bytes \<Rightarrow> bytes
     \<Rightarrow> (NettingChannelState \<Rightarrow> CanonicalIdentifier) \<Rightarrow> TargetTransferState option \<Rightarrow> state_change
     \<Rightarrow> (('g ChainState \<times> event list) \<times> node_db) result" where
  "run_target env db cs ci address secrethash task_ci target_state sc =
     res_bind (get_channelstate_by_canonical_identifier_and_address env cs ci address) (\<lambda>found.
       case found of
         None \<Rightarrow> Inr ((cs, []), db)
       | Some (i, tn, owner, c) \<Rightarrow>
           res_bind (state_transition_target (en_libs env) (en_now env) (en_today env) target_state sc
                       \<lparr>tw_channel = c, tw_prng = cs_prng cs, tw_storage = db_storage db,
                        tw_payments = db_payments db\<rparr> (cs_block_number cs))
             (\<lambda>((new_state, events), w).
               Inr ((put_task secrethash (TargetTask (task_ci c)) new_state
                       (set_token_network i (token_network_address ci)
                          (tn\<lparr>channelidentifiers_to_channels :=
                             set_channel owner (channel_identifier ci) (tw_channel w)
                               (channelidentifiers_to_channels tn)\<rparr>)
                          (cs\<lparr>cs_prng := tw_prng w\<rparr>)), events),
                    \<lparr>db_storage = tw_storage w, db_payments = tw_payments w\<rparr>)))"

text \<open>A running task; the target is run without the storage.\<close>

definition subdispatch_to_paymenttask ::
    "'g node_env \<Rightarrow> 'g ChainState \<Rightarrow> state_change \<Rightarrow> bytes \<Rightarrow> 'g node_result" where
  "subdispatch_to_paymenttask env cs sc secrethash =
     (case dict_get (secrethashes_to_task cs) secrethash of
        None \<Rightarrow> Inr (cs, [])
      | Some (InitiatorTask token_network_identifier manager_state) \<Rightarrow>
          run_initiator env cs token_network_identifier secrethash (Some manager_state) sc
      | Some (MediatorTask token_network_identifier mediator_state) \<Rightarrow>
          run_mediator env cs token_network_identifier secrethash (Some mediator_state) sc
      | Some (TargetTask ci target_state) \<Rightarrow>
          res_bind (run_target env \<lparr>db_storage = None, db_payments = []\<rparr> cs
                      \<lparr>chain_identifier = cs_chain_id cs,
                       token_network_address = token_network_address ci,
                       channel_identifier = channel_identifier ci\<rparr>
                      (lt_target (tt_transfer target_state)) secrethash (\<lambda>_. ci)
                      (Some target_state) sc)
            (\<lambda>(r, _). Inr r))"

text \<open>The loop over a copy of the keys.\<close>

fun subdispatch_to_secrethashes ::
    "'g node_env \<Rightarrow> bytes list \<Rightarrow> 'g ChainState \<Rightarrow> state_change \<Rightarrow> 'g node_result" where
  "subdispatch_to_secrethashes env [] cs sc = Inr (cs, [])"
| "subdispatch_to_secrethashes env (secrethash # hs) cs sc =
     res_bind (subdispatch_to_paymenttask env cs sc secrethash) (\<lambda>(cs, events).
     res_bind (subdispatch_to_secrethashes env hs cs sc) (\<lambda>(cs, more). Inr (cs, events @ more)))"

definition subdispatch_to_all_lockedtransfers ::
    "'g node_env \<Rightarrow> 'g ChainState \<Rightarrow> state_change \<Rightarrow> 'g node_result" where
  "subdispatch_to_all_lockedtransfers env cs sc =
     subdispatch_to_secrethashes env (map fst (secrethashes_to_task cs)) cs sc"

text \<open>
  A state change that may start a task.  It is dropped where the secrethash has a task of another
  kind or of another token network.
\<close>

definition subdispatch_initiatortask ::
    "'g node_env \<Rightarrow> 'g ChainState \<Rightarrow> state_change \<Rightarrow> bytes \<Rightarrow> bytes \<Rightarrow> 'g node_result" where
  "subdispatch_initiatortask env cs sc token_network_identifier secrethash =
     (case dict_get (secrethashes_to_task cs) secrethash of
        None \<Rightarrow> run_initiator env cs token_network_identifier secrethash None sc
      | Some (InitiatorTask n manager_state) \<Rightarrow>
          if token_network_identifier = n
          then run_initiator env cs token_network_identifier secrethash (Some manager_state) sc
          else Inr (cs, [])
      | _ \<Rightarrow> Inr (cs, []))"

definition subdispatch_mediatortask ::
    "'g node_env \<Rightarrow> 'g ChainState \<Rightarrow> state_change \<Rightarrow> bytes \<Rightarrow> bytes \<Rightarrow> 'g node_result" where
  "subdispatch_mediatortask env cs sc token_network_identifier secrethash =
     (case dict_get (secrethashes_to_task cs) secrethash of
        None \<Rightarrow> run_mediator env cs token_network_identifier secrethash None sc
      | Some (MediatorTask n mediator_state) \<Rightarrow>
          if token_network_identifier = n
          then run_mediator env cs token_network_identifier secrethash (Some mediator_state) sc
          else Inr (cs, [])
      | _ \<Rightarrow> Inr (cs, []))"

definition subdispatch_targettask ::
    "'g node_env \<Rightarrow> node_db \<Rightarrow> 'g ChainState \<Rightarrow> state_change \<Rightarrow> bytes \<Rightarrow> int \<Rightarrow> bytes \<Rightarrow> bytes
     \<Rightarrow> (('g ChainState \<times> event list) \<times> node_db) result" where
  "subdispatch_targettask env db cs sc token_network_identifier identifier secrethash initiator =
     (let run = (\<lambda>target_state.
            run_target env db cs
              \<lparr>chain_identifier = cs_chain_id cs, token_network_address = token_network_identifier,
               channel_identifier = identifier\<rparr>
              initiator secrethash ch_canonical_identifier target_state sc)
      in case dict_get (secrethashes_to_task cs) secrethash of
           None \<Rightarrow> run None
         | Some (TargetTask ci target_state) \<Rightarrow>
             if token_network_identifier = token_network_address ci then run (Some target_state)
             else Inr ((cs, []), db)
         | _ \<Rightarrow> Inr ((cs, []), db))"

text \<open>The unlock that a light client signed is passed on as it is.\<close>

definition handle_init_unlock_light ::
    "'g node_env \<Rightarrow> 'g ChainState \<Rightarrow> UnlockMessage \<Rightarrow> bytes \<Rightarrow> bytes \<Rightarrow> 'g node_result" where
  "handle_init_unlock_light env cs unlock sndr receiver =
     res_bind (get_channelstate_by_canonical_identifier_and_address env cs
                 \<lparr>chain_identifier = cs_chain_id cs,
                  token_network_address = em_token_network_address unlock,
                  channel_identifier = em_channel_identifier unlock\<rparr> sndr) (\<lambda>found.
       case found of
         None \<Rightarrow> Inr (cs, [])
       | Some (_, _, _, c) \<Rightarrow>
           res_bind (create_send_balance_proof_light (en_libs env) c unlock sndr receiver)
             (\<lambda>balance_proof.
               Inr (cs, [balance_proof,
                         StoreMessageEvent (em_message_identifier unlock)
                           (um_payment_identifier unlock) 11 (StoredUnlock unlock) True])))"

end
