(* ===== verification/NodeMachine.thy ===== *)
theory NodeMachine
  imports Node
begin

text \<open>
  The handlers of the state changes of a node, its message queues and pending transactions, and the
  state machine (\<open>transfer/node.py\<close>, continued from Node).  A function whose name another module has
  too ends in \<open>_node\<close>.
\<close>

section \<open>Messages that wait for a confirmation\<close>

text \<open>The recipient, the channel identifier and the message identifier of a \<open>SendMessageEvent\<close>.\<close>

fun send_message :: "event \<Rightarrow> (bytes \<times> int \<times> int) option" where
  "send_message (SendProcessed recipient channel_id message_id) =
     Some (recipient, channel_id, message_id)"
| "send_message (SendLockExpired e) =
     Some (sle_recipient e, channel_identifier (bp_canonical_identifier (sle_balance_proof e)), sle_message_identifier e)"
| "send_message (SendLockedTransfer e) =
     Some (ste_recipient e, ste_channel_identifier e, ste_message_identifier e)"
| "send_message (SendRefundTransfer e) =
     Some (ste_recipient e, ste_channel_identifier e, ste_message_identifier e)"
| "send_message (SendBalanceProof e) =
     Some (sbp_recipient e, sbp_channel_identifier e, sbp_message_identifier e)"
| "send_message (SendBalanceProofLight _ e _) =
     Some (sbp_recipient e, sbp_channel_identifier e, sbp_message_identifier e)"
| "send_message (SendLockedTransferLight recipient channel_id message_id _) =
     Some (recipient, channel_id, message_id)"
| "send_message (SendSecretReveal e) =
     Some (ssr_recipient e, ssr_channel_identifier e, ssr_message_identifier e)"
| "send_message (SendSecretRevealLight _ e _) =
     Some (ssr_recipient e, ssr_channel_identifier e, ssr_message_identifier e)"
| "send_message (SendSecretRequest e) =
     Some (ssq_recipient e, ssq_channel_identifier e, ssq_message_identifier e)"
| "send_message (SendSecretRequestLight _ e _) =
     Some (ssq_recipient e, ssq_channel_identifier e, ssq_message_identifier e)"
| "send_message _ = None"

text \<open>Whether a confirmation from a sender is for a message of the queue.\<close>

definition message_found :: "bytes \<Rightarrow> int \<Rightarrow> event \<Rightarrow> bool" where
  "message_found sndr message_identifier e =
     (case send_message e of
        None \<Rightarrow> False
      | Some (recipient, _, i) \<Rightarrow> i = message_identifier \<and> recipient = sndr)"

text \<open>The loop over a copy of the queue, which removes the first message that is equal.\<close>

fun remove_messages :: "bytes \<Rightarrow> int \<Rightarrow> event list \<Rightarrow> event list \<Rightarrow> event list" where
  "remove_messages sndr message_identifier [] queue = queue"
| "remove_messages sndr message_identifier (message # ms) queue =
     remove_messages sndr message_identifier ms
       (if message_found sndr message_identifier message then remove1 message queue else queue)"

definition inplace_delete_message :: "bytes \<Rightarrow> int \<Rightarrow> event list \<Rightarrow> event list" where
  "inplace_delete_message sndr message_identifier queue =
     remove_messages sndr message_identifier queue queue"

definition inplace_delete_message_queue ::
    "bytes \<Rightarrow> int \<Rightarrow> bytes \<times> int \<Rightarrow> 'g ChainState \<Rightarrow> 'g ChainState" where
  "inplace_delete_message_queue sndr message_identifier queueid cs =
     (let queues = queueids_to_queues cs in
      case dict_get queues queueid of
        None \<Rightarrow> cs
      | Some [] \<Rightarrow> cs
      | Some queue \<Rightarrow>
          (case inplace_delete_message sndr message_identifier queue of
             [] \<Rightarrow> cs\<lparr>queueids_to_queues := dict_del queueid queues\<rparr>
           | rest \<Rightarrow> cs\<lparr>queueids_to_queues := dict_set queueid rest queues\<rparr>))"

definition handle_delivered :: "bytes \<Rightarrow> int \<Rightarrow> 'g ChainState \<Rightarrow> 'g ChainState" where
  "handle_delivered sndr message_identifier cs =
     inplace_delete_message_queue sndr message_identifier (sndr, CHANNEL_IDENTIFIER_GLOBAL_QUEUE) cs"

definition handle_processed :: "bytes \<Rightarrow> int \<Rightarrow> 'g ChainState \<Rightarrow> 'g ChainState" where
  "handle_processed sndr message_identifier cs =
     fold (inplace_delete_message_queue sndr message_identifier) (map fst (queueids_to_queues cs)) cs"

section \<open>Networks\<close>

definition maybe_add_tokennetwork ::
    "bytes \<Rightarrow> 'g TokenNetworkState \<Rightarrow> 'g ChainState \<Rightarrow> 'g ChainState" where
  "maybe_add_tokennetwork payment_network_id tn cs =
     (let (payment_network, previous) =
            get_networks cs payment_network_id (tn_token_address tn);
          pn = (case payment_network of
                  None \<Rightarrow> mk_PaymentNetworkState payment_network_id [tn]
                | Some pn \<Rightarrow> pn);
          ids_to_payments = (\<lambda>pn. dict_set payment_network_id pn
                               (identifiers_to_paymentnetworks cs))
      in case previous of
           Some _ \<Rightarrow> cs
         | None \<Rightarrow>
             cs\<lparr>identifiers_to_paymentnetworks := ids_to_payments
                  (pn\<lparr>tokenidentifiers_to_tokennetworks :=
                        dict_set (tn_address tn) tn (tokenidentifiers_to_tokennetworks pn),
                      tokenaddresses_to_tokenidentifiers :=
                        dict_set (tn_token_address tn) (tn_address tn)
                          (tokenaddresses_to_tokenidentifiers pn)\<rparr>),
                tokennetworkaddresses_to_paymentnetworkaddresses :=
                  dict_set (tn_address tn) payment_network_id
                    (tokennetworkaddresses_to_paymentnetworkaddresses cs)\<rparr>)"

definition handle_new_token_network ::
    "bytes \<Rightarrow> 'g TokenNetworkState \<Rightarrow> 'g ChainState \<Rightarrow> 'g ChainState" where
  "handle_new_token_network payment_network_id token_network cs =
     maybe_add_tokennetwork payment_network_id token_network cs"

definition handle_tokenadded ::
    "bytes \<Rightarrow> 'g TokenNetworkState \<Rightarrow> 'g ChainState \<Rightarrow> 'g ChainState" where
  "handle_tokenadded payment_network_id token_network cs =
     maybe_add_tokennetwork payment_network_id token_network cs"

definition handle_new_payment_network ::
    "'g PaymentNetworkState \<Rightarrow> 'g ChainState \<Rightarrow> 'g ChainState" where
  "handle_new_payment_network payment_network cs =
     (if dict_has (identifiers_to_paymentnetworks cs) (pn_address payment_network) then cs
      else cs\<lparr>identifiers_to_paymentnetworks :=
             dict_set (pn_address payment_network) payment_network
               (identifiers_to_paymentnetworks cs)\<rparr>)"

text \<open>
  Leaving the networks.  The channels are looked up by their identifiers among the keys of the outer
  map, which are addresses, so the first identifier of a token network raises.
\<close>

definition get_channels_close_events :: "'g TokenNetworkState \<Rightarrow> event list result" where
  "get_channels_close_events tn =
     (if list_all (\<lambda>ids. ids = []) (dict_values (partneraddresses_to_channelidentifiers tn))
      then Inr [] else Inl KeyError)"

fun close_networks :: "'g TokenNetworkState list \<Rightarrow> event list result" where
  "close_networks [] = Inr []"
| "close_networks (tn # tns) =
     res_bind (get_channels_close_events tn) (\<lambda>events.
     res_bind (close_networks tns) (\<lambda>more. Inr (events @ more)))"

definition handle_leave_all_networks :: "'g ChainState \<Rightarrow> 'g node_result" where
  "handle_leave_all_networks cs =
     res_bind (close_networks (concat (map (\<lambda>pn. dict_values (tokenidentifiers_to_tokennetworks pn))
                (dict_values (identifiers_to_paymentnetworks cs)))))
       (\<lambda>events. Inr (cs, events))"

section \<open>Blocks, closed channels, and the state of other nodes\<close>

definition handle_block_node :: "'g node_env \<Rightarrow> 'g ChainState \<Rightarrow> int \<Rightarrow> int \<Rightarrow> bytes \<Rightarrow> 'g node_result"
  where
  "handle_block_node env cs block_number gas_limit block_hash =
     (let cs = cs\<lparr>cs_block_number := block_number, cs_block_hash := block_hash\<rparr>;
          sc = Block block_number gas_limit block_hash
      in res_bind (subdispatch_to_all_channels cs sc block_number block_hash) (\<lambda>(cs, events).
         res_bind (subdispatch_to_all_lockedtransfers env cs sc) (\<lambda>(cs, more).
           Inr (cs, events @ more))))"

definition handle_contract_receive_channel_closed ::
    "'g node_env \<Rightarrow> 'g ChainState \<Rightarrow> state_change \<Rightarrow> CanonicalIdentifier \<Rightarrow> bytes \<Rightarrow> 'g node_result"
  where
  "handle_contract_receive_channel_closed env cs sc ci our_side_address =
     res_bind (get_channelstate_by_canonical_identifier_and_address env cs
                 \<lparr>chain_identifier = cs_chain_id cs,
                  token_network_address = token_network_address ci,
                  channel_identifier = channel_identifier ci\<rparr> our_side_address) (\<lambda>found.
       handle_token_network_action env
         (case found of
            None \<Rightarrow> cs
          | Some (_, _, _, c) \<Rightarrow>
              cs\<lparr>queueids_to_queues :=
                dict_del (es_address (partner_state c), channel_identifier ci)
                  (queueids_to_queues cs)\<rparr>)
         (ChannelChange sc) (token_network_address ci))"

text \<open>The loop is over the dict of the tasks itself: a task that ends changes its size.\<close>

fun network_state_loop ::
    "'g node_env \<Rightarrow> bytes list \<Rightarrow> 'g ChainState \<Rightarrow> state_change \<Rightarrow> 'g node_result" where
  "network_state_loop env [] cs sc = Inr (cs, [])"
| "network_state_loop env (secrethash # hs) cs sc =
     (case dict_get (secrethashes_to_task cs) secrethash of
        None \<Rightarrow> Inl RuntimeError
      | Some task \<Rightarrow>
          res_bind (subdispatch_mediatortask env cs sc (task_network task) secrethash)
            (\<lambda>(cs', events).
             if length (secrethashes_to_task cs') \<noteq> length (secrethashes_to_task cs)
             then Inl RuntimeError
             else res_bind (network_state_loop env hs cs' sc) (\<lambda>(cs'', more).
                    Inr (cs'', events @ more))))"

definition handle_node_change_network_state_node ::
    "'g node_env \<Rightarrow> 'g ChainState \<Rightarrow> bytes \<Rightarrow> network_state \<Rightarrow> 'g node_result" where
  "handle_node_change_network_state_node env cs node_address network_state =
     network_state_loop env (map fst (secrethashes_to_task cs))
       (cs\<lparr>nodeaddresses_to_networkstates :=
          dict_set node_address network_state (nodeaddresses_to_networkstates cs)\<rparr>)
       (ActionChangeNodeNetworkState node_address network_state)"

section \<open>Transport data of light clients\<close>

text \<open>
  The loop over the list itself, which grows while it is run: every visited client of another address
  adds one of this address at the end.  It ends because an added client adds none.
\<close>

function authdata_loop ::
    "nat \<Rightarrow> bytes \<Rightarrow> string \<Rightarrow> LightClientTransportState list \<Rightarrow> LightClientTransportState list"
  where
  "authdata_loop k address auth_data clients =
     (if k < length clients
      then authdata_loop (Suc k) address auth_data
             (if address = lct_address (clients ! k)
              then clients[k := (clients ! k)\<lparr>lct_auth_data := auth_data\<rparr>]
              else clients @ [\<lparr>lct_address = address, lct_auth_data = auth_data\<rparr>])
      else clients)"
  by pat_completeness auto

termination
  by (relation "measure (\<lambda>(k, a, d, cs). length (filter (\<lambda>c. lct_address c \<noteq> a) (drop k cs)) + (length cs - k))")
    (auto simp: Cons_nth_drop_Suc [symmetric] drop_update_cancel)

declare authdata_loop.simps [simp del]

definition update_clients_authdata ::
    "bytes \<Rightarrow> string \<Rightarrow> LightClientTransportState list \<Rightarrow> LightClientTransportState list" where
  "update_clients_authdata address auth_data clients =
     (if clients = [] then [\<lparr>lct_address = address, lct_auth_data = auth_data\<rparr>]
      else authdata_loop 0 address auth_data clients)"

text \<open>The address that stands for the hub is twenty characters 0.\<close>

definition handle_update_transport_authdata ::
    "'g node_env \<Rightarrow> 'g ChainState \<Rightarrow> string \<Rightarrow> bytes \<Rightarrow> 'g ChainState result" where
  "handle_update_transport_authdata env cs auth_data address =
     (let data = last_node_transport_state_authdata cs in
      if address = replicate 20 48 \<or> address = cs_our_address cs
      then (let d = (case data of
                       None \<Rightarrow> \<lparr>hub_last_transport_authdata = [], clients_last_transport_authdata = []\<rparr>
                     | Some d \<Rightarrow> d)
            in Inr (cs\<lparr>last_node_transport_state_authdata :=
                 Some (d\<lparr>hub_last_transport_authdata := auth_data\<rparr>)\<rparr>))
      else (case data of
              None \<Rightarrow> Inl AttributeError
            | Some d \<Rightarrow>
                res_bind (en_canonical_address env address) (\<lambda>a.
                  Inr (cs\<lparr>last_node_transport_state_authdata :=
                         Some (d\<lparr>clients_last_transport_authdata :=
                           update_clients_authdata a auth_data
                             (clients_last_transport_authdata d)\<rparr>)\<rparr>))))"

section \<open>The dispatch\<close>

text \<open>Handlers that change the chain only, and those that do not use the storage.\<close>

abbreviation silent :: "node_db \<Rightarrow> 'g ChainState \<Rightarrow> (('g ChainState \<times> event list) \<times> node_db) result" where
  "silent db cs \<equiv> Inr ((cs, []), db)"

abbreviation with_db ::
    "node_db \<Rightarrow> 'g node_result \<Rightarrow> (('g ChainState \<times> event list) \<times> node_db) result" where
  "with_db db r \<equiv> res_bind r (\<lambda>x. Inr (x, db))"

text \<open>The state changes of the tasks go to the task of one secrethash, or start one.\<close>

definition handle_task_change ::
    "'g node_env \<Rightarrow> node_db \<Rightarrow> 'g ChainState \<Rightarrow> state_change
     \<Rightarrow> (('g ChainState \<times> event list) \<times> node_db) result" where
  "handle_task_change env db cs sc =
     (let to_task = (\<lambda>secrethash. with_db db (subdispatch_to_paymenttask env cs sc secrethash));
          init_target = (\<lambda>transfer initiator. subdispatch_targettask env db cs sc
            (token_network_address (bp_canonical_identifier (lt_balance_proof transfer)))
            (channel_identifier (bp_canonical_identifier (lt_balance_proof transfer)))
            (lock_secrethash (lt_lock transfer)) initiator)
      in case sc of
           ActionInitInitiator transfer _ \<Rightarrow>
             with_db db (subdispatch_initiatortask env cs sc (td_token_network_identifier transfer)
               (td_secrethash transfer))
         | ActionInitInitiatorLight transfer _ _ \<Rightarrow>
             with_db db (subdispatch_initiatortask env cs sc (td_token_network_identifier transfer)
               (td_secrethash transfer))
         | ActionInitMediator _ _ from_transfer \<Rightarrow>
             with_db db (subdispatch_mediatortask env cs sc
               (token_network_address (bp_canonical_identifier (lt_balance_proof from_transfer)))
               (lock_secrethash (lt_lock from_transfer)))
         | ActionInitTarget _ transfer \<Rightarrow> init_target transfer (cs_our_address cs)
         | ActionInitTargetLight _ transfer _ \<Rightarrow> init_target transfer (lt_initiator transfer)
         | ReceiveSecretRevealChange r \<Rightarrow> to_task (rsr_secrethash r)
         | ReceiveSecretRevealLight r _ \<Rightarrow> to_task (rsr_secrethash r)
         | ContractReceiveSecretRevealChange r \<Rightarrow> to_task (csr_secrethash r)
         | ReceiveSecretRequestChange r \<Rightarrow> to_task (rsq_secrethash r)
         | ReceiveSecretRequestLight r _ \<Rightarrow> to_task (rsq_secrethash r)
         | ReceiveTransferRefundCancelRouteChange r \<Rightarrow>
             to_task (lock_secrethash (lt_lock (rcr_transfer r)))
         | ReceiveTransferRefundChange r \<Rightarrow> to_task (lock_secrethash (lt_lock (rtr_transfer r)))
         | ReceiveUnlockChange r \<Rightarrow> to_task (ru_secrethash r)
         | ReceiveUnlockLight r _ \<Rightarrow> to_task (ru_secrethash r)
         | ReceiveLockExpiredChange r \<Rightarrow> to_task (rle_secrethash r)
         | ActionSendSecretRevealLight m _ _ \<Rightarrow> to_task (keccak (en_libs env) (rsm_secret m))
         | ActionSendSecretRequestLight m _ _ \<Rightarrow> to_task (srm_secrethash m)
         | _ \<Rightarrow> Inl UnboundLocalError)"

text \<open>The state changes that a token network handles too, by their class.\<close>

definition handle_network_change ::
    "'g node_env \<Rightarrow> node_db \<Rightarrow> 'g ChainState \<Rightarrow> network_change
     \<Rightarrow> (('g ChainState \<times> event list) \<times> node_db) result" where
  "handle_network_change env db cs change =
     (let action = (\<lambda>ci. with_db db
            (handle_token_network_action env cs change (token_network_address ci)))
      in case change of
           ContractReceiveChannelNew _ c _ _ \<Rightarrow> action (ch_canonical_identifier c)
         | ContractReceiveRouteNew _ ci _ _ _ _ \<Rightarrow> action ci
         | ContractReceiveRouteClosed _ ci _ _ \<Rightarrow> action ci
         | ChannelChange sc \<Rightarrow>
             (case sc of
                Block n gas_limit h \<Rightarrow> with_db db (handle_block_node env cs n gas_limit h)
              | ActionChannelClose ci _ _ _ \<Rightarrow> action ci
              | ActionChannelSetFee ci _ \<Rightarrow> with_db db (subdispatch_by_canonical_id env cs ci change)
              | ActionChangeNodeNetworkState node_address network_state \<Rightarrow>
                  with_db db (handle_node_change_network_state_node env cs node_address network_state)
              | ContractReceiveChannelBatchUnlock _ ci _ _ _ _ _ _ _ \<Rightarrow> action ci
              | ContractReceiveChannelClosed _ _ ci _ _ \<Rightarrow>
                  with_db db (handle_contract_receive_channel_closed env cs sc ci (cs_our_address cs))
              | ContractReceiveChannelClosedLight _ _ ci _ _ light_client_address _ \<Rightarrow>
                  with_db db (handle_contract_receive_channel_closed env cs sc ci light_client_address)
              | ContractReceiveChannelNewBalance _ ci _ _ _ _ \<Rightarrow> action ci
              | ContractReceiveChannelSettled _ ci _ _ _ _ _ \<Rightarrow> action ci
              | ContractReceiveUpdateTransfer _ ci _ _ _ \<Rightarrow> action ci
              | _ \<Rightarrow> handle_task_change env db cs sc))"

text \<open>
  Without a chain only \<open>ActionInitChain\<close> succeeds: the other handlers read an attribute of None,
  save one that asserts it, and a class that is not dispatched ends at the assertion.
\<close>

definition dispatched :: "'g node_change \<Rightarrow> bool" where
  "dispatched change =
     (case change of
        ActionUpdateTransportAuthData _ _ \<Rightarrow> False
      | NetworkChange (ChannelChange (ActionCancelPayment _)) \<Rightarrow> False
      | NetworkChange (ChannelChange OtherStateChange) \<Rightarrow> False
      | _ \<Rightarrow> True)"

definition handle_chain_init ::
    "'g ChainState option \<Rightarrow> prng \<Rightarrow> int \<Rightarrow> bytes \<Rightarrow> bytes \<Rightarrow> int \<Rightarrow> 'g ChainState" where
  "handle_chain_init chain prng block_number block_hash our_address chain_id =
     (case chain of
        None \<Rightarrow> mk_ChainState prng block_number block_hash our_address chain_id
      | Some cs \<Rightarrow> cs)"

definition handle_state_change ::
    "'g node_env \<Rightarrow> node_db \<Rightarrow> 'g ChainState option \<Rightarrow> 'g node_change
     \<Rightarrow> (('g ChainState \<times> event list) \<times> node_db) result" where
  "handle_state_change env db chain change =
     (case (chain, change) of
        (_, ActionInitChain prng block_number block_hash our_address chain_id) \<Rightarrow>
          silent db (handle_chain_init chain prng block_number block_hash our_address chain_id)
      | (None, _) \<Rightarrow>
          Inl (if dispatched change then AttributeError
               else AssertionError ''chain_state must be set'')
      | (Some cs, NetworkChange c) \<Rightarrow> handle_network_change env db cs c
      | (Some cs, ActionNewTokenNetwork i tn) \<Rightarrow> silent db (handle_new_token_network i tn cs)
      | (Some cs, ActionLeaveAllNetworks) \<Rightarrow> with_db db (handle_leave_all_networks cs)
      | (Some cs, ActionUpdateTransportAuthData auth_data address) \<Rightarrow>
          res_bind (handle_update_transport_authdata env cs auth_data address) (silent db)
      | (Some cs, ActionSendUnlockLight unlock sndr receiver) \<Rightarrow>
          with_db db (handle_init_unlock_light env cs unlock sndr receiver)
      | (Some cs, ContractReceiveNewPaymentNetwork _ pn _ _) \<Rightarrow>
          silent db (handle_new_payment_network pn cs)
      | (Some cs, ContractReceiveNewTokenNetwork _ i tn _ _) \<Rightarrow> silent db (handle_tokenadded i tn cs)
      | (Some cs, ReceiveDeliveredChange sndr i) \<Rightarrow> silent db (handle_delivered sndr i cs)
      | (Some cs, ReceiveProcessedChange sndr i) \<Rightarrow> silent db (handle_processed sndr i cs))"

section \<open>Pending transactions\<close>

text \<open>The classes that are a \<open>ContractReceiveStateChange\<close> and those that are a \<open>ContractSendEvent\<close>.\<close>

fun is_contract_receive :: "'g node_change \<Rightarrow> bool" where
  "is_contract_receive (NetworkChange (ContractReceiveChannelNew _ _ _ _)) = True"
| "is_contract_receive (NetworkChange (ContractReceiveRouteNew _ _ _ _ _ _)) = True"
| "is_contract_receive (NetworkChange (ContractReceiveRouteClosed _ _ _ _)) = True"
| "is_contract_receive (NetworkChange (ChannelChange sc)) =
     (case sc of
        ContractReceiveChannelClosed _ _ _ _ _ \<Rightarrow> True
      | ContractReceiveChannelClosedLight _ _ _ _ _ _ _ \<Rightarrow> True
      | ContractReceiveUpdateTransfer _ _ _ _ _ \<Rightarrow> True
      | ContractReceiveChannelSettled _ _ _ _ _ _ _ \<Rightarrow> True
      | ContractReceiveChannelNewBalance _ _ _ _ _ _ \<Rightarrow> True
      | ContractReceiveChannelBatchUnlock _ _ _ _ _ _ _ _ _ \<Rightarrow> True
      | ContractReceiveSecretRevealChange _ \<Rightarrow> True
      | _ \<Rightarrow> False)"
| "is_contract_receive (ContractReceiveNewPaymentNetwork _ _ _ _) = True"
| "is_contract_receive (ContractReceiveNewTokenNetwork _ _ _ _ _) = True"
| "is_contract_receive _ = False"

fun is_contract_send :: "event \<Rightarrow> bool" where
  "is_contract_send (ContractSendChannelClose _ _ _ _) = True"
| "is_contract_send (ContractSendChannelSettle _ _ _) = True"
| "is_contract_send (ContractSendChannelUpdateTransfer _ _ _) = True"
| "is_contract_send (ContractSendChannelUpdateTransferLight _ _ _ _ _) = True"
| "is_contract_send (ContractSendChannelBatchUnlock _ _ _) = True"
| "is_contract_send (ContractSendSecretReveal _ _ _) = True"
| "is_contract_send _ = False"

text \<open>Two canonical identifiers of the same channel, by the two attributes that are compared.\<close>

definition same_channel :: "CanonicalIdentifier \<Rightarrow> CanonicalIdentifier \<Rightarrow> bool" where
  "same_channel a b \<longleftrightarrow>
     token_network_address a = token_network_address b \<and> channel_identifier a = channel_identifier b"

text \<open>
  For a batch unlock of this node the channel is looked up with three of the four arguments that the
  lookup takes, which raises.
\<close>

definition is_transaction_effect_satisfied ::
    "'g ChainState \<Rightarrow> event \<Rightarrow> 'g node_change \<Rightarrow> bool result" where
  "is_transaction_effect_satisfied cs transaction change =
     (case (change, transaction) of
        (NetworkChange (ChannelChange (ContractReceiveUpdateTransfer _ ci nonce _ _)),
         ContractSendChannelUpdateTransfer _ bp _) \<Rightarrow>
          Inr (same_channel ci (bp_canonical_identifier bp) \<and> nonce = bp_nonce bp)
      | (NetworkChange (ChannelChange (ContractReceiveChannelClosed _ _ ci _ _)),
         ContractSendChannelClose ci' _ _ _) \<Rightarrow> Inr (same_channel ci ci')
      | (NetworkChange (ChannelChange (ContractReceiveChannelSettled _ ci _ _ _ _ _)),
         ContractSendChannelSettle ci' _ _) \<Rightarrow> Inr (same_channel ci ci')
      | (NetworkChange (ChannelChange (ContractReceiveSecretRevealChange r)),
         ContractSendSecretReveal _ secret _) \<Rightarrow> Inr (csr_secret r = secret)
      | (NetworkChange (ChannelChange (ContractReceiveChannelBatchUnlock _ _ participant partner
           _ _ _ _ _)), ContractSendChannelBatchUnlock _ _ _) \<Rightarrow>
          (let partner_address =
                 (if participant = cs_our_address cs then partner
                  else if partner = cs_our_address cs then participant else [])
           in if partner_address \<noteq> [] then Inl TypeError else Inr False)
      | _ \<Rightarrow> Inr False)"

definition is_transaction_invalidated :: "event \<Rightarrow> 'g node_change \<Rightarrow> bool" where
  "is_transaction_invalidated transaction change =
     (case (change, transaction) of
        (NetworkChange (ChannelChange (ContractReceiveChannelSettled _ ci _ _ _ _ _)),
         ContractSendChannelUpdateTransfer _ bp _) \<Rightarrow> same_channel ci (bp_canonical_identifier bp)
      | _ \<Rightarrow> False)"

definition is_transaction_expired :: "event \<Rightarrow> int \<Rightarrow> bool" where
  "is_transaction_expired transaction block_number =
     (case transaction of
        ContractSendChannelUpdateTransfer expiration _ _ \<Rightarrow> expiration < block_number
      | ContractSendSecretReveal expiration _ _ \<Rightarrow> expiration < block_number
      | _ \<Rightarrow> False)"

definition is_transaction_pending ::
    "'g ChainState \<Rightarrow> event \<Rightarrow> 'g node_change \<Rightarrow> bool result" where
  "is_transaction_pending cs transaction change =
     res_bind (is_transaction_effect_satisfied cs transaction change) (\<lambda>satisfied.
       Inr (\<not> (satisfied \<or> is_transaction_invalidated transaction change \<or>
               is_transaction_expired transaction (cs_block_number cs))))"

text \<open>A list comprehension whose condition may raise.\<close>

fun filter_result :: "('a \<Rightarrow> bool result) \<Rightarrow> 'a list \<Rightarrow> 'a list result" where
  "filter_result p [] = Inr []"
| "filter_result p (x # xs) =
     res_bind (p x) (\<lambda>b.
     res_bind (filter_result p xs) (\<lambda>ys. Inr (if b then x # ys else ys)))"

section \<open>The state machine\<close>

definition enqueue :: "event \<Rightarrow> 'g ChainState \<Rightarrow> 'g ChainState" where
  "enqueue e cs =
     (let cs = (case send_message e of
                  None \<Rightarrow> cs
                | Some (recipient, channel_id, _) \<Rightarrow>
                    cs\<lparr>queueids_to_queues :=
                      dict_set (recipient, channel_id)
                        ((case dict_get (queueids_to_queues cs) (recipient, channel_id) of
                            None \<Rightarrow> [] | Some queue \<Rightarrow> queue) @ [e])
                        (queueids_to_queues cs)\<rparr>)
      in if is_contract_send e
         then cs\<lparr>pending_transactions := pending_transactions cs @ [e]\<rparr> else cs)"

definition update_queues ::
    "'g ChainState \<Rightarrow> event list \<Rightarrow> 'g node_change \<Rightarrow> 'g ChainState result" where
  "update_queues cs events change =
     res_bind (if is_contract_receive change
               then filter_result (\<lambda>t. is_transaction_pending cs t change) (pending_transactions cs)
               else Inr (pending_transactions cs)) (\<lambda>pending.
       Inr (fold enqueue events (cs\<lparr>pending_transactions := pending\<rparr>)))"

definition state_transition_node ::
    "'g node_env \<Rightarrow> node_db \<Rightarrow> 'g ChainState option \<Rightarrow> 'g node_change
     \<Rightarrow> (('g ChainState \<times> event list) \<times> node_db) result" where
  "state_transition_node env db chain change =
     res_bind (handle_state_change env db chain change) (\<lambda>((cs, events), db).
     res_bind (update_queues cs events change) (\<lambda>cs. Inr ((cs, events), db)))"

end
