(* ===== verification/NodeFacts.thy ===== *)
theory NodeFacts
  imports NodeMachine
begin

text \<open>
  What the handlers of a node leave as it is: the message queues and the pending transactions, which
  only the confirmations, the closing of a channel and \<open>update_queues\<close> change, and the tasks of the
  secrethashes that a state change is not for.
\<close>

section \<open>Frames\<close>

definition keeps_queues :: "'g ChainState \<Rightarrow> 'g ChainState \<Rightarrow> bool" where
  "keeps_queues cs cs' \<longleftrightarrow>
     queueids_to_queues cs' = queueids_to_queues cs \<and>
     pending_transactions cs' = pending_transactions cs"

text \<open>The part a node has in a payment: its task's kind and, where it sends, the token network.\<close>

datatype role = Initiating bytes | Mediating bytes | Receiving

fun task_role :: "transfer_task \<Rightarrow> role" where
  "task_role (InitiatorTask n _) = Initiating n"
| "task_role (MediatorTask n _) = Mediating n"
| "task_role (TargetTask _ _) = Receiving"

text \<open>Only the tasks of some secrethashes change, and none changes its role.\<close>

definition keeps_tasks :: "bytes set \<Rightarrow> 'g ChainState \<Rightarrow> 'g ChainState \<Rightarrow> bool" where
  "keeps_tasks H cs cs' \<longleftrightarrow>
     (\<forall>h. h \<notin> H \<longrightarrow> dict_get (secrethashes_to_task cs') h = dict_get (secrethashes_to_task cs) h) \<and>
     (\<forall>h t t'. dict_get (secrethashes_to_task cs) h = Some t \<longrightarrow>
        dict_get (secrethashes_to_task cs') h = Some t' \<longrightarrow> task_role t' = task_role t)"

definition task_ended :: "'g ChainState \<Rightarrow> 'g ChainState \<Rightarrow> bool" where
  "task_ended cs cs' \<longleftrightarrow>
     (\<forall>h. dict_get (secrethashes_to_task cs) h = None \<longrightarrow>
        dict_get (secrethashes_to_task cs') h = None)"

lemma keeps_queues_refl [simp]: "keeps_queues cs cs"
  by (simp add: keeps_queues_def)

lemma keeps_queues_trans: "keeps_queues a b \<Longrightarrow> keeps_queues b c \<Longrightarrow> keeps_queues a c"
  by (simp add: keeps_queues_def)

lemma keeps_tasks_same: "secrethashes_to_task cs' = secrethashes_to_task cs \<Longrightarrow> keeps_tasks H cs cs'"
  by (simp add: keeps_tasks_def)

lemma keeps_tasks_refl [simp]: "keeps_tasks H cs cs"
  by (simp add: keeps_tasks_same)

lemma task_ended_same: "secrethashes_to_task cs' = secrethashes_to_task cs \<Longrightarrow> task_ended cs cs'"
  by (simp add: task_ended_def)

lemma keeps_tasks_trans:
  assumes "keeps_tasks H a b" "keeps_tasks H b c" "task_ended b c"
  shows "keeps_tasks H a c"
  using assms unfolding keeps_tasks_def task_ended_def by (metis option.exhaust)

lemma keeps_tasks_mono: "keeps_tasks H a b \<Longrightarrow> H \<subseteq> K \<Longrightarrow> keeps_tasks K a b"
  by (auto simp: keeps_tasks_def)

text \<open>The fields that a changed token network and a changed task leave.\<close>

lemma set_token_network_sel [simp]:
  "queueids_to_queues (set_token_network i n tn cs) = queueids_to_queues cs"
  "pending_transactions (set_token_network i n tn cs) = pending_transactions cs"
  "secrethashes_to_task (set_token_network i n tn cs) = secrethashes_to_task cs"
  "cs_our_address (set_token_network i n tn cs) = cs_our_address cs"
  "cs_block_number (set_token_network i n tn cs) = cs_block_number cs"
  by (simp_all add: set_token_network_def split: option.splits)

lemma put_task_sel [simp]:
  "queueids_to_queues (put_task h task s cs) = queueids_to_queues cs"
  "pending_transactions (put_task h task s cs) = pending_transactions cs"
  "cs_our_address (put_task h task s cs) = cs_our_address cs"
  "cs_block_number (put_task h task s cs) = cs_block_number cs"
  "identifiers_to_paymentnetworks (put_task h task s cs) = identifiers_to_paymentnetworks cs"
  by (simp_all add: put_task_def split: option.splits)

lemma put_task_get:
  "dict_get (secrethashes_to_task (put_task h task s cs)) k =
     (if k = h then map_option task s else dict_get (secrethashes_to_task cs) k)"
  by (simp add: put_task_def update_conv' delete_conv' split: option.splits)

section \<open>Running a task\<close>

text \<open>What a task is run on, and what it leaves.\<close>

lemma run_initiator_cases:
  assumes "run_initiator env cs n h state sc = Inr (cs', evs)"
  obtains (unknown) "get_token_network_by_address cs n = None" "cs' = cs" "evs = []"
  | (run) i tn new m g where "get_token_network_by_address cs n = Some (i, tn)"
      "state_transition_payment (en_libs env) (en_now env) state sc
         (channelidentifiers_to_channels tn) (cs_prng cs) (cs_block_number cs) = Inr ((new, evs), m, g)"
      "cs' = put_task h (InitiatorTask n) new
         (set_token_network i n (tn\<lparr>channelidentifiers_to_channels := m\<rparr>) (cs\<lparr>cs_prng := g\<rparr>))"
  using assms by (auto simp: run_initiator_def res_bind_Inr split: option.splits)

lemma run_mediator_cases:
  assumes "run_mediator env cs n h state sc = Inr (cs', evs)"
  obtains (unknown) "get_token_network_by_address cs n = None" "cs' = cs" "evs = []"
  | (run) i tn new ms m g where "get_token_network_by_address cs n = Some (i, tn)"
      "dict_get (channelidentifiers_to_channels tn) (cs_our_address cs) = Some ms"
      "state_transition_mediator (en_libs env) (en_now env) state sc ms
         (nodeaddresses_to_networkstates cs) (cs_prng cs) (cs_block_number cs) (cs_block_hash cs)
         = Inr ((new, evs), m, g)"
      "cs' = put_task h (MediatorTask n) new
         (set_token_network i n (tn\<lparr>channelidentifiers_to_channels :=
            dict_set (cs_our_address cs) m (channelidentifiers_to_channels tn)\<rparr>) (cs\<lparr>cs_prng := g\<rparr>))"
  using assms by (auto simp: run_mediator_def res_bind_Inr split: option.splits)

lemma run_target_cases:
  assumes "run_target env db cs ci a h task_ci state sc = Inr ((cs', evs), db')"
  obtains (unknown) "cs' = cs" "evs = []"
  | (run) i tn owner c new w where
      "get_channelstate_by_canonical_identifier_and_address env cs ci a = Inr (Some (i, tn, owner, c))"
      "state_transition_target (en_libs env) (en_now env) (en_today env) state sc
         \<lparr>tw_channel = c, tw_prng = cs_prng cs, tw_storage = db_storage db,
          tw_payments = db_payments db\<rparr> (cs_block_number cs) = Inr ((new, evs), w)"
      "cs' = put_task h (TargetTask (task_ci c)) new
         (set_token_network i (token_network_address ci) (tn\<lparr>channelidentifiers_to_channels :=
            set_channel owner (channel_identifier ci) (tw_channel w)
              (channelidentifiers_to_channels tn)\<rparr>) (cs\<lparr>cs_prng := tw_prng w\<rparr>))"
  using assms by (auto simp: run_target_def res_bind_Inr split: option.splits)

text \<open>The queues stay, and the task of the secrethash stays, ends, or is one of a role.\<close>

definition task_put :: "bytes \<Rightarrow> role \<Rightarrow> 'g ChainState \<Rightarrow> 'g ChainState \<Rightarrow> bool" where
  "task_put h r cs cs' \<longleftrightarrow>
     keeps_queues cs cs' \<and>
     (\<forall>k. k \<noteq> h \<longrightarrow> dict_get (secrethashes_to_task cs') k = dict_get (secrethashes_to_task cs) k) \<and>
     (dict_get (secrethashes_to_task cs') h = dict_get (secrethashes_to_task cs) h \<or>
      dict_get (secrethashes_to_task cs') h = None \<or>
      (\<exists>t. dict_get (secrethashes_to_task cs') h = Some t \<and> task_role t = r))"

lemma task_put_refl [simp]: "task_put h r cs cs"
  by (simp add: task_put_def)

lemma task_put_put:
  assumes "keeps_queues cs a" "secrethashes_to_task a = secrethashes_to_task cs"
    and "\<And>x. task_role (task x) = r"
  shows "task_put h r cs (put_task h task s a)"
  using assms by (cases s) (auto simp: task_put_def put_task_get keeps_queues_def)

lemma run_initiator_puts:
  "run_initiator env cs n h state sc = Inr (cs', evs) \<Longrightarrow> task_put h (Initiating n) cs cs'"
  by (elim run_initiator_cases) (auto intro!: task_put_put simp: keeps_queues_def)

lemma run_mediator_puts:
  "run_mediator env cs n h state sc = Inr (cs', evs) \<Longrightarrow> task_put h (Mediating n) cs cs'"
  by (elim run_mediator_cases) (auto intro!: task_put_put simp: keeps_queues_def)

lemma run_target_puts:
  "run_target env db cs ci a h task_ci state sc = Inr ((cs', evs), db') \<Longrightarrow> task_put h Receiving cs cs'"
  by (elim run_target_cases) (auto intro!: task_put_put simp: keeps_queues_def)

lemma task_put_keeps:
  assumes "task_put h r cs cs'"
    and "\<And>t. dict_get (secrethashes_to_task cs) h = Some t \<Longrightarrow> task_role t = r"
  shows "keeps_queues cs cs' \<and> keeps_tasks {h} cs cs'"
proof -
  have "task_role t' = task_role t"
    if "dict_get (secrethashes_to_task cs) k = Some t" "dict_get (secrethashes_to_task cs') k = Some t'"
    for k t t'
    using assms that by (cases "k = h") (auto simp: task_put_def)
  then show ?thesis using assms(1) by (auto simp: task_put_def keeps_tasks_def)
qed

lemma task_put_ended:
  "task_put h r cs cs' \<Longrightarrow> dict_get (secrethashes_to_task cs) h = Some t \<Longrightarrow> task_ended cs cs'"
  unfolding task_put_def task_ended_def by (metis option.distinct(1))

text \<open>A state change for a secrethash changes at most its task.\<close>

lemma paymenttask_puts:
  assumes "subdispatch_to_paymenttask env cs sc h = Inr (cs', evs)"
    and "dict_get (secrethashes_to_task cs) h = Some t"
  shows "task_put h (task_role t) cs cs'"
  using assms run_initiator_puts run_mediator_puts run_target_puts
  by (cases t) (auto simp: subdispatch_to_paymenttask_def res_bind_Inr)

lemma paymenttask_frame:
  assumes "subdispatch_to_paymenttask env cs sc h = Inr (cs', evs)"
  shows "keeps_queues cs cs' \<and> keeps_tasks {h} cs cs' \<and> task_ended cs cs'"
proof (cases "dict_get (secrethashes_to_task cs) h")
  case None
  then show ?thesis using assms by (simp add: subdispatch_to_paymenttask_def task_ended_def)
next
  case (Some t)
  note put = paymenttask_puts [OF assms Some]
  from task_put_keeps [OF put] task_put_ended [OF put Some] Some show ?thesis by simp
qed

lemma secrethashes_frame:
  assumes "subdispatch_to_secrethashes env hs cs sc = Inr (cs', evs)"
  shows "keeps_queues cs cs' \<and> keeps_tasks (set hs) cs cs' \<and> task_ended cs cs'"
  using assms
proof (induction hs arbitrary: cs evs)
  case (Cons h hs)
  from Cons.prems obtain cs1 evs1 evs2 where
    1: "subdispatch_to_paymenttask env cs sc h = Inr (cs1, evs1)" and
    2: "subdispatch_to_secrethashes env hs cs1 sc = Inr (cs', evs2)"
    by (auto simp: res_bind_Inr)
  have "keeps_tasks (set (h # hs)) cs cs1" "keeps_tasks (set (h # hs)) cs1 cs'"
    using paymenttask_frame [OF 1] Cons.IH [OF 2] by (auto elim: keeps_tasks_mono)
  then show ?case
    using paymenttask_frame [OF 1] Cons.IH [OF 2] keeps_queues_trans keeps_tasks_trans
    by (auto simp: task_ended_def)
qed (simp add: task_ended_def)

text \<open>A state change that may start a task is dropped where the secrethash has another one.\<close>

lemma initiatortask_cases:
  assumes "subdispatch_initiatortask env cs sc n h = Inr (cs', evs)" "cs' \<noteq> cs"
  obtains state where "run_initiator env cs n h state sc = Inr (cs', evs)"
    "\<And>t. dict_get (secrethashes_to_task cs) h = Some t \<Longrightarrow> task_role t = Initiating n"
    "\<And>s. state = Some s \<Longrightarrow> dict_get (secrethashes_to_task cs) h = Some (InitiatorTask n s)"
    "state = None \<Longrightarrow> dict_get (secrethashes_to_task cs) h = None"
proof (cases "dict_get (secrethashes_to_task cs) h")
  case None
  then show ?thesis using assms(1) by (intro that [of None]) (simp_all add: subdispatch_initiatortask_def)
next
  case (Some t)
  note run = assms(1) [unfolded subdispatch_initiatortask_def Some option.case]
  show ?thesis
  proof (cases t)
    case (InitiatorTask n' s)
    show ?thesis
    proof (cases "n = n'")
      case True
      then show ?thesis using run Some InitiatorTask by (intro that [of "Some s"]) simp_all
    qed (use run InitiatorTask assms(2) in simp)
  next
    case (MediatorTask n' s)
    show ?thesis using run MediatorTask assms(2) by simp
  next
    case (TargetTask n' s)
    show ?thesis using run TargetTask assms(2) by simp
  qed
qed

lemma mediatortask_cases:
  assumes "subdispatch_mediatortask env cs sc n h = Inr (cs', evs)" "cs' \<noteq> cs"
  obtains state where "run_mediator env cs n h state sc = Inr (cs', evs)"
    "\<And>t. dict_get (secrethashes_to_task cs) h = Some t \<Longrightarrow> task_role t = Mediating n"
    "\<And>s. state = Some s \<Longrightarrow> dict_get (secrethashes_to_task cs) h = Some (MediatorTask n s)"
    "state = None \<Longrightarrow> dict_get (secrethashes_to_task cs) h = None"
proof (cases "dict_get (secrethashes_to_task cs) h")
  case None
  then show ?thesis using assms(1) by (intro that [of None]) (simp_all add: subdispatch_mediatortask_def)
next
  case (Some t)
  note run = assms(1) [unfolded subdispatch_mediatortask_def Some option.case]
  show ?thesis
  proof (cases t)
    case (InitiatorTask n' s)
    show ?thesis using run InitiatorTask assms(2) by simp
  next
    case (MediatorTask n' s)
    show ?thesis
    proof (cases "n = n'")
      case True
      then show ?thesis using run Some MediatorTask by (intro that [of "Some s"]) simp_all
    qed (use run MediatorTask assms(2) in simp)
  next
    case (TargetTask n' s)
    show ?thesis using run TargetTask assms(2) by simp
  qed
qed

lemma targettask_cases:
  assumes "subdispatch_targettask env db cs sc n k h a = Inr ((cs', evs), db')" "cs' \<noteq> cs"
  obtains state where "run_target env db cs
      \<lparr>chain_identifier = cs_chain_id cs, token_network_address = n, channel_identifier = k\<rparr>
      a h ch_canonical_identifier state sc = Inr ((cs', evs), db')"
    "\<And>t. dict_get (secrethashes_to_task cs) h = Some t \<Longrightarrow> task_role t = Receiving"
    "state = None \<Longrightarrow> dict_get (secrethashes_to_task cs) h = None"
proof (cases "dict_get (secrethashes_to_task cs) h")
  case None
  then show ?thesis using assms(1) by (intro that [of None]) (simp_all add: subdispatch_targettask_def Let_def)
next
  case (Some t)
  note run = assms(1) [unfolded subdispatch_targettask_def Let_def Some option.case]
  show ?thesis
  proof (cases t)
    case (InitiatorTask n' s)
    show ?thesis using run InitiatorTask assms(2) by simp
  next
    case (MediatorTask n' s)
    show ?thesis using run MediatorTask assms(2) by simp
  next
    case (TargetTask n' s)
    show ?thesis
    proof (cases "n = token_network_address n'")
      case True
      then show ?thesis using run Some TargetTask by (intro that [of "Some s"]) simp_all
    qed (use run TargetTask assms(2) in simp)
  qed
qed

lemma initiatortask_frame:
  assumes "subdispatch_initiatortask env cs sc n h = Inr (cs', evs)"
  shows "keeps_queues cs cs' \<and> keeps_tasks {h} cs cs'"
proof (cases "cs' = cs")
  case False
  obtain state where run: "run_initiator env cs n h state sc = Inr (cs', evs)"
    and role: "\<And>t. dict_get (secrethashes_to_task cs) h = Some t \<Longrightarrow> task_role t = Initiating n"
    using initiatortask_cases [OF assms False] by metis
  from task_put_keeps [OF run_initiator_puts [OF run] role] show ?thesis .
qed simp

lemma mediatortask_frame:
  assumes "subdispatch_mediatortask env cs sc n h = Inr (cs', evs)"
  shows "keeps_queues cs cs' \<and> keeps_tasks {h} cs cs'"
    and "dict_get (secrethashes_to_task cs) h = Some t \<Longrightarrow> task_ended cs cs'"
proof -
  have "keeps_queues cs cs' \<and> keeps_tasks {h} cs cs' \<and>
    (dict_get (secrethashes_to_task cs) h = Some t \<longrightarrow> task_ended cs cs')"
  proof (cases "cs' = cs")
    case False
    obtain state where run: "run_mediator env cs n h state sc = Inr (cs', evs)"
      and role: "\<And>t. dict_get (secrethashes_to_task cs) h = Some t \<Longrightarrow> task_role t = Mediating n"
      using mediatortask_cases [OF assms False] by metis
    note put = run_mediator_puts [OF run]
    from task_put_keeps [OF put role] task_put_ended [OF put] show ?thesis by blast
  qed (simp add: task_ended_same)
  then show "keeps_queues cs cs' \<and> keeps_tasks {h} cs cs'"
    and "dict_get (secrethashes_to_task cs) h = Some t \<Longrightarrow> task_ended cs cs'" by auto
qed

lemma targettask_frame:
  assumes "subdispatch_targettask env db cs sc n k h a = Inr ((cs', evs), db')"
  shows "keeps_queues cs cs' \<and> keeps_tasks {h} cs cs'"
proof (cases "cs' = cs")
  case False
  obtain state where run: "run_target env db cs
      \<lparr>chain_identifier = cs_chain_id cs, token_network_address = n, channel_identifier = k\<rparr>
      a h ch_canonical_identifier state sc = Inr ((cs', evs), db')"
    and role: "\<And>t. dict_get (secrethashes_to_task cs) h = Some t \<Longrightarrow> task_role t = Receiving"
    using targettask_cases [OF assms False] by metis
  from task_put_keeps [OF run_target_puts [OF run] role] show ?thesis .
qed simp

lemma network_state_loop_frame:
  assumes "network_state_loop env hs cs sc = Inr (cs', evs)"
  shows "keeps_queues cs cs' \<and> keeps_tasks (set hs) cs cs' \<and> task_ended cs cs'"
  using assms
proof (induction hs arbitrary: cs evs)
  case (Cons h hs)
  from Cons.prems obtain t cs1 evs1 evs2 where
    t: "dict_get (secrethashes_to_task cs) h = Some t" and
    1: "subdispatch_mediatortask env cs sc (task_network t) h = Inr (cs1, evs1)" and
    2: "network_state_loop env hs cs1 sc = Inr (cs', evs2)"
    by (auto simp: res_bind_Inr split: option.splits if_splits)
  have "keeps_tasks (set (h # hs)) cs cs1" "keeps_tasks (set (h # hs)) cs1 cs'"
    using mediatortask_frame(1) [OF 1] Cons.IH [OF 2] by (auto elim: keeps_tasks_mono)
  then show ?case
    using mediatortask_frame(1) [OF 1] mediatortask_frame(2) [OF 1 t] Cons.IH [OF 2]
      keeps_queues_trans keeps_tasks_trans
    by (auto simp: task_ended_def)
qed (simp add: task_ended_def)

section \<open>Message queues\<close>

definition queue_of :: "'g ChainState \<Rightarrow> bytes \<times> int \<Rightarrow> event list" where
  "queue_of cs q = (case dict_get (queueids_to_queues cs) q of None \<Rightarrow> [] | Some queue \<Rightarrow> queue)"

text \<open>The queue a message belongs to.\<close>

definition queue_id :: "event \<Rightarrow> (bytes \<times> int) option" where
  "queue_id e = map_option (\<lambda>(recipient, channel_id, _). (recipient, channel_id)) (send_message e)"

lemma queue_of_same: "queueids_to_queues cs' = queueids_to_queues cs \<Longrightarrow> queue_of cs' = queue_of cs"
  by (simp add: queue_of_def fun_eq_iff)

lemma remove_messages_filter:
  assumes "filter (message_found s i) queue = filter (message_found s i) ms"
  shows "remove_messages s i ms queue = filter (\<lambda>e. \<not> message_found s i e) queue"
  using assms
proof (induction ms arbitrary: queue)
  case Nil
  then have "\<forall>e \<in> set queue. \<not> message_found s i e" by (simp add: filter_empty_conv)
  then show ?case by (simp add: filter_id_conv)
next
  case (Cons m ms)
  show ?case
  proof (cases "message_found s i m")
    case True
    have "filter (message_found s i) (remove1 m queue) = filter (message_found s i) ms"
      using Cons.prems True by (simp add: filter_remove1)
    moreover have "filter (\<lambda>e. \<not> message_found s i e) (remove1 m queue)
        = filter (\<lambda>e. \<not> message_found s i e) queue"
      using True by (induction queue) auto
    ultimately show ?thesis using Cons.IH True by simp
  qed (use Cons in simp)
qed

text \<open>A confirmation takes the messages that it confirms, and no other.\<close>

lemma inplace_delete_message_filter:
  "inplace_delete_message s i queue = filter (\<lambda>e. \<not> message_found s i e) queue"
  by (simp add: inplace_delete_message_def remove_messages_filter)

lemma delete_queue_of:
  "queue_of (inplace_delete_message_queue s i qid cs) q =
     (if q = qid then filter (\<lambda>e. \<not> message_found s i e) (queue_of cs q) else queue_of cs q)"
  by (auto simp: inplace_delete_message_queue_def inplace_delete_message_filter queue_of_def Let_def
      update_conv' delete_conv' split: option.splits list.splits)

lemma delete_queue_sel [simp]:
  "pending_transactions (inplace_delete_message_queue s i q cs) = pending_transactions cs"
  "secrethashes_to_task (inplace_delete_message_queue s i q cs) = secrethashes_to_task cs"
  "identifiers_to_paymentnetworks (inplace_delete_message_queue s i q cs) =
     identifiers_to_paymentnetworks cs"
  by (simp_all add: inplace_delete_message_queue_def Let_def split: option.splits list.splits)

lemma delete_queues_of:
  "queue_of (fold (inplace_delete_message_queue s i) qs cs) q =
     (if q \<in> set qs then filter (\<lambda>e. \<not> message_found s i e) (queue_of cs q) else queue_of cs q)"
  by (induction qs arbitrary: cs) (auto simp: delete_queue_of)

lemma handle_processed_queue:
  "queue_of (handle_processed s i cs) q = filter (\<lambda>e. \<not> message_found s i e) (queue_of cs q)"
proof (cases "q \<in> dict_keys (queueids_to_queues cs)")
  case True
  then show ?thesis by (simp add: handle_processed_def delete_queues_of)
next
  case False
  then have "queue_of cs q = []" by (simp add: queue_of_def map_of_eq_None_iff [symmetric])
  then show ?thesis by (simp add: handle_processed_def delete_queues_of)
qed

lemma handle_processed_sel [simp]:
  "pending_transactions (handle_processed s i cs) = pending_transactions cs"
  "secrethashes_to_task (handle_processed s i cs) = secrethashes_to_task cs"
  "identifiers_to_paymentnetworks (handle_processed s i cs) = identifiers_to_paymentnetworks cs"
proof -
  have "pending_transactions (fold (inplace_delete_message_queue s i) qs cs) = pending_transactions cs \<and>
    secrethashes_to_task (fold (inplace_delete_message_queue s i) qs cs) = secrethashes_to_task cs \<and>
    identifiers_to_paymentnetworks (fold (inplace_delete_message_queue s i) qs cs) =
      identifiers_to_paymentnetworks cs" for qs
    by (induction qs arbitrary: cs) simp_all
  then show "pending_transactions (handle_processed s i cs) = pending_transactions cs"
    "secrethashes_to_task (handle_processed s i cs) = secrethashes_to_task cs"
    "identifiers_to_paymentnetworks (handle_processed s i cs) = identifiers_to_paymentnetworks cs"
    by (simp_all add: handle_processed_def)
qed

lemma enqueue_queue:
  "queue_of (enqueue e cs) q = queue_of cs q @ (if queue_id e = Some q then [e] else [])"
  by (auto simp: enqueue_def queue_id_def queue_of_def Let_def update_conv' split: option.splits)

lemma enqueue_all_queue:
  "queue_of (fold enqueue es cs) q = queue_of cs q @ filter (\<lambda>e. queue_id e = Some q) es"
  by (induction es arbitrary: cs) (simp_all add: enqueue_queue)

lemma enqueue_sel [simp]:
  "pending_transactions (enqueue e cs) = pending_transactions cs @ (if is_contract_send e then [e] else [])"
  "secrethashes_to_task (enqueue e cs) = secrethashes_to_task cs"
  "identifiers_to_paymentnetworks (enqueue e cs) = identifiers_to_paymentnetworks cs"
  by (simp_all add: enqueue_def Let_def split: option.splits)

lemma enqueue_all_sel [simp]:
  "pending_transactions (fold enqueue es cs) = pending_transactions cs @ filter is_contract_send es"
  "secrethashes_to_task (fold enqueue es cs) = secrethashes_to_task cs"
  "identifiers_to_paymentnetworks (fold enqueue es cs) = identifiers_to_paymentnetworks cs"
  by (induction es arbitrary: cs) simp_all

lemma update_queues_cases:
  assumes "update_queues cs evs change = Inr cs'"
  obtains pending where
    "if is_contract_receive change
     then filter_result (\<lambda>t. is_transaction_pending cs t change) (pending_transactions cs) = Inr pending
     else pending = pending_transactions cs"
    "cs' = fold enqueue evs (cs\<lparr>pending_transactions := pending\<rparr>)"
  using assms by (auto simp: update_queues_def res_bind_Inr split: if_splits)

lemma filter_result_Inr:
  "filter_result p xs = Inr ys \<Longrightarrow>
     ys = filter (\<lambda>x. p x = Inr True) xs \<and> (\<forall>x \<in> set xs. p x = Inr True \<or> p x = Inr False)"
  by (induction xs arbitrary: ys) (auto simp: res_bind_Inr)

end
