(* ===== verification/NodeQueues.thy ===== *)
theory NodeQueues
  imports NodeFacts
begin

text \<open>
  The queues, the pending transactions and the tasks across a whole transition of a node: what the
  handlers leave, what a confirmation and a log of the chain take away, and what the events add.
\<close>

section \<open>What confirms a message, and what settles a transaction\<close>

definition confirms :: "bytes \<Rightarrow> int \<Rightarrow> event \<Rightarrow> bool" where
  "confirms sndr i e \<longleftrightarrow> (\<exists>k. send_message e = Some (sndr, k, i))"

lemma message_found_confirms: "message_found sndr i e = confirms sndr i e"
  by (auto simp: message_found_def confirms_def split: option.splits)

text \<open>\<open>Delivered\<close> confirms messages of the global queue, \<open>Processed\<close> those of every queue.\<close>

definition confirmed :: "'g node_change \<Rightarrow> bytes \<times> int \<Rightarrow> event \<Rightarrow> bool" where
  "confirmed change q e \<longleftrightarrow>
     (case change of
        ReceiveDeliveredChange sndr i \<Rightarrow> q = (sndr, CHANNEL_IDENTIFIER_GLOBAL_QUEUE) \<and> confirms sndr i e
      | ReceiveProcessedChange sndr i \<Rightarrow> confirms sndr i e
      | _ \<Rightarrow> False)"

definition closed_channel :: "'g node_change \<Rightarrow> int option" where
  "closed_channel change =
     (case change of
        NetworkChange (ChannelChange (ContractReceiveChannelClosed _ _ ci _ _)) \<Rightarrow>
          Some (channel_identifier ci)
      | NetworkChange (ChannelChange (ContractReceiveChannelClosedLight _ _ ci _ _ _ _)) \<Rightarrow>
          Some (channel_identifier ci)
      | _ \<Rightarrow> None)"

text \<open>
  The transactions that a log of the chain settles: the same thing has happened, or it cannot happen
  any more.
\<close>

inductive superseded :: "int \<Rightarrow> 'g node_change \<Rightarrow> event \<Rightarrow> bool" for block_number where
  updated: "same_channel ci (bp_canonical_identifier bp) \<Longrightarrow>
    superseded block_number (NetworkChange (ChannelChange
      (ContractReceiveUpdateTransfer tx ci (bp_nonce bp) n h))) (ContractSendChannelUpdateTransfer x bp th)"
| closed: "same_channel ci ci' \<Longrightarrow>
    superseded block_number (NetworkChange (ChannelChange (ContractReceiveChannelClosed tx a ci n h)))
      (ContractSendChannelClose ci' bpo th stx)"
| settled: "same_channel ci ci' \<Longrightarrow>
    superseded block_number (NetworkChange (ChannelChange
      (ContractReceiveChannelSettled tx ci r1 r2 n h a))) (ContractSendChannelSettle ci' th c)"
| settled_first: "same_channel ci (bp_canonical_identifier bp) \<Longrightarrow>
    superseded block_number (NetworkChange (ChannelChange
      (ContractReceiveChannelSettled tx ci r1 r2 n h a))) (ContractSendChannelUpdateTransfer x bp th)"
| revealed: "csr_secret r = secret \<Longrightarrow>
    superseded block_number (NetworkChange (ChannelChange (ContractReceiveSecretRevealChange r)))
      (ContractSendSecretReveal x secret th)"
| update_expired: "is_contract_receive change \<Longrightarrow> x < block_number \<Longrightarrow>
    superseded block_number change (ContractSendChannelUpdateTransfer x bp th)"
| reveal_expired: "is_contract_receive change \<Longrightarrow> x < block_number \<Longrightarrow>
    superseded block_number change (ContractSendSecretReveal x secret th)"

inductive_simps superseded_simps [simp]:
  "superseded block_number change (ContractSendChannelClose ci bpo th stx)"
  "superseded block_number change (ContractSendChannelSettle ci th c)"
  "superseded block_number change (ContractSendChannelUpdateTransfer x bp th)"
  "superseded block_number change (ContractSendSecretReveal x secret th)"

inductive_cases supersededE: "superseded block_number change t"

lemma superseded_contract: "superseded block_number change t \<Longrightarrow> is_contract_receive change"
  by (elim supersededE) simp_all

lemma pending_iff_not_superseded:
  assumes "is_contract_receive change" "is_transaction_pending cs t change = Inr b"
  shows "b \<longleftrightarrow> \<not> superseded (cs_block_number cs) change t"
proof -
  note defs = is_transaction_pending_def is_transaction_effect_satisfied_def
    is_transaction_invalidated_def is_transaction_expired_def
  show ?thesis
  proof (cases "\<exists>sc. change = NetworkChange (ChannelChange sc)")
    case True
    then obtain sc where sc: "change = NetworkChange (ChannelChange sc)" by auto
    show ?thesis
      using assms unfolding sc
      by (cases t; cases sc)
        (auto simp: defs res_bind_Inr split: if_splits elim: supersededE)
  next
    case False
    then show ?thesis
      using assms by (cases t; cases change) (auto simp: defs split: network_change.splits elim: supersededE)
  qed
qed

section \<open>The handlers\<close>

lemma network_action_frame:
  assumes "handle_token_network_action env cs change n = Inr (cs', evs)"
  shows "keeps_queues cs cs'" "secrethashes_to_task cs' = secrethashes_to_task cs"
  using assms
  by (auto simp: handle_token_network_action_def keeps_queues_def res_bind_Inr split: option.splits)

lemma canonical_id_frame:
  assumes "subdispatch_by_canonical_id env cs ci change = Inr (cs', evs)"
  shows "keeps_queues cs cs'" "secrethashes_to_task cs' = secrethashes_to_task cs"
  using assms
  by (auto simp: subdispatch_by_canonical_id_def keeps_queues_def res_bind_Inr split: option.splits)

lemma all_channels_frame:
  assumes "subdispatch_to_all_channels cs sc n h = Inr (cs', evs)"
  shows "keeps_queues cs cs'" "secrethashes_to_task cs' = secrethashes_to_task cs"
  using assms by (auto simp: subdispatch_to_all_channels_def keeps_queues_def res_bind_Inr)

lemma block_frame:
  assumes "handle_block_node env cs n gas h = Inr (cs', evs)"
  shows "keeps_queues cs cs' \<and> keeps_tasks UNIV cs cs'"
proof -
  from assms obtain cs1 evs1 evs2 where
    1: "subdispatch_to_all_channels (cs\<lparr>cs_block_number := n, cs_block_hash := h\<rparr>) (Block n gas h) n h
      = Inr (cs1, evs1)" and
    2: "subdispatch_to_all_lockedtransfers env cs1 (Block n gas h) = Inr (cs', evs2)"
    by (auto simp: handle_block_node_def Let_def res_bind_Inr)
  from all_channels_frame [OF 1]
  have "keeps_queues cs cs1" "secrethashes_to_task cs1 = secrethashes_to_task cs"
    by (simp_all add: keeps_queues_def)
  moreover from secrethashes_frame [OF 2 [unfolded subdispatch_to_all_lockedtransfers_def]]
  have "keeps_queues cs1 cs'" "keeps_tasks UNIV cs1 cs'" by (auto elim: keeps_tasks_mono)
  ultimately show ?thesis by (auto simp: keeps_tasks_def elim: keeps_queues_trans)
qed

lemma network_state_frame:
  assumes "handle_node_change_network_state_node env cs a s = Inr (cs', evs)"
  shows "keeps_queues cs cs' \<and> keeps_tasks UNIV cs cs'"
proof -
  from network_state_loop_frame [OF assms [unfolded handle_node_change_network_state_node_def]]
  show ?thesis by (auto simp: keeps_queues_def keeps_tasks_def)
qed

lemma task_change_frame:
  assumes "handle_task_change env db cs sc = Inr ((cs', evs), db')"
  shows "keeps_queues cs cs' \<and> (\<exists>h. keeps_tasks {h} cs cs')"
proof -
  have pay: "keeps_queues cs a \<and> (\<exists>h. keeps_tasks {h} cs a)"
    if "subdispatch_to_paymenttask env cs sc k = Inr (a, evs)" for a evs k sc
    using paymenttask_frame [OF that] by blast
  have init: "keeps_queues cs a \<and> (\<exists>h. keeps_tasks {h} cs a)"
    if "subdispatch_initiatortask env cs sc n k = Inr (a, evs)" for a evs n k sc
    using initiatortask_frame [OF that] by blast
  have med: "keeps_queues cs a \<and> (\<exists>h. keeps_tasks {h} cs a)"
    if "subdispatch_mediatortask env cs sc n k = Inr (a, evs)" for a evs n k sc
    using mediatortask_frame(1) [OF that] by blast
  have targ: "keeps_queues cs cs' \<and> (\<exists>h. keeps_tasks {h} cs cs')"
    if "subdispatch_targettask env db cs sc n k h a = Inr ((cs', evs), db')" for n k h a sc
    using targettask_frame [OF that] by blast
  show ?thesis
    using assms unfolding handle_task_change_def Let_def
    by (cases sc) (auto dest: pay init med targ simp: res_bind_Inr)
qed

text \<open>A closed channel loses the queue of its messages before the log is dispatched.\<close>

lemma closed_frame:
  fixes cs :: "'g ChainState"
  assumes "handle_contract_receive_channel_closed env cs sc ci a = Inr (cs', evs)"
  shows "pending_transactions cs' = pending_transactions cs"
    and "secrethashes_to_task cs' = secrethashes_to_task cs"
    and "queue_of cs' q = queue_of cs q \<or> snd q = channel_identifier ci \<and> queue_of cs' q = []"
proof -
  from assms obtain found :: "(bytes \<times> 'g TokenNetworkState \<times> bytes \<times> NettingChannelState) option" where
    run: "handle_token_network_action env
      (case found of None \<Rightarrow> cs | Some (_, _, _, c) \<Rightarrow>
         cs\<lparr>queueids_to_queues := dict_del (es_address (partner_state c), channel_identifier ci)
              (queueids_to_queues cs)\<rparr>)
      (ChannelChange sc) (token_network_address ci) = Inr (cs', evs)"
    unfolding handle_contract_receive_channel_closed_def res_bind_Inr by blast
  from network_action_frame [OF run] show "pending_transactions cs' = pending_transactions cs"
    and "secrethashes_to_task cs' = secrethashes_to_task cs"
    and "queue_of cs' q = queue_of cs q \<or> snd q = channel_identifier ci \<and> queue_of cs' q = []"
    by (auto simp: keeps_queues_def queue_of_def delete_conv' split: option.splits)
qed

text \<open>The state changes that reach every task; any other reaches at most one.\<close>

definition broadcast :: "'g node_change \<Rightarrow> bool" where
  "broadcast change \<longleftrightarrow>
     (case change of
        NetworkChange (ChannelChange (Block _ _ _)) \<Rightarrow> True
      | NetworkChange (ChannelChange (ActionChangeNodeNetworkState _ _)) \<Rightarrow> True
      | _ \<Rightarrow> False)"

text \<open>What every handler leaves of the queues, the transactions and the tasks.\<close>

definition node_frame :: "'g node_change \<Rightarrow> 'g ChainState \<Rightarrow> 'g ChainState \<Rightarrow> bool" where
  "node_frame change cs cs' \<longleftrightarrow>
     pending_transactions cs' = pending_transactions cs \<and>
     (\<exists>H. keeps_tasks H cs cs' \<and> (broadcast change \<or> (\<exists>h. H = {h}))) \<and>
     (\<forall>q. queue_of cs' q = filter (\<lambda>e. \<not> confirmed change q e) (queue_of cs q) \<or>
          closed_channel change = Some (snd q) \<and> queue_of cs' q = [])"

lemma one_task:
  "secrethashes_to_task cs' = secrethashes_to_task cs
   \<Longrightarrow> \<exists>H. keeps_tasks H cs cs' \<and> (broadcast change \<or> (\<exists>h. H = {h}))"
  by (rule exI [of _ "{[]}"]) (simp add: keeps_tasks_same)

lemma frame_keeps:
  "keeps_queues cs cs' \<and> keeps_tasks H cs cs' \<Longrightarrow> (\<And>q e. \<not> confirmed change q e)
   \<Longrightarrow> broadcast change \<or> (\<exists>h. H = {h}) \<Longrightarrow> node_frame change cs cs'"
  by (auto simp: node_frame_def keeps_queues_def queue_of_def)

lemma frame_same:
  "queueids_to_queues cs' = queueids_to_queues cs \<Longrightarrow> pending_transactions cs' = pending_transactions cs
   \<Longrightarrow> secrethashes_to_task cs' = secrethashes_to_task cs \<Longrightarrow> (\<And>q e. \<not> confirmed change q e)
   \<Longrightarrow> node_frame change cs cs'"
  by (auto simp: node_frame_def queue_of_def intro: one_task)

lemma network_frame:
  fixes cs :: "'g ChainState"
  assumes "handle_network_change env db cs change = Inr ((cs', evs), db')"
  shows "node_frame (NetworkChange change) cs cs'"
proof -
  have quiet: "\<not> confirmed (NetworkChange change) q e" for q e
    by (simp add: confirmed_def)
  have net: "node_frame (NetworkChange change) cs a"
    if "handle_token_network_action env cs sc n = Inr (a, evs)" for sc n a evs
    using network_action_frame [OF that]
    by (intro frame_same [OF _ _ _ quiet]) (simp_all add: keeps_queues_def)
  have can: "node_frame (NetworkChange change) cs a"
    if "subdispatch_by_canonical_id env cs ci sc = Inr (a, evs)" for sc ci a evs
    using canonical_id_frame [OF that]
    by (intro frame_same [OF _ _ _ quiet]) (simp_all add: keeps_queues_def)
  have block: "node_frame (NetworkChange change) cs a"
    if "handle_block_node env cs n gas h = Inr (a, evs)" "broadcast (NetworkChange change :: 'g node_change)"
    for n gas h a evs
    by (rule frame_keeps [OF block_frame [OF that(1)] quiet]) (use that(2) in simp)
  have state: "node_frame (NetworkChange change) cs a"
    if "handle_node_change_network_state_node env cs x s = Inr (a, evs)"
      "broadcast (NetworkChange change :: 'g node_change)" for x s a evs
    by (rule frame_keeps [OF network_state_frame [OF that(1)] quiet]) (use that(2) in simp)
  have task: "node_frame (NetworkChange change) cs cs'"
    if "handle_task_change env db cs sc = Inr ((cs', evs), db')" for sc
    using task_change_frame [OF that] frame_keeps quiet by blast
  show ?thesis
  proof (cases change)
    case (ChannelChange sc)
    have close: "node_frame (NetworkChange change) cs a"
      if "handle_contract_receive_channel_closed env cs sc ci x = Inr (a, evs)"
        "closed_channel (NetworkChange change :: 'g node_change) = Some (channel_identifier ci)"
      for ci x a evs
    proof -
      have "queue_of a q = filter (\<lambda>e. \<not> confirmed (NetworkChange change :: 'g node_change) q e) (queue_of cs q) \<or>
          closed_channel (NetworkChange change :: 'g node_change) = Some (snd q) \<and> queue_of a q = []" for q
        using closed_frame(3) [OF that(1), of q] that(2) by (auto simp: quiet)
      then show ?thesis using closed_frame(1,2) [OF that(1)]
        unfolding node_frame_def by (blast intro: one_task)
    qed
    show ?thesis
      using assms close block state unfolding handle_network_change_def Let_def ChannelChange
      by (cases sc) (auto simp: res_bind_Inr closed_channel_def broadcast_def
          dest: net [unfolded ChannelChange] can [unfolded ChannelChange] task [unfolded ChannelChange])
  qed (use assms net in \<open>auto simp: handle_network_change_def Let_def res_bind_Inr\<close>)
qed

lemma maybe_add_sel [simp]:
  "queueids_to_queues (maybe_add_tokennetwork i tn cs) = queueids_to_queues cs"
  "pending_transactions (maybe_add_tokennetwork i tn cs) = pending_transactions cs"
  "secrethashes_to_task (maybe_add_tokennetwork i tn cs) = secrethashes_to_task cs"
  by (simp_all add: maybe_add_tokennetwork_def Let_def split: prod.splits option.splits)

lemma handle_state_change_frame:
  assumes "handle_state_change env db (Some cs) change = Inr ((cs', evs), db')"
  shows "node_frame change cs cs'"
proof (cases change)
  case (NetworkChange c)
  with assms network_frame show ?thesis by (simp add: handle_state_change_def)
next
  case (ReceiveDeliveredChange sndr i)
  with assms have "cs' = handle_delivered sndr i cs" by (simp add: handle_state_change_def)
  then show ?thesis
    by (auto simp: node_frame_def ReceiveDeliveredChange confirmed_def handle_delivered_def
        delete_queue_of message_found_confirms intro: one_task)
next
  case (ReceiveProcessedChange sndr i)
  with assms have "cs' = handle_processed sndr i cs" by (simp add: handle_state_change_def)
  then show ?thesis
    by (auto simp: node_frame_def ReceiveProcessedChange confirmed_def handle_processed_queue
        message_found_confirms intro: one_task)
qed (use assms in \<open>auto intro!: frame_same simp: handle_state_change_def confirmed_def
       handle_chain_init_def handle_new_token_network_def handle_tokenadded_def
       handle_new_payment_network_def handle_leave_all_networks_def handle_init_unlock_light_def
       handle_update_transport_authdata_def Let_def res_bind_Inr split: option.splits if_splits\<close>)

lemma state_transition_nodeD:
  assumes "state_transition_node env db chain change = Inr ((cs', evs), db')"
  obtains cs where "handle_state_change env db chain change = Inr ((cs, evs), db')"
    "update_queues cs evs change = Inr cs'"
  using assms by (auto simp: state_transition_node_def res_bind_Inr)

lemma enqueue_all_block [simp]: "cs_block_number (fold enqueue es cs) = cs_block_number cs"
  by (induction es arbitrary: cs) (simp_all add: enqueue_def Let_def split: option.splits)

text \<open>A whole transition: what the handler leaves, and what the events add.\<close>

lemma transition_frame:
  assumes "state_transition_node env db (Some cs) change = Inr ((cs', evs), db')"
  obtains "queue_of cs' q = filter (\<lambda>e. \<not> confirmed change q e) (queue_of cs q) @
        filter (\<lambda>e. queue_id e = Some q) evs \<or>
      closed_channel change = Some (snd q) \<and> queue_of cs' q = filter (\<lambda>e. queue_id e = Some q) evs"
    and "pending_transactions cs' =
        filter (\<lambda>t. \<not> superseded (cs_block_number cs') change t) (pending_transactions cs) @
        filter is_contract_send evs"
    and "\<exists>H. keeps_tasks H cs cs' \<and> (broadcast change \<or> (\<exists>h. H = {h}))"
proof -
  from assms obtain a where a: "handle_state_change env db (Some cs) change = Inr ((a, evs), db')"
    and upd: "update_queues a evs change = Inr cs'"
    by (rule state_transition_nodeD)
  from upd obtain pending where
    p: "if is_contract_receive change
        then filter_result (\<lambda>t. is_transaction_pending a t change) (pending_transactions a) = Inr pending
        else pending = pending_transactions a" and
    cs': "cs' = fold enqueue evs (a\<lparr>pending_transactions := pending\<rparr>)"
    by (rule update_queues_cases)
  note frame = handle_state_change_frame [OF a, unfolded node_frame_def]
  have q: "queue_of cs' q = queue_of a q @ filter (\<lambda>e. queue_id e = Some q) evs"
    by (simp add: cs' enqueue_all_queue) (simp add: queue_of_def)
  have "pending = filter (\<lambda>t. \<not> superseded (cs_block_number a) change t) (pending_transactions a)"
  proof (cases "is_contract_receive change")
    case True
    with p have "pending = filter (\<lambda>t. is_transaction_pending a t change = Inr True) (pending_transactions a)"
      and all: "\<forall>t \<in> set (pending_transactions a).
        is_transaction_pending a t change = Inr True \<or> is_transaction_pending a t change = Inr False"
      using filter_result_Inr by auto
    moreover have "is_transaction_pending a t change = Inr True \<longleftrightarrow> \<not> superseded (cs_block_number a) change t"
      if "t \<in> set (pending_transactions a)" for t
      using all that pending_iff_not_superseded [OF True, of a t] by auto
    ultimately show ?thesis by (simp cong: filter_cong)
  next
    case False
    then have "filter (\<lambda>t. \<not> superseded (cs_block_number a) change t) (pending_transactions a)
        = pending_transactions a"
      using superseded_contract by (auto simp: filter_id_conv)
    with False p show ?thesis by simp
  qed
  then have "pending_transactions cs' =
      filter (\<lambda>t. \<not> superseded (cs_block_number cs') change t) (pending_transactions cs) @
      filter is_contract_send evs"
    using frame by (simp add: cs')
  moreover have "queue_of cs' q = filter (\<lambda>e. \<not> confirmed change q e) (queue_of cs q) @
        filter (\<lambda>e. queue_id e = Some q) evs \<or>
      closed_channel change = Some (snd q) \<and> queue_of cs' q = filter (\<lambda>e. queue_id e = Some q) evs"
    using q conjunct2 [OF conjunct2 [OF frame], THEN spec, of q] by auto
  moreover have "\<exists>H. keeps_tasks H cs cs' \<and> (broadcast change \<or> (\<exists>h. H = {h}))"
    using frame by (simp add: keeps_tasks_def cs')
  ultimately show thesis using that by blast
qed

end
