(* ===== verification/NodeSamples.thy ===== *)
theory NodeSamples
  imports NodeQueues InitiatorProperties MediatorSamples
begin

text \<open>
  A concrete node for the witnesses: bob's node with one token network and its channel with alice,
  before and after it has started a payment.  The graph of networkx is a list of edges.
\<close>

definition sample_networkx :: "(bytes \<times> bytes) list networkx" where
  "sample_networkx =
     \<lparr>nx_Graph = [], nx_add_edge = (\<lambda>g a b. g @ [(a, b)]),
      nx_remove_edge = (\<lambda>g a b. if (a, b) \<in> set g then Some (remove1 (a, b) g) else None)\<rparr>"

definition sample_env :: "(bytes \<times> bytes) list node_env" where
  "sample_env =
     \<lparr>en_libs = sample_libs, en_networkx = sample_networkx, en_same = (=), en_canonical_address = Inr,
      en_now = 0, en_today = []\<rparr>"

abbreviation sample_token_network :: bytes where
  "sample_token_network \<equiv> replicate 20 9"

abbreviation sample_payment_network :: bytes where
  "sample_payment_network \<equiv> replicate 20 7"

definition bob_network :: "NettingChannelState \<Rightarrow> (bytes \<times> bytes) list TokenNetworkState" where
  "bob_network c =
     \<lparr>tn_address = sample_token_network, tn_token_address = replicate 20 8,
      network_graph = \<lparr>ng_token_network_id = sample_token_network, ng_network = [(bob, alice)],
        channel_identifier_to_participants = [(1, (bob, alice))]\<rparr>,
      channelidentifiers_to_channels = bob_channels c,
      partneraddresses_to_channelidentifiers = [(bob, [1]), (alice, [1])]\<rparr>"

definition bob_node ::
    "NettingChannelState \<Rightarrow> (bytes, transfer_task) dict \<Rightarrow> prng \<Rightarrow> (bytes \<times> int, event list) dict
     \<Rightarrow> event list \<Rightarrow> (bytes \<times> bytes) list ChainState" where
  "bob_node c tasks g queues pending =
     (mk_ChainState g 0 [] bob 30)
       \<lparr>identifiers_to_paymentnetworks := [(sample_payment_network,
          mk_PaymentNetworkState sample_payment_network [bob_network c])],
        tokennetworkaddresses_to_paymentnetworkaddresses :=
          [(sample_token_network, sample_payment_network)],
        secrethashes_to_task := tasks, queueids_to_queues := queues, pending_transactions := pending\<rparr>"

abbreviation sample_db :: node_db where
  "sample_db \<equiv> \<lparr>db_storage = Some [], db_payments = []\<rparr>"

abbreviation bob_task :: transfer_task where
  "bob_task \<equiv> InitiatorTask sample_token_network bob_payment"

lemma bob_node_sel [simp]:
  "secrethashes_to_task (bob_node c tasks g queues pending) = tasks"
  "queueids_to_queues (bob_node c tasks g queues pending) = queues"
  "pending_transactions (bob_node c tasks g queues pending) = pending"
  "cs_prng (bob_node c tasks g queues pending) = g"
  "cs_block_number (bob_node c tasks g queues pending) = 0"
  "cs_block_hash (bob_node c tasks g queues pending) = []"
  "cs_our_address (bob_node c tasks g queues pending) = bob"
  by (simp_all add: bob_node_def mk_ChainState_def)

lemma sample_env_sel [simp]:
  "en_libs sample_env = sample_libs" "en_networkx sample_env = sample_networkx"
  "en_same sample_env = (=)" "en_now sample_env = 0"
  by (simp_all add: sample_env_def)

lemma bob_network_found [simp]:
  "get_token_network_by_address (bob_node c tasks g queues pending) sample_token_network =
     Some (sample_payment_network, bob_network c)"
  by (simp add: get_token_network_by_address_def bob_node_def mk_PaymentNetworkState_def bob_network_def)

lemma bob_network_channels [simp]: "channelidentifiers_to_channels (bob_network c) = bob_channels c"
  by (simp add: bob_network_def)

lemma bob_node_update [simp]:
  "set_token_network sample_payment_network sample_token_network
     (bob_network c\<lparr>channelidentifiers_to_channels := bob_channels c'\<rparr>)
     (bob_node c tasks g queues pending\<lparr>cs_prng := g'\<rparr>) = bob_node c' tasks g' queues pending"
  by (simp add: set_token_network_def bob_node_def mk_PaymentNetworkState_def bob_network_def
      mk_ChainState_def)

lemma bob_node_finds [simp]:
  "token_network_address ci = sample_token_network \<Longrightarrow> channel_identifier ci = 1 \<Longrightarrow>
   get_channelstate_by_canonical_identifier_and_address sample_env (bob_node c tasks g queues pending)
     ci bob = Inr (Some (sample_payment_network, bob_network c, bob, c))"
  by (simp add: get_channelstate_by_canonical_identifier_and_address_def find_channel_def dict_has_def
      get_token_network_by_identifier_def bob_node_def mk_PaymentNetworkState_def bob_network_def)

lemma bob_node_queues [simp]:
  "bob_node c tasks g queues pending\<lparr>queueids_to_queues := q\<rparr> = bob_node c tasks g q pending"
  by (simp add: bob_node_def)

text \<open>Bob's node starts his payment to alice.\<close>

lemma bob_node_starts:
  "state_transition_node sample_env sample_db (Some (bob_node sample_bob [] 4 [] []))
     (NetworkChange (ChannelChange bob_init)) =
   Inr ((bob_node sample_bob_sent [(sample_secrethash, bob_task)] 5
           [((alice, 1), [SendLockedTransfer (sample_event bob alice 4)])] [],
         [SendLockedTransfer (sample_event bob alice 4)]), sample_db)"
proof -
  have "run_initiator sample_env (bob_node sample_bob [] 4 [] []) sample_token_network
      sample_secrethash None bob_init =
    Inr (bob_node sample_bob_sent [(sample_secrethash, bob_task)] 5 [] [],
         [SendLockedTransfer (sample_event bob alice 4)])"
    using bob_starts [of 0]
    by (simp add: run_initiator_def put_task_def) (simp add: bob_node_def)
  then show ?thesis
    by (simp add: state_transition_node_def handle_state_change_def handle_network_change_def
        handle_task_change_def subdispatch_initiatortask_def update_queues_def enqueue_def
        sample_event_def)
qed

end
