(* ===== verification/NodeChannels.thy ===== *)
theory NodeChannels
  imports NodeFacts MediatorInvariant PaymentFacts TargetFacts
begin

text \<open>
  What the handlers of a node do to its channels.  Every channel has a place: the payment network, the
  token network, the owner's address and the channel's identifier.  The locale \<open>place_law\<close> lifts the
  contract \<open>channel_law\<close> from the channels of one task to all places of a node: a law that every step
  of a channel keeps is kept by every state change of the node.
\<close>

section \<open>The places of the channels\<close>

definition network_at :: "'g ChainState \<Rightarrow> bytes \<Rightarrow> bytes \<Rightarrow> 'g TokenNetworkState option" where
  "network_at cs i n =
     Option.bind (dict_get (identifiers_to_paymentnetworks cs) i) (\<lambda>pn.
       dict_get (tokenidentifiers_to_tokennetworks pn) n)"

definition channel_of ::
    "'g ChainState \<Rightarrow> bytes \<Rightarrow> bytes \<Rightarrow> bytes \<Rightarrow> int \<Rightarrow> NettingChannelState option" where
  "channel_of cs i n a k =
     Option.bind (network_at cs i n) (\<lambda>tn. channel_at (channelidentifiers_to_channels tn) a k)"

definition node_all ::
    "(bytes \<Rightarrow> bytes \<Rightarrow> bytes \<Rightarrow> int \<Rightarrow> NettingChannelState \<Rightarrow> bool) \<Rightarrow> 'g ChainState \<Rightarrow> bool" where
  "node_all Q cs \<longleftrightarrow>
     (\<forall>i n tn. network_at cs i n = Some tn \<longrightarrow> owners_all (Q i n) (channelidentifiers_to_channels tn))"

lemma node_allD:
  "node_all Q cs \<Longrightarrow> network_at cs i n = Some tn \<Longrightarrow> owners_all (Q i n) (channelidentifiers_to_channels tn)"
  by (simp add: node_all_def)

lemma node_all_iff: "node_all Q cs \<longleftrightarrow> (\<forall>i n a k c. channel_of cs i n a k = Some c \<longrightarrow> Q i n a k c)"
  by (auto simp: node_all_def channel_of_def owners_all_iff bind_eq_Some_conv)

lemma network_at_same:
  "identifiers_to_paymentnetworks cs' = identifiers_to_paymentnetworks cs \<Longrightarrow> network_at cs' = network_at cs"
  by (simp add: network_at_def fun_eq_iff)

lemma network_at_set:
  assumes "network_at cs i n = Some tn0"
  shows "network_at (set_token_network i n tn cs) j m = (if j = i \<and> m = n then Some tn else network_at cs j m)"
  using assms
  by (auto simp: network_at_def set_token_network_def bind_eq_Some_conv update_conv' split: option.splits)

lemma network_by_address:
  "get_token_network_by_address cs n = Some (i, tn) \<Longrightarrow> network_at cs i n = Some tn"
  by (auto simp: get_token_network_by_address_def network_at_def bind_eq_Some_conv split: if_splits)

lemma first_token_network_at:
  "first_token_network pns n = Some (i, tn) \<Longrightarrow> dict_ok pns
   \<Longrightarrow> \<exists>pn. dict_get pns i = Some pn \<and> dict_get (tokenidentifiers_to_tokennetworks pn) n = Some tn"
proof (induction pns)
  case (Cons p pns)
  obtain j pn where p: "p = (j, pn)" by (cases p)
  show ?case
  proof (cases "dict_get (tokenidentifiers_to_tokennetworks pn) n")
    case None
    with Cons p obtain q where q: "dict_get pns i = Some q"
        "dict_get (tokenidentifiers_to_tokennetworks q) n = Some tn"
      by (auto simp: dict_ok_def)
    then have "i \<noteq> j" using Cons.prems(2) p by (force simp: dict_ok_def dest: map_of_SomeD)
    with q p show ?thesis by simp
  qed (use Cons.prems(1) p in simp)
qed simp

lemma network_by_identifier:
  "get_token_network_by_identifier cs n = Some (i, tn) \<Longrightarrow> dict_ok (identifiers_to_paymentnetworks cs)
   \<Longrightarrow> network_at cs i n = Some tn"
  using first_token_network_at
  by (fastforce simp: get_token_network_by_identifier_def network_at_def)

lemma find_channel_at:
  "find_channel same tn a ci = Some (owner, c) \<Longrightarrow>
   channel_at (channelidentifiers_to_channels tn) owner (channel_identifier ci) = Some c"
  by (auto simp: find_channel_def channel_at_def Let_def bind_eq_Some_conv split: if_splits option.splits)

lemma found_channel:
  assumes "get_channelstate_by_canonical_identifier_and_address env cs ci a = Inr (Some (i, tn, owner, c))"
    and "dict_ok (identifiers_to_paymentnetworks cs)"
  shows "network_at cs i (token_network_address ci) = Some tn"
    "channel_at (channelidentifiers_to_channels tn) owner (channel_identifier ci) = Some c"
  using assms network_by_identifier find_channel_at
  by (fastforce simp: get_channelstate_by_canonical_identifier_and_address_def split: option.splits)+

section \<open>The invariant of a node\<close>

definition task_ok :: "libs \<Rightarrow> bytes \<Rightarrow> transfer_task \<Rightarrow> bool" where
  "task_ok L h t \<longleftrightarrow>
     (case t of MediatorTask _ s \<Rightarrow> mediator_ok L s \<and> mt_secrethash s = h | _ \<Rightarrow> True)"

lemma task_ok_simps [simp]:
  "task_ok L h (InitiatorTask n p)"
  "task_ok L h (MediatorTask n s) \<longleftrightarrow> mediator_ok L s \<and> mt_secrethash s = h"
  "task_ok L h (TargetTask ci t)"
  by (simp_all add: task_ok_def)

definition tasks_ok :: "libs \<Rightarrow> 'g ChainState \<Rightarrow> bool" where
  "tasks_ok L cs \<longleftrightarrow>
     dict_ok (identifiers_to_paymentnetworks cs) \<and> dict_ok (secrethashes_to_task cs) \<and>
     (\<forall>h t. dict_get (secrethashes_to_task cs) h = Some t \<longrightarrow> task_ok L h t)"

definition node_inv ::
    "libs \<Rightarrow> (bytes \<Rightarrow> bytes \<Rightarrow> bytes \<Rightarrow> int \<Rightarrow> NettingChannelState \<Rightarrow> bool) \<Rightarrow> 'g ChainState \<Rightarrow> bool" where
  "node_inv L Q cs \<longleftrightarrow> tasks_ok L cs \<and> node_all Q cs"

lemma node_invD:
  assumes "node_inv L Q cs"
  shows "dict_ok (identifiers_to_paymentnetworks cs)"
    "dict_get (secrethashes_to_task cs) h = Some t \<Longrightarrow> task_ok L h t"
    "network_at cs i n = Some tn \<Longrightarrow> owners_all (Q i n) (channelidentifiers_to_channels tn)"
  using assms by (auto simp: node_inv_def tasks_ok_def node_all_def)

lemma node_inv_same:
  "node_inv L Q cs \<Longrightarrow> identifiers_to_paymentnetworks cs' = identifiers_to_paymentnetworks cs
   \<Longrightarrow> secrethashes_to_task cs' = secrethashes_to_task cs \<Longrightarrow> node_inv L Q cs'"
  by (simp add: node_inv_def tasks_ok_def node_all_def network_at_def)

lemma set_network_inv:
  assumes "node_inv L Q cs" "network_at cs i n = Some tn0"
    and "owners_all (Q i n) (channelidentifiers_to_channels tn)"
  shows "node_inv L Q (set_token_network i n tn cs)"
proof -
  have "dict_ok (identifiers_to_paymentnetworks (set_token_network i n tn cs))"
    using node_invD(1) [OF assms(1)] by (simp add: set_token_network_def split: option.splits)
  then show ?thesis
    using assms by (auto simp: node_inv_def tasks_ok_def node_all_def network_at_set)
qed

lemma put_task_inv:
  assumes "node_inv L Q cs" "\<And>s. new = Some s \<Longrightarrow> task_ok L h (task s)"
  shows "node_inv L Q (put_task h task new cs)"
proof -
  have "dict_ok (secrethashes_to_task (put_task h task new cs))"
    using assms(1) by (simp add: put_task_def node_inv_def tasks_ok_def split: option.splits)
  moreover have "network_at (put_task h task new cs) = network_at cs" by (rule network_at_same) simp
  ultimately show ?thesis
    using assms by (auto simp: node_inv_def tasks_ok_def node_all_def put_task_get split: if_splits)
qed

text \<open>Running a task: its token network has new channels, and it has a new state.\<close>

lemma run_task_inv:
  assumes inv: "node_inv L Q cs" and tn: "network_at cs i n = Some tn"
    and m: "owners_all (Q i n) m" and task: "\<And>s. new = Some s \<Longrightarrow> task_ok L h (task s)"
  shows "node_inv L Q (put_task h task new
    (set_token_network i n (tn\<lparr>channelidentifiers_to_channels := m\<rparr>) (cs\<lparr>cs_prng := g\<rparr>)))"
proof (rule put_task_inv [OF set_network_inv task])
  show "node_inv L Q (cs\<lparr>cs_prng := g\<rparr>)" by (rule node_inv_same [OF inv]) simp_all
  show "network_at (cs\<lparr>cs_prng := g\<rparr>) i n = Some tn" using tn by (simp add: network_at_def)
qed (use m in simp_all)

section \<open>A new lock has the hash of its task\<close>

lemma recorded_other_hash:
  "h \<noteq> lock_secrethash l \<Longrightarrow> is_lock_pending (record_lock bp tree l e) h = is_lock_pending e h"
  by (simp add: is_lock_pending_def record_lock_def dict_simps)

lemma sent_other_hash:
  assumes "send_lockedtransfer L c i t amount m p ph x h = Inr (e, c')" "h' \<noteq> h"
  shows "is_lock_pending (our_state c') h' = is_lock_pending (our_state c) h'"
proof -
  obtain tree where "c' = upd_our (record_lock (Unsigned (lt_balance_proof (ste_transfer e))) tree
      (lt_lock (ste_transfer e))) c"
    using assms(1) by (auto simp: send_lockedtransfer_def res_bind_Inr Let_def)
  moreover have "lock_secrethash (lt_lock (ste_transfer e)) = h" using sent_transfer_fields [OF assms(1)] by simp
  ultimately show ?thesis using assms(2) by (simp add: recorded_other_hash)
qed

lemma refunded_other_hash:
  assumes "send_refundtransfer L c i t amount m p x h = Inr (e, c')" "h' \<noteq> h"
  shows "is_lock_pending (our_state c') h' = is_lock_pending (our_state c) h'"
proof -
  obtain tree where "c' = upd_our (record_lock (Unsigned (lt_balance_proof (ste_transfer e))) tree
      (lt_lock (ste_transfer e))) c"
    using assms(1)
    by (auto simp: send_refundtransfer_def res_bind_Inr Let_def py_assert_Inr refund_from_sendmediated_def)
  moreover have "lock_secrethash (lt_lock (ste_transfer e)) = h" using sent_refund_fields [OF assms(1)] by simp
  ultimately show ?thesis using assms(2) by (simp add: recorded_other_hash)
qed

lemma mediated_other_hash:
  assumes c: "dict_get m key = Some c" and h: "lock_secrethash (lt_lock t) = mt_secrethash s"
    and run: "mediate_transfer L s routes key c m states g t n = Inr ((s', evs), m', g')"
    and other: "hash_unused m r" "mt_secrethash r \<noteq> mt_secrethash s"
  shows "hash_unused m' r"
  using run
proof (cases rule: mediate_transfer_cases)
  case (forwarded p)
  from forwarded(1) show ?thesis
  proof (cases rule: forward_transfer_cases)
    case (sent k c1 e c')
    then show ?thesis
      using hash_unused_update [OF other(1) next_channel_from_routes_Some(1) [OF sent(1)], of c']
        sent_other_hash [OF sent(3), of "mt_secrethash r"] other(2) h by simp
  qed (use other(1) in simp)
next
  case (refunded k rc p)
  have rc: "dict_get m k = Some rc"
    using refunded(2) c by (auto simp: refund_channel_def get_payer_channel_def split: list.splits)
  from refunded(3) show ?thesis
  proof (cases rule: backward_transfer_cases)
    case (sent e c')
    then show ?thesis
      using hash_unused_update [OF other(1) rc, of c']
        refunded_other_hash [OF sent(2), of "mt_secrethash r"] other(2) h by simp
  qed (use other(1) in simp)
qed (use other(1) in simp)

section \<open>Transfers that do not reuse a hash\<close>

text \<open>
  A state change that brings or starts a transfer finds no pending lock with its hash where the lock
  will be.  A mediator may send when it starts, when a refund arrives, and when a node comes online.
\<close>

abbreviation task_at :: "'g ChainState \<Rightarrow> bytes \<Rightarrow> transfer_task option" where
  "task_at cs h \<equiv> dict_get (secrethashes_to_task cs) h"

definition forward_fresh ::
    "libs \<Rightarrow> 'g ChainState \<Rightarrow> bytes \<Rightarrow> MediatorTransferState option \<Rightarrow> state_change \<Rightarrow> bool" where
  "forward_fresh L cs n state sc \<longleftrightarrow>
     (\<forall>i tn ms. network_at cs i n = Some tn \<longrightarrow>
        dict_get (channelidentifiers_to_channels tn) (cs_our_address cs) = Some ms \<longrightarrow>
        change_fresh L ms sc \<and> (\<forall>s. task_before state sc = Some s \<longrightarrow> hash_unused ms s))"

definition payment_fresh :: "'g ChainState \<Rightarrow> bytes \<Rightarrow> state_change \<Rightarrow> bool" where
  "payment_fresh cs n sc \<longleftrightarrow>
     (\<forall>i tn. network_at cs i n = Some tn \<longrightarrow> init_fresh (channelidentifiers_to_channels tn) sc)"

definition receipt_fresh :: "libs \<Rightarrow> 'g ChainState \<Rightarrow> bytes \<Rightarrow> int \<Rightarrow> state_change \<Rightarrow> bool" where
  "receipt_fresh L cs n k sc \<longleftrightarrow>
     (\<forall>i a c. channel_of cs i n a k = Some c \<longrightarrow> target_fresh L c sc)"

abbreviation transfer_place :: "LockedTransferSignedState \<Rightarrow> bytes" where
  "transfer_place t \<equiv> token_network_address (bp_canonical_identifier (lt_balance_proof t))"

definition task_change_fresh :: "libs \<Rightarrow> 'g ChainState \<Rightarrow> state_change \<Rightarrow> bool" where
  "task_change_fresh L cs sc \<longleftrightarrow>
     (case sc of
        ActionInitInitiator d _ \<Rightarrow>
          task_at cs (td_secrethash d) = None \<longrightarrow> payment_fresh cs (td_token_network_identifier d) sc
      | ActionInitInitiatorLight d _ _ \<Rightarrow>
          task_at cs (td_secrethash d) = None \<longrightarrow> payment_fresh cs (td_token_network_identifier d) sc
      | ActionInitMediator _ _ t \<Rightarrow>
          task_at cs (lock_secrethash (lt_lock t)) = None \<longrightarrow> forward_fresh L cs (transfer_place t) None sc
      | ActionInitTarget _ t \<Rightarrow>
          task_at cs (lock_secrethash (lt_lock t)) = None \<longrightarrow>
          receipt_fresh L cs (transfer_place t) (received_channel t) sc
      | ActionInitTargetLight _ t _ \<Rightarrow>
          task_at cs (lock_secrethash (lt_lock t)) = None \<longrightarrow>
          receipt_fresh L cs (transfer_place t) (received_channel t) sc
      | ReceiveTransferRefundChange r \<Rightarrow>
          (\<forall>n s. task_at cs (lock_secrethash (lt_lock (rtr_transfer r))) = Some (MediatorTask n s) \<longrightarrow>
             forward_fresh L cs n (Some s) sc)
      | ActionChangeNodeNetworkState _ _ \<Rightarrow>
          (\<forall>h n s. task_at cs h = Some (MediatorTask n s) \<longrightarrow> forward_fresh L cs n (Some s) sc)
      | _ \<Rightarrow> genuine_secret L sc)"

section \<open>The laws of the places\<close>

lemma owners_all_dict_set:
  "owners_all Q M \<Longrightarrow> channels_all (Q a) m \<Longrightarrow> owners_all Q (dict_set a m M)"
  by (simp add: owners_all_def update_conv')

locale place_law =
  fixes L :: libs and Q :: "bytes \<Rightarrow> bytes \<Rightarrow> bytes \<Rightarrow> int \<Rightarrow> NettingChannelState \<Rightarrow> bool"
  assumes place: "channel_law L (Q i n a)"
begin

lemma owners: "owner_law L (Q i n)"
  by (rule owner_law.intro) (rule place)

lemma run_initiator_inv:
  assumes inv: "node_inv L Q cs" and L: "en_libs env = L"
    and fresh: "state = None \<Longrightarrow> payment_fresh cs n sc"
    and run: "run_initiator env cs n h state sc = Inr (cs', evs)"
  shows "node_inv L Q cs'"
  using run
proof (cases rule: run_initiator_cases)
  case (run i tn new m g)
  note tn = network_by_address [OF run(1)]
  from run(2) obtain p where d: "dispatch_payment L (en_now env) state sc
      (channelidentifiers_to_channels tn) (cs_prng cs) (cs_block_number cs) = Inr ((p, evs), m, g)"
    unfolding L by (rule state_transition_paymentD)
  have "owners_all (Q i n) m"
    by (rule owner_law.payment_law [OF owners node_invD(3) [OF inv tn] _ d])
      (use fresh tn in \<open>simp add: payment_fresh_def\<close>)
  then show ?thesis unfolding run(3) by (intro run_task_inv [OF inv tn]) simp_all
qed (use inv in simp)

lemma run_mediator_inv:
  assumes inv: "node_inv L Q cs" and L: "en_libs env = L"
    and task: "\<And>s. task_before state sc = Some s \<Longrightarrow> mediator_ok L s \<and> mt_secrethash s = h"
    and genuine: "genuine_secret L sc"
    and fresh: "may_forward state sc \<Longrightarrow> forward_fresh L cs n state sc"
    and run: "run_mediator env cs n h state sc = Inr (cs', evs)"
  shows "node_inv L Q cs'"
  using run
proof (cases rule: run_mediator_cases)
  case (run i tn new ms m g)
  note tn = network_by_address [OF run(1)]
  from run(3) obtain t where d: "dispatch_mediator L (en_now env) state sc ms
      (nodeaddresses_to_networkstates cs) (cs_prng cs) (cs_block_number cs) (cs_block_hash cs)
      = Inr ((t, evs), m, g)"
    and sane: "\<forall>s. t = Some s \<longrightarrow> sanity_check s m = Inr ()" and new: "new = clear_if_finalized t m"
    unfolding L by (rule state_transition_mediatorD)
  have all: "channels_all (Q i n (cs_our_address cs)) ms"
    using node_invD(3) [OF inv tn] run(2) by (simp add: owners_all_def)
  have "channels_all (Q i n (cs_our_address cs)) m"
  proof (cases "may_forward state sc")
    case True
    show ?thesis
      by (rule channel_law.dispatch_all [OF place all _ _ d])
        (use fresh [OF True] tn run(2) task in \<open>auto simp: forward_fresh_def\<close>)
  next
    case False
    show ?thesis by (rule channel_law.dispatch_quiet_all [OF place all False d])
  qed
  with node_invD(3) [OF inv tn]
  have "owners_all (Q i n) (dict_set (cs_our_address cs) m (channelidentifiers_to_channels tn))"
    by (rule owners_all_dict_set)
  moreover have "mediator_ok L s \<and> mt_secrethash s = h" if "new = Some s" for s
  proof -
    have "t = Some s" using that new by (auto dest: clear_if_finalized_Some)
    note ok = dispatch_ok [OF _ genuine d [unfolded this]]
    obtain s0 where s0: "task_before state sc = Some s0"
      using d \<open>t = Some s\<close>
      by (cases state; cases sc) (auto simp: task_before_def dispatch_mediator_def)
    with ok task sane \<open>t = Some s\<close> show ?thesis by auto
  qed
  ultimately show ?thesis unfolding run(4) by (intro run_task_inv [OF inv tn]) simp_all
qed (use inv in simp)

lemma run_target_inv:
  assumes inv: "node_inv L Q cs" and L: "en_libs env = L"
    and fresh: "state = None \<Longrightarrow> receipt_fresh L cs (token_network_address ci) (channel_identifier ci) sc"
    and run: "run_target env db cs ci a h task_ci state sc = Inr ((cs', evs), db')"
  shows "node_inv L Q cs'"
  using run
proof (cases rule: run_target_cases)
  case (run i tn owner c new w)
  note found = found_channel [OF run(1) node_invD(1) [OF inv]]
  let ?n = "token_network_address ci" and ?k = "channel_identifier ci"
  have all: "owners_all (Q i ?n) (channelidentifiers_to_channels tn)"
    by (rule node_invD(3) [OF inv found(1)])
  have "channel_of cs i ?n owner ?k = Some c" using found by (simp add: channel_of_def)
  then have t: "state = None \<Longrightarrow> target_fresh L c sc" using fresh by (auto simp: receipt_fresh_def)
  from run(2) have d: "dispatch_target L (en_now env) (en_today env) state sc
      \<lparr>tw_channel = c, tw_prng = cs_prng cs, tw_storage = db_storage db, tw_payments = db_payments db\<rparr>
      (cs_block_number cs) = Inr ((new, evs), w)"
    unfolding L by (auto simp: state_transition_target_def res_bind_Inr)
  have "Q i ?n owner ?k (tw_channel w)"
    by (rule channel_law.dispatch_target_law [OF place _ _ d])
      (use owners_allD [OF all found(2)] t in simp_all)
  from owners_all_set [OF all found(2) this] show ?thesis
    unfolding run(3) by (intro run_task_inv [OF inv found(1)]) simp_all
qed (use inv in simp)

lemma paymenttask_inv:
  assumes inv: "node_inv L Q cs" and L: "en_libs env = L" and genuine: "genuine_secret L sc"
    and fresh: "\<And>n s. task_at cs h = Some (MediatorTask n s) \<Longrightarrow> may_forward (Some s) sc
      \<Longrightarrow> forward_fresh L cs n (Some s) sc"
    and run: "subdispatch_to_paymenttask env cs sc h = Inr (cs', evs)"
  shows "node_inv L Q cs'"
proof (cases "task_at cs h")
  case None
  with run inv show ?thesis by (simp add: subdispatch_to_paymenttask_def)
next
  case (Some t)
  note run = run [unfolded subdispatch_to_paymenttask_def Some option.case]
  show ?thesis
  proof (cases t)
    case (InitiatorTask n p)
    with run have "run_initiator env cs n h (Some p) sc = Inr (cs', evs)" by simp
    from run_initiator_inv [OF inv L _ this] show ?thesis by simp
  next
    case (MediatorTask n s)
    have task: "mediator_ok L r \<and> mt_secrethash r = h" if "task_before (Some s) sc = Some r" for r
      using node_invD(2) [OF inv Some] that by (simp add: task_before_def MediatorTask)
    from run MediatorTask have "run_mediator env cs n h (Some s) sc = Inr (cs', evs)" by simp
    from run_mediator_inv [OF inv L task genuine _ this] show ?thesis
      using fresh Some MediatorTask by blast
  next
    case (TargetTask ci s)
    with run obtain db where "run_target env \<lparr>db_storage = None, db_payments = []\<rparr> cs
        \<lparr>chain_identifier = cs_chain_id cs, token_network_address = token_network_address ci,
         channel_identifier = channel_identifier ci\<rparr> (lt_target (tt_transfer s)) h (\<lambda>_. ci) (Some s) sc
        = Inr ((cs', evs), db)"
      by (auto simp: res_bind_Inr)
    from run_target_inv [OF inv L _ this] show ?thesis by simp
  qed
qed

lemma initiatortask_inv:
  assumes inv: "node_inv L Q cs" and L: "en_libs env = L"
    and fresh: "task_at cs h = None \<Longrightarrow> payment_fresh cs n sc"
    and run: "subdispatch_initiatortask env cs sc n h = Inr (cs', evs)"
  shows "node_inv L Q cs'"
proof (cases "cs' = cs")
  case False
  obtain state where run: "run_initiator env cs n h state sc = Inr (cs', evs)"
    and "state = None \<Longrightarrow> task_at cs h = None"
    using initiatortask_cases [OF run False] by metis
  then show ?thesis using run_initiator_inv [OF inv L _ run] fresh by blast
qed (use inv in simp)

lemma mediatortask_inv:
  assumes inv: "node_inv L Q cs" and L: "en_libs env = L" and genuine: "genuine_secret L sc"
    and hash: "\<And>routes r t. sc = ActionInitMediator routes r t \<Longrightarrow> lock_secrethash (lt_lock t) = h"
    and starts: "task_at cs h = None \<Longrightarrow> may_forward None sc \<Longrightarrow> forward_fresh L cs n None sc"
    and runs: "\<And>s. task_at cs h = Some (MediatorTask n s) \<Longrightarrow> may_forward (Some s) sc
      \<Longrightarrow> forward_fresh L cs n (Some s) sc"
    and run: "subdispatch_mediatortask env cs sc n h = Inr (cs', evs)"
  shows "node_inv L Q cs'"
proof (cases "cs' = cs")
  case False
  obtain state where
    run: "run_mediator env cs n h state sc = Inr (cs', evs)" and
    state: "\<And>s. state = Some s \<Longrightarrow> task_at cs h = Some (MediatorTask n s)"
      "state = None \<Longrightarrow> task_at cs h = None"
    using mediatortask_cases [OF run False] by metis
  have task: "mediator_ok L s \<and> mt_secrethash s = h" if "task_before state sc = Some s" for s
  proof (cases state)
    case None
    with that hash new_mediator_ok show ?thesis
      by (cases sc) (auto simp: task_before_def mk_MediatorTransferState_def)
  next
    case (Some r)
    with that node_invD(2) [OF inv state(1) [OF Some]] show ?thesis by (simp add: task_before_def)
  qed
  have "forward_fresh L cs n state sc" if "may_forward state sc"
    using that starts runs state by (cases state) auto
  from run_mediator_inv [OF inv L task genuine this run] show ?thesis .
qed (use inv in simp)

lemma targettask_inv:
  assumes inv: "node_inv L Q cs" and L: "en_libs env = L"
    and fresh: "task_at cs h = None \<Longrightarrow> receipt_fresh L cs n k sc"
    and run: "subdispatch_targettask env db cs sc n k h a = Inr ((cs', evs), db')"
  shows "node_inv L Q cs'"
proof (cases "cs' = cs")
  case False
  obtain state where run: "run_target env db cs
      \<lparr>chain_identifier = cs_chain_id cs, token_network_address = n, channel_identifier = k\<rparr>
      a h ch_canonical_identifier state sc = Inr ((cs', evs), db')"
    and "state = None \<Longrightarrow> task_at cs h = None"
    using targettask_cases [OF run False] by metis
  then show ?thesis using run_target_inv [OF inv L _ run] fresh by simp
qed (use inv in simp)

lemma secrethashes_inv:
  assumes "node_inv L Q cs" "en_libs env = L" "genuine_secret L sc" "\<And>s. \<not> may_forward (Some s) sc"
    and "subdispatch_to_secrethashes env hs cs sc = Inr (cs', evs)"
  shows "node_inv L Q cs'"
  using assms(1,5)
proof (induction hs arbitrary: cs evs)
  case (Cons h hs)
  from Cons.prems(2) obtain cs1 evs1 evs2 where
    1: "subdispatch_to_paymenttask env cs sc h = Inr (cs1, evs1)" and
    2: "subdispatch_to_secrethashes env hs cs1 sc = Inr (cs', evs2)"
    by (auto simp: res_bind_Inr)
  have "node_inv L Q cs1"
    by (rule paymenttask_inv [OF Cons.prems(1) assms(2,3) _ 1]) (use assms(4) in simp)
  from Cons.IH [OF this 2] show ?case .
qed simp

text \<open>The state changes for one task.\<close>

lemma task_change_inv:
  assumes inv: "node_inv L Q cs" and L: "en_libs env = L" and fresh: "task_change_fresh L cs sc"
    and run: "handle_task_change env db cs sc = Inr ((cs', evs), db')"
  shows "node_inv L Q cs'"
proof -
  have pay: "node_inv L Q a"
    if "subdispatch_to_paymenttask env cs sc h = Inr (a, evs)" "genuine_secret L sc" "\<And>s. \<not> may_forward (Some s) sc"
    for a evs h
    using paymenttask_inv [OF inv L that(2) _ that(1)] that(3) by blast
  have target: "node_inv L Q cs'"
    if "subdispatch_targettask env db cs sc (transfer_place t) (received_channel t)
        (lock_secrethash (lt_lock t)) a = Inr ((cs', evs), db')"
      "task_at cs (lock_secrethash (lt_lock t)) = None \<Longrightarrow> receipt_fresh L cs (transfer_place t) (received_channel t) sc"
    for t a
    using targettask_inv [OF inv L that(2,1)] by simp
  note defs = handle_task_change_def Let_def
  show ?thesis
  proof (cases sc)
    case (ActionInitMediator routes r t)
    with run have to: "subdispatch_mediatortask env cs sc (transfer_place t) (lock_secrethash (lt_lock t))
        = Inr (cs', evs)"
      by (auto simp: defs res_bind_Inr)
    show ?thesis
      by (rule mediatortask_inv [OF inv L _ _ _ _ to])
        (use fresh in \<open>auto simp: ActionInitMediator task_change_fresh_def genuine_secret_def may_forward_def\<close>)
  next
    case (ReceiveTransferRefundChange r)
    with run have to: "subdispatch_to_paymenttask env cs sc (lock_secrethash (lt_lock (rtr_transfer r)))
        = Inr (cs', evs)"
      by (auto simp: defs res_bind_Inr)
    show ?thesis
      by (rule paymenttask_inv [OF inv L _ _ to])
        (use fresh in \<open>auto simp: ReceiveTransferRefundChange task_change_fresh_def genuine_secret_def\<close>)
  next
    case (ActionInitTarget r t)
    with run fresh show ?thesis by (intro target) (auto simp: defs task_change_fresh_def)
  next
    case (ActionInitTargetLight r t m)
    with run fresh show ?thesis by (intro target) (auto simp: defs task_change_fresh_def)
  next
    case (ActionInitInitiator d routes)
    with run have to: "subdispatch_initiatortask env cs sc (td_token_network_identifier d) (td_secrethash d)
        = Inr (cs', evs)"
      by (auto simp: defs res_bind_Inr)
    from fresh initiatortask_inv [OF inv L _ to] show ?thesis
      by (simp add: ActionInitInitiator task_change_fresh_def)
  next
    case (ActionInitInitiatorLight d routes m)
    with run have to: "subdispatch_initiatortask env cs sc (td_token_network_identifier d) (td_secrethash d)
        = Inr (cs', evs)"
      by (auto simp: defs res_bind_Inr)
    from fresh initiatortask_inv [OF inv L _ to] show ?thesis
      by (simp add: ActionInitInitiatorLight task_change_fresh_def)
  qed (use run fresh in \<open>auto simp: defs res_bind_Inr task_change_fresh_def genuine_secret_def
         may_forward_def intro!: pay\<close>)
qed

text \<open>
  A node comes online or goes offline: one mediator after the other may forward.  The others' hashes
  stay unused, because a task's locks have its own hash.
\<close>

lemma network_state_step:
  assumes inv: "node_inv L Q cs" and L: "en_libs env = L"
    and sc: "sc = ActionChangeNodeNetworkState address network"
    and fresh: "\<And>n s. task_at cs h = Some (MediatorTask n s) \<Longrightarrow> forward_fresh L cs n (Some s) sc"
    and run: "subdispatch_mediatortask env cs sc n h = Inr (cs', evs)"
    and other: "task_at cs h' = Some (MediatorTask n' r)" "h' \<noteq> h" "forward_fresh L cs n' (Some r) sc"
  shows "forward_fresh L cs' n' (Some r) sc"
proof (cases "cs' = cs")
  case False
  obtain state where run: "run_mediator env cs n h state sc = Inr (cs', evs)"
    and state: "\<And>s. state = Some s \<Longrightarrow> task_at cs h = Some (MediatorTask n s)"
    using mediatortask_cases [OF run False] by metis
  from run show ?thesis
  proof (cases rule: run_mediator_cases)
    case (run i tn new ms m g)
    note tn = network_by_address [OF run(1)]
    from run(3) obtain t where d: "dispatch_mediator L (en_now env) state sc ms
        (nodeaddresses_to_networkstates cs) (cs_prng cs) (cs_block_number cs) (cs_block_hash cs)
        = Inr ((t, evs), m, g)"
      unfolding L by (rule state_transition_mediatorD)
    have "hash_unused m r" if "hash_unused ms r"
    proof (cases state)
      case None
      with d sc that show ?thesis by (simp add: dispatch_mediator_def)
    next
      case (Some s)
      have s: "mediator_ok L s" "mt_secrethash s = h" "mt_secrethash r = h'"
        using node_invD(2) [OF inv state [OF Some]] node_invD(2) [OF inv other(1)] by simp_all
      from d Some sc have "handle_node_change_network_state L s address network ms (cs_prng cs)
          (cs_block_number cs) = Inr ((t, evs), m, g)"
        by (simp add: dispatch_mediator_def)
      then show ?thesis
      proof (cases rule: handle_node_change_cases)
        case (mediated route w c)
        then have "lock_secrethash (lt_lock (wt_transfer w)) = mt_secrethash s"
          using s by (simp add: mediator_ok_def)
        from mediated_other_hash [OF mediated(2) this mediated(6) that] show ?thesis
          using s other(2) by simp
      qed (use that in simp)
    qed
    moreover have "network_at cs' j p = (if j = i \<and> p = n
        then Some (tn\<lparr>channelidentifiers_to_channels :=
          dict_set (cs_our_address cs) m (channelidentifiers_to_channels tn)\<rparr>)
        else network_at cs j p)" for j p
    proof -
      have "network_at (cs\<lparr>cs_prng := g\<rparr>) i n = Some tn" using tn by (simp add: network_at_def)
      from network_at_set [OF this] show ?thesis unfolding run(4)
        by (simp add: network_at_def put_task_def split: option.split)
    qed
    moreover have "cs_our_address cs' = cs_our_address cs" unfolding run(4) by simp
    ultimately show ?thesis
      using other(3) tn run(2) by (auto simp: forward_fresh_def task_before_def sc change_fresh_def update_conv')
  qed (use other(3) in simp)
qed (use other(3) in simp)

lemma network_state_loop_inv:
  assumes "node_inv L Q cs" "en_libs env = L" "sc = ActionChangeNodeNetworkState address network"
    and "distinct hs"
    and "\<And>h n s. h \<in> set hs \<Longrightarrow> task_at cs h = Some (MediatorTask n s) \<Longrightarrow> forward_fresh L cs n (Some s) sc"
    and "network_state_loop env hs cs sc = Inr (cs', evs)"
  shows "node_inv L Q cs'"
  using assms(1,4-6)
proof (induction hs arbitrary: cs evs)
  case (Cons h hs)
  from Cons.prems(4) obtain t cs1 evs1 evs2 where
    1: "subdispatch_mediatortask env cs sc (task_network t) h = Inr (cs1, evs1)" and
    2: "network_state_loop env hs cs1 sc = Inr (cs', evs2)"
    by (auto simp: res_bind_Inr split: option.splits if_splits)
  have fresh: "forward_fresh L cs n (Some s) sc" if "task_at cs h = Some (MediatorTask n s)" for n s
    using Cons.prems(3) [of h n s] that by simp
  have inv: "node_inv L Q cs1"
    by (rule mediatortask_inv [OF Cons.prems(1) assms(2) _ _ _ _ 1])
      (use assms(3) fresh in \<open>auto simp: genuine_secret_def may_forward_def\<close>)
  have "forward_fresh L cs1 n (Some s) sc" if "k \<in> set hs" "task_at cs1 k = Some (MediatorTask n s)" for k n s
  proof -
    have k: "k \<noteq> h" using that(1) Cons.prems(2) by auto
    have "task_at cs k = Some (MediatorTask n s)"
      using mediatortask_frame(1) [OF 1] that(2) k by (simp add: keeps_tasks_def)
    from network_state_step [OF Cons.prems(1) assms(2,3) fresh 1 this k] show ?thesis
      using Cons.prems(3) [of k n s] that(1) \<open>task_at cs k = _\<close> by simp
  qed
  with Cons.IH [OF inv _ _ 2] Cons.prems(2) show ?case by simp
qed simp

end

section \<open>The laws of the places, for the channels that a state change names\<close>

text \<open>A channel that the log of its opening brings is a lawful one.\<close>

definition lawful_opening ::
    "(bytes \<Rightarrow> bytes \<Rightarrow> bytes \<Rightarrow> int \<Rightarrow> NettingChannelState \<Rightarrow> bool) \<Rightarrow> 'g ChainState \<Rightarrow> network_change \<Rightarrow> bool"
  where
  "lawful_opening Q cs change \<longleftrightarrow>
     (\<forall>tx c b h i n. change = ContractReceiveChannelNew tx c b h \<longrightarrow>
        channel_of cs i n (es_address (our_state c)) (ch_identifier c) = None \<longrightarrow>
        Q i n (es_address (our_state c)) (ch_identifier c) c)"

context place_law
begin

lemma to_channel_law:
  assumes all: "owners_all (Q i n) (channelidentifiers_to_channels tn)"
    and run: "subdispatch_to_channel_by_id_and_address same tn sc ci bn bh a = Inr (tn', out)"
  shows "owners_all (Q i n) (channelidentifiers_to_channels tn')"
proof (cases "Option.bind a (\<lambda>a. find_channel same tn a ci)")
  case None
  with run all show ?thesis by (simp add: subdispatch_to_channel_by_id_and_address_def)
next
  case (Some found)
  then obtain owner c where c: "Option.bind a (\<lambda>a. find_channel same tn a ci) = Some (owner, c)"
    by (cases found) simp
  then have at: "channel_at (channelidentifiers_to_channels tn) owner (channel_identifier ci) = Some c"
    using find_channel_at by (auto simp: bind_eq_Some_conv)
  from run c obtain new evs where new: "state_transition c sc bn bh = Inr (new, evs)"
    by (auto simp: subdispatch_to_channel_by_id_and_address_def res_bind_Inr)
  show ?thesis
  proof (cases new)
    case None
    with run c new all show ?thesis
      by (auto simp: subdispatch_to_channel_by_id_and_address_def owners_all_def channels_all_def
          update_conv' delete_conv' Let_def case_prod_beta split: if_splits option.splits)
  next
    case (Some c')
    have "Q i n owner (channel_identifier ci) c'"
      by (rule channel_law.step [OF place owners_allD [OF all at] channel_step.chain])
        (use new Some in simp)
    from owners_all_set [OF all at this] run c new Some show ?thesis
      by (auto simp: subdispatch_to_channel_by_id_and_address_def Let_def case_prod_beta)
  qed
qed

lemma channelnew_law:
  assumes all: "owners_all (Q i n) (channelidentifiers_to_channels tn)"
    and new: "channel_at (channelidentifiers_to_channels tn) (es_address (our_state c)) (ch_identifier c) = None
      \<Longrightarrow> Q i n (es_address (our_state c)) (ch_identifier c) c"
    and run: "handle_channelnew N tn c = Inr (tn', out)"
  shows "owners_all (Q i n) (channelidentifiers_to_channels tn')"
proof -
  let ?a = "es_address (our_state c)" and ?k = "ch_identifier c"
  define ms where "ms = (case dict_get (channelidentifiers_to_channels tn) ?a of None \<Rightarrow> [] | Some ms \<Rightarrow> ms)"
  have ms: "channels_all (Q i n ?a) ms"
    using all by (auto simp: ms_def owners_all_def channels_all_def split: option.split)
  have "channelidentifiers_to_channels tn' = dict_set ?a ms (channelidentifiers_to_channels tn) \<and> dict_has ms ?k \<or>
      \<not> dict_has ms ?k \<and> channelidentifiers_to_channels tn' =
        dict_set ?a (dict_set ?k c ms) (dict_set ?a ms (channelidentifiers_to_channels tn))"
    using run by (auto simp: handle_channelnew_def ms_def [symmetric] Let_def split: if_splits)
  then show ?thesis
  proof (elim disjE conjE)
    assume "\<not> dict_has ms ?k" and tn': "channelidentifiers_to_channels tn' =
        dict_set ?a (dict_set ?k c ms) (dict_set ?a ms (channelidentifiers_to_channels tn))"
    then have "channel_at (channelidentifiers_to_channels tn) ?a ?k = None"
      by (auto simp: channel_at_def ms_def dict_has_def split: option.splits)
    then have "channels_all (Q i n ?a) (dict_set ?k c ms)" by (intro channels_all_set [OF ms] new)
    then show ?thesis unfolding tn' by (intro owners_all_dict_set all ms)
  qed (use owners_all_dict_set [OF all ms] in simp)
qed

lemma remove_route_channels:
  "remove_route N tn k = Inr (tn', a) \<Longrightarrow> channelidentifiers_to_channels tn' = channelidentifiers_to_channels tn"
  by (auto simp: remove_route_def Let_def split: option.splits)

lemma network_law:
  assumes all: "owners_all (Q i n) (channelidentifiers_to_channels tn)"
    and new: "\<And>tx c b h. change = ContractReceiveChannelNew tx c b h \<Longrightarrow>
      channel_at (channelidentifiers_to_channels tn) (es_address (our_state c)) (ch_identifier c) = None
      \<Longrightarrow> Q i n (es_address (our_state c)) (ch_identifier c) c"
    and run: "state_transition_network N same tn change bn bh = Inr (tn', out)"
  shows "owners_all (Q i n) (channelidentifiers_to_channels tn')"
proof (cases change)
  case (ChannelChange sc)
  have closed: "owners_all (Q i n) (channelidentifiers_to_channels tn')"
    if "handle_closed_network N same tn sc ci bn bh = Inr (tn', out)" for ci
  proof -
    from that obtain tn1 a where 1: "remove_route N tn (channel_identifier ci) = Inr (tn1, a)"
      and 2: "subdispatch_to_channel_by_id_and_address same tn1 sc ci bn bh a = Inr (tn', out)"
      by (auto simp: handle_closed_network_def res_bind_Inr)
    show ?thesis
      by (rule to_channel_law [OF _ 2]) (use all remove_route_channels [OF 1] in simp)
  qed
  show ?thesis
    using run all unfolding state_transition_network_def Let_def ChannelChange
    by (cases sc) (auto intro: closed to_channel_law [OF all] simp: handle_updated_transfer_network_def
        handle_batch_unlock_network_def channels_by_identifier_def)
next
  case (ContractReceiveChannelNew tx c b h)
  with run have "handle_channelnew N tn c = Inr (tn', out)" by (simp add: state_transition_network_def)
  from channelnew_law [OF all new [OF ContractReceiveChannelNew] this] show ?thesis .
next
  case (ContractReceiveRouteNew tx ci p q b h)
  with run all show ?thesis by (auto simp: state_transition_network_def handle_newroute_def Let_def)
next
  case (ContractReceiveRouteClosed tx ci b h)
  with run all show ?thesis
    by (auto simp: state_transition_network_def handle_closeroute_def res_bind_Inr dest: remove_route_channels)
qed

lemma network_action_inv:
  assumes inv: "node_inv L Q cs" and new: "lawful_opening Q cs change"
    and run: "handle_token_network_action env cs change n = Inr (cs', evs)"
  shows "node_inv L Q cs'"
proof (cases "get_token_network_by_address cs n")
  case None
  with run inv show ?thesis by (simp add: handle_token_network_action_def)
next
  case (Some found)
  then obtain i tn where found: "get_token_network_by_address cs n = Some (i, tn)" by (cases found) simp
  note tn = network_by_address [OF found]
  from run found obtain tn' out where
    step: "state_transition_network (en_networkx env) (en_same env) tn change
      (cs_block_number cs) (cs_block_hash cs) = Inr (tn', out)" and
    cs': "cs' = set_token_network i n tn' cs"
    by (auto simp: handle_token_network_action_def res_bind_Inr)
  have "owners_all (Q i n) (channelidentifiers_to_channels tn')"
    by (rule network_law [OF node_invD(3) [OF inv tn] _ step])
      (use new tn in \<open>auto simp: lawful_opening_def channel_of_def\<close>)
  from set_network_inv [OF inv tn this] show ?thesis by (simp add: cs')
qed

end

section \<open>The laws of the places, for all channels\<close>

text \<open>A loop over the values of a dict keeps the keys and gives each value its result.\<close>

lemma over_values_keys: "over_values f d s = Inr (d', s') \<Longrightarrow> map fst d' = map fst d"
  unfolding over_values_def by (induction d arbitrary: s d') (auto simp: res_bind_Inr)

lemma over_values_get:
  "over_values f d s = Inr (d', s') \<Longrightarrow> dict_get d' k = Some y
   \<Longrightarrow> \<exists>x t t'. dict_get d k = Some x \<and> f x t = Inr (y, t')"
  unfolding over_values_def by (induction d arbitrary: s d') (auto simp: res_bind_Inr split: if_splits, blast)

context place_law
begin

lemma to_all_law:
  assumes all: "owners_all (Q i n) m"
    and run: "over_values (over_values (dispatch_to_channel sc bn bh)) m evs = Inr (m', evs')"
  shows "owners_all (Q i n) m'"
proof -
  have "Q i n a k c'" if c': "channel_at m' a k = Some c'" for a k c'
  proof -
    from c' obtain ms' where ms': "dict_get m' a = Some ms'" "dict_get ms' k = Some c'"
      by (auto simp: channel_at_def bind_eq_Some_conv)
    from over_values_get [OF run ms'(1)] obtain ms t t' where ms: "dict_get m a = Some ms"
      "over_values (dispatch_to_channel sc bn bh) ms t = Inr (ms', t')" by blast
    from over_values_get [OF ms(2) ms'(2)] obtain c u u' where c: "dict_get ms k = Some c"
      "dispatch_to_channel sc bn bh c u = Inr (c', u')" by blast
    have "channel_at m a k = Some c" using ms(1) c(1) by (rule channel_atI)
    then have P: "Q i n a k c" by (rule owners_allD [OF all])
    from c(2) obtain new more where new: "state_transition c sc bn bh = Inr (new, more)"
      "c' = (case new of Some x \<Rightarrow> x | None \<Rightarrow> c)"
      by (auto simp: dispatch_to_channel_def res_bind_Inr)
    with P show ?thesis
      using channel_law.step [OF place P channel_step.chain] by (cases new) auto
  qed
  then show ?thesis by (simp add: owners_all_iff)
qed

lemma all_channels_inv:
  fixes cs cs' :: "'g ChainState"
  assumes inv: "node_inv L Q cs" and run: "subdispatch_to_all_channels cs sc bn bh = Inr (cs', evs)"
  shows "node_inv L Q cs'"
proof -
  define per_network where "per_network = (\<lambda>(tn :: 'g TokenNetworkState) (events :: event list).
    res_bind (over_values (over_values (dispatch_to_channel sc bn bh)) (channelidentifiers_to_channels tn) events)
      (\<lambda>(ms, events). Inr (tn\<lparr>channelidentifiers_to_channels := ms\<rparr>, events)))"
  define per_payment where "per_payment = (\<lambda>(pn :: 'g PaymentNetworkState) (events :: event list).
    res_bind (over_values per_network (tokenidentifiers_to_tokennetworks pn) events)
      (\<lambda>(tns, events). Inr (pn\<lparr>tokenidentifiers_to_tokennetworks := tns\<rparr>, events)))"
  from run obtain pns where
    pns: "over_values per_payment (identifiers_to_paymentnetworks cs) [] = Inr (pns, evs)" and
    cs': "cs' = cs\<lparr>identifiers_to_paymentnetworks := pns\<rparr>"
    by (auto simp: subdispatch_to_all_channels_def per_payment_def per_network_def res_bind_Inr)
  have "owners_all (Q i n) (channelidentifiers_to_channels tn')" if tn': "network_at cs' i n = Some tn'" for i n tn'
  proof -
    from tn' obtain pn' where pn': "dict_get pns i = Some pn'"
      "dict_get (tokenidentifiers_to_tokennetworks pn') n = Some tn'"
      by (auto simp: network_at_def cs' bind_eq_Some_conv)
    from over_values_get [OF pns pn'(1)] obtain pn t t' where
      pn: "dict_get (identifiers_to_paymentnetworks cs) i = Some pn" "per_payment pn t = Inr (pn', t')"
      by blast
    then obtain tns u where "over_values per_network (tokenidentifiers_to_tokennetworks pn) t = Inr (tns, u)"
      "dict_get tns n = Some tn'"
      using pn'(2) by (auto simp: per_payment_def res_bind_Inr)
    from over_values_get [OF this] obtain tn v v' where
      tn: "dict_get (tokenidentifiers_to_tokennetworks pn) n = Some tn" "per_network tn v = Inr (tn', v')"
      by blast
    have "owners_all (Q i n) (channelidentifiers_to_channels tn)"
      by (rule node_invD(3) [OF inv]) (use pn tn in \<open>simp add: network_at_def\<close>)
    from to_all_law [OF this] tn(2) show ?thesis by (auto simp: per_network_def res_bind_Inr)
  qed
  moreover have "tasks_ok L cs'"
    using inv over_values_keys [OF pns] by (simp add: node_inv_def tasks_ok_def dict_ok_def cs')
  ultimately show ?thesis by (simp add: node_inv_def node_all_def)
qed

lemma block_inv:
  assumes inv: "node_inv L Q cs" and L: "en_libs env = L"
    and run: "handle_block_node env cs n gas h = Inr (cs', evs)"
  shows "node_inv L Q cs'"
proof -
  from run obtain cs1 evs1 evs2 where
    1: "subdispatch_to_all_channels (cs\<lparr>cs_block_number := n, cs_block_hash := h\<rparr>) (Block n gas h) n h
      = Inr (cs1, evs1)" and
    2: "subdispatch_to_secrethashes env (map fst (secrethashes_to_task cs1)) cs1 (Block n gas h)
      = Inr (cs', evs2)"
    by (auto simp: handle_block_node_def Let_def res_bind_Inr subdispatch_to_all_lockedtransfers_def)
  have "node_inv L Q (cs\<lparr>cs_block_number := n, cs_block_hash := h\<rparr>)" by (rule node_inv_same [OF inv]) simp_all
  from all_channels_inv [OF this 1] have "node_inv L Q cs1" .
  from secrethashes_inv [OF this L _ _ 2] show ?thesis
    by (simp add: genuine_secret_def may_forward_def)
qed

lemma network_state_inv:
  assumes inv: "node_inv L Q cs" and L: "en_libs env = L"
    and fresh: "task_change_fresh L cs (ActionChangeNodeNetworkState address network)"
    and run: "handle_node_change_network_state_node env cs address network = Inr (cs', evs)"
  shows "node_inv L Q cs'"
proof -
  let ?cs = "cs\<lparr>nodeaddresses_to_networkstates :=
    dict_set address network (nodeaddresses_to_networkstates cs)\<rparr>"
  have "node_inv L Q ?cs" by (rule node_inv_same [OF inv]) simp_all
  moreover have "distinct (map fst (secrethashes_to_task cs))"
    using inv by (simp add: node_inv_def tasks_ok_def dict_ok_def)
  moreover have "forward_fresh L ?cs n (Some s) (ActionChangeNodeNetworkState address network)"
    if "task_at ?cs h = Some (MediatorTask n s)" for h n s
    using that fresh by (auto simp: task_change_fresh_def forward_fresh_def network_at_def)
  ultimately show ?thesis
    using network_state_loop_inv [OF _ L refl _ _ run [unfolded handle_node_change_network_state_node_def]]
    by blast
qed

lemma closed_inv:
  fixes cs cs' :: "'g ChainState"
  assumes inv: "node_inv L Q cs"
    and run: "handle_contract_receive_channel_closed env cs sc ci a = Inr (cs', evs)"
  shows "node_inv L Q cs'"
proof -
  from run obtain found :: "(bytes \<times> 'g TokenNetworkState \<times> bytes \<times> NettingChannelState) option" where run: "handle_token_network_action env
      (case found of None \<Rightarrow> cs | Some (i, tn, owner, c) \<Rightarrow> cs\<lparr>queueids_to_queues :=
         dict_del (es_address (partner_state c), channel_identifier ci) (queueids_to_queues cs)\<rparr>)
      (ChannelChange sc) (token_network_address ci) = Inr (cs', evs)"
    by (auto simp: handle_contract_receive_channel_closed_def res_bind_Inr)
  show ?thesis
    by (rule network_action_inv [OF node_inv_same [OF inv] _ run])
      (auto simp: lawful_opening_def split: option.split)
qed

end

section \<open>A whole transition\<close>

text \<open>A new token network or payment network has no channels yet.\<close>

definition no_channels :: "'g PaymentNetworkState \<Rightarrow> bool" where
  "no_channels pn \<longleftrightarrow>
     (\<forall>n tn. dict_get (tokenidentifiers_to_tokennetworks pn) n = Some tn \<longrightarrow>
        channelidentifiers_to_channels tn = [])"

lemma set_payment_network_inv:
  assumes inv: "node_inv L Q cs"
    and pns: "identifiers_to_paymentnetworks cs' = dict_set i pn (identifiers_to_paymentnetworks cs)"
    and tasks: "secrethashes_to_task cs' = secrethashes_to_task cs"
    and pn: "\<And>n tn. dict_get (tokenidentifiers_to_tokennetworks pn) n = Some tn \<Longrightarrow>
      network_at cs i n = Some tn \<or> channelidentifiers_to_channels tn = []"
  shows "node_inv L Q cs'"
proof -
  have "owners_all (Q j n) (channelidentifiers_to_channels tn)" if "network_at cs' j n = Some tn" for j n tn
  proof (cases "j = i")
    case True
    with that have "dict_get (tokenidentifiers_to_tokennetworks pn) n = Some tn"
      by (simp add: network_at_def pns update_conv')
    from pn [OF this] True show ?thesis using node_invD(3) [OF inv] by (auto simp: owners_all_def)
  next
    case False
    with that have "network_at cs j n = Some tn" by (simp add: network_at_def pns update_conv')
    then show ?thesis by (rule node_invD(3) [OF inv])
  qed
  with inv show ?thesis by (simp add: node_inv_def tasks_ok_def node_all_def pns tasks)
qed

lemma maybe_add_inv:
  assumes inv: "node_inv L Q cs" and tn: "channelidentifiers_to_channels tn = []"
  shows "node_inv L Q (maybe_add_tokennetwork i tn cs)"
proof -
  obtain pno prev where nets: "get_networks cs i (tn_token_address tn) = (pno, prev)"
    by (cases "get_networks cs i (tn_token_address tn)")
  then have pno: "pno = dict_get (identifiers_to_paymentnetworks cs) i"
    by (simp add: get_networks_def Let_def)
  show ?thesis
  proof (cases prev)
    case None
    show ?thesis
      by (rule set_payment_network_inv [OF inv])
        (use nets pno None tn in \<open>auto simp: maybe_add_tokennetwork_def Let_def mk_PaymentNetworkState_def
           network_at_def update_conv' split: option.splits if_splits\<close>)
  qed (use nets inv in \<open>simp add: maybe_add_tokennetwork_def\<close>)
qed

text \<open>What is assumed of a state change.\<close>

definition change_lawful ::
    "libs \<Rightarrow> (bytes \<Rightarrow> bytes \<Rightarrow> bytes \<Rightarrow> int \<Rightarrow> NettingChannelState \<Rightarrow> bool) \<Rightarrow> 'g ChainState \<Rightarrow> 'g node_change
     \<Rightarrow> bool" where
  "change_lawful L Q cs change \<longleftrightarrow>
     (case change of
        NetworkChange (ChannelChange sc) \<Rightarrow> task_change_fresh L cs sc
      | NetworkChange c \<Rightarrow> lawful_opening Q cs c
      | ActionNewTokenNetwork _ tn \<Rightarrow> channelidentifiers_to_channels tn = []
      | ContractReceiveNewTokenNetwork _ _ tn _ _ \<Rightarrow> channelidentifiers_to_channels tn = []
      | ContractReceiveNewPaymentNetwork _ pn _ _ \<Rightarrow> no_channels pn
      | _ \<Rightarrow> True)"

lemma update_queues_inv:
  assumes "node_inv L Q cs" "update_queues cs evs change = Inr cs'"
  shows "node_inv L Q cs'"
proof -
  have "identifiers_to_paymentnetworks (fold enqueue es a) = identifiers_to_paymentnetworks a \<and>
      secrethashes_to_task (fold enqueue es a) = secrethashes_to_task a" for es and a :: "'a ChainState"
    by (induction es arbitrary: a) (simp_all add: enqueue_def Let_def split: option.split)
  then show ?thesis
    using assms by (intro node_inv_same [OF assms(1)]) (auto simp: update_queues_def res_bind_Inr)
qed

lemma confirmed_inv:
  assumes "node_inv L Q cs"
  shows "node_inv L Q (handle_delivered s i cs)" "node_inv L Q (handle_processed s i cs)"
proof -
  have one: "identifiers_to_paymentnetworks (inplace_delete_message_queue s i q a) = identifiers_to_paymentnetworks a \<and>
      secrethashes_to_task (inplace_delete_message_queue s i q a) = secrethashes_to_task a"
    for q and a :: "'a ChainState"
    by (simp add: inplace_delete_message_queue_def Let_def split: option.split list.split)
  have all: "identifiers_to_paymentnetworks (fold (inplace_delete_message_queue s i) qs a) = identifiers_to_paymentnetworks a \<and>
      secrethashes_to_task (fold (inplace_delete_message_queue s i) qs a) = secrethashes_to_task a"
    for qs and a :: "'a ChainState"
    by (induction qs arbitrary: a) (simp_all add: one)
  show "node_inv L Q (handle_delivered s i cs)" "node_inv L Q (handle_processed s i cs)"
    by (rule node_inv_same [OF assms]; simp add: handle_delivered_def handle_processed_def one all)+
qed

context place_law
begin

lemma network_change_inv:
  fixes cs cs' :: "'g ChainState"
  assumes inv: "node_inv L Q cs" and L: "en_libs env = L"
    and ok: "change_lawful L Q cs (NetworkChange change)"
    and run: "handle_network_change env db cs change = Inr ((cs', evs), db')"
  shows "node_inv L Q cs'"
proof (cases change)
  case (ChannelChange sc)
  then have fresh: "task_change_fresh L cs sc" using ok by (simp add: change_lawful_def)
  have action: "node_inv L Q a"
    if "handle_token_network_action env cs (ChannelChange sc') n = Inr (a, es)" for sc' n a es
    by (rule network_action_inv [OF inv _ that]) (simp add: lawful_opening_def)
  have by_id: "node_inv L Q a"
    if "subdispatch_by_canonical_id env cs ci (ChannelChange (ActionChannelSetFee ci' f)) = Inr (a, es)"
    for ci ci' f a es
    using that inv
    by (auto simp: subdispatch_by_canonical_id_def state_transition_network_def split: option.splits)
  show ?thesis
    using run fresh unfolding handle_network_change_def Let_def ChannelChange
    by (cases sc) (auto simp: res_bind_Inr intro: action by_id block_inv [OF inv L] closed_inv [OF inv]
        network_state_inv [OF inv L] task_change_inv [OF inv L])
qed (use run ok network_action_inv [OF inv] in \<open>auto simp: handle_network_change_def Let_def res_bind_Inr
      change_lawful_def\<close>)

lemma transition_inv:
  fixes cs cs' :: "'g ChainState"
  assumes inv: "node_inv L Q cs" and L: "en_libs env = L" and ok: "change_lawful L Q cs change"
    and run: "state_transition_node env db (Some cs) change = Inr ((cs', evs), db')"
  shows "node_inv L Q cs'"
proof -
  from run obtain a where a: "handle_state_change env db (Some cs) change = Inr ((a, evs), db')"
    and upd: "update_queues a evs change = Inr cs'"
    by (auto simp: state_transition_node_def res_bind_Inr)
  have "node_inv L Q a"
  proof (cases change)
    case (NetworkChange c)
    with a have "handle_network_change env db cs c = Inr ((a, evs), db')" by (simp add: handle_state_change_def)
    from network_change_inv [OF inv L _ this] ok show ?thesis by (simp add: NetworkChange)
  next
    case (ContractReceiveNewPaymentNetwork tx pn b h)
    with ok have pn: "channelidentifiers_to_channels tn = []"
      if "dict_get (tokenidentifiers_to_tokennetworks pn) n = Some tn" for n tn
      using that by (simp add: change_lawful_def no_channels_def)
    have "node_inv L Q (handle_new_payment_network pn cs)"
      using inv set_payment_network_inv [OF inv _ _ disjI2 [OF pn]]
      by (simp add: handle_new_payment_network_def)
    with a ContractReceiveNewPaymentNetwork show ?thesis by (auto simp: handle_state_change_def)
  qed (use a ok inv in \<open>auto simp: handle_state_change_def change_lawful_def handle_chain_init_def
         handle_new_token_network_def handle_tokenadded_def maybe_add_inv confirmed_inv
         handle_leave_all_networks_def handle_init_unlock_light_def
         handle_update_transport_authdata_def Let_def res_bind_Inr split: option.splits if_splits
         intro: node_inv_same [OF inv]\<close>)
  from update_queues_inv [OF this upd] show ?thesis .
qed

end

section \<open>The two laws\<close>

text \<open>
  A node whose channels are reachable, under their identifiers, and whose mediators are well formed;
  and the channels that steps have led to from what was at their place before.
\<close>

definition node_ok :: "libs \<Rightarrow> 'g ChainState \<Rightarrow> bool" where
  "node_ok L cs \<longleftrightarrow> node_inv L (\<lambda>_ _ _. node_channel L) cs"

definition came_from ::
    "libs \<Rightarrow> 'g ChainState \<Rightarrow> 'g node_change \<Rightarrow> bytes \<Rightarrow> bytes \<Rightarrow> bytes \<Rightarrow> int \<Rightarrow> NettingChannelState \<Rightarrow> bool"
  where
  "came_from L cs change i n a k c \<longleftrightarrow>
     node_channel L k c \<and>
     (\<exists>c0. (channel_of cs i n a k = Some c0 \<or>
            channel_of cs i n a k = None \<and>
            (\<exists>tx b h. change = NetworkChange (ContractReceiveChannelNew tx c0 b h))) \<and>
        (channel_step L)\<^sup>*\<^sup>* c0 c)"

interpretation node_place: place_law L "\<lambda>_ _ _. node_channel L" for L
  by (unfold_locales) (use node.step node.sound node.copies node.named in auto)

interpretation came_place: place_law L "came_from L cs change" for L cs change
proof (unfold_locales)
  fix i n a k c c'
  show "came_from L cs change i n a k c \<Longrightarrow> channel_step L c c' \<Longrightarrow> came_from L cs change i n a k c'"
    unfolding came_from_def using node.step rtranclp.rtrancl_into_rtrancl by metis
qed (auto simp: came_from_def node.sound node.copies node.named)

lemma node_ok_came_from: "node_ok L cs \<Longrightarrow> node_inv L (came_from L cs change) cs"
  by (auto simp: node_ok_def node_inv_def node_all_iff came_from_def)

lemma lawful_came_from:
  "change_lawful L (\<lambda>_ _ _. node_channel L) cs change \<Longrightarrow> change_lawful L (came_from L cs change) cs change"
  by (auto simp: change_lawful_def lawful_opening_def came_from_def split: node_change.splits network_change.splits)

lemma new_node_ok: "node_ok L (mk_ChainState g n h a k)"
  by (simp add: node_ok_def node_inv_def tasks_ok_def node_all_def network_at_def mk_ChainState_def)

end
