(* ===== verification/NodeProperties.thy ===== *)
theory NodeProperties
  imports NodeSamples NodeChannels
begin

text \<open>
  The properties of a node's state machine: no message is lost before it is confirmed, a transaction
  stays pending until the chain has settled it, a secrethash has one role, and what the update of the
  transport data does.
\<close>

section \<open>Messages\<close>

text \<open>C23. No message of a node is lost before it is confirmed: after any state change each queue has its
  old messages in their order, without those that a confirmation of their recipient names, and then
  the new messages for that recipient and channel in the order of the events.  The one exception is a
  log that closes the channel, which drops the queue of its messages.\<close>

theorem messages_wait_for_confirmation:
  assumes "state_transition_node env db (Some cs) change = Inr ((cs', evs), db')"
  shows "queue_of cs' q = filter (\<lambda>e. \<not> confirmed change q e) (queue_of cs q) @
      filter (\<lambda>e. queue_id e = Some q) evs \<or>
    closed_channel change = Some (snd q) \<and> queue_of cs' q = filter (\<lambda>e. queue_id e = Some q) evs"
  using assms by (rule transition_frame)

theorem messages_wait_for_confirmation_witness:
  "queue_of (bob_node sample_bob_sent [(sample_secrethash, bob_task)] 5
       [((alice, 1), [SendLockedTransfer (sample_event bob alice 4)])] []) (alice, 1) =
     queue_of (bob_node sample_bob [] 4 [] []) (alice, 1) @ [SendLockedTransfer (sample_event bob alice 4)]"
  using messages_wait_for_confirmation [OF bob_node_starts, of "(alice, 1)"]
  by (simp add: confirmed_def closed_channel_def queue_id_def sample_event_def)

section \<open>Transactions\<close>

text \<open>C25. A transaction that a node has asked for stays pending until a log of the chain settles it: its
  effect is there (the channel is closed or settled, its transfer updated with the same nonce, the
  secret revealed), it is too late (the channel is settled), or its expiration has passed when a log
  arrives; every other pending transaction stays in its place, and the new ones come after them.\<close>

theorem transactions_pending_until_settled:
  assumes "state_transition_node env db (Some cs) change = Inr ((cs', evs), db')"
  shows "pending_transactions cs' =
    filter (\<lambda>t. \<not> superseded (cs_block_number cs') change t) (pending_transactions cs) @
    filter is_contract_send evs"
  using assms by (rule transition_frame)

definition sample_reveal_log :: ContractReceiveSecretReveal where
  "sample_reveal_log =
     \<lparr>csr_transaction_hash = [], csr_secret_registry_address = [], csr_secrethash = sample_secrethash,
      csr_secret = sample_secret, csr_block_number = 3, csr_block_hash = []\<rparr>"

abbreviation sample_pending :: "event list" where
  "sample_pending \<equiv>
     [ContractSendSecretReveal 90 sample_secret [], ContractSendChannelClose sample_ci None [] []]"

lemma bob_node_learns:
  "state_transition_node sample_env sample_db (Some (bob_node sample_bob [] 4 [] sample_pending))
     (NetworkChange (ChannelChange (ContractReceiveSecretRevealChange sample_reveal_log))) =
   Inr ((bob_node sample_bob [] 4 [] [ContractSendChannelClose sample_ci None [] []], []), sample_db)"
  by (simp add: state_transition_node_def handle_state_change_def handle_network_change_def
      handle_task_change_def subdispatch_to_paymenttask_def update_queues_def
      is_transaction_pending_def is_transaction_effect_satisfied_def is_transaction_invalidated_def
      is_transaction_expired_def sample_reveal_log_def) (simp add: bob_node_def)

theorem transactions_pending_until_settled_witness:
  "[ContractSendChannelClose sample_ci None [] []] =
     filter (\<lambda>t. \<not> superseded 0 (NetworkChange (ChannelChange
       (ContractReceiveSecretRevealChange sample_reveal_log)) :: (bytes \<times> bytes) list node_change) t)
       sample_pending"
  using transactions_pending_until_settled [OF bob_node_learns] by simp

section \<open>One task for each secrethash\<close>


text \<open>Alice's transfer to carol, with the secrethash of bob's payment, reaches bob's node.\<close>

lemma bob_node_ignores:
  "state_transition_node sample_env sample_db
     (Some (bob_node sample_bob_sent [(sample_secrethash, bob_task)] 5 [] []))
     (NetworkChange (ChannelChange med_init)) =
   Inr ((bob_node sample_bob_sent [(sample_secrethash, bob_task)] 5 [] [], []), sample_db)"
proof -
  have "lock_secrethash (lt_lock med_message) = sample_secrethash"
    by (simp add: med_message_def sample_message_def sample_lock_def)
  then show ?thesis
    by (simp add: state_transition_node_def handle_state_change_def handle_network_change_def
        handle_task_change_def subdispatch_mediatortask_def update_queues_def)
qed


section \<open>The channels of a node\<close>


lemma bob_node_network:
  "network_at (bob_node c tasks g queues pending) i n =
     (if i = sample_payment_network \<and> n = sample_token_network then Some (bob_network c) else None)"
  by (auto simp: network_at_def bob_node_def mk_PaymentNetworkState_def bob_network_def)


section \<open>The transport data of light clients\<close>

text \<open>A list whose rest has only the address is left as it is.\<close>

lemma authdata_loop_added:
  assumes "drop k clients = replicate j \<lparr>lct_address = a, lct_auth_data = d\<rparr>"
  shows "authdata_loop k a d clients = clients"
  using assms
proof (induction j arbitrary: k)
  case 0
  then show ?case by (simp add: authdata_loop.simps [of k])
next
  case (Suc j)
  from Suc.prems have k: "k < length clients"
    by (metis drop_all not_le replicate_Suc list.distinct(1))
  with Suc.prems have e: "clients ! k = \<lparr>lct_address = a, lct_auth_data = d\<rparr>"
      "drop (Suc k) clients = replicate j \<lparr>lct_address = a, lct_auth_data = d\<rparr>"
    by (simp_all add: Cons_nth_drop_Suc [OF k, symmetric])
  have "clients[k := \<lparr>lct_address = a, lct_auth_data = d\<rparr>] = clients"
    using e(1) by (metis list_update_id)
  with k e Suc.IH [of "Suc k"] show ?case by (simp add: authdata_loop.simps [of k])
qed

abbreviation with_authdata ::
    "bytes \<Rightarrow> string \<Rightarrow> LightClientTransportState \<Rightarrow> LightClientTransportState" where
  "with_authdata a d c \<equiv> (if lct_address c = a then c\<lparr>lct_auth_data := d\<rparr> else c)"

lemma authdata_loop_closed:
  "authdata_loop (length pre) a d (pre @ clients @ replicate m \<lparr>lct_address = a, lct_auth_data = d\<rparr>) =
     pre @ map (with_authdata a d) clients @
     replicate (m + length (filter (\<lambda>c. lct_address c \<noteq> a) clients))
       \<lparr>lct_address = a, lct_auth_data = d\<rparr>"
proof (induction clients arbitrary: pre m)
  case Nil
  show ?case by (simp add: authdata_loop_added [where j = m])
next
  case (Cons c cs)
  show ?case
  proof (cases "lct_address c = a")
    case True
    then show ?thesis using Cons.IH [of "pre @ [c\<lparr>lct_auth_data := d\<rparr>]" m]
      by (subst authdata_loop.simps) (simp add: list_update_append)
  next
    case False
    then show ?thesis using Cons.IH [of "pre @ [c]" "Suc m"]
      by (subst authdata_loop.simps) (simp add: replicate_append_same nth_append)
  qed
qed

text \<open>The update of a light client's transport data changes the entries of that address and adds one
  new entry for every entry of another address: the loop appends to the list it walks over.  So the
  first data of a client is stored as often as there are other clients, and where the address has an
  entry already each update adds more copies of it.\<close>

theorem authdata_copied_per_other_client:
  assumes "clients \<noteq> []"
  shows "update_clients_authdata a d clients =
    map (with_authdata a d) clients @
    replicate (length (filter (\<lambda>c. lct_address c \<noteq> a) clients)) \<lparr>lct_address = a, lct_auth_data = d\<rparr>"
  using assms authdata_loop_closed [of "[]" a d clients 0] by (simp add: update_clients_authdata_def)

theorem authdata_copied_per_other_client_witness:
  "update_clients_authdata alice ''t''
     [\<lparr>lct_address = bob, lct_auth_data = ''u''\<rparr>, \<lparr>lct_address = alice, lct_auth_data = ''v''\<rparr>] =
   [\<lparr>lct_address = bob, lct_auth_data = ''u''\<rparr>, \<lparr>lct_address = alice, lct_auth_data = ''t''\<rparr>,
    \<lparr>lct_address = alice, lct_auth_data = ''t''\<rparr>]"
  by (subst authdata_copied_per_other_client) (simp_all add: alice_def bob_def)

end
