(* ===== verification/NodeFindings.thy ===== *)
theory NodeFindings
  imports NodeSamples
begin

text \<open>
  Where the node's dispatch does not do what its comments and the shape of the code mean: logs that
  never reach a channel, lookups that raise, and transactions that nothing settles.
\<close>

section \<open>Logs that never reach a channel\<close>

text \<open>A log of an update transfer is dispatched without an address, so that no channel sees it.\<close>

lemma update_transfer_log_ignored:
  "state_transition_network N same tn
     (ChannelChange (ContractReceiveUpdateTransfer tx ci nonce n h)) block_number block_hash =
   Inr (tn, Some [])"
  by (simp add: state_transition_network_def handle_updated_transfer_network_def
      subdispatch_to_channel_by_id_and_address_def)

text \<open>A log of a batch unlock looks its channel up among addresses, so that no channel is cleared.\<close>

lemma batch_unlock_log_ignored:
  "state_transition_network N same tn
     (ChannelChange (ContractReceiveChannelBatchUnlock tx ci p q r u v n h)) block_number block_hash =
   Inr (tn, Some [])"
  by (simp add: state_transition_network_def handle_batch_unlock_network_def channels_by_identifier_def)

text \<open>The change of a channel's fee is given to a function that does not exist.\<close>

lemma channel_fee_raises:
  "state_transition_network N same tn (ChannelChange (ActionChannelSetFee ci fee)) block_number block_hash =
   Inl NameError"
  by (simp add: state_transition_network_def)

lemma cancel_payment_raises:
  "state_transition_node env db (Some cs) (NetworkChange (ChannelChange (ActionCancelPayment i))) =
   Inl UnboundLocalError"
  by (simp add: state_transition_node_def handle_state_change_def handle_network_change_def
      handle_task_change_def)

text \<open>Leaving the networks raises as soon as a token network has a channel.\<close>

lemma leaving_networks_raises:
  assumes "pn \<in> set (dict_values (identifiers_to_paymentnetworks cs))"
    and "tn \<in> set (dict_values (tokenidentifiers_to_tokennetworks pn))"
    and "ids \<in> set (dict_values (partneraddresses_to_channelidentifiers tn))" "ids \<noteq> []"
  shows "state_transition_node env db (Some cs) ActionLeaveAllNetworks = Inl KeyError"
proof -
  have "close_networks tns = Inl KeyError" if "tn \<in> set tns" for tns
    using that
  proof (induction tns)
    case (Cons t tns)
    have "get_channels_close_events tn = Inl KeyError"
      using assms(3,4) by (auto simp: get_channels_close_events_def list_all_iff)
    with Cons show ?case
      by (auto simp: get_channels_close_events_def split: if_splits)
  qed simp
  moreover have "tn \<in> set (concat (map (\<lambda>pn. dict_values (tokenidentifiers_to_tokennetworks pn))
      (dict_values (identifiers_to_paymentnetworks cs))))"
    using assms(1,2) by auto
  ultimately have "handle_leave_all_networks cs = Inl KeyError"
    by (simp add: handle_leave_all_networks_def)
  then show ?thesis by (simp add: state_transition_node_def handle_state_change_def)
qed

section \<open>Transactions that nothing settles\<close>

text \<open>The log that closes a light client's channel does not settle the transaction that asked for the
  closing, which \<open>ContractReceiveChannelClosed\<close> does for a channel of the node itself: the two classes
  are unrelated, so the transaction stays pending.  The same holds for the update transfer of a light
  client: no log of the chain and no block takes it from the pending transactions.\<close>

theorem light_transactions_never_settle:
  assumes "state_transition_node env db (Some cs) change = Inr ((cs', evs), db')"
    and "t \<in> set (pending_transactions cs)"
    and "(\<exists>ci bp h stx. t = ContractSendChannelClose ci bp h stx) \<and>
           (\<exists>tx a ci n h lc bp. change = NetworkChange (ChannelChange
              (ContractReceiveChannelClosedLight tx a ci n h lc bp))) \<or>
         (\<exists>x bp lc sig h. t = ContractSendChannelUpdateTransferLight x bp lc sig h)"
  shows "t \<in> set (pending_transactions cs')"
proof -
  have "\<not> superseded (cs_block_number cs') change t"
    using assms(3) by (auto elim: supersededE)
  moreover have "pending_transactions cs' =
      filter (\<lambda>t. \<not> superseded (cs_block_number cs') change t) (pending_transactions cs) @
      filter is_contract_send evs"
    using assms(1) by (rule transition_frame)
  ultimately show ?thesis using assms(2) by simp
qed

text \<open>The log that closes the channel of bob, a light client of this node.\<close>

abbreviation bob_close :: event where
  "bob_close \<equiv> ContractSendChannelClose sample_ci None [] []"

abbreviation bob_closed_log :: state_change where
  "bob_closed_log \<equiv> ContractReceiveChannelClosedLight [] alice sample_ci 0 [] bob None"

definition bob_closed_node :: "(bytes \<times> bytes) list ChainState" where
  "bob_closed_node =
     (case state_transition_node sample_env sample_db (Some (bob_node sample_bob [] 4 [] [bob_close]))
        (NetworkChange (ChannelChange bob_closed_log)) of
        Inl _ \<Rightarrow> bob_node sample_bob [] 4 [] [] | Inr ((cs, _), _) \<Rightarrow> cs)"

lemma bob_node_closes:
  "state_transition_node sample_env sample_db (Some (bob_node sample_bob [] 4 [] [bob_close]))
     (NetworkChange (ChannelChange bob_closed_log)) = Inr ((bob_closed_node, []), sample_db)"
proof -
  let ?tn = "bob_network sample_bob"
  have removed: "remove_route sample_networkx ?tn 1 =
      Inr (?tn\<lparr>network_graph := \<lparr>ng_token_network_id = sample_token_network, ng_network = [],
        channel_identifier_to_participants = []\<rparr>\<rparr>, Some bob)"
    by (simp add: remove_route_def bob_network_def sample_networkx_def)
  obtain tn where "state_transition_network sample_networkx (=) ?tn (ChannelChange bob_closed_log) 0 [] =
      Inr (tn, Some [])"
    by (simp add: state_transition_network_def handle_closed_network_def removed
        subdispatch_to_channel_by_id_and_address_def find_channel_def dict_has_def state_transition_def
        handle_channel_closed_light_def CHANNEL_STATES_PRIOR_TO_CLOSED_def Let_def split_beta)
  then obtain cs where "handle_state_change sample_env sample_db
      (Some (bob_node sample_bob [] 4 [] [bob_close])) (NetworkChange (ChannelChange bob_closed_log)) =
        Inr ((cs, []), sample_db)" and "pending_transactions cs = [bob_close]"
    by (simp add: handle_state_change_def handle_network_change_def
        handle_contract_receive_channel_closed_def handle_token_network_action_def)
  then show ?thesis
    by (simp add: bob_closed_node_def state_transition_node_def update_queues_def
        is_transaction_pending_def is_transaction_effect_satisfied_def is_transaction_invalidated_def
        is_transaction_expired_def)
qed

theorem light_transactions_never_settle_witness:
  "bob_close \<in> set (pending_transactions bob_closed_node)"
  by (rule light_transactions_never_settle [OF bob_node_closes]) auto

text \<open>A log of a batch unlock stops the node while a transaction for a batch unlock is pending and the
  node is a participant: the lookup of the channel is called with one argument too few, so that the
  transition ends with a \<open>TypeError\<close> and not with the transaction settled.\<close>

theorem batch_unlock_log_raises:
  assumes "participant = cs_our_address cs \<and> partner \<noteq> [] \<or>
      partner = cs_our_address cs \<and> participant \<noteq> []"
    and "ContractSendChannelBatchUnlock ci' a h' \<in> set (pending_transactions cs)"
  shows "state_transition_node env db (Some cs) (NetworkChange (ChannelChange
      (ContractReceiveChannelBatchUnlock tx ci participant partner r u v n h))) = Inl TypeError"
proof -
  let ?change = "NetworkChange (ChannelChange
    (ContractReceiveChannelBatchUnlock tx ci participant partner r u v n h))"
  obtain cs' where run: "handle_state_change env db (Some cs) ?change = Inr ((cs', []), db)"
    and same: "pending_transactions cs' = pending_transactions cs" "cs_our_address cs' = cs_our_address cs"
    by (cases "get_token_network_by_address cs (token_network_address ci)")
      (auto simp: handle_state_change_def handle_network_change_def handle_token_network_action_def
        batch_unlock_log_ignored)
  have raises: "is_transaction_pending cs' (ContractSendChannelBatchUnlock ci' a h') ?change = Inl TypeError"
    using assms(1) same(2)
    by (auto simp: is_transaction_pending_def is_transaction_effect_satisfied_def Let_def)
  have others: "is_transaction_pending cs' t ?change = Inl TypeError \<or>
      (\<exists>b. is_transaction_pending cs' t ?change = Inr b)" for t
    by (cases t) (auto simp: is_transaction_pending_def is_transaction_effect_satisfied_def Let_def)
  have "filter_result (\<lambda>t. is_transaction_pending cs' t ?change) ts = Inl TypeError"
    if "ContractSendChannelBatchUnlock ci' a h' \<in> set ts" for ts
    using that
  proof (induction ts)
    case (Cons t ts)
    then show ?case using raises others [of t] by auto
  qed simp
  then have "update_queues cs' [] ?change = Inl TypeError"
    using assms(2) same(1) by (simp add: update_queues_def)
  with run show ?thesis by (simp add: state_transition_node_def)
qed

theorem batch_unlock_log_raises_witness:
  "state_transition_node sample_env sample_db
     (Some (bob_node sample_bob [] 4 [] [ContractSendChannelBatchUnlock sample_ci alice []]))
     (NetworkChange (ChannelChange
       (ContractReceiveChannelBatchUnlock [] sample_ci bob alice [] 5 0 9 []))) = Inl TypeError"
  by (rule batch_unlock_log_raises) (auto simp: alice_def)

end
