(* ===== verification/Bech32.thy ===== *)
theory Bech32
  imports Prelude
begin

text \<open>
  The text form of invoices (\<open>billing/invoices/util/bech32.py\<close>): five bits for each character, six
  characters of a checksum, and the regrouping of bits.  Python's unbounded ints are \<open>int\<close>, a string is
  a list of characters; a character beyond the 256 of \<open>char\<close> is refused like those from 127 on.
\<close>

unbundle bit_operations_syntax

abbreviation ord_of :: "char \<Rightarrow> int" where
  "ord_of \<equiv> of_char"

definition CHARSET :: string where
  "CHARSET = ''qpzry9x8gf2tvdw0s3jn54khce6mua7l''"

section \<open>The checksum\<close>

definition generator :: "int list" where
  "generator = [0x3b6a57b2, 0x26508e6d, 0x1ea119fa, 0x3d4233dd, 0x2a1462b3]"

definition polymod_step :: "int \<Rightarrow> int \<Rightarrow> int" where
  "polymod_step chk v =
     (let top = drop_bit 25 chk;
          chk = push_bit 5 (chk AND 0x1ffffff) XOR v
      in fold (\<lambda>i chk. chk XOR (if drop_bit i top AND 1 \<noteq> 0 then generator ! i else 0)) [0..<5] chk)"

definition bech32_polymod :: "int list \<Rightarrow> int" where
  "bech32_polymod vs = fold (\<lambda>v chk. polymod_step chk v) vs 1"

definition bech32_hrp_expand :: "string \<Rightarrow> int list" where
  "bech32_hrp_expand hrp =
     map (\<lambda>x. drop_bit 5 (ord_of x)) hrp @ [0] @ map (\<lambda>x. ord_of x AND 31) hrp"

definition bech32_verify_checksum :: "string \<Rightarrow> int list \<Rightarrow> bool" where
  "bech32_verify_checksum hrp data \<longleftrightarrow> bech32_polymod (bech32_hrp_expand hrp @ data) = 1"

definition bech32_create_checksum :: "string \<Rightarrow> int list \<Rightarrow> int list" where
  "bech32_create_checksum hrp data =
     (let vs = bech32_hrp_expand hrp @ data;
          polymod = bech32_polymod (vs @ [0, 0, 0, 0, 0, 0]) XOR 1
      in map (\<lambda>i. drop_bit (5 * (5 - i)) polymod AND 31) [0..<6])"

section \<open>Encoding and decoding\<close>

text \<open>\<open>CHARSET[d]\<close>: a negative index counts from the end.\<close>

definition charset_at :: "int \<Rightarrow> char result" where
  "charset_at d =
     (if 0 \<le> d \<and> d < 32 then Inr (CHARSET ! nat d)
      else if - 32 \<le> d \<and> d < 0 then Inr (CHARSET ! nat (32 + d))
      else Inl IndexError)"

fun charset_text :: "int list \<Rightarrow> string result" where
  "charset_text [] = Inr []"
| "charset_text (d # ds) =
     res_bind (charset_at d) (\<lambda>x. res_bind (charset_text ds) (\<lambda>xs. Inr (x # xs)))"

definition bech32_encode :: "string \<Rightarrow> int list \<Rightarrow> string result" where
  "bech32_encode hrp data =
     (let combined = data @ bech32_create_checksum hrp data
      in res_bind (charset_text combined) (\<lambda>text. Inr (hrp @ CHR ''1'' # text)))"

text \<open>\<open>lower\<close> and \<open>upper\<close> of the characters from 33 to 126, the only ones they are asked for.\<close>

definition lower_char :: "char \<Rightarrow> char" where
  "lower_char x = (if 65 \<le> ord_of x \<and> ord_of x \<le> 90 then char_of (ord_of x + 32) else x)"

definition upper_char :: "char \<Rightarrow> char" where
  "upper_char x = (if 97 \<le> ord_of x \<and> ord_of x \<le> 122 then char_of (ord_of x - 32) else x)"

text \<open>The position of the last occurrence, or \<open>- 1\<close>; the position in the character set.\<close>

definition rfind :: "char \<Rightarrow> string \<Rightarrow> int" where
  "rfind x s = (case dropWhile (\<lambda>y. y \<noteq> x) (rev s) of [] \<Rightarrow> - 1 | _ # r \<Rightarrow> int (length r))"

definition charset_find :: "char \<Rightarrow> int" where
  "charset_find x =
     (if x \<in> set CHARSET then int (length (takeWhile (\<lambda>y. y \<noteq> x) CHARSET)) else - 1)"

text \<open>The pair of two None is None.\<close>

definition bech32_decode :: "string \<Rightarrow> (string \<times> int list) option" where
  "bech32_decode bech =
     (if list_ex (\<lambda>x. ord_of x < 33 \<or> ord_of x > 126) bech \<or>
         (map lower_char bech \<noteq> bech \<and> map upper_char bech \<noteq> bech) then None
      else
        let bech = map lower_char bech;
            pos = rfind (CHR ''1'') bech
        in if pos < 1 \<or> pos + 7 > int (length bech) then None
           else if \<not> list_all (\<lambda>x. x \<in> set CHARSET) (drop (nat pos + 1) bech) then None
           else
             let hrp = take (nat pos) bech;
                 data = map charset_find (drop (nat pos + 1) bech)
             in if \<not> bech32_verify_checksum hrp data then None
                else Some (hrp, take (length data - 6) data))"

section \<open>Regrouping bits\<close>

text \<open>
  The inner loop; with \<open>tobits = 0\<close> it does not end.  The loop over the data returns None for a value
  that does not have \<open>frombits\<close> bits.
\<close>

partial_function (option) emit_bits ::
    "nat \<Rightarrow> int \<Rightarrow> nat \<Rightarrow> int list \<Rightarrow> (nat \<times> int list) option" where
  "emit_bits tobits acc bits ret =
     (if bits \<ge> tobits
      then emit_bits tobits acc (bits - tobits)
             (ret @ [drop_bit (bits - tobits) acc AND (push_bit tobits 1 - 1)])
      else Some (bits, ret))"

declare emit_bits.simps [code]

fun convert_loop ::
    "nat \<Rightarrow> nat \<Rightarrow> int list \<Rightarrow> int \<times> nat \<times> int list \<Rightarrow> (int \<times> nat \<times> int list) option option" where
  "convert_loop frombits tobits [] state = Some (Some state)"
| "convert_loop frombits tobits (v # vs) (acc, bits, ret) =
     (if v < 0 \<or> drop_bit frombits v \<noteq> 0 then Some None
      else
        let acc = (push_bit frombits acc OR v) AND (push_bit (frombits + tobits - 1) 1 - 1)
        in case emit_bits tobits acc (bits + frombits) ret of
             None \<Rightarrow> None
           | Some (bits, ret) \<Rightarrow> convert_loop frombits tobits vs (acc, bits, ret))"

text \<open>The outer None is a loop that does not end, the inner one Python's None.\<close>

definition convertbits :: "int list \<Rightarrow> nat \<Rightarrow> nat \<Rightarrow> bool \<Rightarrow> int list option option" where
  "convertbits data frombits tobits pad =
     (case convert_loop frombits tobits data (0, 0, []) of
        None \<Rightarrow> None
      | Some None \<Rightarrow> Some None
      | Some (Some (acc, bits, ret)) \<Rightarrow>
          (let last_bits = push_bit (tobits - bits) acc AND (push_bit tobits 1 - 1)
           in Some (if pad then Some (if bits \<noteq> 0 then ret @ [last_bits] else ret)
                    else if bits \<ge> frombits \<or> last_bits \<noteq> 0 then None
                    else Some ret)))"

section \<open>Addresses\<close>

definition decode_segwit :: "string \<Rightarrow> string \<Rightarrow> (int \<times> int list) option option" where
  "decode_segwit hrp addr =
     (case bech32_decode addr of
        None \<Rightarrow> Some None
      | Some (hrpgot, data) \<Rightarrow>
          if hrpgot \<noteq> hrp then Some None
          else
            (case convertbits (drop 1 data) 5 8 False of
               None \<Rightarrow> None
             | Some None \<Rightarrow> Some None
             | Some (Some decoded) \<Rightarrow>
                 Some (if length decoded < 2 \<or> length decoded > 40 then None
                       else if data ! 0 > 16 then None
                       else if data ! 0 = 0 \<and> length decoded \<noteq> 20 \<and> length decoded \<noteq> 32 then None
                       else Some (data ! 0, decoded))))"

text \<open>
  The assertion compares two tuples by their identity, so it never fails; what it calls returns.  A
  program that does not fit into bytes gives None, which cannot be appended.
\<close>

definition encode_segwit :: "string \<Rightarrow> int \<Rightarrow> int list \<Rightarrow> string result option" where
  "encode_segwit hrp witver witprog =
     (case convertbits witprog 8 5 True of
        None \<Rightarrow> None
      | Some None \<Rightarrow> Some (Inl TypeError)
      | Some (Some program) \<Rightarrow> Some (bech32_encode hrp (witver # program)))"

end
