(* ===== verification/Bech32Properties.thy ===== *)
theory Bech32Properties
  imports Bech32
begin

text \<open>
  The properties of the text form of invoices: what is encoded is decoded again, one wrong character is
  noticed, and regrouped bits can be grouped back.
\<close>

unbundle bit_operations_syntax

section \<open>The checksum is linear\<close>

text \<open>The multiple of the generator that a state of the checksum takes up from its top bits.\<close>

definition gen_part :: "int \<Rightarrow> int" where
  "gen_part t =
     (if bit t 0 then 0x3b6a57b2 else 0) XOR (if bit t 1 then 0x26508e6d else 0) XOR
     (if bit t 2 then 0x1ea119fa else 0) XOR (if bit t 3 then 0x3d4233dd else 0) XOR
     (if bit t 4 then 0x2a1462b3 else 0)"

definition shift :: "int \<Rightarrow> int" where
  "shift c = push_bit 5 (take_bit 25 c) XOR gen_part (drop_bit 25 c)"

lemma drop_bit_and_one: "drop_bit i (t :: int) AND 1 \<noteq> 0 \<longleftrightarrow> bit t i"
  by (simp add: bit_iff_odd_drop_bit odd_iff_mod_2_eq_one and_one_eq)

lemma low_bits: "c AND 0x1ffffff = take_bit 25 (c :: int)"
  by (simp add: take_bit_eq_mask mask_eq_exp_minus_1)

lemma step_shift: "polymod_step c v = shift c XOR v"
proof -
  have five: "[0..<5] = [0, 1, 2, 3, 4]" by (simp add: upt_rec)
  show ?thesis
    unfolding polymod_step_def shift_def gen_part_def drop_bit_and_one low_bits Let_def five generator_def
    by (simp only: fold_simps nth_Cons_0 nth_Cons_numeral) (simp add: ac_simps)
qed

lemma gen_part_xor: "gen_part (t XOR u) = gen_part t XOR gen_part u"
  unfolding gen_part_def bit_xor_iff by (auto simp: ac_simps)

lemma shift_xor: "shift (c XOR d) = shift c XOR shift d"
  by (simp add: shift_def gen_part_xor ac_simps)

lemma gen_part_zero [simp]: "gen_part 0 = 0"
  by (simp add: gen_part_def)

lemma shift_zero [simp]: "shift 0 = 0"
  by (simp add: shift_def)

lemma shift_width: "take_bit 30 (shift c) = shift c"
proof -
  have "take_bit 30 (gen_part t) = gen_part t" for t
    unfolding gen_part_def take_bit_xor by (intro arg_cong2 [of _ _ _ _ "(XOR)"]) simp_all
  then show ?thesis by (simp add: shift_def take_bit_push_bit)
qed

lemma shift_small: "take_bit 25 c = c \<Longrightarrow> shift c = push_bit 5 c"
proof -
  assume c: "take_bit 25 c = c"
  have "drop_bit 25 (take_bit 25 c) = 0" by (simp add: drop_bit_take_bit)
  with c show ?thesis by (simp add: shift_def)
qed

text \<open>The low bits of the generator's multiples tell them apart, so that no shift loses anything.\<close>

lemma gen_part_low:
  assumes "take_bit 5 t = t" "take_bit 5 (gen_part t) = 0"
  shows "t = 0"
proof -
  have "0 \<le> t" "t < 32" using assms(1) take_bit_int_eq_self_iff [of 5 t] by simp_all
  then have "t \<in> set (map int [0..<32])" by (auto intro: image_eqI [of _ _ "nat t"])
  moreover have "list_all (\<lambda>t. take_bit 5 (gen_part t) = 0 \<longrightarrow> t = 0) (map int [0..<32])"
    by code_simp
  ultimately show ?thesis using assms(2) by (auto simp: list_all_iff)
qed

lemma shift_injective:
  assumes "take_bit 30 c = c" "shift c = 0"
  shows "c = 0"
proof -
  have "take_bit 5 (gen_part (drop_bit 25 c)) = take_bit 5 (shift c)"
    by (simp add: shift_def take_bit_push_bit)
  moreover have "take_bit 5 (drop_bit 25 c) = drop_bit 25 (take_bit 30 c)"
    by (simp add: drop_bit_take_bit)
  ultimately have top: "drop_bit 25 c = 0" using gen_part_low assms by simp
  then have "push_bit 5 (take_bit 25 c) = 0" using assms(2) by (simp add: shift_def)
  then have "take_bit 25 c = 0" by simp
  with top show ?thesis using bits_ident [of 25 c] by simp
qed

lemma shifts_nonzero: "take_bit 30 c = c \<Longrightarrow> c \<noteq> 0 \<Longrightarrow> (shift ^^ n) c \<noteq> 0 \<and> take_bit 30 ((shift ^^ n) c) = (shift ^^ n) c"
  by (induction n) (auto simp: shift_width dest: shift_injective)

lemma shifts_width: "0 < n \<Longrightarrow> take_bit 30 ((shift ^^ n) c) = (shift ^^ n) c"
  by (cases n) (simp_all add: shift_width)

text \<open>A difference in the state stays apart from the values that follow.\<close>

abbreviation run_values :: "int list \<Rightarrow> int \<Rightarrow> int" where
  "run_values vs c \<equiv> fold (\<lambda>v chk. polymod_step chk v) vs c"

lemma run_values_xor: "run_values vs (c XOR d) = run_values vs c XOR (shift ^^ length vs) d"
proof (induction vs arbitrary: c d)
  case (Cons v vs)
  have "polymod_step (c XOR d) v = polymod_step c v XOR shift d"
    by (simp add: step_shift shift_xor ac_simps)
  with Cons show ?case by (simp add: funpow_swap1)
qed simp

text \<open>The six values of a checksum put their bits together again.\<close>

lemma limb: "push_bit 5 (drop_bit 5 q) XOR (q AND 31) = (q :: int)"
proof -
  have "q AND 31 = take_bit 5 q" by (simp add: take_bit_eq_mask mask_eq_exp_minus_1)
  then show ?thesis by (auto intro!: bit_eqI simp: bit_simps)
qed

lemma step_limb:
  assumes "take_bit 30 p = p"
  shows "polymod_step (drop_bit (5 * Suc k) p) (drop_bit (5 * k) p AND 31) = drop_bit (5 * k) p"
proof -
  have "take_bit 25 (drop_bit (5 * Suc k) p) = drop_bit (5 * Suc k) (take_bit (30 + 5 * k) p)"
    by (simp add: drop_bit_take_bit)
  also have "take_bit (30 + 5 * k) p = p"
    using assms by (metis le_add1 min.absorb2 take_bit_take_bit)
  finally have "take_bit 25 (drop_bit (5 * Suc k) p) = drop_bit (5 * Suc k) p" .
  then show ?thesis
    using limb [of "drop_bit (5 * k) p"] by (simp add: step_shift shift_small)
qed

lemma run_limbs:
  assumes "take_bit 30 p = p"
  shows "run_values (map (\<lambda>i. drop_bit (5 * (5 - i)) p AND 31) [0..<6]) 0 = p"
proof -
  have six: "[0..<6] = [0, 1, 2, 3, 4, 5]" by (simp add: upt_rec)
  have "drop_bit 30 p = drop_bit 30 (take_bit 30 p)" using assms by simp
  then have "drop_bit (5 * Suc 5) p = 0" by (simp add: drop_bit_take_bit)
  then have "run_values (map (\<lambda>i. drop_bit (5 * (5 - i)) p AND 31) [0..<6]) 0 =
      run_values (map (\<lambda>k. drop_bit (5 * k) p AND 31) [5, 4, 3, 2, 1, 0]) (drop_bit (5 * Suc 5) p)"
    by (simp add: six)
  also have "\<dots> = drop_bit (5 * 0) p"
    using step_limb [OF assms, of 0] step_limb [OF assms, of 1] step_limb [OF assms, of 2]
      step_limb [OF assms, of 3] step_limb [OF assms, of 4] step_limb [OF assms, of 5]
    by (simp add: eval_nat_numeral)
  finally show ?thesis by simp
qed

section \<open>The characters\<close>

definition text_char :: "int \<Rightarrow> char" where
  "text_char d = CHARSET ! nat d"

abbreviation five_bits :: "int list \<Rightarrow> bool" where
  "five_bits ds \<equiv> \<forall>d \<in> set ds. 0 \<le> d \<and> d < 32"

lemma charset_table:
  "list_all (\<lambda>n. charset_find (CHARSET ! n) = int n \<and> 33 \<le> ord_of (CHARSET ! n) \<and>
     ord_of (CHARSET ! n) \<le> 122 \<and> \<not> (65 \<le> ord_of (CHARSET ! n) \<and> ord_of (CHARSET ! n) \<le> 90) \<and>
     CHARSET ! n \<noteq> CHR ''1'') [0..<32]"
  by code_simp

lemma charset_length: "length CHARSET = 32"
  by (simp add: CHARSET_def)

lemma text_char_facts:
  assumes "0 \<le> d" "d < 32"
  shows "charset_find (text_char d) = d" "text_char d \<in> set CHARSET" "33 \<le> ord_of (text_char d)"
    "ord_of (text_char d) \<le> 122" "\<not> (65 \<le> ord_of (text_char d) \<and> ord_of (text_char d) \<le> 90)"
    "text_char d \<noteq> CHR ''1''"
proof -
  have "nat d \<in> set [0..<32]" using assms by auto
  with charset_table assms
  show "charset_find (text_char d) = d" "33 \<le> ord_of (text_char d)"
    "ord_of (text_char d) \<le> 122" "\<not> (65 \<le> ord_of (text_char d) \<and> ord_of (text_char d) \<le> 90)"
    "text_char d \<noteq> CHR ''1''"
    unfolding list_all_iff text_char_def by (auto dest!: bspec)
  show "text_char d \<in> set CHARSET" using assms by (simp add: text_char_def charset_length)
qed

lemma charset_member: "x \<in> set CHARSET \<Longrightarrow> 0 \<le> charset_find x \<and> charset_find x < 32 \<and> text_char (charset_find x) = x"
proof -
  assume "x \<in> set CHARSET"
  then obtain n where "n < 32" "x = CHARSET ! n" by (auto simp: in_set_conv_nth charset_length)
  then have x: "x = text_char (int n)" "0 \<le> int n" "int n < 32" by (simp_all add: text_char_def)
  then show ?thesis using text_char_facts(1) [of "int n"] by simp
qed

lemma charset_text_ok: "five_bits ds \<Longrightarrow> charset_text ds = Inr (map text_char ds)"
  by (induction ds) (auto simp: charset_at_def text_char_def)

text \<open>Characters that may stand in a readable part: printable, and no capital letters.\<close>

abbreviation hrp_char :: "char \<Rightarrow> bool" where
  "hrp_char x \<equiv> 33 \<le> ord_of x \<and> ord_of x \<le> 126 \<and> \<not> (65 \<le> ord_of x \<and> ord_of x \<le> 90)"

lemma text_hrp_char: "0 \<le> d \<Longrightarrow> d < 32 \<Longrightarrow> hrp_char (text_char d)"
  using text_char_facts [of d] by auto

lemma lower_same: "\<not> (65 \<le> ord_of x \<and> ord_of x \<le> 90) \<Longrightarrow> lower_char x = x"
  by (auto simp: lower_char_def)

lemma upper_facts:
  assumes "hrp_char x"
  shows "lower_char (upper_char x) = x" "upper_char (upper_char x) = upper_char x"
    "33 \<le> ord_of (upper_char x)" "ord_of (upper_char x) \<le> 126"
proof -
  have "ord_of (char_of (ord_of x - 32) :: char) = ord_of x - 32" if "97 \<le> ord_of x"
    using that assms by (simp add: of_char_of take_bit_int_eq_self)
  then show "lower_char (upper_char x) = x" "upper_char (upper_char x) = upper_char x"
    "33 \<le> ord_of (upper_char x)" "ord_of (upper_char x) \<le> 126"
    using assms by (auto simp: lower_char_def upper_char_def)
qed

section \<open>Decoding\<close>

lemma rfind_last: "x \<notin> set t \<Longrightarrow> rfind x (h @ x # t) = int (length h)"
proof -
  assume "x \<notin> set t"
  then have "dropWhile (\<lambda>y. y \<noteq> x) (rev t @ x # rev h) = x # rev h"
    by (subst dropWhile_append2) auto
  then show ?thesis by (simp add: rfind_def)
qed

text \<open>What a text of lower case characters is decoded to, and its capital form too.\<close>

lemma decode_text:
  assumes hrp: "hrp \<noteq> []" "\<forall>x \<in> set hrp. hrp_char x" and ds: "five_bits ds" "6 \<le> length ds"
    and s: "s = hrp @ CHR ''1'' # map text_char ds"
    and r: "r = (if bech32_verify_checksum hrp ds then Some (hrp, take (length ds - 6) ds) else None)"
  shows "bech32_decode s = r" "bech32_decode (map upper_char s) = r"
proof -
  have ok: "\<forall>x \<in> set s. hrp_char x" using hrp(2) ds(1) text_hrp_char by (auto simp: s)
  have up: "map lower_char (map upper_char s) = s"
    unfolding map_map comp_def using ok upper_facts(1) by (intro map_idI) blast
  have up2: "map upper_char (map upper_char s) = map upper_char s"
    unfolding map_map comp_def using ok upper_facts(2) by (intro map_cong refl) blast
  have lower: "map lower_char s = s" using ok lower_same by (intro map_idI) blast
  have range: "\<not> list_ex (\<lambda>x. ord_of x < 33 \<or> ord_of x > 126) s"
    "\<not> list_ex (\<lambda>x. ord_of x < 33 \<or> ord_of x > 126) (map upper_char s)"
    using ok upper_facts(3,4) by (fastforce simp: list_ex_iff)+
  have pos: "rfind (CHR ''1'') s = int (length hrp)"
    unfolding s using ds(1) text_char_facts(6) by (intro rfind_last) (metis (no_types) image_iff set_map)
  have parts: "drop (nat (int (length hrp)) + 1) s = map text_char ds"
    "take (nat (int (length hrp))) s = hrp" by (simp_all add: s)
  have find: "map charset_find (map text_char ds) = ds"
    using ds(1) text_char_facts(1) by (simp add: map_idI)
  have in_set: "list_all (\<lambda>x. x \<in> set CHARSET) (map text_char ds)"
    using ds(1) text_char_facts(2) by (simp add: list_all_iff)
  have len: "\<not> (int (length hrp) < 1 \<or> int (length hrp) + 7 > int (length s))"
    using hrp(1) ds(2) by (cases hrp) (simp_all add: s)
  show "bech32_decode s = r"
    unfolding r bech32_decode_def lower pos Let_def parts find using range(1) in_set len by simp
  show "bech32_decode (map upper_char s) = r"
    unfolding r bech32_decode_def up up2 pos Let_def parts find using range(2) in_set len by simp
qed

lemma verify_iff:
  "bech32_verify_checksum hrp ds \<longleftrightarrow> run_values ds (run_values (bech32_hrp_expand hrp) 1) = 1"
  by (simp add: bech32_verify_checksum_def bech32_polymod_def)

lemma checksum_facts:
  fixes hrp data
  defines "u \<equiv> bech32_create_checksum hrp data"
  shows "five_bits u" "length u = 6" "bech32_verify_checksum hrp (data @ u)"
proof -
  define c where "c = run_values (bech32_hrp_expand hrp @ data) 1"
  define p where "p = (shift ^^ 6) c XOR 1"
  have six: "[0, 0, 0, 0, 0, 0] = replicate 6 (0 :: int)" by (simp add: eval_nat_numeral)
  have "run_values (replicate n 0) c = (shift ^^ n) c" for n
    by (induction n arbitrary: c) (simp_all add: step_shift funpow_swap1)
  then have u: "u = map (\<lambda>i. drop_bit (5 * (5 - i)) p AND 31) [0..<6]"
    by (simp add: u_def bech32_create_checksum_def Let_def bech32_polymod_def p_def c_def six)
  show "length u = 6" by (simp add: u)
  have "(q :: int) AND 31 = take_bit 5 q" for q by (simp add: take_bit_eq_mask mask_eq_exp_minus_1)
  then show "five_bits u" using take_bit_int_less_exp [of 5] by (auto simp: u)
  have "take_bit 30 ((shift ^^ 6) c) = (shift ^^ 6) c" by (rule shifts_width) simp
  then have p: "take_bit 30 p = p" by (simp add: p_def take_bit_xor)
  have "run_values u c = run_values u 0 XOR (shift ^^ length u) c"
    using run_values_xor [of u 0 c] by simp
  also have "\<dots> = p XOR (shift ^^ 6) c" using run_limbs [OF p] by (simp add: u)
  also have "\<dots> = 1" by (simp add: p_def ac_simps flip: xor.assoc)
  finally show "bech32_verify_checksum hrp (data @ u)"
    by (simp add: bech32_verify_checksum_def bech32_polymod_def c_def)
qed

lemma encoded_text:
  assumes "hrp \<noteq> []" "\<forall>x \<in> set hrp. hrp_char x" "five_bits data"
  obtains t where "bech32_encode hrp data = Inr t" "bech32_decode t = Some (hrp, data)"
    "bech32_decode (map upper_char t) = Some (hrp, data)"
proof -
  let ?ds = "data @ bech32_create_checksum hrp data"
  have ds: "five_bits ?ds" "6 \<le> length ?ds" using assms(3) checksum_facts by auto
  note facts = checksum_facts [of hrp data]
  have "take (length ?ds - 6) ?ds = data" using facts(2) by simp
  with decode_text [OF assms(1,2) ds refl refl] facts(3) that show thesis
    using charset_text_ok [OF ds(1)] by (simp add: bech32_encode_def Let_def)
qed

text \<open>C37. What is encoded is decoded again: for a readable part of printable characters without capital
  letters and data of five bits each, the encoding succeeds, and its text, in lower case or in capital
  letters, is decoded to the same readable part and data.\<close>

theorem encoded_text_is_decoded:
  assumes "hrp \<noteq> []" "\<forall>x \<in> set hrp. hrp_char x" "five_bits data"
  shows "\<exists>t. bech32_encode hrp data = Inr t \<and> bech32_decode t = Some (hrp, data) \<and>
    bech32_decode (map upper_char t) = Some (hrp, data)"
  using encoded_text [OF assms] by metis

theorem encoded_text_is_decoded_witness:
  "\<exists>text. bech32_encode ''lm1'' [7, 0, 31] = Inr text \<and> bech32_decode text = Some (''lm1'', [7, 0, 31]) \<and>
     bech32_decode (map upper_char text) = Some (''lm1'', [7, 0, 31])"
  by (rule encoded_text_is_decoded) simp_all

section \<open>One wrong character\<close>

lemma changed_text: "(h @ x # map f ds)[length h + Suc j := f d] = h @ x # map f (ds[j := d])"
  by (simp add: list_update_append map_update)

lemma xor_same: "a XOR e = a \<Longrightarrow> e = (0 :: int)"
proof -
  assume "a XOR e = a"
  then have "a XOR (a XOR e) = 0" by simp
  then show "e = 0" by (simp flip: xor.assoc)
qed

lemma xor_differ: "v \<noteq> w \<Longrightarrow> v XOR w \<noteq> (0 :: int)"
proof
  assume "v \<noteq> w" "v XOR w = 0"
  moreover have "v XOR (v XOR w) = w" by (simp flip: xor.assoc)
  ultimately show False by simp
qed

lemma changed_value:
  assumes "v XOR w = e" "take_bit 30 e = e" "e \<noteq> 0"
  shows "run_values (xs @ v # ys) c \<noteq> run_values (xs @ w # ys) c"
proof -
  let ?s = "run_values xs c"
  have "v = w XOR e" by (simp add: assms(1) [symmetric] xor.left_commute [of w v w])
  then have "run_values (xs @ v # ys) c = run_values ys (polymod_step ?s w XOR e)"
    by (simp add: step_shift ac_simps)
  also have "\<dots> = run_values (xs @ w # ys) c XOR (shift ^^ length ys) e"
    by (simp add: run_values_xor)
  finally have "run_values (xs @ v # ys) c = run_values (xs @ w # ys) c XOR (shift ^^ length ys) e" .
  then show ?thesis using shifts_nonzero [OF assms(2,3), of "length ys"] xor_same by metis
qed

text \<open>C36. One wrong character is noticed: where a character of the data or the checksum of an encoded text
  is replaced by another one of the character set, the text is refused, however long it is.\<close>

theorem one_wrong_character_is_refused:
  assumes "hrp \<noteq> []" "\<forall>x \<in> set hrp. hrp_char x" "five_bits data"
    and "bech32_encode hrp data = Inr text"
    and "length hrp < p" "p < length text" "x \<in> set CHARSET" "x \<noteq> text ! p"
  shows "bech32_decode (text[p := x]) = None"
proof -
  let ?ds = "data @ bech32_create_checksum hrp data"
  note facts = checksum_facts [of hrp data]
  have ds: "five_bits ?ds" "6 \<le> length ?ds" using assms(3) facts by auto
  have whole: "text = hrp @ CHR ''1'' # map text_char ?ds"
    using assms(4) charset_text_ok [OF ds(1)] by (auto simp: bech32_encode_def Let_def)
  define j where "j = p - length hrp - 1"
  have p: "p = length hrp + Suc j" and j: "j < length ?ds"
    using assms(5,6) by (simp_all add: j_def whole)
  define w where "w = charset_find x"
  have w: "0 \<le> w" "w < 32" "text_char w = x" using charset_member [OF assms(7)] by (simp_all add: w_def)
  let ?es = "?ds[j := w]"
  have es: "five_bits ?es" "6 \<le> length ?es"
    using ds w set_update_subset_insert [of ?ds j w] by auto
  have new: "text[p := x] = hrp @ CHR ''1'' # map text_char ?es"
    unfolding whole p w(3) [symmetric] by (rule changed_text)
  have old: "?ds = take j ?ds @ ?ds ! j # drop (Suc j) ?ds" using j by (rule id_take_nth_drop)
  have changed: "?es = take j ?ds @ w # drop (Suc j) ?ds" using j by (rule upd_conv_take_nth_drop)
  have "w \<noteq> ?ds ! j" using assms(8) w(3) j by (auto simp: whole p nth_append)
  moreover have "0 \<le> ?ds ! j \<and> ?ds ! j < 32" using ds(1) nth_mem [OF j] by blast
  then have "take_bit 30 (w XOR ?ds ! j) = w XOR ?ds ! j"
    unfolding take_bit_xor using w by (simp add: take_bit_int_eq_self del: nth_append)
  ultimately have "run_values (take j ?ds @ w # drop (Suc j) ?ds) c \<noteq>
      run_values (take j ?ds @ ?ds ! j # drop (Suc j) ?ds) c" for c
    using xor_differ by (intro changed_value [OF refl]) blast+
  then have "run_values ?es c \<noteq> run_values ?ds c" for c
    unfolding changed [symmetric] old [symmetric] .
  with facts(3) have "\<not> bech32_verify_checksum hrp ?es"
    unfolding verify_iff by metis
  with decode_text(1) [OF assms(1,2) es new refl] show ?thesis by simp
qed

theorem one_wrong_character_is_refused_witness:
  "\<exists>text. bech32_encode ''lm1'' [7, 0, 31] = Inr text \<and> bech32_decode (text[5 := CHR ''z'']) = None"
proof -
  have encoded: "bech32_encode ''lm1'' [7, 0, 31] = Inr ''lm118ql6890pg''"
    by code_simp
  show ?thesis
    using one_wrong_character_is_refused [OF _ _ _ encoded, of 5 "CHR ''z''"] encoded
    by (simp add: CHARSET_def)
qed

section \<open>Regrouped bits\<close>

text \<open>The number that groups of bits stand for, the first group on top, after a number.\<close>

abbreviation group_value :: "nat \<Rightarrow> int list \<Rightarrow> int \<Rightarrow> int" where
  "group_value k vs n \<equiv> fold (\<lambda>v n. n * 2 ^ k + v) vs n"

abbreviation groups_of :: "nat \<Rightarrow> int list \<Rightarrow> bool" where
  "groups_of k vs \<equiv> \<forall>v \<in> set vs. 0 \<le> v \<and> v < 2 ^ k"

lemma group_value_start: "group_value k vs n = n * 2 ^ (k * length vs) + group_value k vs 0"
proof (induction vs arbitrary: n)
  case (Cons v vs)
  from Cons.IH [of "n * 2 ^ k + v"] Cons.IH [of v] show ?case
    by (simp add: algebra_simps power_add)
qed simp

lemma group_value_bound: "groups_of k vs \<Longrightarrow> 0 \<le> group_value k vs 0 \<and> group_value k vs 0 < 2 ^ (k * length vs)"
proof (induction vs rule: rev_induct)
  case (snoc v vs)
  then have "group_value k vs 0 + 1 \<le> 2 ^ (k * length vs)" by simp
  then have "(group_value k vs 0 + 1) * 2 ^ k \<le> 2 ^ (k * length vs) * 2 ^ k" by (rule mult_right_mono) simp
  with snoc show ?case by (simp add: algebra_simps power_add)
qed simp

lemma group_value_injective:
  assumes "groups_of k vs" "groups_of k ws" "length vs = length ws" "group_value k vs 0 = group_value k ws 0"
  shows "vs = ws"
  using assms
proof (induction vs arbitrary: ws rule: rev_induct)
  case (snoc v vs)
  then obtain ws' w where ws: "ws = ws' @ [w]" by (cases ws rule: rev_cases) auto
  with snoc.prems have eq: "group_value k vs 0 * 2 ^ k + v = group_value k ws' 0 * 2 ^ k + w"
    and b: "0 \<le> v" "v < 2 ^ k" "0 \<le> w" "w < 2 ^ k" by simp_all
  have "v = (group_value k vs 0 * 2 ^ k + v) mod 2 ^ k" using b by simp
  also have "\<dots> = w" unfolding eq using b by simp
  finally have v: "v = w" .
  with eq have "group_value k vs 0 = group_value k ws' 0" by simp
  then have "vs = ws'" using snoc.prems(1-3) by (intro snoc.IH) (simp_all add: ws)
  with v show ?case by (simp add: ws)
qed simp

lemma exp_take_bit: "x AND (2 ^ k - 1) = take_bit k (x :: int)"
  by (simp add: take_bit_eq_mask mask_eq_exp_minus_1)

lemma emit_bits_value:
  assumes "0 < t"
  shows "\<exists>es. emit_bits t acc bits ret = Some (bits mod t, ret @ es) \<and> groups_of t es \<and>
    t * length es + bits mod t = bits \<and>
    (\<forall>n. group_value t es n * 2 ^ (bits mod t) + take_bit (bits mod t) acc = n * 2 ^ bits + take_bit bits acc)"
proof (induction bits arbitrary: ret rule: less_induct)
  case (less bits)
  show ?case
  proof (cases "t \<le> bits")
    case False
    then show ?thesis by (simp add: emit_bits.simps [of t acc bits ret])
  next
    case True
    define e where "e = take_bit t (drop_bit (bits - t) acc)"
    from less.IH [of "bits - t" "ret @ [e]"] True assms obtain es where es:
      "emit_bits t acc (bits - t) (ret @ [e]) = Some (bits mod t, ret @ [e] @ es)" "groups_of t es"
      "t * length es + bits mod t = bits - t"
      "\<And>n. group_value t es n * 2 ^ (bits mod t) + take_bit (bits mod t) acc =
         n * 2 ^ (bits - t) + take_bit (bits - t) acc"
      by (auto simp: le_mod_geq)
    have "take_bit bits acc = e * 2 ^ (bits - t) + take_bit (bits - t) acc"
    proof -
      have "take_bit bits acc = take_bit (bits - t) (take_bit bits acc) + push_bit (bits - t) (drop_bit (bits - t) (take_bit bits acc))"
        using bits_ident [of "bits - t" "take_bit bits acc"] by (simp add: ac_simps)
      with True show ?thesis by (simp add: e_def drop_bit_take_bit push_bit_eq_mult)
    qed
    then have "\<forall>n. group_value t (e # es) n * 2 ^ (bits mod t) + take_bit (bits mod t) acc =
        n * 2 ^ bits + take_bit bits acc"
      using es(4) True by (simp add: algebra_simps flip: power_add)
    moreover have "emit_bits t acc bits ret = Some (bits mod t, ret @ e # es)"
      using es(1) True by (simp add: emit_bits.simps [of t acc bits ret] exp_take_bit e_def)
    moreover have "groups_of t (e # es)" using es(2) by (simp add: e_def take_bit_int_less_exp)
    moreover have "t * length (e # es) + bits mod t = bits" using es(3) True by simp
    ultimately show ?thesis by blast
  qed
qed

lemma convert_loop_value:
  assumes "0 < t" "groups_of f vs" "bits < t"
  shows "\<exists>acc' bits' es. convert_loop f t vs (acc, bits, ret) = Some (Some (acc', bits', ret @ es)) \<and>
    bits' < t \<and> groups_of t es \<and> t * length es + bits' = f * length vs + bits \<and>
    (\<forall>n. group_value t es n * 2 ^ bits' + take_bit bits' acc' = group_value f vs (n * 2 ^ bits + take_bit bits acc))"
  using assms(2,3)
proof (induction vs arbitrary: acc bits ret)
  case (Cons v vs)
  then have v: "0 \<le> v" "v < 2 ^ f" by simp_all
  define acc1 where "acc1 = take_bit (f + t - Suc 0) (push_bit f acc OR v)"
  have "push_bit f acc OR v = push_bit f acc + v"
    using v concat_bit_eq [of f v acc] by (simp add: concat_bit_def take_bit_int_eq_self ac_simps)
  then have "take_bit (bits + f) acc1 = take_bit (bits + f) (push_bit f acc + v)"
    using Cons.prems(2) by (simp add: acc1_def)
  also have "\<dots> = take_bit bits acc * 2 ^ f + v"
  proof -
    have "take_bit (f + bits) (concat_bit f v acc) = concat_bit f v (take_bit bits acc)"
      by (auto intro!: bit_eqI simp: bit_simps bit_concat_bit_iff)
    with v show ?thesis
      by (simp add: concat_bit_eq take_bit_int_eq_self push_bit_eq_mult ac_simps)
  qed
  finally have taken: "take_bit (bits + f) acc1 = take_bit bits acc * 2 ^ f + v" .
  from emit_bits_value [OF assms(1), of acc1 "bits + f" ret] obtain es1 where es1:
    "emit_bits t acc1 (bits + f) ret = Some ((bits + f) mod t, ret @ es1)" "groups_of t es1"
    "t * length es1 + (bits + f) mod t = bits + f"
    "\<And>n. group_value t es1 n * 2 ^ ((bits + f) mod t) + take_bit ((bits + f) mod t) acc1 =
       n * 2 ^ (bits + f) + take_bit (bits + f) acc1" by blast
  have "(bits + f) mod t < t" using assms(1) by simp
  from Cons.IH [OF _ this, of acc1 "ret @ es1"] Cons.prems(1) obtain acc' bits' es where es:
    "convert_loop f t vs (acc1, (bits + f) mod t, ret @ es1) = Some (Some (acc', bits', ret @ es1 @ es))"
    "bits' < t" "groups_of t es" "t * length es + bits' = f * length vs + (bits + f) mod t"
    "\<And>n. group_value t es n * 2 ^ bits' + take_bit bits' acc' =
       group_value f vs (n * 2 ^ ((bits + f) mod t) + take_bit ((bits + f) mod t) acc1)" by auto
  have "drop_bit f v = 0" using v by (simp add: drop_bit_eq_div)
  then have "convert_loop f t (v # vs) (acc, bits, ret) = Some (Some (acc', bits', ret @ es1 @ es))"
    using v es(1) es1(1) by (simp add: acc1_def exp_take_bit Let_def)
  moreover have "group_value t (es1 @ es) n * 2 ^ bits' + take_bit bits' acc' =
      group_value f (v # vs) (n * 2 ^ bits + take_bit bits acc)" for n
    by (simp only: fold_append comp_def fold_simps es(5) es1(4) taken) (simp add: algebra_simps power_add)
  moreover have "t * length (es1 @ es) + bits' = f * length (v # vs) + bits"
    using es(4) es1(3) by (simp add: algebra_simps)
  moreover have "groups_of t (es1 @ es)" using es(3) es1(2) by auto
  ultimately show ?case using es(2) by blast
qed simp

lemma padded_value:
  assumes "0 < t" "groups_of f vs"
  obtains q pad where "convertbits vs f t True = Some (Some q)" "groups_of t q" "pad < t"
    "t * length q = f * length vs + pad" "group_value t q 0 = group_value f vs 0 * 2 ^ pad"
proof -
  from convert_loop_value [OF assms(1,2,1), of 0 "[]"] obtain acc bits es where
    run: "convert_loop f t vs (0, 0, []) = Some (Some (acc, bits, es))" and
    es: "bits < t" "groups_of t es" "t * length es + bits = f * length vs" and
    num: "\<And>n. group_value t es n * 2 ^ bits + take_bit bits acc = group_value f vs n"
    by auto
  define e where "e = push_bit (t - bits) (take_bit bits acc)"
  have "take_bit t (push_bit (t - bits) acc) = e" using es(1) by (simp add: e_def take_bit_push_bit)
  then have q: "convertbits vs f t True = Some (Some (if bits \<noteq> 0 then es @ [e] else es))"
    using run by (simp add: convertbits_def Let_def exp_take_bit)
  show thesis
  proof (cases "bits = 0")
    case True
    with q es num [of 0] show thesis by (intro that [of es 0]) simp_all
  next
    case False
    have "e = take_bit t e" using es(1) by (simp add: e_def take_bit_push_bit)
    then have "0 \<le> e \<and> e < 2 ^ t" by (metis take_bit_int_less_exp take_bit_nonnegative)
    moreover have "group_value t es 0 * 2 ^ t + e = (group_value t es 0 * 2 ^ bits + take_bit bits acc) * 2 ^ (t - bits)"
      using es(1) by (simp add: e_def push_bit_eq_mult algebra_simps flip: power_add)
    ultimately show thesis using q es False num [of 0] by (intro that [of "es @ [e]" "t - bits"]) auto
  qed
qed

text \<open>Groups of bits that are regrouped into smaller ones, with padding, are grouped back to what they
  were: both runs end.\<close>

theorem regrouped_bits_come_back:
  assumes "0 < t" "t \<le> f" "groups_of f vs"
  shows "\<exists>q. convertbits vs f t True = Some (Some q) \<and> groups_of t q \<and> convertbits q t f False = Some (Some vs)"
proof -
  from padded_value [OF assms(1,3)] obtain q pad where q: "convertbits vs f t True = Some (Some q)"
    "groups_of t q" "pad < t" "t * length q = f * length vs + pad"
    "group_value t q 0 = group_value f vs 0 * 2 ^ pad" .
  have f: "0 < f" using assms(1,2) by simp
  from convert_loop_value [OF f q(2) f, of 0 "[]"] obtain acc bits es where
    run: "convert_loop t f q (0, 0, []) = Some (Some (acc, bits, es))" and
    es: "bits < f" "groups_of f es" "f * length es + bits = f * length vs + pad" and
    num: "\<And>n. group_value f es n * 2 ^ bits + take_bit bits acc = group_value t q n"
    using q(4) by auto
  have "bits = (f * length es + bits) mod f" using es(1) by simp
  also have "\<dots> = pad" unfolding es(3) using q(3) assms(2) by simp
  finally have bits: "bits = pad" .
  with es(3) f have len: "length es = length vs" by simp
  have eq: "group_value f es 0 * 2 ^ pad + take_bit pad acc = group_value f vs 0 * 2 ^ pad"
    using num [of 0] q(5) bits by simp
  have "take_bit pad acc = (group_value f es 0 * 2 ^ pad + take_bit pad acc) mod 2 ^ pad"
    by (simp add: take_bit_eq_mod)
  also have "\<dots> = 0" unfolding eq by simp
  finally have rest: "take_bit pad acc = 0" .
  have "es = vs" by (rule group_value_injective [OF es(2) assms(3) len]) (use eq rest in simp)
  moreover have "take_bit f (push_bit (f - pad) acc) = 0"
    using es(1) bits rest by (simp add: take_bit_push_bit)
  then have "convertbits q t f False = Some (Some es)"
    using run bits q(3) by (simp add: convertbits_def Let_def exp_take_bit)
  ultimately show ?thesis using q(1,2) by blast
qed

text \<open>An address is decoded to its version and program, if these are in the bounds that the decoder sets.\<close>

theorem encoded_address_is_decoded:
  assumes "hrp \<noteq> []" "\<forall>x \<in> set hrp. hrp_char x" "0 \<le> v" "v \<le> 16" "groups_of 8 program"
    and "2 \<le> length program" "length program \<le> 40" "v = 0 \<longrightarrow> length program = 20 \<or> length program = 32"
  shows "\<exists>addr. encode_segwit hrp v program = Some (Inr addr) \<and>
    decode_segwit hrp addr = Some (Some (v, program))"
proof -
  have "(0 :: nat) < 5" "(5 :: nat) \<le> 8" by simp_all
  from regrouped_bits_come_back [OF this assms(5)] obtain q where q: "convertbits program 8 5 True = Some (Some q)"
    "groups_of 5 q" "convertbits q 5 8 False = Some (Some program)" by blast
  have "five_bits (v # q)" using assms(3,4) q(2) by simp
  with encoded_text [OF assms(1,2)] obtain t where t: "bech32_encode hrp (v # q) = Inr t"
    "bech32_decode t = Some (hrp, v # q)" by blast
  then have "decode_segwit hrp t = Some (Some (v, program))"
    using q(3) assms(4,6,7,8) by (simp add: decode_segwit_def)
  with t(1) q(1) show ?thesis by (simp add: encode_segwit_def)
qed

end
