(* ===== verification/StaticPages.thy ===== *)
theory StaticPages
  imports Prelude
begin

text \<open>
  The two hand-written scripts of the repository: the tabs of the HTTP examples in the
  documentation (\<open>docs/_static/sphinxcontrib-httpexample.js\<close>) and the endpoint configuration of
  the web interface (\<open>raiden/api/webui/static/endpointConfig.js\<close>).  jQuery and the document are
  third-party code: a document is a value of an arbitrary type, the jQuery calls of the script are
  the fields of a record, and \<open>jquery_ok\<close> states what jQuery documents about them.
\<close>

section \<open>The configuration of the endpoints\<close>

record window =
  luminoUrl :: string
  win_nodeAddress :: string
  win_rnsDomain :: "string option"
  win_chainEndpoint :: string

definition backendUrl :: string where "backendUrl = ''http://localhost:5000''"

definition nodeAddress :: string where
  "nodeAddress = ''0x01c16BF77c7d3651A5840A044A9D751655089Ac6''"

definition rnsDomain :: "string option" where "rnsDomain = None"

definition chainEndpoint :: string where "chainEndpoint = ''http://127.0.0.1:4444''"

definition endpoint_config :: "'a window_scheme \<Rightarrow> 'a window_scheme" where
  "endpoint_config w =
     w\<lparr>luminoUrl := backendUrl, win_nodeAddress := nodeAddress, win_rnsDomain := rnsDomain,
       win_chainEndpoint := chainEndpoint\<rparr>"

section \<open>The tabs of an example\<close>

type_synonym node = nat

record 'd jquery =
  jq_containers :: "'d \<Rightarrow> node list"
  jq_children :: "'d \<Rightarrow> node \<Rightarrow> node list"
  jq_captions :: "'d \<Rightarrow> node \<Rightarrow> node list"
  jq_parent :: "'d \<Rightarrow> node \<Rightarrow> node"
  jq_append :: "node \<Rightarrow> node \<Rightarrow> 'd \<Rightarrow> 'd"
  jq_select :: "node \<Rightarrow> 'd \<Rightarrow> 'd"
  jq_deselect :: "node \<Rightarrow> 'd \<Rightarrow> 'd"
  jq_hide :: "node \<Rightarrow> 'd \<Rightarrow> 'd"
  jq_show :: "node \<Rightarrow> 'd \<Rightarrow> 'd"
  is_selected :: "'d \<Rightarrow> node \<Rightarrow> bool"
  is_shown :: "'d \<Rightarrow> node \<Rightarrow> bool"

text \<open>
  The documented behaviour: a class is added to or removed from the node it is called on,
  \<open>hide\<close> and \<open>show\<close> set the display of that node, and \<open>append\<close> moves a node to the end of the
  container's children.
\<close>

definition jquery_ok :: "'d jquery \<Rightarrow> bool" where
  "jquery_ok J \<longleftrightarrow>
     (\<forall>d n m. is_selected J (jq_select J n d) m = (m = n \<or> is_selected J d m)) \<and>
     (\<forall>d n m. is_selected J (jq_deselect J n d) m = (m \<noteq> n \<and> is_selected J d m)) \<and>
     (\<forall>d n m. is_selected J (jq_hide J n d) m = is_selected J d m) \<and>
     (\<forall>d n m. is_selected J (jq_show J n d) m = is_selected J d m) \<and>
     (\<forall>d n m. is_shown J (jq_hide J n d) m = (m \<noteq> n \<and> is_shown J d m)) \<and>
     (\<forall>d n m. is_shown J (jq_show J n d) m = (m = n \<or> is_shown J d m)) \<and>
     (\<forall>d n m. is_shown J (jq_select J n d) m = is_shown J d m) \<and>
     (\<forall>d n m. is_shown J (jq_deselect J n d) m = is_shown J d m) \<and>
     (\<forall>d c n. jq_children J (jq_append J c n d) c = filter (\<lambda>m. m \<noteq> n) (jq_children J d c) @ [n]) \<and>
     (\<forall>d c n m. m \<noteq> n \<longrightarrow> jq_parent J (jq_append J c n d) m = jq_parent J d m) \<and>
     (\<forall>d n c. jq_children J (jq_select J n d) c = jq_children J d c) \<and>
     (\<forall>d n c. jq_children J (jq_deselect J n d) c = jq_children J d c) \<and>
     (\<forall>d n c. jq_children J (jq_hide J n d) c = jq_children J d c) \<and>
     (\<forall>d n c. jq_children J (jq_show J n d) c = jq_children J d c)"

text \<open>The click handler of one caption, with the block that was its parent.\<close>

definition on_click ::
    "'d jquery \<Rightarrow> node list \<Rightarrow> node list \<Rightarrow> node \<Rightarrow> node \<Rightarrow> 'd \<Rightarrow> 'd" where
  "on_click J captions blocks caption block d =
     jq_show J block (fold (jq_hide J) blocks
       (jq_select J caption (fold (jq_deselect J) captions d)))"

text \<open>The loop over the captions: each gets its handler and is moved to the container.\<close>

fun bind_captions ::
    "'d jquery \<Rightarrow> node \<Rightarrow> node list \<Rightarrow> 'd \<Rightarrow> 'd \<times> (node \<times> node) list" where
  "bind_captions J container [] d = (d, [])"
| "bind_captions J container (caption # rest) d =
     (let block = jq_parent J d caption;
          (d', handlers) = bind_captions J container rest (jq_append J container caption d)
      in (d', (caption, block) # handlers))"

text \<open>What a click on a node does: the handlers bound to it, in the order they were bound.\<close>

definition click ::
    "'d jquery \<Rightarrow> node list \<Rightarrow> node list \<Rightarrow> (node \<times> node) list \<Rightarrow> node \<Rightarrow> 'd \<Rightarrow> 'd" where
  "click J captions blocks handlers caption d =
     fold (\<lambda>(c, block). on_click J captions blocks c block)
       (filter (\<lambda>(c, block). c = caption) handlers) d"

definition init_container :: "'d jquery \<Rightarrow> node \<Rightarrow> 'd \<Rightarrow> 'd \<times> (node \<times> node) list" where
  "init_container J container d =
     (let blocks = jq_children J d container;
          captions = jq_captions J d container;
          (d, handlers) = bind_captions J container captions d;
          d = fold (jq_append J container) blocks d
      in (case captions of
            [] \<Rightarrow> d
          | caption # _ \<Rightarrow> click J captions blocks handlers caption d, handlers))"

text \<open>The page: without jQuery nothing happens.\<close>

definition init_page :: "'d jquery option \<Rightarrow> 'd \<Rightarrow> 'd" where
  "init_page jQuery d =
     (case jQuery of
        None \<Rightarrow> d
      | Some J \<Rightarrow> fold (\<lambda>container d. fst (init_container J container d)) (jq_containers J d) d)"

section \<open>Lemmas\<close>

lemma jquery_okD:
  assumes "jquery_ok J"
  shows "is_selected J (jq_select J n d) m = (m = n \<or> is_selected J d m)"
    "is_selected J (jq_deselect J n d) m = (m \<noteq> n \<and> is_selected J d m)"
    "is_selected J (jq_hide J n d) m = is_selected J d m"
    "is_selected J (jq_show J n d) m = is_selected J d m"
    "is_shown J (jq_hide J n d) m = (m \<noteq> n \<and> is_shown J d m)"
    "is_shown J (jq_show J n d) m = (m = n \<or> is_shown J d m)"
    "is_shown J (jq_select J n d) m = is_shown J d m"
    "is_shown J (jq_deselect J n d) m = is_shown J d m"
    "jq_children J (jq_append J c n d) c = filter (\<lambda>m. m \<noteq> n) (jq_children J d c) @ [n]"
    "m \<noteq> n \<Longrightarrow> jq_parent J (jq_append J c n d) m = jq_parent J d m"
    "jq_children J (jq_select J n d) c = jq_children J d c"
    "jq_children J (jq_deselect J n d) c = jq_children J d c"
    "jq_children J (jq_hide J n d) c = jq_children J d c"
    "jq_children J (jq_show J n d) c = jq_children J d c"
  using assms by (simp_all add: jquery_ok_def)

lemma fold_jquery:
  assumes "jquery_ok J"
  shows "is_selected J (fold (jq_deselect J) ns d) m = (m \<notin> set ns \<and> is_selected J d m)"
    "is_shown J (fold (jq_deselect J) ns d) m = is_shown J d m"
    "is_selected J (fold (jq_hide J) ns d) m = is_selected J d m"
    "is_shown J (fold (jq_hide J) ns d) m = (m \<notin> set ns \<and> is_shown J d m)"
    "jq_children J (fold (jq_deselect J) ns d) c = jq_children J d c"
    "jq_children J (fold (jq_hide J) ns d) c = jq_children J d c"
  by (induction ns arbitrary: d) (auto simp: jquery_okD [OF assms])

lemma on_click_state:
  assumes "jquery_ok J"
  shows "is_selected J (on_click J captions blocks c b d) m =
      (m = c \<or> m \<notin> set captions \<and> is_selected J d m)"
    "is_shown J (on_click J captions blocks c b d) m =
      (m = b \<or> m \<notin> set blocks \<and> is_shown J d m)"
    "jq_children J (on_click J captions blocks c b d) n = jq_children J d n"
  by (auto simp: on_click_def jquery_okD [OF assms] fold_jquery [OF assms])

lemma append_all:
  assumes "jquery_ok J" "distinct ns"
  shows "jq_children J (fold (jq_append J c) ns d) c =
    filter (\<lambda>m. m \<notin> set ns) (jq_children J d c) @ ns"
  using assms(2)
proof (induction ns arbitrary: d)
  case (Cons n ns)
  have "filter (\<lambda>m. m \<notin> set ns) (filter (\<lambda>m. m \<noteq> n) (jq_children J d c) @ [n]) @ ns =
      filter (\<lambda>m. m \<notin> set (n # ns)) (jq_children J d c) @ n # ns"
    using Cons.prems by (auto intro!: filter_cong)
  with Cons show ?case by (simp add: jquery_okD [OF assms(1)])
qed (simp cong: filter_cong)

lemma bind_captions_result:
  assumes "jquery_ok J" "distinct captions"
  shows "bind_captions J container captions d =
    (fold (jq_append J container) captions d, map (\<lambda>c. (c, jq_parent J d c)) captions)"
  using assms(2)
proof (induction captions arbitrary: d)
  case (Cons c cs)
  have "map (\<lambda>x. (x, jq_parent J (jq_append J container c d) x)) cs =
      map (\<lambda>x. (x, jq_parent J d x)) cs"
    using Cons.prems by (intro map_cong refl) (metis distinct.simps(2) jquery_okD(10) [OF assms(1)])
  with Cons show ?case by (simp add: Let_def)
qed simp

lemma click_one:
  assumes "distinct (map fst handlers)" "(c, b) \<in> set handlers"
  shows "click J captions blocks handlers c d = on_click J captions blocks c b d"
proof -
  have none: "filter (\<lambda>(x, block). x = c) hs = []" if "c \<notin> fst ` set hs" for hs :: "(node \<times> node) list"
    using that by (force simp: filter_empty_conv)
  have "filter (\<lambda>(x, block). x = c) handlers = [(c, b)]"
    using assms by (induction handlers) (auto simp: none rev_image_eqI)
  then show ?thesis by (simp add: click_def)
qed

section \<open>Properties\<close>

text \<open>C40. The tabs of an HTTP example: after the page is set up the container holds its captions
  followed by its blocks, the first caption is selected and its block is the only one shown; a
  later click on any caption selects that caption alone and shows its block alone.\<close>

theorem example_tabs:
  assumes J: "jquery_ok J" and "init_container J container d = (d', handlers)"
    and "jq_children J d container = blocks" "jq_captions J d container = captions"
    and "distinct captions" "distinct blocks" "set captions \<inter> set blocks = {}"
  shows "jq_children J d' container = captions @ blocks \<and>
    (captions \<noteq> [] \<longrightarrow>
      (\<forall>m \<in> set captions. is_selected J d' m = (m = hd captions)) \<and>
      (\<forall>m \<in> set blocks. is_shown J d' m = (m = jq_parent J d (hd captions)))) \<and>
    (\<forall>c \<in> set captions. \<forall>e.
      (\<forall>m \<in> set captions. is_selected J (click J captions blocks handlers c e) m = (m = c)) \<and>
      (\<forall>m \<in> set blocks. is_shown J (click J captions blocks handlers c e) m =
         (m = jq_parent J d c)))"
proof -
  define d1 where "d1 = fold (jq_append J container) blocks (fold (jq_append J container) captions d)"
  have handlers: "handlers = map (\<lambda>c. (c, jq_parent J d c)) captions"
    and d': "d' = (case captions of [] \<Rightarrow> d1
      | caption # _ \<Rightarrow> click J captions blocks handlers caption d1)"
    using assms(2-4) bind_captions_result [OF J assms(5), of container d]
    unfolding d1_def by (auto simp: init_container_def Let_def)
  have "map fst handlers = captions" by (simp add: handlers comp_def)
  then have one: "click J captions blocks handlers c e = on_click J captions blocks c (jq_parent J d c) e"
    if "c \<in> set captions" for c e
    using that assms(5) by (intro click_one) (auto simp: handlers)
  have "filter (\<lambda>m. m \<notin> set blocks) captions = captions" "filter (\<lambda>m. m \<notin> set captions) blocks = blocks"
    using assms(7) by (auto simp: filter_id_conv)
  then have kids: "jq_children J d1 container = captions @ blocks"
    by (simp add: d1_def append_all [OF J] assms(3,5,6))
  then have "jq_children J d' container = captions @ blocks"
    using one by (cases captions) (simp_all add: d' on_click_state [OF J])
  then show ?thesis
    using one by (cases captions) (auto simp: d' on_click_state [OF J])
qed

text \<open>A document for the witness: the parents of its nodes, the selected and the shown nodes.\<close>

record page =
  page_children :: "node \<Rightarrow> node list"
  page_selected :: "node set"
  page_shown :: "node set"

definition sample_jquery :: "page jquery" where
  "sample_jquery =
     \<lparr>jq_containers = \<lambda>d. [0], jq_children = page_children,
      jq_captions = \<lambda>d c. filter (\<lambda>n. n \<ge> 10) (concat (map (page_children d) (page_children d c))),
      jq_parent = \<lambda>d n. n - 10,
      jq_append = \<lambda>c n d. d\<lparr>page_children := \<lambda>m. filter (\<lambda>k. k \<noteq> n) (page_children d m) @
        (if m = c then [n] else [])\<rparr>,
      jq_select = \<lambda>n d. d\<lparr>page_selected := insert n (page_selected d)\<rparr>,
      jq_deselect = \<lambda>n d. d\<lparr>page_selected := page_selected d - {n}\<rparr>,
      jq_hide = \<lambda>n d. d\<lparr>page_shown := page_shown d - {n}\<rparr>,
      jq_show = \<lambda>n d. d\<lparr>page_shown := insert n (page_shown d)\<rparr>,
      is_selected = \<lambda>d n. n \<in> page_selected d, is_shown = \<lambda>d n. n \<in> page_shown d\<rparr>"

definition sample_page :: page where
  "sample_page = \<lparr>page_children = \<lambda>n. if n = 0 then [1, 2] else if n < 3 then [n + 10] else [],
     page_selected = {}, page_shown = {0, 1, 2, 11, 12}\<rparr>"

lemma sample_jquery_ok: "jquery_ok sample_jquery"
  by (simp add: jquery_ok_def sample_jquery_def) blast

theorem example_tabs_witness:
  "jq_children sample_jquery (fst (init_container sample_jquery 0 sample_page)) 0 = [11, 12, 1, 2]"
proof -
  have c: "jq_children sample_jquery sample_page 0 = [1, 2]"
    "jq_captions sample_jquery sample_page 0 = [11, 12]"
    by (simp_all add: sample_jquery_def sample_page_def)
  obtain d h where i: "init_container sample_jquery 0 sample_page = (d, h)" by fastforce
  show ?thesis
    using example_tabs [OF sample_jquery_ok i c] by (simp add: i)
qed

end
