(* ===== verification/Spec2Isabelle.thy ===== *)
theory Spec2Isabelle
  imports ChannelProperties ChannelChain ChannelMessages ChannelFindings ChannelSync
    MediatorProperties MediatorFindings TargetProperties InitiatorProperties InitiatorFindings
    ChannelBounds WireProperties MessageProperties MessageFindings DirectPayment NodeProperties NodeFindings
    Bech32Properties StaticPages
begin

text \<open>
  Verification of the payment channels of RIF Lumino, a Raiden node in Python: the channel between
  two nodes, the three kinds of payment task that work on a node's channels (initiator, mediator,
  target), the node that dispatches every state change to them, the messages that nodes exchange, and
  what all this rests on.  All paths below are under \<open>src/raiden/\<close>.

  \<^bold>\<open>The parts and how they interact.\<close>  A node's state machine is a set of pure functions: each takes a
  state and a state change (a received message, a contract log, a block, a user action) and gives
  the new state and the events to carry out (messages to send, transactions, notices to the user).  A
  channel (\<open>transfer/channel.py\<close>) keeps for both ends the deposit, the latest balance proof, the merkle
  tree over the pending locks and the locks themselves in three dicts by secrethash: locked, unlocked
  by a known secret, and unlocked on chain.  A payment task owns no money; it calls the operations of
  the channels it goes through.  The initiator locks the amount on a first channel and reveals the
  secret when the target asks for it; a mediator forwards a received lock with a lower fee and an
  earlier reveal; the target asks for the secret and claims its lock.  Every lock is paid by an unlock
  message once its secret is known, removed by an expiry message, or claimed on chain.

  The node (\<open>transfer/node.py\<close>) keeps the networks with their tokens and channels, one payment task
  for each secrethash, the queues of messages that a partner has not confirmed, the transactions that
  are not yet mined, and the data of the transport.  \<open>state_transition\<close> gives a state change to the
  channels it names (through \<open>transfer/token_network.py\<close>), to a task, to all channels and all tasks
  (a block, a secret) or to the node itself, and puts the new messages and transactions into the
  queues.  A received message (\<open>messages.py\<close>) becomes a state change in \<open>message_handler.py\<close>; an
  event becomes a message to send in \<open>message_event_convertor.py\<close>.

  \<^bold>\<open>Conventions of the model.\<close>  A function that may raise returns a \<open>result\<close>, \<open>Inl\<close> the Python exception;
  asserts are \<open>py_assert\<close>.  Objects that a handler changes in place are returned by it.  Python ints are
  \<open>int\<close> with the checks of their width where the code has them, bytes are lists of 8 bit words, dicts
  are association lists in the order of insertion.  What is outside the repository is the record
  \<open>libs\<close>: Keccak, ABI encoding, the Solidity hash, ECDSA recovery and the numbers of the random
  generator; the random generator itself is a counter of its calls.  \<open>keccak_ok\<close>, the only law that is
  assumed of them everywhere, says that a Keccak hash has 32 bytes.

  \<^bold>\<open>Theories of the model.\<close>
  \<^item> \<open>Prelude\<close>: results, loops over lists with errors, dicts, constants (\<open>constants.py\<close>, \<open>settings.py\<close>).
  \<^item> \<open>Encoding\<close>: \<open>encoding/format.py\<close>, \<open>encoding/encoders.py\<close>, \<open>encoding/messages.py\<close>, the layouts of
    messages and buffers with named fields.
  \<^item> \<open>MerkleTree\<close>: \<open>transfer/merkle_tree.py\<close> and the operations of \<open>transfer/channel.py\<close> on trees.
  \<^item> \<open>DepositQueue\<close>: the heap of deposits that wait for confirmation.
  \<^item> \<open>ChannelState\<close>: the classes of \<open>transfer/state.py\<close>, \<open>transfer/mediated_transfer/state.py\<close>,
    \<open>state_change.py\<close> and \<open>events.py\<close> with the checks of their constructors.
  \<^item> \<open>Signing\<close>: packing and signatures of balance proofs.  \<open>Invoices\<close>: the table of invoices.
  \<^item> \<open>Channel\<close>, \<open>ChannelOps\<close>, \<open>ChannelMachine\<close>: the queries and validity checks, the operations, and the
    handlers of contract logs and blocks of \<open>transfer/channel.py\<close>.
  \<^item> \<open>PaymentTasks\<close>: what the payment tasks share (\<open>transfer/utils.py\<close>, maps of channels).
  \<^item> \<open>Mediator\<close>, \<open>Target\<close>, \<open>Initiator\<close>, \<open>InitiatorManager\<close>: the modules of these names in
    \<open>transfer/mediated_transfer/\<close>.  A function whose name another module has too ends in the name of
    its module (\<open>handle_block_mediator\<close>, \<open>handle_block_payment\<close>).
  \<^item> \<open>TokenNetwork\<close>: the channels of one token and its network graph (\<open>transfer/token_network.py\<close>).
    \<open>Node\<close>, \<open>NodeMachine\<close>: the chain state, its lookups (\<open>transfer/views.py\<close>), the dispatch and the
    queues (\<open>transfer/node.py\<close>).  The state changes are nested datatypes: those of a channel, of a
    token network, of the node.
  \<^item> \<open>Messages\<close>, \<open>MessageFlow\<close>: the message classes, their bytes and dictionaries (\<open>messages.py\<close>,
    \<open>network/transport/matrix/utils.py\<close>), and the way between messages and the state machine
    (\<open>message_handler.py\<close>, \<open>message_event_convertor.py\<close>).
  \<^item> \<open>Bech32\<close>: the text form of invoices, its checksum and the regrouping of bits
    (\<open>billing/invoices/util/bech32.py\<close>).
  \<^item> \<open>StaticPages\<close>: the two hand-written scripts among the static files.

  \<^bold>\<open>Theories of facts.\<close>
  \<^item> \<open>Locks\<close>, \<open>ChannelFacts\<close>: locks by hash, what an end of a channel keeps (\<open>end_ok\<close>: the dicts are
    disjoint and keyed by their locks, the tree holds exactly the pending locks, the balance proof
    commits to tree and amounts), and when each message is accepted.
  \<^item> \<open>Ledger\<close>: the abstract specification of a channel, two parties with a deposit, what they have paid,
    the locks they owe and a nonce.  \<open>ChannelInvariant\<close> shows that each operation is a step of the
    ledger and keeps \<open>channel_ok\<close>; \<open>ChannelSafety\<close> has the transition system \<open>channel_step\<close> with one
    rule per operation, and the reachable channels.
  \<^item> \<open>ChannelTasks\<close>: the locale \<open>channel_law\<close>, the contract between channels and tasks: a law that every
    channel step keeps is kept by each operation of a task.  It is interpreted on the reachable channels
    and on the channels that steps lead to.  \<open>PaymentFacts\<close> lifts it to several owners of channels
    (\<open>owner_law\<close>).
  \<^item> \<open>MediatorFacts\<close>, \<open>MediatorInvariant\<close>, \<open>MediatorPayments\<close>, \<open>MediatorDeadline\<close>, \<open>TargetFacts\<close>,
    \<open>InitiatorFacts\<close>, \<open>PaymentFacts\<close>: what the tasks' handlers do, their invariants, and their histories.
  \<^item> \<open>ChannelBounds\<close>: amounts and nonces of a reachable channel fit their fields.
  \<^item> \<open>MessageFacts\<close>: what the message classes check and keep.  \<open>Exchange\<close>, \<open>ExchangeFacts\<close>: an
    initiator and a target, each with its end of the channel, that exchange the messages of a payment.
  \<^item> \<open>NodeFacts\<close>: which task and which network a state change reaches.  \<open>NodeQueues\<close>: what each handler
    of the node leaves alone, the queues, the pending transactions and the tasks.
    \<open>NodeChannels\<close>: the places of a node's channels; the locale \<open>place_law\<close> lifts \<open>channel_law\<close> to all of
    them, and is interpreted on the reachable channels and on those that steps have led to.
  \<^item> \<open>Samples\<close>, \<open>MediatorSamples\<close>, \<open>NodeSamples\<close>: the concrete channels, messages and nodes of the
    witnesses.

  \<^bold>\<open>What is shown.\<close>  For channels (\<open>ChannelProperties\<close>, \<open>ChannelChain\<close>, \<open>ChannelMessages\<close>, \<open>ChannelSync\<close>):
  no party spends more than it has, the tree commits to the pending locks, the channel implements the
  ledger, nonces count the messages, when each message is accepted and what it changes, the order of
  the states of a channel, and that a message which one end sends is accepted by the other end and
  keeps both in agreement.  For tasks (\<open>MediatorProperties\<close>, \<open>TargetProperties\<close>, \<open>InitiatorProperties\<close>):
  they change channels only by channel steps; a mediator pays only when the secret covers the lock it
  received; secrets are registered on chain before the deadline; a target reports a payment only when
  it has it, an initiator reports success only when the money is with its partner, and reports once;
  secrets are revealed to the target only. For the node (\<open>NodeProperties\<close>): every state change moves
  each channel by channel steps only and keeps the mediators well formed, so that the invariants of
  channels hold for all channels of a node; a message stays in its queue until the partner confirms
  it, a transaction stays pending until the chain shows its effect or makes it void, a secrethash
  has one task whose role never changes, and what an update of the transport data reaches. For
  messages (\<open>MessageProperties\<close>, \<open>DirectPayment\<close>): what is sent is what the peer decodes, only
  messages signed by their peer are taken from JSON, and a direct payment between two nodes
  completes. \<open>WireProperties\<close>, \<open>ChannelBounds\<close>: round trips and shape of trees and encodings,
  balance proofs within their widths, at most the limit of pending locks. \<open>Bech32Properties\<close>: an
  encoded text is decoded again, one wrong character is refused, and regrouped bits come back. The
  theories ending in \<open>Findings\<close> hold what the code gets wrong.

  \<^bold>\<open>Bounds and termination.\<close>  No fuel is used: loops are structural recursion or have a measure (the
  heap, the layers of a tree, the confirmed deposits, the partners of the transport data).  The inner
  loop of \<open>convertbits\<close> does not end for groups of no bits; it is an option, and the theorems on it show
  that it returns.

  \<^bold>\<open>Not modelled.\<close>  The tagged fields of invoices, which are bit streams of the package bitstring
  (\<open>billing/invoices/encoder\<close>, \<open>billing/invoices/decoder\<close>; their text form is modelled), the messages
  to monitoring services (\<open>RequestMonitoring\<close>, \<open>SignedBlindedBalanceProof\<close>), which no handler reads,
  the queries of \<open>transfer/views.py\<close> that only the user interface calls, JSON serialization and SQL
  storage (the tables of invoices and of light client payments apart), private keys, and the services
  around the state machine (threads, HTTP, Matrix, Ethereum, command line), which are input and output.
\<close>

end
